(* ===== verification/Prelude.thy ===== *)
theory Prelude
  imports Main "HOL-Library.Word"
begin

text \<open>
  What every component of the model shares.

  \<^item> Go values: errors, machine integers, byte strings, the rendering of integers as strings.
  \<^item> Go control flow: a function that has effects is a \<open>prog\<close>, a map from a state to an outcome
    and a new state. It returns a value, panics (nil pointer dereference, index out of range,
    close of a closed channel) or blocks for ever.
  \<^item> Two ways to reason about a \<open>prog\<close>: \<open>runs\<close> (what holds of the outcome and the state after a
    run, used to evaluate a handler branch by branch) and \<open>moves\<close> (a preorder between the state
    before and after a run, closed under every way the model composes programs).
\<close>

section \<open>Go values\<close>

type_synonym bytes = string
type_synonym u8 = "8 word"
type_synonym u32 = "32 word"
type_synonym u64 = "64 word"

text \<open>
  The error codes of libvirt the code tests for (constants \<open>libvirt.ErrNo...\<close>), and the error
  values the code builds or receives. The string of each constructor is what the \<open>Error()\<close> method
  of the value returns. A \<open>StatusError\<close> is an error of the Kubernetes client, with its reason.
\<close>

datatype errcode =
    ErrNoDomain | ErrNoNetwork | ErrNoStoragePool | ErrNoStorageVol | ErrNoNodeDevice
  | OtherCode u32

datatype error =
    LibvirtError errcode string
  | StatusError string string
  | PlainError string

fun ErrorText :: "error \<Rightarrow> string" where
  "ErrorText (LibvirtError c m) = m"
| "ErrorText (StatusError r m) = m"
| "ErrorText (PlainError m) = m"

text \<open>Signed 64-bit arithmetic: the value of an \<open>int64\<close> after a wrap-around.\<close>

definition int64 :: "int \<Rightarrow> int" where
  "int64 x = sint (word_of_int x :: 64 word)"

lemma int64_id: "- (2 ^ 63) \<le> x \<Longrightarrow> x < 2 ^ 63 \<Longrightarrow> int64 x = x"
  by (simp add: int64_def signed_take_bit_int_eq_self sint_sbintrunc')

lemma int64_small [simp]: "\<bar>x\<bar> < 2 ^ 62 \<Longrightarrow> int64 x = x"
  by (rule int64_id) auto

text \<open>The decimal digits of a number, most significant first.\<close>

fun decimal :: "nat \<Rightarrow> string" where
  "decimal n = (if n < 10 then [char_of (48 + n)] else decimal (n div 10) @ [char_of (48 + n mod 10)])"

declare decimal.simps [simp del]

text \<open>
  Go's conversion \<open>string(r)\<close> of an integer: not its digits, but the UTF-8 encoding of the code
  point with that number, the replacement character where there is none.
\<close>

definition rune_string :: "int \<Rightarrow> string" where
  "rune_string r =
     (if r < 0 \<or> r > 1114111 \<or> (55296 \<le> r \<and> r \<le> 57343) then map char_of [239, 191, 189 :: nat]
      else let n = nat r in
        if n < 128 then [char_of n]
        else if n < 2048 then map char_of [192 + n div 64, 128 + n mod 64]
        else if n < 65536 then map char_of [224 + n div 4096, 128 + n div 64 mod 64, 128 + n mod 64]
        else map char_of [240 + n div 262144, 128 + n div 4096 mod 64, 128 + n div 64 mod 64,
                          128 + n mod 64])"

text \<open>
  The conversions of the third-party package \<^verbatim>\<open>safecast\<close> are parameters. Their documented behaviour
  (\<open>safecast_ok\<close>): a value in the range of the target type is kept, one outside is replaced by
  the nearest bound.
\<close>

record safecast =
  ToUint :: "int \<Rightarrow> u64"
  ToUint64 :: "int \<Rightarrow> u64"
  ToUint8 :: "int \<Rightarrow> u8"
  ToInt64 :: "u64 \<Rightarrow> int"
  ToInt32 :: "u64 \<Rightarrow> int"

definition clamp :: "int \<Rightarrow> int \<Rightarrow> int \<Rightarrow> int" where
  "clamp lo hi x = max lo (min hi x)"

definition safecast_ok :: "safecast \<Rightarrow> bool" where
  "safecast_ok c \<longleftrightarrow>
     (\<forall>x. uint (ToUint c x) = clamp 0 (2 ^ 64 - 1) x) \<and>
     (\<forall>x. uint (ToUint64 c x) = clamp 0 (2 ^ 64 - 1) x) \<and>
     (\<forall>x. uint (ToUint8 c x) = clamp 0 (2 ^ 8 - 1) x) \<and>
     (\<forall>w. ToInt64 c w = clamp (- (2 ^ 63)) (2 ^ 63 - 1) (uint w)) \<and>
     (\<forall>w. ToInt32 c w = clamp (- (2 ^ 31)) (2 ^ 31 - 1) (uint w))"

text \<open>An implementation that behaves as documented.\<close>

definition safecast_clamping :: safecast where
  "safecast_clamping = \<lparr>
     ToUint = \<lambda>x. word_of_int (clamp 0 (2 ^ 64 - 1) x),
     ToUint64 = \<lambda>x. word_of_int (clamp 0 (2 ^ 64 - 1) x),
     ToUint8 = \<lambda>x. word_of_int (clamp 0 (2 ^ 8 - 1) x),
     ToInt64 = \<lambda>w. clamp (- (2 ^ 63)) (2 ^ 63 - 1) (uint w),
     ToInt32 = \<lambda>w. clamp (- (2 ^ 31)) (2 ^ 31 - 1) (uint w)\<rparr>"

lemma uint_word_of_clamp:
  fixes x :: int
  assumes "m = 2 ^ LENGTH('n::len) - 1"
  shows "uint (word_of_int (clamp 0 m x) :: 'n word) = clamp 0 m x"
proof -
  have "0 \<le> clamp 0 m x" and "clamp 0 m x < 2 ^ LENGTH('n)"
    using assms by (auto simp: clamp_def)
  then show ?thesis by (simp add: uint_word_of_int)
qed

lemma safecast_clamping_ok: "safecast_ok safecast_clamping"
  by (simp add: safecast_ok_def safecast_clamping_def uint_word_of_clamp)

section \<open>Go control flow\<close>

datatype 'a outcome = Returns 'a | Panics | Hangs

type_synonym ('s, 'a) prog = "'s \<Rightarrow> 'a outcome \<times> 's"

definition ret :: "'a \<Rightarrow> ('s, 'a) prog" where
  "ret x s = (Returns x, s)"

definition panic :: "('s, 'a) prog" where
  "panic s = (Panics, s)"

definition hang :: "('s, 'a) prog" where
  "hang s = (Hangs, s)"

text \<open>Sequencing: the continuation runs only when the first program returned.\<close>

definition andThen :: "('s, 'a) prog \<Rightarrow> ('a \<Rightarrow> ('s, 'b) prog) \<Rightarrow> ('s, 'b) prog" where
  "andThen m k s = (case m s of
      (Returns x, s') \<Rightarrow> k x s'
    | (Panics, s') \<Rightarrow> (Panics, s')
    | (Hangs, s') \<Rightarrow> (Hangs, s'))"

text \<open>
  The Go idiom \<open>x, err := f(); if err != nil {h}; k\<close>: a call that returns a value or an error,
  what to do with the error, the rest of the function. \<open>guarded\<close> is the same for a call that
  returns only an error.
\<close>

definition attempt :: "('s, error + 'a) prog \<Rightarrow> (error \<Rightarrow> ('s, 'b) prog) \<Rightarrow> ('a \<Rightarrow> ('s, 'b) prog)
    \<Rightarrow> ('s, 'b) prog" where
  "attempt m h k = andThen m (\<lambda>r. case r of Inl e \<Rightarrow> h e | Inr x \<Rightarrow> k x)"

definition guarded :: "('s, error option) prog \<Rightarrow> (error \<Rightarrow> ('s, 'b) prog) \<Rightarrow> ('s, 'b) prog
    \<Rightarrow> ('s, 'b) prog" where
  "guarded m h k = andThen m (\<lambda>r. case r of Some e \<Rightarrow> h e | None \<Rightarrow> k)"

text \<open>Dereferencing a pointer; a nil pointer panics.\<close>

definition deref :: "'a option \<Rightarrow> ('a \<Rightarrow> ('s, 'b) prog) \<Rightarrow> ('s, 'b) prog" where
  "deref p k = (case p of None \<Rightarrow> panic | Some x \<Rightarrow> k x)"

text \<open>Reading the state, and changing it.\<close>

definition reading :: "('s \<Rightarrow> ('s, 'a) prog) \<Rightarrow> ('s, 'a) prog" where
  "reading f s = f s s"

definition modify :: "('s \<Rightarrow> 's) \<Rightarrow> ('s, unit) prog" where
  "modify f s = (Returns (), f s)"

text \<open>\<open>defer d()\<close>: \<open>d\<close> runs when the function returns and when it panics.\<close>

definition deferred :: "('s, unit) prog \<Rightarrow> ('s, 'a) prog \<Rightarrow> ('s, 'a) prog" where
  "deferred d m s = (case m s of
      (Hangs, s') \<Rightarrow> (Hangs, s')
    | (r, s') \<Rightarrow> (case d s' of
          (Returns _, s'') \<Rightarrow> (r, s'')
        | (Panics, s'') \<Rightarrow> (Panics, s'')
        | (Hangs, s'') \<Rightarrow> (Hangs, s'')))"

section \<open>What holds after a run\<close>

definition runs :: "('s, 'a) prog \<Rightarrow> 's \<Rightarrow> ('a outcome \<Rightarrow> 's \<Rightarrow> bool) \<Rightarrow> bool" where
  "runs m s Q = (case m s of (r, s') \<Rightarrow> Q r s')"

named_theorems runs_simps "evaluation of composed programs under runs"

lemma runs_ret [runs_simps]: "runs (ret x) s Q = Q (Returns x) s"
  by (simp add: runs_def ret_def)

lemma runs_panic [runs_simps]: "runs panic s Q = Q Panics s"
  by (simp add: runs_def panic_def)

lemma runs_hang [runs_simps]: "runs hang s Q = Q Hangs s"
  by (simp add: runs_def hang_def)

lemma runs_reading [runs_simps]: "runs (reading f) s Q = runs (f s) s Q"
  by (simp add: runs_def reading_def)

lemma runs_modify [runs_simps]: "runs (modify f) s Q = Q (Returns ()) (f s)"
  by (simp add: runs_def modify_def)

lemma runs_andThen [runs_simps]:
  "runs (andThen m k) s Q =
     runs m s (\<lambda>r s'. case r of Returns x \<Rightarrow> runs (k x) s' Q | Panics \<Rightarrow> Q Panics s' | Hangs \<Rightarrow> Q Hangs s')"
  by (simp add: runs_def andThen_def split: prod.splits outcome.splits)

lemma runs_deref [runs_simps]:
  "runs (deref p k) s Q = (case p of None \<Rightarrow> Q Panics s | Some x \<Rightarrow> runs (k x) s Q)"
  by (simp add: deref_def runs_panic split: option.splits)

lemma runs_if [runs_simps]: "runs (if b then m else n) s Q = (if b then runs m s Q else runs n s Q)"
  by simp

lemma runs_attempt [runs_simps]:
  "runs (attempt m h k) s Q =
     runs m s (\<lambda>r s'. case r of Returns (Inl e) \<Rightarrow> runs (h e) s' Q | Returns (Inr x) \<Rightarrow> runs (k x) s' Q
        | Panics \<Rightarrow> Q Panics s' | Hangs \<Rightarrow> Q Hangs s')"
  unfolding attempt_def runs_andThen
  by (rule arg_cong [where f = "runs m s"]) (auto simp: fun_eq_iff split: outcome.split sum.split)

lemma runs_guarded [runs_simps]:
  "runs (guarded m h k) s Q =
     runs m s (\<lambda>r s'. case r of Returns (Some e) \<Rightarrow> runs (h e) s' Q | Returns None \<Rightarrow> runs k s' Q
        | Panics \<Rightarrow> Q Panics s' | Hangs \<Rightarrow> Q Hangs s')"
  unfolding guarded_def runs_andThen
  by (rule arg_cong [where f = "runs m s"]) (auto simp: fun_eq_iff split: outcome.split option.split)

lemma runs_deferred [runs_simps]:
  "runs (deferred d m) s Q =
     runs m s (\<lambda>r s'. if r = Hangs then Q Hangs s' else
       runs d s' (\<lambda>r' s''. case r' of Returns _ \<Rightarrow> Q r s'' | Panics \<Rightarrow> Q Panics s'' | Hangs \<Rightarrow> Q Hangs s''))"
  by (simp add: deferred_def runs_def split: prod.splits outcome.splits)

lemma runs_mono: "runs m s P \<Longrightarrow> (\<And>r s'. P r s' \<Longrightarrow> Q r s') \<Longrightarrow> runs m s Q"
  by (auto simp: runs_def)

lemma runsI: "m s = (r, s') \<Longrightarrow> Q r s' \<Longrightarrow> runs m s Q"
  by (simp add: runs_def)

lemma runsD: "runs m s Q \<Longrightarrow> m s = (r, s') \<Longrightarrow> Q r s'"
  by (simp add: runs_def)

section \<open>What a run returns\<close>

text \<open>
  What is known of a value that a program returns: \<open>yields P m\<close> of any, \<open>answers P m\<close> of one that is not an
  error.
\<close>

definition yields :: "('a \<Rightarrow> bool) \<Rightarrow> ('s, 'a) prog \<Rightarrow> bool" where
  "yields P m \<longleftrightarrow> (\<forall>s x s'. m s = (Returns x, s') \<longrightarrow> P x)"

abbreviation answers :: "('a \<Rightarrow> bool) \<Rightarrow> ('s, error + 'a) prog \<Rightarrow> bool" where
  "answers P \<equiv> yields (pred_sum (\<lambda>_. True) P)"

lemma yieldsD: "yields P m \<Longrightarrow> m s = (Returns x, s') \<Longrightarrow> P x"
  by (auto simp: yields_def)

named_theorems yields_rules "what a program can return"

lemma yields_ret [yields_rules]: "P x \<Longrightarrow> yields P (ret x)"
  by (simp add: yields_def ret_def)

lemma yields_panic [yields_rules]: "yields P panic"
  by (simp add: yields_def panic_def)

lemma yields_if [yields_rules]: "(b \<Longrightarrow> yields P m) \<Longrightarrow> (\<not> b \<Longrightarrow> yields P n) \<Longrightarrow> yields P (if b then m else n)"
  by simp

lemma yields_prod [yields_rules]:
  "(\<And>x y. p = (x, y) \<Longrightarrow> yields P (k x y)) \<Longrightarrow> yields P (case p of (x, y) \<Rightarrow> k x y)"
  by (cases p) simp

lemma yields_sum [yields_rules]:
  "(\<And>e. p = Inl e \<Longrightarrow> yields P (h e)) \<Longrightarrow> (\<And>x. p = Inr x \<Longrightarrow> yields P (k x)) \<Longrightarrow>
     yields P (case p of Inl e \<Rightarrow> h e | Inr x \<Rightarrow> k x)"
  by (cases p) simp_all

lemma yields_option [yields_rules]:
  "(p = None \<Longrightarrow> yields P m) \<Longrightarrow> (\<And>x. p = Some x \<Longrightarrow> yields P (k x)) \<Longrightarrow>
     yields P (case p of None \<Rightarrow> m | Some x \<Rightarrow> k x)"
  by (cases p) simp_all

lemma yields_andThen [yields_rules]: "(\<And>x. yields P (k x)) \<Longrightarrow> yields P (andThen m k)"
  by (auto simp: yields_def andThen_def split: prod.splits outcome.splits)

lemma yields_andThen_of:
  assumes "yields Q m" and "\<And>x. Q x \<Longrightarrow> yields P (k x)"
  shows "yields P (andThen m k)"
  unfolding yields_def andThen_def
proof (intro allI impI)
  fix s y s' assume "(case m s of (Returns x, s') \<Rightarrow> k x s' | (Panics, s') \<Rightarrow> (Panics, s') | (Hangs, s') \<Rightarrow> (Hangs, s')) =
    (Returns y, s')"
  then obtain x s1 where "m s = (Returns x, s1)" "k x s1 = (Returns y, s')"
    by (auto split: prod.splits outcome.splits)
  then show "P y" using assms by (metis yieldsD)
qed

lemma yields_guarded [yields_rules]:
  "(\<And>e. yields P (h e)) \<Longrightarrow> yields P k \<Longrightarrow> yields P (guarded m h k)"
  unfolding guarded_def by (intro yields_rules)

lemma yields_let [yields_rules]: "(\<And>x. x = t \<Longrightarrow> yields P (k x)) \<Longrightarrow> yields P (let x = t in k x)"
  by simp

lemma yields_reading [yields_rules]: "(\<And>s. yields P (f s)) \<Longrightarrow> yields P (reading f)"
  by (auto simp: yields_def reading_def)

lemma yields_guarded_of: "yields Q m \<Longrightarrow> (\<And>e. yields P (h e)) \<Longrightarrow> (Q None \<Longrightarrow> yields P k) \<Longrightarrow> yields P (guarded m h k)"
  unfolding guarded_def by (rule yields_andThen_of, assumption) (auto split: option.split)

lemma yields_attempt [yields_rules]:
  "(\<And>e. yields P (h e)) \<Longrightarrow> (\<And>x. yields P (k x)) \<Longrightarrow> yields P (attempt m h k)"
  unfolding attempt_def by (intro yields_rules)

lemma yields_deref [yields_rules]: "(\<And>x. p = Some x \<Longrightarrow> yields P (k x)) \<Longrightarrow> yields P (deref p k)"
  unfolding deref_def by (intro yields_rules)

section \<open>How a run moves the state\<close>

text \<open>
  \<open>moves R m\<close>: whatever the state, running \<open>m\<close> moves it along \<open>R\<close>. For a preorder \<open>R\<close> this is
  closed under the ways programs are composed; the interface is a locale, interpreted for the
  preorders the components use.
\<close>

definition moves :: "('s \<Rightarrow> 's \<Rightarrow> bool) \<Rightarrow> ('s, 'a) prog \<Rightarrow> bool" where
  "moves R m = (\<forall>s. R s (snd (m s)))"

lemma movesI: "(\<And>s. R s (snd (m s))) \<Longrightarrow> moves R m"
  by (simp add: moves_def)

lemma movesD: "moves R m \<Longrightarrow> m s = (r, s') \<Longrightarrow> R s s'"
  by (auto simp: moves_def dest: spec [of _ s])

lemma moves_weaken: "moves R m \<Longrightarrow> (\<And>s s'. R s s' \<Longrightarrow> R' s s') \<Longrightarrow> moves R' m"
  by (auto simp: moves_def)

locale state_preorder =
  fixes R :: "'s \<Rightarrow> 's \<Rightarrow> bool"
  assumes refl: "R s s"
    and trans: "R s s' \<Longrightarrow> R s' s'' \<Longrightarrow> R s s''"
begin

lemma moves_ret: "moves R (ret x)"
  by (simp add: moves_def ret_def refl)

lemma moves_panic: "moves R panic"
  by (simp add: moves_def panic_def refl)

lemma moves_hang: "moves R hang"
  by (simp add: moves_def hang_def refl)

lemma moves_reading: "(\<And>s. moves R (f s)) \<Longrightarrow> moves R (reading f)"
  by (auto simp: moves_def reading_def)

lemma moves_modify: "(\<And>s. R s (f s)) \<Longrightarrow> moves R (modify f)"
  by (simp add: moves_def modify_def)

lemma moves_andThen:
  assumes "moves R m" and "\<And>x. moves R (k x)"
  shows "moves R (andThen m k)"
proof (rule movesI)
  fix s
  obtain r s' where m: "m s = (r, s')" by (cases "m s")
  with assms(1) have "R s s'" by (rule movesD)
  then show "R s (snd (andThen m k s))"
    using m assms(2) trans by (cases r) (auto simp: andThen_def moves_def)
qed

lemma moves_attempt:
  "moves R m \<Longrightarrow> (\<And>e. moves R (h e)) \<Longrightarrow> (\<And>x. moves R (k x)) \<Longrightarrow> moves R (attempt m h k)"
  unfolding attempt_def by (rule moves_andThen) (auto split: sum.splits)

lemma moves_guarded:
  "moves R m \<Longrightarrow> (\<And>e. moves R (h e)) \<Longrightarrow> moves R k \<Longrightarrow> moves R (guarded m h k)"
  unfolding guarded_def by (rule moves_andThen) (auto split: option.splits)

lemma moves_deref: "(\<And>x. p = Some x \<Longrightarrow> moves R (k x)) \<Longrightarrow> moves R (deref p k)"
  by (cases p) (auto simp: deref_def moves_panic)

lemma moves_deferred:
  assumes "moves R d" and "moves R m"
  shows "moves R (deferred d m)"
proof (rule movesI)
  fix s
  obtain r s' where m: "m s = (r, s')" by (cases "m s")
  obtain r' s'' where d: "d s' = (r', s'')" by (cases "d s'")
  have "R s s'" and "R s' s''"
    using assms m d by (auto dest: movesD)
  then show "R s (snd (deferred d m s))"
    using m d trans by (cases r; cases r') (auto simp: deferred_def)
qed

lemma moves_if: "(b \<Longrightarrow> moves R m) \<Longrightarrow> (\<not> b \<Longrightarrow> moves R n) \<Longrightarrow> moves R (if b then m else n)"
  by simp

lemma moves_option:
  "(p = None \<Longrightarrow> moves R m) \<Longrightarrow> (\<And>x. p = Some x \<Longrightarrow> moves R (k x)) \<Longrightarrow>
     moves R (case p of None \<Rightarrow> m | Some x \<Rightarrow> k x)"
  by (cases p) simp_all

lemma moves_sum:
  "(\<And>e. p = Inl e \<Longrightarrow> moves R (h e)) \<Longrightarrow> (\<And>x. p = Inr x \<Longrightarrow> moves R (k x)) \<Longrightarrow>
     moves R (case p of Inl e \<Rightarrow> h e | Inr x \<Rightarrow> k x)"
  by (cases p) simp_all

lemma moves_prod:
  "(\<And>x y. p = (x, y) \<Longrightarrow> moves R (k x y)) \<Longrightarrow> moves R (case p of (x, y) \<Rightarrow> k x y)"
  by (cases p) simp

lemma moves_let: "(\<And>x. x = t \<Longrightarrow> moves R (k x)) \<Longrightarrow> moves R (let x = t in k x)"
  by simp

lemmas moves_rules = moves_ret moves_panic moves_hang moves_reading moves_attempt moves_guarded moves_deref
  moves_deferred moves_if moves_option moves_sum moves_prod moves_let moves_andThen

end

text \<open>
  Two preorders at once: \<open>settles H R m\<close> says that a run moves the state along \<open>H\<close> however it ends, and
  along \<open>R\<close> unless it blocks for ever (what a deferred call puts right is right only after it).
\<close>

definition settles :: "('s \<Rightarrow> 's \<Rightarrow> bool) \<Rightarrow> ('s \<Rightarrow> 's \<Rightarrow> bool) \<Rightarrow> ('s, 'a) prog \<Rightarrow> bool" where
  "settles H R m = (\<forall>s. runs m s (\<lambda>r s'. H s s' \<and> (r \<noteq> Hangs \<longrightarrow> R s s')))"

locale preorder_pair = every: state_preorder H + settled: state_preorder R
  for H R :: "'s \<Rightarrow> 's \<Rightarrow> bool"
begin

lemma settles_moves: "moves H m \<Longrightarrow> moves R m \<Longrightarrow> settles H R m"
  by (auto simp: settles_def runs_def split: prod.split dest: movesD)

lemma settles_ret: "settles H R (ret x)"
  by (intro settles_moves every.moves_ret settled.moves_ret)

lemma settles_panic: "settles H R panic"
  by (intro settles_moves every.moves_panic settled.moves_panic)

lemma settles_hang: "settles H R hang"
  by (intro settles_moves every.moves_hang settled.moves_hang)

lemma settles_modify: "(\<And>s. H s (f s)) \<Longrightarrow> (\<And>s. R s (f s)) \<Longrightarrow> settles H R (modify f)"
  by (intro settles_moves every.moves_modify settled.moves_modify)

lemma settles_reading: "(\<And>s. settles H R (f s)) \<Longrightarrow> settles H R (reading f)"
  by (simp add: settles_def runs_reading)

lemma settles_andThen:
  assumes m: "settles H R m" and k: "\<And>x. settles H R (k x)"
  shows "settles H R (andThen m k)"
  unfolding settles_def runs_andThen
proof
  fix s
  show "runs m s (\<lambda>r s'. case r of
      Returns x \<Rightarrow> runs (k x) s' (\<lambda>r s'. H s s' \<and> (r \<noteq> Hangs \<longrightarrow> R s s'))
    | Panics \<Rightarrow> H s s' \<and> (Panics \<noteq> Hangs \<longrightarrow> R s s')
    | Hangs \<Rightarrow> H s s' \<and> (Hangs \<noteq> Hangs \<longrightarrow> R s s'))"
    by (rule runs_mono [OF m [unfolded settles_def, rule_format]])
      (auto split: outcome.split intro: runs_mono [OF k [unfolded settles_def, rule_format]] every.trans settled.trans)
qed

lemma settles_attempt:
  "settles H R m \<Longrightarrow> (\<And>e. settles H R (h e)) \<Longrightarrow> (\<And>x. settles H R (k x)) \<Longrightarrow> settles H R (attempt m h k)"
  unfolding attempt_def by (rule settles_andThen) (auto split: sum.splits)

lemma settles_guarded:
  "settles H R m \<Longrightarrow> (\<And>e. settles H R (h e)) \<Longrightarrow> settles H R k \<Longrightarrow> settles H R (guarded m h k)"
  unfolding guarded_def by (rule settles_andThen) (auto split: option.splits)

lemma settles_deref: "(\<And>x. p = Some x \<Longrightarrow> settles H R (k x)) \<Longrightarrow> settles H R (deref p k)"
  by (cases p) (auto simp: deref_def settles_panic)

lemma settles_if: "(b \<Longrightarrow> settles H R m) \<Longrightarrow> (\<not> b \<Longrightarrow> settles H R n) \<Longrightarrow> settles H R (if b then m else n)"
  by simp

lemma settles_option:
  "(p = None \<Longrightarrow> settles H R m) \<Longrightarrow> (\<And>x. p = Some x \<Longrightarrow> settles H R (k x)) \<Longrightarrow>
     settles H R (case p of None \<Rightarrow> m | Some x \<Rightarrow> k x)"
  by (cases p) simp_all

lemma settles_sum:
  "(\<And>e. p = Inl e \<Longrightarrow> settles H R (h e)) \<Longrightarrow> (\<And>x. p = Inr x \<Longrightarrow> settles H R (k x)) \<Longrightarrow>
     settles H R (case p of Inl e \<Rightarrow> h e | Inr x \<Rightarrow> k x)"
  by (cases p) simp_all

lemma settles_prod:
  "(\<And>x y. p = (x, y) \<Longrightarrow> settles H R (k x y)) \<Longrightarrow> settles H R (case p of (x, y) \<Rightarrow> k x y)"
  by (cases p) simp

lemma settles_let: "(\<And>x. x = t \<Longrightarrow> settles H R (k x)) \<Longrightarrow> settles H R (let x = t in k x)"
  by simp

lemma settles_every: "settles H R m \<Longrightarrow> moves H m"
proof (rule movesI)
  fix s assume "settles H R m"
  then show "H s (snd (m s))" by (cases "m s") (auto simp: settles_def runs_def dest!: spec [of _ s])
qed

lemmas settles_rules = settles_ret settles_panic settles_hang settles_reading settles_attempt settles_guarded
  settles_deref settles_if settles_option settles_sum settles_prod settles_let settles_andThen

end

text \<open>
  The preorder of runs that keep an invariant: the state satisfies it after the run if it did
  before.
\<close>

definition keeps :: "('s \<Rightarrow> bool) \<Rightarrow> 's \<Rightarrow> 's \<Rightarrow> bool" where
  "keeps I s s' \<longleftrightarrow> (I s \<longrightarrow> I s')"

interpretation keeping: state_preorder "keeps I" for I
  by unfold_locales (auto simp: keeps_def)

text \<open>The preorder of runs that leave a view of the state as it was.\<close>

definition same :: "('s \<Rightarrow> 'v) \<Rightarrow> 's \<Rightarrow> 's \<Rightarrow> bool" where
  "same f s s' \<longleftrightarrow> f s' = f s"

interpretation sameness: state_preorder "same f" for f
  by unfold_locales (auto simp: same_def)

end
