(* ===== verification/LibvirtXML.thy ===== *)
theory LibvirtXML
  imports Prelude
begin

text \<open>
  The documents of \<^verbatim>\<open>libvirt.org/go/libvirtxml\<close> the operator builds or reads. The package is not part
  of the repository: a record here has the fields the repository's code mentions, with the package's
  names, and nothing is said about the others. The mapping between a document and its XML text is a
  parameter (\<open>xmlcodec\<close>), the \<open>Marshal\<close> and \<open>Unmarshal\<close> methods of the types.
\<close>

section \<open>Storage\<close>

record StorageVolumeSize =
  svs_Unit :: string
  svs_Value :: u64

record StorageVolumeTargetFormat =
  svtf_Type :: string

record StorageVolumeTarget =
  svt_Path :: string
  svt_Format :: "StorageVolumeTargetFormat option"

record StorageVolumeBackingStore =
  svb_Path :: string
  svb_Format :: "StorageVolumeTargetFormat option"

record StorageVolume =
  sv_Type :: string
  sv_Name :: string
  sv_Key :: string
  sv_Capacity :: "StorageVolumeSize option"
  sv_Target :: "StorageVolumeTarget option"
  sv_BackingStore :: "StorageVolumeBackingStore option"

definition emptyStorageVolume :: StorageVolume where
  "emptyStorageVolume = \<lparr>sv_Type = '''', sv_Name = '''', sv_Key = '''', sv_Capacity = None,
     sv_Target = None, sv_BackingStore = None\<rparr>"

record StoragePool =
  spx_Name :: string
  spx_Capacity :: "StorageVolumeSize option"
  spx_Allocation :: "StorageVolumeSize option"
  spx_Available :: "StorageVolumeSize option"

section \<open>Domains\<close>

record DomainDiskSourceFile =
  ddsf_File :: string

record DomainDiskSourceBlock =
  ddsb_Dev :: string

record DomainDiskSourceVolume =
  ddsv_Pool :: string
  ddsv_Volume :: string

record DomainDiskSource =
  dds_File :: "DomainDiskSourceFile option"
  dds_Block :: "DomainDiskSourceBlock option"
  dds_Volume :: "DomainDiskSourceVolume option"

definition emptyDiskSource :: DomainDiskSource where
  "emptyDiskSource = \<lparr>dds_File = None, dds_Block = None, dds_Volume = None\<rparr>"

text \<open>A chain of backing stores: the format and the source of an image, and the image below it.\<close>

datatype DomainDiskBackingStore =
  BackingStore (bs_Format: "string option") (bs_Source: "DomainDiskSource option")
    (bs_BackingStore: "DomainDiskBackingStore option")

record DomainDiskDriver =
  ddd_Name :: string
  ddd_Type :: string
  ddd_Discard :: string
  ddd_DetectZeros :: string

record DomainDiskTarget =
  ddt_Dev :: string
  ddt_Bus :: string

record DomainDiskXML =
  dx_Device :: string
  dx_Driver :: "DomainDiskDriver option"
  dx_Source :: "DomainDiskSource option"
  dx_BackingStore :: "DomainDiskBackingStore option"
  dx_Target :: "DomainDiskTarget option"
  dx_ReadOnly :: bool
  dx_WWN :: string

record DomainController =
  dctl_Type :: string
  dctl_Model :: string
  dctl_Driver :: "u64 option option"
    \<comment> \<open>the pointer to the driver, and its pointer to a number of queues\<close>

record DomainInterfaceXML =
  dix_DriverName :: string
  dix_DriverQueues :: u64
  dix_ModelType :: string
  dix_SourceNetwork :: string
  dix_MAC :: "string option"

record DomainAddressPCI =
  dap_Domain :: "u64 option"
  dap_Bus :: "u64 option"
  dap_Slot :: "u64 option"
  dap_Function :: "u64 option"

record DomainHostdevPCI =
  dhp_Managed :: string
  dhp_DriverName :: string
  dhp_Address :: DomainAddressPCI

record DomainDeviceList =
  ddl_Controllers :: "DomainController list"
  ddl_Disks :: "DomainDiskXML list"
  ddl_Interfaces :: "DomainInterfaceXML list"
  ddl_Hostdevs :: "DomainHostdevPCI list"
  ddl_RNGs :: "(string \<times> string) list"
    \<comment> \<open>model and device of the random backend\<close>
  ddl_Serials :: nat
    \<comment> \<open>serial ports with an empty target\<close>
  ddl_Consoles :: "(string \<times> string) list"
    \<comment> \<open>TTY and type of the target\<close>
  ddl_Channels :: "string list"
    \<comment> \<open>names of the virtio targets of channels with a UNIX source\<close>

record DomainOSXML =
  dos_Type :: string
  dos_Machine :: string
  dos_BootDevices :: "string list"
  dos_Firmware :: string
  dos_LoaderSecure :: "string option"

record DomainVCPUXML =
  dvx_Value :: u64
  dvx_Placement :: string

record DomainMemoryXML =
  dmx_Value :: u64
  dmx_Unit :: string

record DomainCPUXML =
  dcx_Mode :: string
  dcx_Cache :: "string option"

record DomainXML =
  dom_Type :: string
  dom_Name :: string
  dom_OS :: "DomainOSXML option"
  dom_Features :: "string list"
  dom_VCPU :: "DomainVCPUXML option"
  dom_Memory :: "DomainMemoryXML option"
  dom_CPU :: "DomainCPUXML option"
  dom_NUMATune :: "string option"
  dom_Devices :: "DomainDeviceList option"
  dom_SecLabel :: "string list"

section \<open>Hosts, networks, node devices\<close>

record CapsHostNUMACell =
  cell_CPUS :: "u64 option"
    \<comment> \<open>the number of CPUs, where the element is present\<close>

record CapsHostNUMACells =
  cells_Num :: u64
  cells_Cells :: "CapsHostNUMACell list"

record Caps =
  caps_CPUArch :: "string option"
    \<comment> \<open>the architecture, where the CPU element is present\<close>
  caps_NUMA :: "CapsHostNUMACells option option"
    \<comment> \<open>the topology and its list of cells, where present\<close>

record NetworkXML =
  netx_Name :: string

record NodeDevicePCI =
  ndp_Domain :: "u64 option"
  ndp_Bus :: "u64 option"
  ndp_Slot :: "u64 option"
  ndp_Function :: "u64 option"

record NodeDeviceXML =
  ndx_Name :: string
  ndx_CapabilityPCI :: "NodeDevicePCI option"

section \<open>The XML text of a document\<close>

record xmlcodec =
  vol_Marshal :: "StorageVolume \<Rightarrow> error + string"
  vol_Unmarshal :: "string \<Rightarrow> error + StorageVolume"
  dom_Marshal :: "DomainXML \<Rightarrow> error + string"
  dom_Unmarshal :: "string \<Rightarrow> error + DomainXML"
  caps_Marshal :: "Caps \<Rightarrow> error + string"
  caps_Unmarshal :: "string \<Rightarrow> error + Caps"
  nodedev_Marshal :: "NodeDeviceXML \<Rightarrow> error + string"
  nodedev_Unmarshal :: "string \<Rightarrow> error + NodeDeviceXML"

end
