(* ===== verification/HostClient.thy ===== *)
theory HostClient
  imports LibvirtXML
begin

text \<open>
  The Go interface \<open>host.Client\<close> (\<^verbatim>\<open>internal/host/host.go\<close>): the calls to a libvirt daemon. A value of
  the interface is a table of methods, here a record of programs over a state \<open>'s\<close> that stands for
  everything the methods can read or change. The operator's client is \<^verbatim>\<open>go-libvirt\<close>, which is not part
  of the repository; the fake client of theory \<open>Fake\<close> is.

  The handles the daemon returns have the fields the repository mentions. The numeric constants are
  those of libvirt's public enumerations.
\<close>

section \<open>Handles and constants\<close>

record LvDomain =
  ld_Name :: string

record LvStoragePool =
  lsp_Name :: string

record LvStorageVol =
  lsv_Pool :: string
  lsv_Name :: string
  lsv_Key :: string

record LvNetwork =
  ln_Name :: string

record LvNodeDevice =
  lnd_Name :: string

record LvMemoryStat =
  lms_Field :: string
  lms_Value :: u64

definition DomainRunning :: u32 where "DomainRunning = 1"
definition DomainShutoff :: u32 where "DomainShutoff = 5"
definition DomainRunningBooted :: u32 where "DomainRunningBooted = 1"
definition DomainShutoffShutdown :: u32 where "DomainShutoffShutdown = 1"
definition StoragePoolRunning :: u32 where "StoragePoolRunning = 2"
definition DomainBlockResizeBytes :: u32 where "DomainBlockResizeBytes = 1"
definition DomainUndefineNvram :: u32 where "DomainUndefineNvram = 4"
definition StorageVolDeleteNormal :: u32 where "StorageVolDeleteNormal = 0"
definition StorageVolUploadSparseStream :: u32 where "StorageVolUploadSparseStream = 1"

definition NodeMemoryStatsTotal :: string where "NodeMemoryStatsTotal = ''total''"
definition NodeMemoryStatsFree :: string where "NodeMemoryStatsFree = ''free''"
definition NodeMemoryStatsBuffers :: string where "NodeMemoryStatsBuffers = ''buffers''"
definition NodeMemoryStatsCached :: string where "NodeMemoryStatsCached = ''cached''"
definition NodeMemoryStatsAllCells :: int where "NodeMemoryStatsAllCells = - 1"

lemma DomainShutoff_neq [simp]:
  "DomainShutoff \<noteq> DomainRunning" "DomainRunning \<noteq> DomainShutoff"
  "DomainShutoff \<noteq> 0" "DomainRunning \<noteq> 0" "0 \<noteq> DomainShutoff" "0 \<noteq> DomainRunning"
  by (simp_all add: DomainShutoff_def DomainRunning_def)

lemma memory_stats_distinct [simp]:
  "NodeMemoryStatsTotal \<noteq> NodeMemoryStatsFree" "NodeMemoryStatsFree \<noteq> NodeMemoryStatsTotal"
  "NodeMemoryStatsBuffers \<noteq> NodeMemoryStatsFree" "NodeMemoryStatsBuffers \<noteq> NodeMemoryStatsTotal"
  "NodeMemoryStatsCached \<noteq> NodeMemoryStatsFree" "NodeMemoryStatsCached \<noteq> NodeMemoryStatsTotal"
  "NodeMemoryStatsCached \<noteq> NodeMemoryStatsBuffers"
  by (simp_all add: NodeMemoryStatsTotal_def NodeMemoryStatsFree_def NodeMemoryStatsBuffers_def
      NodeMemoryStatsCached_def)

section \<open>The interface\<close>

text \<open>
  \<open>Disconnected\<close> returns a channel that is closed when the connection ends; the method here says
  whether it is closed. The reader that \<open>StorageVolUpload\<close> drains is given by the bytes left to read.
\<close>

record 's Client =
  Capabilities :: "('s, error + bytes) prog"
  Connect :: "('s, error option) prog"
  Disconnected :: "('s, bool) prog"
  Disconnect :: "('s, error option) prog"
  DomainBlockResize :: "LvDomain \<Rightarrow> string \<Rightarrow> u64 \<Rightarrow> u32 \<Rightarrow> ('s, error option) prog"
  DomainCreate :: "LvDomain \<Rightarrow> ('s, error option) prog"
  DomainDefineXML :: "string \<Rightarrow> ('s, error + LvDomain) prog"
  DomainGetState :: "LvDomain \<Rightarrow> u32 \<Rightarrow> ('s, error + u32 \<times> u32) prog"
  DomainGetXMLDesc :: "LvDomain \<Rightarrow> u32 \<Rightarrow> ('s, error + string) prog"
  DomainLookupByName :: "string \<Rightarrow> ('s, error + LvDomain) prog"
  DomainShutdown :: "LvDomain \<Rightarrow> ('s, error option) prog"
  DomainUndefineFlags :: "LvDomain \<Rightarrow> u32 \<Rightarrow> ('s, error option) prog"
  IsConnected :: "('s, bool) prog"
  NetworkIsActive :: "LvNetwork \<Rightarrow> ('s, error + u32) prog"
  NetworkLookupByName :: "string \<Rightarrow> ('s, error + LvNetwork) prog"
  NodeDeviceGetXMLDesc :: "string \<Rightarrow> u32 \<Rightarrow> ('s, error + string) prog"
  NodeDeviceIsActive :: "string \<Rightarrow> ('s, error + u32) prog"
  NodeDeviceLookupByName :: "string \<Rightarrow> ('s, error + LvNodeDevice) prog"
  NodeGetMemoryStats :: "int \<Rightarrow> int \<Rightarrow> u32 \<Rightarrow> ('s, error + LvMemoryStat list \<times> int) prog"
  StoragePoolGetInfo :: "LvStoragePool \<Rightarrow> ('s, error + u8 \<times> u64 \<times> u64 \<times> u64) prog"
  StoragePoolIsActive :: "LvStoragePool \<Rightarrow> ('s, error + u32) prog"
  StoragePoolLookupByName :: "string \<Rightarrow> ('s, error + LvStoragePool) prog"
  StorageVolLookupByKey :: "string \<Rightarrow> ('s, error + LvStorageVol) prog"
  StorageVolLookupByName :: "LvStoragePool \<Rightarrow> string \<Rightarrow> ('s, error + LvStorageVol) prog"
  StorageVolGetXMLDesc :: "LvStorageVol \<Rightarrow> u32 \<Rightarrow> ('s, error + string) prog"
  StorageVolCreateXML :: "LvStoragePool \<Rightarrow> string \<Rightarrow> u32 \<Rightarrow> ('s, error + LvStorageVol) prog"
  StorageVolUpload :: "LvStorageVol \<Rightarrow> bytes \<Rightarrow> u64 \<Rightarrow> u64 \<Rightarrow> u32 \<Rightarrow> ('s, error option) prog"
  StorageVolResize :: "LvStorageVol \<Rightarrow> u64 \<Rightarrow> u32 \<Rightarrow> ('s, error option) prog"
  StorageVolDelete :: "LvStorageVol \<Rightarrow> u32 \<Rightarrow> ('s, error option) prog"

section \<open>The calls of a run\<close>

text \<open>
  A call that changes the host, with its arguments and what it returned, and the queries that say
  whether something exists or is shut off; every other call is \<open>HostQuery\<close>. Theory \<open>World\<close> keeps
  these in the log of a run.
\<close>

datatype hostcall =
    DidConnect "error option outcome"
  | DidDisconnect "error option outcome"
  | DidDomainBlockResize LvDomain string u64 "error option outcome"
  | DidDomainCreate LvDomain "error option outcome"
  | DidDomainDefineXML string "(error + LvDomain) outcome"
  | DidDomainShutdown LvDomain "error option outcome"
  | DidDomainUndefine LvDomain "error option outcome"
  | DidStorageVolCreateXML LvStoragePool string "(error + LvStorageVol) outcome"
  | DidStorageVolUpload LvStorageVol bytes "error option outcome"
  | DidStorageVolResize LvStorageVol u64 "error option outcome"
  | DidStorageVolDelete LvStorageVol "error option outcome"
  | LookedUpVolume LvStoragePool string "(error + LvStorageVol) outcome"
  | LookedUpDomain string "(error + LvDomain) outcome"
  | SawDomainState LvDomain "(error + u32 \<times> u32) outcome"
  | HostQuery

end
