(* ===== verification/Api.thy ===== *)
theory Api
  imports Prelude
begin

text \<open>
  The data model of the operator: package \<^verbatim>\<open>api/v1alpha1\<close> (all kinds but CloudInit, which has its
  own theory) and \<^verbatim>\<open>api/resource\<close>.

  Every kind is a Go struct of metadata, spec and status; here one record \<open>Object\<close> with the spec
  and the status as parameters. A struct embedded in another is the parent of a record extension:
  \<open>ExternalResourceMeta\<close> is the parent of the specs that inline it, \<open>StatusBase\<close> (the
  \<open>Conditions\<close> field that every status declares) the parent of every status, so that the code
  the controllers repeat for each kind is written once over any status with conditions.

  A pointer field is an \<open>option\<close>. An \<open>int32\<close> or \<open>int64\<close> field is an \<open>int\<close>. Of the structs of
  \<^verbatim>\<open>apimachinery\<close> (metadata, conditions) only the fields the operator reads or writes are present.
\<close>

section \<open>Metadata and conditions\<close>

record NamespacedName =
  nn_Name :: string
  nn_Namespace :: string

record ObjectMeta =
  om_Name :: string
  om_Namespace :: string
  om_UID :: string
  om_Generation :: int
  om_DeletionTimestamp :: "int option"
  om_Finalizers :: "string list"
  om_Labels :: "(string \<rightharpoonup> string) option"

text \<open>Times are nanoseconds. The status of a condition is one of three strings.\<close>

datatype ConditionStatus = ConditionTrue | ConditionFalse | ConditionUnknown

record Condition =
  cond_Type :: string
  cond_Status :: ConditionStatus
  cond_LastTransitionTime :: int
  cond_Reason :: string
  cond_Message :: string

record StatusBase =
  Conditions :: "Condition list"

record ('spec, 'status) Object =
  Meta :: ObjectMeta
  Spec :: 'spec
  Status :: 'status

section \<open>Constants\<close>

definition Finalizer :: string where
  "Finalizer = ''libvirt.karelvanhecke.com/finalizer''"

definition SecretLabel :: string where
  "SecretLabel = ''libvirt.karelvanhecke.com/secret''"
definition AuthLabel :: string where
  "AuthLabel = ''libvirt.karelvanhecke.com/auth''"
definition HostLabel :: string where
  "HostLabel = ''libvirt.karelvanhecke.com/host''"
definition PoolLabel :: string where
  "PoolLabel = ''libvirt.karelvanhecke.com/pool''"
definition VolumeLabel :: string where
  "VolumeLabel = ''libvirt.karelvanhecke.com/volume''"
definition CloudInitLabel :: string where
  "CloudInitLabel = ''libvirt.karelvanhecke.com/cloudinit''"
definition InterfaceLabelPrefix :: string where
  "InterfaceLabelPrefix = ''interface.libvirt.karelvanhecke.com''"
definition PCIPassthroughLabelPrefix :: string where
  "PCIPassthroughLabelPrefix = ''pcipassthrough.libvirt.karelvanhecke.com''"
definition DiskLabelPrefix :: string where
  "DiskLabelPrefix = ''disk.libvirt.karelvanhecke.com''"

lemmas label_defs = SecretLabel_def AuthLabel_def HostLabel_def PoolLabel_def VolumeLabel_def
  CloudInitLabel_def InterfaceLabelPrefix_def PCIPassthroughLabelPrefix_def DiskLabelPrefix_def

definition ConditionReady :: string where "ConditionReady = ''Ready''"
definition ConditionProbed :: string where "ConditionProbed = ''Probed''"
definition ConditionDeletionPrevented :: string where
  "ConditionDeletionPrevented = ''DeletionPrevented''"

lemma condition_types_distinct [simp]:
  "ConditionReady \<noteq> ConditionProbed" "ConditionProbed \<noteq> ConditionReady"
  "ConditionReady \<noteq> ConditionDeletionPrevented" "ConditionDeletionPrevented \<noteq> ConditionReady"
  "ConditionProbed \<noteq> ConditionDeletionPrevented" "ConditionDeletionPrevented \<noteq> ConditionProbed"
  by (simp_all add: ConditionReady_def ConditionProbed_def ConditionDeletionPrevented_def)

text \<open>The reasons of a condition.\<close>

definition ConditionCreated :: string where "ConditionCreated = ''Created''"
definition ConditionError :: string where "ConditionError = ''Error''"
definition ConditionUnmetRequirements :: string where
  "ConditionUnmetRequirements = ''UnmetRequirements''"
definition ConditionActive :: string where "ConditionActive = ''Active''"
definition ConditionNotActive :: string where "ConditionNotActive = ''NotActive''"
definition ConditionNotExist :: string where "ConditionNotExist = ''NotExist''"
definition ConditionInUse :: string where "ConditionInUse = ''InUse''"
definition ConditionRequired :: string where "ConditionRequired = ''Required''"
definition ConditionCompleted :: string where "ConditionCompleted = ''Completed''"

section \<open>Shared types\<close>

record ResourceRef =
  ref_Name :: string

record ExternalResourceMeta =
  xr_Name :: string
  xr_GenerateName :: string

text \<open>
  \<open>resource.GenerateName\<close>; the random suffix comes from \<^verbatim>\<open>apimachinery\<close> and is a parameter:
  \<open>rand n\<close> is a string of \<open>n\<close> characters.
\<close>

definition GenerateName :: "(nat \<Rightarrow> string) \<Rightarrow> string \<Rightarrow> string" where
  "GenerateName rand base = (if base = '''' then '''' else base @ rand 10)"

section \<open>Auth\<close>

definition TLSAuth :: string where "TLSAuth = ''TLS''"
definition SSHAuth :: string where "SSHAuth = ''SSH''"

record AuthSpec =
  as_Type :: string
  as_SecretRef :: ResourceRef
  as_Verify :: "bool option"
  as_Ca :: "string option"
  as_KnownHosts :: "string option"
  as_Username :: "string option"

type_synonym AuthStatus = StatusBase
type_synonym Auth = "(AuthSpec, AuthStatus) Object"

definition Auth_SecretRef :: "Auth \<Rightarrow> NamespacedName" where
  "Auth_SecretRef a =
     \<lparr>nn_Name = ref_Name (as_SecretRef (Spec a)), nn_Namespace = om_Namespace (Meta a)\<rparr>"

text \<open>
  The validation rules of an \<open>AuthSpec\<close>, which the API server evaluates before it stores an object.
  As in CEL, \<open>&&\<close> binds tighter than \<open>||\<close>.
\<close>

definition AuthSpec_ssh_rule :: "AuthSpec \<Rightarrow> bool" where
  "AuthSpec_ssh_rule s \<longleftrightarrow> (as_Type s = ''SSH'' \<longrightarrow>
     as_Username s \<noteq> None \<and> (as_KnownHosts s \<noteq> None \<or> (as_Verify s \<noteq> None \<and> as_Verify s = Some False))
       \<and> as_Ca s = None)"

definition AuthSpec_tls_rule :: "AuthSpec \<Rightarrow> bool" where
  "AuthSpec_tls_rule s \<longleftrightarrow> (as_Type s = ''TLS'' \<longrightarrow>
     as_Ca s \<noteq> None \<or> ((as_Verify s \<noteq> None \<and> as_Verify s = Some False) \<and> as_Username s = None
       \<and> as_KnownHosts s = None))"

section \<open>Secret\<close>

text \<open>The core kind the operator reads credentials from: its type and its data.\<close>

record Secret =
  sec_Meta :: ObjectMeta
  sec_Type :: string
  sec_Data :: "string \<rightharpoonup> bytes"

definition SecretTypeSSHAuth :: string where "SecretTypeSSHAuth = ''kubernetes.io/ssh-auth''"
definition SecretTypeTLS :: string where "SecretTypeTLS = ''kubernetes.io/tls''"

section \<open>Host\<close>

record HostSpec =
  hs_Address :: string
  hs_AuthRef :: ResourceRef
  hs_Port :: "int option"

record HostMemory =
  hm_Total :: int
  hm_Free :: int

record HostCapability =
  hc_Arch :: string
  hc_CPUS :: int
  hc_Memory :: HostMemory
  hc_NUMA :: bool

record HostStatus = StatusBase +
  hst_Capacity :: "HostCapability option"

type_synonym Host = "(HostSpec, HostStatus) Object"

definition Host_AuthRef :: "Host \<Rightarrow> NamespacedName" where
  "Host_AuthRef h =
     \<lparr>nn_Name = ref_Name (hs_AuthRef (Spec h)), nn_Namespace = om_Namespace (Meta h)\<rparr>"

section \<open>Network\<close>

record NetworkSpec =
  ns_Name :: string
  ns_HostRef :: ResourceRef

type_synonym NetworkStatus = StatusBase
type_synonym Network = "(NetworkSpec, NetworkStatus) Object"

definition Network_ResourceName :: "Network \<Rightarrow> string" where
  "Network_ResourceName n = ns_Name (Spec n)"

definition Network_HostRef :: "Network \<Rightarrow> NamespacedName" where
  "Network_HostRef n =
     \<lparr>nn_Name = ref_Name (ns_HostRef (Spec n)), nn_Namespace = om_Namespace (Meta n)\<rparr>"

section \<open>Pool\<close>

record PoolSpec =
  pls_Name :: string
  pls_HostRef :: ResourceRef

record PoolCapacity =
  pc_Capacity :: int
  pc_Allocation :: int
  pc_Available :: int

record PoolStatus = StatusBase +
  pst_Capacity :: "PoolCapacity option"

type_synonym Pool = "(PoolSpec, PoolStatus) Object"

definition Pool_ResourceName :: "Pool \<Rightarrow> string" where
  "Pool_ResourceName p = pls_Name (Spec p)"

definition Pool_HostRef :: "Pool \<Rightarrow> NamespacedName" where
  "Pool_HostRef p =
     \<lparr>nn_Name = ref_Name (pls_HostRef (Spec p)), nn_Namespace = om_Namespace (Meta p)\<rparr>"

section \<open>PCIDevice\<close>

record PCIDeviceSpec =
  pds_Name :: string
  pds_HostRef :: ResourceRef

record PCIDeviceAddress =
  pa_Domain :: int
  pa_Bus :: int
  pa_Slot :: int
  pa_Function :: int

record PCIDeviceStatus = StatusBase +
  pdst_Address :: "PCIDeviceAddress option"

type_synonym PCIDevice = "(PCIDeviceSpec, PCIDeviceStatus) Object"

definition PCIDevice_ResourceName :: "PCIDevice \<Rightarrow> string" where
  "PCIDevice_ResourceName d = pds_Name (Spec d)"

definition PCIDevice_HostRef :: "PCIDevice \<Rightarrow> NamespacedName" where
  "PCIDevice_HostRef d =
     \<lparr>nn_Name = ref_Name (pds_HostRef (Spec d)), nn_Namespace = om_Namespace (Meta d)\<rparr>"

section \<open>Volume\<close>

record VolumeSize =
  vs_Unit :: string
  vs_Value :: int

record VolumeSource =
  vsrc_URL :: string
  vsrc_Checksum :: "string option"

record VolumeSpec = ExternalResourceMeta +
  vsp_Format :: string
  vsp_Size :: "VolumeSize option"
  vsp_PoolRef :: ResourceRef
  vsp_Source :: "VolumeSource option"
  vsp_BackingStoreRef :: "ResourceRef option"

record VolumeStatus = StatusBase +
  vst_Pool :: string
  vst_Host :: string

type_synonym Volume = "(VolumeSpec, VolumeStatus) Object"

definition Volume_ResourceName :: "Volume \<Rightarrow> string" where
  "Volume_ResourceName v = xr_Name (Spec v)"

definition Volume_SetGeneratedResourceName :: "(nat \<Rightarrow> string) \<Rightarrow> Volume \<Rightarrow> Volume" where
  "Volume_SetGeneratedResourceName rand v =
     v\<lparr>Spec := (Spec v)\<lparr>xr_Name := GenerateName rand (xr_GenerateName (Spec v))\<rparr>\<rparr>"

definition Volume_PoolRef :: "Volume \<Rightarrow> NamespacedName" where
  "Volume_PoolRef v =
     \<lparr>nn_Name = ref_Name (vsp_PoolRef (Spec v)), nn_Namespace = om_Namespace (Meta v)\<rparr>"

definition Volume_BackingStoreRef :: "Volume \<Rightarrow> NamespacedName" where
  "Volume_BackingStoreRef v =
     (case vsp_BackingStoreRef (Spec v) of
        None \<Rightarrow> \<lparr>nn_Name = '''', nn_Namespace = ''''\<rparr>
      | Some r \<Rightarrow> \<lparr>nn_Name = ref_Name r, nn_Namespace = om_Namespace (Meta v)\<rparr>)"

text \<open>The validation rules of a \<open>VolumeSpec\<close> and of its size.\<close>

definition VolumeSpec_rules :: "VolumeSpec \<Rightarrow> bool" where
  "VolumeSpec_rules s \<longleftrightarrow>
     (vsp_Source s \<noteq> None \<longrightarrow> vsp_BackingStoreRef s = None) \<and>
     (vsp_Size s = None \<longrightarrow> vsp_BackingStoreRef s \<noteq> None \<or> vsp_Source s \<noteq> None) \<and>
     (vsp_BackingStoreRef s \<noteq> None \<longrightarrow> vsp_Format s = ''qcow2'')"

section \<open>Domain\<close>

record DomainVCPU =
  dv_Value :: int
  dv_Placement :: "string option"

record DomainCPU =
  dc_Mode :: "string option"
  dc_CacheMode :: "string option"

record DomainMemory =
  dm_Unit :: string
  dm_Value :: int

record DomainDisk =
  dd_VolumeRef :: ResourceRef
  dd_WWN :: "string option"

record DomainInterface =
  di_NetworkRef :: ResourceRef
  di_Queues :: "int option"
  di_MacAddress :: "string option"

record DomainCloudInit =
  dci_CloudInitRef :: "ResourceRef option"

record DomainPCIPassthrough =
  dpp_PCIDeviceRef :: ResourceRef

record DomainSpec = ExternalResourceMeta +
  ds_HostRef :: ResourceRef
  ds_VCPU :: DomainVCPU
  ds_CPU :: "DomainCPU option"
  ds_Memory :: DomainMemory
  ds_SCSIQueues :: "int option"
  ds_Disks :: "DomainDisk list"
  ds_Interfaces :: "DomainInterface list"
  ds_CloudInit :: "DomainCloudInit option"
  ds_NumatuneMode :: "string option"
  ds_PCIPassthrough :: "DomainPCIPassthrough list"
  ds_UEFI :: "bool option"
  ds_SecureBoot :: "bool option"
  ds_Shutoff :: "bool option"

type_synonym DomainStatus = StatusBase
type_synonym Domain = "(DomainSpec, DomainStatus) Object"

definition Domain_ResourceName :: "Domain \<Rightarrow> string" where
  "Domain_ResourceName d = xr_Name (Spec d)"

definition Domain_SetGeneratedResourceName :: "(nat \<Rightarrow> string) \<Rightarrow> Domain \<Rightarrow> Domain" where
  "Domain_SetGeneratedResourceName rand d =
     d\<lparr>Spec := (Spec d)\<lparr>xr_Name := GenerateName rand (xr_GenerateName (Spec d))\<rparr>\<rparr>"

definition Domain_HostRef :: "Domain \<Rightarrow> NamespacedName" where
  "Domain_HostRef d =
     \<lparr>nn_Name = ref_Name (ds_HostRef (Spec d)), nn_Namespace = om_Namespace (Meta d)\<rparr>"

definition Domain_VolumeRef :: "Domain \<Rightarrow> DomainDisk \<Rightarrow> NamespacedName" where
  "Domain_VolumeRef d disk =
     \<lparr>nn_Name = ref_Name (dd_VolumeRef disk), nn_Namespace = om_Namespace (Meta d)\<rparr>"

definition Domain_NetworkRef :: "Domain \<Rightarrow> DomainInterface \<Rightarrow> NamespacedName" where
  "Domain_NetworkRef d i =
     \<lparr>nn_Name = ref_Name (di_NetworkRef i), nn_Namespace = om_Namespace (Meta d)\<rparr>"

definition Domain_PCIDeviceRef :: "Domain \<Rightarrow> DomainPCIPassthrough \<Rightarrow> NamespacedName" where
  "Domain_PCIDeviceRef d p =
     \<lparr>nn_Name = ref_Name (dpp_PCIDeviceRef p), nn_Namespace = om_Namespace (Meta d)\<rparr>"

text \<open>
  \<open>CloudInitRef\<close> dereferences two pointers, \<open>Spec.CloudInit\<close> and its \<open>CloudInitRef\<close>; \<open>None\<close> is the
  panic of a nil one.
\<close>

definition Domain_CloudInitRef :: "Domain \<Rightarrow> NamespacedName option" where
  "Domain_CloudInitRef d =
     (case ds_CloudInit (Spec d) of
        None \<Rightarrow> None
      | Some ci \<Rightarrow> (case dci_CloudInitRef ci of
          None \<Rightarrow> None
        | Some r \<Rightarrow> Some \<lparr>nn_Name = ref_Name r, nn_Namespace = om_Namespace (Meta d)\<rparr>))"

text \<open>The validation rule on secure boot.\<close>

definition DomainSpec_rule :: "DomainSpec \<Rightarrow> bool" where
  "DomainSpec_rule s \<longleftrightarrow>
     (if ds_SecureBoot s \<noteq> None \<and> ds_SecureBoot s = Some True
      then ds_UEFI s = None \<or> ds_UEFI s = Some True else True)"

section \<open>Facts about names and rules\<close>

lemma GenerateName_empty [simp]: "GenerateName rand '''' = ''''"
  by (simp add: GenerateName_def)

lemma GenerateName_eq_empty_iff: "GenerateName rand base = '''' \<longleftrightarrow> base = ''''"
  by (simp add: GenerateName_def)

text \<open>An accepted spec never leaves a pointer nil that the controllers dereference.\<close>

lemma AuthSpec_ssh_pointers:
  assumes "AuthSpec_ssh_rule s" and "as_Type s = SSHAuth"
  shows "as_Username s \<noteq> None"
    and "as_Verify s = None \<or> as_Verify s = Some True \<Longrightarrow> as_KnownHosts s \<noteq> None"
  using assms by (auto simp: AuthSpec_ssh_rule_def SSHAuth_def)

lemma AuthSpec_tls_pointers:
  assumes "AuthSpec_tls_rule s" and "as_Type s = TLSAuth"
  shows "as_Verify s = None \<or> as_Verify s = Some True \<Longrightarrow> as_Ca s \<noteq> None"
  using assms by (auto simp: AuthSpec_tls_rule_def TLSAuth_def)

end
