(* ===== verification/CloudInitTypes.thy ===== *)
theory CloudInitTypes
  imports Api
begin

text \<open>
  The CloudInit kind (\<^verbatim>\<open>api/v1alpha1/cloudinit_types.go\<close>): the cloud-config and network-config
  documents a user can write, field for field, and the kind itself. A document is only handed to the
  YAML encoder, so no operation of the model looks inside it; what the controller decides on is which
  of the four documents are present. A struct embedded first is the parent of a record extension; the
  second struct that \<open>CloudInitEthernet\<close> embeds is a field.
\<close>

section \<open>Documents\<close>

record CloudInitMetadata =
  cim_LocalHostname :: string
  cim_InstanceID :: "string option"

record CloudInitUser =
  ciu_Name :: string
  ciu_Doas :: "string list"
  ciu_ExpireDate :: "string option"
  ciu_Gecos :: "string option"
  ciu_Groups :: "string option"
  ciu_HomeDir :: "string option"
  ciu_Intactive :: "string option"
  ciu_LockPasswd :: "bool option"
  ciu_NoCreateHome :: "bool option"
  ciu_NoLogInit :: "bool option"
  ciu_NoUserGroup :: "bool option"
  ciu_Passwd :: "string option"
  ciu_HashedPasswd :: "string option"
  ciu_PlaintextPasswd :: "string option"
  ciu_CreateGroups :: "bool option"
  ciu_PrimaryGroup :: "string option"
  ciu_SELinuxUser :: "string option"
  ciu_Shell :: "string option"
  ciu_SnapUser :: "string option"
  ciu_SSHAuthorizedKeys :: "string list"
  ciu_SSHImportID :: "string list"
  ciu_SSHRedirectUser :: "bool option"
  ciu_System :: "bool option"
  ciu_Sudo :: "string list"
  ciu_UID :: "int option"

record CloudInitWriteFileSource =
  cws_URI :: string
  cws_Headers :: "string \<rightharpoonup> string"

record CloudInitWriteFile =
  cwf_Path :: string
  cwf_Content :: "string option"
  cwf_Source :: "CloudInitWriteFileSource option"
  cwf_Owner :: "string option"
  cwf_Permissions :: "string option"
  cwf_Encoding :: "string option"
  cwf_Append :: "bool option"
  cwf_Defer :: "bool option"

record CloudInitGrowpart =
  cgp_Mode :: "string option"
  cgp_Devices :: "string list"
  cgp_IgnoreGrowrootDisabled :: "bool option"

record CloudInitMountSwap =
  cms_Filename :: "string option"
  cms_Size :: "string option"
  cms_MaxSize :: "string option"

record CloudInitDisk =
  cidk_TableType :: "string option"
  cidk_Layout :: "string list"
  cidk_Overwrite :: "bool option"

record CloudInitFS =
  cfs_Label :: "string option"
  cfs_Filesystem :: string
  cfs_Device :: string
  cfs_Partitions :: "string option"
  cfs_Overwrite :: "bool option"
  cfs_ReplaceFS :: "string option"
  cfs_ExtraOpts :: "string list"
  cfs_CMD :: "string list"

record CloudInitCACerts =
  cca_RemoveDefaults :: "bool option"
  cca_Trusted :: "string list"

record CloudInitNTPConfig =
  cnc_ConfPath :: "string option"
  cnc_CheckEXE :: "string option"
  cnc_Packages :: "string list"
  cnc_ServiceName :: "string option"
  cnc_Template :: "string option"

record CloudInitNTP =
  cntp_Pools :: "string list"
  cntp_Servers :: "string list"
  cntp_Peers :: "string list"
  cntp_Allow :: "string list"
  cntp_NTPClient :: "string option"
  cntp_Enabled :: "bool option"
  cntp_Config :: "CloudInitNTPConfig option"

record CloudInitKeyboard =
  ckb_Layout :: string
  ckb_Model :: "string option"
  ckb_Variant :: "string option"
  ckb_Options :: "string option"

record CloudInitPhoneHome =
  cph_URL :: string
  cph_Post :: "string list"
  cph_Tries :: "int option"

record CloudInitCloudConfig =
  ccc_BootCMD :: "string list list"
  ccc_Groups :: "string \<rightharpoonup> string list"
  ccc_User :: "CloudInitUser option"
  ccc_Users :: "CloudInitUser list"
  ccc_WriteFiles :: "CloudInitWriteFile list"
  ccc_RunCMD :: "string list list"
  ccc_Growpart :: "CloudInitGrowpart option"
  ccc_Mounts :: "string list list"
  ccc_MountDefaultFields :: "string list"
  ccc_Swap :: "CloudInitMountSwap option"
  ccc_DeviceAliases :: "string \<rightharpoonup> string"
  ccc_DiskSetup :: "string \<rightharpoonup> CloudInitDisk"
  ccc_FSSetup :: "CloudInitFS list"
  ccc_CACerts :: "CloudInitCACerts option"
  ccc_PreserveHostname :: "bool option"
  ccc_PreferFQDNOverHostname :: "bool option"
  ccc_CreateHostnameFile :: "bool option"
  ccc_FQDN :: "string option"
  ccc_Hostname :: "string option"
  ccc_Timezone :: "string option"
  ccc_NTP :: "CloudInitNTP option"
  ccc_Locale :: "string option"
  ccc_LocaleConfigfile :: "string option"
  ccc_Keyboard :: "CloudInitKeyboard option"
  ccc_PhoneHome :: "CloudInitPhoneHome option"

record CloudInitDHCPOverrides =
  cdo_UseDNS :: "bool option"
  cdo_UseNTP :: "bool option"
  cdo_SendHostName :: "bool option"
  cdo_UseMTU :: "bool option"
  cdo_Hostname :: "string option"
  cdo_UseRoutes :: "bool option"
  cdo_RouteMetric :: "int option"
  cdo_UseDomains :: "bool option"

record CloudInitNameservers =
  cns_Addresses :: "string list"
  cns_Search :: "string list"

record CloudInitRoute =
  crt_To :: string
  crt_Via :: string
  crt_Metric :: "int option"

record NetplanRAOverrides =
  nra_UseDNS :: "bool option"
  nra_UseDomains :: "string option"
  nra_Table :: "int option"

record NetplanPassthrough =
  npt_AcceptRA :: "bool option"
  npt_RAOverrides :: "NetplanRAOverrides option"

record CloudInitNetworkProperties = NetplanPassthrough +
  cnp_Renderer :: "string option"
  cnp_DHCP4 :: "bool option"
  cnp_DHCP6 :: "bool option"
  cnp_DHCP4Overrides :: "CloudInitDHCPOverrides option"
  cnp_DHCP6Overrides :: "CloudInitDHCPOverrides option"
  cnp_Addresses :: "string list"
  cnp_MTU :: "int option"
  cnp_Optional :: "bool option"
  cnp_Nameservers :: "CloudInitNameservers option"
  cnp_Routes :: "CloudInitRoute list"

record CloudInitMatch =
  cmt_Name :: "string option"
  cmt_MacAddress :: "string option"
  cmt_Driver :: "string option"

record CloudInitPhysicalProperties =
  cpp_Match :: "CloudInitMatch option"
  cpp_SetName :: "string option"
  cpp_WakeOnLAN :: "bool option"

record CloudInitEthernet = CloudInitNetworkProperties +
  cet_CloudInitPhysicalProperties :: CloudInitPhysicalProperties

record CloudInitBondParameters =
  cbp_Mode :: "string option"
  cbp_LACPRate :: "string option"
  cbp_MIIMonitorInterval :: "int option"
  cbp_MinLinks :: "int option"
  cbp_TransmitHashPolicy :: "string option"
  cbp_ADSelect :: "string option"
  cbp_AllSlavesActive :: "bool option"
  cbp_ARPInterval :: "int option"
  cbp_ARPIPTargets :: "string list"
  cbp_ARPValidate :: "string option"
  cbp_ARPAllTargets :: "string option"
  cbp_UpDelay :: "int option"
  cbp_DownDelay :: "int option"
  cbp_FailOverMACPolicy :: "string option"
  cbp_GratuitousARP :: "int option"
  cbp_PacketsPerSlave :: "int option"
  cbp_PrimaryReselectPolicy :: "string option"
  cbp_LearnPacketInterval :: "int option"

record CloudInitBond = CloudInitNetworkProperties +
  cbd_Interfaces :: "string list"
  cbd_Parameters :: "CloudInitBondParameters option"

record CloudInitBridgeParameters =
  crp_AgeingTime :: "int option"
  crp_Priority :: "int option"
  crp_ForwardDelay :: "int option"
  crp_HelloTime :: "int option"
  crp_MaxAge :: "int option"
  crp_PathCost :: "int option"
  crp_STP :: "bool option"

record CloudInitBridge = CloudInitNetworkProperties +
  cbr_Interfaces :: "string list"
  cbr_Parameters :: "CloudInitBridgeParameters option"

record CloudInitVLAN = CloudInitNetworkProperties +
  cvl_ID :: int
  cvl_Link :: string

record CloudInitNetworkConfig =
  cnf_Ethernets :: "string \<rightharpoonup> CloudInitEthernet"
  cnf_Bonds :: "string \<rightharpoonup> CloudInitBond"
  cnf_Bridges :: "string \<rightharpoonup> CloudInitBridge"
  cnf_VLANs :: "string \<rightharpoonup> CloudInitVLAN"

record CloudInitSpec = ExternalResourceMeta +
  cis_PoolRef :: ResourceRef
  cis_Metadata :: "CloudInitMetadata option"
  cis_UserData :: "CloudInitCloudConfig option"
  cis_VendorData :: "CloudInitCloudConfig option"
  cis_NetworkConfig :: "CloudInitNetworkConfig option"

record CloudInitStatus = StatusBase +
  cist_Pool :: string
  cist_Host :: string

section \<open>The kind\<close>

type_synonym CloudInit = "(CloudInitSpec, CloudInitStatus) Object"

definition CloudInit_ResourceName :: "CloudInit \<Rightarrow> string" where
  "CloudInit_ResourceName ci = xr_Name (Spec ci)"

definition CloudInit_SetGeneratedResourceName :: "(nat \<Rightarrow> string) \<Rightarrow> CloudInit \<Rightarrow> CloudInit" where
  "CloudInit_SetGeneratedResourceName rand ci =
     ci\<lparr>Spec := (Spec ci)\<lparr>xr_Name := GenerateName rand (xr_GenerateName (Spec ci))\<rparr>\<rparr>"

definition CloudInit_PoolRef :: "CloudInit \<Rightarrow> NamespacedName" where
  "CloudInit_PoolRef ci =
     \<lparr>nn_Name = ref_Name (cis_PoolRef (Spec ci)), nn_Namespace = om_Namespace (Meta ci)\<rparr>"

section \<open>External resources\<close>

text \<open>
  The Go interface \<open>resource.External\<close> (\<^verbatim>\<open>api/resource/external.go\<close>): a resource that has a name outside
  the cluster and can be given a generated one. Its contract: a generated name is the base followed by
  the random suffix, and is empty only for an empty base.
\<close>

locale external_resource =
  fixes ResourceName :: "'o \<Rightarrow> string"
    and SetGeneratedResourceName :: "(nat \<Rightarrow> string) \<Rightarrow> 'o \<Rightarrow> 'o"
    and base :: "'o \<Rightarrow> string"
  assumes name_generated:
      "ResourceName (SetGeneratedResourceName rand x) = GenerateName rand (base x)"
    and base_kept: "base (SetGeneratedResourceName rand x) = base x"
begin

lemma generated_empty_iff:
  "ResourceName (SetGeneratedResourceName rand x) = '''' \<longleftrightarrow> base x = ''''"
  by (simp add: name_generated GenerateName_eq_empty_iff)

lemma generated_prefix:
  "base x \<noteq> '''' \<Longrightarrow> ResourceName (SetGeneratedResourceName rand x) = base x @ rand 10"
  by (simp add: name_generated GenerateName_def)

end

interpretation volume_ext: external_resource Volume_ResourceName Volume_SetGeneratedResourceName
    "\<lambda>v. xr_GenerateName (Spec v)"
  by unfold_locales (simp_all add: Volume_ResourceName_def Volume_SetGeneratedResourceName_def)

interpretation domain_ext: external_resource Domain_ResourceName Domain_SetGeneratedResourceName
    "\<lambda>d. xr_GenerateName (Spec d)"
  by unfold_locales (simp_all add: Domain_ResourceName_def Domain_SetGeneratedResourceName_def)

interpretation cloudinit_ext: external_resource CloudInit_ResourceName
    CloudInit_SetGeneratedResourceName "\<lambda>ci. xr_GenerateName (Spec ci)"
  by unfold_locales (simp_all add: CloudInit_ResourceName_def CloudInit_SetGeneratedResourceName_def)

end
