(* ===== verification/World.thy ===== *)
theory World
  imports HostClient CloudInitTypes
begin

text \<open>
  Everything outside the operator's own memory. The state that the API server, the libvirt daemons, the
  clock and the operating system share is one value of a type \<open>'w\<close> that the model never looks into: a
  call on them is any \<open>prog\<close> over \<open>'w\<close>, so whatever other clients and other goroutines do to them between
  two calls is part of what the next call does.

  Every such call is appended to a log with its arguments and its outcome. The log is read by no
  program; properties about what the operator does outside, and in which order, are stated over it.
\<close>

section \<open>Objects of the API server\<close>

datatype kobj =
    KAuth Auth | KSecret Secret | KHost Host | KPool Pool | KNetwork Network
  | KPCIDevice PCIDevice | KVolume Volume | KCloudInit CloudInit | KDomain Domain

fun kobj_Meta :: "kobj \<Rightarrow> ObjectMeta" where
  "kobj_Meta (KAuth x) = Meta x"
| "kobj_Meta (KSecret x) = sec_Meta x"
| "kobj_Meta (KHost x) = Meta x"
| "kobj_Meta (KPool x) = Meta x"
| "kobj_Meta (KNetwork x) = Meta x"
| "kobj_Meta (KPCIDevice x) = Meta x"
| "kobj_Meta (KVolume x) = Meta x"
| "kobj_Meta (KCloudInit x) = Meta x"
| "kobj_Meta (KDomain x) = Meta x"

fun kobj_Conditions :: "kobj \<Rightarrow> Condition list" where
  "kobj_Conditions (KAuth x) = Conditions (Status x)"
| "kobj_Conditions (KSecret x) = []"
| "kobj_Conditions (KHost x) = Conditions (Status x)"
| "kobj_Conditions (KPool x) = Conditions (Status x)"
| "kobj_Conditions (KNetwork x) = Conditions (Status x)"
| "kobj_Conditions (KPCIDevice x) = Conditions (Status x)"
| "kobj_Conditions (KVolume x) = Conditions (Status x)"
| "kobj_Conditions (KCloudInit x) = Conditions (Status x)"
| "kobj_Conditions (KDomain x) = Conditions (Status x)"

datatype kind =
    AuthKind | SecretKind | HostKind | PoolKind | NetworkKind | PCIDeviceKind | VolumeKind
  | CloudInitKind | DomainKind

text \<open>A requirement of a label selector, \<open>key = value\<close>.\<close>

record Requirement =
  rq_Key :: string
  rq_Value :: string

section \<open>The log\<close>

datatype event =
    OnHost nat hostcall
  | DidGet kind NamespacedName "(error + kobj) outcome"
  | DidList kind "Requirement option" "(error + kobj list) outcome"
  | DidUpdate kobj "(error + kobj) outcome"
  | DidStatusUpdate kobj "(error + kobj) outcome"
  | OtherCall

record 'w World =
  w_ext :: 'w
  w_log :: "event list"

text \<open>A call on the outside, logged.\<close>

definition called :: "('r outcome \<Rightarrow> event) \<Rightarrow> ('w, 'r) prog \<Rightarrow> (('w, 'z) World_scheme, 'r) prog" where
  "called ev m s = (case m (w_ext s) of (r, w) \<Rightarrow> (r, s\<lparr>w_ext := w, w_log := w_log s @ [ev r]\<rparr>))"

definition unlogged :: "('w, 'r) prog \<Rightarrow> (('w, 'z) World_scheme, 'r) prog" where
  "unlogged = called (\<lambda>_. OtherCall)"

section \<open>Reasoning about the log\<close>

text \<open>
  After a call nothing is known of the outside; the log has one more event, whose outcome is the one
  the program goes on with.
\<close>

lemma runs_called:
  assumes "\<And>r w. Q r (s\<lparr>w_ext := w, w_log := w_log s @ [ev r]\<rparr>)"
  shows "runs (called ev m) s Q"
  using assms by (simp add: runs_def called_def split: prod.split)

lemma runs_unlogged:
  assumes "\<And>r w. Q r (s\<lparr>w_ext := w, w_log := w_log s @ [OtherCall]\<rparr>)"
  shows "runs (unlogged m) s Q"
  using assms unfolding unlogged_def by (rule runs_called)

text \<open>\<open>emits E\<close>: a run only adds events that satisfy \<open>E\<close>.\<close>

definition emits :: "(event \<Rightarrow> bool) \<Rightarrow> ('w, 'z) World_scheme \<Rightarrow> ('w, 'z) World_scheme \<Rightarrow> bool" where
  "emits E s s' \<longleftrightarrow> (\<exists>tr. w_log s' = w_log s @ tr \<and> list_all E tr)"

interpretation emitting: state_preorder "emits E" for E
proof
  show "emits E s s" for s :: "('w, 'z) World_scheme" by (simp add: emits_def)
  show "emits E s s'' " if "emits E s s'" "emits E s' s''" for s s' s'' :: "('w, 'z) World_scheme"
    using that by (force simp: emits_def)
qed

lemma moves_called: "(\<And>r. E (ev r)) \<Longrightarrow> moves (emits E) (called ev m)"
  by (rule movesI) (auto simp: called_def emits_def split: prod.split)

lemma moves_unlogged: "E OtherCall \<Longrightarrow> moves (emits E) (unlogged m)"
  unfolding unlogged_def by (rule moves_called)

lemma moves_emits_modify: "(\<And>s. w_log (f s) = w_log s) \<Longrightarrow> moves (emits E) (modify f)"
  by (rule emitting.moves_modify) (simp add: emits_def)

lemma moves_emits_mono: "moves (emits E) m \<Longrightarrow> (\<And>e. E e \<Longrightarrow> E' e) \<Longrightarrow> moves (emits E') m"
  by (erule moves_weaken) (auto simp: emits_def list_all_iff)

text \<open>The events a run added.\<close>

definition newEvents :: "('w, 'z) World_scheme \<Rightarrow> ('w, 'z) World_scheme \<Rightarrow> event list" where
  "newEvents s s' = drop (length (w_log s)) (w_log s')"

lemma newEvents_append: "w_log s' = w_log s @ tr \<Longrightarrow> newEvents s s' = tr"
  by (simp add: newEvents_def)

lemma emits_newEvents: "emits E s s' \<Longrightarrow> e \<in> set (newEvents s s') \<Longrightarrow> E e"
  by (auto simp: emits_def newEvents_def list_all_iff)

text \<open>Calls on the outside change nothing else.\<close>

definition memory :: "('w, 'z) World_scheme \<Rightarrow> 'z" where
  "memory s = World.more s"

lemma moves_called_memory: "moves (same memory) (called ev m)"
  by (rule movesI) (simp add: called_def same_def memory_def split: prod.split)

lemma moves_unlogged_memory: "moves (same memory) (unlogged m)"
  unfolding unlogged_def by (rule moves_called_memory)

lemma moves_called_same:
  "(\<And>s w l. f (s\<lparr>w_ext := w, w_log := l\<rparr>) = f s) \<Longrightarrow> moves (same f) (called ev m)"
  by (rule movesI) (simp add: called_def same_def split: prod.split)

section \<open>Traces\<close>

text \<open>
  \<open>traces m s P\<close>: the run of \<open>m\<close> from \<open>s\<close> adds events to the log for which, together with the outcome,
  \<open>P\<close> holds. Its rules follow a program call by call; a call may have any outcome.
\<close>

definition traces :: "(('w, 'z) World_scheme, 'a) prog \<Rightarrow> ('w, 'z) World_scheme
    \<Rightarrow> ('a outcome \<Rightarrow> event list \<Rightarrow> bool) \<Rightarrow> bool" where
  "traces m s P = runs m s (\<lambda>r s'. \<exists>tr. w_log s' = w_log s @ tr \<and> P r tr)"

named_theorems traces_rules "rules that follow a program call by call"

lemma traces_mono: "traces m s P \<Longrightarrow> (\<And>r tr. P r tr \<Longrightarrow> Q r tr) \<Longrightarrow> traces m s Q"
  unfolding traces_def by (erule runs_mono) blast

lemma traces_ret [traces_rules]: "P (Returns x) [] \<Longrightarrow> traces (ret x) s P"
  by (simp add: traces_def runs_simps)

lemma traces_panic [traces_rules]: "P Panics [] \<Longrightarrow> traces panic s P"
  by (simp add: traces_def runs_simps)

lemma traces_hang [traces_rules]: "P Hangs [] \<Longrightarrow> traces hang s P"
  by (simp add: traces_def runs_simps)

lemma traces_called [traces_rules]: "(\<And>r. P r [ev r]) \<Longrightarrow> traces (called ev m) s P"
  unfolding traces_def by (rule runs_called) auto

lemma traces_unlogged [traces_rules]: "(\<And>r. P r [OtherCall]) \<Longrightarrow> traces (unlogged m) s P"
  unfolding unlogged_def by (rule traces_called)

lemma traces_modify [traces_rules]:
  "(\<And>s. w_log (f s) = w_log s) \<Longrightarrow> P (Returns ()) [] \<Longrightarrow> traces (modify f) s P"
  by (simp add: traces_def runs_simps)

lemma traces_reading [traces_rules]: "traces (f s) s P \<Longrightarrow> traces (reading f) s P"
  by (simp add: traces_def runs_simps)

lemma traces_emits:
  "moves (emits E) m \<Longrightarrow> (\<And>r tr. list_all E tr \<Longrightarrow> P r tr) \<Longrightarrow> traces m s P"
  by (auto simp: traces_def runs_def moves_def emits_def split: prod.split dest!: spec [of _ s])

text \<open>Sequencing: what the first program is known to do, then the rest from any state.\<close>

lemma traces_andThen_of:
  fixes s :: "('w, 'z) World_scheme"
  assumes m: "traces m s M"
    and k: "\<And>x tr s'. M (Returns x) tr \<Longrightarrow> traces (k x) s' (\<lambda>r tr'. P r (tr @ tr'))"
    and p: "\<And>tr. M Panics tr \<Longrightarrow> P Panics tr" and h: "\<And>tr. M Hangs tr \<Longrightarrow> P Hangs tr"
  shows "traces (andThen m k) s P"
  unfolding traces_def runs_andThen
proof (rule runs_mono [OF m [unfolded traces_def]])
  fix r and s' :: "('w, 'z) World_scheme" assume "\<exists>tr. w_log s' = w_log s @ tr \<and> M r tr"
  then obtain tr where tr: "w_log s' = w_log s @ tr" "M r tr" by blast
  show "case r of Returns x \<Rightarrow> runs (k x) s' (\<lambda>r s'. \<exists>tr. w_log s' = w_log s @ tr \<and> P r tr)
      | Panics \<Rightarrow> \<exists>tr. w_log s' = w_log s @ tr \<and> P Panics tr
      | Hangs \<Rightarrow> \<exists>tr. w_log s' = w_log s @ tr \<and> P Hangs tr"
  proof (cases r)
    case (Returns x)
    with k [of x tr s'] tr show ?thesis
      by (auto simp: traces_def elim!: runs_mono)
  qed (use tr p h in auto)
qed

lemma traces_attempt_of:
  assumes m: "traces m s M"
    and h: "\<And>e tr s'. M (Returns (Inl e)) tr \<Longrightarrow> traces (h e) s' (\<lambda>r tr'. P r (tr @ tr'))"
    and k: "\<And>x tr s'. M (Returns (Inr x)) tr \<Longrightarrow> traces (k x) s' (\<lambda>r tr'. P r (tr @ tr'))"
    and "\<And>tr. M Panics tr \<Longrightarrow> P Panics tr" and "\<And>tr. M Hangs tr \<Longrightarrow> P Hangs tr"
  shows "traces (attempt m h k) s P"
  unfolding attempt_def
  by (rule traces_andThen_of [OF m]) (use assms in \<open>auto split: sum.split\<close>)

lemma traces_guarded_of:
  assumes m: "traces m s M"
    and h: "\<And>e tr s'. M (Returns (Some e)) tr \<Longrightarrow> traces (h e) s' (\<lambda>r tr'. P r (tr @ tr'))"
    and k: "\<And>tr s'. M (Returns None) tr \<Longrightarrow> traces k s' (\<lambda>r tr'. P r (tr @ tr'))"
    and "\<And>tr. M Panics tr \<Longrightarrow> P Panics tr" and "\<And>tr. M Hangs tr \<Longrightarrow> P Hangs tr"
  shows "traces (guarded m h k) s P"
  unfolding guarded_def
  by (rule traces_andThen_of [OF m]) (use assms in \<open>auto split: option.split\<close>)

lemma traces_andThen_called [traces_rules]:
  assumes "\<And>x s'. traces (k x) s' (\<lambda>r tr. P r (ev (Returns x) # tr))"
    and "P Panics [ev Panics]" and "P Hangs [ev Hangs]"
  shows "traces (andThen (called ev m) k) s P"
  by (rule traces_andThen_of [where M = "\<lambda>r tr. tr = [ev r]"]) (use assms in \<open>auto intro: traces_called\<close>)

lemma traces_attempt_called [traces_rules]:
  assumes "\<And>e s'. traces (h e) s' (\<lambda>r tr. P r (ev (Returns (Inl e)) # tr))"
    and "\<And>x s'. traces (k x) s' (\<lambda>r tr. P r (ev (Returns (Inr x)) # tr))"
    and "P Panics [ev Panics]" and "P Hangs [ev Hangs]"
  shows "traces (attempt (called ev m) h k) s P"
  by (rule traces_attempt_of [where M = "\<lambda>r tr. tr = [ev r]"]) (use assms in \<open>auto intro: traces_called\<close>)

lemma traces_guarded_called [traces_rules]:
  assumes "\<And>e s'. traces (h e) s' (\<lambda>r tr. P r (ev (Returns (Some e)) # tr))"
    and "\<And>s'. traces k s' (\<lambda>r tr. P r (ev (Returns None) # tr))"
    and "P Panics [ev Panics]" and "P Hangs [ev Hangs]"
  shows "traces (guarded (called ev m) h k) s P"
  by (rule traces_guarded_of [where M = "\<lambda>r tr. tr = [ev r]"]) (use assms in \<open>auto intro: traces_called\<close>)

lemma traces_deferred_of:
  fixes s :: "('w, 'z) World_scheme"
  assumes m: "traces m s M"
    and d: "\<And>r tr s'. M r tr \<Longrightarrow> r \<noteq> Hangs \<Longrightarrow>
        traces d s' (\<lambda>r' tr'. P (case r' of Returns _ \<Rightarrow> r | Panics \<Rightarrow> Panics | Hangs \<Rightarrow> Hangs) (tr @ tr'))"
    and h: "\<And>tr. M Hangs tr \<Longrightarrow> P Hangs tr"
  shows "traces (deferred d m) s P"
  unfolding traces_def runs_deferred
proof (rule runs_mono [OF m [unfolded traces_def]])
  fix r and s' :: "('w, 'z) World_scheme" assume "\<exists>tr. w_log s' = w_log s @ tr \<and> M r tr"
  then obtain tr where tr: "w_log s' = w_log s @ tr" "M r tr" by blast
  show "if r = Hangs then \<exists>tr. w_log s' = w_log s @ tr \<and> P Hangs tr else
      runs d s' (\<lambda>r' s''. case r' of Returns x \<Rightarrow> \<exists>tr. w_log s'' = w_log s @ tr \<and> P r tr
        | Panics \<Rightarrow> \<exists>tr. w_log s'' = w_log s @ tr \<and> P Panics tr
        | Hangs \<Rightarrow> \<exists>tr. w_log s'' = w_log s @ tr \<and> P Hangs tr)"
    using tr h d [of r tr s'] by (auto simp: traces_def elim!: runs_mono split: outcome.splits)
qed

text \<open>A deferred program that adds no event.\<close>

lemma traces_deferred_silent:
  assumes "\<And>s. w_log (f s) = w_log s" and "traces m s P"
  shows "traces (deferred (modify f) m) s P"
  by (rule traces_deferred_of [OF assms(2)]) (auto intro: traces_modify assms(1))

lemma traces_deref [traces_rules]:
  "(p = None \<Longrightarrow> P Panics []) \<Longrightarrow> (\<And>x. p = Some x \<Longrightarrow> traces (k x) s P) \<Longrightarrow> traces (deref p k) s P"
  by (cases p) (auto simp: deref_def intro: traces_panic)

lemma traces_if [traces_rules]:
  "(b \<Longrightarrow> traces m s P) \<Longrightarrow> (\<not> b \<Longrightarrow> traces n s P) \<Longrightarrow> traces (if b then m else n) s P"
  by simp

lemma traces_option [traces_rules]:
  "(p = None \<Longrightarrow> traces m s P) \<Longrightarrow> (\<And>x. p = Some x \<Longrightarrow> traces (k x) s P) \<Longrightarrow>
     traces (case p of None \<Rightarrow> m | Some x \<Rightarrow> k x) s P"
  by (cases p) simp_all

lemma traces_sum [traces_rules]:
  "(\<And>e. p = Inl e \<Longrightarrow> traces (h e) s P) \<Longrightarrow> (\<And>x. p = Inr x \<Longrightarrow> traces (k x) s P) \<Longrightarrow>
     traces (case p of Inl e \<Rightarrow> h e | Inr x \<Rightarrow> k x) s P"
  by (cases p) simp_all

lemma traces_prod [traces_rules]:
  "(\<And>x y. p = (x, y) \<Longrightarrow> traces (k x y) s P) \<Longrightarrow> traces (case p of (x, y) \<Rightarrow> k x y) s P"
  by (cases p) simp

lemma traces_let [traces_rules]: "(\<And>x. x = t \<Longrightarrow> traces (k x) s P) \<Longrightarrow> traces (let x = t in k x) s P"
  by simp

lemma yields_called [yields_rules]: "(\<And>w x w'. m w = (Returns x, w') \<Longrightarrow> P x) \<Longrightarrow> yields P (called ev m)"
  by (auto simp: yields_def called_def split: prod.splits)

lemma answers_called: "(\<And>w x w'. m w = (Returns (Inr x), w') \<Longrightarrow> P x) \<Longrightarrow> answers P (called ev m)"
  by (rule yields_called, rename_tac x w', case_tac x) auto

section \<open>Order of events\<close>

text \<open>
  \<open>orderly W before tr\<close>: every event \<open>e\<close> of \<open>tr\<close> comes after events that \<open>W e\<close> asks for, one for each
  of its predicates, in \<open>tr\<close> or in \<open>before\<close>.
\<close>

fun orderly :: "(event \<Rightarrow> (event \<Rightarrow> bool) list) \<Rightarrow> event list \<Rightarrow> event list \<Rightarrow> bool" where
  "orderly W before [] = True"
| "orderly W before (e # tr) \<longleftrightarrow>
     list_all (\<lambda>p. \<exists>e'\<in>set before. p e') (W e) \<and> orderly W (before @ [e]) tr"

lemma orderly_append:
  "orderly W before (tr @ tr') \<longleftrightarrow> orderly W before tr \<and> orderly W (before @ tr) tr'"
  by (induction tr arbitrary: before) auto

lemma orderly_mono: "orderly W before tr \<Longrightarrow> set before \<subseteq> set before' \<Longrightarrow> orderly W before' tr"
proof (induction tr arbitrary: before before')
  case (Cons e tr)
  have "orderly W (before' @ [e]) tr"
    by (rule Cons.IH [of "before @ [e]"]) (use Cons.prems in auto)
  moreover have "list_all (\<lambda>p. \<exists>e'\<in>set before'. p e') (W e)"
    using Cons.prems by (fastforce simp: list_all_iff)
  ultimately show ?case by simp
qed simp

lemma orderly_quiet: "list_all (\<lambda>e. W e = []) tr \<Longrightarrow> orderly W before tr"
  by (induction tr arbitrary: before) auto

lemma orderly_nth:
  "orderly W before tr \<Longrightarrow> tr = pre @ e # post \<Longrightarrow> p \<in> set (W e) \<Longrightarrow> \<exists>e'\<in>set before \<union> set pre. p e'"
  by (auto simp: orderly_append list_all_iff)

text \<open>A stretch of events that were all allowed before it began, and stretches one after the other.\<close>

lemma orderly_licensed:
  "(\<And>e p. e \<in> set tr \<Longrightarrow> p \<in> set (W e) \<Longrightarrow> \<exists>e'\<in>set before. p e') \<Longrightarrow> orderly W before tr"
proof (induction tr arbitrary: before)
  case (Cons e tr)
  have "orderly W (before @ [e]) tr" by (rule Cons.IH) (use Cons.prems in fastforce)
  then show ?case using Cons.prems by (auto simp: list_all_iff)
qed simp

text \<open>A call of which more is known than that it may answer anything.\<close>

lemma traces_called_of:
  "(\<And>r w w'. m w = (r, w') \<Longrightarrow> P r [ev r]) \<Longrightarrow> traces (called ev m) s P"
  by (auto simp: traces_def runs_def called_def split: prod.split)

lemma traces_newEvents: "traces m s P \<Longrightarrow> m s = (r, s') \<Longrightarrow> P r (newEvents s s')"
  by (auto simp: traces_def runs_def newEvents_append)

end
