(* ===== verification/Registry.thy ===== *)
theory Registry
  imports Prelude
begin

text \<open>
  The contract that the two stores of \<^verbatim>\<open>internal/store\<close> share. A store registers a resource under its
  UID with a generation, replaces it when it is registered again, forgets it when it is deregistered,
  and answers lookups. \<open>AuthStore\<close> and \<open>HostStore\<close> each interpret this locale with their own
  operations; what is proved here then holds of both.
\<close>

locale registry =
  fixes lookup :: "'s \<Rightarrow> string \<rightharpoonup> 'e"
    and generation :: "'e \<Rightarrow> int"
    and register :: "string \<Rightarrow> int \<Rightarrow> 'a \<Rightarrow> ('s, error option) prog"
    and deregister :: "string \<Rightarrow> ('s, unit) prog"
  assumes register_ok: "register u g a s = (Returns None, s') \<Longrightarrow>
      \<exists>e. lookup s' u = Some e \<and> generation e = g"
    and register_failed: "register u g a s = (Returns (Some err), s') \<Longrightarrow> lookup s' = lookup s"
    and register_other: "register u g a s = (r, s') \<Longrightarrow> v \<noteq> u \<Longrightarrow> lookup s' v = lookup s v"
    and deregister_all: "deregister u s = (Returns x, s') \<Longrightarrow> lookup s' = (lookup s)(u := None)"
begin

text \<open>The abstract view: which UIDs are registered, with which generation.\<close>

definition view :: "'s \<Rightarrow> string \<rightharpoonup> int" where
  "view s u = map_option generation (lookup s u)"

lemma view_register: "register u g a s = (Returns None, s') \<Longrightarrow> view s' = (view s)(u \<mapsto> g)"
  using register_ok [of u g a s s'] register_other [of u g a s "Returns None" s']
  by (auto simp: view_def fun_eq_iff)

lemma view_register_failed: "register u g a s = (Returns (Some err), s') \<Longrightarrow> view s' = view s"
  by (auto simp: view_def fun_eq_iff dest: register_failed)

lemma view_deregister: "deregister u s = (Returns x, s') \<Longrightarrow> view s' = (view s)(u := None)"
  by (auto simp: view_def fun_eq_iff dest: deregister_all)

text \<open>A resource that is up to date (as the controllers test it) stays so until it is registered again
  or deregistered.\<close>

lemma view_frame: "register u g a s = (r, s') \<Longrightarrow> v \<noteq> u \<Longrightarrow> view s' v = view s v"
  by (auto simp: view_def dest: register_other)

text \<open>Registering twice is registering the second time; deregistering undoes both.\<close>

lemma view_register_twice:
  "register u g a s = (Returns None, s') \<Longrightarrow> register u g' a' s' = (Returns None, s'') \<Longrightarrow>
     view s'' = (view s)(u \<mapsto> g')"
  by (simp add: view_register)

lemma view_register_deregister:
  "register u g a s = (Returns None, s') \<Longrightarrow> deregister u s' = (Returns x, s'') \<Longrightarrow>
     view s'' = (view s)(u := None)"
  by (simp add: view_register view_deregister)

end

end
