(* ===== verification/HostStore.thy ===== *)
theory HostStore
  imports World Registry
begin

text \<open>
  The store of connections (\<^verbatim>\<open>internal/store/host.go\<close>). An entry has a generation, a client and a set of
  open sessions; a goroutine, its monitor, reconnects the client when the connection is lost and
  disconnects it when the entry is replaced or dropped and its sessions have ended.

  The parts of an entry that never change (generation, client) are in the record \<open>HostEntry\<close> with the
  address of the entry; the parts that do change (sessions, state of the monitor) are kept by address,
  because an entry outlives its registration. The mutexes make the operations here atomic; what the
  monitor does between them is in theory \<open>HostMonitor\<close>.

  Sending on the unbuffered channel \<open>mon\<close> waits for the monitor to receive. A monitor that has left its
  loop never receives, so the send hangs.
\<close>

section \<open>Dialers\<close>

text \<open>
  A dialer of \<^verbatim>\<open>go-libvirt/socket/dialers\<close> is opaque to the operator; the model keeps the call that
  constructs it.
\<close>

datatype SSHOption =
    WithSSHAuthMethods_PrivKey | UseKeyFile "string list" | UseSSHUsername string
  | WithAcceptUnknownHostKey | UseKnownHostsFile "string list" | UseSSHPort string

datatype TLSOption =
    UsePKIPath "string list" | WithInsecureNoVerify | UseTLSPort string

datatype Dialer = NewSSH string "SSHOption list" | NewTLS string "TLSOption list"

section \<open>State\<close>

datatype monitor =
    NotStarted
  | Watching
  | Draining \<comment> \<open>told to disconnect, waiting for the sessions to end\<close>
  | Disconnecting \<comment> \<open>about to call \<open>Disconnect\<close>\<close>
  | Stopped

record 'w HostEntry =
  he_addr :: nat
  he_generation :: int
  he_client :: "'w Client"

record 'w HostSys = "'w World" +
  hs_entries :: "string \<rightharpoonup> 'w HostEntry"
  hs_next :: nat
  hs_sessions :: "nat \<Rightarrow> string set"
  hs_monitor :: "nat \<Rightarrow> monitor"

text \<open>What the store calls outside: \<open>host.New\<close> and \<open>uuid.NewUUID\<close>.\<close>

record 'w hostlib =
  host_New :: "Dialer \<Rightarrow> nat \<Rightarrow> 'w Client"
  NewUUID :: "('w, string) prog"

definition ErrClientNotConnected :: string where
  "ErrClientNotConnected = ''client is not connected''"

definition NewHostStore :: "string \<rightharpoonup> 'w HostEntry" where
  "NewHostStore = Map.empty"

section \<open>The client of an entry\<close>

text \<open>The methods of a client as programs over the operator's state, logged.\<close>

abbreviation query :: "nat \<Rightarrow> ('w, 'r) prog \<Rightarrow> (('w, 'z) World_scheme, 'r) prog" where
  "query a \<equiv> called (\<lambda>_. OnHost a HostQuery)"

definition observed :: "nat \<Rightarrow> 'w Client \<Rightarrow> ('w, 'z) World_scheme Client" where
  "observed a c = \<lparr>
     Capabilities = query a (Capabilities c),
     Connect = called (\<lambda>r. OnHost a (DidConnect r)) (Connect c),
     Disconnected = query a (Disconnected c),
     Disconnect = called (\<lambda>r. OnHost a (DidDisconnect r)) (Disconnect c),
     DomainBlockResize = (\<lambda>d disk n f. called (\<lambda>r. OnHost a (DidDomainBlockResize d disk n r))
       (DomainBlockResize c d disk n f)),
     DomainCreate = (\<lambda>d. called (\<lambda>r. OnHost a (DidDomainCreate d r)) (DomainCreate c d)),
     DomainDefineXML = (\<lambda>xml. called (\<lambda>r. OnHost a (DidDomainDefineXML xml r)) (DomainDefineXML c xml)),
     DomainGetState = (\<lambda>d f. called (\<lambda>r. OnHost a (SawDomainState d r)) (DomainGetState c d f)),
     DomainGetXMLDesc = (\<lambda>d f. query a (DomainGetXMLDesc c d f)),
     DomainLookupByName = (\<lambda>n. called (\<lambda>r. OnHost a (LookedUpDomain n r)) (DomainLookupByName c n)),
     DomainShutdown = (\<lambda>d. called (\<lambda>r. OnHost a (DidDomainShutdown d r)) (DomainShutdown c d)),
     DomainUndefineFlags = (\<lambda>d f. called (\<lambda>r. OnHost a (DidDomainUndefine d r)) (DomainUndefineFlags c d f)),
     IsConnected = query a (IsConnected c),
     NetworkIsActive = (\<lambda>n. query a (NetworkIsActive c n)),
     NetworkLookupByName = (\<lambda>n. query a (NetworkLookupByName c n)),
     NodeDeviceGetXMLDesc = (\<lambda>n f. query a (NodeDeviceGetXMLDesc c n f)),
     NodeDeviceIsActive = (\<lambda>n. query a (NodeDeviceIsActive c n)),
     NodeDeviceLookupByName = (\<lambda>n. query a (NodeDeviceLookupByName c n)),
     NodeGetMemoryStats = (\<lambda>n cell f. query a (NodeGetMemoryStats c n cell f)),
     StoragePoolGetInfo = (\<lambda>p. query a (StoragePoolGetInfo c p)),
     StoragePoolIsActive = (\<lambda>p. query a (StoragePoolIsActive c p)),
     StoragePoolLookupByName = (\<lambda>n. query a (StoragePoolLookupByName c n)),
     StorageVolLookupByKey = (\<lambda>k. query a (StorageVolLookupByKey c k)),
     StorageVolLookupByName = (\<lambda>p n. called (\<lambda>r. OnHost a (LookedUpVolume p n r)) (StorageVolLookupByName c p n)),
     StorageVolGetXMLDesc = (\<lambda>v f. query a (StorageVolGetXMLDesc c v f)),
     StorageVolCreateXML = (\<lambda>p xml f. called (\<lambda>r. OnHost a (DidStorageVolCreateXML p xml r))
       (StorageVolCreateXML c p xml f)),
     StorageVolUpload = (\<lambda>v bs off len f. called (\<lambda>r. OnHost a (DidStorageVolUpload v bs r))
       (StorageVolUpload c v bs off len f)),
     StorageVolResize = (\<lambda>v n f. called (\<lambda>r. OnHost a (DidStorageVolResize v n r)) (StorageVolResize c v n f)),
     StorageVolDelete = (\<lambda>v f. called (\<lambda>r. OnHost a (DidStorageVolDelete v r)) (StorageVolDelete c v f))\<rparr>"

lemma observed_select:
  "Capabilities (observed a c) = query a (Capabilities c)"
  "Connect (observed a c) = called (\<lambda>r. OnHost a (DidConnect r)) (Connect c)"
  "Disconnected (observed a c) = query a (Disconnected c)"
  "Disconnect (observed a c) = called (\<lambda>r. OnHost a (DidDisconnect r)) (Disconnect c)"
  "DomainBlockResize (observed a c) d disk b f4 =
     called (\<lambda>r. OnHost a (DidDomainBlockResize d disk b r)) (DomainBlockResize c d disk b f4)"
  "DomainCreate (observed a c) d = called (\<lambda>r. OnHost a (DidDomainCreate d r)) (DomainCreate c d)"
  "DomainDefineXML (observed a c) xml = called (\<lambda>r. OnHost a (DidDomainDefineXML xml r)) (DomainDefineXML c xml)"
  "DomainGetState (observed a c) d f7 = called (\<lambda>r. OnHost a (SawDomainState d r)) (DomainGetState c d f7)"
  "DomainGetXMLDesc (observed a c) d f8 = query a (DomainGetXMLDesc c d f8)"
  "DomainLookupByName (observed a c) n = called (\<lambda>r. OnHost a (LookedUpDomain n r)) (DomainLookupByName c n)"
  "DomainShutdown (observed a c) d = called (\<lambda>r. OnHost a (DidDomainShutdown d r)) (DomainShutdown c d)"
  "DomainUndefineFlags (observed a c) d f11 = called (\<lambda>r. OnHost a (DidDomainUndefine d r)) (DomainUndefineFlags c d f11)"
  "IsConnected (observed a c) = query a (IsConnected c)"
  "NetworkIsActive (observed a c) nw = query a (NetworkIsActive c nw)"
  "NetworkLookupByName (observed a c) n = query a (NetworkLookupByName c n)"
  "NodeDeviceGetXMLDesc (observed a c) n f15 = query a (NodeDeviceGetXMLDesc c n f15)"
  "NodeDeviceIsActive (observed a c) n = query a (NodeDeviceIsActive c n)"
  "NodeDeviceLookupByName (observed a c) n = query a (NodeDeviceLookupByName c n)"
  "NodeGetMemoryStats (observed a c) k cell f18 = query a (NodeGetMemoryStats c k cell f18)"
  "StoragePoolGetInfo (observed a c) p = query a (StoragePoolGetInfo c p)"
  "StoragePoolIsActive (observed a c) p = query a (StoragePoolIsActive c p)"
  "StoragePoolLookupByName (observed a c) n = query a (StoragePoolLookupByName c n)"
  "StorageVolLookupByKey (observed a c) key = query a (StorageVolLookupByKey c key)"
  "StorageVolLookupByName (observed a c) p n =
     called (\<lambda>r. OnHost a (LookedUpVolume p n r)) (StorageVolLookupByName c p n)"
  "StorageVolGetXMLDesc (observed a c) v f24 = query a (StorageVolGetXMLDesc c v f24)"
  "StorageVolCreateXML (observed a c) p xml f25 =
     called (\<lambda>r. OnHost a (DidStorageVolCreateXML p xml r)) (StorageVolCreateXML c p xml f25)"
  "StorageVolUpload (observed a c) v bs off len f26 =
     called (\<lambda>r. OnHost a (DidStorageVolUpload v bs r)) (StorageVolUpload c v bs off len f26)"
  "StorageVolResize (observed a c) v b f27 = called (\<lambda>r. OnHost a (DidStorageVolResize v b r)) (StorageVolResize c v b f27)"
  "StorageVolDelete (observed a c) v f28 = called (\<lambda>r. OnHost a (DidStorageVolDelete v r)) (StorageVolDelete c v f28)"
  by (simp_all add: observed_def)

section \<open>Operations\<close>

definition newEntry :: "('w, 'e) hostlib_scheme \<Rightarrow> int \<Rightarrow> Dialer \<Rightarrow> (('w, 'z) HostSys_scheme, 'w HostEntry) prog" where
  "newEntry lib generation dialer s =
     (let a = hs_next s in
      (Returns \<lparr>he_addr = a, he_generation = generation, he_client = host_New lib dialer a\<rparr>,
       s\<lparr>hs_next := Suc a, hs_sessions := (hs_sessions s)(a := {}),
         hs_monitor := (hs_monitor s)(a := NotStarted)\<rparr>))"

definition setMonitor :: "nat \<Rightarrow> monitor \<Rightarrow> (('w, 'z) HostSys_scheme, unit) prog" where
  "setMonitor a m = modify (\<lambda>s. s\<lparr>hs_monitor := (hs_monitor s)(a := m)\<rparr>)"

text \<open>\<open>entry.mon <- struct{}{}\<close>\<close>

definition sendMon :: "'w HostEntry \<Rightarrow> (('w, 'z) HostSys_scheme, unit) prog" where
  "sendMon entry = reading (\<lambda>s.
     if hs_monitor s (he_addr entry) = Watching then setMonitor (he_addr entry) Draining else hang)"

definition HostRegister :: "('w, 'e) hostlib_scheme \<Rightarrow> string \<Rightarrow> int \<Rightarrow> Dialer
    \<Rightarrow> (('w, 'z) HostSys_scheme, unit) prog" where
  "HostRegister lib uid generation dialer = reading (\<lambda>s.
     let oldEntry = hs_entries s uid in
     andThen (newEntry lib generation dialer) (\<lambda>entry.
     andThen (Connect (observed (he_addr entry) (he_client entry))) (\<lambda>err.
     andThen (setMonitor (he_addr entry) Watching) (\<lambda>_.
     andThen (modify (\<lambda>s. s\<lparr>hs_entries := (hs_entries s)(uid \<mapsto> entry)\<rparr>)) (\<lambda>_.
     case oldEntry of None \<Rightarrow> ret () | Some old \<Rightarrow> sendMon old)))))"

definition HostDeregister :: "string \<Rightarrow> (('w, 'z) HostSys_scheme, unit) prog" where
  "HostDeregister uid = reading (\<lambda>s.
     case hs_entries s uid of
       None \<Rightarrow> ret ()
     | Some entry \<Rightarrow>
         andThen (modify (\<lambda>s. s\<lparr>hs_entries := (hs_entries s)(uid := None)\<rparr>)) (\<lambda>_. sendMon entry))"

definition HostLookup :: "('w, 'z) HostSys_scheme \<Rightarrow> string \<rightharpoonup> 'w HostEntry" where
  "HostLookup s uid = hs_entries s uid"

text \<open>A session is the client and the function that ends it.\<close>

definition endSession :: "nat \<Rightarrow> string \<Rightarrow> (('w, 'z) HostSys_scheme, unit) prog" where
  "endSession a sessionID =
     modify (\<lambda>s. s\<lparr>hs_sessions := (hs_sessions s)(a := hs_sessions s a - {sessionID})\<rparr>)"

definition Session :: "('w, 'e) hostlib_scheme \<Rightarrow> 'w HostEntry
    \<Rightarrow> (('w, 'z) HostSys_scheme, error + ('w, 'z) HostSys_scheme Client \<times> (('w, 'z) HostSys_scheme, unit) prog) prog" where
  "Session lib e =
     (let a = he_addr e; client = observed a (he_client e) in
      andThen (IsConnected client) (\<lambda>connected.
      if \<not> connected then ret (Inl (PlainError ErrClientNotConnected))
      else andThen (unlogged (NewUUID lib)) (\<lambda>sessionID.
      andThen (modify (\<lambda>s. s\<lparr>hs_sessions := (hs_sessions s)(a := insert sessionID (hs_sessions s a))\<rparr>)) (\<lambda>_.
      ret (Inr (client, endSession a sessionID))))))"

section \<open>The contract of a registry\<close>

text \<open>\<open>Register\<close> has no error result: a connection that fails is left to the monitor.\<close>

definition HostRegister' :: "('w, 'e) hostlib_scheme \<Rightarrow> string \<Rightarrow> int \<Rightarrow> Dialer
    \<Rightarrow> (('w, 'z) HostSys_scheme, error option) prog" where
  "HostRegister' lib uid generation dialer = andThen (HostRegister lib uid generation dialer) (\<lambda>_. ret None)"

lemma runs_newEntry:
  "runs (newEntry lib g d) s Q =
     Q (Returns \<lparr>he_addr = hs_next s, he_generation = g, he_client = host_New lib d (hs_next s)\<rparr>)
       (s\<lparr>hs_next := Suc (hs_next s), hs_sessions := (hs_sessions s)(hs_next s := {}),
          hs_monitor := (hs_monitor s)(hs_next s := NotStarted)\<rparr>)"
  by (simp add: runs_def newEntry_def Let_def)

lemma runs_setMonitor:
  "runs (setMonitor a m) s Q = Q (Returns ()) (s\<lparr>hs_monitor := (hs_monitor s)(a := m)\<rparr>)"
  by (simp add: setMonitor_def runs_modify)

lemma runs_sendMon:
  "runs (sendMon e) s Q =
     (if hs_monitor s (he_addr e) = Watching
      then Q (Returns ()) (s\<lparr>hs_monitor := (hs_monitor s)(he_addr e := Draining)\<rparr>) else Q Hangs s)"
  by (simp add: sendMon_def runs_simps runs_setMonitor)

lemmas host_runs = runs_simps runs_newEntry runs_setMonitor runs_sendMon


text \<open>How registering ends: with the entry set, unless the call to \<open>Connect\<close> did not return.\<close>

definition host_registered :: "('w, 'e) hostlib_scheme \<Rightarrow> string \<Rightarrow> int \<Rightarrow> Dialer \<Rightarrow> ('w, 'z) HostSys_scheme
    \<Rightarrow> unit outcome \<Rightarrow> ('w, 'z) HostSys_scheme \<Rightarrow> bool" where
  "host_registered lib uid g d s r s' \<longleftrightarrow>
     (let entry = \<lparr>he_addr = hs_next s, he_generation = g, he_client = host_New lib d (hs_next s)\<rparr> in
      hs_next s' = Suc (hs_next s) \<and> hs_sessions s' = (hs_sessions s)(hs_next s := {}) \<and>
      (hs_entries s' = (hs_entries s)(uid \<mapsto> entry) \<or> r \<noteq> Returns () \<and> hs_entries s' = hs_entries s))"

lemma HostRegister_registered:
  "runs (HostRegister lib uid g d) s (host_registered lib uid g d s)"
  unfolding HostRegister_def Let_def runs_reading runs_andThen runs_newEntry
  by (auto simp: observed_def host_runs host_registered_def Let_def intro!: runs_called
      split: outcome.split option.split)

lemma HostDeregister_result:
  "runs (HostDeregister uid) s (\<lambda>r s'. hs_entries s' = (hs_entries s)(uid := None) \<and> hs_next s' = hs_next s \<and>
     hs_sessions s' = hs_sessions s)"
  by (auto simp: HostDeregister_def host_runs split: option.split)

interpretation host_registry: registry HostLookup he_generation "HostRegister' lib" HostDeregister
  for lib :: "('w, 'e) hostlib_scheme"
proof
  fix u g d and s s' :: "('w, 'z) HostSys_scheme" and r
  have post: "runs (HostRegister' lib u g d) s (\<lambda>r s'.
      (hs_entries s' = hs_entries s \<and> r \<noteq> Returns None) \<or>
      (r \<notin> range (\<lambda>e. Returns (Some e)) \<and> (\<exists>e. hs_entries s' = (hs_entries s)(u \<mapsto> e) \<and> he_generation e = g)))"
    unfolding HostRegister'_def runs_andThen
    by (rule runs_mono [OF HostRegister_registered])
      (auto simp: host_registered_def Let_def runs_ret split: outcome.split)
  show "\<exists>e. HostLookup s' u = Some e \<and> he_generation e = g" if "HostRegister' lib u g d s = (Returns None, s')"
    using runsD [OF post that] by (auto simp: HostLookup_def)
  show "HostLookup s' = HostLookup s" if "HostRegister' lib u g d s = (Returns (Some err), s')" for err
    using runsD [OF post that] by (auto simp: HostLookup_def fun_eq_iff)
  show "HostLookup s' v = HostLookup s v" if "HostRegister' lib u g d s = (r, s')" "v \<noteq> u" for v
    using runsD [OF post that(1)] that(2) by (auto simp: HostLookup_def)
next
  fix u and s s' :: "('w, 'z) HostSys_scheme" and x
  assume "HostDeregister u s = (Returns x, s')"
  from runsD [OF HostDeregister_result this] show "HostLookup s' = (HostLookup s)(u := None)"
    by (auto simp: HostLookup_def fun_eq_iff)
qed

section \<open>No operation of the store waits for ever\<close>

text \<open>
  Between operations every registered entry has a monitor in its loop, and no two UIDs share an entry.
\<close>

definition host_store_ok :: "('w, 'z) HostSys_scheme \<Rightarrow> bool" where
  "host_store_ok s \<longleftrightarrow>
     (\<forall>u e. hs_entries s u = Some e \<longrightarrow> hs_monitor s (he_addr e) = Watching \<and> he_addr e < hs_next s) \<and>
     (\<forall>u v e f. hs_entries s u = Some e \<and> hs_entries s v = Some f \<and> he_addr e = he_addr f \<longrightarrow> u = v)"

lemma host_store_okD:
  "host_store_ok s \<Longrightarrow> hs_entries s u = Some e \<Longrightarrow> hs_monitor s (he_addr e) = Watching \<and> he_addr e < hs_next s"
  "host_store_ok s \<Longrightarrow> hs_entries s u = Some e \<Longrightarrow> hs_entries s v = Some f \<Longrightarrow> he_addr e = he_addr f \<Longrightarrow> u = v"
  by (auto simp: host_store_ok_def)

lemma HostDeregister_ok:
  assumes ok: "host_store_ok s"
  shows "runs (HostDeregister uid) s (\<lambda>r s'. r = Returns () \<and> host_store_ok s')"
proof (cases "hs_entries s uid")
  case None
  with ok show ?thesis by (simp add: HostDeregister_def host_runs)
next
  case (Some e)
  note e = host_store_okD(1) [OF ok this]
  have "hs_entries s v = Some f \<Longrightarrow> v \<noteq> uid \<Longrightarrow> he_addr f \<noteq> he_addr e" for v f
    using host_store_okD(2) [OF ok Some] by metis
  with e ok Some show ?thesis
    by (auto simp: HostDeregister_def host_runs host_store_ok_def)
qed

lemma host_store_ok_insert:
  assumes ok: "host_store_ok s" and new: "he_addr e = hs_next s"
    and en: "hs_entries s' = (hs_entries s)(u \<mapsto> e)" and nx: "hs_next s' = Suc (hs_next s)"
    and mine: "hs_monitor s' (hs_next s) = Watching"
    and others: "\<And>v f. v \<noteq> u \<Longrightarrow> hs_entries s v = Some f \<Longrightarrow> hs_monitor s' (he_addr f) = Watching"
  shows "host_store_ok s'"
proof -
  have lt: "he_addr f < hs_next s" if "hs_entries s v = Some f" for v f
    using host_store_okD(1) [OF ok that] by simp
  have "hs_monitor s' (he_addr f) = Watching \<and> he_addr f < hs_next s'" if "hs_entries s' v = Some f" for v f
    using that mine new nx en others [of v f] lt [of v f] by (cases "v = u") auto
  moreover have "v = w" if "hs_entries s' v = Some f" "hs_entries s' w = Some f'" "he_addr f = he_addr f'" for v w f f'
    using that en new lt [of v f] lt [of w f'] host_store_okD(2) [OF ok, of v f w f']
    by (cases "v = u"; cases "w = u") auto
  ultimately show ?thesis unfolding host_store_ok_def by blast
qed

lemma host_store_ok_new:
  assumes ok: "host_store_ok s" and en: "hs_entries s' = hs_entries s" and nx: "hs_next s' = Suc (hs_next s)"
    and mon: "\<And>a. a \<noteq> hs_next s \<Longrightarrow> hs_monitor s' a = hs_monitor s a"
  shows "host_store_ok s'"
proof -
  have "hs_monitor s' (he_addr e) = Watching \<and> he_addr e < hs_next s'" if "hs_entries s u = Some e" for u e
    using host_store_okD(1) [OF ok that] nx mon [of "he_addr e"] by simp
  with ok en show ?thesis unfolding host_store_ok_def by simp
qed

lemma host_store_ok_frame [simp]:
  "host_store_ok (s\<lparr>hs_sessions := x\<rparr>) = host_store_ok s" "host_store_ok (s\<lparr>w_ext := w\<rparr>) = host_store_ok s"
  "host_store_ok (s\<lparr>w_log := l\<rparr>) = host_store_ok s"
  by (simp_all add: host_store_ok_def)

text \<open>Registering keeps the invariant, and returns when the attempt to connect returns, with or without an error.\<close>

lemma HostRegister_keeps:
  fixes s :: "('w, 'z) HostSys_scheme"
  assumes ok: "host_store_ok s"
  shows "runs (HostRegister lib uid g d) s (\<lambda>r s'. host_store_ok s' \<and>
    (r = Returns () \<or> (\<nexists>x w. Connect (host_New lib d (hs_next s)) (w_ext s) = (Returns x, w))))"
proof -
  obtain rc w where con: "Connect (host_New lib d (hs_next s)) (w_ext s) = (rc, w)" by fastforce
  note unfold = HostRegister_def host_runs Let_def observed_def called_def runs_def [of "called _ _"]
  show ?thesis
  proof (cases rc)
    case (Returns r)
    show ?thesis
    proof (cases "hs_entries s uid")
      case None
      have "hs_monitor s (he_addr f) = Watching \<and> he_addr f \<noteq> hs_next s" if "hs_entries s v = Some f" for v f
        using host_store_okD(1) [OF ok that] by simp
      with None con Returns show ?thesis
        by (simp add: unfold) (rule host_store_ok_insert [OF ok], simp_all)
    next
      case (Some e)
      note e = host_store_okD(1) [OF ok this]
      have "hs_monitor s (he_addr f) = Watching \<and> he_addr f \<noteq> he_addr e \<and> he_addr f \<noteq> hs_next s"
        if "v \<noteq> uid" "hs_entries s v = Some f" for v f
        using host_store_okD(2) [OF ok Some that(2)] host_store_okD(1) [OF ok that(2)] that(1) by auto
      with e con Some Returns show ?thesis
        by (simp add: unfold) (rule host_store_ok_insert [OF ok], simp_all, blast)
    qed
  qed (use con in \<open>simp_all add: unfold host_store_ok_new [OF ok]\<close>)
qed

section \<open>Sessions\<close>

text \<open>What follows a session, with the client and the end of the session it gets.\<close>

lemma attempt_Session:
  "attempt (Session lib e) h k =
     andThen (IsConnected (observed (he_addr e) (he_client e))) (\<lambda>connected.
     if \<not> connected then h (PlainError ErrClientNotConnected)
     else andThen (unlogged (NewUUID lib)) (\<lambda>n.
     andThen (modify (\<lambda>s. s\<lparr>hs_sessions := (hs_sessions s)(he_addr e := insert n (hs_sessions s (he_addr e)))\<rparr>)) (\<lambda>_.
     k (observed (he_addr e) (he_client e), endSession (he_addr e) n))))"
  by (rule ext) (simp add: attempt_def Session_def andThen_def ret_def Let_def modify_def split: prod.split outcome.split)

definition withSession :: "('w, 'e) hostlib_scheme \<Rightarrow> 'w HostEntry \<Rightarrow> (error \<Rightarrow> (('w, 'z) HostSys_scheme, 'a) prog)
    \<Rightarrow> (('w, 'z) HostSys_scheme Client \<Rightarrow> (('w, 'z) HostSys_scheme, 'a) prog) \<Rightarrow> (('w, 'z) HostSys_scheme, 'a) prog" where
  "withSession lib e h k = attempt (Session lib e) h (\<lambda>(c, endSession). deferred endSession (k c))"

text \<open>
  A session that is opened is closed: when the program is over, returned or panicked, no entry has a
  session it did not have before. The store is left in order.
\<close>

definition storeKept :: "('w, 'z) HostSys_scheme \<Rightarrow> ('w, 'z) HostSys_scheme \<Rightarrow> bool" where
  "storeKept s s' \<longleftrightarrow> (\<forall>a. hs_sessions s' a \<subseteq> hs_sessions s a) \<and> (host_store_ok s \<longrightarrow> host_store_ok s')"

interpretation store_frame: state_preorder storeKept
  by unfold_locales (auto simp: storeKept_def)

lemma storeKeptI:
  assumes "hs_sessions s' = hs_sessions s" and "hs_entries s' = hs_entries s" and "hs_monitor s' = hs_monitor s"
    and "hs_next s' = hs_next s"
  shows "storeKept s s'"
  using assms by (simp add: storeKept_def host_store_ok_def)

section \<open>What a program may do\<close>

text \<open>
  \<open>acts E m\<close>: a run of \<open>m\<close> adds only events that satisfy \<open>E\<close> to the log, and leaves no session open.
  The rules decompose a program into its calls.
\<close>

definition acts :: "(event \<Rightarrow> bool) \<Rightarrow> (('w, 'z) HostSys_scheme, 'a) prog \<Rightarrow> bool" where
  "acts E m = settles (emits E) storeKept m"

interpretation acting: preorder_pair "emits E" storeKept for E
  by unfold_locales

named_theorems acts_rules "what a program may do"

lemmas [acts_rules] = acting.settles_rules [folded acts_def]

lemma acts_called [acts_rules]: "(\<And>r. E (ev r)) \<Longrightarrow> acts E (called ev m)"
  unfolding acts_def
  by (intro acting.settles_moves moves_called)
    (auto intro!: movesI storeKeptI simp: called_def split: prod.split)

lemma acts_unlogged [acts_rules]: "E OtherCall \<Longrightarrow> acts E (unlogged m)"
  unfolding unlogged_def by (rule acts_called)

lemma acts_modify [acts_rules]:
  "(\<And>s. w_log (f s) = w_log s) \<Longrightarrow> (\<And>s. hs_sessions (f s) = hs_sessions s) \<Longrightarrow> (\<And>s. hs_entries (f s) = hs_entries s) \<Longrightarrow>
    (\<And>s. hs_monitor (f s) = hs_monitor s) \<Longrightarrow> (\<And>s. hs_next (f s) = hs_next s) \<Longrightarrow> acts E (modify f)"
  unfolding acts_def by (rule acting.settles_modify) (auto simp: emits_def intro: storeKeptI)

lemma acts_traces: "acts E m \<Longrightarrow> (\<And>r tr. list_all E tr \<Longrightarrow> P r tr) \<Longrightarrow> traces m s P"
  unfolding acts_def by (drule acting.settles_every) (rule traces_emits)

lemma acts_emits: "acts E m \<Longrightarrow> m s = (r, s') \<Longrightarrow> emits E s s'"
  unfolding acts_def by (drule acting.settles_every) (rule movesD)

lemma acts_sessions: "acts E m \<Longrightarrow> m s = (r, s') \<Longrightarrow> r \<noteq> Hangs \<Longrightarrow> hs_sessions s' a \<subseteq> hs_sessions s a"
  by (simp add: acts_def settles_def runs_def storeKept_def) (drule spec [of _ s], simp)

lemma acts_store_ok: "acts E m \<Longrightarrow> m s = (r, s') \<Longrightarrow> r \<noteq> Hangs \<Longrightarrow> host_store_ok s \<Longrightarrow> host_store_ok s'"
  by (simp add: acts_def settles_def runs_def storeKept_def) (drule spec [of _ s], simp)

lemma acts_mono:
  fixes m :: "(('w, 'z) HostSys_scheme, 'a) prog"
  assumes "acts E m" and "\<And>e. E e \<Longrightarrow> E' e"
  shows "acts E' m"
  unfolding acts_def settles_def
proof
  fix s :: "('w, 'z) HostSys_scheme"
  have "emits E s s' \<Longrightarrow> emits E' s s'" for s' :: "('w, 'z) HostSys_scheme" using assms(2) by (auto simp: emits_def list_all_iff)
  with assms(1) show "runs m s (\<lambda>r s'. emits E' s s' \<and> (r \<noteq> Hangs \<longrightarrow> storeKept s s'))"
    by (auto simp: acts_def settles_def elim!: runs_mono dest!: spec [of _ s])
qed

lemma acts_keptI:
  fixes m :: "(('w, 'z) HostSys_scheme, 'a) prog"
  assumes "\<And>s. runs m s (\<lambda>r s'. emits E s s' \<and> (\<forall>a. hs_sessions s' a \<subseteq> hs_sessions s a))"
    and "\<And>s. host_store_ok s \<Longrightarrow> runs m s (\<lambda>r s'. host_store_ok s')"
  shows "acts E m"
  unfolding acts_def settles_def
proof
  fix s
  show "runs m s (\<lambda>r s'. emits E s s' \<and> (r \<noteq> Hangs \<longrightarrow> storeKept s s'))"
    using assms [of s] by (cases "host_store_ok s") (auto simp: runs_def storeKept_def split: prod.splits)
qed

lemma acts_HostDeregister [acts_rules]: "acts E (HostDeregister uid)"
proof (rule acts_keptI)
  fix s :: "('w, 'z) HostSys_scheme"
  show "runs (HostDeregister uid) s (\<lambda>r s'. emits E s s' \<and> (\<forall>a. hs_sessions s' a \<subseteq> hs_sessions s a))"
    by (auto simp: HostDeregister_def host_runs emits_def split: option.split)
  show "runs (HostDeregister uid) s (\<lambda>r s'. host_store_ok s')" if "host_store_ok s"
    by (rule runs_mono [OF HostDeregister_ok [OF that]]) simp
qed

lemma acts_HostRegister [acts_rules]:
  fixes lib :: "('w, 'e) hostlib_scheme"
  assumes "\<And>a r. E (OnHost a (DidConnect r))"
  shows "acts E (HostRegister lib uid g d :: (('w, 'z) HostSys_scheme, unit) prog)"
proof (rule acts_keptI)
  fix s :: "('w, 'z) HostSys_scheme"
  show "runs (HostRegister lib uid g d) s (\<lambda>r s'. emits E s s' \<and> (\<forall>a. hs_sessions s' a \<subseteq> hs_sessions s a))"
    unfolding HostRegister_def Let_def runs_reading runs_andThen runs_newEntry
    by (auto simp: observed_def host_runs emits_def assms intro!: runs_called split: outcome.split option.split if_splits)
  show "runs (HostRegister lib uid g d) s (\<lambda>r s'. host_store_ok s')" if "host_store_ok s"
    by (rule runs_mono [OF HostRegister_keeps [OF that]]) simp
qed

text \<open>A session, with what it is opened for.\<close>

lemma acts_withSession:
  fixes lib :: "('w, 'e) hostlib_scheme" and h :: "error \<Rightarrow> (('w, 'z) HostSys_scheme, 'a) prog"
  assumes E: "\<And>a. E (OnHost a HostQuery)" "E OtherCall"
    and h: "\<And>err. acts E (h err)" and k: "\<And>a cl. acts E (k (observed a cl))"
  shows "acts E (withSession lib e h k)"
proof -
  let ?a = "he_addr e" and ?c = "observed (he_addr e) (he_client e) :: ('w, 'z) HostSys_scheme Client"
  define Q where "Q s r s' \<longleftrightarrow> emits E s s' \<and> (r \<noteq> Hangs \<longrightarrow> storeKept s s')"
    for s s' :: "('w, 'z) HostSys_scheme" and r :: "'a outcome"
  have h': "runs (h err) s (Q s)" and k': "runs (k ?c) s (Q s)" for err s
    using h [of err] k [of ?a "he_client e"] by (simp_all add: acts_def settles_def Q_def [abs_def])
  have stop: "Q s r (s\<lparr>w_ext := w, w_log := w_log s @ l\<rparr>)" if "list_all E l" for s r w l
    using that by (simp add: Q_def emits_def storeKept_def)
  have via: "Q s r s'" if "Q (s\<lparr>w_ext := w, w_log := w_log s @ l\<rparr>) r s'" "list_all E l" for s r s' w l
    using that by (auto simp: Q_def emits_def storeKept_def)
  have body: "runs (deferred (endSession ?a n) (k ?c)) (s\<lparr>w_ext := w, w_log := w_log s @ l,
      hs_sessions := (hs_sessions s)(?a := insert n (hs_sessions s ?a))\<rparr>) (Q s)"
    if "list_all E l" for s n w l
    unfolding runs_deferred
    by (rule runs_mono [OF k'])
      (use that in \<open>auto simp: endSession_def runs_modify Q_def emits_def storeKept_def split: if_splits\<close>)
  have "runs (withSession lib e h k) s (Q s)" for s
    unfolding withSession_def attempt_Session observed_select
    apply (subst runs_andThen)
    apply (rule runs_called)
    apply (simp add: stop E split: outcome.split)
    apply (intro allI impI conjI)
     apply (rule runs_mono [OF h'], erule via, simp add: E)
    apply (subst runs_andThen)
    apply (rule runs_unlogged)
    apply (simp add: stop E runs_andThen runs_modify split: outcome.split)
    apply (intro allI impI body)
    apply (simp add: E)
    done
  then show ?thesis by (simp add: acts_def settles_def Q_def [abs_def])
qed

lemma traces_withSession:
  assumes h: "\<And>err s' tr. list_all (\<lambda>e. e = OtherCall \<or> (\<exists>a. e = OnHost a HostQuery)) tr \<Longrightarrow>
      traces (h err) s' (\<lambda>r tr'. P r (tr @ tr'))"
    and k: "\<And>a cl s' tr. list_all (\<lambda>e. e = OtherCall \<or> (\<exists>a. e = OnHost a HostQuery)) tr \<Longrightarrow>
      traces (k (observed a cl)) s' (\<lambda>r tr'. P r (tr @ tr'))"
    and stuck: "\<And>r tr. list_all (\<lambda>e. e = OtherCall \<or> (\<exists>a. e = OnHost a HostQuery)) tr \<Longrightarrow> r = Panics \<or> r = Hangs \<Longrightarrow> P r tr"
  shows "traces (withSession lib e h k) s P"
proof -
  let ?q = "OnHost (he_addr e) HostQuery"
  have k2: "traces (deferred (endSession (he_addr e) n) (k (observed (he_addr e) (he_client e)))) s'
      (\<lambda>r tr. P r (?q # OtherCall # tr))" for n s'
    unfolding endSession_def
    by (rule traces_deferred_silent) (use k [of "[?q, OtherCall]"] in auto)
  show ?thesis
    unfolding withSession_def attempt_Session observed_select
    apply (rule traces_andThen_called)
      apply (rule traces_if)
       apply (use h [of "[?q]"] in simp)
      apply (subst unlogged_def)
      apply (rule traces_andThen_called)
        apply (rule traces_andThen_of [where M = "\<lambda>r tr. r = Returns () \<and> tr = []"])
           apply (rule traces_modify; simp)
          apply (simp add: k2)
         apply simp
        apply simp
       apply (use stuck [of "[?q, OtherCall]"] stuck [of "[?q]"] in simp_all)
    done
qed

end
