(* ===== verification/AuthStore.thy ===== *)
theory AuthStore
  imports Registry
begin

text \<open>
  The store of credentials (\<^verbatim>\<open>internal/store/auth.go\<close>). Credentials are files in a fresh directory, and
  the path the rest of the program uses is a symbolic link to that directory, so that new credentials
  replace old ones by one rename of a link.

  The file system of the standard library: a map from paths to nodes. A path is its list of components
  and \<open>filepath.Join\<close> appends one. Every system call may fail for reasons the program does not control:
  \<open>fs_fault n\<close> is the error of the \<open>n\<close>-th call, if it fails; a call that fails changes nothing. The
  random suffixes of \<open>os.MkdirTemp\<close> come from \<open>fs_random\<close>. The mutex makes every operation of the store
  atomic, so an operation here is one step.
\<close>

section \<open>The file system\<close>

type_synonym path = "string list"

datatype node = Dir | RegularFile bytes | SymLink path

record filesys =
  fs_nodes :: "path \<rightharpoonup> node"
  fs_random :: "nat \<Rightarrow> string"
  fs_fault :: "nat \<Rightarrow> error option"
  fs_calls :: nat

definition ErrExist :: error where "ErrExist = PlainError ''file exists''"
definition ErrNotExist :: error where "ErrNotExist = PlainError ''no such file or directory''"
definition ErrNotDir :: error where "ErrNotDir = PlainError ''not a directory''"

text \<open>A system call: counted, and skipped when it is to fail.\<close>

definition syscall :: "(filesys \<Rightarrow> (error + 'r) \<times> filesys) \<Rightarrow> filesys \<Rightarrow> (error + 'r) \<times> filesys" where
  "syscall f fs =
     (let fs' = fs\<lparr>fs_calls := Suc (fs_calls fs)\<rparr> in
      case fs_fault fs (fs_calls fs) of
        Some err \<Rightarrow> (Inl err, fs')
      | None \<Rightarrow> f fs')"

definition parent_is_dir :: "filesys \<Rightarrow> path \<Rightarrow> bool" where
  "parent_is_dir fs p \<longleftrightarrow> p \<noteq> [] \<and> fs_nodes fs (butlast p) = Some Dir"

text \<open>\<open>os.MkdirTemp\<close>: a directory whose name is not taken, found by trying random suffixes.\<close>

fun tryMkdir :: "nat \<Rightarrow> nat \<Rightarrow> path \<Rightarrow> string \<Rightarrow> filesys \<Rightarrow> (error + path) \<times> filesys" where
  "tryMkdir 0 i dir pattern fs = (Inl ErrExist, fs)"
| "tryMkdir (Suc tries) i dir pattern fs =
     (let p = dir @ [pattern @ fs_random fs i] in
      if fs_nodes fs dir \<noteq> Some Dir then (Inl ErrNotExist, fs)
      else if fs_nodes fs p \<noteq> None then tryMkdir tries (Suc i) dir pattern fs
      else (Inr p, fs\<lparr>fs_nodes := (fs_nodes fs)(p \<mapsto> Dir)\<rparr>))"

definition os_MkdirTemp :: "path \<Rightarrow> string \<Rightarrow> filesys \<Rightarrow> (error + path) \<times> filesys" where
  "os_MkdirTemp dir pattern = syscall (\<lambda>fs. tryMkdir 10000 (fs_calls fs) dir pattern fs)"

text \<open>\<open>os.Create\<close> and \<open>Write\<close>, on a path whose last component is not a link.\<close>

definition os_Create :: "path \<Rightarrow> filesys \<Rightarrow> (error + unit) \<times> filesys" where
  "os_Create p = syscall (\<lambda>fs.
     if \<not> parent_is_dir fs p then (Inl ErrNotExist, fs)
     else if fs_nodes fs p = Some Dir then (Inl ErrNotDir, fs)
     else (Inr (), fs\<lparr>fs_nodes := (fs_nodes fs)(p \<mapsto> RegularFile [])\<rparr>))"

definition os_WriteFile :: "path \<Rightarrow> bytes \<Rightarrow> filesys \<Rightarrow> (error + unit) \<times> filesys" where
  "os_WriteFile p data = syscall (\<lambda>fs. (Inr (), fs\<lparr>fs_nodes := (fs_nodes fs)(p \<mapsto> RegularFile data)\<rparr>))"

definition os_CloseFile :: "filesys \<Rightarrow> (error + unit) \<times> filesys" where
  "os_CloseFile = syscall (\<lambda>fs. (Inr (), fs))"

definition os_Symlink :: "path \<Rightarrow> path \<Rightarrow> filesys \<Rightarrow> (error + unit) \<times> filesys" where
  "os_Symlink target p = syscall (\<lambda>fs.
     if fs_nodes fs p \<noteq> None then (Inl ErrExist, fs)
     else if \<not> parent_is_dir fs p then (Inl ErrNotExist, fs)
     else (Inr (), fs\<lparr>fs_nodes := (fs_nodes fs)(p \<mapsto> SymLink target)\<rparr>))"

text \<open>\<open>os.Rename\<close> of something that is not a directory: it replaces what has the new name.\<close>

definition os_Rename :: "path \<Rightarrow> path \<Rightarrow> filesys \<Rightarrow> (error + unit) \<times> filesys" where
  "os_Rename old new = syscall (\<lambda>fs.
     case fs_nodes fs old of
       None \<Rightarrow> (Inl ErrNotExist, fs)
     | Some node \<Rightarrow>
         if fs_nodes fs new = Some Dir then (Inl ErrExist, fs)
         else (Inr (), fs\<lparr>fs_nodes := (fs_nodes fs)(old := None, new \<mapsto> node)\<rparr>))"

definition is_prefix :: "path \<Rightarrow> path \<Rightarrow> bool" where
  "is_prefix p q \<longleftrightarrow> take (length p) q = p"

definition os_RemoveAll :: "path \<Rightarrow> filesys \<Rightarrow> (error + unit) \<times> filesys" where
  "os_RemoveAll p = syscall (\<lambda>fs.
     (Inr (), fs\<lparr>fs_nodes := (\<lambda>q. if is_prefix p q then None else fs_nodes fs q)\<rparr>))"

definition os_Remove_link :: "path \<Rightarrow> filesys \<Rightarrow> (error + unit) \<times> filesys" where
  "os_Remove_link p = syscall (\<lambda>fs.
     if fs_nodes fs p = None then (Inl ErrNotExist, fs)
     else (Inr (), fs\<lparr>fs_nodes := (fs_nodes fs)(p := None)\<rparr>))"

text \<open>\<open>filepath.EvalSymlinks\<close> follows at most 255 links.\<close>

fun followLinks :: "nat \<Rightarrow> filesys \<Rightarrow> path \<Rightarrow> error + path" where
  "followLinks 0 fs p = Inl (PlainError ''EvalSymlinks: too many links'')"
| "followLinks (Suc n) fs p =
     (case fs_nodes fs p of
        None \<Rightarrow> Inl ErrNotExist
      | Some (SymLink target) \<Rightarrow> followLinks n fs target
      | Some _ \<Rightarrow> Inr p)"

definition filepath_EvalSymlinks :: "path \<Rightarrow> filesys \<Rightarrow> (error + path) \<times> filesys" where
  "filepath_EvalSymlinks p = syscall (\<lambda>fs. (followLinks 256 fs p, fs))"

text \<open>Reading a file through a link to its directory, as the users of a path of the store do.\<close>

definition read_file :: "filesys \<Rightarrow> path \<Rightarrow> string \<Rightarrow> bytes option" where
  "read_file fs dir name =
     (case followLinks 256 fs dir of
        Inl err \<Rightarrow> None
      | Inr d \<Rightarrow> (case fs_nodes fs (d @ [name]) of Some (RegularFile data) \<Rightarrow> Some data | _ \<Rightarrow> None))"

section \<open>The store\<close>

record File =
  file_name :: string
  file_data :: bytes

record AuthEntry =
  ae_path :: path
  ae_generation :: int

record AuthState =
  a_TmpDir :: path
  a_fs :: filesys
  a_entries :: "string \<rightharpoonup> AuthEntry"

definition NewAuthStore :: "string \<rightharpoonup> AuthEntry" where
  "NewAuthStore = Map.empty"

definition NewFile :: "string \<Rightarrow> bytes \<Rightarrow> File" where
  "NewFile name data = \<lparr>file_name = name, file_data = data\<rparr>"

definition onFS :: "(filesys \<Rightarrow> (error + 'r) \<times> filesys) \<Rightarrow> (AuthState, error + 'r) prog" where
  "onFS f s = (case f (a_fs s) of (r, fs) \<Rightarrow> (Returns r, s\<lparr>a_fs := fs\<rparr>))"

text \<open>The loop over the files; an error of \<open>Close\<close> is only logged.\<close>

fun writeFiles :: "path \<Rightarrow> File list \<Rightarrow> (AuthState, error + unit) prog" where
  "writeFiles dir [] = ret (Inr ())"
| "writeFiles dir (file # files) =
     attempt (onFS (os_Create (dir @ [file_name file]))) (\<lambda>err. ret (Inl err)) (\<lambda>_.
     attempt (onFS (os_WriteFile (dir @ [file_name file]) (file_data file))) (\<lambda>err. ret (Inl err)) (\<lambda>_.
     andThen (onFS os_CloseFile) (\<lambda>_. writeFiles dir files)))"

definition tmpName :: "path \<Rightarrow> path" where
  "tmpName p = butlast p @ [last p @ ''.tmp'']"

definition setEntry :: "string \<Rightarrow> AuthEntry \<Rightarrow> (AuthState, error option) prog" where
  "setEntry uid entry =
     andThen (modify (\<lambda>s. s\<lparr>a_entries := (a_entries s)(uid \<mapsto> entry)\<rparr>)) (\<lambda>_. ret None)"

text \<open>Making a filled directory the one that the path of the entry leads to.\<close>

definition publish :: "string \<Rightarrow> int \<Rightarrow> path \<Rightarrow> AuthEntry option \<Rightarrow> (AuthState, error option) prog" where
  "publish uid generation dir found = reading (\<lambda>s.
     case found of
       None \<Rightarrow>
         let path = a_TmpDir s @ [uid] in
         attempt (onFS (os_Symlink dir path)) (\<lambda>err. ret (Some err)) (\<lambda>_.
         setEntry uid \<lparr>ae_path = path, ae_generation = generation\<rparr>)
     | Some oldEntry \<Rightarrow>
         let path = ae_path oldEntry; tmpPath = tmpName path in
         attempt (onFS (filepath_EvalSymlinks path)) (\<lambda>err. ret (Some err)) (\<lambda>oldDir.
         attempt (onFS (os_Symlink dir tmpPath)) (\<lambda>err. ret (Some err)) (\<lambda>_.
         attempt (onFS (os_Rename tmpPath path)) (\<lambda>err. ret (Some err)) (\<lambda>_.
         andThen (onFS (os_RemoveAll oldDir)) (\<lambda>_.
         setEntry uid \<lparr>ae_path = path, ae_generation = generation\<rparr>)))))"

definition AuthRegister :: "string \<Rightarrow> int \<Rightarrow> File list \<Rightarrow> (AuthState, error option) prog" where
  "AuthRegister uid generation files = reading (\<lambda>s.
     attempt (onFS (os_MkdirTemp (a_TmpDir s) (uid @ ''.''))) (\<lambda>err. ret (Some err)) (\<lambda>dir.
     attempt (writeFiles dir files) (\<lambda>err. ret (Some err)) (\<lambda>_.
     publish uid generation dir (a_entries s uid))))"

text \<open>
  \<open>Deregister\<close>: errors are only logged. When the link cannot be resolved the code goes on with the empty
  path \<open>target\<close>, on which \<open>os.RemoveAll\<close> does nothing.
\<close>

definition dropEntry :: "string \<Rightarrow> (AuthState, unit) prog" where
  "dropEntry uid = modify (\<lambda>s. s\<lparr>a_entries := (a_entries s)(uid := None)\<rparr>)"

definition AuthDeregister :: "string \<Rightarrow> (AuthState, unit) prog" where
  "AuthDeregister uid = reading (\<lambda>s.
     case a_entries s uid of
        None \<Rightarrow> ret ()
      | Some entry \<Rightarrow>
          let link = ae_path entry in
          andThen (onFS (filepath_EvalSymlinks link)) (\<lambda>target.
          andThen (dropEntry uid) (\<lambda>_.
          andThen (onFS (os_Remove_link link)) (\<lambda>_.
          case target of
            Inl err \<Rightarrow> ret ()
          | Inr t \<Rightarrow> andThen (onFS (os_RemoveAll t)) (\<lambda>_. ret ())))))"

definition AuthLookup :: "AuthState \<Rightarrow> string \<rightharpoonup> AuthEntry" where
  "AuthLookup s uid = a_entries s uid"

section \<open>The contract of a registry\<close>

text \<open>What the file operations leave alone.\<close>

definition sameEntries :: "AuthState \<Rightarrow> AuthState \<Rightarrow> bool" where
  "sameEntries = same (\<lambda>s. (a_entries s, a_TmpDir s))"

lemma sameEntriesD: "sameEntries s s' \<Longrightarrow> a_entries s' = a_entries s \<and> a_TmpDir s' = a_TmpDir s"
  by (simp add: sameEntries_def same_def)

lemma runs_onFS: "runs (onFS f) s Q = (case f (a_fs s) of (r, fs) \<Rightarrow> Q (Returns r) (s\<lparr>a_fs := fs\<rparr>))"
  by (simp add: runs_def onFS_def split: prod.splits)

text \<open>How registering ends: it fails and leaves the entries, or it succeeds and sets one.\<close>

definition registered :: "string \<Rightarrow> int \<Rightarrow> AuthState \<Rightarrow> error option outcome \<Rightarrow> AuthState \<Rightarrow> bool" where
  "registered uid g s r s' \<longleftrightarrow>
     (\<exists>err. r = Returns (Some err) \<and> sameEntries s s') \<or>
     (r = Returns None \<and> a_TmpDir s' = a_TmpDir s \<and>
        (\<exists>p. a_entries s' = (a_entries s)(uid \<mapsto> \<lparr>ae_path = p, ae_generation = g\<rparr>)))"

lemma writeFiles_returns:
  "runs (writeFiles dir files) s (\<lambda>r s'. sameEntries s s' \<and> (\<exists>x. r = Returns x))"
proof (induction files arbitrary: s)
  case (Cons f fs)
  show ?case
    by (auto simp: runs_simps runs_onFS split: prod.splits sum.splits
        intro!: runs_mono [OF Cons.IH] simp: sameEntries_def same_def)
qed (simp add: runs_simps sameEntries_def same_def)

lemma AuthRegister_registered: "runs (AuthRegister uid g files) s (registered uid g s)"
  unfolding AuthRegister_def publish_def
  by (auto simp: runs_simps runs_onFS registered_def sameEntries_def same_def setEntry_def Let_def
      split: prod.splits sum.splits option.splits intro!: runs_mono [OF writeFiles_returns])

interpretation auth_registry: registry AuthLookup ae_generation AuthRegister AuthDeregister
proof
  fix u g a s s' assume "AuthRegister u g a s = (Returns None, s')"
  from runsD [OF AuthRegister_registered this] 
  show "\<exists>e. AuthLookup s' u = Some e \<and> ae_generation e = g" by (auto simp: registered_def AuthLookup_def)
next
  fix u g a s s' err assume "AuthRegister u g a s = (Returns (Some err), s')"
  from runsD [OF AuthRegister_registered this] 
  show "AuthLookup s' = AuthLookup s" by (auto simp: registered_def AuthLookup_def fun_eq_iff dest: sameEntriesD)
next
  fix u g a s s' v r assume "AuthRegister u g a s = (r, s')" "v \<noteq> u"
  from runsD [OF AuthRegister_registered this(1)] this(2)
  show "AuthLookup s' v = AuthLookup s v" by (auto simp: registered_def AuthLookup_def dest: sameEntriesD)
next
  fix u s x s' assume "AuthDeregister u s = (Returns x, s')"
  have "runs (AuthDeregister u) s (\<lambda>r s'. a_entries s' = (a_entries s)(u := None))"
    by (auto simp: AuthDeregister_def dropEntry_def runs_simps runs_onFS Let_def
        split: prod.splits sum.splits option.splits)
  from runsD [OF this \<open>AuthDeregister u s = (Returns x, s')\<close>]
  show "AuthLookup s' = (AuthLookup s)(u := None)" by (auto simp: AuthLookup_def fun_eq_iff)
qed

section \<open>What the users of the store see\<close>

text \<open>
  The state as it is between two operations: every entry's path is a link in the temporary directory
  that leads to a directory there, no two entries share a directory. Users of the store read files
  through the path of an entry (\<open>credential\<close>).
\<close>

abbreviation nodes :: "AuthState \<Rightarrow> path \<rightharpoonup> node" where
  "nodes s \<equiv> fs_nodes (a_fs s)"

definition serves :: "AuthState \<Rightarrow> string \<Rightarrow> string \<Rightarrow> bool" where
  "serves s u d \<longleftrightarrow>
     (\<exists>e. a_entries s u = Some e \<and> ae_path e = a_TmpDir s @ [u]) \<and>
     nodes s (a_TmpDir s @ [u]) = Some (SymLink (a_TmpDir s @ [d])) \<and>
     nodes s (a_TmpDir s @ [d]) = Some Dir"

definition auth_store_ok :: "AuthState \<Rightarrow> bool" where
  "auth_store_ok s \<longleftrightarrow>
     nodes s (a_TmpDir s) = Some Dir \<and>
     (\<forall>u. a_entries s u \<noteq> None \<longrightarrow> (\<exists>d. serves s u d)) \<and>
     (\<forall>u v d. serves s u d \<and> serves s v d \<longrightarrow> u = v)"

text \<open>What the users of an entry read.\<close>

definition credential :: "AuthState \<Rightarrow> string \<Rightarrow> string \<Rightarrow> bytes option" where
  "credential s u name =
     (case a_entries s u of None \<Rightarrow> None | Some e \<Rightarrow> read_file (a_fs s) (ae_path e) name)"

lemma followLinks_entry:
  assumes "fs_nodes fs p = Some (SymLink q)" and "fs_nodes fs q = Some Dir"
  shows "followLinks 256 fs p = Inr q"
proof -
  have "followLinks (Suc (Suc n)) fs p = Inr q" for n using assms by simp
  from this [of 254] show ?thesis by (simp del: followLinks.simps)
qed

lemma credential_serves:
  assumes "serves s u d"
  shows "credential s u name =
    (case nodes s (a_TmpDir s @ [d, name]) of Some (RegularFile data) \<Rightarrow> Some data | _ \<Rightarrow> None)"
proof -
  obtain e where "a_entries s u = Some e" "ae_path e = a_TmpDir s @ [u]"
    using assms by (auto simp: serves_def)
  moreover have "followLinks 256 (a_fs s) (a_TmpDir s @ [u]) = Inr (a_TmpDir s @ [d])"
    using assms by (intro followLinks_entry) (auto simp: serves_def)
  ultimately show ?thesis by (simp add: credential_def read_file_def)
qed

lemma tryMkdir_cases:
  "tryMkdir n i dir pattern fs = (r, fs') \<Longrightarrow>
     (\<exists>err. r = Inl err \<and> fs' = fs) \<or>
     (\<exists>sfx. r = Inr (dir @ [pattern @ sfx]) \<and> fs_nodes fs (dir @ [pattern @ sfx]) = None \<and>
            fs' = fs\<lparr>fs_nodes := (fs_nodes fs)(dir @ [pattern @ sfx] \<mapsto> Dir)\<rparr>)"
proof (induction n arbitrary: i)
  case (Suc n)
  let ?p = "dir @ [pattern @ fs_random fs i]"
  consider "fs_nodes fs dir \<noteq> Some Dir" | "fs_nodes fs dir = Some Dir" "fs_nodes fs ?p \<noteq> None"
    | "fs_nodes fs dir = Some Dir" "fs_nodes fs ?p = None" by blast
  then show ?case
  proof cases
    case 2
    with Suc.prems have "tryMkdir n (Suc i) dir pattern fs = (r, fs')" by (simp add: Let_def)
    then show ?thesis by (rule Suc.IH)
  next
    case 3
    with Suc.prems have "r = Inr ?p" "fs' = fs\<lparr>fs_nodes := (fs_nodes fs)(?p \<mapsto> Dir)\<rparr>"
      by (simp_all add: Let_def)
    with 3 show ?thesis by blast
  qed (use Suc.prems in \<open>auto simp: Let_def\<close>)
qed auto

lemma MkdirTemp_cases:
  assumes "os_MkdirTemp dir pattern fs = (r, fs')"
  shows "(\<exists>err. r = Inl err \<and> fs_nodes fs' = fs_nodes fs) \<or>
     (\<exists>sfx. r = Inr (dir @ [pattern @ sfx]) \<and> fs_nodes fs (dir @ [pattern @ sfx]) = None \<and>
            fs_nodes fs' = (fs_nodes fs)(dir @ [pattern @ sfx] \<mapsto> Dir))"
proof (cases "fs_fault fs (fs_calls fs)")
  case (Some err)
  with assms show ?thesis by (auto simp: os_MkdirTemp_def syscall_def)
next
  case None
  with assms have "tryMkdir 10000 (Suc (fs_calls fs)) dir pattern (fs\<lparr>fs_calls := Suc (fs_calls fs)\<rparr>) = (r, fs')"
    by (simp add: os_MkdirTemp_def syscall_def del: tryMkdir.simps)
  from tryMkdir_cases [OF this] show ?thesis by auto
qed

text \<open>Writing the files changes nothing outside the directory, and leaves every file as given.\<close>

lemma writeFiles_writes:
  "runs (writeFiles dir files) s (\<lambda>r s'.
     (\<forall>q. (\<forall>n. q \<noteq> dir @ [n]) \<or> (\<exists>n. q = dir @ [n] \<and> n \<notin> file_name ` set files) \<longrightarrow> nodes s' q = nodes s q) \<and>
     (r = Returns (Inr ()) \<longrightarrow> distinct (map file_name files) \<longrightarrow>
        (\<forall>f\<in>set files. nodes s' (dir @ [file_name f]) = Some (RegularFile (file_data f)))))"
proof (induction files arbitrary: s)
  case (Cons f fs)
  show ?case
    by (auto simp: runs_simps runs_onFS os_Create_def os_WriteFile_def os_CloseFile_def syscall_def Let_def
        split: option.splits prod.splits sum.splits if_splits intro!: runs_mono [OF Cons.IH]; blast)
qed (simp add: runs_simps)


text \<open>What an operation on behalf of one UID leaves alone: the link, the directory and the files of the others.\<close>

definition unharmed :: "(string \<Rightarrow> bool) \<Rightarrow> AuthState \<Rightarrow> AuthState \<Rightarrow> bool" where
  "unharmed V s s' \<longleftrightarrow> a_TmpDir s' = a_TmpDir s \<and> nodes s' (a_TmpDir s) = nodes s (a_TmpDir s) \<and>
     (\<forall>v d. V v \<and> serves s v d \<longrightarrow> serves s' v d \<and> a_entries s' v = a_entries s v \<and>
        (\<forall>x. nodes s' (a_TmpDir s @ [d, x]) = nodes s (a_TmpDir s @ [d, x])))"

lemma unharmed_trans: "unharmed V s s' \<Longrightarrow> unharmed V s' s'' \<Longrightarrow> unharmed V s s''"
  unfolding unharmed_def by metis

lemma unharmed_credential:
  assumes "unharmed V s s'" and "V v" and "auth_store_ok s" and "a_entries s v \<noteq> None"
  shows "credential s' v name = credential s v name"
proof -
  obtain d where d: "serves s v d" using assms by (auto simp: auth_store_ok_def)
  with assms have "serves s' v d" by (auto simp: unharmed_def)
  from credential_serves [OF d] credential_serves [OF this] d assms show ?thesis
    by (auto simp: unharmed_def)
qed

lemma unharmed_reads:
  "unharmed V s s' \<Longrightarrow> V v \<Longrightarrow> auth_store_ok s \<Longrightarrow> a_entries s' v = a_entries s v \<Longrightarrow>
     credential s' v name = credential s v name"
  using unharmed_credential [of V s s' v name] by (cases "a_entries s v") (simp_all add: credential_def)

text \<open>Nodes outside every served directory may change freely.\<close>

lemma unharmedI:
  assumes "a_TmpDir s' = a_TmpDir s" and "nodes s' (a_TmpDir s) = nodes s (a_TmpDir s)" and "\<And>v. V v \<Longrightarrow> a_entries s' v = a_entries s v"
    and "\<And>v d. V v \<Longrightarrow> serves s v d \<Longrightarrow> nodes s' (a_TmpDir s @ [v]) = nodes s (a_TmpDir s @ [v])"
    and "\<And>v d. V v \<Longrightarrow> serves s v d \<Longrightarrow> nodes s' (a_TmpDir s @ [d]) = nodes s (a_TmpDir s @ [d])"
    and "\<And>v d x. V v \<Longrightarrow> serves s v d \<Longrightarrow> nodes s' (a_TmpDir s @ [d, x]) = nodes s (a_TmpDir s @ [d, x])"
  shows "unharmed V s s'"
  using assms by (auto simp: unharmed_def serves_def)

lemma os_Symlink_cases:
  "os_Symlink t p fs = (r, fs') \<Longrightarrow>
     (\<exists>err. r = Inl err \<and> fs_nodes fs' = fs_nodes fs) \<or>
     (r = Inr () \<and> fs_nodes fs p = None \<and> fs_nodes fs' = (fs_nodes fs)(p \<mapsto> SymLink t))"
  by (auto simp: os_Symlink_def syscall_def Let_def split: option.splits if_splits)

lemma os_Rename_cases:
  "os_Rename old new fs = (r, fs') \<Longrightarrow>
     (\<exists>err. r = Inl err \<and> fs_nodes fs' = fs_nodes fs) \<or>
     (\<exists>node. r = Inr () \<and> fs_nodes fs old = Some node \<and> fs_nodes fs new \<noteq> Some Dir \<and>
        fs_nodes fs' = (fs_nodes fs)(old := None, new \<mapsto> node))"
  by (auto simp: os_Rename_def syscall_def Let_def split: option.splits if_splits)

lemma followLinks_cong: "fs_nodes fs = fs_nodes fs' \<Longrightarrow> followLinks n fs p = followLinks n fs' p"
  by (induction n arbitrary: p) (auto split: option.splits node.splits)

lemma EvalSymlinks_cases:
  "filepath_EvalSymlinks p fs = (r, fs') \<Longrightarrow>
     fs_nodes fs' = fs_nodes fs \<and> ((\<exists>err. r = Inl err) \<or> r = followLinks 256 fs p)"
  by (auto simp: filepath_EvalSymlinks_def syscall_def Let_def split: option.splits
      simp del: followLinks.simps intro: followLinks_cong)

lemma os_RemoveAll_cases:
  "os_RemoveAll p fs = (r, fs') \<Longrightarrow>
     fs_nodes fs' = fs_nodes fs \<or> fs_nodes fs' = (\<lambda>q. if is_prefix p q then None else fs_nodes fs q)"
  by (auto simp: os_RemoveAll_def syscall_def Let_def split: option.splits)

lemma is_prefix_snoc: "is_prefix (T @ [d]) (T @ q) \<longleftrightarrow> (\<exists>x. q = d # x)"
  by (cases q) (auto simp: is_prefix_def)

lemma serves_unique: "serves s v d \<Longrightarrow> serves s v d' \<Longrightarrow> d = d'"
  by (auto simp: serves_def)

definition publish_post :: "string \<Rightarrow> int \<Rightarrow> string \<Rightarrow> AuthState \<Rightarrow> error option outcome \<Rightarrow> AuthState \<Rightarrow> bool" where
  "publish_post uid g dn s r s' \<longleftrightarrow>
     (\<exists>err. r = Returns (Some err) \<and> a_entries s' = a_entries s \<and> unharmed (\<lambda>_. True) s s') \<or>
     (r = Returns None \<and> unharmed (\<lambda>v. v \<noteq> uid) s s' \<and> serves s' uid dn \<and>
        a_entries s' = (a_entries s)(uid \<mapsto> \<lparr>ae_path = a_TmpDir s @ [uid], ae_generation = g\<rparr>) \<and>
        (\<forall>x. nodes s' (a_TmpDir s @ [dn, x]) = nodes s (a_TmpDir s @ [dn, x])))"

lemma publish_new:
  assumes old: "a_entries s uid = None"
    and dn: "nodes s (a_TmpDir s @ [dn]) = Some Dir"
  shows "runs (publish uid g (a_TmpDir s @ [dn]) None) s (publish_post uid g dn s)"
proof -
  let ?T = "a_TmpDir s"
  obtain r fs where sym: "os_Symlink (?T @ [dn]) (?T @ [uid]) (a_fs s) = (r, fs)" by fastforce
  from os_Symlink_cases [OF this] show ?thesis
  proof (elim disjE exE conjE)
    fix err assume "r = Inl err" "fs_nodes fs = nodes s"
    with sym show ?thesis
      by (simp add: publish_def runs_simps runs_onFS Let_def publish_post_def)
        (intro unharmedI, auto)
  next
    assume "r = Inr ()" "nodes s (?T @ [uid]) = None"
      "fs_nodes fs = (nodes s)(?T @ [uid] \<mapsto> SymLink (?T @ [dn]))"
    with sym dn show ?thesis
      apply (simp add: publish_def runs_simps runs_onFS Let_def publish_post_def setEntry_def)
      apply (intro conjI unharmedI)
      by (auto simp: serves_def)
  qed
qed

lemma publish_replace:
  assumes ok: "auth_store_ok s" and old: "a_entries s uid = Some e"
    and dn: "nodes s (a_TmpDir s @ [dn]) = Some Dir" "\<And>v. \<not> serves s v dn"
  shows "runs (publish uid g (a_TmpDir s @ [dn]) (Some e)) s (publish_post uid g dn s)"
proof -
  let ?T = "a_TmpDir s"
  obtain d where d: "serves s uid d" using ok old by (auto simp: auth_store_ok_def)
  then have p: "ae_path e = ?T @ [uid]" using old by (auto simp: serves_def)
  have fl: "followLinks 256 (a_fs s) (?T @ [uid]) = Inr (?T @ [d])"
    using d by (intro followLinks_entry) (auto simp: serves_def)
  have inj: "v = uid" if "serves s v d" for v using ok d that unfolding auth_store_ok_def by blast
  have ne: "d \<noteq> dn" using d dn(2) by auto
  have tmp: "tmpName (?T @ [uid]) = ?T @ [uid @ ''.tmp'']" by (simp add: tmpName_def)
  obtain r1 f1 where 1: "filepath_EvalSymlinks (?T @ [uid]) (a_fs s) = (r1, f1)" by fastforce
  obtain r2 f2 where 2: "os_Symlink (?T @ [dn]) (?T @ [uid @ ''.tmp'']) f1 = (r2, f2)" by fastforce
  obtain r3 f3 where 3: "os_Rename (?T @ [uid @ ''.tmp'']) (?T @ [uid]) f2 = (r3, f3)" by fastforce
  obtain r4 f4 where 4: "os_RemoveAll (?T @ [d]) f3 = (r4, f4)" by fastforce
  note unfold = publish_def runs_simps runs_onFS Let_def publish_post_def setEntry_def p tmp
  from EvalSymlinks_cases [OF 1] have n1: "fs_nodes f1 = nodes s" and r1: "(\<exists>err. r1 = Inl err) \<or> r1 = Inr (?T @ [d])"
    by (auto simp: fl)
  from r1 show ?thesis
  proof (elim disjE exE)
    fix err assume "r1 = Inl err"
    with 1 n1 show ?thesis by (simp add: unfold) (intro unharmedI, auto)
  next
    assume r1: "r1 = Inr (?T @ [d])"
    from os_Symlink_cases [OF 2] show ?thesis
    proof (elim disjE exE conjE)
      fix err assume "r2 = Inl err" "fs_nodes f2 = fs_nodes f1"
      with 1 2 n1 r1 show ?thesis by (simp add: unfold) (intro unharmedI, auto)
    next
      assume r2: "r2 = Inr ()" and free: "fs_nodes f1 (?T @ [uid @ ''.tmp'']) = None"
        and n2: "fs_nodes f2 = (fs_nodes f1)(?T @ [uid @ ''.tmp''] \<mapsto> SymLink (?T @ [dn]))"
      from os_Rename_cases [OF 3] show ?thesis
      proof (elim disjE exE conjE)
        fix err assume "r3 = Inl err" "fs_nodes f3 = fs_nodes f2"
        with 1 2 3 n1 r1 r2 n2 free show ?thesis by (simp add: unfold) (intro unharmedI; auto simp: serves_def)
      next
        fix node assume r3: "r3 = Inr ()" and old: "fs_nodes f2 (?T @ [uid @ ''.tmp'']) = Some node"
          "fs_nodes f3 = (fs_nodes f2)(?T @ [uid @ ''.tmp''] := None, ?T @ [uid] \<mapsto> node)"
        then have n3: "fs_nodes f3 = (nodes s)(?T @ [uid] \<mapsto> SymLink (?T @ [dn]))"
          using n1 n2 free by (auto simp: fun_eq_iff)
        have du: "d \<noteq> uid" using d by (auto simp: serves_def)
        have dnu: "dn \<noteq> uid" using d dn by (auto simp: serves_def)
        have n4: "fs_nodes f4 (?T @ y # ys) = fs_nodes f3 (?T @ y # ys)" if "y \<noteq> d" for y ys
          using os_RemoveAll_cases [OF 4] that by (auto simp: is_prefix_def)
        have out: "v \<noteq> d \<and> e \<noteq> d \<and> e \<noteq> uid" if "v \<noteq> uid" "serves s v e" for v e
          using inj [of v] that d by (auto simp: serves_def)
        let ?s4 = "s\<lparr>a_fs := f4, a_entries := (a_entries s)(uid \<mapsto> \<lparr>ae_path = ?T @ [uid], ae_generation = g\<rparr>)\<rparr>"
        have names: "fs_nodes f4 (?T @ [y]) = nodes s (?T @ [y])" if "y \<noteq> d" "y \<noteq> uid" for y
          using that by (simp add: n4 n3)
        have files: "fs_nodes f4 (?T @ [y, x]) = nodes s (?T @ [y, x])" if "y \<noteq> d" for y x
          using that by (simp add: n4 n3)
        have link: "fs_nodes f4 (?T @ [uid]) = Some (SymLink (?T @ [dn]))"
          using du by (simp add: n4 n3)
        have others: "unharmed (\<lambda>v. v \<noteq> uid) s ?s4"
        proof (rule unharmedI)
          show "nodes ?s4 (a_TmpDir s) = nodes s (a_TmpDir s)"
            using os_RemoveAll_cases [OF 4] n3 by (auto simp: is_prefix_def)
        next
          fix v e x assume v: "v \<noteq> uid" "serves s v e"
          show "nodes ?s4 (?T @ [v]) = nodes s (?T @ [v])" using out [OF v] v(1) names [of v] by simp
          show "nodes ?s4 (?T @ [e]) = nodes s (?T @ [e])" using out [OF v] names [of e] by simp
          show "nodes ?s4 (?T @ [e, x]) = nodes s (?T @ [e, x])" using out [OF v] files [of e x] by simp
        qed simp_all
        have "serves ?s4 uid dn"
          using link dn(1) ne dnu names [of dn] by (simp add: serves_def)
        with others show ?thesis
          using 1 2 3 4 r1 r2 r3 files ne by (simp add: unfold)
      qed
    qed
  qed
qed

lemma publish_outcome:
  assumes "auth_store_ok s" and "nodes s (a_TmpDir s @ [dn]) = Some Dir" and "\<And>v. \<not> serves s v dn"
  shows "runs (publish uid g (a_TmpDir s @ [dn]) (a_entries s uid)) s (publish_post uid g dn s)"
  using publish_new [of s uid dn g] publish_replace [of s uid _ dn g] assms
  by (cases "a_entries s uid") auto


lemma unharmed_ok:
  assumes "unharmed (\<lambda>_. True) s s'" and "a_entries s' = a_entries s" and "auth_store_ok s"
  shows "auth_store_ok s'"
  unfolding auth_store_ok_def
proof (intro conjI allI impI)
  show "nodes s' (a_TmpDir s') = Some Dir" using assms by (simp add: unharmed_def auth_store_ok_def)
  show "\<exists>d. serves s' u d" if "a_entries s' u \<noteq> None" for u
    using assms that unfolding unharmed_def auth_store_ok_def by metis
  have prior: "serves s u d" if su: "serves s' u d" for u d
  proof -
    have "a_entries s u \<noteq> None" using su assms(2) by (auto simp: serves_def)
    then obtain d' where d': "serves s u d'" using assms(3) unfolding auth_store_ok_def by blast
    then have "serves s' u d'" using assms(1) by (simp add: unharmed_def)
    with serves_unique [OF su this] d' show ?thesis by simp
  qed
  show "u = v" if "serves s' u d \<and> serves s' v d" for u v d
    using that prior assms(3) unfolding auth_store_ok_def by blast
qed

lemma unharmed_others_ok:
  assumes un: "unharmed (\<lambda>v. v \<noteq> uid) s s'" and en: "\<And>v. v \<noteq> uid \<Longrightarrow> a_entries s' v = a_entries s v"
    and new: "a_entries s' uid = None \<or> (\<exists>dn. serves s' uid dn \<and> (\<forall>v. \<not> serves s v dn))"
    and ok: "auth_store_ok s"
  shows "auth_store_ok s'"
proof -
  have fwd: "\<exists>d. serves s v d \<and> serves s' v d" if "v \<noteq> uid" "a_entries s' v \<noteq> None" for v
    using un ok en that unfolding unharmed_def auth_store_ok_def by metis
  have prior: "serves s v d" if su: "serves s' v d" and "v \<noteq> uid" for v d
  proof -
    have "a_entries s' v \<noteq> None" using su by (auto simp: serves_def)
    with fwd that obtain d' where "serves s v d'" "serves s' v d'" by blast
    with serves_unique [OF su] show ?thesis by blast
  qed
  have mine: "\<not> serves s v d" if "serves s' uid d" for v d
    using new that serves_unique [OF that] by (auto simp: serves_def)
  show ?thesis unfolding auth_store_ok_def
  proof (intro conjI allI impI)
    show "nodes s' (a_TmpDir s') = Some Dir" using un ok by (simp add: unharmed_def auth_store_ok_def)
    show "\<exists>d. serves s' v d" if "a_entries s' v \<noteq> None" for v
      using that new fwd [of v] by (cases "v = uid") auto
    show "u = v" if "serves s' u d \<and> serves s' v d" for u v d
      using that prior [of u d] prior [of v d] mine [of d] ok
      unfolding auth_store_ok_def by (cases "u = uid"; cases "v = uid") blast+
  qed
qed

lemma publish_post_ok:
  assumes post: "publish_post uid g dn s r s'" and ok: "auth_store_ok s"
    and free: "\<And>v. \<not> serves s v dn"
  shows "auth_store_ok s'"
  using post unfolding publish_post_def
proof (elim disjE exE conjE)
  assume un: "unharmed (\<lambda>v. v \<noteq> uid) s s'" and new: "serves s' uid dn"
    and en: "a_entries s' = (a_entries s)(uid \<mapsto> \<lparr>ae_path = a_TmpDir s @ [uid], ae_generation = g\<rparr>)"
  show ?thesis
    by (rule unharmed_others_ok [OF un _ _ ok]) (use new en free in auto)
qed (use ok in \<open>auto intro: unharmed_ok\<close>)

text \<open>The two phases of \<open>Register\<close> put together.\<close>

definition register_post :: "string \<Rightarrow> File list \<Rightarrow> AuthState \<Rightarrow> error option outcome \<Rightarrow> AuthState \<Rightarrow> bool" where
  "register_post uid files s r s' \<longleftrightarrow> auth_store_ok s' \<and>
     ((\<exists>err. r = Returns (Some err) \<and> a_entries s' = a_entries s \<and> unharmed (\<lambda>_. True) s s') \<or>
      (r = Returns None \<and> a_entries s' uid \<noteq> None \<and> (\<forall>v. v \<noteq> uid \<longrightarrow> a_entries s' v = a_entries s v) \<and>
       unharmed (\<lambda>v. v \<noteq> uid) s s' \<and>
       (distinct (map file_name files) \<longrightarrow>
          (\<forall>f\<in>set files. credential s' uid (file_name f) = Some (file_data f)))))"

lemma publish_post_register:
  assumes post: "publish_post uid g dn s2 r s'" and ok: "auth_store_ok s2"
    and free: "\<And>v. \<not> serves s2 v dn" and un: "unharmed (\<lambda>_. True) s s2"
    and en: "a_entries s2 = a_entries s"
    and files: "distinct (map file_name files) \<longrightarrow>
        (\<forall>f\<in>set files. nodes s2 (a_TmpDir s @ [dn, file_name f]) = Some (RegularFile (file_data f)))"
  shows "register_post uid files s r s'"
proof -
  have T: "a_TmpDir s2 = a_TmpDir s" using un by (simp add: unharmed_def)
  have un': "unharmed (\<lambda>v. v \<noteq> uid) s s2" using un by (auto simp: unharmed_def)
  have "auth_store_ok s'" by (rule publish_post_ok [OF post ok free])
  moreover have "credential s' uid (file_name f) = Some (file_data f)"
    if "serves s' uid dn" "\<forall>x. nodes s' (a_TmpDir s2 @ [dn, x]) = nodes s2 (a_TmpDir s2 @ [dn, x])"
      "a_TmpDir s' = a_TmpDir s2" "f \<in> set files" "distinct (map file_name files)" for f
    using credential_serves [OF that(1), of "file_name f"] that files T by simp
  ultimately show ?thesis
    using post unharmed_trans [OF un] unharmed_trans [OF un'] en
    unfolding publish_post_def register_post_def
    by (auto simp: unharmed_def [of _ s2 s'])
qed

lemma AuthRegister_outcome:
  assumes ok: "auth_store_ok s"
  shows "runs (AuthRegister uid g files) s (register_post uid files s)"
proof -
  let ?T = "a_TmpDir s"
  obtain r fs where mk: "os_MkdirTemp ?T (uid @ ''.'') (a_fs s) = (r, fs)" by fastforce
  let ?s1 = "s\<lparr>a_fs := fs\<rparr>"
  from MkdirTemp_cases [OF mk] show ?thesis
  proof (elim disjE exE conjE)
    fix err assume r: "r = Inl err" and n: "fs_nodes fs = nodes s"
    then have "unharmed (\<lambda>_. True) s ?s1" by (intro unharmedI) auto
    moreover from unharmed_ok [OF this _ ok] have "auth_store_ok ?s1" by simp
    ultimately show ?thesis
      using mk r by (simp add: AuthRegister_def runs_simps runs_onFS register_post_def)
  next
    fix sfx
    define dn where "dn = (uid @ ''.'') @ sfx"
    assume "r = Inr (?T @ [(uid @ ''.'') @ sfx])" "nodes s (?T @ [(uid @ ''.'') @ sfx]) = None"
      "fs_nodes fs = (nodes s)(?T @ [(uid @ ''.'') @ sfx] \<mapsto> Dir)"
    then have r: "r = Inr (?T @ [dn])" and free: "nodes s (?T @ [dn]) = None"
      and n: "fs_nodes fs = (nodes s)(?T @ [dn] \<mapsto> Dir)"
      by (simp_all only: dn_def)
    have out: "d \<noteq> dn \<and> v \<noteq> dn" if "serves s v d" for v d using that free by (auto simp: serves_def)
    let ?W = "\<lambda>(r :: (error + unit) outcome) s2. sameEntries ?s1 s2 \<and> (\<exists>x. r = Returns x) \<and> 
      (\<forall>q. (\<forall>n. q \<noteq> (?T @ [dn]) @ [n]) \<longrightarrow> nodes s2 q = nodes ?s1 q) \<and>
      (r = Returns (Inr ()) \<longrightarrow> distinct (map file_name files) \<longrightarrow>
        (\<forall>f\<in>set files. nodes s2 ((?T @ [dn]) @ [file_name f]) = Some (RegularFile (file_data f))))"
    have W: "runs (writeFiles (?T @ [dn]) files) ?s1 ?W"
      using writeFiles_returns [of "?T @ [dn]" files ?s1] writeFiles_writes [of "?T @ [dn]" files ?s1]
      by (auto simp: runs_def split: prod.splits)
    have "runs (writeFiles (?T @ [dn]) files) ?s1 (\<lambda>r s2. case r of
        Returns (Inl err) \<Rightarrow> runs (ret (Some err)) s2 (register_post uid files s)
      | Returns (Inr x) \<Rightarrow> runs (publish uid g (?T @ [dn]) (a_entries s uid)) s2 (register_post uid files s)
      | Panics \<Rightarrow> register_post uid files s Panics s2 | Hangs \<Rightarrow> register_post uid files s Hangs s2)"
    proof (rule runs_mono [OF W])
      fix w :: "(error + unit) outcome" and s2 assume w: "?W w s2"
      have en: "a_entries s2 = a_entries s" "a_TmpDir s2 = ?T" using w by (auto dest!: sameEntriesD)
      have n2: "nodes s2 q = ((nodes s)(?T @ [dn] \<mapsto> Dir)) q" if "\<And>n. q \<noteq> ?T @ [dn, n]" for q
        using w that n by simp
      have un: "unharmed (\<lambda>_. True) s s2"
        using out by (intro unharmedI) (auto simp: en n2)
      have ok2: "auth_store_ok s2" by (rule unharmed_ok [OF un en(1) ok])
      have dir: "nodes s2 (a_TmpDir s2 @ [dn]) = Some Dir" using n2 [of "?T @ [dn]"] en(2) by simp
      have free2: "\<not> serves s2 v dn" for v
      proof
        assume sv: "serves s2 v dn"
        then obtain d where "serves s v d" using en ok unfolding auth_store_ok_def serves_def by (metis option.distinct(1))
        moreover from this un have "serves s2 v d" by (simp add: unharmed_def)
        ultimately show False using serves_unique [OF sv] out by blast
      qed
      have pub: "runs (publish uid g (?T @ [dn]) (a_entries s uid)) s2 (publish_post uid g dn s2)"
        using publish_outcome [OF ok2 dir free2, of uid g] en by simp
      obtain x where x: "w = Returns x" using w by blast
      show "case w of
        Returns (Inl err) \<Rightarrow> runs (ret (Some err)) s2 (register_post uid files s)
      | Returns (Inr x) \<Rightarrow> runs (publish uid g (?T @ [dn]) (a_entries s uid)) s2 (register_post uid files s)
      | Panics \<Rightarrow> register_post uid files s Panics s2 | Hangs \<Rightarrow> register_post uid files s Hangs s2"
      proof (cases x)
        case (Inl err)
        with x un en ok2 show ?thesis by (simp add: register_post_def runs_ret)
      next
        case (Inr u)
        have fl: "distinct (map file_name files) \<longrightarrow>
          (\<forall>f\<in>set files. nodes s2 (a_TmpDir s @ [dn, file_name f]) = Some (RegularFile (file_data f)))"
          using w x Inr by simp
        have "runs (publish uid g (?T @ [dn]) (a_entries s uid)) s2 (register_post uid files s)"
          by (rule runs_mono [OF pub]) (rule publish_post_register [OF _ ok2 free2 un en(1) fl])
        with x Inr show ?thesis by (simp only: outcome.case sum.case)
      qed
    qed
    then show ?thesis using mk r by (simp add: AuthRegister_def runs_simps runs_onFS)
  qed
qed


lemma os_Remove_link_cases:
  "os_Remove_link p fs = (r, fs') \<Longrightarrow> fs_nodes fs' = fs_nodes fs \<or> fs_nodes fs' = (fs_nodes fs)(p := None)"
  by (auto simp: os_Remove_link_def syscall_def Let_def split: option.splits if_splits)

lemma AuthDeregister_outcome:
  assumes ok: "auth_store_ok s"
  shows "runs (AuthDeregister uid) s (\<lambda>r s'. r = Returns () \<and> a_entries s' = (a_entries s)(uid := None) \<and>
     unharmed (\<lambda>v. v \<noteq> uid) s s')"
proof (cases "a_entries s uid")
  case None
  then show ?thesis by (auto simp: AuthDeregister_def runs_simps intro!: unharmedI)
next
  case (Some e)
  let ?T = "a_TmpDir s"
  obtain d where d: "serves s uid d" using ok Some by (auto simp: auth_store_ok_def)
  then have p: "ae_path e = ?T @ [uid]" using Some by (auto simp: serves_def)
  have fl: "followLinks 256 (a_fs s) (?T @ [uid]) = Inr (?T @ [d])"
    using d by (intro followLinks_entry) (auto simp: serves_def)
  have out: "v \<noteq> d \<and> e \<noteq> d \<and> e \<noteq> uid" if "v \<noteq> uid" "serves s v e" for v e
    using ok d that unfolding auth_store_ok_def serves_def by auto
  obtain r1 f1 where 1: "filepath_EvalSymlinks (?T @ [uid]) (a_fs s) = (r1, f1)" by fastforce
  obtain r2 f2 where 2: "os_Remove_link (?T @ [uid]) f1 = (r2, f2)" by fastforce
  obtain r3 f3 where 3: "os_RemoveAll (?T @ [d]) f2 = (r3, f3)" by fastforce
  note unfold = AuthDeregister_def dropEntry_def runs_simps runs_onFS Let_def p
  from EvalSymlinks_cases [OF 1] have n1: "fs_nodes f1 = nodes s" and r1: "(\<exists>err. r1 = Inl err) \<or> r1 = Inr (?T @ [d])"
    by (auto simp: fl)
  have n2: "fs_nodes f2 q = nodes s q" if "q \<noteq> ?T @ [uid]" for q
    using os_Remove_link_cases [OF 2] n1 that by auto
  have n3: "fs_nodes f3 (?T @ y # ys) = fs_nodes f2 (?T @ y # ys)" if "y \<noteq> d" for y ys
    using os_RemoveAll_cases [OF 3] that by (auto simp: is_prefix_def)
  have nT: "fs_nodes f3 ?T = fs_nodes f2 ?T" using os_RemoveAll_cases [OF 3] by (auto simp: is_prefix_def)
  have u: "unharmed (\<lambda>v. v \<noteq> uid) s (s\<lparr>a_entries := (a_entries s)(uid := None), a_fs := f\<rparr>)"
    if "f = f2 \<or> f = f3" for f
  proof (rule unharmedI)
    show "nodes (s\<lparr>a_entries := (a_entries s)(uid := None), a_fs := f\<rparr>) ?T = nodes s ?T"
      using that nT n2 [of ?T] by auto
    fix v e x assume v: "v \<noteq> uid" "serves s v e"
    let ?s = "s\<lparr>a_entries := (a_entries s)(uid := None), a_fs := f\<rparr>"
    show "nodes ?s (?T @ [v]) = nodes s (?T @ [v])"
      using that out [OF v] v(1) n2 [of "?T @ [v]"] n3 [of v "[]"] by auto
    show "nodes ?s (?T @ [e]) = nodes s (?T @ [e])"
      using that out [OF v] n2 [of "?T @ [e]"] n3 [of e "[]"] by auto
    show "nodes ?s (?T @ [e, x]) = nodes s (?T @ [e, x])"
      using that out [OF v] n2 [of "?T @ [e, x]"] n3 [of e "[x]"] by auto
  qed simp_all
  from r1 show ?thesis
    by (elim disjE exE) (use 1 2 3 Some u in \<open>simp_all add: unfold\<close>)
qed

text \<open>
  A link left over from an operation that did not finish is never removed: it blocks every later
  registration of the UID.
\<close>

definition stale_link :: "AuthState \<Rightarrow> string \<Rightarrow> bool" where
  "stale_link s uid \<longleftrightarrow>
     (case a_entries s uid of
        None \<Rightarrow> nodes s (a_TmpDir s @ [uid]) \<noteq> None
      | Some e \<Rightarrow> nodes s (tmpName (ae_path e)) \<noteq> None)"

lemma os_Symlink_taken: "fs_nodes fs p \<noteq> None \<Longrightarrow> \<exists>err fs'. os_Symlink t p fs = (Inl err, fs')"
  by (auto simp: os_Symlink_def syscall_def Let_def split: option.splits)

lemma publish_stale:
  assumes "stale_link s uid"
  shows "runs (publish uid g dir (a_entries s uid)) s (\<lambda>r s'. r \<noteq> Returns None \<and> stale_link s' uid)"
proof (cases "a_entries s uid")
  case None
  with assms obtain err fs where "os_Symlink dir (a_TmpDir s @ [uid]) (a_fs s) = (Inl err, fs)"
    using os_Symlink_taken by (fastforce simp: stale_link_def)
  moreover from os_Symlink_cases [OF this] have "fs_nodes fs = nodes s" by simp
  ultimately show ?thesis
    using assms None by (simp add: publish_def runs_simps runs_onFS Let_def stale_link_def)
next
  case (Some e)
  obtain r f where 1: "filepath_EvalSymlinks (ae_path e) (a_fs s) = (r, f)" by fastforce
  then have n: "fs_nodes f = nodes s" by (auto dest: EvalSymlinks_cases)
  with assms Some obtain err fs where 2: "os_Symlink dir (tmpName (ae_path e)) f = (Inl err, fs)"
    using os_Symlink_taken by (fastforce simp: stale_link_def)
  from os_Symlink_cases [OF 2] n have "fs_nodes fs = nodes s" by simp
  with 1 2 n show ?thesis
    using assms Some by (cases r) (simp_all add: publish_def runs_simps runs_onFS Let_def stale_link_def)
qed

text \<open>No step before that removes a node.\<close>

definition grows :: "AuthState \<Rightarrow> AuthState \<Rightarrow> bool" where
  "grows s s' \<longleftrightarrow> sameEntries s s' \<and> (\<forall>q. nodes s q \<noteq> None \<longrightarrow> nodes s' q \<noteq> None)"

interpretation growing: state_preorder grows
  by unfold_locales (auto simp: grows_def sameEntries_def same_def)

lemma grows_stale: "grows s s' \<Longrightarrow> stale_link s uid \<Longrightarrow> stale_link s' uid"
  by (auto simp: grows_def stale_link_def dest!: sameEntriesD split: option.splits)

lemma moves_onFS_grows:
  fixes f :: "filesys \<Rightarrow> (error + 'r) \<times> filesys"
  assumes "\<And>fs q. fs_nodes fs q \<noteq> None \<Longrightarrow> fs_nodes (snd (f fs)) q \<noteq> None"
  shows "moves grows (onFS f)"
proof (rule movesI)
  fix s show "grows s (snd (onFS f s))"
    using assms [of "a_fs s"] by (cases "f (a_fs s)") (auto simp: onFS_def grows_def sameEntries_def same_def)
qed

lemma MkdirTemp_grows: "moves grows (onFS (os_MkdirTemp dir pattern))"
proof (rule moves_onFS_grows)
  fix fs :: filesys and q assume "fs_nodes fs q \<noteq> None"
  then show "fs_nodes (snd (os_MkdirTemp dir pattern fs)) q \<noteq> None"
    using MkdirTemp_cases [of dir pattern fs] by (cases "os_MkdirTemp dir pattern fs") fastforce
qed

lemma writeFiles_grows: "moves grows (writeFiles dir files)"
  by (induction files)
    (auto intro!: growing.moves_rules moves_onFS_grows
      simp: os_Create_def os_WriteFile_def os_CloseFile_def syscall_def Let_def split: option.splits)

lemma movesR: "moves R m \<Longrightarrow> runs m s (\<lambda>r s'. R s s')"
  by (auto simp: runs_def moves_def split: prod.splits dest: spec [of _ s])

lemma AuthRegister_stale:
  assumes "stale_link s uid"
  shows "runs (AuthRegister uid g files) s (\<lambda>r s'. r \<noteq> Returns None \<and> stale_link s' uid)"
proof -
  let ?Q = "\<lambda>r s'. r \<noteq> Returns None \<and> stale_link s' uid"
  have pub: "runs (publish uid g dir (a_entries s uid)) s' ?Q" if "grows s s'" for s' dir
  proof -
    have "a_entries s' = a_entries s" using that by (auto simp: grows_def dest: sameEntriesD)
    with publish_stale [OF grows_stale [OF that assms], of g dir] show ?thesis by simp
  qed
  have writing: "runs (attempt (writeFiles dir files) (\<lambda>err. ret (Some err))
      (\<lambda>_. publish uid g dir (a_entries s uid))) s' ?Q" if "grows s s'" for s' dir
    unfolding runs_attempt
    by (rule runs_mono [OF movesR [OF writeFiles_grows]])
      (use growing.trans [OF that] assms in
        \<open>auto intro: pub grows_stale simp: runs_ret split: outcome.split sum.split\<close>)
  show ?thesis
    unfolding AuthRegister_def runs_reading
    by (subst runs_attempt, rule runs_mono [OF movesR [OF MkdirTemp_grows]])
      (use assms in \<open>auto intro: writing grows_stale simp: runs_ret split: outcome.split sum.split\<close>)
qed

section \<open>Properties\<close>

text \<open>C23: registering credentials that succeeds makes every given file readable, with the given content,
  under the path of the entry; what the users of every other entry read is unchanged, and the store is
  well formed again.\<close>

theorem AuthRegister_serves:
  assumes "auth_store_ok s" and "distinct (map file_name files)"
    and "AuthRegister uid g files s = (Returns None, s')"
  shows "auth_store_ok s' \<and>
     (\<forall>f\<in>set files. credential s' uid (file_name f) = Some (file_data f)) \<and>
     (\<forall>v name. v \<noteq> uid \<longrightarrow> credential s' v name = credential s v name)"
proof -
  have post: "register_post uid files s (Returns None) s'"
    by (rule runsD [OF AuthRegister_outcome [OF assms(1)] assms(3)])
  moreover have "credential s' v name = credential s v name" if "v \<noteq> uid" for v name
    using post that unharmed_reads [of "\<lambda>v. v \<noteq> uid" s s' v] assms(1) by (auto simp: register_post_def)
  ultimately show ?thesis using assms(2) by (auto simp: register_post_def)
qed

text \<open>C24: registering that fails, wherever it fails, leaves what the users of every entry read as it was,
  the entry being replaced included, and the store well formed.\<close>

theorem AuthRegister_failure_harmless:
  assumes "auth_store_ok s" and "AuthRegister uid g files s = (Returns (Some err), s')"
  shows "auth_store_ok s' \<and> a_entries s' = a_entries s \<and>
     (\<forall>v name. credential s' v name = credential s v name)"
proof -
  have post: "register_post uid files s (Returns (Some err)) s'"
    by (rule runsD [OF AuthRegister_outcome [OF assms(1)] assms(2)])
  moreover have "credential s' v name = credential s v name" for v name
    using post unharmed_reads [of "\<lambda>_. True" s s' v] assms(1) by (auto simp: register_post_def)
  ultimately show ?thesis by (auto simp: register_post_def)
qed

text \<open>deregistering always returns, forgets the entry, and leaves the store well formed and what the
  users of every other entry read unchanged, even when removing the files fails.\<close>

theorem AuthDeregister_others:
  assumes "auth_store_ok s"
  shows "\<exists>s'. AuthDeregister uid s = (Returns (), s') \<and> auth_store_ok s' \<and> AuthLookup s' uid = None \<and>
     (\<forall>v name. v \<noteq> uid \<longrightarrow> credential s' v name = credential s v name)"
proof -
  obtain r s' where run: "AuthDeregister uid s = (r, s')" by fastforce
  from runsD [OF AuthDeregister_outcome [OF assms] this]
  have r: "r = Returns ()" and en: "a_entries s' = (a_entries s)(uid := None)"
    and un: "unharmed (\<lambda>v. v \<noteq> uid) s s'" by auto
  have "auth_store_ok s'" by (rule unharmed_others_ok [OF un _ _ assms]) (use en in auto)
  moreover have "credential s' v name = credential s v name" if "v \<noteq> uid" for v name
    by (rule unharmed_reads [OF un that assms]) (simp add: en that)
  ultimately show ?thesis using run r en by (auto simp: AuthLookup_def)
qed

text \<open>A link left behind under a UID (the permanent one when there is no entry, the temporary one when
  there is) makes every later registration of the UID fail: no operation of \<open>Register\<close> removes it.\<close>

theorem AuthRegister_blocked_by_stale_link:
  assumes "stale_link s uid"
  shows "\<exists>r s'. AuthRegister uid g files s = (r, s') \<and> r \<noteq> Returns None \<and> stale_link s' uid"
  using AuthRegister_stale [OF assms, of g files]
  by (cases "AuthRegister uid g files s") (auto simp: runs_def)

text \<open>A small store: an empty temporary directory, no system call fails but those of \<open>faults\<close>.\<close>

definition demoStore :: "(nat \<Rightarrow> error option) \<Rightarrow> (path \<rightharpoonup> node) \<Rightarrow> AuthState" where
  "demoStore faults ns = \<lparr>a_TmpDir = [''tmp''],
     a_fs = \<lparr>fs_nodes = ns([''tmp''] \<mapsto> Dir), fs_random = \<lambda>i. decimal i, fs_fault = faults, fs_calls = 0\<rparr>,
     a_entries = NewAuthStore\<rparr>"

lemma demoStore_ok: "auth_store_ok (demoStore f ns)"
  by (simp add: auth_store_ok_def demoStore_def NewAuthStore_def serves_def)

lemma tryMkdir_first:
  "fs_nodes fs dir = Some Dir \<Longrightarrow> fs_nodes fs (dir @ [pattern @ fs_random fs i]) = None \<Longrightarrow>
     tryMkdir 10000 i dir pattern fs =
       (Inr (dir @ [pattern @ fs_random fs i]),
        fs\<lparr>fs_nodes := (fs_nodes fs)(dir @ [pattern @ fs_random fs i] \<mapsto> Dir)\<rparr>)"
proof -
  have "(10000::nat) = Suc 9999" by simp
  then show "fs_nodes fs dir = Some Dir \<Longrightarrow> fs_nodes fs (dir @ [pattern @ fs_random fs i]) = None \<Longrightarrow> ?thesis"
    by (simp only: tryMkdir.simps) (simp add: Let_def)
qed

lemmas auth_eval = demoStore_def NewAuthStore_def AuthRegister_def publish_def reading_def attempt_def
  andThen_def onFS_def os_MkdirTemp_def syscall_def tryMkdir_first os_Create_def os_WriteFile_def
  os_CloseFile_def os_Symlink_def parent_is_dir_def setEntry_def modify_def ret_def NewFile_def Let_def

lemma demo_register:
  "fst (AuthRegister ''u'' 1 [NewFile ''key'' ''secret''] (demoStore (\<lambda>_. None) Map.empty)) = Returns None"
  by (simp add: auth_eval)

lemma demo_register_fails:
  "fst (AuthRegister ''u'' 1 [NewFile ''key'' ''secret''] (demoStore (\<lambda>_. Some ErrExist) Map.empty)) =
     Returns (Some ErrExist)"
  by (simp add: auth_eval)

theorem AuthRegister_serves_witness:
  "credential (snd (AuthRegister ''u'' 1 [NewFile ''key'' ''secret''] (demoStore (\<lambda>_. None) Map.empty)))
     ''u'' ''key'' = Some ''secret''"
  using AuthRegister_serves [OF demoStore_ok, of "[NewFile ''key'' ''secret'']" "''u''" 1 "\<lambda>_. None" Map.empty]
    demo_register by (auto simp: NewFile_def prod_eq_iff)

theorem AuthRegister_failure_harmless_witness:
  "auth_store_ok (snd (AuthRegister ''u'' 1 [NewFile ''key'' ''secret''] (demoStore (\<lambda>_. Some ErrExist) Map.empty)))"
  using AuthRegister_failure_harmless [OF demoStore_ok, of "''u''" 1 "[NewFile ''key'' ''secret'']"
      "\<lambda>_. Some ErrExist" Map.empty ErrExist]
    demo_register_fails by (auto simp: prod_eq_iff)

theorem AuthDeregister_others_witness:
  "\<exists>s'. AuthDeregister ''u'' (snd (AuthRegister ''u'' 1 [NewFile ''key'' ''secret'']
      (demoStore (\<lambda>_. None) Map.empty))) = (Returns (), s') \<and> AuthLookup s' ''u'' = None"
proof -
  have "auth_store_ok (snd (AuthRegister ''u'' 1 [NewFile ''key'' ''secret''] (demoStore (\<lambda>_. None) Map.empty)))"
    using AuthRegister_outcome [OF demoStore_ok, of "''u''" 1 "[NewFile ''key'' ''secret'']" "\<lambda>_. None" Map.empty]
    by (auto simp: runs_def register_post_def split: prod.splits)
  from AuthDeregister_others [OF this, of "''u''"] show ?thesis by blast
qed

theorem AuthRegister_blocked_by_stale_link_witness:
  "fst (AuthRegister ''u'' 2 [] (demoStore (\<lambda>_. None) [[''tmp'', ''u''] \<mapsto> SymLink [''gone'']])) \<noteq> Returns None"
  using AuthRegister_blocked_by_stale_link [of "demoStore (\<lambda>_. None) [[''tmp'', ''u''] \<mapsto> SymLink [''gone'']]"
      "''u''" 2 "[]"]
  by (auto simp: stale_link_def demoStore_def NewAuthStore_def)

end
