(* ===== verification/Util.thy ===== *)
theory Util
  imports Api
begin

text \<open>
  Package \<^verbatim>\<open>internal/util\<close>: conversion of sizes to bytes in 64-bit arithmetic, the YAML marshaller's
  wrapper, and the labelling of an object.
\<close>

section \<open>Sizes\<close>

text \<open>The constants of \<open>ConvertToBytes\<close>, in the order of its table.\<close>

definition unitConversion :: "(string \<times> u64) list" where
  "unitConversion =
     (let B = 1; KB = 1000; KiB = 1024; MB = KB * 1000; MiB = KiB * 1024; GB = MB * 1000;
          GiB = MiB * 1024; TB = GB * 1000; TiB = GiB * 1024; PB = TB * 1000; PiB = TiB * 1024;
          EB = PB * 1000; EiB = PiB * 1024
      in [('''', B), (''B'', B), (''bytes'', B),
          (''KB'', KB), (''K'', KiB), (''KiB'', KiB),
          (''MB'', MB), (''M'', MiB), (''MiB'', MiB),
          (''GB'', GB), (''G'', GiB), (''GiB'', GiB),
          (''TB'', TB), (''T'', TiB), (''TiB'', TiB),
          (''PB'', PB), (''P'', PiB), (''PiB'', PiB),
          (''EB'', EB), (''E'', EiB), (''EiB'', EiB)])"

text \<open>A unit that is not in the Go map reads as the zero value.\<close>

definition ConvertToBytes :: "u64 \<Rightarrow> string \<Rightarrow> u64" where
  "ConvertToBytes value unit =
     value * (case map_of unitConversion unit of None \<Rightarrow> 0 | Some f \<Rightarrow> f)"

text \<open>The units the validation of a volume's size accepts.\<close>

definition volume_units :: "string list" where
  "volume_units = [''bytes'', ''B'', ''KB'', ''K'', ''KiB'', ''MB'', ''M'', ''MiB'', ''GB'', ''G'', ''GiB'',
     ''TB'', ''T'', ''TiB'', ''PB'', ''P'', ''PiB'', ''EB'', ''E'', ''EiB'']"

text \<open>
  The specification: decimal and binary prefixes, the one-letter ones binary.
\<close>

fun prefix_power :: "char \<Rightarrow> nat" where
  "prefix_power c =
     (if c = CHR ''K'' then 1 else if c = CHR ''M'' then 2 else if c = CHR ''G'' then 3
      else if c = CHR ''T'' then 4 else if c = CHR ''P'' then 5 else if c = CHR ''E'' then 6 else 0)"

definition unit_bytes :: "string \<Rightarrow> nat" where
  "unit_bytes u =
     (if u \<in> {'''', ''B'', ''bytes''} then 1
      else if length u = 2 then 1000 ^ prefix_power (hd u) else 1024 ^ prefix_power (hd u))"

lemma unitConversion_factor:
  "u \<in> insert '''' (set volume_units) \<Longrightarrow>
     \<exists>f. map_of unitConversion u = Some f \<and> unat f = unit_bytes u"
  unfolding volume_units_def
  by (simp, elim disjE) (simp_all add: unitConversion_def unit_bytes_def Let_def)

lemma unitConversion_unknown:
  "u \<notin> insert '''' (set volume_units) \<Longrightarrow> map_of unitConversion u = None"
  by (auto simp: unitConversion_def volume_units_def Let_def)

lemma unat_ConvertToBytes:
  assumes "u \<in> insert '''' (set volume_units)"
  shows "unat (ConvertToBytes v u) = (unat v * unit_bytes u) mod 2 ^ 64"
proof -
  obtain f where "map_of unitConversion u = Some f" and "unat f = unit_bytes u"
    using unitConversion_factor [OF assms] by blast
  then show ?thesis by (simp add: ConvertToBytes_def unat_word_ariths)
qed

lemma unat_ConvertToBytes_exact:
  "u \<in> insert '''' (set volume_units) \<Longrightarrow> unat v * unit_bytes u < 2 ^ 64 \<Longrightarrow>
     unat (ConvertToBytes v u) = unat v * unit_bytes u"
  by (simp add: unat_ConvertToBytes)

lemma ConvertToBytes_bytes [simp]: "ConvertToBytes v ''bytes'' = v" "ConvertToBytes v '''' = v"
  by (simp_all add: ConvertToBytes_def unitConversion_def Let_def)

section \<open>YAML\<close>

text \<open>
  The encoder of \<^verbatim>\<open>yaml.v3\<close> is a parameter: what \<open>Encode\<close> and then \<open>Close\<close> write, or the error they
  return. The wrapper starts from the bytes already in the buffer.
\<close>

record 'a yaml_encoder =
  ye_Encode :: "'a \<Rightarrow> error + bytes"
  ye_Close :: "'a \<Rightarrow> error + bytes"

definition Marshal :: "'a yaml_encoder \<Rightarrow> bytes \<Rightarrow> 'a \<Rightarrow> error + bytes" where
  "Marshal enc buffer data =
     (case ye_Encode enc data of
        Inl err \<Rightarrow> Inl err
      | Inr written \<Rightarrow> (case ye_Close enc data of
          Inl err \<Rightarrow> Inl err
        | Inr rest \<Rightarrow> Inr (buffer @ written @ rest)))"

lemma Marshal_prefix: "Marshal enc buffer data = Inr out \<Longrightarrow> \<exists>doc. out = buffer @ doc"
  by (auto simp: Marshal_def split: sum.splits)

section \<open>Labels\<close>

text \<open>\<open>SetLabel\<close> updates the metadata in place and says whether it changed them.\<close>

definition SetLabel :: "ObjectMeta \<Rightarrow> string \<Rightarrow> string \<Rightarrow> bool \<times> ObjectMeta" where
  "SetLabel m key value =
     (case om_Labels m of
        None \<Rightarrow> (True, m\<lparr>om_Labels := Some [key \<mapsto> value]\<rparr>)
      | Some labels \<Rightarrow> (case labels key of
          Some v \<Rightarrow> if v = value then (False, m)
                    else (True, m\<lparr>om_Labels := Some (labels(key \<mapsto> value))\<rparr>)
        | None \<Rightarrow> (True, m\<lparr>om_Labels := Some (labels(key \<mapsto> value))\<rparr>)))"

text \<open>The value of a label, absent when the map is nil.\<close>

definition label_of :: "ObjectMeta \<Rightarrow> string \<rightharpoonup> string" where
  "label_of m k = (case om_Labels m of None \<Rightarrow> None | Some l \<Rightarrow> l k)"

lemma SetLabel_sets: "label_of (snd (SetLabel m k v)) k = Some v"
  by (auto simp: SetLabel_def label_of_def split: option.splits)

lemma SetLabel_other: "k' \<noteq> k \<Longrightarrow> label_of (snd (SetLabel m k v)) k' = label_of m k'"
  by (auto simp: SetLabel_def label_of_def split: option.splits)

lemma SetLabel_changed: "fst (SetLabel m k v) \<longleftrightarrow> label_of m k \<noteq> Some v"
  by (auto simp: SetLabel_def label_of_def split: option.splits)

lemma SetLabel_unchanged: "\<not> fst (SetLabel m k v) \<Longrightarrow> snd (SetLabel m k v) = m"
  by (auto simp: SetLabel_def split: option.splits if_splits)

lemma SetLabel_idem: "SetLabel (snd (SetLabel m k v)) k v = (False, snd (SetLabel m k v))"
  by (auto simp: SetLabel_def split: option.splits)

lemma SetLabel_frame:
  "om_Name (snd (SetLabel m k v)) = om_Name m"
  "om_Namespace (snd (SetLabel m k v)) = om_Namespace m"
  "om_UID (snd (SetLabel m k v)) = om_UID m"
  "om_Finalizers (snd (SetLabel m k v)) = om_Finalizers m"
  "om_DeletionTimestamp (snd (SetLabel m k v)) = om_DeletionTimestamp m"
  "om_Generation (snd (SetLabel m k v)) = om_Generation m"
  by (auto simp: SetLabel_def split: option.splits)

text \<open>An object with a label set, and whether that changed it.\<close>

definition SetObjectLabel :: "('spec, 'st) Object \<Rightarrow> string \<Rightarrow> string \<Rightarrow> bool \<times> ('spec, 'st) Object" where
  "SetObjectLabel obj key value =
     (case SetLabel (Meta obj) key value of (changed, m) \<Rightarrow> (changed, obj\<lparr>Meta := m\<rparr>))"

lemma SetObjectLabel_simps:
  "fst (SetObjectLabel obj k v) = fst (SetLabel (Meta obj) k v)"
  "Meta (snd (SetObjectLabel obj k v)) = snd (SetLabel (Meta obj) k v)"
  "Spec (snd (SetObjectLabel obj k v)) = Spec obj"
  "Status (snd (SetObjectLabel obj k v)) = Status obj"
  by (simp_all add: SetObjectLabel_def split: prod.splits)

section \<open>Properties\<close>

text \<open>The size in bytes of a value in one of the units the API accepts is the value times the unit, decimal for
  two letters and binary otherwise, modulo 2 to the 64. So it is exact as long as the product fits in 64 bits,
  and a size of 16 EiB, which the API accepts, wraps around to nothing.\<close>

theorem ConvertToBytes_meets_spec:
  assumes "u \<in> set volume_units"
  shows "unat (ConvertToBytes v u) = unat v * unit_bytes u mod 2 ^ 64 \<and>
    (unat v * unit_bytes u < 2 ^ 64 \<longrightarrow> unat (ConvertToBytes v u) = unat v * unit_bytes u)"
  using assms by (simp add: unat_ConvertToBytes)

theorem ConvertToBytes_meets_spec_witness:
  "unat (ConvertToBytes 16 ''EiB'') = 0 \<and> unat (ConvertToBytes 20 ''GiB'') = 21474836480"
  using ConvertToBytes_meets_spec [of "''EiB''" 16] ConvertToBytes_meets_spec [of "''GiB''" 20]
  by (simp add: volume_units_def unit_bytes_def)

text \<open>Setting a label makes exactly that label have that value and changes nothing else of the object; it reports
  a change when and only when the value was different, and changes nothing when repeated.\<close>

lemma SetObjectLabel_functional:
  "label_of (Meta (snd (SetObjectLabel obj k v))) = (label_of (Meta obj))(k \<mapsto> v) \<and>
   (fst (SetObjectLabel obj k v) \<longleftrightarrow> label_of (Meta obj) k \<noteq> Some v) \<and>
   (fst (SetObjectLabel obj k v) \<or> snd (SetObjectLabel obj k v) = obj) \<and>
   SetObjectLabel (snd (SetObjectLabel obj k v)) k v = (False, snd (SetObjectLabel obj k v)) \<and>
   Spec (snd (SetObjectLabel obj k v)) = Spec obj \<and> Status (snd (SetObjectLabel obj k v)) = Status obj \<and>
   om_Finalizers (Meta (snd (SetObjectLabel obj k v))) = om_Finalizers (Meta obj) \<and>
   om_DeletionTimestamp (Meta (snd (SetObjectLabel obj k v))) = om_DeletionTimestamp (Meta obj)"
proof -
  obtain changed m where l: "SetLabel (Meta obj) k v = (changed, m)" by (cases "SetLabel (Meta obj) k v")
  have "changed \<or> m = Meta obj" "SetLabel m k v = (False, m)"
    using SetLabel_unchanged [of "Meta obj" k v] SetLabel_idem [of "Meta obj" k v] by (auto simp: l)
  moreover have "label_of m = (label_of (Meta obj))(k \<mapsto> v)"
    using SetLabel_sets [of "Meta obj" k v] SetLabel_other [of _ k "Meta obj" v] by (auto simp: l fun_eq_iff)
  ultimately show ?thesis
    using SetLabel_frame [of "Meta obj" k v] SetLabel_changed [of "Meta obj" k v]
    by (auto simp add: SetObjectLabel_def l)
qed

end
