(* ===== verification/Probe.thy ===== *)
theory Probe
  imports Util HostClient
begin

text \<open>
  Package \<^verbatim>\<open>internal/probe\<close>: what the operator asks a host about itself, its pools, its networks and its
  PCI devices. A probe of something that does not exist is not an error: the daemon's "no such" code
  gives a probe whose \<open>exists\<close> is false and whose other fields are zero.
\<close>

text \<open>The error codes of \<open>libvirt.Error\<close> the probes and actions look for.\<close>

fun isCode :: "errcode \<Rightarrow> error \<Rightarrow> bool" where
  "isCode code (LibvirtError c m) = (c = code)"
| "isCode code (StatusError r m) = False"
| "isCode code (PlainError m) = False"

section \<open>Host\<close>

record HostProbe =
  hp_arch :: string
  hp_cpus :: u64
  hp_memoryTotal :: u64
  hp_memoryFree :: u64
  hp_numa :: bool

definition countCPUs :: "CapsHostNUMACell list \<Rightarrow> u64" where
  "countCPUs cells =
     fold (\<lambda>c n. case cell_CPUS c of None \<Rightarrow> n | Some k \<Rightarrow> n + k) cells 0"

text \<open>One pass of the loop over the memory statistics.\<close>

definition addMemStat :: "LvMemoryStat \<Rightarrow> HostProbe \<Rightarrow> HostProbe" where
  "addMemStat memStat p =
     (let v = ConvertToBytes (lms_Value memStat) ''KB'' in
      if lms_Field memStat = NodeMemoryStatsTotal then p\<lparr>hp_memoryTotal := v\<rparr>
      else if lms_Field memStat = NodeMemoryStatsFree then p\<lparr>hp_memoryFree := v\<rparr>
      else if lms_Field memStat = NodeMemoryStatsBuffers then p\<lparr>hp_memoryFree := hp_memoryFree p + v\<rparr>
      else if lms_Field memStat = NodeMemoryStatsCached then p\<lparr>hp_memoryFree := hp_memoryFree p + v\<rparr>
      else p)"

definition NewHostProbe :: "xmlcodec \<Rightarrow> 's Client \<Rightarrow> ('s, error + HostProbe) prog" where
  "NewHostProbe x client =
     attempt (Capabilities client) (\<lambda>err. ret (Inl err)) (\<lambda>capsData.
     case caps_Unmarshal x capsData of
       Inl err \<Rightarrow> ret (Inl err)
     | Inr caps \<Rightarrow>
         let p = \<lparr>hp_arch = (case caps_CPUArch caps of Some a \<Rightarrow> a | None \<Rightarrow> ''unknown''),
                  hp_cpus = 0, hp_memoryTotal = 0, hp_memoryFree = 0, hp_numa = False\<rparr>;
             p = (case caps_NUMA caps of
                    Some (Some cells) \<Rightarrow> p\<lparr>hp_numa := 1 < cells_Num cells,
                                           hp_cpus := countCPUs (cells_Cells cells)\<rparr>
                  | _ \<Rightarrow> p) in
         attempt (NodeGetMemoryStats client 4 NodeMemoryStatsAllCells 0) (\<lambda>err. ret (Inl err))
           (\<lambda>(memStats, n). ret (Inr (fold addMemStat memStats p))))"

section \<open>Network\<close>

record NetworkProbe =
  np_active :: bool
  np_exists :: bool

definition NewNetworkProbe :: "'s Client \<Rightarrow> string \<Rightarrow> ('s, error + NetworkProbe) prog" where
  "NewNetworkProbe client name =
     attempt (NetworkLookupByName client name)
       (\<lambda>err. if isCode ErrNoNetwork err then ret (Inr \<lparr>np_active = False, np_exists = False\<rparr>)
              else ret (Inl err))
       (\<lambda>network. attempt (NetworkIsActive client network) (\<lambda>err. ret (Inl err))
         (\<lambda>active. ret (Inr \<lparr>np_active = (active = 1), np_exists = True\<rparr>)))"

section \<open>Pool\<close>

record PoolProbe =
  pp_exists :: bool
  pp_active :: bool
  pp_capacity :: u64
  pp_allocation :: u64
  pp_available :: u64

definition NewPoolProbe :: "'s Client \<Rightarrow> string \<Rightarrow> ('s, error + PoolProbe) prog" where
  "NewPoolProbe client name =
     attempt (StoragePoolLookupByName client name)
       (\<lambda>err. if isCode ErrNoStoragePool err
              then ret (Inr \<lparr>pp_exists = False, pp_active = False, pp_capacity = 0,
                             pp_allocation = 0, pp_available = 0\<rparr>)
              else ret (Inl err))
       (\<lambda>pool. attempt (StoragePoolGetInfo client pool) (\<lambda>err. ret (Inl err))
         (\<lambda>(state, cap, alloc, avail). ret (Inr \<lparr>pp_exists = True,
            pp_active = (state = ucast StoragePoolRunning), pp_capacity = cap,
            pp_allocation = alloc, pp_available = avail\<rparr>)))"

section \<open>PCI device\<close>

record PCIDeviceProbe =
  pdp_exists :: bool
  pdp_active :: bool
  pdp_domain :: u64
  pdp_bus :: u64
  pdp_slot :: u64
  pdp_function :: u64

definition NewPCIDeviceProbe ::
    "xmlcodec \<Rightarrow> 's Client \<Rightarrow> string \<Rightarrow> ('s, error + PCIDeviceProbe) prog" where
  "NewPCIDeviceProbe x client name =
     attempt (NodeDeviceLookupByName client name)
       (\<lambda>err. if isCode ErrNoNodeDevice err
              then ret (Inr \<lparr>pdp_exists = False, pdp_active = False, pdp_domain = 0, pdp_bus = 0,
                             pdp_slot = 0, pdp_function = 0\<rparr>)
              else ret (Inl err))
       (\<lambda>_. attempt (NodeDeviceIsActive client name) (\<lambda>err. ret (Inl err)) (\<lambda>active.
       attempt (NodeDeviceGetXMLDesc client name 0) (\<lambda>err. ret (Inl err)) (\<lambda>xml.
       case nodedev_Unmarshal x xml of
         Inl err \<Rightarrow> ret (Inl err)
       | Inr dev \<Rightarrow> (case ndx_CapabilityPCI dev of
           None \<Rightarrow> ret (Inl (PlainError ''is not a pci device''))
         | Some pci \<Rightarrow> (case (ndp_Domain pci, ndp_Bus pci, ndp_Slot pci, ndp_Function pci) of
             (Some domain, Some bus, Some slot, Some function) \<Rightarrow>
               ret (Inr \<lparr>pdp_exists = True, pdp_active = (active = 1), pdp_domain = domain,
                         pdp_bus = bus, pdp_slot = slot, pdp_function = function\<rparr>)
           | _ \<Rightarrow> ret (Inl (PlainError ''address could not be read'')))))))"

end
