(* ===== verification/Fake.thy ===== *)
theory Fake
  imports HostClient
begin

text \<open>
  The in-memory libvirt of \<^verbatim>\<open>internal/host/fake\<close>, the repository's own implementation of
  \<open>host.Client\<close>. Its state is the Go struct: pools with their volumes, domains, networks and node
  devices in the order they were added, and whether the channel \<open>disconnected\<close> is closed. The slices
  hold pointers; a lookup returns the first match and the operations change what it points to, here
  the element at that position.
\<close>

section \<open>State\<close>

record FakeMemory =
  fm_Total :: u64
  fm_Free :: u64

record FakePool =
  fp_state :: u32
  fp_xml :: StoragePool
  fp_volumes :: "StorageVolume list"

record FakeDomain =
  fd_state :: u32
  fd_reason :: u32
  fd_xml :: DomainXML

record FakeNetwork =
  fn_state :: u32
  fn_xml :: NetworkXML

record FakeNodedev =
  fnd_state :: u32
  fnd_xml :: NodeDeviceXML

record Fake =
  f_capabilities :: "Caps option"
  f_memory :: FakeMemory
  f_connectFail :: bool
  f_disconnectFail :: bool
  f_disconnected :: bool
  f_pools :: "FakePool list"
  f_domains :: "FakeDomain list"
  f_networks :: "FakeNetwork list"
  f_nodedevs :: "FakeNodedev list"

definition ErrConnectFailed :: string where "ErrConnectFailed = ''connect to host failed''"
definition ErrDisconnectFailed :: string where "ErrDisconnectFailed = ''disconnect from host failed''"
definition ErrPoolNotExist :: string where "ErrPoolNotExist = ''pool does not exist''"
definition ErrDomainNotExist :: string where "ErrDomainNotExist = ''domain does not exist''"
definition ErrDomainAlreadyExist :: string where "ErrDomainAlreadyExist = ''domain does not exist''"
definition ErrDomainAlreadyRunning :: string where
  "ErrDomainAlreadyRunning = ''domain is already running''"
definition ErrDomainAlreadyShutoff :: string where
  "ErrDomainAlreadyShutoff = ''domain is already shutoff''"
definition ErrNetworkNotExist :: string where "ErrNetworkNotExist = ''network does not exist''"
definition ErrNodedevNotExist :: string where "ErrNodedevNotExist = ''Node device does not exist''"
definition ErrVolumeExists :: string where "ErrVolumeExists = ''volume already exists''"
definition ErrVolumeNotExist :: string where "ErrVolumeNotExist = ''volume does not exist''"

definition fakeNew :: Fake where
  "fakeNew = \<lparr>f_capabilities = None, f_memory = \<lparr>fm_Total = 0, fm_Free = 0\<rparr>, f_connectFail = False,
     f_disconnectFail = False, f_disconnected = True, f_pools = [], f_domains = [], f_networks = [],
     f_nodedevs = []\<rparr>"

definition WithConnectFail :: "Fake \<Rightarrow> Fake" where
  "WithConnectFail f = f\<lparr>f_connectFail := True\<rparr>"

definition WithDisconnectFail :: "Fake \<Rightarrow> Fake" where
  "WithDisconnectFail f = f\<lparr>f_disconnectFail := True\<rparr>"

definition WithPool :: "StoragePool \<Rightarrow> u32 \<Rightarrow> StorageVolume list \<Rightarrow> Fake \<Rightarrow> Fake" where
  "WithPool pool state volumes f =
     f\<lparr>f_pools := f_pools f @ [\<lparr>fp_state = state, fp_xml = pool, fp_volumes = volumes\<rparr>]\<rparr>"

definition WithCapabilities :: "Caps \<Rightarrow> Fake \<Rightarrow> Fake" where
  "WithCapabilities caps f = f\<lparr>f_capabilities := Some caps\<rparr>"

definition WithDomain :: "DomainXML \<Rightarrow> u32 \<Rightarrow> Fake \<Rightarrow> Fake" where
  "WithDomain domain state f =
     f\<lparr>f_domains := f_domains f @ [\<lparr>fd_state = state, fd_reason = 0, fd_xml = domain\<rparr>]\<rparr>"

definition WithNodeDev :: "NodeDeviceXML \<Rightarrow> u32 \<Rightarrow> Fake \<Rightarrow> Fake" where
  "WithNodeDev nodedev state f =
     f\<lparr>f_nodedevs := f_nodedevs f @ [\<lparr>fnd_state = state, fnd_xml = nodedev\<rparr>]\<rparr>"

text \<open>The argument \<open>state\<close> is not used: a network is always added as active.\<close>

definition WithNetwork :: "NetworkXML \<Rightarrow> u32 \<Rightarrow> Fake \<Rightarrow> Fake" where
  "WithNetwork network state f =
     f\<lparr>f_networks := f_networks f @ [\<lparr>fn_state = 1, fn_xml = network\<rparr>]\<rparr>"

definition WithMemoryStats :: "FakeMemory \<Rightarrow> Fake \<Rightarrow> Fake" where
  "WithMemoryStats memory f = f\<lparr>f_memory := memory\<rparr>"

section \<open>Lookups\<close>

text \<open>\<open>slices.IndexFunc\<close>, with \<open>None\<close> for \<open>-1\<close>.\<close>

fun IndexFunc :: "('a \<Rightarrow> bool) \<Rightarrow> 'a list \<Rightarrow> nat option" where
  "IndexFunc P [] = None"
| "IndexFunc P (x # xs) = (if P x then Some 0 else map_option Suc (IndexFunc P xs))"

definition getPoolIndex :: "string \<Rightarrow> Fake \<Rightarrow> error + nat" where
  "getPoolIndex name f =
     (case IndexFunc (\<lambda>p. spx_Name (fp_xml p) = name) (f_pools f) of
        None \<Rightarrow> Inl (LibvirtError ErrNoStoragePool ErrPoolNotExist)
      | Some i \<Rightarrow> Inr i)"

definition getVolumeIndex :: "string \<Rightarrow> FakePool \<Rightarrow> error + nat" where
  "getVolumeIndex name p =
     (case IndexFunc (\<lambda>v. sv_Name v = name) (fp_volumes p) of
        None \<Rightarrow> Inl (LibvirtError ErrNoStorageVol ErrVolumeNotExist)
      | Some i \<Rightarrow> Inr i)"

definition getDomainIndex :: "string \<Rightarrow> Fake \<Rightarrow> error + nat" where
  "getDomainIndex name f =
     (case IndexFunc (\<lambda>d. dom_Name (fd_xml d) = name) (f_domains f) of
        None \<Rightarrow> Inl (LibvirtError ErrNoDomain ErrDomainNotExist)
      | Some i \<Rightarrow> Inr i)"

definition getNetwork :: "string \<Rightarrow> Fake \<Rightarrow> error + FakeNetwork" where
  "getNetwork name f =
     (case IndexFunc (\<lambda>n. netx_Name (fn_xml n) = name) (f_networks f) of
        None \<Rightarrow> Inl (LibvirtError ErrNoNetwork ErrNetworkNotExist)
      | Some i \<Rightarrow> Inr (f_networks f ! i))"

definition getNodeDevice :: "string \<Rightarrow> Fake \<Rightarrow> error + FakeNodedev" where
  "getNodeDevice name f =
     (case IndexFunc (\<lambda>n. ndx_Name (fnd_xml n) = name) (f_nodedevs f) of
        None \<Rightarrow> Inl (LibvirtError ErrNoNodeDevice ErrNodedevNotExist)
      | Some i \<Rightarrow> Inr (f_nodedevs f ! i))"

lemma IndexFunc_None_iff: "IndexFunc P xs = None \<longleftrightarrow> (\<forall>x\<in>set xs. \<not> P x)"
  by (induction xs) auto

lemma IndexFunc_Some: "IndexFunc P xs = Some i \<Longrightarrow> i < length xs \<and> P (xs ! i) \<and> (\<forall>j<i. \<not> P (xs ! j))"
proof (induction xs arbitrary: i)
  case (Cons x xs)
  show ?case
  proof (cases "P x")
    case False
    with Cons.prems obtain k where "IndexFunc P xs = Some k" "i = Suc k" by auto
    with False Cons.IH [of k] show ?thesis by (auto simp: less_Suc_eq_0_disj)
  qed (use Cons.prems in auto)
qed simp

lemma IndexFunc_append:
  "IndexFunc P (xs @ ys) =
     (case IndexFunc P xs of Some i \<Rightarrow> Some i | None \<Rightarrow> map_option ((+) (length xs)) (IndexFunc P ys))"
  by (induction xs; cases "IndexFunc P ys") (auto split: option.splits)

lemma IndexFunc_cong_at:
  "IndexFunc P xs = Some i \<Longrightarrow> P x \<Longrightarrow> IndexFunc P (xs[i := x]) = Some i"
  by (induction xs arbitrary: i) (auto split: if_splits)


section \<open>Storage\<close>

text \<open>Reading and changing the volume that a handle names.\<close>

definition withVolume :: "LvStorageVol \<Rightarrow> (error \<Rightarrow> (Fake, 'r) prog)
    \<Rightarrow> (nat \<Rightarrow> nat \<Rightarrow> StorageVolume \<Rightarrow> (Fake, 'r) prog) \<Rightarrow> (Fake, 'r) prog" where
  "withVolume vol h k f =
     (case getPoolIndex (lsv_Pool vol) f of
        Inl err \<Rightarrow> h err f
      | Inr i \<Rightarrow> (case getVolumeIndex (lsv_Name vol) (f_pools f ! i) of
          Inl err \<Rightarrow> h err f
        | Inr j \<Rightarrow> k i j (fp_volumes (f_pools f ! i) ! j) f))"

definition setVolume :: "nat \<Rightarrow> nat \<Rightarrow> StorageVolume \<Rightarrow> Fake \<Rightarrow> Fake" where
  "setVolume i j v f = f\<lparr>f_pools := (f_pools f)[i := (f_pools f ! i)\<lparr>fp_volumes :=
     (fp_volumes (f_pools f ! i))[j := v]\<rparr>]\<rparr>"

text \<open>\<open>v.Capacity.Unit = "bytes"; v.Capacity.Value = n\<close>, which panics when \<open>Capacity\<close> is nil.\<close>

definition setCapacityBytes :: "nat \<Rightarrow> nat \<Rightarrow> StorageVolume \<Rightarrow> u64 \<Rightarrow> (Fake, error option) prog" where
  "setCapacityBytes i j v n f =
     (case sv_Capacity v of
        None \<Rightarrow> (Panics, f)
      | Some c \<Rightarrow> (Returns None,
          setVolume i j (v\<lparr>sv_Capacity := Some (c\<lparr>svs_Unit := ''bytes'', svs_Value := n\<rparr>)\<rparr>) f))"

definition fakeStoragePoolLookupByName :: "string \<Rightarrow> (Fake, error + LvStoragePool) prog" where
  "fakeStoragePoolLookupByName name f =
     (case getPoolIndex name f of
        Inl err \<Rightarrow> (Returns (Inl err), f)
      | Inr i \<Rightarrow> (Returns (Inr \<lparr>lsp_Name = spx_Name (fp_xml (f_pools f ! i))\<rparr>), f))"

definition fakeStorageVolLookupByName ::
    "LvStoragePool \<Rightarrow> string \<Rightarrow> (Fake, error + LvStorageVol) prog" where
  "fakeStorageVolLookupByName pool name f =
     (case getPoolIndex (lsp_Name pool) f of
        Inl err \<Rightarrow> (Returns (Inl err), f)
      | Inr i \<Rightarrow> (case getVolumeIndex name (f_pools f ! i) of
          Inl err \<Rightarrow> (Returns (Inl err), f)
        | Inr j \<Rightarrow> (let v = fp_volumes (f_pools f ! i) ! j in
            (Returns (Inr \<lparr>lsv_Pool = lsp_Name pool, lsv_Name = sv_Name v, lsv_Key = sv_Key v\<rparr>), f))))"

fun lookupKey :: "string \<Rightarrow> FakePool list \<Rightarrow> error + LvStorageVol" where
  "lookupKey key [] = Inl (LibvirtError ErrNoStorageVol ErrVolumeNotExist)"
| "lookupKey key (pool # pools) =
     (case IndexFunc (\<lambda>v. sv_Key v = key) (fp_volumes pool) of
        Some i \<Rightarrow> (let volume = fp_volumes pool ! i in
          Inr \<lparr>lsv_Pool = spx_Name (fp_xml pool), lsv_Name = sv_Name volume, lsv_Key = sv_Key volume\<rparr>)
      | None \<Rightarrow> lookupKey key pools)"

definition fakeStorageVolLookupByKey :: "string \<Rightarrow> (Fake, error + LvStorageVol) prog" where
  "fakeStorageVolLookupByKey key f = (Returns (lookupKey key (f_pools f)), f)"

definition fakeStorageVolGetXMLDesc ::
    "xmlcodec \<Rightarrow> LvStorageVol \<Rightarrow> u32 \<Rightarrow> (Fake, error + string) prog" where
  "fakeStorageVolGetXMLDesc x vol flags =
     withVolume vol (\<lambda>err. ret (Inl err)) (\<lambda>i j v. ret (vol_Marshal x v))"

definition createVol :: "xmlcodec \<Rightarrow> nat \<Rightarrow> string \<Rightarrow> (Fake, error + StorageVolume) prog" where
  "createVol x i xml f =
     (case vol_Unmarshal x xml of
        Inl err \<Rightarrow> (Returns (Inl err), f)
      | Inr vol \<Rightarrow> (case getVolumeIndex (sv_Name vol) (f_pools f ! i) of
          Inr j \<Rightarrow> (Returns (Inl (PlainError ErrVolumeExists)), f)
        | Inl err \<Rightarrow>
            if ErrorText err \<noteq> ErrVolumeNotExist then (Returns (Inl err), f)
            else (Returns (Inr vol), f\<lparr>f_pools := (f_pools f)[i := (f_pools f ! i)\<lparr>fp_volumes :=
                   fp_volumes (f_pools f ! i) @ [vol]\<rparr>]\<rparr>)))"

definition deleteVol :: "nat \<Rightarrow> string \<Rightarrow> (Fake, error option) prog" where
  "deleteVol i name f =
     (case getVolumeIndex name (f_pools f ! i) of
        Inl err \<Rightarrow> (Returns (Some err), f)
      | Inr j \<Rightarrow> (Returns None, f\<lparr>f_pools := (f_pools f)[i := (f_pools f ! i)\<lparr>fp_volumes :=
          filter (\<lambda>v. sv_Name v \<noteq> name) (fp_volumes (f_pools f ! i))\<rparr>]\<rparr>))"

definition fakeStorageVolCreateXML ::
    "xmlcodec \<Rightarrow> LvStoragePool \<Rightarrow> string \<Rightarrow> u32 \<Rightarrow> (Fake, error + LvStorageVol) prog" where
  "fakeStorageVolCreateXML x pool xml flags f =
     (case getPoolIndex (lsp_Name pool) f of
        Inl err \<Rightarrow> (Returns (Inl err), f)
      | Inr i \<Rightarrow> attempt (createVol x i xml) (\<lambda>err. ret (Inl err))
          (\<lambda>v. ret (Inr \<lparr>lsv_Pool = spx_Name (fp_xml (f_pools f ! i)), lsv_Name = sv_Name v,
                         lsv_Key = sv_Key v\<rparr>)) f)"

definition fakeStorageVolUpload ::
    "LvStorageVol \<Rightarrow> bytes \<Rightarrow> u64 \<Rightarrow> u64 \<Rightarrow> u32 \<Rightarrow> (Fake, error option) prog" where
  "fakeStorageVolUpload vol outStream offset len flags =
     withVolume vol (\<lambda>err. ret (Some err))
       (\<lambda>i j v. setCapacityBytes i j v (of_nat (length outStream)))"

definition fakeStorageVolResize :: "LvStorageVol \<Rightarrow> u64 \<Rightarrow> u32 \<Rightarrow> (Fake, error option) prog" where
  "fakeStorageVolResize vol capacity flags =
     withVolume vol (\<lambda>err. ret (Some err)) (\<lambda>i j v. setCapacityBytes i j v capacity)"

definition fakeStorageVolDelete :: "LvStorageVol \<Rightarrow> u32 \<Rightarrow> (Fake, error option) prog" where
  "fakeStorageVolDelete vol flags f =
     (case getPoolIndex (lsv_Pool vol) f of
        Inl err \<Rightarrow> (Returns (Some err), f)
      | Inr i \<Rightarrow> deleteVol i (lsv_Name vol) f)"

definition fakeStoragePoolIsActive :: "LvStoragePool \<Rightarrow> (Fake, error + u32) prog" where
  "fakeStoragePoolIsActive pool f =
     (case getPoolIndex (lsp_Name pool) f of
        Inl err \<Rightarrow> (Returns (Inl err), f)
      | Inr i \<Rightarrow> (Returns (Inr (fp_state (f_pools f ! i))), f))"

definition fakeStoragePoolGetInfo ::
    "safecast \<Rightarrow> LvStoragePool \<Rightarrow> (Fake, error + u8 \<times> u64 \<times> u64 \<times> u64) prog" where
  "fakeStoragePoolGetInfo c pool f =
     (case getPoolIndex (lsp_Name pool) f of
        Inl err \<Rightarrow> (Returns (Inl err), f)
      | Inr i \<Rightarrow> (let p = f_pools f ! i in
          deref (spx_Capacity (fp_xml p)) (\<lambda>cap. deref (spx_Allocation (fp_xml p)) (\<lambda>alloc.
            deref (spx_Available (fp_xml p)) (\<lambda>avail.
              ret (Inr (ToUint8 c (sint (fp_state p)), svs_Value cap, svs_Value alloc, svs_Value avail)))))
          f))"

section \<open>Domains\<close>

definition setDomainState :: "nat \<Rightarrow> u32 \<Rightarrow> u32 \<Rightarrow> Fake \<Rightarrow> Fake" where
  "setDomainState i state reason f = f\<lparr>f_domains := (f_domains f)[i := (f_domains f ! i)\<lparr>
     fd_state := state, fd_reason := reason\<rparr>]\<rparr>"

definition fakeDomainBlockResize ::
    "LvDomain \<Rightarrow> string \<Rightarrow> u64 \<Rightarrow> u32 \<Rightarrow> (Fake, error option) prog" where
  "fakeDomainBlockResize d disk s flags = ret None"

definition fakeDomainCreate :: "LvDomain \<Rightarrow> (Fake, error option) prog" where
  "fakeDomainCreate d f =
     (case getDomainIndex (ld_Name d) f of
        Inl err \<Rightarrow> (Returns (Some err), f)
      | Inr i \<Rightarrow>
          if fd_state (f_domains f ! i) = DomainRunning
          then (Returns (Some (PlainError ErrDomainAlreadyRunning)), f)
          else (Returns None, setDomainState i DomainRunning DomainRunningBooted f))"

definition fakeDomainDefineXML :: "xmlcodec \<Rightarrow> string \<Rightarrow> (Fake, error + LvDomain) prog" where
  "fakeDomainDefineXML x xml f =
     (case dom_Unmarshal x xml of
        Inl err \<Rightarrow> (Returns (Inl err), f)
      | Inr d \<Rightarrow> (case getDomainIndex (dom_Name d) f of
          Inr i \<Rightarrow> (Returns (Inl (PlainError ErrDomainAlreadyExist)), f)
        | Inl err \<Rightarrow>
            if ErrorText err \<noteq> ErrDomainNotExist then (Returns (Inl err), f)
            else (Returns (Inr \<lparr>ld_Name = dom_Name d\<rparr>),
                  f\<lparr>f_domains := f_domains f @
                    [\<lparr>fd_state = DomainShutoff, fd_reason = 0, fd_xml = d\<rparr>]\<rparr>)))"

definition fakeDomainGetState :: "LvDomain \<Rightarrow> u32 \<Rightarrow> (Fake, error + u32 \<times> u32) prog" where
  "fakeDomainGetState d flags f =
     (case getDomainIndex (ld_Name d) f of
        Inl err \<Rightarrow> (Returns (Inl err), f)
      | Inr i \<Rightarrow> (Returns (Inr (fd_state (f_domains f ! i), fd_reason (f_domains f ! i))), f))"

definition fakeDomainGetXMLDesc :: "xmlcodec \<Rightarrow> LvDomain \<Rightarrow> u32 \<Rightarrow> (Fake, error + string) prog" where
  "fakeDomainGetXMLDesc x d flags f =
     (case getDomainIndex (ld_Name d) f of
        Inl err \<Rightarrow> (Returns (Inl err), f)
      | Inr i \<Rightarrow> (Returns (dom_Marshal x (fd_xml (f_domains f ! i))), f))"

definition fakeDomainLookupByName :: "string \<Rightarrow> (Fake, error + LvDomain) prog" where
  "fakeDomainLookupByName name f =
     (case getDomainIndex name f of
        Inl err \<Rightarrow> (Returns (Inl err), f)
      | Inr i \<Rightarrow> (Returns (Inr \<lparr>ld_Name = dom_Name (fd_xml (f_domains f ! i))\<rparr>), f))"

definition fakeDomainShutdown :: "LvDomain \<Rightarrow> (Fake, error option) prog" where
  "fakeDomainShutdown d f =
     (case getDomainIndex (ld_Name d) f of
        Inl err \<Rightarrow> (Returns (Some err), f)
      | Inr i \<Rightarrow>
          if fd_state (f_domains f ! i) = DomainShutoff
          then (Returns (Some (PlainError ErrDomainAlreadyShutoff)), f)
          else (Returns None, setDomainState i DomainShutoff DomainShutoffShutdown f))"

definition fakeDomainUndefineFlags :: "LvDomain \<Rightarrow> u32 \<Rightarrow> (Fake, error option) prog" where
  "fakeDomainUndefineFlags d flags f =
     (Returns None, f\<lparr>f_domains := filter (\<lambda>d'. dom_Name (fd_xml d') \<noteq> ld_Name d) (f_domains f)\<rparr>)"

section \<open>Connection, networks, node devices, memory\<close>

definition fakeCapabilities :: "xmlcodec \<Rightarrow> (Fake, error + bytes) prog" where
  "fakeCapabilities x f = deref (f_capabilities f) (\<lambda>c. ret (caps_Marshal x c)) f"

definition fakeConnect :: "(Fake, error option) prog" where
  "fakeConnect f =
     (if f_connectFail f then (Returns (Some (PlainError ErrConnectFailed)), f)
      else (Returns None, f\<lparr>f_disconnected := False\<rparr>))"

definition fakeDisconnected :: "(Fake, bool) prog" where
  "fakeDisconnected f = (Returns (f_disconnected f), f)"

text \<open>Closing a closed channel panics.\<close>

definition fakeDisconnect :: "(Fake, error option) prog" where
  "fakeDisconnect f =
     (if f_disconnectFail f then (Returns (Some (PlainError ErrDisconnectFailed)), f)
      else if f_disconnected f then (Panics, f)
      else (Returns None, f\<lparr>f_disconnected := True\<rparr>))"

definition fakeIsConnected :: "(Fake, bool) prog" where
  "fakeIsConnected f = (Returns (\<not> f_disconnected f), f)"

definition fakeNetworkLookupByName :: "string \<Rightarrow> (Fake, error + LvNetwork) prog" where
  "fakeNetworkLookupByName name f =
     (case getNetwork name f of
        Inl err \<Rightarrow> (Returns (Inl err), f)
      | Inr n \<Rightarrow> (Returns (Inr \<lparr>ln_Name = netx_Name (fn_xml n)\<rparr>), f))"

definition fakeNetworkIsActive :: "LvNetwork \<Rightarrow> (Fake, error + u32) prog" where
  "fakeNetworkIsActive net f =
     (case getNetwork (ln_Name net) f of
        Inl err \<Rightarrow> (Returns (Inl err), f)
      | Inr n \<Rightarrow> (Returns (Inr (fn_state n)), f))"

definition fakeNodeDeviceGetXMLDesc :: "xmlcodec \<Rightarrow> string \<Rightarrow> u32 \<Rightarrow> (Fake, error + string) prog" where
  "fakeNodeDeviceGetXMLDesc x name flags f =
     (case getNodeDevice name f of
        Inl err \<Rightarrow> (Returns (Inl err), f)
      | Inr n \<Rightarrow> (Returns (nodedev_Marshal x (fnd_xml n)), f))"

definition fakeNodeDeviceIsActive :: "string \<Rightarrow> (Fake, error + u32) prog" where
  "fakeNodeDeviceIsActive name f =
     (case getNodeDevice name f of
        Inl err \<Rightarrow> (Returns (Inl err), f)
      | Inr n \<Rightarrow> (Returns (Inr (fnd_state n)), f))"

definition fakeNodeDeviceLookupByName :: "string \<Rightarrow> (Fake, error + LvNodeDevice) prog" where
  "fakeNodeDeviceLookupByName name f =
     (case getNodeDevice name f of
        Inl err \<Rightarrow> (Returns (Inl err), f)
      | Inr n \<Rightarrow> (Returns (Inr \<lparr>lnd_Name = ndx_Name (fnd_xml n)\<rparr>), f))"

definition fakeNodeGetMemoryStats ::
    "int \<Rightarrow> int \<Rightarrow> u32 \<Rightarrow> (Fake, error + LvMemoryStat list \<times> int) prog" where
  "fakeNodeGetMemoryStats nparams cell flags f =
     (Returns (Inr ([\<lparr>lms_Field = NodeMemoryStatsTotal, lms_Value = fm_Total (f_memory f)\<rparr>,
        \<lparr>lms_Field = NodeMemoryStatsFree, lms_Value = fm_Free (f_memory f)\<rparr>], 2)), f)"

section \<open>The client\<close>

definition fakeClient :: "xmlcodec \<Rightarrow> safecast \<Rightarrow> Fake Client" where
  "fakeClient x c = \<lparr>
     Capabilities = fakeCapabilities x,
     Connect = fakeConnect,
     Disconnected = fakeDisconnected,
     Disconnect = fakeDisconnect,
     DomainBlockResize = fakeDomainBlockResize,
     DomainCreate = fakeDomainCreate,
     DomainDefineXML = fakeDomainDefineXML x,
     DomainGetState = fakeDomainGetState,
     DomainGetXMLDesc = fakeDomainGetXMLDesc x,
     DomainLookupByName = fakeDomainLookupByName,
     DomainShutdown = fakeDomainShutdown,
     DomainUndefineFlags = fakeDomainUndefineFlags,
     IsConnected = fakeIsConnected,
     NetworkIsActive = fakeNetworkIsActive,
     NetworkLookupByName = fakeNetworkLookupByName,
     NodeDeviceGetXMLDesc = fakeNodeDeviceGetXMLDesc x,
     NodeDeviceIsActive = fakeNodeDeviceIsActive,
     NodeDeviceLookupByName = fakeNodeDeviceLookupByName,
     NodeGetMemoryStats = fakeNodeGetMemoryStats,
     StoragePoolGetInfo = fakeStoragePoolGetInfo c,
     StoragePoolIsActive = fakeStoragePoolIsActive,
     StoragePoolLookupByName = fakeStoragePoolLookupByName,
     StorageVolLookupByKey = fakeStorageVolLookupByKey,
     StorageVolLookupByName = fakeStorageVolLookupByName,
     StorageVolGetXMLDesc = fakeStorageVolGetXMLDesc x,
     StorageVolCreateXML = fakeStorageVolCreateXML x,
     StorageVolUpload = fakeStorageVolUpload,
     StorageVolResize = fakeStorageVolResize,
     StorageVolDelete = fakeStorageVolDelete\<rparr>"

end
