(* ===== verification/VolumeAction.thy ===== *)
theory VolumeAction
  imports Probe Fake
begin

text \<open>
  The storage volume a controller works on (\<^verbatim>\<open>internal/action/volume.go\<close>). The embedded \<open>host.Client\<close> is
  the parameter \<open>c\<close> of every method; a method that changes the receiver returns the changed one.

  The standard library: \<open>strings\<close> and \<open>encoding/hex\<close> are defined; an operating-system file is its name,
  its content and its offset, and the parameter \<open>OS\<close> says for each call on it whether the call fails;
  the answer to an HTTP request and the digests of \<open>crypto\<close> are parameters.
\<close>

section \<open>Standard library\<close>

record OSFile =
  of_Name :: string
  of_Content :: bytes
  of_Offset :: nat

record HttpResponse =
  hr_StatusCode :: nat
  hr_ContentLength :: int
  hr_Body :: "error + bytes"
    \<comment> \<open>what reading the body to its end gives\<close>

record 's OS =
  os_CreateTemp :: "string \<Rightarrow> ('s, error + string) prog"
  os_Write :: "string \<Rightarrow> bytes \<Rightarrow> ('s, error option) prog"
  os_Seek :: "string \<Rightarrow> ('s, error option) prog"
  os_Read :: "string \<Rightarrow> ('s, error option) prog"
  os_Close :: "string \<Rightarrow> ('s, error option) prog"
  os_Remove :: "string \<Rightarrow> ('s, error option) prog"
  http_NewRequest :: "string \<Rightarrow> ('s, error option) prog"
  http_Do :: "string \<Rightarrow> ('s, error + HttpResponse) prog"
  sha256 :: "bytes \<Rightarrow> bytes"
  sha512 :: "bytes \<Rightarrow> bytes"

fun strings_Split :: "char \<Rightarrow> string \<Rightarrow> string list" where
  "strings_Split sep [] = [[]]"
| "strings_Split sep (ch # chs) =
     (if ch = sep then [] # strings_Split sep chs
      else (case strings_Split sep chs of
          [] \<Rightarrow> [[ch]]
        | w # ws \<Rightarrow> (ch # w) # ws))"

text \<open>\<open>strings.ToLower\<close> on ASCII.\<close>

definition strings_ToLower :: "string \<Rightarrow> string" where
  "strings_ToLower = map (\<lambda>ch. let n = of_char ch :: nat in
     if 65 \<le> n \<and> n \<le> 90 then char_of (n + 32) else ch)"

definition hex_digit :: "nat \<Rightarrow> char" where
  "hex_digit n = char_of (if n < 10 then 48 + n else 87 + n)"

definition hex_EncodeToString :: "bytes \<Rightarrow> string" where
  "hex_EncodeToString bs = concat (map (\<lambda>b. let n = of_char b :: nat in
     [hex_digit (n div 16), hex_digit (n mod 16)]) bs)"

lemma strings_Split_nonempty: "strings_Split sep s \<noteq> []"
  by (cases s) (auto split: list.splits)

lemma strings_Split_length: "length (strings_Split sep s) = Suc (count_list s sep)"
proof (induction s)
  case (Cons ch chs)
  then show ?case
    by (cases "strings_Split sep chs") (auto simp: strings_Split_nonempty)
qed simp

section \<open>The receiver\<close>

definition ErrUnsupportedHash :: string where "ErrUnsupportedHash = ''unsupported hash''"
definition ErrChecksumFail :: string where
  "ErrChecksumFail = ''download failed checksum verification''"
definition ErrNoExistingVolume :: string where "ErrNoExistingVolume = ''volume does not exist''"
definition ErrVolumeShrinking :: string where
  "ErrVolumeShrinking = ''shrinking a volume is not supported''"
definition ErrLiveResizeNoMatch :: string where
  "ErrLiveResizeNoMatch = ''could not match volume to a disk during live resize''"

record VolumeAction =
  va_name :: string
  va_poolName :: string
  va_pool :: LvStoragePool
  va_id :: "LvStorageVol option"
  va_def :: StorageVolume
  va_source :: "OSFile option"

definition NewVolumeAction ::
    "xmlcodec \<Rightarrow> 's Client \<Rightarrow> string \<Rightarrow> string \<Rightarrow> ('s, error + VolumeAction) prog" where
  "NewVolumeAction x c name pool =
     attempt (StoragePoolLookupByName c pool) (\<lambda>err. ret (Inl err)) (\<lambda>p.
     let a = \<lparr>va_name = name, va_poolName = pool, va_pool = p, va_id = None,
              va_def = emptyStorageVolume, va_source = None\<rparr> in
     attempt (StorageVolLookupByName c p name)
       (\<lambda>err. if isCode ErrNoStorageVol err
              then ret (Inr (a\<lparr>va_def := emptyStorageVolume\<lparr>sv_Name := name\<rparr>\<rparr>))
              else ret (Inl err))
       (\<lambda>id. attempt (StorageVolGetXMLDesc c id 0) (\<lambda>err. ret (Inl err)) (\<lambda>xml.
         case vol_Unmarshal x xml of
           Inl err \<Rightarrow> ret (Inl err)
         | Inr def \<Rightarrow> ret (Inr (a\<lparr>va_id := Some id, va_def := def\<rparr>)))))"

definition VolumeState :: "VolumeAction \<Rightarrow> bool" where
  "VolumeState a \<longleftrightarrow> va_id a \<noteq> None"

section \<open>The definition of the volume\<close>

definition VolumeSize_set :: "VolumeAction \<Rightarrow> string \<Rightarrow> u64 \<Rightarrow> VolumeAction" where
  "VolumeSize_set a unit value =
     a\<lparr>va_def := (va_def a)\<lparr>sv_Capacity := Some \<lparr>svs_Unit = unit, svs_Value = value\<rparr>\<rparr>\<rparr>"

definition VolumeFormat :: "VolumeAction \<Rightarrow> string \<Rightarrow> VolumeAction" where
  "VolumeFormat a format =
     a\<lparr>va_def := (va_def a)\<lparr>sv_Target := Some \<lparr>svt_Path = '''',
        svt_Format = Some \<lparr>svtf_Type = format\<rparr>\<rparr>\<rparr>\<rparr>"

text \<open>Methods that change the receiver and may fail return the error and the receiver.\<close>

definition VolumeBackingStore :: "xmlcodec \<Rightarrow> 's Client \<Rightarrow> VolumeAction \<Rightarrow> string \<Rightarrow> string
    \<Rightarrow> ('s, error option \<times> VolumeAction) prog" where
  "VolumeBackingStore x c a name pool =
     attempt (StoragePoolLookupByName c pool) (\<lambda>err. ret (Some err, a)) (\<lambda>p.
     attempt (StorageVolLookupByName c p name) (\<lambda>err. ret (Some err, a)) (\<lambda>bs.
     attempt (StorageVolGetXMLDesc c bs 0) (\<lambda>err. ret (Some err, a)) (\<lambda>xml.
     case vol_Unmarshal x xml of
       Inl err \<Rightarrow> ret (Some err, a)
     | Inr info \<Rightarrow>
         deref (sv_Target info) (\<lambda>target.
         let a = a\<lparr>va_def := (va_def a)\<lparr>sv_BackingStore :=
                     Some \<lparr>svb_Path = svt_Path target, svb_Format = svt_Format target\<rparr>\<rparr>\<rparr> in
         if sv_Capacity (va_def a) = None
         then deref (sv_Capacity info) (\<lambda>cap. ret (None, VolumeSize_set a (svs_Unit cap) (svs_Value cap)))
         else ret (None, a)))))"

definition LocalSource :: "VolumeAction \<Rightarrow> OSFile \<Rightarrow> VolumeAction" where
  "LocalSource a file = a\<lparr>va_source := Some file\<rparr>"

text \<open>
  The verification of a downloaded file against a checksum of the form \<open>algorithm:digest\<close>. Indexing
  the second part of a checksum without a colon panics. The file has been read to its end after a
  comparison was made.
\<close>

definition verifyChecksum :: "'s OS \<Rightarrow> OSFile \<Rightarrow> string \<Rightarrow> ('s, error option) prog" where
  "verifyChecksum os file checksum =
     (let c = strings_Split (CHR '':'') (strings_ToLower checksum);
          h = map_of [(''sha256'', sha256 os), (''sha512'', sha512 os)] (c ! 0)
      in case h of
           None \<Rightarrow> ret (Some (PlainError ErrUnsupportedHash))
         | Some digest \<Rightarrow>
             guarded (os_Seek os (of_Name file)) (\<lambda>err. ret (Some err)) (
             guarded (os_Read os (of_Name file)) (\<lambda>err. ret (Some err)) (
             let hashString = hex_EncodeToString (digest (of_Content file)) in
             if length c < 2 then panic
             else if hashString \<noteq> c ! 1 then ret (Some (PlainError ErrChecksumFail))
             else ret None)))"

definition RemoteSource :: "safecast \<Rightarrow> 's OS \<Rightarrow> VolumeAction \<Rightarrow> string \<Rightarrow> string option
    \<Rightarrow> ('s, error option \<times> VolumeAction) prog" where
  "RemoteSource sc os a url checksum =
     guarded (http_NewRequest os url) (\<lambda>err. ret (Some err, a)) (
     attempt (http_Do os url) (\<lambda>err. ret (Some err, a)) (\<lambda>resp.
     attempt (os_CreateTemp os ''volume-source'') (\<lambda>err. ret (Some err, a\<lparr>va_source := None\<rparr>)) (\<lambda>name.
     let a = a\<lparr>va_source := Some \<lparr>of_Name = name, of_Content = [], of_Offset = 0\<rparr>\<rparr> in
     case hr_Body resp of
       Inl err \<Rightarrow> ret (Some err, a)
     | Inr body \<Rightarrow>
         guarded (os_Write os name body) (\<lambda>err. ret (Some err, a)) (
         let file = \<lparr>of_Name = name, of_Content = body, of_Offset = length body\<rparr>;
             a = a\<lparr>va_source := Some file\<rparr> in
         guarded (case checksum of None \<Rightarrow> ret None | Some cs \<Rightarrow> verifyChecksum os file cs)
           (\<lambda>err. ret (Some err, a)) (
         guarded (os_Seek os name) (\<lambda>err. ret (Some err, a)) (
         let a = a\<lparr>va_source := Some (file\<lparr>of_Offset := 0\<rparr>)\<rparr> in
         if sv_Capacity (va_def a) = None
         then ret (None, VolumeSize_set a '''' (ToUint64 sc (hr_ContentLength resp)))
         else ret (None, a)))))))"

section \<open>Operations on the host\<close>

definition VolumeCreate :: "xmlcodec \<Rightarrow> 's Client \<Rightarrow> VolumeAction
    \<Rightarrow> ('s, error option \<times> VolumeAction) prog" where
  "VolumeCreate x c a =
     (case vol_Marshal x (va_def a) of
        Inl err \<Rightarrow> ret (Some err, a)
      | Inr xml \<Rightarrow>
          attempt (StorageVolCreateXML c (va_pool a) xml 0) (\<lambda>err. ret (Some err, a)) (\<lambda>v.
          let a = a\<lparr>va_id := Some v\<rparr> in
          case va_source a of
            None \<Rightarrow> ret (None, a)
          | Some file \<Rightarrow>
              andThen (StorageVolUpload c v (drop (of_Offset file) (of_Content file)) 0 0
                         StorageVolUploadSparseStream)
                (\<lambda>err. ret (err, a))))"

text \<open>\<open>ResizeRequired\<close> compares sizes in bytes, in 64-bit arithmetic.\<close>

definition ResizeRequired :: "VolumeAction \<Rightarrow> string \<Rightarrow> u64 \<Rightarrow> ('s, error + bool) prog" where
  "ResizeRequired a unit value =
     deref (sv_Capacity (va_def a)) (\<lambda>cap.
     let current = ConvertToBytes (svs_Value cap) (svs_Unit cap);
         desired = ConvertToBytes value unit in
     if desired < current then ret (Inl (PlainError ErrVolumeShrinking))
     else if current < desired then ret (Inr True)
     else ret (Inr False))"

definition VolumeResize :: "'s Client \<Rightarrow> VolumeAction \<Rightarrow> string \<Rightarrow> u64 \<Rightarrow> ('s, error option) prog" where
  "VolumeResize c a unit value =
     deref (va_id a) (\<lambda>id. StorageVolResize c id (ConvertToBytes value unit) 0)"

text \<open>
  Whether a disk of a running domain is this volume. A disk without a source panics, and so does a
  volume without a target once a disk has a path.
\<close>

definition diskMatches :: "VolumeAction \<Rightarrow> DomainDiskXML \<Rightarrow> bool outcome" where
  "diskMatches a disk =
     (case dx_Source disk of
        None \<Rightarrow> Panics
      | Some src \<Rightarrow>
          if (dds_File src \<noteq> None \<or> dds_Block src \<noteq> None) \<and> sv_Target (va_def a) = None then Panics
          else Returns (
            (case (dds_File src, sv_Target (va_def a)) of
               (Some f, Some t) \<Rightarrow> ddsf_File f = svt_Path t | _ \<Rightarrow> False) \<or>
            (case (dds_Block src, sv_Target (va_def a)) of
               (Some b, Some t) \<Rightarrow> ddsb_Dev b = svt_Path t | _ \<Rightarrow> False) \<or>
            (case dds_Volume src of
               Some v \<Rightarrow> ddsv_Volume v = va_name a \<and> ddsv_Pool v = va_poolName a | None \<Rightarrow> False)))"

fun liveResizeDisks :: "'s Client \<Rightarrow> VolumeAction \<Rightarrow> LvDomain \<Rightarrow> u64 \<Rightarrow> DomainDiskXML list
    \<Rightarrow> ('s, error option) prog" where
  "liveResizeDisks c a dm b [] = ret (Some (PlainError ErrLiveResizeNoMatch))"
| "liveResizeDisks c a dm b (disk # disks) =
     (case diskMatches a disk of
        Returns True \<Rightarrow> deref (dx_Target disk) (\<lambda>t.
          DomainBlockResize c dm (ddt_Dev t) b DomainBlockResizeBytes)
      | Returns False \<Rightarrow> liveResizeDisks c a dm b disks
      | _ \<Rightarrow> panic)"

definition LiveResize :: "xmlcodec \<Rightarrow> 's Client \<Rightarrow> VolumeAction \<Rightarrow> string \<Rightarrow> string \<Rightarrow> u64
    \<Rightarrow> ('s, error option) prog" where
  "LiveResize x c a domain unit value =
     attempt (DomainLookupByName c domain)
       (\<lambda>err. if isCode ErrNoDomain err then VolumeResize c a unit value else ret (Some err))
       (\<lambda>dm.
     attempt (DomainGetState c dm 0) (\<lambda>err. ret (Some err)) (\<lambda>(state, reason).
     if state \<noteq> DomainRunning then VolumeResize c a unit value
     else attempt (DomainGetXMLDesc c dm 0) (\<lambda>err. ret (Some err)) (\<lambda>xml.
     case dom_Unmarshal x xml of
       Inl err \<Rightarrow> ret (Some err)
     | Inr desc \<Rightarrow> deref (dom_Devices desc) (\<lambda>devices.
         liveResizeDisks c a dm (ConvertToBytes value unit) (ddl_Disks devices)))))"

definition VolumeDelete :: "'s Client \<Rightarrow> VolumeAction \<Rightarrow> ('s, error option) prog" where
  "VolumeDelete c a = deref (va_id a) (\<lambda>id. StorageVolDelete c id StorageVolDeleteNormal)"

text \<open>Closing a nil file is the error \<open>os.ErrInvalid\<close>.\<close>

definition CleanupSource :: "'s OS \<Rightarrow> VolumeAction \<Rightarrow> ('s, error option) prog" where
  "CleanupSource os a =
     (case va_source a of
        None \<Rightarrow> ret (Some (PlainError ''invalid argument''))
      | Some file \<Rightarrow>
          guarded (os_Close os (of_Name file)) (\<lambda>err. ret (Some err))
            (os_Remove os (of_Name file)))"

section \<open>Properties\<close>

text \<open>The specification of a checksum: the name of a digest, a colon and the digest in hexadecimal.\<close>

definition checksumMatches :: "'s OS \<Rightarrow> string \<Rightarrow> bytes \<Rightarrow> bool" where
  "checksumMatches os checksum content \<longleftrightarrow>
     (case strings_Split (CHR '':'') (strings_ToLower checksum) of
        alg # digest # _ \<Rightarrow>
          alg = ''sha256'' \<and> digest = hex_EncodeToString (sha256 os content) \<or>
          alg = ''sha512'' \<and> digest = hex_EncodeToString (sha512 os content)
      | _ \<Rightarrow> False)"

lemma verifyChecksum_sound:
  "yields (\<lambda>r. r = None \<longrightarrow> checksumMatches os cs (of_Content file)) (verifyChecksum os file cs)"
proof -
  have "c = c ! 0 # c ! 1 # drop 2 c" if "\<not> length c < 2" for c :: "string list"
    using that by (cases c; cases "tl c") auto
  then show ?thesis
    unfolding verifyChecksum_def Let_def checksumMatches_def
    by (intro yields_rules) (auto split: if_splits list.split)
qed

text \<open>C35: A download that is accepted with a checksum has the content the checksum names, and is positioned at its
  beginning, so that it is what is uploaded.\<close>

theorem RemoteSource_verified:
  assumes "RemoteSource sc os action url (Some checksum) s = (Returns (None, action'), s')"
  shows "\<exists>file. va_source action' = Some file \<and> of_Offset file = 0 \<and> checksumMatches os checksum (of_Content file)"
proof -
  have "yields (\<lambda>(r, action'). r = None \<longrightarrow>
      (\<exists>file. va_source action' = Some file \<and> of_Offset file = 0 \<and> checksumMatches os checksum (of_Content file)))
    (RemoteSource sc os action url (Some checksum))"
    unfolding RemoteSource_def Let_def option.case
    by (intro yields_rules yields_guarded_of [OF verifyChecksum_sound]) (auto simp: VolumeSize_set_def)
  from yieldsD [OF this assms] show ?thesis by simp
qed

text \<open>A server that sends one byte, and a digest that is the content itself.\<close>

definition downloadOS :: "unit OS" where
  "downloadOS = \<lparr>os_CreateTemp = (\<lambda>p. ret (Inr p)), os_Write = (\<lambda>_ _. ret None), os_Seek = (\<lambda>_. ret None),
     os_Read = (\<lambda>_. ret None), os_Close = (\<lambda>_. ret None), os_Remove = (\<lambda>_. ret None),
     http_NewRequest = (\<lambda>_. ret None),
     http_Do = (\<lambda>_. ret (Inr \<lparr>hr_StatusCode = 200, hr_ContentLength = 1, hr_Body = Inr ''a''\<rparr>)),
     sha256 = (\<lambda>bs. bs), sha512 = (\<lambda>bs. bs)\<rparr>"

definition emptyAction :: VolumeAction where
  "emptyAction = \<lparr>va_name = '''', va_poolName = '''', va_pool = \<lparr>lsp_Name = ''''\<rparr>, va_id = None,
     va_def = emptyStorageVolume, va_source = None\<rparr>"

theorem RemoteSource_verified_witness:
  "\<exists>file. va_source (VolumeSize_set (emptyAction\<lparr>va_source :=
       Some \<lparr>of_Name = ''volume-source'', of_Content = ''a'', of_Offset = 0\<rparr>\<rparr>) '''' 1) = Some file \<and>
     of_Offset file = 0 \<and> checksumMatches downloadOS ''SHA256:61'' (of_Content file)"
  by (rule RemoteSource_verified [of safecast_clamping _ emptyAction "''url''" _ "()" _ "()"])
    (simp add: RemoteSource_def verifyChecksum_def downloadOS_def emptyAction_def emptyStorageVolume_def guarded_def
      attempt_def andThen_def ret_def Let_def strings_ToLower_def hex_EncodeToString_def hex_digit_def VolumeSize_set_def
      safecast_clamping_def clamp_def char_of_def bit_iff_odd)

text \<open>C33: Whether a volume has to grow is decided on the sizes in bytes: for sizes that fit in 64 bits, a request for
  less than the volume has is an error, one for more asks for a resize, and the same size in another unit
  asks for nothing.\<close>

theorem ResizeRequired_exact:
  assumes "sv_Capacity (va_def action) = Some cap"
    and "svs_Unit cap \<in> set volume_units" and "u \<in> set volume_units"
    and "unat (svs_Value cap) * unit_bytes (svs_Unit cap) < 2 ^ 64" and "unat v * unit_bytes u < 2 ^ 64"
  shows "ResizeRequired action u v s =
    (Returns (let current = unat (svs_Value cap) * unit_bytes (svs_Unit cap); desired = unat v * unit_bytes u in
       if desired < current then Inl (PlainError ErrVolumeShrinking) else Inr (current < desired)), s)"
proof -
  have "unat (ConvertToBytes (svs_Value cap) (svs_Unit cap)) = unat (svs_Value cap) * unit_bytes (svs_Unit cap)"
    and "unat (ConvertToBytes v u) = unat v * unit_bytes u"
    by (rule unat_ConvertToBytes_exact; use assms in simp)+
  then show ?thesis
    by (simp add: ResizeRequired_def deref_def assms(1) Let_def word_less_nat_alt ret_def)
qed

theorem ResizeRequired_exact_witness:
  "ResizeRequired (emptyAction\<lparr>va_def := emptyStorageVolume\<lparr>sv_Capacity :=
       Some \<lparr>svs_Unit = ''bytes'', svs_Value = 1073741824\<rparr>\<rparr>\<rparr>) ''GiB'' 2 () = (Returns (Inr True), ())"
  by (rule ResizeRequired_exact [where cap = "\<lparr>svs_Unit = ''bytes'', svs_Value = 1073741824\<rparr>", THEN trans])
    (simp_all add: volume_units_def unit_bytes_def)

end
