(* ===== verification/DomainAction.thy ===== *)
theory DomainAction
  imports Probe Fake
begin

text \<open>
  The domain a controller works on (\<^verbatim>\<open>internal/action/domain.go\<close>): its definition as an XML document, the
  methods that fill the definition in, and the calls that create, start, shut down and undefine it.
  As in theory \<open>VolumeAction\<close>, \<open>c\<close> is the embedded \<open>host.Client\<close> and a method that changes the
  receiver returns the changed one.

  One loop of the code follows a chain of backing stores as far as the daemon reports one, so it may not
  end; it has a fuel parameter, and running out of fuel is the outcome \<open>Hangs\<close>.
\<close>

section \<open>The receiver\<close>

definition ErrUnsupportedDiskDevice :: string where
  "ErrUnsupportedDiskDevice = ''disk device is not supported''"
definition ErrUnsupportedDiskSourceType :: string where
  "ErrUnsupportedDiskSourceType = ''disk source type is not supported''"
definition ErrShutdownTimedOut :: string where
  "ErrShutdownTimedOut = ''shutdown timed out''"

record DomainAction =
  da_name :: string
  da_id :: "LvDomain option"
  da_def :: DomainXML
  da_state :: u32

definition newDomainDef :: "string \<Rightarrow> DomainXML" where
  "newDomainDef name = \<lparr>
     dom_Type = ''kvm'',
     dom_Name = name,
     dom_OS = Some \<lparr>dos_Type = ''hvm'', dos_Machine = ''q35'', dos_BootDevices = [''hd''],
                    dos_Firmware = '''', dos_LoaderSecure = None\<rparr>,
     dom_Features = [''acpi'', ''apic''],
     dom_VCPU = Some \<lparr>dvx_Value = 0, dvx_Placement = ''''\<rparr>,
     dom_Memory = Some \<lparr>dmx_Value = 0, dmx_Unit = ''''\<rparr>,
     dom_CPU = None,
     dom_NUMATune = None,
     dom_Devices = Some \<lparr>
       ddl_Controllers = [\<lparr>dctl_Type = ''scsi'', dctl_Model = ''virtio-scsi'', dctl_Driver = Some None\<rparr>],
       ddl_Disks = [],
       ddl_Interfaces = [],
       ddl_Hostdevs = [],
       ddl_RNGs = [(''virtio'', ''/dev/urandom'')],
       ddl_Serials = 1,
       ddl_Consoles = [(''pty'', ''virtio'')],
       ddl_Channels = [''org.qemu.guest_agent.0'']\<rparr>,
     dom_SecLabel = [''dynamic'']\<rparr>"

definition NewDomainAction :: "xmlcodec \<Rightarrow> 's Client \<Rightarrow> string \<Rightarrow> ('s, error + DomainAction) prog" where
  "NewDomainAction x c name =
     attempt (DomainLookupByName c name)
       (\<lambda>err. if isCode ErrNoDomain err
              then ret (Inr \<lparr>da_name = name, da_id = None, da_def = newDomainDef name, da_state = 0\<rparr>)
              else ret (Inl err))
       (\<lambda>ident. attempt (DomainGetState c ident 0) (\<lambda>err. ret (Inl err)) (\<lambda>(state, reason).
             attempt (DomainGetXMLDesc c ident 0) (\<lambda>err. ret (Inl err)) (\<lambda>xml.
             case dom_Unmarshal x xml of
               Inl err \<Rightarrow> ret (Inl err)
             | Inr def \<Rightarrow> ret (Inr \<lparr>da_name = name, da_id = Some ident, da_def = def, da_state = state\<rparr>))))"

text \<open>Whether the domain exists and whether it is shut off.\<close>

definition DomainState :: "DomainAction \<Rightarrow> bool \<times> bool" where
  "DomainState a = (da_id a \<noteq> None, da_state a = DomainShutoff)"

section \<open>Filling the definition in\<close>

definition Dom_VCPU :: "DomainAction \<Rightarrow> u64 \<Rightarrow> ('s, DomainAction) prog" where
  "Dom_VCPU a value = deref (dom_VCPU (da_def a)) (\<lambda>v.
     ret (a\<lparr>da_def := (da_def a)\<lparr>dom_VCPU := Some (v\<lparr>dvx_Value := value\<rparr>)\<rparr>\<rparr>))"

definition Dom_VCPUPlacement :: "DomainAction \<Rightarrow> string \<Rightarrow> ('s, DomainAction) prog" where
  "Dom_VCPUPlacement a placement = deref (dom_VCPU (da_def a)) (\<lambda>v.
     ret (a\<lparr>da_def := (da_def a)\<lparr>dom_VCPU := Some (v\<lparr>dvx_Placement := placement\<rparr>)\<rparr>\<rparr>))"

definition Dom_Memory :: "DomainAction \<Rightarrow> u64 \<Rightarrow> string \<Rightarrow> ('s, DomainAction) prog" where
  "Dom_Memory a value unit = deref (dom_Memory (da_def a)) (\<lambda>m.
     ret (a\<lparr>da_def := (da_def a)\<lparr>dom_Memory := Some (m\<lparr>dmx_Value := value, dmx_Unit := unit\<rparr>)\<rparr>\<rparr>))"

definition cpuOrNew :: "DomainAction \<Rightarrow> DomainCPUXML" where
  "cpuOrNew a = (case dom_CPU (da_def a) of None \<Rightarrow> \<lparr>dcx_Mode = '''', dcx_Cache = None\<rparr> | Some cpu \<Rightarrow> cpu)"

definition Dom_CPUMode :: "DomainAction \<Rightarrow> string \<Rightarrow> DomainAction" where
  "Dom_CPUMode a mode =
     a\<lparr>da_def := (da_def a)\<lparr>dom_CPU := Some ((cpuOrNew a)\<lparr>dcx_Mode := mode\<rparr>)\<rparr>\<rparr>"

definition Dom_CPUCacheMode :: "DomainAction \<Rightarrow> string \<Rightarrow> DomainAction" where
  "Dom_CPUCacheMode a mode =
     a\<lparr>da_def := (da_def a)\<lparr>dom_CPU := Some ((cpuOrNew a)\<lparr>dcx_Cache := Some mode\<rparr>)\<rparr>\<rparr>"

definition Dom_NumatuneMode :: "DomainAction \<Rightarrow> string \<Rightarrow> DomainAction" where
  "Dom_NumatuneMode a mode = a\<lparr>da_def := (da_def a)\<lparr>dom_NUMATune := Some mode\<rparr>\<rparr>"

text \<open>
  The loop copies each controller but shares its driver, so setting the queues changes the definition.
  A matching controller without a driver panics (\<open>None\<close>).
\<close>

fun setQueues :: "u64 \<Rightarrow> DomainController list \<Rightarrow> DomainController list option" where
  "setQueues queues [] = Some []"
| "setQueues queues (ctl # ctls) =
     (if dctl_Type ctl = ''scsi'' \<and> dctl_Model ctl = ''virtio-scsi''
      then (case dctl_Driver ctl of
          None \<Rightarrow> None
        | Some q \<Rightarrow> map_option ((#) (ctl\<lparr>dctl_Driver := Some (Some queues)\<rparr>)) (setQueues queues ctls))
      else map_option ((#) ctl) (setQueues queues ctls))"

definition withDevices :: "DomainAction \<Rightarrow> DomainDeviceList \<Rightarrow> DomainAction" where
  "withDevices a devs = a\<lparr>da_def := (da_def a)\<lparr>dom_Devices := Some devs\<rparr>\<rparr>"

definition Dom_SCSIMultiqueue :: "DomainAction \<Rightarrow> u64 \<Rightarrow> ('s, DomainAction) prog" where
  "Dom_SCSIMultiqueue a queues = deref (dom_Devices (da_def a)) (\<lambda>devs.
     deref (setQueues queues (ddl_Controllers devs)) (\<lambda>ctls.
       ret (withDevices a (devs\<lparr>ddl_Controllers := ctls\<rparr>))))"

definition Dom_UEFI :: "DomainAction \<Rightarrow> ('s, DomainAction) prog" where
  "Dom_UEFI a = deref (dom_OS (da_def a)) (\<lambda>os.
     ret (a\<lparr>da_def := (da_def a)\<lparr>dom_OS := Some (os\<lparr>dos_Firmware := ''efi''\<rparr>)\<rparr>\<rparr>))"

definition Dom_NoSecureBoot :: "DomainAction \<Rightarrow> ('s, DomainAction) prog" where
  "Dom_NoSecureBoot a = deref (dom_OS (da_def a)) (\<lambda>os.
     ret (a\<lparr>da_def := (da_def a)\<lparr>dom_OS := Some (os\<lparr>dos_LoaderSecure := Some ''no''\<rparr>)\<rparr>\<rparr>))"

definition Dom_Interface :: "DomainAction \<Rightarrow> string \<Rightarrow> u64 option \<Rightarrow> string option
    \<Rightarrow> ('s, DomainAction) prog" where
  "Dom_Interface a network queues macAddress =
     (let i = \<lparr>dix_DriverName = ''vhost'',
               dix_DriverQueues = (case queues of None \<Rightarrow> 0 | Some q \<Rightarrow> q),
               dix_ModelType = ''virtio'',
               dix_SourceNetwork = network,
               dix_MAC = macAddress\<rparr>
      in deref (dom_Devices (da_def a)) (\<lambda>devs.
           ret (withDevices a (devs\<lparr>ddl_Interfaces := ddl_Interfaces devs @ [i]\<rparr>))))"

definition Dom_PCIPassthrough :: "DomainAction \<Rightarrow> u64 \<Rightarrow> u64 \<Rightarrow> u64 \<Rightarrow> u64 \<Rightarrow> ('s, DomainAction) prog" where
  "Dom_PCIPassthrough a domain bus slot function =
     deref (dom_Devices (da_def a)) (\<lambda>devs.
       ret (withDevices a (devs\<lparr>ddl_Hostdevs := ddl_Hostdevs devs @
         [\<lparr>dhp_Managed = ''yes'', dhp_DriverName = ''vfio'',
           dhp_Address = \<lparr>dap_Domain = Some domain, dap_Bus = Some bus, dap_Slot = Some slot,
                          dap_Function = Some function\<rparr>\<rparr>]\<rparr>)))"

section \<open>The name of the next disk\<close>

definition letters :: string where
  "letters = ''abcdefghijklmnopqrstuvwxyz''"

text \<open>
  The identifier after \<open>ident\<close>: its last letter moves on, and after a \<open>z\<close> an \<open>a\<close> is appended. A last
  character that is not a letter has index -1 in the code, so it becomes the first letter.
\<close>

definition succId :: "string \<Rightarrow> string" where
  "succId ident =
     (case IndexFunc (\<lambda>l. l = last ident) letters of
        None \<Rightarrow> butlast ident @ [letters ! 0]
      | Some index \<Rightarrow> if index \<noteq> 25 then butlast ident @ [letters ! (index + 1)] else ident @ [letters ! 0])"

text \<open>Whether a disk has the device name \<open>dev\<close>; a disk without a target panics.\<close>

fun devInUse :: "DomainDiskXML list \<Rightarrow> string \<Rightarrow> bool outcome" where
  "devInUse [] dev = Returns False"
| "devInUse (d # ds) dev =
     (case dx_Target d of
        None \<Rightarrow> Panics
      | Some t \<Rightarrow> if ddt_Dev t = dev then Returns True else devInUse ds dev)"

text \<open>
  Where the loop stands in the sequence of identifiers; every round moves it by one, so a disk in use
  is passed once and the loop ends.
\<close>

definition idRank :: "string \<Rightarrow> nat" where
  "idRank ident = 26 * (length ident - 1) +
     (case IndexFunc (\<lambda>l. l = last ident) letters of None \<Rightarrow> 0 | Some i \<Rightarrow> Suc i)"

lemma length_letters [simp]: "length letters = 26"
  by (simp add: letters_def)

lemma distinct_letters: "distinct letters"
  by (simp add: letters_def)

lemma IndexFunc_nth: "distinct xs \<Longrightarrow> i < length xs \<Longrightarrow> IndexFunc (\<lambda>l. l = xs ! i) xs = Some i"
  by (induction xs arbitrary: i) (auto simp: nth_Cons split: nat.splits)

lemma index_letters: "i < 26 \<Longrightarrow> IndexFunc (\<lambda>l. l = letters ! i) letters = Some i"
  by (rule IndexFunc_nth) (simp_all add: distinct_letters)

lemma idRank_succId: "ident \<noteq> [] \<Longrightarrow> idRank (succId ident) = Suc (idRank ident)"
proof (cases "IndexFunc (\<lambda>l. l = last ident) letters")
  case None
  moreover assume "ident \<noteq> []"
  ultimately show ?thesis
    using index_letters [of 0] by (simp add: idRank_def succId_def)
next
  case (Some i)
  moreover assume "ident \<noteq> []"
  moreover from Some have "i < 26" by (auto dest: IndexFunc_Some)
  ultimately show ?thesis
    using index_letters [of "i + 1"] index_letters [of 0]
    by (cases "length ident") (auto simp: idRank_def succId_def)
qed

lemma succId_nonempty [simp]: "ident \<noteq> [] \<Longrightarrow> succId ident \<noteq> []"
  by (auto simp: succId_def split: option.splits)

definition disksFrom :: "DomainDiskXML list \<Rightarrow> string \<Rightarrow> DomainDiskXML list" where
  "disksFrom disks ident = filter (\<lambda>d. case dx_Target d of None \<Rightarrow> False
     | Some t \<Rightarrow> idRank ident \<le> idRank (drop 2 (ddt_Dev t))) disks"

lemma devInUse_True:
  "devInUse disks dev = Returns True \<Longrightarrow> \<exists>d\<in>set disks. \<exists>t. dx_Target d = Some t \<and> ddt_Dev t = dev"
  by (induction disks) (auto split: option.splits if_splits)

lemma disksFrom_less:
  assumes "devInUse disks (''sd'' @ ident) = Returns True" and "ident \<noteq> []"
  shows "length (disksFrom disks (succId ident)) < length (disksFrom disks ident)"
proof -
  let ?P = "\<lambda>n d. case dx_Target d of None \<Rightarrow> False | Some t \<Rightarrow> n \<le> idRank (drop 2 (ddt_Dev t))"
  obtain d t where d: "d \<in> set disks" "dx_Target d = Some t" "ddt_Dev t = ''sd'' @ ident"
    using devInUse_True [OF assms(1)] by blast
  have "length (filter (?P (Suc (idRank ident))) disks) < length (filter (?P (idRank ident)) disks)"
    using d(1)
  proof (induction disks)
    case (Cons d' ds)
    have le: "length (filter (?P (Suc (idRank ident))) xs) \<le> length (filter (?P (idRank ident)) xs)" for xs
      by (induction xs) (auto split: option.splits)
    show ?case
    proof (cases "d' = d")
      case True
      with d le [of ds] show ?thesis by simp
    next
      case False
      with Cons have "length (filter (?P (Suc (idRank ident))) ds) < length (filter (?P (idRank ident)) ds)"
        by simp
      then show ?thesis by (auto split: option.splits)
    qed
  qed simp
  then show ?thesis
    by (simp add: disksFrom_def idRank_succId [OF assms(2)] cong: option.case_cong)
qed

function nextTargetDev :: "DomainDiskXML list \<Rightarrow> string \<Rightarrow> string outcome" where
  "nextTargetDev disks ident =
     (case devInUse disks (''sd'' @ ident) of
        Returns False \<Rightarrow> Returns (''sd'' @ ident)
      | Returns True \<Rightarrow> if ident = [] then Panics else nextTargetDev disks (succId ident)
      | Panics \<Rightarrow> Panics
      | Hangs \<Rightarrow> Hangs)"
  by pat_completeness auto
termination
  by (relation "measure (\<lambda>(disks, ident). length (disksFrom disks ident))") (auto intro: disksFrom_less)

declare nextTargetDev.simps [simp del]

definition getNextAvailableTargetDev :: "DomainAction \<Rightarrow> string outcome" where
  "getNextAvailableTargetDev a =
     (case dom_Devices (da_def a) of
        None \<Rightarrow> Panics
      | Some devs \<Rightarrow> nextTargetDev (ddl_Disks devs) [letters ! 0])"

section \<open>Disks\<close>

definition setDomainDiskSource :: "DomainDiskSource \<Rightarrow> string \<Rightarrow> string \<Rightarrow> error + DomainDiskSource" where
  "setDomainDiskSource source sourceType path =
     (if sourceType = ''file'' then Inr (source\<lparr>dds_File := Some \<lparr>ddsf_File = path\<rparr>\<rparr>)
      else if sourceType = ''block'' then Inr (source\<lparr>dds_Block := Some \<lparr>ddsb_Dev = path\<rparr>\<rparr>)
      else Inl (PlainError ErrUnsupportedDiskSourceType))"

definition getVolumeSourceDescription ::
    "xmlcodec \<Rightarrow> 's Client \<Rightarrow> LvStorageVol \<Rightarrow> ('s, error + StorageVolume) prog" where
  "getVolumeSourceDescription x c volume =
     attempt (StorageVolGetXMLDesc c volume 0) (\<lambda>err. ret (Inl err)) (\<lambda>xml. ret (vol_Unmarshal x xml))"

text \<open>The format and path of a described volume; a missing target or format panics.\<close>

definition withTargetFormat :: "StorageVolume \<Rightarrow> (string \<Rightarrow> string \<Rightarrow> ('s, 'r) prog) \<Rightarrow> ('s, 'r) prog" where
  "withTargetFormat desc k =
     deref (sv_Target desc) (\<lambda>t. deref (svt_Format t) (\<lambda>f. k (svtf_Type f) (svt_Path t)))"

text \<open>The loop over the chain of backing stores, from the first element of the chain.\<close>

fun backingChain :: "nat \<Rightarrow> xmlcodec \<Rightarrow> 's Client \<Rightarrow> StorageVolumeBackingStore
    \<Rightarrow> ('s, error + DomainDiskBackingStore) prog" where
  "backingChain 0 x c chain = hang"
| "backingChain (Suc fuel) x c chain =
     attempt (StorageVolLookupByKey c (svb_Path chain)) (\<lambda>err. ret (Inl err)) (\<lambda>v.
     attempt (getVolumeSourceDescription x c v) (\<lambda>err. ret (Inl err)) (\<lambda>desc.
     withTargetFormat desc (\<lambda>format path.
     case setDomainDiskSource emptyDiskSource (sv_Type desc) path of
       Inl err \<Rightarrow> ret (Inl err)
     | Inr source \<Rightarrow> (case sv_BackingStore desc of
         None \<Rightarrow> ret (Inr (BackingStore (Some format) (Some source) None))
       | Some chain' \<Rightarrow> attempt (backingChain fuel x c chain') (\<lambda>err. ret (Inl err))
           (\<lambda>below. ret (Inr (BackingStore (Some format) (Some source) (Some below))))))))"

definition appendDisk :: "DomainAction \<Rightarrow> DomainDiskXML \<Rightarrow> ('s, error option \<times> DomainAction) prog" where
  "appendDisk a d = deref (dom_Devices (da_def a)) (\<lambda>devs.
     ret (None, withDevices a (devs\<lparr>ddl_Disks := ddl_Disks devs @ [d]\<rparr>)))"

text \<open>
  \<open>Disk\<close> adds a volume of a pool to the definition. As in the code, a volume that is neither a file nor
  a block device makes the method return before the disk is appended.
\<close>

definition Dom_Disk :: "nat \<Rightarrow> xmlcodec \<Rightarrow> 's Client \<Rightarrow> DomainAction \<Rightarrow> string \<Rightarrow> string \<Rightarrow> string option
    \<Rightarrow> bool option \<Rightarrow> ('s, error option \<times> DomainAction) prog" where
  "Dom_Disk fuel x c a volume pool wwn readonly =
     andThen (\<lambda>s. (getNextAvailableTargetDev a, s)) (\<lambda>dev.
     let ro = (readonly = Some True);
         driver = \<lparr>ddd_Name = ''qemu'', ddd_Type = '''', ddd_Discard = (if ro then '''' else ''unmap''),
                   ddd_DetectZeros = (if ro then '''' else ''unmap'')\<rparr>;
         d = \<lparr>dx_Device = ''disk'', dx_Driver = Some driver, dx_Source = Some emptyDiskSource,
              dx_BackingStore = None, dx_Target = Some \<lparr>ddt_Dev = dev, ddt_Bus = ''scsi''\<rparr>,
              dx_ReadOnly = ro, dx_WWN = ''''\<rparr> in
     attempt (StoragePoolLookupByName c pool) (\<lambda>err. ret (Some err, a)) (\<lambda>p.
     attempt (StorageVolLookupByName c p volume) (\<lambda>err. ret (Some err, a)) (\<lambda>v.
     attempt (getVolumeSourceDescription x c v) (\<lambda>err. ret (Some err, a)) (\<lambda>desc.
     withTargetFormat desc (\<lambda>format path.
     let d = d\<lparr>dx_Driver := Some (driver\<lparr>ddd_Type := (if format = ''iso'' then ''raw'' else format)\<rparr>)\<rparr> in
     if sv_Type desc \<noteq> ''file'' \<and> sv_Type desc \<noteq> ''block'' then ret (None, a)
     else case setDomainDiskSource emptyDiskSource (sv_Type desc) path of
       Inl err \<Rightarrow> ret (Some err, a)
     | Inr source \<Rightarrow>
         let d = d\<lparr>dx_Source := Some source\<rparr>;
             d' = (case wwn of None \<Rightarrow> d | Some w \<Rightarrow> d\<lparr>dx_WWN := w\<rparr>) in
         case sv_BackingStore desc of
           None \<Rightarrow> appendDisk a d'
         | Some chain \<Rightarrow> attempt (backingChain fuel x c chain) (\<lambda>err. ret (Some err, a))
             (\<lambda>bs. appendDisk a (d'\<lparr>dx_BackingStore := Some bs\<rparr>)))))))"

section \<open>Operations on the host\<close>

text \<open>\<open>Create\<close> keeps the handle it got, also the zero one that comes with an error.\<close>

definition Dom_Create :: "xmlcodec \<Rightarrow> 's Client \<Rightarrow> DomainAction \<Rightarrow> ('s, error option \<times> DomainAction) prog" where
  "Dom_Create x c a =
     (case dom_Marshal x (da_def a) of
        Inl err \<Rightarrow> ret (Some err, a)
      | Inr xml \<Rightarrow> attempt (DomainDefineXML c xml)
          (\<lambda>err. ret (Some err, a\<lparr>da_id := Some \<lparr>ld_Name = ''''\<rparr>\<rparr>))
          (\<lambda>ident. ret (None, a\<lparr>da_id := Some ident\<rparr>)))"

definition Dom_Start :: "'s Client \<Rightarrow> DomainAction \<Rightarrow> ('s, error option) prog" where
  "Dom_Start c a = deref (da_id a) (\<lambda>ident. DomainCreate c ident)"

text \<open>
  Waiting for the state \<open>shut off\<close>, with \<open>retries\<close> more queries allowed. A failed query reports the
  state 0, which is not \<open>shut off\<close>, so its error is returned.
\<close>

fun awaitShutoff :: "'s Client \<Rightarrow> LvDomain \<Rightarrow> nat \<Rightarrow> error + u32 \<times> u32 \<Rightarrow> ('s, error option) prog" where
  "awaitShutoff c ident retries (Inl err) = ret (Some err)"
| "awaitShutoff c ident 0 (Inr (state, reason)) =
     (if state = DomainShutoff then ret None else ret (Some (PlainError ErrShutdownTimedOut)))"
| "awaitShutoff c ident (Suc retries) (Inr (state, reason)) =
     (if state = DomainShutoff then ret None
      else andThen (DomainGetState c ident 0) (awaitShutoff c ident retries))"

definition Dom_Shutdown :: "'s Client \<Rightarrow> DomainAction \<Rightarrow> ('s, error option) prog" where
  "Dom_Shutdown c a = deref (da_id a) (\<lambda>ident.
     guarded (DomainShutdown c ident) (\<lambda>err. ret (Some err))
       (andThen (DomainGetState c ident 0) (awaitShutoff c ident 30)))"

definition Dom_Delete :: "'s Client \<Rightarrow> DomainAction \<Rightarrow> ('s, error option) prog" where
  "Dom_Delete c a = deref (da_id a) (\<lambda>ident. DomainUndefineFlags c ident DomainUndefineNvram)"

end
