(* ===== verification/Cluster.thy ===== *)
theory Cluster
  imports HostStore AuthStore VolumeAction DomainAction
begin

text \<open>
  What the controllers of \<^verbatim>\<open>internal/controller\<close> share: the state of the operator, the client of the API
  server, the helpers of \<^verbatim>\<open>apimachinery\<close> and \<^verbatim>\<open>controller-runtime\<close> they call, and the function
  \<open>setStatusCondition\<close> that every controller repeats for its kind.

  The packages outside the repository are the fields of \<open>env\<close>. What the code relies on of the small
  helpers among them is the predicate \<open>apimachinery_ok\<close>; nothing is assumed of the API server, which may
  answer anything, or of a daemon.
\<close>

section \<open>The operator's state\<close>

text \<open>The two stores and what is outside; \<open>HostSys\<close> is the store of connections and the outside.\<close>

record 'w sys = "'w HostSys" +
  sys_auth :: AuthState

definition onAuth :: "(AuthState, 'a) prog \<Rightarrow> ('w sys, 'a) prog" where
  "onAuth m s = (case m (sys_auth s) of (r, a) \<Rightarrow> (r, s\<lparr>sys_auth := a\<rparr>))"

section \<open>The packages outside\<close>

text \<open>\<open>client.Client\<close> for one kind. \<open>Update\<close> stores what the server answered in the object.\<close>

record ('w, 'o) kclient =
  k_Get :: "NamespacedName \<Rightarrow> ('w, error + 'o) prog"
  k_List :: "Requirement option \<Rightarrow> ('w, error + 'o list) prog"
  k_Update :: "'o \<Rightarrow> ('w, error + 'o) prog"
  k_StatusUpdate :: "'o \<Rightarrow> ('w, error + 'o) prog"

text \<open>
  \<open>SetStatusCondition\<close> reads the clock; the time is an argument here. A helper that changes its argument
  returns the changed one after its result.
\<close>

record apimachinery =
  IgnoreNotFound :: "error \<Rightarrow> error option"
  AddFinalizer :: "ObjectMeta \<Rightarrow> string \<Rightarrow> bool \<times> ObjectMeta"
  ContainsFinalizer :: "ObjectMeta \<Rightarrow> string \<Rightarrow> bool"
  RemoveFinalizer :: "ObjectMeta \<Rightarrow> string \<Rightarrow> ObjectMeta"
  SetStatusCondition :: "int \<Rightarrow> Condition list \<Rightarrow> Condition \<Rightarrow> bool \<times> Condition list"
  FindStatusCondition :: "Condition list \<Rightarrow> string \<Rightarrow> Condition option"
  IsStatusConditionTrue :: "Condition list \<Rightarrow> string \<Rightarrow> bool"
  NewRequirement :: "string \<Rightarrow> string \<Rightarrow> error + Requirement"

text \<open>The versioned network configuration that \<open>cloudInitNetworkConfig\<close> declares locally.\<close>

record networkConfig =
  nc_Version :: int
  nc_Config :: CloudInitNetworkConfig

text \<open>
  The image library \<^verbatim>\<open>go-diskfs\<close>: \<open>iso9660.Create\<close> on a file and a size gives the directory the files
  are collected in, \<open>Finalize\<close> writes the image. \<open>iso_Written\<close> is what it leaves in the file, the content
  and the offset, from the size and the collected files.
\<close>

record 'w isolib =
  iso_Create :: "string \<Rightarrow> int \<Rightarrow> ('w, error + string) prog"
  iso_CreateFile :: "string \<Rightarrow> string \<Rightarrow> ('w, error option) prog"
  iso_WriteFile :: "string \<Rightarrow> string \<Rightarrow> bytes \<Rightarrow> ('w, error option) prog"
  iso_CloseFile :: "string \<Rightarrow> string \<Rightarrow> ('w, error option) prog"
  iso_Finalize :: "string \<Rightarrow> ('w, error option) prog"
  iso_Written :: "int \<Rightarrow> (string \<rightharpoonup> bytes) \<Rightarrow> bytes \<times> nat"

record 'w env = "'w hostlib" +
  e_Auths :: "('w, Auth) kclient"
  e_Secrets :: "('w, Secret) kclient"
  e_Hosts :: "('w, Host) kclient"
  e_Pools :: "('w, Pool) kclient"
  e_Networks :: "('w, Network) kclient"
  e_PCIDevices :: "('w, PCIDevice) kclient"
  e_Volumes :: "('w, Volume) kclient"
  e_CloudInits :: "('w, CloudInit) kclient"
  e_Domains :: "('w, Domain) kclient"
  e_Now :: "('w, int) prog"
  e_api :: apimachinery
  e_xml :: xmlcodec
  e_cast :: safecast
  e_OS :: "'w OS"
  e_iso :: "'w isolib"
  e_yamlMetadata :: "CloudInitMetadata option yaml_encoder"
  e_yamlCloudConfig :: "CloudInitCloudConfig yaml_encoder"
  e_yamlNetworkConfig :: "networkConfig yaml_encoder"

text \<open>The operating system's calls as programs over the operator's state.\<close>

definition liftOS :: "'w OS \<Rightarrow> 'w sys OS" where
  "liftOS os = \<lparr>
     os_CreateTemp = (\<lambda>pattern. unlogged (os_CreateTemp os pattern)),
     os_Write = (\<lambda>f bs. unlogged (os_Write os f bs)),
     os_Seek = (\<lambda>f. unlogged (os_Seek os f)),
     os_Read = (\<lambda>f. unlogged (os_Read os f)),
     os_Close = (\<lambda>f. unlogged (os_Close os f)),
     os_Remove = (\<lambda>f. unlogged (os_Remove os f)),
     http_NewRequest = (\<lambda>url. unlogged (http_NewRequest os url)),
     http_Do = (\<lambda>url. unlogged (http_Do os url)),
     sha256 = sha256 os,
     sha512 = sha512 os\<rparr>"

lemma liftOS_select:
  "os_CreateTemp (liftOS os) pattern = unlogged (os_CreateTemp os pattern)"
  "os_Write (liftOS os) f bs = unlogged (os_Write os f bs)"
  "os_Seek (liftOS os) f = unlogged (os_Seek os f)"
  "os_Read (liftOS os) f = unlogged (os_Read os f)"
  "os_Close (liftOS os) f = unlogged (os_Close os f)"
  "os_Remove (liftOS os) f = unlogged (os_Remove os f)"
  "http_NewRequest (liftOS os) url = unlogged (http_NewRequest os url)"
  "http_Do (liftOS os) url = unlogged (http_Do os url)"
  "sha256 (liftOS os) = sha256 os" "sha512 (liftOS os) = sha512 os"
  by (simp_all add: liftOS_def)

section \<open>Calls on the API server\<close>

record ('w, 'o) resource =
  rs_kind :: kind
  rs_obj :: "'o \<Rightarrow> kobj"
  rs_api :: "('w, 'o) kclient"

definition Auths :: "'w env \<Rightarrow> ('w, Auth) resource" where
  "Auths env = \<lparr>rs_kind = AuthKind, rs_obj = KAuth, rs_api = e_Auths env\<rparr>"
definition Secrets :: "'w env \<Rightarrow> ('w, Secret) resource" where
  "Secrets env = \<lparr>rs_kind = SecretKind, rs_obj = KSecret, rs_api = e_Secrets env\<rparr>"
definition Hosts :: "'w env \<Rightarrow> ('w, Host) resource" where
  "Hosts env = \<lparr>rs_kind = HostKind, rs_obj = KHost, rs_api = e_Hosts env\<rparr>"
definition Pools :: "'w env \<Rightarrow> ('w, Pool) resource" where
  "Pools env = \<lparr>rs_kind = PoolKind, rs_obj = KPool, rs_api = e_Pools env\<rparr>"
definition Networks :: "'w env \<Rightarrow> ('w, Network) resource" where
  "Networks env = \<lparr>rs_kind = NetworkKind, rs_obj = KNetwork, rs_api = e_Networks env\<rparr>"
definition PCIDevices :: "'w env \<Rightarrow> ('w, PCIDevice) resource" where
  "PCIDevices env = \<lparr>rs_kind = PCIDeviceKind, rs_obj = KPCIDevice, rs_api = e_PCIDevices env\<rparr>"
definition Volumes :: "'w env \<Rightarrow> ('w, Volume) resource" where
  "Volumes env = \<lparr>rs_kind = VolumeKind, rs_obj = KVolume, rs_api = e_Volumes env\<rparr>"
definition CloudInits :: "'w env \<Rightarrow> ('w, CloudInit) resource" where
  "CloudInits env = \<lparr>rs_kind = CloudInitKind, rs_obj = KCloudInit, rs_api = e_CloudInits env\<rparr>"
definition Domains :: "'w env \<Rightarrow> ('w, Domain) resource" where
  "Domains env = \<lparr>rs_kind = DomainKind, rs_obj = KDomain, rs_api = e_Domains env\<rparr>"

lemmas resource_defs = Auths_def Secrets_def Hosts_def Pools_def Networks_def PCIDevices_def Volumes_def
  CloudInits_def Domains_def

abbreviation one :: "('o \<Rightarrow> kobj) \<Rightarrow> (error + 'o) outcome \<Rightarrow> (error + kobj) outcome" where
  "one f \<equiv> map_outcome (map_sum (\<lambda>e. e) f)"

abbreviation many :: "('o \<Rightarrow> kobj) \<Rightarrow> (error + 'o list) outcome \<Rightarrow> (error + kobj list) outcome" where
  "many f \<equiv> map_outcome (map_sum (\<lambda>e. e) (map f))"

definition apiGet :: "('w, 'o) resource \<Rightarrow> NamespacedName \<Rightarrow> ('w sys, error + 'o) prog" where
  "apiGet R nn = called (\<lambda>r. DidGet (rs_kind R) nn (one (rs_obj R) r)) (k_Get (rs_api R) nn)"

definition apiList :: "('w, 'o) resource \<Rightarrow> Requirement option \<Rightarrow> ('w sys, error + 'o list) prog" where
  "apiList R req = called (\<lambda>r. DidList (rs_kind R) req (many (rs_obj R) r)) (k_List (rs_api R) req)"

definition apiUpdate :: "('w, 'o) resource \<Rightarrow> 'o \<Rightarrow> ('w sys, error + 'o) prog" where
  "apiUpdate R obj = called (\<lambda>r. DidUpdate (rs_obj R obj) (one (rs_obj R) r)) (k_Update (rs_api R) obj)"

definition apiStatusUpdate :: "('w, 'o) resource \<Rightarrow> 'o \<Rightarrow> ('w sys, error + 'o) prog" where
  "apiStatusUpdate R obj =
     called (\<lambda>r. DidStatusUpdate (rs_obj R obj) (one (rs_obj R) r)) (k_StatusUpdate (rs_api R) obj)"

lemmas api_defs = apiGet_def apiList_def apiUpdate_def apiStatusUpdate_def

section \<open>Results\<close>

record Result =
  Requeue :: bool
  RequeueAfter :: int

definition emptyResult :: Result where
  "emptyResult = \<lparr>Requeue = False, RequeueAfter = 0\<rparr>"

type_synonym 'w reconcile = "('w sys, Result \<times> error option) prog"

abbreviation stop :: "'w reconcile" where
  "stop \<equiv> ret (emptyResult, None)"

abbreviation fail :: "error \<Rightarrow> 'w reconcile" where
  "fail err \<equiv> ret (emptyResult, Some err)"

abbreviation requeue :: "'w reconcile" where
  "requeue \<equiv> ret (emptyResult\<lparr>Requeue := True\<rparr>, None)"

text \<open>\<open>err = r.Update(ctx, obj); return ctrl.Result{}, err\<close>\<close>

definition finish :: "('w sys, error + 'o) prog \<Rightarrow> 'w reconcile" where
  "finish m = attempt m fail (\<lambda>_. stop)"

definition dataRefreshInterval :: int where
  "dataRefreshInterval = 60 * 10 ^ 9"

text \<open>\<open>time.Since\<close>: the difference of two times, clamped to the range of a \<open>Duration\<close>.\<close>

definition Since :: "int \<Rightarrow> int \<Rightarrow> int" where
  "Since now t = clamp (- (2 ^ 63)) (2 ^ 63 - 1) (now - t)"

text \<open>The messages and file names of \<^verbatim>\<open>internal/controller/const.go\<close>.\<close>

definition conditionCreationSucceeded :: string where
  "conditionCreationSucceeded = ''Creation succeeded''"
definition conditionProbeCompleted :: string where "conditionProbeCompleted = ''Probe completed''"
definition conditionHostClientNotReady :: string where
  "conditionHostClientNotReady = ''Host client is not ready''"
definition conditionPoolNotReady :: string where "conditionPoolNotReady = ''Pool is not ready''"
definition privateKey :: string where "privateKey = ''privatekey''"
definition knownHosts :: string where "knownHosts = ''known_hosts''"
definition clientCert :: string where "clientCert = ''clientcert.pem''"
definition clientKey :: string where "clientKey = ''clientkey.pem''"
definition caCert :: string where "caCert = ''cacert.pem''"

section \<open>Status conditions\<close>

text \<open>
  \<open>setStatusCondition\<close>, which each controller declares for its own kind with this body: the status is
  written only when the condition changed. It returns the error, or the object as it is afterwards.
\<close>

definition setStatusCondition :: "'w env \<Rightarrow> ('w, ('spec, 'st StatusBase_scheme) Object) resource
    \<Rightarrow> ('spec, 'st StatusBase_scheme) Object \<Rightarrow> string \<Rightarrow> ConditionStatus \<Rightarrow> string \<Rightarrow> string
    \<Rightarrow> ('w sys, error + ('spec, 'st StatusBase_scheme) Object) prog" where
  "setStatusCondition env R obj cType status msg reason =
     (let c = \<lparr>cond_Type = cType, cond_Status = status, cond_LastTransitionTime = 0, cond_Reason = reason,
               cond_Message = msg\<rparr> in
      andThen (unlogged (e_Now env)) (\<lambda>now.
      case SetStatusCondition (e_api env) now (Conditions (Status obj)) c of (changed, cs) \<Rightarrow>
        let obj = obj\<lparr>Status := (Status obj)\<lparr>Conditions := cs\<rparr>\<rparr> in
        if changed then apiStatusUpdate R obj else ret (Inr obj)))"

text \<open>Conditions of an object, as the code asks for them.\<close>

definition isTrue :: "'w env \<Rightarrow> ('spec, 'st StatusBase_scheme) Object \<Rightarrow> string \<Rightarrow> bool" where
  "isTrue env obj cType = IsStatusConditionTrue (e_api env) (Conditions (Status obj)) cType"

definition SetLabelOn :: "('spec, 'st) Object \<Rightarrow> string \<Rightarrow> string
    \<Rightarrow> ('w, ('spec, 'st) Object) resource \<Rightarrow> ('w sys, error + ('spec, 'st) Object) prog" where
  "SetLabelOn obj key value R =
     (case SetObjectLabel obj key value of (changed, obj) \<Rightarrow>
        if changed then apiUpdate R obj else ret (Inr obj))"

text \<open>The selector for one label, \<open>labels.NewRequirement\<close> and what to do when it fails.\<close>

definition withRequirement :: "'w env \<Rightarrow> string \<Rightarrow> string \<Rightarrow> (error \<Rightarrow> ('w sys, 'r) prog)
    \<Rightarrow> (Requirement \<Rightarrow> ('w sys, 'r) prog) \<Rightarrow> ('w sys, 'r) prog" where
  "withRequirement env key value h k =
     (case NewRequirement (e_api env) key value of Inl err \<Rightarrow> h err | Inr req \<Rightarrow> k req)"

section \<open>Finalizers\<close>

text \<open>
  How every controller begins to treat an object: an object that is not being deleted gets the
  finalizer, and the rest runs on what the server answered; one that is being deleted and has the
  finalizer is finalized; one without it is left alone.
\<close>

definition addFinalizer :: "'w env \<Rightarrow> ('w, ('spec, 'st) Object) resource \<Rightarrow> ('spec, 'st) Object
    \<Rightarrow> ('w sys, error + ('spec, 'st) Object) prog" where
  "addFinalizer env R obj =
     (case AddFinalizer (e_api env) (Meta obj) Finalizer of (changed, m) \<Rightarrow>
        if changed then apiUpdate R (obj\<lparr>Meta := m\<rparr>) else ret (Inr (obj\<lparr>Meta := m\<rparr>)))"

definition withFinalizer :: "'w env \<Rightarrow> ('w, ('spec, 'st) Object) resource \<Rightarrow> ('spec, 'st) Object
    \<Rightarrow> 'w reconcile \<Rightarrow> (('spec, 'st) Object \<Rightarrow> 'w reconcile) \<Rightarrow> 'w reconcile" where
  "withFinalizer env R obj finalize rest =
     (if om_DeletionTimestamp (Meta obj) = None
      then attempt (addFinalizer env R obj) fail rest
      else if ContainsFinalizer (e_api env) (Meta obj) Finalizer then finalize
      else stop)"

text \<open>\<open>controllerutil.RemoveFinalizer(obj, Finalizer); err = r.Update(ctx, obj); return ..., err\<close>\<close>

definition removeFinalizer :: "'w env \<Rightarrow> ('w, ('spec, 'st) Object) resource \<Rightarrow> ('spec, 'st) Object
    \<Rightarrow> 'w reconcile" where
  "removeFinalizer env R obj =
     finish (apiUpdate R (obj\<lparr>Meta := RemoveFinalizer (e_api env) (Meta obj) Finalizer\<rparr>))"

text \<open>An object that cannot be read is an error, unless it is gone: \<open>client.IgnoreNotFound\<close>.\<close>

definition getRequested :: "'w env \<Rightarrow> ('w, 'o) resource \<Rightarrow> NamespacedName \<Rightarrow> ('o \<Rightarrow> 'w reconcile)
    \<Rightarrow> 'w reconcile" where
  "getRequested env R req k =
     attempt (apiGet R req) (\<lambda>err. ret (emptyResult, IgnoreNotFound (e_api env) err)) k"

section \<open>What the code relies on\<close>

text \<open>
  The documented behaviour of the helpers: finalizers are kept in a list without duplicates, a condition
  is found by its type, setting one leaves the conditions of other types alone and reports whether
  anything changed, a requirement is the label and value it was asked for, and only the error
  "not found" is ignored.
\<close>

definition findCondition :: "Condition list \<Rightarrow> string \<Rightarrow> Condition option" where
  "findCondition cs cType = find (\<lambda>c. cond_Type c = cType) cs"

definition apimachinery_ok :: "apimachinery \<Rightarrow> bool" where
  "apimachinery_ok am \<longleftrightarrow>
     (\<forall>m f. AddFinalizer am m f =
        (if f \<in> set (om_Finalizers m) then (False, m)
         else (True, m\<lparr>om_Finalizers := om_Finalizers m @ [f]\<rparr>))) \<and>
     (\<forall>m f. ContainsFinalizer am m f \<longleftrightarrow> f \<in> set (om_Finalizers m)) \<and>
     (\<forall>m f. RemoveFinalizer am m f = m\<lparr>om_Finalizers := filter (\<lambda>g. g \<noteq> f) (om_Finalizers m)\<rparr>) \<and>
     (\<forall>cs t. FindStatusCondition am cs t = findCondition cs t) \<and>
     (\<forall>cs t. IsStatusConditionTrue am cs t \<longleftrightarrow>
        (\<exists>c. findCondition cs t = Some c \<and> cond_Status c = ConditionTrue)) \<and>
     (\<forall>now cs c changed cs'. SetStatusCondition am now cs c = (changed, cs') \<longrightarrow>
        (\<exists>c'. findCondition cs' (cond_Type c) = Some c' \<and> cond_Status c' = cond_Status c \<and>
              cond_Reason c' = cond_Reason c \<and> cond_Message c' = cond_Message c) \<and>
        (\<forall>t. t \<noteq> cond_Type c \<longrightarrow> findCondition cs' t = findCondition cs t) \<and>
        (\<not> changed \<longrightarrow> cs' = cs)) \<and>
     (\<forall>k v r. NewRequirement am k v = Inr r \<longrightarrow> r = \<lparr>rq_Key = k, rq_Value = v\<rparr>) \<and>
     (\<forall>err. IgnoreNotFound am err = None \<longleftrightarrow> (\<exists>m. err = StatusError ''NotFound'' m))"

text \<open>An implementation that behaves as documented.\<close>

fun setCondition :: "int \<Rightarrow> Condition \<Rightarrow> Condition list \<Rightarrow> bool \<times> Condition list" where
  "setCondition now c [] = (True, [c\<lparr>cond_LastTransitionTime := now\<rparr>])"
| "setCondition now c (d # ds) =
     (if cond_Type d = cond_Type c
      then let d' = d\<lparr>cond_Status := cond_Status c, cond_Reason := cond_Reason c,
                      cond_Message := cond_Message c,
                      cond_LastTransitionTime :=
                        if cond_Status d = cond_Status c then cond_LastTransitionTime d else now\<rparr>
           in (d' \<noteq> d, d' # ds)
      else case setCondition now c ds of (changed, ds') \<Rightarrow> (changed, d # ds'))"

definition apimachinery_ref :: apimachinery where
  "apimachinery_ref = \<lparr>
     IgnoreNotFound = (\<lambda>err. case err of StatusError r m \<Rightarrow> if r = ''NotFound'' then None else Some err
                                       | _ \<Rightarrow> Some err),
     AddFinalizer = (\<lambda>m f. if f \<in> set (om_Finalizers m) then (False, m)
                           else (True, m\<lparr>om_Finalizers := om_Finalizers m @ [f]\<rparr>)),
     ContainsFinalizer = (\<lambda>m f. f \<in> set (om_Finalizers m)),
     RemoveFinalizer = (\<lambda>m f. m\<lparr>om_Finalizers := filter (\<lambda>g. g \<noteq> f) (om_Finalizers m)\<rparr>),
     SetStatusCondition = (\<lambda>now cs c. setCondition now c cs),
     FindStatusCondition = findCondition,
     IsStatusConditionTrue = (\<lambda>cs t. case findCondition cs t of None \<Rightarrow> False
                                      | Some c \<Rightarrow> cond_Status c = ConditionTrue),
     NewRequirement = (\<lambda>k v. Inr \<lparr>rq_Key = k, rq_Value = v\<rparr>)\<rparr>"

lemma setCondition_sets:
  "setCondition now c cs = (changed, cs') \<Longrightarrow>
     \<exists>c'. findCondition cs' (cond_Type c) = Some c' \<and> cond_Status c' = cond_Status c \<and>
          cond_Reason c' = cond_Reason c \<and> cond_Message c' = cond_Message c"
  by (induction cs arbitrary: changed cs')
    (auto simp: findCondition_def Let_def split: if_splits prod.splits)

lemma setCondition_others:
  "setCondition now c cs = (changed, cs') \<Longrightarrow> t \<noteq> cond_Type c \<Longrightarrow> findCondition cs' t = findCondition cs t"
  by (induction cs arbitrary: changed cs')
    (auto simp: findCondition_def Let_def split: if_splits prod.splits)

lemma setCondition_unchanged: "setCondition now c cs = (False, cs') \<Longrightarrow> cs' = cs"
  by (induction cs arbitrary: cs') (auto simp: Let_def split: if_splits prod.splits)

lemma apimachinery_ref_ok: "apimachinery_ok apimachinery_ref"
  unfolding apimachinery_ok_def
proof (intro conjI allI impI)
  fix now cs c changed cs' assume "SetStatusCondition apimachinery_ref now cs c = (changed, cs')"
  then have s: "setCondition now c cs = (changed, cs')" by (simp add: apimachinery_ref_def)
  show "\<exists>c'. findCondition cs' (cond_Type c) = Some c' \<and> cond_Status c' = cond_Status c \<and>
      cond_Reason c' = cond_Reason c \<and> cond_Message c' = cond_Message c"
    by (rule setCondition_sets [OF s])
  show "findCondition cs' t = findCondition cs t" if "t \<noteq> cond_Type c" for t
    by (rule setCondition_others [OF s that])
  show "cs' = cs" if "\<not> changed" using s that by (cases changed) (auto dest: setCondition_unchanged)
qed (auto simp: apimachinery_ref_def split: option.splits error.splits)

lemma apimachinery_okD:
  assumes "apimachinery_ok am"
  shows "AddFinalizer am m f = (if f \<in> set (om_Finalizers m) then (False, m)
           else (True, m\<lparr>om_Finalizers := om_Finalizers m @ [f]\<rparr>))"
    and "ContainsFinalizer am m f \<longleftrightarrow> f \<in> set (om_Finalizers m)"
    and "RemoveFinalizer am m f = m\<lparr>om_Finalizers := filter (\<lambda>g. g \<noteq> f) (om_Finalizers m)\<rparr>"
    and "FindStatusCondition am cs t = findCondition cs t"
    and "IsStatusConditionTrue am cs t \<longleftrightarrow> (\<exists>c. findCondition cs t = Some c \<and> cond_Status c = ConditionTrue)"
    and "NewRequirement am k v = Inr r \<Longrightarrow> r = \<lparr>rq_Key = k, rq_Value = v\<rparr>"
proof -
  note ok = assms [unfolded apimachinery_ok_def]
  note ok2 = ok [THEN conjunct2] note ok3 = ok2 [THEN conjunct2] note ok4 = ok3 [THEN conjunct2]
  note ok5 = ok4 [THEN conjunct2] note ok6 = ok5 [THEN conjunct2] note ok7 = ok6 [THEN conjunct2]
  show "AddFinalizer am m f = (if f \<in> set (om_Finalizers m) then (False, m)
           else (True, m\<lparr>om_Finalizers := om_Finalizers m @ [f]\<rparr>))" by (rule ok [THEN conjunct1, rule_format])
  show "ContainsFinalizer am m f \<longleftrightarrow> f \<in> set (om_Finalizers m)" by (rule ok2 [THEN conjunct1, rule_format])
  show "RemoveFinalizer am m f = m\<lparr>om_Finalizers := filter (\<lambda>g. g \<noteq> f) (om_Finalizers m)\<rparr>"
    by (rule ok3 [THEN conjunct1, rule_format])
  show "FindStatusCondition am cs t = findCondition cs t" by (rule ok4 [THEN conjunct1, rule_format])
  show "IsStatusConditionTrue am cs t \<longleftrightarrow> (\<exists>c. findCondition cs t = Some c \<and> cond_Status c = ConditionTrue)"
    by (rule ok5 [THEN conjunct1, rule_format])
  show "NewRequirement am k v = Inr r \<Longrightarrow> r = \<lparr>rq_Key = k, rq_Value = v\<rparr>"
    by (rule ok7 [THEN conjunct1, rule_format])
qed

lemma SetStatusCondition_okD:
  assumes "apimachinery_ok am" and "SetStatusCondition am now cs c = (changed, cs')"
  shows "\<exists>c'. findCondition cs' (cond_Type c) = Some c' \<and> cond_Status c' = cond_Status c \<and>
      cond_Reason c' = cond_Reason c \<and> cond_Message c' = cond_Message c"
    and "t \<noteq> cond_Type c \<Longrightarrow> findCondition cs' t = findCondition cs t"
    and "\<not> changed \<Longrightarrow> cs' = cs"
proof -
  note ok = assms(1) [unfolded apimachinery_ok_def, THEN conjunct2, THEN conjunct2, THEN conjunct2,
      THEN conjunct2, THEN conjunct2, THEN conjunct1, rule_format, OF assms(2)]
  show "\<exists>c'. findCondition cs' (cond_Type c) = Some c' \<and> cond_Status c' = cond_Status c \<and>
      cond_Reason c' = cond_Reason c \<and> cond_Message c' = cond_Message c" by (rule ok [THEN conjunct1])
  show "t \<noteq> cond_Type c \<Longrightarrow> findCondition cs' t = findCondition cs t" using ok by blast
  show "\<not> changed \<Longrightarrow> cs' = cs" using ok by blast
qed

end
