(* ===== verification/Effects.thy ===== *)
theory Effects
  imports Cluster
begin

text \<open>
  What the parts of a reconciliation may do outside: for each function of the stores, of the actions and
  of the probes, which events a run of it can add to the log. The rules in \<open>acts_rules\<close> decompose a
  program into its calls, so that a fact about a whole handler is one application of them.
\<close>

section \<open>Classes of events\<close>

text \<open>Events that neither change a host nor an object's spec or metadata.\<close>

fun mild :: "event \<Rightarrow> bool" where
  "mild (OnHost a (LookedUpVolume p n r)) = True"
| "mild (OnHost a (LookedUpDomain n r)) = True"
| "mild (OnHost a (SawDomainState d r)) = True"
| "mild (OnHost a HostQuery) = True"
| "mild (OnHost a _) = False"
| "mild (DidUpdate obj r) = False"
| "mild (DidGet k nn r) = True"
| "mild (DidList k req r) = True"
| "mild (DidStatusUpdate obj r) = True"
| "mild OtherCall = True"

text \<open>Events that do not take anything from a host.\<close>

fun destructive :: "event \<Rightarrow> bool" where
  "destructive (OnHost a (DidStorageVolDelete v r)) = True"
| "destructive (OnHost a (DidDomainUndefine d r)) = True"
| "destructive (OnHost a (DidDomainShutdown d r)) = True"
| "destructive _ = False"

lemma mild_not_destructive: "mild e \<Longrightarrow> \<not> destructive e"
  by (cases e rule: destructive.cases) auto

section \<open>Rules\<close>

lemma acts_apiGet [acts_rules]: "(\<And>r. E (DidGet (rs_kind R) nn r)) \<Longrightarrow> acts E (apiGet R nn)"
  unfolding apiGet_def by (rule acts_called)

lemma acts_apiList [acts_rules]: "(\<And>r. E (DidList (rs_kind R) req r)) \<Longrightarrow> acts E (apiList R req)"
  unfolding apiList_def by (rule acts_called)

lemma acts_apiUpdate [acts_rules]: "(\<And>r. E (DidUpdate (rs_obj R obj) r)) \<Longrightarrow> acts E (apiUpdate R obj)"
  unfolding apiUpdate_def by (rule acts_called)

lemma acts_apiStatusUpdate [acts_rules]:
  "(\<And>r. E (DidStatusUpdate (rs_obj R obj) r)) \<Longrightarrow> acts E (apiStatusUpdate R obj)"
  unfolding apiStatusUpdate_def by (rule acts_called)

lemma acts_setStatusCondition [acts_rules]:
  assumes "\<And>obj r. E (DidStatusUpdate (rs_obj R obj) r)" and "E OtherCall"
  shows "acts E (setStatusCondition env R obj t st msg rs)"
  unfolding setStatusCondition_def by (intro acts_rules assms)

lemma acts_SetLabelOn [acts_rules]:
  assumes "\<And>obj r. E (DidUpdate (rs_obj R obj) r)"
  shows "acts E (SetLabelOn obj k v R)"
  unfolding SetLabelOn_def by (intro acts_rules assms)

lemma acts_withRequirement [acts_rules]:
  assumes "\<And>err. acts E (h err)" and "\<And>req. acts E (k req)"
  shows "acts E (withRequirement env key v h k)"
  unfolding withRequirement_def by (intro acts_rules assms)

lemma acts_finish [acts_rules]: "acts E m \<Longrightarrow> acts E (finish m)"
  unfolding finish_def by (intro acts_rules)

lemma acts_addFinalizer [acts_rules]:
  assumes "\<And>obj r. E (DidUpdate (rs_obj R obj) r)"
  shows "acts E (addFinalizer env R obj)"
  unfolding addFinalizer_def by (intro acts_rules assms)

lemma acts_removeFinalizer [acts_rules]:
  assumes "\<And>obj r. E (DidUpdate (rs_obj R obj) r)"
  shows "acts E (removeFinalizer env R obj)"
  unfolding removeFinalizer_def by (intro acts_rules assms)

lemma acts_withFinalizer [acts_rules]:
  assumes "\<And>obj r. E (DidUpdate (rs_obj R obj) r)" and "acts E fin"
    and "\<And>obj. acts E (rest obj)"
  shows "acts E (withFinalizer env R obj fin rest)"
  unfolding withFinalizer_def by (intro acts_rules assms)

lemma acts_getRequested [acts_rules]:
  assumes "\<And>r. E (DidGet (rs_kind R) req r)" and "\<And>obj. acts E (k obj)"
  shows "acts E (getRequested env R req k)"
  unfolding getRequested_def by (intro acts_rules assms)

lemma acts_onAuth [acts_rules]: "acts E (onAuth m)"
  unfolding acts_def
  by (intro acting.settles_moves movesI) (auto simp: onAuth_def emits_def intro: storeKeptI split: prod.split)

section \<open>The actions\<close>

lemma acts_NewVolumeAction: "acts mild (NewVolumeAction x (observed a cl) name pool)"
  unfolding NewVolumeAction_def Let_def
  unfolding observed_select by (intro acts_rules) simp_all

text \<open>What an action that was made says of the volume: it is what the lookup by its name answered.\<close>

definition lookedUp :: "nat \<Rightarrow> string \<Rightarrow> VolumeAction \<Rightarrow> event \<Rightarrow> bool" where
  "lookedUp a name action e \<longleftrightarrow> (\<exists>p res. e = OnHost a (LookedUpVolume p name res) \<and>
     (case va_id action of
        Some v \<Rightarrow> res = Returns (Inr v)
      | None \<Rightarrow> \<exists>err. res = Returns (Inl err) \<and> isCode ErrNoStorageVol err))"

lemma traces_NewVolumeAction:
  "traces (NewVolumeAction x (observed a cl) name pool) s
     (\<lambda>r tr. list_all mild tr \<and> (\<forall>action. r = Returns (Inr action) \<longrightarrow> (\<exists>e\<in>set tr. lookedUp a name action e)))"
  unfolding NewVolumeAction_def Let_def
  unfolding observed_select
  by (intro traces_rules) (auto simp: lookedUp_def)

lemma acts_VolumeBackingStore: "acts mild (VolumeBackingStore x (observed a cl) va name pool)"
  unfolding VolumeBackingStore_def Let_def
  unfolding observed_select by (intro acts_rules) simp_all

lemma acts_verifyChecksum: "acts mild (verifyChecksum (liftOS os) file cs)"
  unfolding verifyChecksum_def Let_def
  unfolding liftOS_select by (intro acts_rules) simp_all

lemma acts_RemoteSource: "acts mild (RemoteSource c (liftOS os) va url cs)"
  unfolding RemoteSource_def Let_def
  unfolding liftOS_select by (intro acts_rules acts_verifyChecksum) simp_all

lemma acts_CleanupSource: "acts mild (CleanupSource (liftOS os) va)"
  unfolding CleanupSource_def
  unfolding liftOS_select by (intro acts_rules) simp_all

lemma acts_VolumeCreate:
  assumes "\<And>p xml r. E (OnHost a (DidStorageVolCreateXML p xml r))"
    and "\<And>v bs r. E (OnHost a (DidStorageVolUpload v bs r))"
  shows "acts E (VolumeCreate x (observed a cl) va)"
  unfolding VolumeCreate_def Let_def
  unfolding observed_select by (intro acts_rules assms)

lemma acts_VolumeDelete:
  assumes "\<And>v r. E (OnHost a (DidStorageVolDelete v r))"
  shows "acts E (VolumeDelete (observed a cl) va)"
  unfolding VolumeDelete_def unfolding observed_select by (intro acts_rules assms)

lemma acts_ResizeRequired: "acts E (ResizeRequired va u v)"
  unfolding ResizeRequired_def Let_def by (intro acts_rules)

lemma acts_VolumeResize:
  assumes "\<And>v r. E (OnHost a (DidStorageVolResize v (ConvertToBytes value u) r))"
  shows "acts E (VolumeResize (observed a cl) va u value)"
  unfolding VolumeResize_def unfolding observed_select by (intro acts_rules assms)

lemma acts_liveResizeDisks:
  assumes "\<And>d disk r. E (OnHost a (DidDomainBlockResize d disk b r))"
  shows "acts E (liveResizeDisks (observed a cl) va dm b disks)"
proof (induction disks)
  case (Cons disk disks)
  have "acts E (DomainBlockResize (observed a cl) dm dev b f)" for dev f
    unfolding observed_select by (intro acts_rules assms)
  with Cons show ?case
    by (auto intro!: acts_rules split: outcome.split bool.split)
qed (simp, intro acts_rules)

lemma acts_LiveResize:
  assumes "\<And>v r. E (OnHost a (DidStorageVolResize v (ConvertToBytes value u) r))"
    and "\<And>d disk r. E (OnHost a (DidDomainBlockResize d disk (ConvertToBytes value u) r))"
    and "\<And>e. mild e \<Longrightarrow> E e"
  shows "acts E (LiveResize x (observed a cl) va domain u value)"
proof -
  have q: "acts E (DomainLookupByName (observed a cl) n)" "acts E (DomainGetState (observed a cl) d f)"
    "acts E (DomainGetXMLDesc (observed a cl) d f)" for n d f
    unfolding observed_select by ((intro acts_rules assms(3); simp)+)
  show ?thesis
    unfolding LiveResize_def
    by (intro acts_rules acts_VolumeResize acts_liveResizeDisks q assms(1,2))
qed

lemma acts_NewDomainAction: "acts mild (NewDomainAction x (observed a cl) name)"
  unfolding NewDomainAction_def
  unfolding observed_select by (intro acts_rules) simp_all

lemma acts_awaitShutoff: "acts mild (awaitShutoff (observed a cl) d n r)"
proof (induction n arbitrary: r)
  case 0
  show ?case by (cases r) (auto intro!: acts_rules)
next
  case (Suc n)
  have "acts mild (DomainGetState (observed a cl) d 0)"
    unfolding observed_select by (intro acts_rules) simp
  with Suc show ?case by (cases r) (auto intro!: acts_rules)
qed

lemma acts_backingChain: "acts mild (backingChain fuel x (observed a cl) chain)"
proof (induction fuel arbitrary: chain)
  case (Suc fuel)
  have q: "acts mild (StorageVolLookupByKey (observed a cl) k)"
    "acts mild (StorageVolGetXMLDesc (observed a cl) v f)" for k v f
    unfolding observed_select by ((intro acts_rules; simp)+)
  show ?case
    unfolding backingChain.simps getVolumeSourceDescription_def withTargetFormat_def
    by (intro acts_rules q Suc.IH)
qed (simp, intro acts_rules)

lemma acts_Dom_Disk: "acts mild (Dom_Disk fuel x (observed a cl) da vol pool wwn ro)"
proof -
  have q: "acts mild (StoragePoolLookupByName (observed a cl) n)"
    "acts mild (StorageVolLookupByName (observed a cl) p n)"
    "acts mild (StorageVolGetXMLDesc (observed a cl) v f)" for n p v f
    unfolding observed_select by ((intro acts_rules; simp)+)
  have p: "acts mild (\<lambda>s. (r, s))" for r :: "'r outcome"
    unfolding acts_def by (intro acting.settles_moves movesI) (simp_all add: emitting.refl store_frame.refl)
  show ?thesis
    unfolding Dom_Disk_def Let_def getVolumeSourceDescription_def withTargetFormat_def appendDisk_def
    by (intro acts_rules q p acts_backingChain)
qed

lemma acts_Dom_Create:
  assumes "\<And>xml r. E (OnHost a (DidDomainDefineXML xml r))"
  shows "acts E (Dom_Create x (observed a cl) da)"
  unfolding Dom_Create_def unfolding observed_select by (intro acts_rules assms)

lemma acts_Dom_Start:
  assumes "\<And>d r. E (OnHost a (DidDomainCreate d r))"
  shows "acts E (Dom_Start (observed a cl) da)"
  unfolding Dom_Start_def unfolding observed_select by (intro acts_rules assms)

lemma acts_Dom_settings [acts_rules]:
  "acts E (Dom_VCPU da v)" "acts E (Dom_VCPUPlacement da p)"
  "acts E (Dom_Memory da v u)" "acts E (Dom_SCSIMultiqueue da q)"
  "acts E (Dom_UEFI da)" "acts E (Dom_NoSecureBoot da)"
  "acts E (Dom_Interface da n qs mac)" "acts E (Dom_PCIPassthrough da d b sl f)"
  unfolding Dom_VCPU_def Dom_VCPUPlacement_def Dom_Memory_def Dom_SCSIMultiqueue_def Dom_UEFI_def
    Dom_NoSecureBoot_def Dom_Interface_def Dom_PCIPassthrough_def Let_def
  by (intro acts_rules)+

section \<open>The probes\<close>

lemma acts_probes:
  "acts mild (NewHostProbe x (observed a cl))"
  "acts mild (NewNetworkProbe (observed a cl) n)"
  "acts mild (NewPoolProbe (observed a cl) n)"
  "acts mild (NewPCIDeviceProbe x (observed a cl) n)"
  unfolding NewHostProbe_def NewNetworkProbe_def NewPoolProbe_def NewPCIDeviceProbe_def Let_def observed_select
  by (rule acts_rules; (intro acts_rules)?; auto intro!: acts_rules split: prod.split option.split sum.split)+

text \<open>A program that calls nothing outside, and what follows it.\<close>

lemma traces_andThen_silent:
  assumes m: "acts (\<lambda>_. False) m" and k: "\<And>x s'. traces (k x) s' P" and "P Panics []" and "P Hangs []"
  shows "traces (andThen m k) s P"
  by (rule traces_andThen_of [where M = "\<lambda>_ tr. tr = []"])
    (use assms in \<open>auto intro: acts_traces [OF m] simp: list_all_iff\<close>)

section \<open>Objects that are kept while they are used\<close>

text \<open>
  An object with the finalizer is kept by the API server until it is updated without it. \<open>userGuards\<close> asks
  that an update of an object that is being deleted comes after the lists of its possible users, all of
  them empty.
\<close>

definition deleting :: "('spec, 'st) Object \<Rightarrow> bool" where
  "deleting obj \<longleftrightarrow> om_DeletionTimestamp (Meta obj) \<noteq> None"

fun userGuards :: "('spec, 'st) Object \<Rightarrow> event list \<Rightarrow> event \<Rightarrow> (event \<Rightarrow> bool) list" where
  "userGuards obj users (DidUpdate obj' r) = (if deleting obj then map (=) users else [])"
| "userGuards obj users e = []"

lemma userGuards_mild: "mild e \<Longrightarrow> userGuards obj users e = []"
  by (cases e rule: mild.cases) auto

lemma userGuards_kept: "\<not> deleting obj \<Longrightarrow> userGuards obj users e = []"
  by (cases e) auto

lemma orderly_userGuards_mild: "list_all mild tr \<Longrightarrow> orderly (userGuards obj users) before tr"
  by (intro orderly_quiet) (auto simp: list_all_iff userGuards_mild)

text \<open>The end of every finalizer: a condition is reported, or the finalizer is dropped.\<close>

lemma traces_inUse:
  assumes "\<And>obj r. mild (DidStatusUpdate (rs_obj R obj) r)" and "\<And>r tr. list_all mild tr \<Longrightarrow> P r tr"
  shows "traces (attempt (setStatusCondition env R obj t st msg rs) fail (\<lambda>_. requeue)) s P"
  by (rule acts_traces [where E = mild]) (auto intro!: acts_rules assms)

lemma traces_unused:
  assumes "set users \<subseteq> set before" and "\<And>r tr. orderly (userGuards obj users) before tr \<Longrightarrow> P r tr"
  shows "traces (removeFinalizer env R obj) s P"
proof (rule acts_traces [where E = "\<lambda>e. \<exists>obj r. e = DidUpdate obj r"])
  show "P r tr" if "list_all (\<lambda>e. \<exists>obj r. e = DidUpdate obj r) tr" for r tr
    using that assms(1) by (intro assms(2) orderly_licensed) (fastforce simp: list_all_iff split: if_splits)
qed (intro acts_rules; blast)

lemma traces_used:
  assumes ok: "apimachinery_ok (e_api env)"
    and fin: "deleting obj \<Longrightarrow> Finalizer \<in> set (om_Finalizers (Meta obj)) \<Longrightarrow>
      traces fin s (\<lambda>r. orderly (userGuards obj users) [])"
    and rest: "\<And>obj'. acts (\<lambda>_. True) (rest obj')"
  shows "traces (withFinalizer env R obj fin rest) s (\<lambda>r. orderly (userGuards obj users) [])"
proof (cases "deleting obj")
  case True
  then show ?thesis
    unfolding withFinalizer_def
    by (intro traces_if fin traces_ret) (auto simp: deleting_def apimachinery_okD(2) [OF ok])
next
  case False
  show ?thesis
    unfolding withFinalizer_def
    by (rule acts_traces [where E = "\<lambda>_. True"])
      (use False in \<open>auto intro!: acts_rules rest orderly_quiet simp: userGuards_kept list_all_iff deleting_def\<close>)
qed

text \<open>What a run of such a reconciliation looks like.\<close>

definition keptWhileUsed :: "kind \<Rightarrow> (('spec, 'st) Object \<Rightarrow> kobj) \<Rightarrow> (('spec, 'st) Object \<Rightarrow> event list)
    \<Rightarrow> NamespacedName \<Rightarrow> event list \<Rightarrow> bool" where
  "keptWhileUsed k obj users req tr \<longleftrightarrow> (\<exists>res. tr = [DidGet k req res]) \<or>
     (\<exists>x tr'. tr = DidGet k req (Returns (Inr (obj x))) # tr' \<and> orderly (userGuards x (users x)) [] tr')"

lemma traces_keptWhileUsed:
  assumes "\<And>x s. traces (k x) s (\<lambda>r. orderly (userGuards x (users x)) [])"
  shows "traces (getRequested env R req k) s (\<lambda>r. keptWhileUsed (rs_kind R) (rs_obj R) users req)"
  unfolding getRequested_def apiGet_def
  by (intro traces_rules traces_mono [OF assms]) (auto simp: keptWhileUsed_def)

lemma keptWhileUsedD:
  assumes "keptWhileUsed k obj users req tr" and "inj obj"
    and "tr = DidGet k req (Returns (Inr (obj x))) # pre @ DidUpdate y res # post" and "deleting x"
  shows "set (users x) \<subseteq> set pre"
proof -
  from assms have o: "orderly (userGuards x (users x)) [] (pre @ DidUpdate y res # post)"
    by (auto simp: keptWhileUsed_def inj_eq)
  show ?thesis using orderly_nth [OF o refl, of "(=) e" for e] assms(4) by auto
qed

end
