(* ===== verification/Example.thy ===== *)
theory Example
  imports Effects
begin

text \<open>
  A small outside in which everything is constant: every object of a kind is the same one, every list is
  empty, an update answers with the object it was given, and a daemon knows one volume and one domain.
  The theorems about reconciliations are applied to it, to show that their hypotheses can hold and to
  watch the handlers run. It models nothing of the program.
\<close>

section \<open>Objects\<close>

definition exampleMeta :: "string \<Rightarrow> ObjectMeta" where
  "exampleMeta n = \<lparr>om_Name = n, om_Namespace = ''ns'', om_UID = ''u-'' @ n, om_Generation = 1,
     om_DeletionTimestamp = None, om_Finalizers = [Finalizer], om_Labels = None\<rparr>"

definition deleted :: "('spec, 'st) Object \<Rightarrow> ('spec, 'st) Object" where
  "deleted obj = obj\<lparr>Meta := (Meta obj)\<lparr>om_DeletionTimestamp := Some 0\<rparr>\<rparr>"

definition exampleReady :: "Condition list" where
  "exampleReady = [\<lparr>cond_Type = ConditionReady, cond_Status = ConditionTrue, cond_LastTransitionTime = 0,
     cond_Reason = '''', cond_Message = ''''\<rparr>]"

definition exampleRef :: "string \<Rightarrow> ResourceRef" where
  "exampleRef n = \<lparr>ref_Name = n\<rparr>"

definition exampleHost :: Host where
  "exampleHost = \<lparr>Meta = exampleMeta ''host'',
     Spec = \<lparr>hs_Address = ''10.0.0.1'', hs_AuthRef = exampleRef ''auth'', hs_Port = None\<rparr>,
     Status = \<lparr>Conditions = exampleReady, hst_Capacity = None\<rparr>\<rparr>"

definition examplePool :: Pool where
  "examplePool = \<lparr>Meta = exampleMeta ''pool'', Spec = \<lparr>pls_Name = ''default'', pls_HostRef = exampleRef ''host''\<rparr>,
     Status = \<lparr>Conditions = exampleReady, pst_Capacity = None\<rparr>\<rparr>"

definition exampleVolume :: Volume where
  "exampleVolume = \<lparr>Meta = exampleMeta ''vol'',
     Spec = \<lparr>xr_Name = ''vol0'', xr_GenerateName = '''', vsp_Format = ''qcow2'',
             vsp_Size = Some \<lparr>vs_Unit = ''GiB'', vs_Value = 2\<rparr>, vsp_PoolRef = exampleRef ''pool'',
             vsp_Source = None, vsp_BackingStoreRef = None\<rparr>,
     Status = \<lparr>Conditions = exampleReady, vst_Pool = ''default'', vst_Host = ''host''\<rparr>\<rparr>"

section \<open>A daemon\<close>

definition quietClient :: "'w Client" where
  "quietClient = (let e = PlainError ''not supported'' in \<lparr>
     Capabilities = ret (Inl e), Connect = ret None, Disconnected = ret False, Disconnect = ret None,
     DomainBlockResize = (\<lambda>_ _ _ _. ret None), DomainCreate = (\<lambda>_. ret None),
     DomainDefineXML = (\<lambda>_. ret (Inl e)), DomainGetState = (\<lambda>_ _. ret (Inr (DomainShutoff, 0))),
     DomainGetXMLDesc = (\<lambda>_ _. ret (Inr '''')), DomainLookupByName = (\<lambda>n. ret (Inr \<lparr>ld_Name = n\<rparr>)),
     DomainShutdown = (\<lambda>_. ret None), DomainUndefineFlags = (\<lambda>_ _. ret None), IsConnected = ret True,
     NetworkIsActive = (\<lambda>_. ret (Inr 1)), NetworkLookupByName = (\<lambda>n. ret (Inr \<lparr>ln_Name = n\<rparr>)),
     NodeDeviceGetXMLDesc = (\<lambda>_ _. ret (Inr '''')), NodeDeviceIsActive = (\<lambda>_. ret (Inr 1)),
     NodeDeviceLookupByName = (\<lambda>n. ret (Inr \<lparr>lnd_Name = n\<rparr>)),
     NodeGetMemoryStats = (\<lambda>_ _ _. ret (Inr ([], 0))), StoragePoolGetInfo = (\<lambda>_. ret (Inr (2, 0, 0, 0))),
     StoragePoolIsActive = (\<lambda>_. ret (Inr 1)), StoragePoolLookupByName = (\<lambda>n. ret (Inr \<lparr>lsp_Name = n\<rparr>)),
     StorageVolLookupByKey = (\<lambda>_. ret (Inl e)),
     StorageVolLookupByName = (\<lambda>p n. ret (Inr \<lparr>lsv_Pool = lsp_Name p, lsv_Name = n, lsv_Key = n\<rparr>)),
     StorageVolGetXMLDesc = (\<lambda>_ _. ret (Inr '''')),
     StorageVolCreateXML = (\<lambda>p x _. ret (Inr \<lparr>lsv_Pool = lsp_Name p, lsv_Name = x, lsv_Key = x\<rparr>)),
     StorageVolUpload = (\<lambda>_ _ _ _ _. ret None), StorageVolResize = (\<lambda>_ _ _. ret None),
     StorageVolDelete = (\<lambda>_ _. ret None)\<rparr>)"

section \<open>The packages outside\<close>

definition answering :: "'o \<Rightarrow> 'o list \<Rightarrow> ('w, 'o) kclient" where
  "answering obj objs = \<lparr>k_Get = (\<lambda>_. ret (Inr obj)), k_List = (\<lambda>_. ret (Inr objs)),
     k_Update = (\<lambda>obj. ret (Inr obj)), k_StatusUpdate = (\<lambda>obj. ret (Inr obj))\<rparr>"

definition absent :: "('w, 'o) kclient" where
  "absent = (let e = StatusError ''NotFound'' ''not found'' in
     \<lparr>k_Get = (\<lambda>_. ret (Inl e)), k_List = (\<lambda>_. ret (Inr [])), k_Update = (\<lambda>_. ret (Inl e)),
      k_StatusUpdate = (\<lambda>_. ret (Inl e))\<rparr>)"

definition exampleDef :: StorageVolume where
  "exampleDef = emptyStorageVolume\<lparr>sv_Name := ''vol0'', sv_Capacity := Some \<lparr>svs_Unit = ''GiB'', svs_Value = 1\<rparr>\<rparr>"

definition exampleCodec :: xmlcodec where
  "exampleCodec = (let e = PlainError ''xml'' in \<lparr>
     vol_Marshal = (\<lambda>v. Inr (sv_Name v)), vol_Unmarshal = (\<lambda>_. Inr exampleDef),
     dom_Marshal = (\<lambda>_. Inr ''domain''), dom_Unmarshal = (\<lambda>_. Inl e),
     caps_Marshal = (\<lambda>_. Inl e), caps_Unmarshal = (\<lambda>_. Inl e),
     nodedev_Marshal = (\<lambda>_. Inl e), nodedev_Unmarshal = (\<lambda>_. Inl e)\<rparr>)"

definition exampleOS :: "'w OS" where
  "exampleOS = \<lparr>os_CreateTemp = (\<lambda>p. ret (Inr (''/tmp/'' @ p))), os_Write = (\<lambda>_ _. ret None), os_Seek = (\<lambda>_. ret None),
     os_Read = (\<lambda>_. ret None), os_Close = (\<lambda>_. ret None), os_Remove = (\<lambda>_. ret None),
     http_NewRequest = (\<lambda>_. ret None),
     http_Do = (\<lambda>_. ret (Inr \<lparr>hr_StatusCode = 200, hr_ContentLength = 0, hr_Body = Inr []\<rparr>)),
     sha256 = (\<lambda>bs. bs), sha512 = (\<lambda>bs. bs)\<rparr>"

definition exampleIso :: "'w isolib" where
  "exampleIso = \<lparr>iso_Create = (\<lambda>n _. ret (Inr n)), iso_CreateFile = (\<lambda>_ _. ret None), iso_WriteFile = (\<lambda>_ _ _. ret None),
     iso_CloseFile = (\<lambda>_ _. ret None), iso_Finalize = (\<lambda>_. ret None), iso_Written = (\<lambda>_ _. ([], 0))\<rparr>"

definition exampleYaml :: "'a yaml_encoder" where
  "exampleYaml = \<lparr>ye_Encode = (\<lambda>_. Inr []), ye_Close = (\<lambda>_. Inr [])\<rparr>"

definition exampleEnv :: "'w Client \<Rightarrow> 'w env" where
  "exampleEnv client = \<lparr>host_New = (\<lambda>_ _. client), NewUUID = ret ''session'',
     e_Auths = absent, e_Secrets = absent, e_Hosts = answering exampleHost [], e_Pools = answering examplePool [],
     e_Networks = absent, e_PCIDevices = absent, e_Volumes = answering exampleVolume [], e_CloudInits = absent,
     e_Domains = absent, e_Now = ret 0, e_api = apimachinery_ref, e_xml = exampleCodec, e_cast = safecast_clamping,
     e_OS = exampleOS, e_iso = exampleIso, e_yamlMetadata = exampleYaml, e_yamlCloudConfig = exampleYaml,
     e_yamlNetworkConfig = exampleYaml\<rparr>"

text \<open>The operator with one connection.\<close>

definition exampleState :: "'w Client \<Rightarrow> 'w \<Rightarrow> 'w sys" where
  "exampleState client w = \<lparr>w_ext = w, w_log = [],
     hs_entries = [''u-host'' \<mapsto> \<lparr>he_addr = 0, he_generation = 1, he_client = client\<rparr>], hs_next = 1,
     hs_sessions = (\<lambda>_. {}), hs_monitor = (\<lambda>_. Watching), sys_auth = demoStore (\<lambda>_. None) Map.empty\<rparr>"

abbreviation exampleRequest :: NamespacedName where
  "exampleRequest \<equiv> \<lparr>nn_Name = ''x'', nn_Namespace = ''ns''\<rparr>"

definition exampleCloudInit :: CloudInit where
  "exampleCloudInit = \<lparr>Meta = exampleMeta ''ci'',
     Spec = \<lparr>xr_Name = ''ci0'', xr_GenerateName = '''', cis_PoolRef = exampleRef ''pool'',
             cis_Metadata = None, cis_UserData = None, cis_VendorData = None, cis_NetworkConfig = None\<rparr>,
     Status = \<lparr>Conditions = exampleReady, cist_Pool = ''default'', cist_Host = ''host''\<rparr>\<rparr>"

definition exampleHandle :: "string \<Rightarrow> LvStorageVol" where
  "exampleHandle n = \<lparr>lsv_Pool = ''default'', lsv_Name = n, lsv_Key = n\<rparr>"

text \<open>What comes before an object that owns the volume \<open>n\<close> is finalized or managed.\<close>

definition exampleOpening :: "string \<Rightarrow> event list" where
  "exampleOpening n =
     [DidGet PoolKind \<lparr>nn_Name = ''pool'', nn_Namespace = ''ns''\<rparr> (Returns (Inr (KPool examplePool))),
      DidGet HostKind \<lparr>nn_Name = ''host'', nn_Namespace = ''ns''\<rparr> (Returns (Inr (KHost exampleHost))),
      OnHost 0 HostQuery, OtherCall, OnHost 0 HostQuery,
      OnHost 0 (LookedUpVolume \<lparr>lsp_Name = ''default''\<rparr> n (Returns (Inr (exampleHandle n)))), OnHost 0 HostQuery]"

definition unfinalized :: "('spec, 'st) Object \<Rightarrow> ('spec, 'st) Object" where
  "unfinalized obj = obj\<lparr>Meta := (Meta obj)\<lparr>om_Finalizers := []\<rparr>\<rparr>"

definition exampleAuth :: Auth where
  "exampleAuth = \<lparr>Meta = exampleMeta ''auth'',
     Spec = \<lparr>as_Type = SSHAuth, as_SecretRef = exampleRef ''secret'', as_Verify = None, as_Ca = None,
             as_KnownHosts = Some ''known'', as_Username = Some ''user''\<rparr>,
     Status = \<lparr>Conditions = exampleReady\<rparr>\<rparr>"

definition exampleNetwork :: Network where
  "exampleNetwork = \<lparr>Meta = exampleMeta ''net'', Spec = \<lparr>ns_Name = ''default'', ns_HostRef = exampleRef ''host''\<rparr>,
     Status = \<lparr>Conditions = exampleReady\<rparr>\<rparr>"

definition examplePCIDevice :: PCIDevice where
  "examplePCIDevice = \<lparr>Meta = exampleMeta ''pci'', Spec = \<lparr>pds_Name = ''pci_0'', pds_HostRef = exampleRef ''host''\<rparr>,
     Status = \<lparr>Conditions = exampleReady, pdst_Address = None\<rparr>\<rparr>"

text \<open>The update that drops the finalizer.\<close>

definition exampleDropped :: "(('spec, 'st) Object \<Rightarrow> kobj) \<Rightarrow> ('spec, 'st) Object \<Rightarrow> event" where
  "exampleDropped k obj = DidUpdate (k (unfinalized obj)) (Returns (Inr (k (unfinalized obj))))"

lemmas example_defs = exampleState_def exampleEnv_def answering_def absent_def exampleVolume_def examplePool_def exampleHost_def
  exampleRef_def exampleReady_def exampleMeta_def deleted_def exampleCodec_def exampleDef_def
  exampleCloudInit_def exampleHandle_def exampleOpening_def unfinalized_def
  exampleAuth_def exampleNetwork_def examplePCIDevice_def exampleDropped_def

text \<open>Evaluation of a run.\<close>

lemmas run_defs = andThen_def attempt_def guarded_def deferred_def ret_def deref_def modify_def reading_def
  called_def unlogged_def getRequested_def withFinalizer_def removeFinalizer_def finish_def
  withRequirement_def api_defs resource_defs observed_select quietClient_def apimachinery_ref_def findCondition_def
  isTrue_def withSession_def Session_def Let_def endSession_def HostLookup_def newEvents_def



end
