(* ===== verification/AuthController.thy ===== *)
theory AuthController
  imports Effects Example
begin

text \<open>
  The controller of \<open>Auth\<close> objects (\<^verbatim>\<open>internal/controller/auth.go\<close>): it writes the credentials of a secret
  to the store under the UID of the object, and gives them up when the object is deleted and no host
  refers to it.
\<close>

definition Auth_setStatusCondition :: "'w env \<Rightarrow> Auth \<Rightarrow> string \<Rightarrow> ConditionStatus \<Rightarrow> string \<Rightarrow> string
    \<Rightarrow> ('w sys, error + Auth) prog" where
  "Auth_setStatusCondition env = setStatusCondition env (Auths env)"

text \<open>The files of the credentials; \<open>None\<close> is the panic of a nil pointer.\<close>

definition secretFile :: "Secret \<Rightarrow> string \<Rightarrow> bytes" where
  "secretFile secret key = (case sec_Data secret key of None \<Rightarrow> [] | Some data \<Rightarrow> data)"

definition verifies :: "Auth \<Rightarrow> bool" where
  "verifies auth \<longleftrightarrow> as_Verify (Spec auth) = None \<or> as_Verify (Spec auth) = Some True"

definition Auth_files :: "Auth \<Rightarrow> Secret \<Rightarrow> (error + File list) option" where
  "Auth_files auth secret =
     (if as_Type (Spec auth) = SSHAuth then
        if sec_Type secret \<noteq> SecretTypeSSHAuth
        then Some (Inl (PlainError (''ssh auth requires a secret of type: '' @ SecretTypeSSHAuth)))
        else let files = [NewFile privateKey (secretFile secret ''ssh-privatekey'')] in
          if verifies auth
          then map_option (\<lambda>kh. Inr (files @ [NewFile knownHosts kh])) (as_KnownHosts (Spec auth))
          else Some (Inr files)
      else if as_Type (Spec auth) = TLSAuth then
        if sec_Type secret \<noteq> SecretTypeTLS
        then Some (Inl (PlainError (''tls auth requires a secret of type: '' @ SecretTypeTLS)))
        else let files = [NewFile clientCert (secretFile secret ''tls.crt''),
                          NewFile clientKey (secretFile secret ''tls.key'')] in
          if verifies auth
          then map_option (\<lambda>ca. Inr (files @ [NewFile caCert ca])) (as_Ca (Spec auth))
          else Some (Inr files)
      else Some (Inl (PlainError (''unsupported auth type: '' @ as_Type (Spec auth)))))"

text \<open>An object being deleted.\<close>

definition Auth_finalize :: "'w env \<Rightarrow> Auth \<Rightarrow> 'w reconcile" where
  "Auth_finalize env auth =
     withRequirement env AuthLabel (om_Name (Meta auth)) fail (\<lambda>req.
     attempt (apiList (Hosts env) (Some req)) fail (\<lambda>hosts.
     if hosts \<noteq> []
     then attempt (Auth_setStatusCondition env auth ConditionDeletionPrevented ConditionTrue
            ''auth is currently in use by host'' ConditionInUse) fail (\<lambda>_. requeue)
     else andThen (onAuth (AuthDeregister (om_UID (Meta auth)))) (\<lambda>_.
            removeFinalizer env (Auths env) auth)))"

text \<open>
  The rest of the reconciliation; \<open>entry\<close> is what the store knew when it began. The sum of the two
  generations is an \<open>int64\<close>.
\<close>

definition Auth_register :: "'w env \<Rightarrow> AuthEntry option \<Rightarrow> Auth \<Rightarrow> 'w reconcile" where
  "Auth_register env entry auth =
     attempt (apiGet (Secrets env) (Auth_SecretRef auth)) fail (\<lambda>secret.
     let combinedGeneration = int64 (om_Generation (Meta auth) + om_Generation (sec_Meta secret)) in
     if map_option ae_generation entry = Some combinedGeneration then stop
     else deref (Auth_files auth secret) (\<lambda>result.
     case result of
       Inl err \<Rightarrow> fail err
     | Inr files \<Rightarrow>
         guarded (onAuth (AuthRegister (om_UID (Meta auth)) combinedGeneration files)) fail
           (finish (SetLabelOn auth SecretLabel (om_Name (sec_Meta secret)) (Auths env)))))"

definition Auth_Reconcile :: "'w env \<Rightarrow> NamespacedName \<Rightarrow> 'w reconcile" where
  "Auth_Reconcile env req =
     getRequested env (Auths env) req (\<lambda>auth.
     reading (\<lambda>s.
     let entry = AuthLookup (sys_auth s) (om_UID (Meta auth)) in
     withFinalizer env (Auths env) auth (Auth_finalize env auth) (Auth_register env entry)))"

text \<open>
  The requests that a change of a secret causes (the map function of \<open>SetupWithManager\<close>): every \<open>Auth\<close>
  labelled with it, and nothing when the list cannot be had.
\<close>

definition requestsFor :: "('spec, 'st) Object list \<Rightarrow> NamespacedName list" where
  "requestsFor items = map (\<lambda>x. \<lparr>nn_Name = om_Name (Meta x), nn_Namespace = om_Namespace (Meta x)\<rparr>) items"

definition Auth_mapSecret :: "'w env \<Rightarrow> string \<Rightarrow> ('w sys, NamespacedName list) prog" where
  "Auth_mapSecret env name =
     withRequirement env SecretLabel name (\<lambda>_. ret []) (\<lambda>req.
     attempt (apiList (Auths env) (Some req)) (\<lambda>_. ret []) (\<lambda>auths. ret (requestsFor auths)))"

text \<open>The predicate on the events of a watched kind (\<^verbatim>\<open>internal/controller/predicate.go\<close>).\<close>

datatype watchEvent =
    CreateEvent ObjectMeta | UpdateEvent ObjectMeta ObjectMeta | DeleteEvent ObjectMeta | GenericEvent ObjectMeta

fun watchPredicate :: "watchEvent \<Rightarrow> bool" where
  "watchPredicate (CreateEvent m) = False"
| "watchPredicate (UpdateEvent old new) = (om_Generation old \<noteq> om_Generation new)"
| "watchPredicate (DeleteEvent m) = False"
| "watchPredicate (GenericEvent m) = False"

section \<open>What a reconciliation may do\<close>

lemma acts_Auth_register:
  assumes "\<And>e. mild e \<Longrightarrow> E e" and "\<And>obj r. E (DidUpdate (KAuth obj) r)"
  shows "acts E (Auth_register env entry auth)"
  unfolding Auth_register_def Let_def by (intro acts_rules) (simp_all add: resource_defs assms)

text \<open>The hosts that may use the credentials.\<close>

definition authUsers :: "Auth \<Rightarrow> event list" where
  "authUsers auth =
     [DidList HostKind (Some \<lparr>rq_Key = AuthLabel, rq_Value = om_Name (Meta auth)\<rparr>) (Returns (Inr []))]"

lemma traces_Auth_finalize:
  assumes ok: "apimachinery_ok (e_api env)"
  shows "traces (Auth_finalize env auth) s (\<lambda>r. orderly (userGuards auth (authUsers auth)) [])"
  unfolding Auth_finalize_def withRequirement_def apiList_def Auth_setStatusCondition_def
  by (intro traces_rules traces_inUse traces_andThen_silent acts_onAuth traces_unused [where users = "authUsers auth"])
    (auto simp: orderly_userGuards_mild resource_defs authUsers_def dest!: apimachinery_okD(6) [OF ok])

lemma Auth_Reconcile_kept:
  assumes ok: "apimachinery_ok (e_api env)" and run: "Auth_Reconcile env req s = (r, s')"
  shows "keptWhileUsed AuthKind KAuth authUsers req (newEvents s s')"
proof -
  have "traces (Auth_Reconcile env req) s (\<lambda>r. keptWhileUsed (rs_kind (Auths env)) (rs_obj (Auths env)) authUsers req)"
    unfolding Auth_Reconcile_def Let_def
    by (intro traces_keptWhileUsed traces_reading traces_used [OF ok] traces_Auth_finalize [OF ok] acts_Auth_register)
      simp_all
  from traces_newEvents [OF this run] show ?thesis by (simp add: Auths_def)
qed

text \<open>A run that lets the example object go.\<close>

definition exampleAuthEnv :: "unit env" where
  "exampleAuthEnv = (exampleEnv quietClient)\<lparr>e_Auths := answering (deleted exampleAuth) [], e_Hosts := absent\<rparr>"

lemma exampleAuthEnv_ok: "apimachinery_ok (e_api exampleAuthEnv)"
  by (simp add: exampleAuthEnv_def exampleEnv_def apimachinery_ref_ok)

lemma exampleAuth_events:
  "newEvents (exampleState quietClient ()) (snd (Auth_Reconcile exampleAuthEnv exampleRequest (exampleState quietClient ()))) =
     DidGet AuthKind exampleRequest (Returns (Inr (KAuth (deleted exampleAuth)))) # authUsers (deleted exampleAuth) @
     exampleDropped KAuth (deleted exampleAuth) # []"
  by (simp add: example_defs run_defs exampleAuthEnv_def Auth_Reconcile_def Auth_finalize_def authUsers_def onAuth_def
      AuthDeregister_def demoStore_def NewAuthStore_def)

text \<open>An \<open>Auth\<close> that is being deleted keeps its finalizer as long as the API server lists a host that is
  labelled as using it: the object is only updated, and so released, after an empty list of such hosts.\<close>

theorem Auth_kept_while_used:
  assumes "apimachinery_ok (e_api env)" and "Auth_Reconcile env req s = (r, s')"
    and "newEvents s s' = DidGet AuthKind req (Returns (Inr (KAuth auth))) # pre @ DidUpdate obj res # post"
    and "deleting auth"
  shows "set (authUsers auth) \<subseteq> set pre"
  by (rule keptWhileUsedD [OF Auth_Reconcile_kept [OF assms(1,2)] _ assms(3,4)]) (simp add: inj_def)

theorem Auth_kept_while_used_witness:
  "\<exists>pre obj res post. newEvents (exampleState quietClient ()) (snd (Auth_Reconcile exampleAuthEnv exampleRequest (exampleState quietClient ()))) =
       DidGet AuthKind exampleRequest (Returns (Inr (KAuth (deleted exampleAuth)))) # pre @ DidUpdate obj res # post \<and>
     deleting (deleted exampleAuth) \<and> set (authUsers (deleted exampleAuth)) \<subseteq> set pre"
proof (intro exI conjI)
  show ev: "newEvents (exampleState quietClient ()) (snd (Auth_Reconcile exampleAuthEnv exampleRequest (exampleState quietClient ()))) =
      DidGet AuthKind exampleRequest (Returns (Inr (KAuth (deleted exampleAuth)))) # authUsers (deleted exampleAuth) @
      DidUpdate (KAuth (unfinalized (deleted exampleAuth))) (Returns (Inr (KAuth (unfinalized (deleted exampleAuth))))) # []"
    by (rule exampleAuth_events [unfolded exampleDropped_def])
  show del: "deleting (deleted exampleAuth)" by (simp add: deleting_def deleted_def)
  show "set (authUsers (deleted exampleAuth)) \<subseteq> set (authUsers (deleted exampleAuth))"
    by (rule Auth_kept_while_used [OF exampleAuthEnv_ok surjective_pairing ev del])
qed

end
