(* ===== verification/HostController.thy ===== *)
theory HostController
  imports AuthController Probe
begin

text \<open>
  The controller of \<open>Host\<close> objects (\<^verbatim>\<open>internal/controller/host.go\<close>): it registers a connection to the host
  with the credentials of its \<open>Auth\<close>, probes the host every minute, and drops the connection when the
  object is deleted and nothing on the host is managed.
\<close>

definition Host_setStatusCondition :: "'w env \<Rightarrow> Host \<Rightarrow> string \<Rightarrow> ConditionStatus \<Rightarrow> string \<Rightarrow> string
    \<Rightarrow> ('w sys, error + Host) prog" where
  "Host_setStatusCondition env = setStatusCondition env (Hosts env)"

section \<open>The dialer\<close>

text \<open>
  How to reach the host, from the address and port of the host, the path of the credentials and the kind
  of authentication; \<open>None\<close> is the panic of a nil user name. The code converts the port with \<open>string(*port)\<close>,
  which is the character with that number.
\<close>

definition insecure :: "Auth \<Rightarrow> bool" where
  "insecure auth \<longleftrightarrow> as_Verify (Spec auth) = Some False"

definition portOption :: "(string \<Rightarrow> 'opt) \<Rightarrow> Host \<Rightarrow> 'opt list" where
  "portOption option host = (case hs_Port (Spec host) of None \<Rightarrow> [] | Some port \<Rightarrow> [option (rune_string port)])"

definition Host_dialer :: "Auth \<Rightarrow> AuthEntry \<Rightarrow> Host \<Rightarrow> (error + Dialer) option" where
  "Host_dialer auth authEntry host =
     (if as_Type (Spec auth) = SSHAuth then
        map_option (\<lambda>username. Inr (NewSSH (hs_Address (Spec host))
          ([WithSSHAuthMethods_PrivKey, UseKeyFile (ae_path authEntry @ [privateKey]), UseSSHUsername username] @
           (if insecure auth then [WithAcceptUnknownHostKey]
            else [UseKnownHostsFile (ae_path authEntry @ [knownHosts])]) @
           portOption UseSSHPort host))) (as_Username (Spec auth))
      else if as_Type (Spec auth) = TLSAuth then
        Some (Inr (NewTLS (hs_Address (Spec host))
          ([UsePKIPath (ae_path authEntry)] @ (if insecure auth then [WithInsecureNoVerify] else []) @
           portOption UseTLSPort host)))
      else Some (Inl (PlainError (''unsupported auth type: '' @ as_Type (Spec auth)))))"

section \<open>The probe\<close>

text \<open>
  \<open>probe\<close>, split where the session is open. Its argument \<open>hostEntry\<close> is a pointer, which a lookup that
  found nothing leaves nil.
\<close>

definition Host_probed :: "'w env \<Rightarrow> Host \<Rightarrow> 'w sys Client \<Rightarrow> 'w reconcile" where
  "Host_probed env host hostClient =
     attempt (NewHostProbe (e_xml env) hostClient)
       (\<lambda>err. attempt (Host_setStatusCondition env host ConditionProbed ConditionFalse
                ''Probe could not be completed'' ConditionError) fail (\<lambda>_. fail err))
       (\<lambda>probe.
     let cast = e_cast env;
         capacity = \<lparr>hc_Arch = hp_arch probe, hc_CPUS = ToInt32 cast (hp_cpus probe),
                     hc_Memory = \<lparr>hm_Total = ToInt64 cast (hp_memoryTotal probe),
                                  hm_Free = ToInt64 cast (hp_memoryFree probe)\<rparr>,
                     hc_NUMA = hp_numa probe\<rparr>;
         host = host\<lparr>Status := (Status host)\<lparr>hst_Capacity := Some capacity\<rparr>\<rparr> in
     andThen (Host_setStatusCondition env host ConditionProbed ConditionTrue conditionProbeCompleted
       ConditionCompleted) (\<lambda>r.
     ret (emptyResult\<lparr>RequeueAfter := dataRefreshInterval\<rparr>, case r of Inl err \<Rightarrow> Some err | Inr _ \<Rightarrow> None)))"

definition Host_probe :: "'w env \<Rightarrow> Host \<Rightarrow> 'w HostEntry option \<Rightarrow> 'w reconcile" where
  "Host_probe env host hostEntry =
     attempt (Host_setStatusCondition env host ConditionProbed ConditionFalse ''New probe required''
       ConditionRequired) fail (\<lambda>host.
     deref hostEntry (\<lambda>entry.
     withSession env entry
       (\<lambda>_. attempt (Host_setStatusCondition env host ConditionProbed ConditionFalse conditionHostClientNotReady
              ConditionUnmetRequirements) fail (\<lambda>_. requeue))
       (Host_probed env host)))"

section \<open>Reconciliation\<close>

definition Host_finalize :: "'w env \<Rightarrow> Host \<Rightarrow> 'w reconcile" where
  "Host_finalize env host =
     withRequirement env HostLabel (om_Name (Meta host)) fail (\<lambda>req.
     attempt (apiList (Pools env) (Some req)) fail (\<lambda>pools.
     attempt (apiList (Networks env) (Some req)) fail (\<lambda>networks.
     attempt (apiList (PCIDevices env) (Some req)) fail (\<lambda>pciDevices.
     attempt (apiList (Domains env) (Some req)) fail (\<lambda>domains.
     if 0 < length pools + length networks + length pciDevices + length domains
     then attempt (Host_setStatusCondition env host ConditionDeletionPrevented ConditionTrue
            ''host is in use by another resource'' ConditionInUse) fail (\<lambda>_. requeue)
     else andThen (HostDeregister (om_UID (Meta host))) (\<lambda>_. removeFinalizer env (Hosts env) host))))))"

text \<open>A condition that is still fresh: how long it stays so.\<close>

definition freshFor :: "'w env \<Rightarrow> int \<Rightarrow> Condition list \<Rightarrow> int option" where
  "freshFor env now cs =
     (case FindStatusCondition (e_api env) cs ConditionProbed of
        None \<Rightarrow> None
      | Some probed \<Rightarrow>
          if cond_Status probed = ConditionTrue
          then let d = Since now (cond_LastTransitionTime probed) in
               if d < dataRefreshInterval then Some (int64 (dataRefreshInterval - d)) else None
          else None)"

text \<open>
  \<open>if probed := ...; probed != nil && ... {if d := time.Since(...) ... return}\<close>: the clock is read only when
  the object has been probed successfully.
\<close>

definition unlessFresh :: "'w env \<Rightarrow> Condition list \<Rightarrow> 'w reconcile \<Rightarrow> 'w reconcile" where
  "unlessFresh env cs k =
     (if \<exists>probed. FindStatusCondition (e_api env) cs ConditionProbed = Some probed \<and>
           cond_Status probed = ConditionTrue
      then andThen (unlogged (e_Now env)) (\<lambda>now.
             case freshFor env now cs of
               Some d \<Rightarrow> ret (emptyResult\<lparr>RequeueAfter := d\<rparr>, None)
             | None \<Rightarrow> k)
      else k)"

definition Host_connect :: "'w env \<Rightarrow> Host \<Rightarrow> Auth \<Rightarrow> AuthEntry \<Rightarrow> int \<Rightarrow> 'w reconcile" where
  "Host_connect env host auth authEntry combinedGeneration =
     deref (Host_dialer auth authEntry host) (\<lambda>result.
     case result of
       Inl err \<Rightarrow> fail err
     | Inr dialer \<Rightarrow>
         andThen (HostRegister env (om_UID (Meta host)) combinedGeneration dialer) (\<lambda>_.
         attempt (SetLabelOn host AuthLabel (om_Name (Meta auth)) (Hosts env)) fail (\<lambda>host.
         reading (\<lambda>s. Host_probe env host (HostLookup s (om_UID (Meta host)))))))"

definition Host_register :: "'w env \<Rightarrow> Host \<Rightarrow> 'w reconcile" where
  "Host_register env host =
     attempt (apiGet (Auths env) (Host_AuthRef host)) fail (\<lambda>auth.
     reading (\<lambda>s.
     case AuthLookup (sys_auth s) (om_UID (Meta auth)) of
       None \<Rightarrow> requeue
     | Some authEntry \<Rightarrow>
         let combinedGeneration = int64 (om_Generation (Meta host) + ae_generation authEntry) in
         case HostLookup s (om_UID (Meta host)) of
           None \<Rightarrow> Host_connect env host auth authEntry combinedGeneration
         | Some hostEntry \<Rightarrow>
             if combinedGeneration = he_generation hostEntry
             then unlessFresh env (Conditions (Status host)) (Host_probe env host (Some hostEntry))
             else Host_connect env host auth authEntry combinedGeneration))"

definition Host_Reconcile :: "'w env \<Rightarrow> NamespacedName \<Rightarrow> 'w reconcile" where
  "Host_Reconcile env req =
     getRequested env (Hosts env) req (\<lambda>host.
     withFinalizer env (Hosts env) host (Host_finalize env host) (Host_register env))"

text \<open>The requests that a change of an \<open>Auth\<close> causes.\<close>

definition Host_mapAuth :: "'w env \<Rightarrow> string \<Rightarrow> ('w sys, NamespacedName list) prog" where
  "Host_mapAuth env name =
     withRequirement env AuthLabel name (\<lambda>_. ret []) (\<lambda>req.
     attempt (apiList (Hosts env) (Some req)) (\<lambda>_. ret []) (\<lambda>hosts. ret (requestsFor hosts)))"

section \<open>What a reconciliation may do\<close>

lemma acts_Host_probed:
  assumes "\<And>e. mild e \<Longrightarrow> E e"
  shows "acts E (Host_probed env host (observed a cl))"
  unfolding Host_probed_def Host_setStatusCondition_def Let_def
  by (intro acts_rules acts_mono [OF acts_probes(1)]) (simp_all add: Hosts_def assms)

lemma acts_Host_probe:
  assumes "\<And>e. mild e \<Longrightarrow> E e"
  shows "acts E (Host_probe env host entry)"
  unfolding Host_probe_def Host_setStatusCondition_def
  by (intro acts_rules acts_withSession acts_Host_probed) (simp_all add: Hosts_def assms)

lemma acts_unlessFresh [acts_rules]:
  assumes "acts E k" and "E OtherCall"
  shows "acts E (unlessFresh env cs k)"
  unfolding unlessFresh_def by (intro acts_rules assms)

lemma acts_Host_register:
  assumes "\<And>e. mild e \<Longrightarrow> E e" and "\<And>obj r. E (DidUpdate (KHost obj) r)" and "\<And>a r. E (OnHost a (DidConnect r))"
  shows "acts E (Host_register env host)"
  unfolding Host_register_def Host_connect_def Let_def
  by (intro acts_rules acts_Host_probe) (simp_all add: resource_defs assms)

text \<open>The pools, networks, PCI devices and domains that may be on the host.\<close>

definition hostUsers :: "Host \<Rightarrow> event list" where
  "hostUsers host = map (\<lambda>k. DidList k (Some \<lparr>rq_Key = HostLabel, rq_Value = om_Name (Meta host)\<rparr>) (Returns (Inr [])))
     [PoolKind, NetworkKind, PCIDeviceKind, DomainKind]"

lemma traces_Host_finalize:
  assumes ok: "apimachinery_ok (e_api env)"
  shows "traces (Host_finalize env host) s (\<lambda>r. orderly (userGuards host (hostUsers host)) [])"
  unfolding Host_finalize_def withRequirement_def apiList_def Host_setStatusCondition_def
  by (intro traces_rules traces_inUse traces_andThen_silent acts_HostDeregister traces_unused [where users = "hostUsers host"])
    (auto simp: orderly_userGuards_mild resource_defs hostUsers_def dest!: apimachinery_okD(6) [OF ok])

lemma Host_Reconcile_kept:
  assumes ok: "apimachinery_ok (e_api env)" and run: "Host_Reconcile env req s = (r, s')"
  shows "keptWhileUsed HostKind KHost hostUsers req (newEvents s s')"
proof -
  have "traces (Host_Reconcile env req) s (\<lambda>r. keptWhileUsed (rs_kind (Hosts env)) (rs_obj (Hosts env)) hostUsers req)"
    unfolding Host_Reconcile_def
    by (intro traces_keptWhileUsed traces_used [OF ok] traces_Host_finalize [OF ok] acts_Host_register) simp_all
  from traces_newEvents [OF this run] show ?thesis by (simp add: Hosts_def)
qed

text \<open>A run that lets the example object go.\<close>

definition exampleHostEnv :: "unit env" where
  "exampleHostEnv = (exampleEnv quietClient)\<lparr>e_Hosts := answering (deleted exampleHost) [], e_Pools := absent\<rparr>"

lemma exampleHostEnv_ok: "apimachinery_ok (e_api exampleHostEnv)"
  by (simp add: exampleHostEnv_def exampleEnv_def apimachinery_ref_ok)

lemma exampleHost_events:
  "newEvents (exampleState quietClient ()) (snd (Host_Reconcile exampleHostEnv exampleRequest (exampleState quietClient ()))) =
     DidGet HostKind exampleRequest (Returns (Inr (KHost (deleted exampleHost)))) # hostUsers (deleted exampleHost) @
     exampleDropped KHost (deleted exampleHost) # []"
  by (simp add: example_defs run_defs exampleHostEnv_def Host_Reconcile_def Host_finalize_def hostUsers_def
      HostDeregister_def sendMon_def setMonitor_def)

text \<open>C22: A \<open>Host\<close> that is being deleted keeps its finalizer, and its connection stays registered, as long as
  the API server lists a pool, network, PCI device or domain labelled as being on it.\<close>

theorem Host_kept_while_used:
  assumes "apimachinery_ok (e_api env)" and "Host_Reconcile env req s = (r, s')"
    and "newEvents s s' = DidGet HostKind req (Returns (Inr (KHost host))) # pre @ DidUpdate obj res # post"
    and "deleting host"
  shows "set (hostUsers host) \<subseteq> set pre"
  by (rule keptWhileUsedD [OF Host_Reconcile_kept [OF assms(1,2)] _ assms(3,4)]) (simp add: inj_def)

theorem Host_kept_while_used_witness:
  "\<exists>pre obj res post. newEvents (exampleState quietClient ()) (snd (Host_Reconcile exampleHostEnv exampleRequest (exampleState quietClient ()))) =
       DidGet HostKind exampleRequest (Returns (Inr (KHost (deleted exampleHost)))) # pre @ DidUpdate obj res # post \<and>
     deleting (deleted exampleHost) \<and> set (hostUsers (deleted exampleHost)) \<subseteq> set pre"
proof (intro exI conjI)
  show ev: "newEvents (exampleState quietClient ()) (snd (Host_Reconcile exampleHostEnv exampleRequest (exampleState quietClient ()))) =
      DidGet HostKind exampleRequest (Returns (Inr (KHost (deleted exampleHost)))) # hostUsers (deleted exampleHost) @
      DidUpdate (KHost (unfinalized (deleted exampleHost))) (Returns (Inr (KHost (unfinalized (deleted exampleHost))))) # []"
    by (rule exampleHost_events [unfolded exampleDropped_def])
  show del: "deleting (deleted exampleHost)" by (simp add: deleting_def deleted_def)
  show "set (hostUsers (deleted exampleHost)) \<subseteq> set (hostUsers (deleted exampleHost))"
    by (rule Host_kept_while_used [OF exampleHostEnv_ok surjective_pairing ev del])
qed

end
