(* ===== verification/ProbeControllers.thy ===== *)
theory ProbeControllers
  imports HostController
begin

text \<open>
  The controllers of \<open>Pool\<close>, \<open>Network\<close> and \<open>PCIDevice\<close> objects (\<^verbatim>\<open>internal/controller/pool.go\<close>,
  \<^verbatim>\<open>network.go\<close>, \<^verbatim>\<open>pcidevice.go\<close>). Each asks the host every minute whether the thing exists and is
  active, and keeps the object while something that uses it is managed. The three files repeat the same
  code for their kind; what they share is written once here, over any kind with conditions.
\<close>

section \<open>Shared steps\<close>

text \<open>Setting a condition and returning, with a given result.\<close>

definition report :: "'w env \<Rightarrow> ('w, ('spec, 'st StatusBase_scheme) Object) resource
    \<Rightarrow> ('spec, 'st StatusBase_scheme) Object \<Rightarrow> string \<Rightarrow> ConditionStatus \<Rightarrow> string \<Rightarrow> string
    \<Rightarrow> 'w reconcile \<Rightarrow> 'w reconcile" where
  "report env R obj cType status msg reason result =
     attempt (setStatusCondition env R obj cType status msg reason) fail (\<lambda>_. result)"

text \<open>Looking the host's connection up and opening a session on it, for the rest of the function.\<close>

definition probeSession :: "'w env \<Rightarrow> ('w, ('spec, 'st StatusBase_scheme) Object) resource
    \<Rightarrow> ('spec, 'st StatusBase_scheme) Object \<Rightarrow> Host \<Rightarrow> ('w sys Client \<Rightarrow> 'w reconcile) \<Rightarrow> 'w reconcile" where
  "probeSession env R obj host k =
     (let notReady = report env R obj ConditionProbed ConditionFalse conditionHostClientNotReady
            ConditionUnmetRequirements requeue in
      reading (\<lambda>s.
      case HostLookup s (om_UID (Meta host)) of
        None \<Rightarrow> notReady
      | Some hostEntry \<Rightarrow>
          withSession env hostEntry (\<lambda>_. notReady) k))"

text \<open>From the freshness test to the open session.\<close>

definition probeObject :: "'w env \<Rightarrow> ('w, ('spec, 'st StatusBase_scheme) Object) resource
    \<Rightarrow> ('spec, 'st StatusBase_scheme) Object \<Rightarrow> (('spec, 'st StatusBase_scheme) Object \<Rightarrow> NamespacedName)
    \<Rightarrow> (('spec, 'st StatusBase_scheme) Object \<Rightarrow> 'w sys Client \<Rightarrow> 'w reconcile) \<Rightarrow> 'w reconcile" where
  "probeObject env R obj hostRef k =
     unlessFresh env (Conditions (Status obj)) (
     attempt (setStatusCondition env R obj ConditionProbed ConditionFalse ''New probe required''
       ConditionRequired) fail (\<lambda>obj.
     attempt (apiGet (Hosts env) (hostRef obj))
       (\<lambda>err. report env R obj ConditionProbed ConditionFalse (ErrorText err) ConditionUnmetRequirements (fail err))
       (\<lambda>host. probeSession env R obj host (k obj))))"

definition probeFailed :: "'w env \<Rightarrow> ('w, ('spec, 'st StatusBase_scheme) Object) resource
    \<Rightarrow> ('spec, 'st StatusBase_scheme) Object \<Rightarrow> error \<Rightarrow> 'w reconcile" where
  "probeFailed env R obj err = report env R obj ConditionProbed ConditionFalse
     (''Probe could not be completed: '' @ ErrorText err) ConditionError (fail err)"

text \<open>The condition \<open>Ready\<close> that a probe gives.\<close>

definition setReady :: "'w env \<Rightarrow> ('w, ('spec, 'st StatusBase_scheme) Object) resource
    \<Rightarrow> ('spec, 'st StatusBase_scheme) Object \<Rightarrow> string \<Rightarrow> bool \<Rightarrow> bool
    \<Rightarrow> ('w sys, error + ('spec, 'st StatusBase_scheme) Object) prog" where
  "setReady env R obj subject ex active =
     (if \<not> ex then setStatusCondition env R obj ConditionReady ConditionFalse
        (subject @ '' does not exist'') ConditionNotExist
      else if active then setStatusCondition env R obj ConditionReady ConditionTrue
        (subject @ '' is active'') ConditionActive
      else setStatusCondition env R obj ConditionReady ConditionFalse
        (subject @ '' is not active'') ConditionNotActive)"

definition probeCompleted :: "'w env \<Rightarrow> ('w, ('spec, 'st StatusBase_scheme) Object) resource
    \<Rightarrow> ('spec, 'st StatusBase_scheme) Object \<Rightarrow> (('spec, 'st StatusBase_scheme) Object \<Rightarrow> string) \<Rightarrow> 'w reconcile" where
  "probeCompleted env R obj hostName =
     attempt (setStatusCondition env R obj ConditionProbed ConditionTrue conditionProbeCompleted
       ConditionCompleted) fail (\<lambda>obj.
     attempt (SetLabelOn obj HostLabel (hostName obj) R) fail (\<lambda>_.
     ret (emptyResult\<lparr>RequeueAfter := dataRefreshInterval\<rparr>, None)))"

section \<open>Effects of the shared steps\<close>

lemma acts_report [acts_rules]:
  assumes "\<And>obj r. E (DidStatusUpdate (rs_obj R obj) r)" and "E OtherCall" and "acts E k"
  shows "acts E (report env R obj t st msg rs k)"
  unfolding report_def by (intro acts_rules assms)

lemma acts_probeFailed [acts_rules]:
  assumes "\<And>obj r. E (DidStatusUpdate (rs_obj R obj) r)" and "E OtherCall"
  shows "acts E (probeFailed env R obj err)"
  unfolding probeFailed_def by (intro acts_rules assms)

lemma acts_setReady [acts_rules]:
  assumes "\<And>obj r. E (DidStatusUpdate (rs_obj R obj) r)" and "E OtherCall"
  shows "acts E (setReady env R obj subject ex active)"
  unfolding setReady_def by (intro acts_rules assms)

lemma acts_probeCompleted [acts_rules]:
  assumes "\<And>obj r. E (DidStatusUpdate (rs_obj R obj) r)" and "\<And>obj r. E (DidUpdate (rs_obj R obj) r)"
    and "E OtherCall"
  shows "acts E (probeCompleted env R obj hostName)"
  unfolding probeCompleted_def by (intro acts_rules assms)

lemma acts_probeSession:
  assumes "\<And>e. mild e \<Longrightarrow> E e" and "\<And>a cl. acts E (k (observed a cl))"
  shows "acts E (probeSession env R obj host k)"
  unfolding probeSession_def Let_def
  by (intro acts_rules acts_withSession assms(2)) (simp_all add: assms(1))

lemma acts_probeObject:
  assumes "\<And>e. mild e \<Longrightarrow> E e" and "\<And>obj a cl. acts E (k obj (observed a cl))"
  shows "acts E (probeObject env R obj hostRef k)"
  unfolding probeObject_def
  by (intro acts_rules acts_probeSession assms) (simp_all add: assms(1))

section \<open>Pools\<close>

definition conditionPoolInUse :: string where "conditionPoolInUse = ''Pool in use by volume''"

definition Pool_setStatusCondition :: "'w env \<Rightarrow> Pool \<Rightarrow> string \<Rightarrow> ConditionStatus \<Rightarrow> string \<Rightarrow> string
    \<Rightarrow> ('w sys, error + Pool) prog" where
  "Pool_setStatusCondition env = setStatusCondition env (Pools env)"

definition Pool_finalize :: "'w env \<Rightarrow> Pool \<Rightarrow> 'w reconcile" where
  "Pool_finalize env pool =
     withRequirement env PoolLabel (om_Name (Meta pool)) fail (\<lambda>labelReq.
     attempt (apiList (Volumes env) (Some labelReq)) fail (\<lambda>volumes.
     attempt (apiList (CloudInits env) (Some labelReq)) fail (\<lambda>ci.
     if 0 < length volumes + length ci
     then attempt (Pool_setStatusCondition env pool ConditionDeletionPrevented ConditionTrue
            conditionPoolInUse ConditionInUse) fail (\<lambda>_. requeue)
     else removeFinalizer env (Pools env) pool)))"

definition Pool_probe :: "'w env \<Rightarrow> Pool \<Rightarrow> 'w sys Client \<Rightarrow> 'w reconcile" where
  "Pool_probe env pool hostClient =
     attempt (NewPoolProbe hostClient (Pool_ResourceName pool)) (probeFailed env (Pools env) pool) (\<lambda>probe.
     attempt (setReady env (Pools env) pool ''Pool'' (pp_exists probe) (pp_active probe)) fail (\<lambda>pool.
     let capacity = \<lparr>pc_Capacity = ToInt64 (e_cast env) (pp_capacity probe),
                     pc_Allocation = ToInt64 (e_cast env) (pp_allocation probe),
                     pc_Available = ToInt64 (e_cast env) (pp_available probe)\<rparr>;
         pool = pool\<lparr>Status := (Status pool)\<lparr>pst_Capacity := Some capacity\<rparr>\<rparr> in
     probeCompleted env (Pools env) pool (\<lambda>pool. ref_Name (pls_HostRef (Spec pool)))))"

definition Pool_Reconcile :: "'w env \<Rightarrow> NamespacedName \<Rightarrow> 'w reconcile" where
  "Pool_Reconcile env req =
     getRequested env (Pools env) req (\<lambda>pool.
     withFinalizer env (Pools env) pool (Pool_finalize env pool) (\<lambda>pool.
     probeObject env (Pools env) pool Pool_HostRef (Pool_probe env)))"

section \<open>Networks\<close>

definition Network_setStatusCondition :: "'w env \<Rightarrow> Network \<Rightarrow> string \<Rightarrow> ConditionStatus \<Rightarrow> string \<Rightarrow> string
    \<Rightarrow> ('w sys, error + Network) prog" where
  "Network_setStatusCondition env = setStatusCondition env (Networks env)"

definition Network_finalize :: "'w env \<Rightarrow> Network \<Rightarrow> 'w reconcile" where
  "Network_finalize env network =
     withRequirement env (InterfaceLabelPrefix @ ''/'' @ om_Name (Meta network)) '''' fail (\<lambda>req.
     attempt (apiList (Domains env) (Some req)) fail (\<lambda>domains.
     if 0 < length domains
     then attempt (Network_setStatusCondition env network ConditionDeletionPrevented ConditionTrue
            ''Network is currently in use by domain'' ConditionInUse) fail (\<lambda>_. requeue)
     else removeFinalizer env (Networks env) network))"

definition Network_probe :: "'w env \<Rightarrow> Network \<Rightarrow> 'w sys Client \<Rightarrow> 'w reconcile" where
  "Network_probe env network hostClient =
     attempt (NewNetworkProbe hostClient (Network_ResourceName network)) (probeFailed env (Networks env) network) (\<lambda>probe.
     attempt (setReady env (Networks env) network ''Network'' (np_exists probe) (np_active probe)) fail (\<lambda>network.
     probeCompleted env (Networks env) network (\<lambda>network. ref_Name (ns_HostRef (Spec network)))))"

definition Network_Reconcile :: "'w env \<Rightarrow> NamespacedName \<Rightarrow> 'w reconcile" where
  "Network_Reconcile env req =
     getRequested env (Networks env) req (\<lambda>network.
     withFinalizer env (Networks env) network (Network_finalize env network) (\<lambda>network.
     probeObject env (Networks env) network Network_HostRef (Network_probe env)))"

section \<open>PCI devices\<close>

definition PCIDevice_setStatusCondition :: "'w env \<Rightarrow> PCIDevice \<Rightarrow> string \<Rightarrow> ConditionStatus \<Rightarrow> string \<Rightarrow> string
    \<Rightarrow> ('w sys, error + PCIDevice) prog" where
  "PCIDevice_setStatusCondition env = setStatusCondition env (PCIDevices env)"

definition PCIDevice_finalize :: "'w env \<Rightarrow> PCIDevice \<Rightarrow> 'w reconcile" where
  "PCIDevice_finalize env pciDevice =
     withRequirement env (PCIPassthroughLabelPrefix @ ''/'' @ om_Name (Meta pciDevice)) '''' fail (\<lambda>req.
     attempt (apiList (Domains env) (Some req)) fail (\<lambda>domains.
     if 0 < length domains
     then attempt (PCIDevice_setStatusCondition env pciDevice ConditionDeletionPrevented ConditionTrue
            ''PCI device is currently in use by domain'' ConditionInUse) fail (\<lambda>_. requeue)
     else removeFinalizer env (PCIDevices env) pciDevice))"

definition PCIDevice_probe :: "'w env \<Rightarrow> PCIDevice \<Rightarrow> 'w sys Client \<Rightarrow> 'w reconcile" where
  "PCIDevice_probe env pciDevice hostClient =
     attempt (NewPCIDeviceProbe (e_xml env) hostClient (PCIDevice_ResourceName pciDevice))
       (probeFailed env (PCIDevices env) pciDevice) (\<lambda>probe.
     attempt (setReady env (PCIDevices env) pciDevice ''PCI device'' (pdp_exists probe) (pdp_active probe)) fail
       (\<lambda>pciDevice.
     let address = \<lparr>pa_Domain = ToInt32 (e_cast env) (pdp_domain probe),
                    pa_Bus = ToInt32 (e_cast env) (pdp_bus probe),
                    pa_Slot = ToInt32 (e_cast env) (pdp_slot probe),
                    pa_Function = ToInt32 (e_cast env) (pdp_function probe)\<rparr>;
         pciDevice = pciDevice\<lparr>Status := (Status pciDevice)\<lparr>pdst_Address := Some address\<rparr>\<rparr> in
     probeCompleted env (PCIDevices env) pciDevice (\<lambda>d. ref_Name (pds_HostRef (Spec d)))))"

definition PCIDevice_Reconcile :: "'w env \<Rightarrow> NamespacedName \<Rightarrow> 'w reconcile" where
  "PCIDevice_Reconcile env req =
     getRequested env (PCIDevices env) req (\<lambda>pciDevice.
     withFinalizer env (PCIDevices env) pciDevice (PCIDevice_finalize env pciDevice) (\<lambda>pciDevice.
     probeObject env (PCIDevices env) pciDevice PCIDevice_HostRef (PCIDevice_probe env)))"

section \<open>Objects that are kept while they are used\<close>

lemma acts_probed:
  assumes "\<And>e. mild e \<Longrightarrow> E e" and "\<And>obj r. E (DidUpdate obj r)"
  shows "acts E (Pool_probe env pool (observed a cl))" and "acts E (Network_probe env network (observed a cl))"
    and "acts E (PCIDevice_probe env pciDevice (observed a cl))"
  unfolding Pool_probe_def Network_probe_def PCIDevice_probe_def Let_def
  by (intro acts_rules acts_mono [OF acts_probes(2)] acts_mono [OF acts_probes(3)] acts_mono [OF acts_probes(4)];
      simp add: resource_defs assms)+

text \<open>What is asked before a pool, a network or a PCI device is released.\<close>

definition poolUsers :: "Pool \<Rightarrow> event list" where
  "poolUsers pool = map (\<lambda>k. DidList k (Some \<lparr>rq_Key = PoolLabel, rq_Value = om_Name (Meta pool)\<rparr>) (Returns (Inr [])))
     [VolumeKind, CloudInitKind]"

definition domainLabelled :: "string \<Rightarrow> ('spec, 'st) Object \<Rightarrow> event list" where
  "domainLabelled prefix obj =
     [DidList DomainKind (Some \<lparr>rq_Key = prefix @ ''/'' @ om_Name (Meta obj), rq_Value = []\<rparr>) (Returns (Inr []))]"

lemma traces_probe_finalizers:
  assumes ok: "apimachinery_ok (e_api env)"
  shows "traces (Pool_finalize env pool) s (\<lambda>r. orderly (userGuards pool (poolUsers pool)) [])"
    and "traces (Network_finalize env network) s
      (\<lambda>r. orderly (userGuards network (domainLabelled InterfaceLabelPrefix network)) [])"
    and "traces (PCIDevice_finalize env pciDevice) s
      (\<lambda>r. orderly (userGuards pciDevice (domainLabelled PCIPassthroughLabelPrefix pciDevice)) [])"
  unfolding Pool_finalize_def Network_finalize_def PCIDevice_finalize_def withRequirement_def apiList_def
    Pool_setStatusCondition_def Network_setStatusCondition_def PCIDevice_setStatusCondition_def
  by (intro traces_rules traces_inUse traces_unused [where users = "poolUsers pool"]
      traces_unused [where users = "domainLabelled InterfaceLabelPrefix network"]
      traces_unused [where users = "domainLabelled PCIPassthroughLabelPrefix pciDevice"];
      auto simp: orderly_userGuards_mild resource_defs poolUsers_def domainLabelled_def
        dest!: apimachinery_okD(6) [OF ok])+

lemma probe_Reconciles_kept:
  assumes ok: "apimachinery_ok (e_api env)"
  shows "Pool_Reconcile env req s = (r, s') \<Longrightarrow> keptWhileUsed PoolKind KPool poolUsers req (newEvents s s')"
    and "Network_Reconcile env req s = (r, s') \<Longrightarrow>
      keptWhileUsed NetworkKind KNetwork (domainLabelled InterfaceLabelPrefix) req (newEvents s s')"
    and "PCIDevice_Reconcile env req s = (r, s') \<Longrightarrow>
      keptWhileUsed PCIDeviceKind KPCIDevice (domainLabelled PCIPassthroughLabelPrefix) req (newEvents s s')"
proof -
  have "traces (Pool_Reconcile env req) s (\<lambda>r. keptWhileUsed (rs_kind (Pools env)) (rs_obj (Pools env)) poolUsers req)"
    "traces (Network_Reconcile env req) s (\<lambda>r. keptWhileUsed (rs_kind (Networks env)) (rs_obj (Networks env))
       (domainLabelled InterfaceLabelPrefix) req)"
    "traces (PCIDevice_Reconcile env req) s (\<lambda>r. keptWhileUsed (rs_kind (PCIDevices env)) (rs_obj (PCIDevices env))
       (domainLabelled PCIPassthroughLabelPrefix) req)"
    unfolding Pool_Reconcile_def Network_Reconcile_def PCIDevice_Reconcile_def
    by (intro traces_keptWhileUsed traces_used [OF ok] traces_probe_finalizers [OF ok] acts_probeObject acts_probed; simp)+
  from this [THEN traces_newEvents] show
    "Pool_Reconcile env req s = (r, s') \<Longrightarrow> keptWhileUsed PoolKind KPool poolUsers req (newEvents s s')"
    "Network_Reconcile env req s = (r, s') \<Longrightarrow>
      keptWhileUsed NetworkKind KNetwork (domainLabelled InterfaceLabelPrefix) req (newEvents s s')"
    "PCIDevice_Reconcile env req s = (r, s') \<Longrightarrow>
      keptWhileUsed PCIDeviceKind KPCIDevice (domainLabelled PCIPassthroughLabelPrefix) req (newEvents s s')"
    by (simp_all add: resource_defs)
qed


text \<open>Runs that let the example objects go.\<close>

definition examplePoolEnv :: "unit env" where
  "examplePoolEnv = (exampleEnv quietClient)\<lparr>e_Pools := answering (deleted examplePool) [], e_Volumes := absent\<rparr>"

lemma examplePoolEnv_ok: "apimachinery_ok (e_api examplePoolEnv)"
  by (simp add: examplePoolEnv_def exampleEnv_def apimachinery_ref_ok)

lemma examplePool_events:
  "newEvents (exampleState quietClient ()) (snd (Pool_Reconcile examplePoolEnv exampleRequest (exampleState quietClient ()))) =
     DidGet PoolKind exampleRequest (Returns (Inr (KPool (deleted examplePool)))) # poolUsers (deleted examplePool) @
     exampleDropped KPool (deleted examplePool) # []"
  by (simp add: example_defs run_defs examplePoolEnv_def Pool_Reconcile_def Pool_finalize_def poolUsers_def domainLabelled_def)

definition exampleNetworkEnv :: "unit env" where
  "exampleNetworkEnv = (exampleEnv quietClient)\<lparr>e_Networks := answering (deleted exampleNetwork) []\<rparr>"

lemma exampleNetworkEnv_ok: "apimachinery_ok (e_api exampleNetworkEnv)"
  by (simp add: exampleNetworkEnv_def exampleEnv_def apimachinery_ref_ok)

lemma exampleNetwork_events:
  "newEvents (exampleState quietClient ()) (snd (Network_Reconcile exampleNetworkEnv exampleRequest (exampleState quietClient ()))) =
     DidGet NetworkKind exampleRequest (Returns (Inr (KNetwork (deleted exampleNetwork)))) # domainLabelled InterfaceLabelPrefix (deleted exampleNetwork) @
     exampleDropped KNetwork (deleted exampleNetwork) # []"
  by (simp add: example_defs run_defs exampleNetworkEnv_def Network_Reconcile_def Network_finalize_def poolUsers_def domainLabelled_def)

definition examplePCIDeviceEnv :: "unit env" where
  "examplePCIDeviceEnv = (exampleEnv quietClient)\<lparr>e_PCIDevices := answering (deleted examplePCIDevice) []\<rparr>"

lemma examplePCIDeviceEnv_ok: "apimachinery_ok (e_api examplePCIDeviceEnv)"
  by (simp add: examplePCIDeviceEnv_def exampleEnv_def apimachinery_ref_ok)

lemma examplePCIDevice_events:
  "newEvents (exampleState quietClient ()) (snd (PCIDevice_Reconcile examplePCIDeviceEnv exampleRequest (exampleState quietClient ()))) =
     DidGet PCIDeviceKind exampleRequest (Returns (Inr (KPCIDevice (deleted examplePCIDevice)))) # domainLabelled PCIPassthroughLabelPrefix (deleted examplePCIDevice) @
     exampleDropped KPCIDevice (deleted examplePCIDevice) # []"
  by (simp add: example_defs run_defs examplePCIDeviceEnv_def PCIDevice_Reconcile_def PCIDevice_finalize_def poolUsers_def domainLabelled_def)

text \<open>A \<open>Pool\<close> that is being deleted keeps its finalizer as long as the API server lists a volume or a cloud-init
  image that is labelled as being in it.\<close>

theorem Pool_kept_while_used:
  assumes "apimachinery_ok (e_api env)" and "Pool_Reconcile env req s = (r, s')"
    and "newEvents s s' = DidGet PoolKind req (Returns (Inr (KPool pool))) # pre @ DidUpdate obj res # post"
    and "deleting pool"
  shows "set (poolUsers pool) \<subseteq> set pre"
  by (rule keptWhileUsedD [OF probe_Reconciles_kept(1) [OF assms(1,2)] _ assms(3,4)]) (simp add: inj_def)

theorem Pool_kept_while_used_witness:
  "\<exists>pre obj res post. newEvents (exampleState quietClient ()) (snd (Pool_Reconcile examplePoolEnv exampleRequest (exampleState quietClient ()))) =
       DidGet PoolKind exampleRequest (Returns (Inr (KPool (deleted examplePool)))) # pre @ DidUpdate obj res # post \<and>
     deleting (deleted examplePool) \<and> set (poolUsers (deleted examplePool)) \<subseteq> set pre"
proof (intro exI conjI)
  show ev: "newEvents (exampleState quietClient ()) (snd (Pool_Reconcile examplePoolEnv exampleRequest (exampleState quietClient ()))) =
      DidGet PoolKind exampleRequest (Returns (Inr (KPool (deleted examplePool)))) # poolUsers (deleted examplePool) @
      DidUpdate (KPool (unfinalized (deleted examplePool))) (Returns (Inr (KPool (unfinalized (deleted examplePool))))) # []"
    by (rule examplePool_events [unfolded exampleDropped_def])
  show del: "deleting (deleted examplePool)" by (simp add: deleting_def deleted_def)
  show "set (poolUsers (deleted examplePool)) \<subseteq> set (poolUsers (deleted examplePool))"
    by (rule Pool_kept_while_used [OF examplePoolEnv_ok surjective_pairing ev del])
qed

text \<open>A \<open>Network\<close> that is being deleted keeps its finalizer as long as the API server lists a domain with an
  interface labelled as being on it.\<close>

theorem Network_kept_while_used:
  assumes "apimachinery_ok (e_api env)" and "Network_Reconcile env req s = (r, s')"
    and "newEvents s s' = DidGet NetworkKind req (Returns (Inr (KNetwork network))) # pre @ DidUpdate obj res # post"
    and "deleting network"
  shows "set (domainLabelled InterfaceLabelPrefix network) \<subseteq> set pre"
  by (rule keptWhileUsedD [OF probe_Reconciles_kept(2) [OF assms(1,2)] _ assms(3,4)]) (simp add: inj_def)

theorem Network_kept_while_used_witness:
  "\<exists>pre obj res post. newEvents (exampleState quietClient ()) (snd (Network_Reconcile exampleNetworkEnv exampleRequest (exampleState quietClient ()))) =
       DidGet NetworkKind exampleRequest (Returns (Inr (KNetwork (deleted exampleNetwork)))) # pre @ DidUpdate obj res # post \<and>
     deleting (deleted exampleNetwork) \<and> set (domainLabelled InterfaceLabelPrefix (deleted exampleNetwork)) \<subseteq> set pre"
proof (intro exI conjI)
  show ev: "newEvents (exampleState quietClient ()) (snd (Network_Reconcile exampleNetworkEnv exampleRequest (exampleState quietClient ()))) =
      DidGet NetworkKind exampleRequest (Returns (Inr (KNetwork (deleted exampleNetwork)))) # domainLabelled InterfaceLabelPrefix (deleted exampleNetwork) @
      DidUpdate (KNetwork (unfinalized (deleted exampleNetwork))) (Returns (Inr (KNetwork (unfinalized (deleted exampleNetwork))))) # []"
    by (rule exampleNetwork_events [unfolded exampleDropped_def])
  show del: "deleting (deleted exampleNetwork)" by (simp add: deleting_def deleted_def)
  show "set (domainLabelled InterfaceLabelPrefix (deleted exampleNetwork)) \<subseteq> set (domainLabelled InterfaceLabelPrefix (deleted exampleNetwork))"
    by (rule Network_kept_while_used [OF exampleNetworkEnv_ok surjective_pairing ev del])
qed

text \<open>A \<open>PCIDevice\<close> that is being deleted keeps its finalizer as long as the API server lists a domain to
  which it is labelled as being passed through.\<close>

theorem PCIDevice_kept_while_used:
  assumes "apimachinery_ok (e_api env)" and "PCIDevice_Reconcile env req s = (r, s')"
    and "newEvents s s' = DidGet PCIDeviceKind req (Returns (Inr (KPCIDevice pciDevice))) # pre @ DidUpdate obj res # post"
    and "deleting pciDevice"
  shows "set (domainLabelled PCIPassthroughLabelPrefix pciDevice) \<subseteq> set pre"
  by (rule keptWhileUsedD [OF probe_Reconciles_kept(3) [OF assms(1,2)] _ assms(3,4)]) (simp add: inj_def)

theorem PCIDevice_kept_while_used_witness:
  "\<exists>pre obj res post. newEvents (exampleState quietClient ()) (snd (PCIDevice_Reconcile examplePCIDeviceEnv exampleRequest (exampleState quietClient ()))) =
       DidGet PCIDeviceKind exampleRequest (Returns (Inr (KPCIDevice (deleted examplePCIDevice)))) # pre @ DidUpdate obj res # post \<and>
     deleting (deleted examplePCIDevice) \<and> set (domainLabelled PCIPassthroughLabelPrefix (deleted examplePCIDevice)) \<subseteq> set pre"
proof (intro exI conjI)
  show ev: "newEvents (exampleState quietClient ()) (snd (PCIDevice_Reconcile examplePCIDeviceEnv exampleRequest (exampleState quietClient ()))) =
      DidGet PCIDeviceKind exampleRequest (Returns (Inr (KPCIDevice (deleted examplePCIDevice)))) # domainLabelled PCIPassthroughLabelPrefix (deleted examplePCIDevice) @
      DidUpdate (KPCIDevice (unfinalized (deleted examplePCIDevice))) (Returns (Inr (KPCIDevice (unfinalized (deleted examplePCIDevice))))) # []"
    by (rule examplePCIDevice_events [unfolded exampleDropped_def])
  show del: "deleting (deleted examplePCIDevice)" by (simp add: deleting_def deleted_def)
  show "set (domainLabelled PCIPassthroughLabelPrefix (deleted examplePCIDevice)) \<subseteq> set (domainLabelled PCIPassthroughLabelPrefix (deleted examplePCIDevice))"
    by (rule PCIDevice_kept_while_used [OF examplePCIDeviceEnv_ok surjective_pairing ev del])
qed

end
