(* ===== verification/VolumeController.thy ===== *)
theory VolumeController
  imports ProbeControllers Example
begin

text \<open>
  The controller of \<open>Volume\<close> objects (\<^verbatim>\<open>internal/controller/volume.go\<close>): it creates a volume in its pool,
  from a source, a backing store or empty, grows it, and deletes it when the object is deleted and no
  volume and no domain uses it.
\<close>

definition ErrVolumeInUse :: string where "ErrVolumeInUse = ''volume is in use by another resource''"
definition ErrBackingStoreNotCreated :: string where
  "ErrBackingStoreNotCreated = ''backing store volume has not yet been created''"
definition ErrBackingStoreNotSameHost :: string where
  "ErrBackingStoreNotSameHost = ''backing store does not exist on the same host''"
definition ErrCannotResizeBackingStore :: string where
  "ErrCannotResizeBackingStore = ''can not resize volume that is used as a backing store''"
definition ErrVolumeMultipleDomains :: string where
  "ErrVolumeMultipleDomains = ''volume linked to multiple domains''"

definition Volume_setStatusCondition :: "'w env \<Rightarrow> Volume \<Rightarrow> string \<Rightarrow> ConditionStatus \<Rightarrow> string \<Rightarrow> string
    \<Rightarrow> ('w sys, error + Volume) prog" where
  "Volume_setStatusCondition env = setStatusCondition env (Volumes env)"

section \<open>Requirements of a volume\<close>

text \<open>
  The pool and its host; \<open>PoolRef\<close> and \<open>HostRef\<close> are those of the object and of the pool. The controller of
  cloud-init images has the same function.
\<close>

definition resolveRefs :: "'w env \<Rightarrow> NamespacedName \<Rightarrow> ('w sys, error + Pool \<times> Host) prog" where
  "resolveRefs env poolRef =
     attempt (apiGet (Pools env) poolRef) (\<lambda>err. ret (Inl err)) (\<lambda>pool.
     attempt (apiGet (Hosts env) (Pool_HostRef pool)) (\<lambda>err. ret (Inl err)) (\<lambda>host.
     ret (Inr (pool, host))))"

text \<open>A requirement that is not met is reported unless the object is ready already.\<close>

definition unmet :: "'w env \<Rightarrow> ('w, ('spec, 'st StatusBase_scheme) Object) resource
    \<Rightarrow> ('spec, 'st StatusBase_scheme) Object \<Rightarrow> string \<Rightarrow> 'w reconcile \<Rightarrow> 'w reconcile" where
  "unmet env R obj msg result =
     (if \<not> isTrue env obj ConditionReady
      then report env R obj ConditionReady ConditionFalse msg ConditionUnmetRequirements result
      else result)"

definition withHost :: "'w env \<Rightarrow> ('w, ('spec, 'st StatusBase_scheme) Object) resource
    \<Rightarrow> ('spec, 'st StatusBase_scheme) Object \<Rightarrow> Host \<Rightarrow> ('w sys Client \<Rightarrow> 'w reconcile) \<Rightarrow> 'w reconcile" where
  "withHost env R obj host k =
     reading (\<lambda>s.
     case HostLookup s (om_UID (Meta host)) of
       None \<Rightarrow> unmet env R obj conditionHostClientNotReady requeue
     | Some hostEntry \<Rightarrow>
         withSession env hostEntry (\<lambda>_. unmet env R obj conditionHostClientNotReady requeue) k)"

text \<open>Everything before the volume itself is looked at.\<close>

definition withPool :: "'w env \<Rightarrow> ('w, ('spec, 'st StatusBase_scheme) Object) resource
    \<Rightarrow> ('spec, 'st StatusBase_scheme) Object \<Rightarrow> NamespacedName
    \<Rightarrow> (Pool \<Rightarrow> 'w sys Client \<Rightarrow> 'w reconcile) \<Rightarrow> 'w reconcile" where
  "withPool env R obj poolRef k =
     attempt (resolveRefs env poolRef) (\<lambda>err. unmet env R obj (ErrorText err) (fail err)) (\<lambda>(pool, host).
     if \<not> isTrue env pool ConditionReady then unmet env R obj conditionPoolNotReady requeue
     else withHost env R obj host (k pool))"

lemma acts_unmet [acts_rules]:
  assumes "\<And>obj r. E (DidStatusUpdate (rs_obj R obj) r)" and "E OtherCall" and "acts E k"
  shows "acts E (unmet env R obj msg k)"
  unfolding unmet_def by (intro acts_rules assms)

lemma acts_resolveRefs: "acts mild (resolveRefs env nn)"
  unfolding resolveRefs_def by (intro acts_rules) simp_all

lemma acts_withHost:
  assumes "\<And>e. mild e \<Longrightarrow> E e" and "\<And>a cl. acts E (k (observed a cl))"
  shows "acts E (withHost env R obj host k)"
  unfolding withHost_def
  by (intro acts_rules acts_withSession assms(2)) (simp_all add: assms(1))

lemma acts_withPool:
  assumes "\<And>e. mild e \<Longrightarrow> E e" and "\<And>pool a cl. acts E (k pool (observed a cl))"
  shows "acts E (withPool env R obj poolRef k)"
  unfolding withPool_def
  by (intro acts_rules acts_withHost acts_mono [OF acts_resolveRefs] assms) (simp_all add: assms(1))

text \<open>
  Whatever comes before the volume itself is looked at is mild; what follows works on the client of a
  connection.
\<close>

lemma traces_withHost:
  assumes early: "\<And>r tr. list_all mild tr \<Longrightarrow> P r tr"
    and k: "\<And>a cl s' tr. list_all mild tr \<Longrightarrow> traces (k (observed a cl)) s' (\<lambda>r tr'. P r (tr @ tr'))"
  shows "traces (withHost env R obj host k) s P"
proof -
  have q: "list_all mild tr" if "list_all (\<lambda>e. e = OtherCall \<or> (\<exists>a. e = OnHost a HostQuery)) tr" for tr
    using that by (auto simp: list_all_iff)
  have u: "traces (unmet env R obj msg requeue) s' (\<lambda>r tr'. P r (tr @ tr'))" if "list_all mild tr" for msg s' tr
    by (rule acts_traces [where E = mild]) (use that in \<open>auto intro!: acts_rules early\<close>)
  show ?thesis
    unfolding withHost_def
    by (intro traces_rules traces_withSession) (use u [of "[]"] in \<open>auto intro!: u k early q\<close>)
qed

lemma traces_withPool:
  assumes early: "\<And>r tr. list_all mild tr \<Longrightarrow> P r tr"
    and k: "\<And>pool a cl s' tr. list_all mild tr \<Longrightarrow> traces (k pool (observed a cl)) s' (\<lambda>r tr'. P r (tr @ tr'))"
  shows "traces (withPool env R obj poolRef k) s P"
proof -
  have u: "traces (unmet env R obj msg m) s' (\<lambda>r tr'. P r (tr @ tr'))"
    if "list_all mild tr" "acts mild m" for msg s' tr m
    by (rule acts_traces [where E = mild]) (use that in \<open>auto intro!: acts_rules early\<close>)
  have h: "traces (withHost env R obj host (k pool)) s' (\<lambda>r tr'. P r (tr @ tr'))" if "list_all mild tr" for pool host s' tr
  proof (rule traces_withHost)
    show "P r (tr @ tr')" if "list_all mild tr'" for r tr'
      using that \<open>list_all mild tr\<close> by (intro early) simp
    show "traces (k pool (observed a cl)) s'' (\<lambda>r tr''. P r (tr @ tr' @ tr''))" if "list_all mild tr'" for a cl s'' tr'
      using k [of "tr @ tr'" pool a cl s''] that \<open>list_all mild tr\<close> by simp
  qed
  show ?thesis
    unfolding withPool_def
    by (rule traces_attempt_of [where M = "\<lambda>_ tr. list_all mild tr"])
      (auto intro!: acts_traces [OF acts_resolveRefs] u h early acts_rules split: prod.split)
qed

section \<open>Deletion\<close>

definition Volume_delete :: "'w env \<Rightarrow> 'w sys Client \<Rightarrow> Volume \<Rightarrow> VolumeAction \<Rightarrow> ('w sys, error option) prog" where
  "Volume_delete env c volume action =
     withRequirement env VolumeLabel (om_Name (Meta volume)) (\<lambda>err. ret (Some err)) (\<lambda>labelReq.
     attempt (apiList (Volumes env) (Some labelReq)) (\<lambda>err. ret (Some err)) (\<lambda>volumes.
     withRequirement env (DiskLabelPrefix @ ''/'' @ om_Name (Meta volume)) '''' (\<lambda>err. ret (Some err)) (\<lambda>req.
     attempt (apiList (Domains env) (Some req)) (\<lambda>err. ret (Some err)) (\<lambda>domains.
     if 0 < length volumes + length domains
     then attempt (Volume_setStatusCondition env volume ConditionDeletionPrevented ConditionTrue ErrVolumeInUse
            ConditionInUse) (\<lambda>err. ret (Some err)) (\<lambda>_. ret (Some (PlainError ErrVolumeInUse)))
     else VolumeDelete c action))))"

definition Volume_finalize :: "'w env \<Rightarrow> 'w sys Client \<Rightarrow> VolumeAction \<Rightarrow> Volume \<Rightarrow> 'w reconcile" where
  "Volume_finalize env c action volume =
     (if VolumeState action
      then guarded (Volume_delete env c volume action)
             (\<lambda>err. if ErrorText err = ErrVolumeInUse then requeue else fail err)
             (removeFinalizer env (Volumes env) volume)
      else removeFinalizer env (Volumes env) volume)"

section \<open>Growing a volume\<close>

definition isNotBackingStore :: "'w env \<Rightarrow> string \<Rightarrow> ('w sys, error + bool) prog" where
  "isNotBackingStore env name =
     withRequirement env VolumeLabel name (\<lambda>err. ret (Inl err)) (\<lambda>labelReq.
     attempt (apiList (Volumes env) (Some labelReq)) (\<lambda>err. ret (Inl err)) (\<lambda>volumes.
     if 0 < length volumes then ret (Inr False) else ret (Inr True)))"

text \<open>The domain that uses the volume, if there is one.\<close>

definition usedByDomain :: "'w env \<Rightarrow> string \<Rightarrow> ('w sys, error + string option) prog" where
  "usedByDomain env name =
     withRequirement env (DiskLabelPrefix @ ''/'' @ name) '''' (\<lambda>err. ret (Inl err)) (\<lambda>req.
     attempt (apiList (Domains env) (Some req)) (\<lambda>err. ret (Inl err)) (\<lambda>domains.
     if 1 < length domains then ret (Inl (PlainError ErrVolumeMultipleDomains))
     else if length domains = 0 then ret (Inr None)
     else ret (Inr (Some (Domain_ResourceName (domains ! 0))))))"

text \<open>\<open>return ctrl.Result{}, err\<close> for a call that returns only an error.\<close>

definition endWith :: "('w sys, error option) prog \<Rightarrow> 'w reconcile" where
  "endWith m = andThen m (\<lambda>err. ret (emptyResult, err))"

definition Volume_resize :: "'w env \<Rightarrow> 'w sys Client \<Rightarrow> VolumeAction \<Rightarrow> Volume \<Rightarrow> 'w reconcile" where
  "Volume_resize env c action volume =
     (case vsp_Size (Spec volume) of
        None \<Rightarrow> stop
      | Some sz \<Rightarrow>
          let u = vs_Unit sz; v = ToUint64 (e_cast env) (vs_Value sz) in
          attempt (ResizeRequired action u v) fail (\<lambda>required.
          if \<not> required then stop
          else attempt (isNotBackingStore env (om_Name (Meta volume))) fail (\<lambda>free.
          if \<not> free then fail (PlainError ErrCannotResizeBackingStore)
          else attempt (usedByDomain env (om_Name (Meta volume))) fail (\<lambda>used.
          case used of
            Some d \<Rightarrow> endWith (LiveResize (e_xml env) c action d u v)
          | None \<Rightarrow> endWith (VolumeResize c action u v)))))"

text \<open>A volume that exists on the host.\<close>

definition Volume_created :: "Volume \<Rightarrow> Pool \<Rightarrow> Volume" where
  "Volume_created volume pool =
     volume\<lparr>Status := (Status volume)\<lparr>vst_Pool := Pool_ResourceName pool,
                                      vst_Host := ref_Name (pls_HostRef (Spec pool))\<rparr>\<rparr>"

definition Volume_existing :: "'w env \<Rightarrow> 'w sys Client \<Rightarrow> Pool \<Rightarrow> VolumeAction \<Rightarrow> Volume \<Rightarrow> 'w reconcile" where
  "Volume_existing env c pool action volume =
     (if \<not> isTrue env volume ConditionReady
      then attempt (Volume_setStatusCondition env (Volume_created volume pool) ConditionReady ConditionTrue
             conditionCreationSucceeded ConditionCreated) fail (Volume_resize env c action)
      else Volume_resize env c action volume)"

section \<open>Creation\<close>

text \<open>Reporting an error before returning it.\<close>

definition failing :: "'w env \<Rightarrow> Volume \<Rightarrow> string \<Rightarrow> error \<Rightarrow> ('w sys, error option) prog" where
  "failing env volume reason err =
     attempt (Volume_setStatusCondition env volume ConditionReady ConditionFalse (ErrorText err) reason)
       (\<lambda>err. ret (Some err)) (\<lambda>_. ret (Some err))"

text \<open>The case of a backing store: the volume with its label, and the action with its definition.\<close>

definition Volume_backed :: "'w env \<Rightarrow> 'w sys Client \<Rightarrow> Pool \<Rightarrow> VolumeAction \<Rightarrow> Volume
    \<Rightarrow> (VolumeAction \<Rightarrow> Volume \<Rightarrow> ('w sys, error option) prog) \<Rightarrow> ('w sys, error option) prog" where
  "Volume_backed env c pool action volume k =
     attempt (apiGet (Volumes env) (Volume_BackingStoreRef volume)) (failing env volume ConditionUnmetRequirements)
       (\<lambda>backingStore.
     if \<not> isTrue env backingStore ConditionReady
     then failing env volume ConditionUnmetRequirements (PlainError ErrBackingStoreNotCreated)
     else if vst_Host (Status backingStore) \<noteq> ref_Name (pls_HostRef (Spec pool))
     then failing env volume ConditionUnmetRequirements (PlainError ErrBackingStoreNotSameHost)
     else andThen (VolumeBackingStore (e_xml env) c action (Volume_ResourceName backingStore)
            (vst_Pool (Status backingStore))) (\<lambda>(r, action).
       case r of
         Some err \<Rightarrow> failing env volume ConditionError err
       | None \<Rightarrow> attempt (SetLabelOn volume VolumeLabel (om_Name (Meta backingStore)) (Volumes env))
                  (\<lambda>err. ret (Some err)) (k action)))"

text \<open>The part of \<open>create\<close> after the definition is complete.\<close>

definition Volume_commit :: "'w env \<Rightarrow> 'w sys Client \<Rightarrow> Pool \<Rightarrow> bool \<Rightarrow> VolumeAction \<Rightarrow> Volume
    \<Rightarrow> ('w sys, error option) prog" where
  "Volume_commit env c pool hasSource action volume =
     attempt (SetLabelOn volume PoolLabel (ref_Name (vsp_PoolRef (Spec volume))) (Volumes env))
       (\<lambda>err. ret (Some err)) (\<lambda>volume.
     andThen (VolumeCreate (e_xml env) c action) (\<lambda>(r, action).
     case r of
       Some err \<Rightarrow> failing env volume ConditionError err
     | None \<Rightarrow>
         andThen (if hasSource then CleanupSource (liftOS (e_OS env)) action else ret None) (\<lambda>_.
         attempt (Volume_setStatusCondition env (Volume_created volume pool) ConditionReady ConditionTrue
           conditionCreationSucceeded ConditionCreated) (\<lambda>err. ret (Some err)) (\<lambda>_. ret None))))"

definition Volume_create :: "'w env \<Rightarrow> 'w sys Client \<Rightarrow> Pool \<Rightarrow> VolumeAction \<Rightarrow> Volume
    \<Rightarrow> ('w sys, error option) prog" where
  "Volume_create env c pool action volume =
     (let action = (case vsp_Size (Spec volume) of
                      None \<Rightarrow> action
                    | Some sz \<Rightarrow> VolumeSize_set action (vs_Unit sz) (ToUint64 (e_cast env) (vs_Value sz)));
          action = VolumeFormat action (vsp_Format (Spec volume)) in
      case vsp_Source (Spec volume) of
        Some source \<Rightarrow>
          andThen (RemoteSource (e_cast env) (liftOS (e_OS env)) action (vsrc_URL source) (vsrc_Checksum source))
            (\<lambda>(r, action). case r of
               Some err \<Rightarrow> failing env volume ConditionError err
             | None \<Rightarrow> Volume_commit env c pool True action volume)
      | None \<Rightarrow>
          if vsp_BackingStoreRef (Spec volume) \<noteq> None
          then Volume_backed env c pool action volume (Volume_commit env c pool False)
          else Volume_commit env c pool False action volume)"

section \<open>Reconciliation\<close>

definition Volume_manage :: "'w env \<Rightarrow> Pool \<Rightarrow> 'w sys Client \<Rightarrow> VolumeAction \<Rightarrow> Volume \<Rightarrow> 'w reconcile" where
  "Volume_manage env pool c action volume =
     (if VolumeState action then Volume_existing env c pool action volume
      else guarded (Volume_create env c pool action volume)
             (\<lambda>err. if ErrorText err = ErrBackingStoreNotCreated then requeue else fail err) stop)"

definition Volume_withAction :: "'w env \<Rightarrow> Volume \<Rightarrow> Pool \<Rightarrow> 'w sys Client \<Rightarrow> 'w reconcile" where
  "Volume_withAction env volume pool c =
     attempt (NewVolumeAction (e_xml env) c (Volume_ResourceName volume) (Pool_ResourceName pool)) fail (\<lambda>action.
     withFinalizer env (Volumes env) volume (Volume_finalize env c action volume)
       (Volume_manage env pool c action))"

definition Volume_Reconcile :: "'w env \<Rightarrow> NamespacedName \<Rightarrow> 'w reconcile" where
  "Volume_Reconcile env req =
     getRequested env (Volumes env) req (\<lambda>volume.
     withPool env (Volumes env) volume (Volume_PoolRef volume) (Volume_withAction env volume))"

section \<open>What a reconciliation may do\<close>

text \<open>Deletion events of volumes.\<close>

fun isVolDelete :: "event \<Rightarrow> bool" where
  "isVolDelete (OnHost a (DidStorageVolDelete v r)) = True"
| "isVolDelete _ = False"

lemma mild_not_delete: "mild e \<Longrightarrow> \<not> isVolDelete e"
  by (cases e rule: isVolDelete.cases) auto

lemma acts_failing [acts_rules]:
  assumes "\<And>obj r. E (DidStatusUpdate (KVolume obj) r)" and "E OtherCall"
  shows "acts E (failing env volume reason err)"
  unfolding failing_def Volume_setStatusCondition_def by (intro acts_rules assms) (simp add: Volumes_def assms)

lemma acts_isNotBackingStore: "acts mild (isNotBackingStore env name)"
  unfolding isNotBackingStore_def by (intro acts_rules) simp_all

lemma acts_usedByDomain: "acts mild (usedByDomain env name)"
  unfolding usedByDomain_def by (intro acts_rules) simp_all

lemma acts_endWith [acts_rules]: "acts E m \<Longrightarrow> acts E (endWith m)"
  unfolding endWith_def by (intro acts_rules)

lemma acts_Volume_resize:
  assumes "\<And>e. mild e \<Longrightarrow> E e" and "\<And>b v r. E (OnHost a (DidStorageVolResize v b r))"
    and "\<And>b d disk r. E (OnHost a (DidDomainBlockResize d disk b r))"
  shows "acts E (Volume_resize env (observed a cl) action volume)"
  unfolding Volume_resize_def Let_def
  by (intro acts_rules acts_ResizeRequired acts_VolumeResize acts_LiveResize
      acts_mono [OF acts_isNotBackingStore] acts_mono [OF acts_usedByDomain]) (simp_all add: assms)

lemma acts_Volume_commit:
  assumes "\<And>e. mild e \<Longrightarrow> E e" and "\<And>obj r. E (DidUpdate (KVolume obj) r)"
    and "\<And>p xml r. E (OnHost a (DidStorageVolCreateXML p xml r))"
    and "\<And>v bs r. E (OnHost a (DidStorageVolUpload v bs r))"
  shows "acts E (Volume_commit env (observed a cl) pool hasSource action volume)"
  unfolding Volume_commit_def Volume_setStatusCondition_def
  by (intro acts_rules acts_VolumeCreate acts_mono [OF acts_CleanupSource]) (simp_all add: Volumes_def assms)

lemma acts_Volume_create:
  assumes "\<And>e. mild e \<Longrightarrow> E e" and "\<And>obj r. E (DidUpdate (KVolume obj) r)"
    and "\<And>p xml r. E (OnHost a (DidStorageVolCreateXML p xml r))"
    and "\<And>v bs r. E (OnHost a (DidStorageVolUpload v bs r))"
  shows "acts E (Volume_create env (observed a cl) pool action volume)"
  unfolding Volume_create_def Volume_backed_def Let_def
  by (intro acts_rules acts_Volume_commit acts_mono [OF acts_RemoteSource] acts_mono [OF acts_VolumeBackingStore])
    (simp_all add: Volumes_def assms)

lemma acts_Volume_manage:
  assumes "\<And>e. \<not> isVolDelete e \<Longrightarrow> E e"
  shows "acts E (Volume_manage env pool (observed a cl) action volume)"
  unfolding Volume_manage_def Volume_existing_def Volume_setStatusCondition_def
  by (intro acts_rules acts_Volume_resize acts_Volume_create)
    (simp_all add: Volumes_def assms mild_not_delete)

section \<open>Deletion is safe\<close>

text \<open>
  What must have come before an event of a reconciliation of an object that owns the volume \<open>name\<close>: before
  the volume is deleted, the lists \<open>users\<close> with no object in them, the object is being deleted and the
  handle is the one its name was looked up to; before an object that is being deleted is updated, that
  the volume is gone. The controller of cloud-init images is the other owner of volumes.
\<close>

fun volumeGone :: "string \<Rightarrow> event \<Rightarrow> bool" where
  "volumeGone name (OnHost a (LookedUpVolume p n (Returns (Inl err)))) \<longleftrightarrow> n = name \<and> isCode ErrNoStorageVol err"
| "volumeGone name (OnHost a (DidStorageVolDelete v (Returns None))) \<longleftrightarrow> True"
| "volumeGone name e \<longleftrightarrow> False"

fun ownerGuards :: "('spec, 'st) Object \<Rightarrow> string \<Rightarrow> event list \<Rightarrow> event \<Rightarrow> (event \<Rightarrow> bool) list" where
  "ownerGuards obj name users (OnHost a (DidStorageVolDelete v r)) =
     [\<lambda>e. deleting obj \<and> Finalizer \<in> set (om_Finalizers (Meta obj)) \<and>
        (\<exists>p. e = OnHost a (LookedUpVolume p name (Returns (Inr v))))] @ map (=) users"
| "ownerGuards obj name users (DidUpdate obj' r) = (if deleting obj then [volumeGone name] else [])"
| "ownerGuards obj name users e = []"

lemma ownerGuards_mild: "mild e \<Longrightarrow> ownerGuards obj name users e = []"
  by (cases e rule: mild.cases) auto

lemma ownerGuards_kept: "\<not> deleting obj \<Longrightarrow> \<not> isVolDelete e \<Longrightarrow> ownerGuards obj name users e = []"
  by (cases "(obj, name, users, e)" rule: ownerGuards.cases) auto

lemma orderly_mild: "list_all mild tr \<Longrightarrow> orderly (ownerGuards obj name users) before tr"
  by (intro orderly_quiet) (auto simp: list_all_iff ownerGuards_mild)

lemma lookedUp_gone: "lookedUp a name action e \<Longrightarrow> \<not> VolumeState action \<Longrightarrow> volumeGone name e"
  by (auto simp: lookedUp_def VolumeState_def)

text \<open>Dropping the finalizer once the volume is gone.\<close>

lemma traces_dropFinalizer:
  assumes "orderly (ownerGuards obj name users) before tr" and gone: "\<exists>e\<in>set (before @ tr). volumeGone name e"
  shows "traces (removeFinalizer env R obj) s (\<lambda>r tr'. orderly (ownerGuards obj name users) before (tr @ tr'))"
proof (rule acts_traces [where E = "\<lambda>e. \<exists>obj r. e = DidUpdate obj r"])
  show "orderly (ownerGuards obj name users) before (tr @ tr')" if "list_all (\<lambda>e. \<exists>obj r. e = DidUpdate obj r) tr'" for tr'
  proof -
    have "orderly (ownerGuards obj name users) (before @ tr) tr'"
      using that gone by (intro orderly_licensed) (fastforce simp: list_all_iff split: if_splits)
    with assms(1) show ?thesis by (simp add: orderly_append)
  qed
qed (intro acts_rules; blast)

text \<open>The call that deletes, after all its guards.\<close>

lemma traces_VolumeDelete:
  assumes "deleting obj" "Finalizer \<in> set (om_Finalizers (Meta obj))" "set users \<subseteq> set before"
    and seen: "\<exists>e\<in>set before. lookedUp a name action e"
  shows "traces (VolumeDelete (observed a cl) action) s (\<lambda>r tr. orderly (ownerGuards obj name users) before tr \<and>
    (r = Returns None \<longrightarrow> (\<exists>e\<in>set tr. volumeGone name e)))"
  unfolding VolumeDelete_def observed_select
  by (intro traces_rules) (use assms in \<open>auto simp: lookedUp_def list_all_iff\<close>)

text \<open>An object that is not being deleted is managed without deleting anything.\<close>

lemma traces_owned:
  fixes s :: "'w sys"
  assumes ok: "apimachinery_ok (e_api env)"
    and fin: "\<And>action before s. deleting obj \<Longrightarrow> Finalizer \<in> set (om_Finalizers (Meta obj)) \<Longrightarrow>
      \<exists>e\<in>set before. lookedUp a name action e \<Longrightarrow> traces (fin action) s (\<lambda>r. orderly (ownerGuards obj name users) before)"
    and rest: "\<And>action obj'. acts (\<lambda>e. \<not> isVolDelete e) (rest action obj')"
  shows "traces (attempt (NewVolumeAction x (observed a cl) name pool) fail
      (\<lambda>action. withFinalizer env R obj (fin action) (rest action))) s (\<lambda>r. orderly (ownerGuards obj name users) [])"
proof (rule traces_attempt_of [OF traces_NewVolumeAction])
  have manage: "traces (attempt (addFinalizer env R obj) fail (rest action)) s'
      (\<lambda>r. orderly (ownerGuards obj name users) b)" if "\<not> deleting obj" for s' b action
  proof (rule acts_traces [where E = "\<lambda>e. \<not> isVolDelete e"])
    show "orderly (ownerGuards obj name users) b tr'" if "list_all (\<lambda>e. \<not> isVolDelete e) tr'" for tr'
      using that \<open>\<not> deleting obj\<close> by (intro orderly_quiet) (simp add: list_all_iff ownerGuards_kept)
  qed (intro acts_rules rest; simp)
  fix action tr and s' :: "'w sys"
  assume t: "list_all mild tr \<and> (\<forall>action'. Returns (Inr action) = Returns (Inr action') \<longrightarrow>
      (\<exists>e\<in>set tr. lookedUp a name action' e))"
  then have "traces (withFinalizer env R obj (fin action) (rest action)) s' (\<lambda>r. orderly (ownerGuards obj name users) tr)"
    unfolding withFinalizer_def
    by (intro traces_if manage fin traces_ret) (auto simp: deleting_def apimachinery_okD(2) [OF ok])
  then show "traces (withFinalizer env R obj (fin action) (rest action)) s'
      (\<lambda>r tr'. orderly (ownerGuards obj name users) [] (tr @ tr'))"
    by (rule traces_mono) (use t in \<open>simp add: orderly_append orderly_mild\<close>)
qed (auto intro!: traces_rules orderly_mild)

lemma traces_withPool_orderly:
  assumes "\<And>pool a cl s. traces (k pool (observed a cl)) s (\<lambda>r. orderly (ownerGuards obj name users) [])"
  shows "traces (withPool env R obj' nn k) s (\<lambda>r. orderly (ownerGuards obj name users) [])"
proof (rule traces_withPool)
  show "traces (k pool (observed a cl)) s' (\<lambda>r tr'. orderly (ownerGuards obj name users) [] (tr @ tr'))"
    if "list_all mild tr" for pool a cl s' tr
    by (rule traces_mono [OF assms]) (simp add: orderly_append orderly_mild that, erule orderly_mono, simp)
qed (rule orderly_mild)

section \<open>Deletion of a volume\<close>

definition noUsers :: "Volume \<Rightarrow> event list" where
  "noUsers volume =
     [DidList VolumeKind (Some \<lparr>rq_Key = VolumeLabel, rq_Value = om_Name (Meta volume)\<rparr>) (Returns (Inr [])),
      DidList DomainKind (Some \<lparr>rq_Key = DiskLabelPrefix @ ''/'' @ om_Name (Meta volume), rq_Value = ''''\<rparr>)
        (Returns (Inr []))]"

abbreviation volumeGuards :: "Volume \<Rightarrow> event \<Rightarrow> (event \<Rightarrow> bool) list" where
  "volumeGuards volume \<equiv> ownerGuards volume (Volume_ResourceName volume) (noUsers volume)"

lemma traces_Volume_delete:
  assumes ok: "apimachinery_ok (e_api env)" and del: "deleting volume" "Finalizer \<in> set (om_Finalizers (Meta volume))"
    and seen: "\<exists>e\<in>set before. lookedUp a (Volume_ResourceName volume) action e"
  shows "traces (Volume_delete env (observed a cl) volume action) s (\<lambda>r tr.
    orderly (volumeGuards volume) before tr \<and>
    (r = Returns None \<longrightarrow> (\<exists>e\<in>set tr. volumeGone (Volume_ResourceName volume) e)))"
proof -
  have inUse: "traces (attempt (Volume_setStatusCondition env volume t st msg rs) (\<lambda>err. ret (Some err))
      (\<lambda>_. ret (Some (PlainError msg)))) s' P"
    if "\<And>r tr. list_all mild tr \<Longrightarrow> r \<noteq> Returns None \<Longrightarrow> P r tr" for t st msg rs s' P
    by (rule traces_attempt_of [where M = "\<lambda>_ tr. list_all mild tr"])
      (auto simp: Volume_setStatusCondition_def Volumes_def intro!: acts_traces [where E = mild] acts_rules traces_ret that)
  have del: "traces (VolumeDelete (observed a cl) action) s' (\<lambda>r tr.
      orderly (volumeGuards volume) before (e1 # e2 # tr) \<and>
      (r = Returns None \<longrightarrow> (\<exists>e\<in>set (e1 # e2 # tr). volumeGone (Volume_ResourceName volume) e)))"
    if "set (noUsers volume) \<subseteq> {e1, e2}" "mild e1" "mild e2" for e1 e2 s'
    by (rule traces_mono [OF traces_VolumeDelete [OF del, of "noUsers volume" "before @ [e1, e2]" a _ action]])
      (use that seen in \<open>auto simp: ownerGuards_mild\<close>)
  show ?thesis
    unfolding Volume_delete_def withRequirement_def apiList_def
    by (intro traces_rules inUse del)
      (auto simp: orderly_mild Volumes_def Domains_def noUsers_def dest!: apimachinery_okD(6) [OF ok])
qed

lemma traces_Volume_finalize:
  assumes ok: "apimachinery_ok (e_api env)" and del: "deleting volume" "Finalizer \<in> set (om_Finalizers (Meta volume))"
    and seen: "\<exists>e\<in>set before. lookedUp a (Volume_ResourceName volume) action e"
  shows "traces (Volume_finalize env (observed a cl) action volume) s (\<lambda>r. orderly (volumeGuards volume) before)"
proof (cases "VolumeState action")
  case True
  then show ?thesis
    unfolding Volume_finalize_def if_P [OF True]
    by (intro traces_guarded_of [OF traces_Volume_delete [OF ok del seen]])
      (force intro!: traces_rules traces_dropFinalizer)+
next
  case False
  then have "\<exists>e\<in>set before. volumeGone (Volume_ResourceName volume) e" using seen lookedUp_gone by blast
  with False traces_dropFinalizer [where tr = "[]"] show ?thesis by (simp add: Volume_finalize_def)
qed

lemma traces_Volume_Reconcile:
  assumes ok: "apimachinery_ok (e_api env)"
  shows "traces (Volume_Reconcile env req) s (\<lambda>r tr.
    (\<exists>res. tr = [DidGet VolumeKind req res]) \<or>
    (\<exists>volume tr'. tr = DidGet VolumeKind req (Returns (Inr (KVolume volume))) # tr' \<and>
       orderly (volumeGuards volume) [] tr'))"
proof -
  have w: "traces (withPool env (Volumes env) volume nn (Volume_withAction env volume)) s'
      (\<lambda>r. orderly (volumeGuards volume) [])" for volume nn s'
    unfolding Volume_withAction_def
    by (intro traces_withPool_orderly traces_owned [OF ok] traces_Volume_finalize [OF ok] acts_Volume_manage) auto
  show ?thesis
    unfolding Volume_Reconcile_def getRequested_def apiGet_def
    by (intro traces_rules traces_mono [OF w]) (auto simp: Volumes_def)
qed

lemma Volume_Reconcile_orderly:
  assumes "apimachinery_ok (e_api env)" and "Volume_Reconcile env req s = (r, s')"
  shows "(\<exists>res. newEvents s s' = [DidGet VolumeKind req res]) \<or>
    (\<exists>volume tr'. newEvents s s' = DidGet VolumeKind req (Returns (Inr (KVolume volume))) # tr' \<and>
       orderly (volumeGuards volume) [] tr')"
  by (rule traces_newEvents [OF traces_Volume_Reconcile [OF assms(1)] assms(2)])

text \<open>A run that deletes the example volume.\<close>

definition exampleDeletionEnv :: "unit env" where
  "exampleDeletionEnv = (exampleEnv quietClient)\<lparr>e_Volumes := answering (deleted exampleVolume) []\<rparr>"

definition exampleDeletionBefore :: "event list" where
  "exampleDeletionBefore = exampleOpening ''vol0'' @ noUsers (deleted exampleVolume)"

lemma exampleDeletion_events:
  "newEvents (exampleState quietClient ()) (snd (Volume_Reconcile exampleDeletionEnv exampleRequest (exampleState quietClient ()))) =
     DidGet VolumeKind exampleRequest (Returns (Inr (KVolume (deleted exampleVolume)))) # exampleDeletionBefore @
     OnHost 0 (DidStorageVolDelete (exampleHandle ''vol0'') (Returns None)) #
     [let v = unfinalized (deleted exampleVolume) in DidUpdate (KVolume v) (Returns (Inr (KVolume v)))]"
  by (simp add: example_defs run_defs exampleDeletionEnv_def Volume_Reconcile_def withPool_def resolveRefs_def withHost_def
      Volume_withAction_def NewVolumeAction_def Volume_finalize_def VolumeState_def Volume_delete_def VolumeDelete_def
      Pool_HostRef_def Volume_PoolRef_def Pool_ResourceName_def Volume_ResourceName_def exampleDeletionBefore_def noUsers_def)

lemma exampleDeletionEnv_ok: "apimachinery_ok (e_api exampleDeletionEnv)"
  by (simp add: exampleDeletionEnv_def exampleEnv_def apimachinery_ref_ok)

text \<open>C1: A volume is only ever deleted from a host in a reconciliation that has found its object being deleted
  and holding the operator's finalizer, has looked the handle up by the object's resource name, and has
  been told by the API server that no volume has it as its backing store and no domain as a disk. This
  holds whatever the API server, the daemon and other clients do.\<close>

theorem Volume_deletion_safe:
  assumes "apimachinery_ok (e_api env)" and "Volume_Reconcile env req s = (r, s')"
    and "newEvents s s' = pre @ OnHost a (DidStorageVolDelete v res) # post"
  shows "\<exists>volume pre'. pre = DidGet VolumeKind req (Returns (Inr (KVolume volume))) # pre' \<and>
    deleting volume \<and> Finalizer \<in> set (om_Finalizers (Meta volume)) \<and> set (noUsers volume) \<subseteq> set pre' \<and>
    (\<exists>p. OnHost a (LookedUpVolume p (Volume_ResourceName volume) (Returns (Inr v))) \<in> set pre')"
proof -
  from Volume_Reconcile_orderly [OF assms(1,2)] assms(3) obtain volume pre' where p: "pre = DidGet VolumeKind req (Returns (Inr (KVolume volume))) # pre'"
    and o: "orderly (volumeGuards volume) [] (pre' @ OnHost a (DidStorageVolDelete v res) # post)"
    by (cases pre) auto
  from o have g: "\<exists>e'\<in>set pre'. p e'" if "p \<in> set (volumeGuards volume (OnHost a (DidStorageVolDelete v res)))" for p
    using orderly_nth [OF o refl that] by simp
  show ?thesis
    by (intro exI [of _ volume] exI [of _ pre']) (use p g in \<open>auto simp: noUsers_def\<close>)
qed

theorem Volume_deletion_safe_witness:
  "\<exists>volume pre'. DidGet VolumeKind exampleRequest (Returns (Inr (KVolume (deleted exampleVolume)))) # exampleDeletionBefore =
       DidGet VolumeKind exampleRequest (Returns (Inr (KVolume volume))) # pre' \<and>
    deleting volume \<and> Finalizer \<in> set (om_Finalizers (Meta volume)) \<and> set (noUsers volume) \<subseteq> set pre' \<and>
    (\<exists>p. OnHost 0 (LookedUpVolume p (Volume_ResourceName volume) (Returns (Inr (exampleHandle ''vol0'')))) \<in> set pre')"
  by (rule Volume_deletion_safe [OF exampleDeletionEnv_ok surjective_pairing exampleDeletion_events [folded append_Cons]])

text \<open>C2: The object of a volume that is being deleted is only updated, and so loses its finalizer, after the
  daemon has said that there is no volume of that name or has deleted the volume: the API server does
  not forget a volume that still exists.\<close>

theorem Volume_finalizer_kept:
  assumes "apimachinery_ok (e_api env)" and "Volume_Reconcile env req s = (r, s')"
    and "newEvents s s' = DidGet VolumeKind req (Returns (Inr (KVolume volume))) # pre @ DidUpdate obj res # post"
    and "deleting volume"
  shows "\<exists>e\<in>set pre. volumeGone (Volume_ResourceName volume) e"
proof -
  from Volume_Reconcile_orderly [OF assms(1,2)] assms(3)
  have "orderly (volumeGuards volume) [] (pre @ DidUpdate obj res # post)" by auto
  from orderly_nth [OF this refl, of "volumeGone (Volume_ResourceName volume)"] assms(4) show ?thesis by simp
qed

theorem Volume_finalizer_kept_witness:
  "\<exists>e\<in>set (exampleDeletionBefore @ [OnHost 0 (DidStorageVolDelete (exampleHandle ''vol0'') (Returns None))]).
     volumeGone (Volume_ResourceName (deleted exampleVolume)) e"
  by (rule Volume_finalizer_kept [OF exampleDeletionEnv_ok surjective_pairing exampleDeletion_events [THEN trans]])
    (simp_all add: Let_def deleting_def deleted_def)

end
