(* ===== verification/CloudInitController.thy ===== *)
theory CloudInitController
  imports VolumeController
begin

text \<open>
  The controller of \<open>CloudInit\<close> objects (\<^verbatim>\<open>internal/controller/cloudinit.go\<close>): it renders the documents of
  the object, packs them into an image and creates a volume from it.
\<close>

definition CloudInit_setStatusCondition :: "'w env \<Rightarrow> CloudInit \<Rightarrow> string \<Rightarrow> ConditionStatus \<Rightarrow> string \<Rightarrow> string
    \<Rightarrow> ('w sys, error + CloudInit) prog" where
  "CloudInit_setStatusCondition env = setStatusCondition env (CloudInits env)"

section \<open>The documents\<close>

definition newline :: string where "newline = [char_of (10 :: nat)]"

definition cloudInitCloudConfig :: "'w env \<Rightarrow> CloudInitCloudConfig \<Rightarrow> error + bytes" where
  "cloudInitCloudConfig env config = Marshal (e_yamlCloudConfig env) (''#cloud-config'' @ newline) config"

definition cloudInitNetworkConfig :: "'w env \<Rightarrow> CloudInitNetworkConfig \<Rightarrow> error + bytes" where
  "cloudInitNetworkConfig env config =
     Marshal (e_yamlNetworkConfig env) [] \<lparr>nc_Version = 2, nc_Config = config\<rparr>"

text \<open>A document that is present is rendered and its length added to the size.\<close>

type_synonym sources = "(string \<times> bytes) list \<times> int"

definition addSource :: "string \<Rightarrow> ('d \<Rightarrow> error + bytes) \<Rightarrow> 'd option \<Rightarrow> error + sources \<Rightarrow> error + sources" where
  "addSource name render doc acc =
     (case acc of
        Inl err \<Rightarrow> Inl err
      | Inr (files, n) \<Rightarrow> (case doc of
          None \<Rightarrow> Inr (files, n)
        | Some d \<Rightarrow> (case render d of
            Inl err \<Rightarrow> Inl err
          | Inr data \<Rightarrow> Inr (files @ [(name, data)], int64 (n + int (length data))))))"

text \<open>The metadata is rendered even when the pointer to it is nil.\<close>

definition cloudInitSourceFiles :: "'w env \<Rightarrow> CloudInitMetadata option \<Rightarrow> CloudInitCloudConfig option
    \<Rightarrow> CloudInitNetworkConfig option \<Rightarrow> CloudInitCloudConfig option \<Rightarrow> error + sources" where
  "cloudInitSourceFiles env metadata userData networkConfig vendorData =
     addSource ''network-config'' (cloudInitNetworkConfig env) networkConfig (
     addSource ''vendor-data'' (cloudInitCloudConfig env) vendorData (
     addSource ''user-data'' (cloudInitCloudConfig env) userData (
     addSource ''meta-data'' (Marshal (e_yamlMetadata env) []) (Some metadata) (Inr ([], 0)))))"

section \<open>The image\<close>

text \<open>The Go map is iterated in an unspecified order; the model takes the order of insertion.\<close>

fun isoFiles :: "'w isolib \<Rightarrow> string \<Rightarrow> (string \<times> bytes) list \<Rightarrow> ('w sys, error option) prog" where
  "isoFiles lib workspace [] = ret None"
| "isoFiles lib workspace ((file, data) # files) =
     guarded (unlogged (iso_CreateFile lib workspace file)) (\<lambda>err. ret (Some err)) (
     guarded (unlogged (iso_WriteFile lib workspace file data)) (\<lambda>err. ret (Some err)) (
     guarded (unlogged (iso_CloseFile lib workspace file)) (\<lambda>err. ret (Some err)) (
     isoFiles lib workspace files)))"

definition cloudInitCreateISO :: "'w env \<Rightarrow> (string \<times> bytes) list \<Rightarrow> int \<Rightarrow> ('w sys, error + OSFile) prog" where
  "cloudInitCreateISO env sourceFiles n =
     (let lib = e_iso env; total = int64 (36864 + n) in
      attempt (os_CreateTemp (liftOS (e_OS env)) ''iso.'') (\<lambda>err. ret (Inl err)) (\<lambda>name.
      attempt (unlogged (iso_Create lib name total)) (\<lambda>err. ret (Inl err)) (\<lambda>workspace.
      guarded (isoFiles lib workspace sourceFiles) (\<lambda>err. ret (Inl err)) (
      guarded (unlogged (iso_Finalize lib workspace)) (\<lambda>err. ret (Inl err)) (
      case iso_Written lib total (map_of sourceFiles) of (content, off) \<Rightarrow>
        ret (Inr \<lparr>of_Name = name, of_Content = content, of_Offset = off\<rparr>))))))"

section \<open>Reconciliation\<close>

definition CloudInit_finalize :: "'w env \<Rightarrow> 'w sys Client \<Rightarrow> VolumeAction \<Rightarrow> CloudInit \<Rightarrow> 'w reconcile" where
  "CloudInit_finalize env c action ci =
     (if VolumeState action
      then withRequirement env CloudInitLabel (om_Name (Meta ci)) fail (\<lambda>req.
           attempt (apiList (Domains env) (Some req)) fail (\<lambda>domains.
           if 0 < length domains
           then attempt (CloudInit_setStatusCondition env ci ConditionDeletionPrevented ConditionTrue
                  ''cloud-init is currently in use by domain'' ConditionInUse) fail (\<lambda>_. requeue)
           else guarded (VolumeDelete c action) fail (removeFinalizer env (CloudInits env) ci)))
      else removeFinalizer env (CloudInits env) ci)"

definition CloudInit_created :: "CloudInit \<Rightarrow> Pool \<Rightarrow> CloudInit" where
  "CloudInit_created ci pool =
     ci\<lparr>Status := (Status ci)\<lparr>cist_Pool := Pool_ResourceName pool,
                              cist_Host := ref_Name (pls_HostRef (Spec pool))\<rparr>\<rparr>"

definition CloudInit_existing :: "'w env \<Rightarrow> Pool \<Rightarrow> CloudInit \<Rightarrow> 'w reconcile" where
  "CloudInit_existing env pool ci =
     (if \<not> isTrue env ci ConditionReady
      then attempt (CloudInit_setStatusCondition env (CloudInit_created ci pool) ConditionReady ConditionTrue
             conditionCreationSucceeded ConditionCreated) fail (\<lambda>_. stop)
      else stop)"

definition CloudInit_failing :: "'w env \<Rightarrow> CloudInit \<Rightarrow> error \<Rightarrow> 'w reconcile" where
  "CloudInit_failing env ci err =
     attempt (CloudInit_setStatusCondition env ci ConditionReady ConditionFalse (ErrorText err) ConditionError)
       fail (\<lambda>_. fail err)"

text \<open>From the finished image on.\<close>

definition CloudInit_commit :: "'w env \<Rightarrow> 'w sys Client \<Rightarrow> Pool \<Rightarrow> VolumeAction \<Rightarrow> CloudInit \<Rightarrow> 'w reconcile" where
  "CloudInit_commit env c pool action ci =
     andThen (VolumeCreate (e_xml env) c action) (\<lambda>(r, action).
     case r of
       Some err \<Rightarrow> CloudInit_failing env ci err
     | None \<Rightarrow>
         attempt (SetLabelOn ci PoolLabel (ref_Name (cis_PoolRef (Spec ci))) (CloudInits env)) fail (\<lambda>ci.
         attempt (CloudInit_setStatusCondition env (CloudInit_created ci pool) ConditionReady ConditionTrue
           conditionCreationSucceeded ConditionCreated) fail (\<lambda>_.
         andThen (CleanupSource (liftOS (e_OS env)) action) (\<lambda>_. stop))))"

definition CloudInit_create :: "'w env \<Rightarrow> 'w sys Client \<Rightarrow> Pool \<Rightarrow> VolumeAction \<Rightarrow> CloudInit \<Rightarrow> 'w reconcile" where
  "CloudInit_create env c pool action ci =
     (case cloudInitSourceFiles env (cis_Metadata (Spec ci)) (cis_UserData (Spec ci))
             (cis_NetworkConfig (Spec ci)) (cis_VendorData (Spec ci)) of
        Inl err \<Rightarrow> CloudInit_failing env ci err
      | Inr (sourceFiles, n) \<Rightarrow>
          let n = (if n < 2048 then 2048 else n) in
          attempt (cloudInitCreateISO env sourceFiles n) (CloudInit_failing env ci) (\<lambda>image.
          let action = VolumeSize_set action ''bytes'' (ToUint64 (e_cast env) n);
              action = VolumeFormat action ''raw'';
              action = LocalSource action image in
          CloudInit_commit env c pool action ci))"

definition CloudInit_withAction :: "'w env \<Rightarrow> CloudInit \<Rightarrow> Pool \<Rightarrow> 'w sys Client \<Rightarrow> 'w reconcile" where
  "CloudInit_withAction env ci pool c =
     attempt (NewVolumeAction (e_xml env) c (CloudInit_ResourceName ci) (Pool_ResourceName pool)) fail (\<lambda>action.
     withFinalizer env (CloudInits env) ci (CloudInit_finalize env c action ci) (\<lambda>ci.
     if VolumeState action then CloudInit_existing env pool ci
     else CloudInit_create env c pool action ci))"

definition CloudInit_Reconcile :: "'w env \<Rightarrow> NamespacedName \<Rightarrow> 'w reconcile" where
  "CloudInit_Reconcile env req =
     getRequested env (CloudInits env) req (\<lambda>ci.
     withPool env (CloudInits env) ci (CloudInit_PoolRef ci) (CloudInit_withAction env ci))"

section \<open>What a reconciliation may do\<close>

lemma acts_CloudInit_failing [acts_rules]:
  assumes "\<And>obj r. E (DidStatusUpdate (KCloudInit obj) r)" and "E OtherCall"
  shows "acts E (CloudInit_failing env ci err)"
  unfolding CloudInit_failing_def CloudInit_setStatusCondition_def
  by (intro acts_rules assms) (simp add: CloudInits_def assms)

lemma acts_isoFiles: "acts mild (isoFiles lib ws files)"
  by (induction files) (auto intro!: acts_rules split: prod.split)

lemma acts_cloudInitCreateISO: "acts mild (cloudInitCreateISO env files n)"
  unfolding cloudInitCreateISO_def Let_def
  unfolding liftOS_select by (intro acts_rules acts_isoFiles) simp_all

lemma acts_CloudInit_manage:
  assumes "\<And>e. \<not> isVolDelete e \<Longrightarrow> E e"
  shows "acts E (if VolumeState action then CloudInit_existing env pool ci
     else CloudInit_create env (observed a cl) pool action ci)"
  unfolding CloudInit_existing_def CloudInit_create_def CloudInit_commit_def CloudInit_setStatusCondition_def Let_def
  by (intro acts_rules acts_VolumeCreate acts_mono [OF acts_CleanupSource] acts_mono [OF acts_cloudInitCreateISO])
    (simp_all add: CloudInits_def assms mild_not_delete)

section \<open>Deletion is safe\<close>

definition noDomain :: "CloudInit \<Rightarrow> event list" where
  "noDomain ci =
     [DidList DomainKind (Some \<lparr>rq_Key = CloudInitLabel, rq_Value = om_Name (Meta ci)\<rparr>) (Returns (Inr []))]"

abbreviation imageGuards :: "CloudInit \<Rightarrow> event \<Rightarrow> (event \<Rightarrow> bool) list" where
  "imageGuards ci \<equiv> ownerGuards ci (CloudInit_ResourceName ci) (noDomain ci)"

lemma traces_CloudInit_finalize:
  assumes ok: "apimachinery_ok (e_api env)" and del: "deleting ci" "Finalizer \<in> set (om_Finalizers (Meta ci))"
    and seen: "\<exists>e\<in>set before. lookedUp a (CloudInit_ResourceName ci) action e"
  shows "traces (CloudInit_finalize env (observed a cl) action ci) s (\<lambda>r. orderly (imageGuards ci) before)"
proof (cases "VolumeState action")
  case True
  have inUse: "traces (attempt (CloudInit_setStatusCondition env ci t st msg rs) fail (\<lambda>_. requeue)) s' P"
    if "\<And>r tr. list_all mild tr \<Longrightarrow> P r tr" for t st msg rs s' P
    unfolding CloudInit_setStatusCondition_def
    by (rule acts_traces [where E = mild]) (auto simp: CloudInits_def intro!: acts_rules that)
  have del: "traces (guarded (VolumeDelete (observed a cl) action) fail (removeFinalizer env (CloudInits env) ci)) s'
      (\<lambda>r tr. orderly (imageGuards ci) before (e1 # tr))" if "noDomain ci = [e1]" "mild e1" for e1 s'
    by (rule traces_guarded_of [OF traces_VolumeDelete [OF del, of "noDomain ci" "before @ [e1]" a _ action]])
      (use that seen in \<open>auto simp: ownerGuards_mild intro!: traces_rules
         traces_dropFinalizer [where before = "before @ [e1]" and tr = tr for tr, simplified]\<close>)
  show ?thesis
    unfolding CloudInit_finalize_def if_P [OF True] withRequirement_def apiList_def
    by (intro traces_rules inUse del)
      (auto simp: orderly_mild Domains_def noDomain_def dest!: apimachinery_okD(6) [OF ok])
next
  case False
  then have "\<exists>e\<in>set before. volumeGone (CloudInit_ResourceName ci) e" using seen lookedUp_gone by blast
  with False traces_dropFinalizer [where tr = "[]"] show ?thesis by (simp add: CloudInit_finalize_def)
qed

lemma traces_CloudInit_Reconcile:
  assumes ok: "apimachinery_ok (e_api env)"
  shows "traces (CloudInit_Reconcile env req) s (\<lambda>r tr. (\<exists>res. tr = [DidGet CloudInitKind req res]) \<or>
    (\<exists>ci tr'. tr = DidGet CloudInitKind req (Returns (Inr (KCloudInit ci))) # tr' \<and> orderly (imageGuards ci) [] tr'))"
proof -
  have w: "traces (withPool env (CloudInits env) ci nn (CloudInit_withAction env ci)) s'
      (\<lambda>r. orderly (imageGuards ci) [])" for ci nn s'
    unfolding CloudInit_withAction_def
    by (intro traces_withPool_orderly traces_owned [OF ok] traces_CloudInit_finalize [OF ok] acts_CloudInit_manage) auto
  show ?thesis
    unfolding CloudInit_Reconcile_def getRequested_def apiGet_def
    by (intro traces_rules traces_mono [OF w]) (auto simp: CloudInits_def)
qed

lemma CloudInit_Reconcile_orderly:
  assumes "apimachinery_ok (e_api env)" and "CloudInit_Reconcile env req s = (r, s')"
  shows "(\<exists>res. newEvents s s' = [DidGet CloudInitKind req res]) \<or>
    (\<exists>ci tr'. newEvents s s' = DidGet CloudInitKind req (Returns (Inr (KCloudInit ci))) # tr' \<and>
       orderly (imageGuards ci) [] tr')"
  by (rule traces_newEvents [OF traces_CloudInit_Reconcile [OF assms(1)] assms(2)])

text \<open>A run that deletes the example image.\<close>

definition exampleImageEnv :: "unit env" where
  "exampleImageEnv = (exampleEnv quietClient)\<lparr>e_CloudInits := answering (deleted exampleCloudInit) []\<rparr>"

definition exampleImageBefore :: "event list" where
  "exampleImageBefore = exampleOpening ''ci0'' @ noDomain (deleted exampleCloudInit)"

lemma exampleImageEnv_ok: "apimachinery_ok (e_api exampleImageEnv)"
  by (simp add: exampleImageEnv_def exampleEnv_def apimachinery_ref_ok)

lemma exampleImage_events:
  "newEvents (exampleState quietClient ()) (snd (CloudInit_Reconcile exampleImageEnv exampleRequest (exampleState quietClient ()))) =
     DidGet CloudInitKind exampleRequest (Returns (Inr (KCloudInit (deleted exampleCloudInit)))) #
     exampleImageBefore @
     OnHost 0 (DidStorageVolDelete (exampleHandle ''ci0'') (Returns None)) #
     [let c = unfinalized (deleted exampleCloudInit) in DidUpdate (KCloudInit c) (Returns (Inr (KCloudInit c)))]"
  by (simp add: example_defs run_defs exampleImageEnv_def CloudInit_Reconcile_def withPool_def resolveRefs_def withHost_def
      CloudInit_withAction_def NewVolumeAction_def CloudInit_finalize_def VolumeState_def VolumeDelete_def
      Pool_HostRef_def CloudInit_PoolRef_def Pool_ResourceName_def CloudInit_ResourceName_def exampleImageBefore_def noDomain_def)

text \<open>C3: The image of a cloud-init object is only ever deleted from a host in a reconciliation that has found
  the object being deleted and holding the operator's finalizer, has looked the handle up by the object's
  resource name, and has been told that no domain is labelled as using it.\<close>

theorem CloudInit_deletion_safe:
  assumes "apimachinery_ok (e_api env)" and "CloudInit_Reconcile env req s = (r, s')"
    and "newEvents s s' = pre @ OnHost a (DidStorageVolDelete v res) # post"
  shows "\<exists>ci pre'. pre = DidGet CloudInitKind req (Returns (Inr (KCloudInit ci))) # pre' \<and>
    deleting ci \<and> Finalizer \<in> set (om_Finalizers (Meta ci)) \<and> set (noDomain ci) \<subseteq> set pre' \<and>
    (\<exists>p. OnHost a (LookedUpVolume p (CloudInit_ResourceName ci) (Returns (Inr v))) \<in> set pre')"
proof -
  from CloudInit_Reconcile_orderly [OF assms(1,2)] assms(3) obtain ci pre'
    where p: "pre = DidGet CloudInitKind req (Returns (Inr (KCloudInit ci))) # pre'"
    and o: "orderly (imageGuards ci) [] (pre' @ OnHost a (DidStorageVolDelete v res) # post)"
    by (cases pre) auto
  from o have g: "\<exists>e'\<in>set pre'. p e'" if "p \<in> set (imageGuards ci (OnHost a (DidStorageVolDelete v res)))" for p
    using orderly_nth [OF o refl that] by simp
  show ?thesis
    by (intro exI [of _ ci] exI [of _ pre']) (use p g in \<open>auto simp: noDomain_def\<close>)
qed

theorem CloudInit_deletion_safe_witness:
  "\<exists>ci pre'. DidGet CloudInitKind exampleRequest (Returns (Inr (KCloudInit (deleted exampleCloudInit)))) #
         exampleImageBefore =
       DidGet CloudInitKind exampleRequest (Returns (Inr (KCloudInit ci))) # pre' \<and>
    deleting ci \<and> Finalizer \<in> set (om_Finalizers (Meta ci)) \<and> set (noDomain ci) \<subseteq> set pre' \<and>
    (\<exists>p. OnHost 0 (LookedUpVolume p (CloudInit_ResourceName ci) (Returns (Inr (exampleHandle ''ci0'')))) \<in> set pre')"
  by (rule CloudInit_deletion_safe [OF exampleImageEnv_ok surjective_pairing exampleImage_events [folded append_Cons]])

text \<open>The object of a cloud-init image that is being deleted is only updated after the daemon has said that
  there is no volume of that name or has deleted the volume.\<close>

theorem CloudInit_finalizer_kept:
  assumes "apimachinery_ok (e_api env)" and "CloudInit_Reconcile env req s = (r, s')"
    and "newEvents s s' = DidGet CloudInitKind req (Returns (Inr (KCloudInit ci))) # pre @ DidUpdate obj res # post"
    and "deleting ci"
  shows "\<exists>e\<in>set pre. volumeGone (CloudInit_ResourceName ci) e"
proof -
  from CloudInit_Reconcile_orderly [OF assms(1,2)] assms(3)
  have "orderly (imageGuards ci) [] (pre @ DidUpdate obj res # post)" by auto
  from orderly_nth [OF this refl, of "volumeGone (CloudInit_ResourceName ci)"] assms(4) show ?thesis by simp
qed

theorem CloudInit_finalizer_kept_witness:
  "\<exists>e\<in>set (exampleImageBefore @
        [OnHost 0 (DidStorageVolDelete (exampleHandle ''ci0'') (Returns None))]).
     volumeGone (CloudInit_ResourceName (deleted exampleCloudInit)) e"
  by (rule CloudInit_finalizer_kept [OF exampleImageEnv_ok surjective_pairing exampleImage_events [THEN trans]])
    (simp_all add: Let_def deleting_def deleted_def)

end
