(* ===== verification/DomainController.thy ===== *)
theory DomainController
  imports CloudInitController
begin

text \<open>
  The controller of \<open>Domain\<close> objects (\<^verbatim>\<open>internal/controller/domain.go\<close>): it defines a domain from the
  volumes, networks and PCI devices the object refers to, starts it and shuts it down as the object says,
  and undefines it when the object is deleted.
\<close>

definition ErrVolumeNotSameHost :: string where
  "ErrVolumeNotSameHost = ''all volumes must exist in pools on the same host as the domain''"
definition ErrNetworkNotSameHost :: string where
  "ErrNetworkNotSameHost = ''all networks must be on the same host as the domain''"
definition ErrPCIDeviceNotSameHost :: string where
  "ErrPCIDeviceNotSameHost = ''all pci devices must be on the same host as the domain''"
definition ErrVolumeNotReady :: string where "ErrVolumeNotReady = ''volume is not ready''"
definition ErrNetworkNotReady :: string where "ErrNetworkNotReady = ''network is not ready''"
definition ErrPCIDeviceNotReady :: string where "ErrPCIDeviceNotReady = ''pci device is not ready''"

definition Domain_setStatusCondition :: "'w env \<Rightarrow> Domain \<Rightarrow> string \<Rightarrow> ConditionStatus \<Rightarrow> string \<Rightarrow> string
    \<Rightarrow> ('w sys, error + Domain) prog" where
  "Domain_setStatusCondition env = setStatusCondition env (Domains env)"

section \<open>Deletion, and a domain that exists\<close>

definition Domain_finalize :: "'w env \<Rightarrow> 'w sys Client \<Rightarrow> DomainAction \<Rightarrow> Domain \<Rightarrow> 'w reconcile" where
  "Domain_finalize env c action domain =
     (case DomainState action of (ex, shutoff) \<Rightarrow>
        if ex
        then guarded (if \<not> shutoff then Dom_Shutdown c action else ret None) fail (
             guarded (Dom_Delete c action) fail (
             removeFinalizer env (Domains env) domain))
        else removeFinalizer env (Domains env) domain)"

text \<open>Making the domain run or not, as its spec says.\<close>

definition Domain_power :: "'w sys Client \<Rightarrow> DomainAction \<Rightarrow> Domain \<Rightarrow> 'w reconcile" where
  "Domain_power c action domain =
     (let shutoff = snd (DomainState action) in
      if ds_Shutoff (Spec domain) = Some True
      then if \<not> shutoff then guarded (Dom_Shutdown c action) fail stop else stop
      else if shutoff then guarded (Dom_Start c action) fail stop else stop)"

definition Domain_existing :: "'w env \<Rightarrow> 'w sys Client \<Rightarrow> DomainAction \<Rightarrow> Domain \<Rightarrow> 'w reconcile" where
  "Domain_existing env c action domain =
     (if \<not> isTrue env domain ConditionReady
      then attempt (Domain_setStatusCondition env domain ConditionReady ConditionTrue conditionCreationSucceeded
             ConditionCreated) fail (Domain_power c action)
      else Domain_power c action domain)"

section \<open>The devices\<close>

text \<open>
  The three loops of \<open>Reconcile\<close> over the references of the spec. Each takes the action and the object as
  they are, and what comes after the loop; the loops return early in the middle.
\<close>

definition Domain_notReady :: "'w env \<Rightarrow> Domain \<Rightarrow> string \<Rightarrow> 'w reconcile" where
  "Domain_notReady env domain msg =
     attempt (Domain_setStatusCondition env domain ConditionReady ConditionFalse msg ConditionUnmetRequirements)
       fail (\<lambda>_. requeue)"

type_synonym 'w build = "DomainAction \<Rightarrow> Domain \<Rightarrow> 'w reconcile"

fun Domain_disks :: "nat \<Rightarrow> 'w env \<Rightarrow> 'w sys Client \<Rightarrow> DomainDisk list \<Rightarrow> 'w build \<Rightarrow> 'w build" where
  "Domain_disks fuel env c [] k action domain = k action domain"
| "Domain_disks fuel env c (disk # disks) k action domain =
     attempt (apiGet (Volumes env) (Domain_VolumeRef domain disk)) fail (\<lambda>volume.
     if \<not> isTrue env volume ConditionReady then Domain_notReady env domain ErrVolumeNotReady
     else if vst_Host (Status volume) \<noteq> ref_Name (ds_HostRef (Spec domain))
     then fail (PlainError ErrVolumeNotSameHost)
     else andThen (Dom_Disk fuel (e_xml env) c action (Volume_ResourceName volume) (vst_Pool (Status volume))
            (dd_WWN disk) None) (\<lambda>(r, action).
     case r of
       Some err \<Rightarrow> fail err
     | None \<Rightarrow>
         attempt (SetLabelOn domain (DiskLabelPrefix @ ''/'' @ om_Name (Meta volume)) '''' (Domains env)) fail
           (Domain_disks fuel env c disks k action)))"

fun Domain_interfaces :: "'w env \<Rightarrow> DomainInterface list \<Rightarrow> 'w build \<Rightarrow> 'w build" where
  "Domain_interfaces env [] k action domain = k action domain"
| "Domain_interfaces env (i # is) k action domain =
     attempt (apiGet (Networks env) (Domain_NetworkRef domain i)) fail (\<lambda>network.
     if ref_Name (ns_HostRef (Spec network)) \<noteq> ref_Name (ds_HostRef (Spec domain))
     then fail (PlainError ErrNetworkNotSameHost)
     else if \<not> isTrue env network ConditionReady then Domain_notReady env domain ErrNetworkNotReady
     else
       let queues = map_option (ToUint (e_cast env)) (di_Queues i) in
       andThen (Dom_Interface action (Network_ResourceName network) queues (di_MacAddress i)) (\<lambda>action.
       attempt (SetLabelOn domain (InterfaceLabelPrefix @ ''/'' @ om_Name (Meta network)) '''' (Domains env)) fail
         (Domain_interfaces env is k action)))"

fun Domain_pciDevices :: "'w env \<Rightarrow> DomainPCIPassthrough list \<Rightarrow> 'w build \<Rightarrow> 'w build" where
  "Domain_pciDevices env [] k action domain = k action domain"
| "Domain_pciDevices env (pci # pcis) k action domain =
     attempt (apiGet (PCIDevices env) (Domain_PCIDeviceRef domain pci)) fail (\<lambda>pciDevice.
     if ref_Name (pds_HostRef (Spec pciDevice)) \<noteq> ref_Name (ds_HostRef (Spec domain))
     then fail (PlainError ErrPCIDeviceNotSameHost)
     else if \<not> isTrue env pciDevice ConditionReady then Domain_notReady env domain ErrPCIDeviceNotReady
     else
       deref (pdst_Address (Status pciDevice)) (\<lambda>address.
       let cast = ToUint (e_cast env) in
       andThen (Dom_PCIPassthrough action (cast (pa_Domain address)) (cast (pa_Bus address))
         (cast (pa_Slot address)) (cast (pa_Function address))) (\<lambda>action.
       attempt (SetLabelOn domain (PCIPassthroughLabelPrefix @ ''/'' @ om_Name (Meta pciDevice)) '''' (Domains env)) fail
         (Domain_pciDevices env pcis k action))))"

section \<open>Settings\<close>

text \<open>A setting that is applied when its pointer is not nil.\<close>

definition whenSome :: "'a option \<Rightarrow> ('a \<Rightarrow> DomainAction \<Rightarrow> ('s, DomainAction) prog) \<Rightarrow> DomainAction
    \<Rightarrow> ('s, DomainAction) prog" where
  "whenSome p f action = (case p of None \<Rightarrow> ret action | Some x \<Rightarrow> f x action)"

definition Domain_settings :: "safecast \<Rightarrow> DomainSpec \<Rightarrow> DomainAction \<Rightarrow> ('s, DomainAction) prog" where
  "Domain_settings cast spec action =
     andThen (whenSome (ds_SCSIQueues spec) (\<lambda>q action. Dom_SCSIMultiqueue action (ToUint cast q)) action) (\<lambda>action.
     andThen (whenSome (ds_NumatuneMode spec) (\<lambda>numa action. ret (Dom_NumatuneMode action numa)) action) (\<lambda>action.
     andThen (if ds_UEFI spec = Some True then Dom_UEFI action else ret action) (\<lambda>action.
     andThen (if ds_SecureBoot spec = Some False then Dom_NoSecureBoot action else ret action) (\<lambda>action.
     andThen (whenSome (dv_Placement (ds_VCPU spec)) (\<lambda>placement action. Dom_VCPUPlacement action placement) action)
       (\<lambda>action.
     whenSome (ds_CPU spec) (\<lambda>cpu action.
       andThen (whenSome (dc_Mode cpu) (\<lambda>mode action. ret (Dom_CPUMode action mode)) action)
         (whenSome (dc_CacheMode cpu) (\<lambda>mode action. ret (Dom_CPUCacheMode action mode)))) action)))))"

section \<open>Creation\<close>

definition Domain_cloudInit :: "nat \<Rightarrow> 'w env \<Rightarrow> 'w sys Client \<Rightarrow> 'w build \<Rightarrow> 'w build" where
  "Domain_cloudInit fuel env c k action domain =
     (if ds_CloudInit (Spec domain) = None then k action domain
      else deref (Domain_CloudInitRef domain) (\<lambda>ref.
      attempt (apiGet (CloudInits env) ref) fail (\<lambda>ci.
      if \<not> isTrue env ci ConditionReady then Domain_notReady env domain ErrVolumeNotReady
      else if cist_Host (Status ci) \<noteq> ref_Name (ds_HostRef (Spec domain))
      then fail (PlainError ErrVolumeNotSameHost)
      else andThen (Dom_Disk fuel (e_xml env) c action (CloudInit_ResourceName ci) (cist_Pool (Status ci)) None
             (Some True)) (\<lambda>(r, action).
      case r of
        Some err \<Rightarrow> fail err
      | None \<Rightarrow>
          attempt (SetLabelOn domain CloudInitLabel (om_Name (Meta ci)) (Domains env)) fail (k action)))))"

definition Domain_commit :: "'w env \<Rightarrow> 'w sys Client \<Rightarrow> Host \<Rightarrow> 'w build" where
  "Domain_commit env c host action domain =
     andThen (Dom_Create (e_xml env) c action) (\<lambda>(r, action).
     case r of
       Some err \<Rightarrow> attempt (Domain_setStatusCondition env domain ConditionReady ConditionFalse (ErrorText err)
                      ConditionError) fail (\<lambda>_. fail err)
     | None \<Rightarrow>
         attempt (SetLabelOn domain HostLabel (om_Name (Meta host)) (Domains env)) fail (\<lambda>domain.
         guarded (if ds_Shutoff (Spec domain) \<noteq> Some True then Dom_Start c action else ret None) fail (
         finish (Domain_setStatusCondition env domain ConditionReady ConditionTrue conditionCreationSucceeded
           ConditionCreated))))"

definition Domain_create :: "nat \<Rightarrow> 'w env \<Rightarrow> 'w sys Client \<Rightarrow> Host \<Rightarrow> 'w build" where
  "Domain_create fuel env c host action domain =
     (let cast = e_cast env in
      andThen (Dom_VCPU action (ToUint cast (dv_Value (ds_VCPU (Spec domain))))) (\<lambda>action.
      andThen (Dom_Memory action (ToUint cast (dm_Value (ds_Memory (Spec domain)))) (dm_Unit (ds_Memory (Spec domain))))
        (\<lambda>action.
      Domain_disks fuel env c (ds_Disks (Spec domain)) (\<lambda>action domain.
      Domain_interfaces env (ds_Interfaces (Spec domain)) (\<lambda>action domain.
      Domain_pciDevices env (ds_PCIPassthrough (Spec domain)) (\<lambda>action domain.
      andThen (Domain_settings cast (Spec domain) action) (\<lambda>action.
      Domain_cloudInit fuel env c (Domain_commit env c host) action domain))
      action domain) action domain) action domain)))"

section \<open>Reconciliation\<close>

definition Domain_withClient :: "nat \<Rightarrow> 'w env \<Rightarrow> Host \<Rightarrow> Domain \<Rightarrow> 'w sys Client \<Rightarrow> 'w reconcile" where
  "Domain_withClient fuel env host domain c =
     attempt (NewDomainAction (e_xml env) c (Domain_ResourceName domain)) fail (\<lambda>action.
     withFinalizer env (Domains env) domain (Domain_finalize env c action domain) (\<lambda>domain.
     if fst (DomainState action) then Domain_existing env c action domain
     else Domain_create fuel env c host action domain))"

definition Domain_Reconcile :: "nat \<Rightarrow> 'w env \<Rightarrow> NamespacedName \<Rightarrow> 'w reconcile" where
  "Domain_Reconcile fuel env req =
     getRequested env (Domains env) req (\<lambda>domain.
     attempt (apiGet (Hosts env) (Domain_HostRef domain)) (\<lambda>err. unmet env (Domains env) domain (ErrorText err) (fail err))
       (\<lambda>host. withHost env (Domains env) domain host (Domain_withClient fuel env host domain)))"

end
