(* ===== verification/Ordering.thy ===== *)
theory Ordering
  imports Effects
begin

text \<open>
  A compositional form of \<open>orderly\<close>. \<open>heeds W B m\<close> says that after any log that holds the events of \<open>B\<close>, a run
  of \<open>m\<close> adds events each of which comes after what \<open>W\<close> asks for it. A program may rely on the answers it
  got on the way: the rules for calls add the event of the call to \<open>B\<close>.
\<close>

definition licensed :: "(event \<Rightarrow> (event \<Rightarrow> bool) list) \<Rightarrow> event set \<Rightarrow> event \<Rightarrow> bool" where
  "licensed W B e \<longleftrightarrow> (\<forall>p\<in>set (W e). \<exists>e'\<in>B. p e')"

definition heeds :: "(event \<Rightarrow> (event \<Rightarrow> bool) list) \<Rightarrow> event set \<Rightarrow> (('w, 'z) HostSys_scheme, 'a) prog \<Rightarrow> bool" where
  "heeds W B m \<longleftrightarrow> (\<forall>before s. B \<subseteq> set before \<longrightarrow> traces m s (\<lambda>r. orderly W before))"

lemma heedsD: "heeds W B m \<Longrightarrow> B \<subseteq> set before \<Longrightarrow> traces m s (\<lambda>r. orderly W before)"
  by (simp add: heeds_def)

lemma licensed_mono: "licensed W B e \<Longrightarrow> B \<subseteq> B' \<Longrightarrow> licensed W B' e"
  by (auto simp: licensed_def)

lemma heeds_mono: "heeds W B m \<Longrightarrow> B \<subseteq> B' \<Longrightarrow> heeds W B' m"
  by (auto simp: heeds_def)

named_theorems heeds_rules "programs whose events come in order"

lemma heeds_acts:
  fixes m :: "(('w, 'z) HostSys_scheme, 'a) prog"
  assumes m: "acts (licensed W B) m"
  shows "heeds W B m"
  unfolding heeds_def
proof (intro allI impI)
  fix before and s :: "('w, 'z) HostSys_scheme"
  assume "B \<subseteq> set before"
  with m show "traces m s (\<lambda>r. orderly W before)"
    by (elim acts_traces) (rule orderly_licensed, auto simp: list_all_iff licensed_def, blast)
qed

lemma heeds_ret [heeds_rules]: "heeds W B (ret x)"
  by (auto simp: heeds_def intro: traces_ret)

lemma heeds_panic [heeds_rules]: "heeds W B panic"
  by (auto simp: heeds_def intro: traces_panic)

lemma heeds_if [heeds_rules]: "(b \<Longrightarrow> heeds W B m) \<Longrightarrow> (\<not> b \<Longrightarrow> heeds W B n) \<Longrightarrow> heeds W B (if b then m else n)"
  by simp

lemma heeds_option [heeds_rules]:
  "(p = None \<Longrightarrow> heeds W B m) \<Longrightarrow> (\<And>x. p = Some x \<Longrightarrow> heeds W B (k x)) \<Longrightarrow>
     heeds W B (case p of None \<Rightarrow> m | Some x \<Rightarrow> k x)"
  by (cases p) simp_all

lemma heeds_sum [heeds_rules]:
  "(\<And>e. p = Inl e \<Longrightarrow> heeds W B (h e)) \<Longrightarrow> (\<And>x. p = Inr x \<Longrightarrow> heeds W B (k x)) \<Longrightarrow>
     heeds W B (case p of Inl e \<Rightarrow> h e | Inr x \<Rightarrow> k x)"
  by (cases p) simp_all

lemma heeds_prod [heeds_rules]:
  "(\<And>x y. p = (x, y) \<Longrightarrow> heeds W B (k x y)) \<Longrightarrow> heeds W B (case p of (x, y) \<Rightarrow> k x y)"
  by (cases p) simp

lemma heeds_deref [heeds_rules]: "(\<And>x. p = Some x \<Longrightarrow> heeds W B (k x)) \<Longrightarrow> heeds W B (deref p k)"
  by (cases p) (simp_all add: deref_def heeds_panic)

lemma heeds_reading [heeds_rules]: "(\<And>s. heeds W B (f s)) \<Longrightarrow> heeds W B (reading f)"
  by (auto simp: heeds_def intro: traces_reading)

text \<open>Sequencing, with what the first program is known to have done.\<close>

lemma heeds_andThen_of:
  fixes m :: "(('w, 'z) HostSys_scheme, 'a) prog"
  assumes m: "\<And>s. traces m s (\<lambda>r tr. list_all (licensed W B) tr \<and> Q r tr)"
    and k: "\<And>x tr. Q (Returns x) tr \<Longrightarrow> heeds W (B \<union> set tr) (k x)"
  shows "heeds W B (andThen m k)"
  unfolding heeds_def
proof (intro allI impI)
  fix before and s :: "('w, 'z) HostSys_scheme"
  assume B: "B \<subseteq> set before"
  have o: "orderly W before tr" if "list_all (licensed W B) tr" for tr
    by (rule orderly_licensed) (use that B in \<open>auto simp: list_all_iff licensed_def, blast\<close>)
  show "traces (andThen m k) s (\<lambda>r. orderly W before)"
  proof (rule traces_andThen_of [OF m])
    fix x tr and s' :: "('w, 'z) HostSys_scheme"
    assume t: "list_all (licensed W B) tr \<and> Q (Returns x) tr"
    then have "traces (k x) s' (\<lambda>r. orderly W (before @ tr))"
      by (intro heedsD [OF k]) (use B in auto)
    then show "traces (k x) s' (\<lambda>r tr'. orderly W before (tr @ tr'))"
      by (rule traces_mono) (use t in \<open>simp add: orderly_append o\<close>)
  qed (use o in auto)
qed

lemma heeds_attempt_of:
  assumes m: "\<And>s. traces m s (\<lambda>r tr. list_all (licensed W B) tr \<and> Q r tr)"
    and "\<And>e tr. Q (Returns (Inl e)) tr \<Longrightarrow> heeds W (B \<union> set tr) (h e)"
    and "\<And>x tr. Q (Returns (Inr x)) tr \<Longrightarrow> heeds W (B \<union> set tr) (k x)"
  shows "heeds W B (attempt m h k)"
  unfolding attempt_def by (rule heeds_andThen_of [OF m]) (use assms in \<open>auto split: sum.split\<close>)

lemma heeds_guarded_of:
  assumes m: "\<And>s. traces m s (\<lambda>r tr. list_all (licensed W B) tr \<and> Q r tr)"
    and "\<And>e tr. Q (Returns (Some e)) tr \<Longrightarrow> heeds W (B \<union> set tr) (h e)"
    and "\<And>tr. Q (Returns None) tr \<Longrightarrow> heeds W (B \<union> set tr) k"
  shows "heeds W B (guarded m h k)"
  unfolding guarded_def by (rule heeds_andThen_of [OF m]) (use assms in \<open>auto split: option.split\<close>)

text \<open>Programs of which only their events are known.\<close>

lemma heeds_andThen:
  assumes "acts (licensed W B) m" and "\<And>x. heeds W B (k x)"
  shows "heeds W B (andThen m k)"
  by (rule heeds_andThen_of [where Q = "\<lambda>_ _. True"])
    (use assms in \<open>auto intro: acts_traces heeds_mono\<close>)

lemma heeds_attempt:
  "acts (licensed W B) m \<Longrightarrow> (\<And>e. heeds W B (h e)) \<Longrightarrow> (\<And>x. heeds W B (k x)) \<Longrightarrow> heeds W B (attempt m h k)"
  unfolding attempt_def by (rule heeds_andThen) (auto split: sum.split)

lemma heeds_guarded:
  "acts (licensed W B) m \<Longrightarrow> (\<And>e. heeds W B (h e)) \<Longrightarrow> heeds W B k \<Longrightarrow> heeds W B (guarded m h k)"
  unfolding guarded_def by (rule heeds_andThen) (auto split: option.split)

text \<open>Calls.\<close>

lemma heeds_called: "(\<And>r. licensed W B (ev r)) \<Longrightarrow> heeds W B (called ev m)"
  by (intro heeds_acts acts_called)

lemma heeds_attempt_called:
  assumes "\<And>r. licensed W B (ev r)" and "\<And>e. heeds W (insert (ev (Returns (Inl e))) B) (h e)"
    and "\<And>x. heeds W (insert (ev (Returns (Inr x))) B) (k x)"
  shows "heeds W B (attempt (called ev m) h k)"
  by (rule heeds_attempt_of [where Q = "\<lambda>r tr. tr = [ev r]"])
    (use assms in \<open>auto intro: traces_called\<close>)

lemma heeds_guarded_called:
  assumes "\<And>r. licensed W B (ev r)" and "\<And>e. heeds W (insert (ev (Returns (Some e))) B) (h e)"
    and "heeds W (insert (ev (Returns None)) B) k"
  shows "heeds W B (guarded (called ev m) h k)"
  by (rule heeds_guarded_of [where Q = "\<lambda>r tr. tr = [ev r]"])
    (use assms in \<open>auto intro: traces_called\<close>)

text \<open>A call of which it is known what it can answer.\<close>

lemma heeds_attempt_called_of:
  assumes "\<And>r. licensed W B (ev r)" and "\<And>e. heeds W B (h e)"
    and "\<And>x w w'. m w = (Returns (Inr x), w') \<Longrightarrow> heeds W B (k x)"
  shows "heeds W B (attempt (called ev m) h k)"
  by (rule heeds_attempt_of [where Q = "\<lambda>r tr. \<exists>w w'. m w = (r, w')"])
    (use assms in \<open>auto intro!: traces_called_of intro: heeds_mono [OF assms(3)] heeds_mono [OF assms(2)]\<close>)

text \<open>Programs of which it is known what they return.\<close>

lemma heeds_andThen_yields:
  fixes m :: "(('w, 'z) HostSys_scheme, 'a) prog"
  assumes m: "acts (licensed W B) m" and P: "yields P m" and k: "\<And>x. P x \<Longrightarrow> heeds W B (k x)"
  shows "heeds W B (andThen m k)"
proof (rule heeds_andThen_of)
  show "traces m s (\<lambda>r tr. list_all (licensed W B) tr \<and> (\<forall>x. r = Returns x \<longrightarrow> P x))"
    for s :: "('w, 'z) HostSys_scheme"
    using acts_traces [OF m, of "\<lambda>r. list_all (licensed W B)" s]
    by (auto simp: traces_def runs_def split: prod.splits intro: yieldsD [OF P])
qed (auto intro: heeds_mono [OF k])

lemma heeds_attempt_answers:
  assumes "acts (licensed W B) m" and "answers P m"
    and "\<And>e. heeds W B (h e)" and "\<And>x. P x \<Longrightarrow> heeds W B (k x)"
  shows "heeds W B (attempt m h k)"
  unfolding attempt_def
  by (rule heeds_andThen_yields [OF assms(1,2)]) (use assms(3,4) in \<open>auto split: sum.split\<close>)

end
