(* ===== verification/DomainSafety.thy ===== *)
theory DomainSafety
  imports DomainController Ordering Example
begin

text \<open>
  What reconciliations of domains (theory \<open>DomainController\<close>) never do, whatever the API server, the daemon
  and other clients do: a domain is undefined only when it is to be deleted and is shut off, its object is
  kept until the domain is gone, it is started and shut down only as its spec says, and it is defined
  only from devices that are ready and on its host.
\<close>

section \<open>What an action knows of the domain\<close>

text \<open>
  An action that was made knows what the daemon answered to the lookup by name, and the state the daemon
  reported for the handle.
\<close>

definition found :: "nat \<Rightarrow> string \<Rightarrow> DomainAction \<Rightarrow> event set \<Rightarrow> bool" where
  "found a name action evs \<longleftrightarrow> (case da_id action of
     None \<Rightarrow> \<exists>err. isCode ErrNoDomain err \<and> OnHost a (LookedUpDomain name (Returns (Inl err))) \<in> evs
   | Some d \<Rightarrow> OnHost a (LookedUpDomain name (Returns (Inr d))) \<in> evs \<and>
       (\<exists>reason. OnHost a (SawDomainState d (Returns (Inr (da_state action, reason)))) \<in> evs))"

lemma found_mono: "found a name action evs \<Longrightarrow> evs \<subseteq> evs' \<Longrightarrow> found a name action evs'"
  by (auto simp: found_def split: option.splits)

definition sawShutoff :: "nat \<Rightarrow> LvDomain \<Rightarrow> event \<Rightarrow> bool" where
  "sawShutoff a d e \<longleftrightarrow> (\<exists>reason. e = OnHost a (SawDomainState d (Returns (Inr (DomainShutoff, reason)))))"

definition sawNotShutoff :: "nat \<Rightarrow> LvDomain \<Rightarrow> event \<Rightarrow> bool" where
  "sawNotShutoff a d e \<longleftrightarrow>
     (\<exists>state reason. state \<noteq> DomainShutoff \<and> e = OnHost a (SawDomainState d (Returns (Inr (state, reason)))))"

lemma sawShutoff_SawDomainState [simp]:
  "sawShutoff a d (OnHost b (SawDomainState d' (Returns (Inr (st, reason))))) \<longleftrightarrow> b = a \<and> d' = d \<and> st = DomainShutoff"
  "\<not> sawShutoff a d (OnHost b (SawDomainState d' (Returns (Inl err))))"
  by (auto simp: sawShutoff_def)

lemma found_exists:
  assumes "found a name action B" and "da_id action = Some d"
  shows "OnHost a (LookedUpDomain name (Returns (Inr d))) \<in> B"
    and "da_state action = DomainShutoff \<Longrightarrow> \<exists>e\<in>B. sawShutoff a d e"
    and "da_state action \<noteq> DomainShutoff \<Longrightarrow> \<exists>e\<in>B. sawNotShutoff a d e"
  using assms by (auto simp: found_def sawShutoff_def sawNotShutoff_def)

lemma traces_NewDomainAction:
  "traces (NewDomainAction x (observed a cl) name) s
     (\<lambda>r tr. list_all mild tr \<and> (\<forall>action. r = Returns (Inr action) \<longrightarrow> found a name action (set tr)))"
  unfolding NewDomainAction_def observed_select
  by (intro traces_rules) (auto simp: found_def)

lemma traces_awaitShutoff:
  fixes s :: "('w, 'z) World_scheme"
  shows "traces (awaitShutoff (observed a cl) d n res) s (\<lambda>r tr. list_all mild tr \<and>
     (r = Returns None \<longrightarrow> (\<exists>e\<in>set (OnHost a (SawDomainState d (Returns res)) # tr). sawShutoff a d e)))"
proof (induction n arbitrary: res s)
  case 0
  show ?case by (cases res) (auto intro!: traces_rules)
next
  case (Suc n)
  have "traces (andThen (DomainGetState (observed a cl) d 0) (awaitShutoff (observed a cl) d n)) s
      (\<lambda>r tr. list_all mild tr \<and> (r = Returns None \<longrightarrow> (\<exists>e\<in>set tr. sawShutoff a d e)))"
    for s :: "('w, 'z) World_scheme"
    unfolding observed_select
    by (rule traces_andThen_called; (rule traces_mono [OF Suc])?) simp_all
  note w = traces_mono [OF this]
  show ?case
    by (cases res) (auto intro!: traces_rules w)
qed

definition shuttingDown :: "nat \<Rightarrow> DomainAction \<Rightarrow> event \<Rightarrow> bool" where
  "shuttingDown a action e \<longleftrightarrow> mild e \<or> (\<exists>d r. da_id action = Some d \<and> e = OnHost a (DidDomainShutdown d r))"

lemma traces_Dom_Shutdown:
  "traces (Dom_Shutdown (observed a cl) action) s (\<lambda>r tr.
     list_all (shuttingDown a action) tr \<and>
     (\<forall>d. r = Returns None \<and> da_id action = Some d \<longrightarrow> (\<exists>e\<in>set tr. sawShutoff a d e)))"
  unfolding Dom_Shutdown_def observed_select
  by (intro traces_rules traces_mono [OF traces_awaitShutoff]) (auto simp: list_all_iff shuttingDown_def)

section \<open>Deletion\<close>

fun domainGone :: "string \<Rightarrow> event \<Rightarrow> bool" where
  "domainGone name (OnHost a (LookedUpDomain n (Returns (Inl err)))) \<longleftrightarrow> n = name \<and> isCode ErrNoDomain err"
| "domainGone name (OnHost a (DidDomainUndefine d (Returns None))) \<longleftrightarrow> True"
| "domainGone name e \<longleftrightarrow> False"

fun deletionGuards :: "Domain \<Rightarrow> event \<Rightarrow> (event \<Rightarrow> bool) list" where
  "deletionGuards domain (OnHost a (DidDomainUndefine d r)) =
     [\<lambda>e. deleting domain \<and> Finalizer \<in> set (om_Finalizers (Meta domain)) \<and>
        e = OnHost a (LookedUpDomain (Domain_ResourceName domain) (Returns (Inr d))), sawShutoff a d]"
| "deletionGuards domain (DidUpdate obj r) = (if deleting domain then [domainGone (Domain_ResourceName domain)] else [])"
| "deletionGuards domain e = []"

fun isUndefine :: "event \<Rightarrow> bool" where
  "isUndefine (OnHost a (DidDomainUndefine d r)) = True"
| "isUndefine _ = False"

lemma mild_not_undefine: "mild e \<Longrightarrow> \<not> isUndefine e"
  by (cases e rule: isUndefine.cases) auto

lemma deletionGuards_kept: "\<not> deleting domain \<Longrightarrow> \<not> isUndefine e \<Longrightarrow> deletionGuards domain e = []"
  by (cases "(domain, e)" rule: deletionGuards.cases) auto

lemma deletionGuards_mild: "mild e \<Longrightarrow> deletionGuards domain e = []"
  by (cases e rule: mild.cases) auto

lemma licensed_unguarded: "W e = [] \<Longrightarrow> licensed W B e"
  by (simp add: licensed_def)

lemma licensed_shuttingDown: "list_all (shuttingDown a action) tr \<Longrightarrow> list_all (licensed (deletionGuards domain) B) tr"
  by (auto simp: list_all_iff shuttingDown_def intro!: licensed_unguarded dest!: bspec elim: deletionGuards_mild)

lemma heeds_removeFinalizer:
  assumes "\<exists>e\<in>B. domainGone (Domain_ResourceName domain) e"
  shows "heeds (deletionGuards domain) B (removeFinalizer env R obj)"
  by (intro heeds_acts acts_removeFinalizer) (use assms in \<open>simp add: licensed_def\<close>)

lemma heeds_Dom_Delete:
  assumes del: "deleting domain" "Finalizer \<in> set (om_Finalizers (Meta domain))"
    and found: "found a (Domain_ResourceName domain) action B"
    and off: "\<And>d. da_id action = Some d \<Longrightarrow> \<exists>e\<in>B. sawShutoff a d e"
  shows "heeds (deletionGuards domain) B
    (guarded (Dom_Delete (observed a cl) action) fail (removeFinalizer env R obj))"
proof (rule heeds_guarded_of)
  show "traces (Dom_Delete (observed a cl) action) s (\<lambda>r tr. list_all (licensed (deletionGuards domain) B) tr \<and>
      (r = Returns None \<longrightarrow> (\<exists>e\<in>set tr. domainGone (Domain_ResourceName domain) e)))" for s
    unfolding Dom_Delete_def observed_select
    by (intro traces_rules) (use del off found_exists(1) [OF found] in \<open>auto simp: licensed_def\<close>)
  show "heeds (deletionGuards domain) (B \<union> set tr) (removeFinalizer env R obj)"
    if "Returns None = Returns None \<longrightarrow> (\<exists>e\<in>set tr. domainGone (Domain_ResourceName domain) e)" for tr
    by (rule heeds_removeFinalizer) (use that in blast)
qed (rule heeds_ret)

lemma heeds_Domain_finalize:
  assumes del: "deleting domain" "Finalizer \<in> set (om_Finalizers (Meta domain))"
    and found: "found a (Domain_ResourceName domain) action B"
  shows "heeds (deletionGuards domain) B (Domain_finalize env (observed a cl) action domain)"
proof (cases "da_id action")
  case None
  with found show ?thesis
    by (auto simp: Domain_finalize_def DomainState_def found_def intro!: heeds_removeFinalizer bexI [rotated])
next
  case (Some d)
  have stops: "traces (if da_state action \<noteq> DomainShutoff then Dom_Shutdown (observed a cl) action else ret None) s
      (\<lambda>r tr. list_all (licensed (deletionGuards domain) B) tr \<and>
        (r = Returns None \<longrightarrow> (\<exists>e\<in>B \<union> set tr. sawShutoff a d e)))" for s
    by (intro traces_if traces_ret traces_mono [OF traces_Dom_Shutdown])
      (use found_exists [OF found Some] Some in
        \<open>auto simp: licensed_shuttingDown\<close>)
  have deletes: "heeds (deletionGuards domain) (B \<union> set tr)
      (guarded (Dom_Delete (observed a cl) action) fail (removeFinalizer env (Domains env) domain))"
    if "\<exists>e\<in>B \<union> set tr. sawShutoff a d e" for tr
    by (rule heeds_Dom_Delete [OF del found_mono [OF found]]) (use that Some in auto)
  show ?thesis
    unfolding Domain_finalize_def DomainState_def
    by (simp only: Some split simp_thms option.distinct if_True)
      (rule heeds_guarded_of [OF stops]; (rule heeds_ret | rule deletes)?; simp)
qed

text \<open>A domain that is not being deleted is never undefined.\<close>

lemma acts_Domain_notReady [acts_rules]: "(\<And>e. mild e \<Longrightarrow> E e) \<Longrightarrow> acts E (Domain_notReady env domain msg)"
  unfolding Domain_notReady_def Domain_setStatusCondition_def
  by (intro acts_rules) (simp_all add: Domains_def)

lemma acts_SetLabelOn_Domains [acts_rules]:
  "(\<And>obj r. E (DidUpdate (KDomain obj) r)) \<Longrightarrow> acts E (SetLabelOn domain k v (Domains env))"
  by (intro acts_SetLabelOn) (simp add: Domains_def)

lemma acts_Domain_power:
  assumes "\<And>e. \<not> isUndefine e \<Longrightarrow> E e"
  shows "acts E (Domain_power (observed a cl) action domain)"
proof -
  have "acts E (Dom_Shutdown (observed a cl) action)"
    unfolding Dom_Shutdown_def observed_select
    by (intro acts_rules acts_mono [OF acts_awaitShutoff]) (simp_all add: assms mild_not_undefine)
  then show ?thesis
    unfolding Domain_power_def Let_def by (intro acts_rules acts_Dom_Start) (simp_all add: assms)
qed


lemma acts_loops:
  assumes e: "\<And>e. \<not> isUndefine e \<Longrightarrow> E e" and k: "\<And>action domain. acts E (k action domain)"
  shows "acts E (Domain_disks fuel env (observed a cl) disks k action domain)"
    and "acts E (Domain_interfaces env interfaces k action domain)"
    and "acts E (Domain_pciDevices env pcis k action domain)"
    and "acts E (Domain_cloudInit fuel env (observed a cl) k action domain)"
proof -
  have m: "mild e \<Longrightarrow> E e" for e by (simp add: e mild_not_undefine)
  note disk = acts_mono [OF acts_Dom_Disk m]
  show "acts E (Domain_disks fuel env (observed a cl) disks k action domain)"
    by (induction disks arbitrary: action domain) (simp_all only: Domain_disks.simps k, intro acts_rules disk, auto intro: m e)
  show "acts E (Domain_interfaces env interfaces k action domain)"
    by (induction interfaces arbitrary: action domain) (simp_all only: Domain_interfaces.simps k Let_def, intro acts_rules, auto intro: m e)
  show "acts E (Domain_pciDevices env pcis k action domain)"
    by (induction pcis arbitrary: action domain) (simp_all only: Domain_pciDevices.simps k Let_def, intro acts_rules, auto intro: m e)
  show "acts E (Domain_cloudInit fuel env (observed a cl) k action domain)"
    unfolding Domain_cloudInit_def by (intro acts_rules disk k) (auto intro: m e)
qed

lemma acts_Domain_settings: "acts E (Domain_settings cast spec action)"
  unfolding Domain_settings_def whenSome_def by (intro acts_rules)

lemma acts_Domain_commit:
  assumes e: "\<And>e. \<not> isUndefine e \<Longrightarrow> E e"
  shows "acts E (Domain_commit env (observed a cl) host action domain)"
  unfolding Domain_commit_def Domain_setStatusCondition_def
  by (intro acts_rules acts_Dom_Create acts_Dom_Start) (simp_all add: e Domains_def)

lemma acts_Domain_managed:
  assumes e: "\<And>e. \<not> isUndefine e \<Longrightarrow> E e"
  shows "acts E (if fst (DomainState action) then Domain_existing env (observed a cl) action domain
    else Domain_create fuel env (observed a cl) host action domain)"
  unfolding Domain_existing_def Domain_create_def Domain_setStatusCondition_def Let_def
  by (intro acts_rules acts_loops acts_Domain_power acts_Domain_settings acts_Domain_commit e)
    (simp_all add: e Domains_def)

lemma traces_withFinalizer_Domain:
  assumes ok: "apimachinery_ok (e_api env)"
    and found: "found a (Domain_ResourceName domain) action (set tr)"
  shows "traces (withFinalizer env (Domains env) domain (Domain_finalize env (observed a cl) action domain) (\<lambda>domain.
     if fst (DomainState action) then Domain_existing env (observed a cl) action domain
     else Domain_create fuel env (observed a cl) host action domain)) s (\<lambda>r. orderly (deletionGuards domain) tr)"
proof (cases "deleting domain")
  case True
  with heeds_Domain_finalize [OF True _ found, of env cl] show ?thesis
    unfolding withFinalizer_def
    by (auto intro!: traces_rules simp: deleting_def heeds_def apimachinery_okD(2) [OF ok])
next
  case False
  show ?thesis
  proof (rule acts_traces [where E = "\<lambda>e. \<not> isUndefine e"])
    show "acts (\<lambda>e. \<not> isUndefine e) (withFinalizer env (Domains env) domain
        (Domain_finalize env (observed a cl) action domain) (\<lambda>domain.
        if fst (DomainState action) then Domain_existing env (observed a cl) action domain
        else Domain_create fuel env (observed a cl) host action domain))"
      using False unfolding withFinalizer_def
      by (simp add: deleting_def) (intro acts_rules acts_Domain_managed; simp)
    show "orderly (deletionGuards domain) tr tr'" if "list_all (\<lambda>e. \<not> isUndefine e) tr'" for tr'
      using that False by (intro orderly_quiet) (simp add: list_all_iff deletionGuards_kept)
  qed
qed

text \<open>What comes before the domain is looked at is mild, and what follows works on the client of a connection.\<close>

lemma traces_Domain_Reconcile:
  assumes P: "\<And>domain host a cl action before (s :: 'w sys). found a (Domain_ResourceName domain) action (set before) \<Longrightarrow>
      traces (withFinalizer env (Domains env) domain (Domain_finalize env (observed a cl) action domain) (\<lambda>domain.
        if fst (DomainState action) then Domain_existing env (observed a cl) action domain
        else Domain_create fuel env (observed a cl) host action domain)) s (\<lambda>r. orderly (W domain) before)"
    and W: "\<And>domain e. mild e \<Longrightarrow> W domain e = []"
  shows "traces (Domain_Reconcile fuel env req) s (\<lambda>r tr.
    (\<exists>res. tr = [DidGet DomainKind req res]) \<or>
    (\<exists>domain tr'. tr = DidGet DomainKind req (Returns (Inr (KDomain domain))) # tr' \<and> orderly (W domain) [] tr'))"
proof -
  have q: "orderly (W domain) before tr" if "list_all mild tr" for domain before tr
    using that by (intro orderly_quiet) (simp add: list_all_iff W)
  have c: "traces (Domain_withClient fuel env host domain (observed a cl)) s' (\<lambda>r. orderly (W domain) before)"
    for host domain a cl before and s' :: "'w sys"
    unfolding Domain_withClient_def
  proof (rule traces_attempt_of [OF traces_NewDomainAction])
    fix action tr and s'' :: "'w sys"
    assume t: "list_all mild tr \<and> (\<forall>action'. Returns (Inr action) = Returns (Inr action') \<longrightarrow>
        found a (Domain_ResourceName domain) action' (set tr))"
    show "traces (withFinalizer env (Domains env) domain (Domain_finalize env (observed a cl) action domain) (\<lambda>domain.
        if fst (DomainState action) then Domain_existing env (observed a cl) action domain
        else Domain_create fuel env (observed a cl) host action domain)) s''
        (\<lambda>r tr'. orderly (W domain) before (tr @ tr'))"
      unfolding orderly_append
      by (rule traces_mono [OF P [of a domain action "before @ tr"]])
        (use t in \<open>auto intro: found_mono q\<close>)
  qed (auto intro!: traces_rules q)
  have h: "traces (withHost env (Domains env) domain host (Domain_withClient fuel env host domain)) s'
      (\<lambda>r. orderly (W domain) [])" for domain host and s' :: "'w sys"
  proof (rule traces_withHost)
    show "traces (Domain_withClient fuel env host domain (observed a cl)) s''
        (\<lambda>r tr'. orderly (W domain) [] (tr @ tr'))" if "list_all mild tr" for a cl tr and s'' :: "'w sys"
      unfolding orderly_append by (rule traces_mono [OF c [of host domain a cl _ tr]]) (simp add: q that)
  qed (rule q)
  have g: "traces (attempt (apiGet (Hosts env) (Domain_HostRef domain))
      (\<lambda>err. unmet env (Domains env) domain (ErrorText err) (fail err))
      (\<lambda>host. withHost env (Domains env) domain host (Domain_withClient fuel env host domain))) s'
      (\<lambda>r. orderly (W domain) [])" for domain and s' :: "'w sys"
    unfolding apiGet_def
  proof (rule traces_attempt_called)
    let ?ev = "\<lambda>r. DidGet (rs_kind (Hosts env)) (Domain_HostRef domain) (one (rs_obj (Hosts env)) r)"
    show "traces (unmet env (Domains env) domain (ErrorText err) (fail err)) s''
        (\<lambda>r tr. orderly (W domain) [] (?ev (Returns (Inl err)) # tr))" for err and s'' :: "'w sys"
      by (rule acts_traces [where E = mild], intro acts_rules) (auto simp: W q)
    show "traces (withHost env (Domains env) domain host (Domain_withClient fuel env host domain)) s''
        (\<lambda>r tr. orderly (W domain) [] (?ev (Returns (Inr host)) # tr))" for host and s'' :: "'w sys"
      by (rule traces_mono [OF h]) (auto simp: W elim: orderly_mono)
  qed (auto simp: W)
  show ?thesis
    unfolding Domain_Reconcile_def getRequested_def apiGet_def [where R = "Domains env"]
    by (intro traces_rules traces_mono [OF g]) (auto simp: Domains_def)
qed

lemma Domain_Reconcile_orderly:
  assumes "apimachinery_ok (e_api env)" and "Domain_Reconcile fuel env req s = (r, s')"
  shows "(\<exists>res. newEvents s s' = [DidGet DomainKind req res]) \<or>
    (\<exists>domain tr'. newEvents s s' = DidGet DomainKind req (Returns (Inr (KDomain domain))) # tr' \<and>
       orderly (deletionGuards domain) [] tr')"
  by (rule traces_newEvents [OF traces_Domain_Reconcile assms(2)])
    (auto intro: traces_withFinalizer_Domain assms(1) deletionGuards_mild)

text \<open>A run that deletes a domain which is shut off.\<close>

definition exampleDomain :: Domain where
  "exampleDomain = \<lparr>Meta = exampleMeta ''dom'',
     Spec = \<lparr>xr_Name = ''dom0'', xr_GenerateName = '''', ds_HostRef = exampleRef ''host'',
             ds_VCPU = \<lparr>dv_Value = 2, dv_Placement = None\<rparr>, ds_CPU = None,
             ds_Memory = \<lparr>dm_Unit = ''GiB'', dm_Value = 4\<rparr>, ds_SCSIQueues = None,
             ds_Disks = [\<lparr>dd_VolumeRef = exampleRef ''vol'', dd_WWN = None\<rparr>], ds_Interfaces = [],
             ds_CloudInit = None, ds_NumatuneMode = None, ds_PCIPassthrough = [], ds_UEFI = None,
             ds_SecureBoot = None, ds_Shutoff = None\<rparr>,
     Status = \<lparr>Conditions = exampleReady\<rparr>\<rparr>"

definition exampleDomainEnv :: "unit Client \<Rightarrow> Domain \<Rightarrow> unit env" where
  "exampleDomainEnv client domain = (exampleEnv client)\<lparr>e_Domains := answering domain [],
     e_xml := exampleCodec\<lparr>dom_Unmarshal := (\<lambda>_. Inr (newDomainDef ''dom0'')),
       vol_Unmarshal := (\<lambda>_. Inr (exampleDef\<lparr>sv_Type := ''file'',
         sv_Target := Some \<lparr>svt_Path = ''/vol0'', svt_Format = Some \<lparr>svtf_Type = ''qcow2''\<rparr>\<rparr>\<rparr>))\<rparr>\<rparr>"

definition exampleDomainHandle :: LvDomain where
  "exampleDomainHandle = \<lparr>ld_Name = ''dom0''\<rparr>"

definition exampleDomainOpening :: "event list" where
  "exampleDomainOpening =
     [DidGet HostKind \<lparr>nn_Name = ''host'', nn_Namespace = ''ns''\<rparr> (Returns (Inr (KHost exampleHost))),
      OnHost 0 HostQuery, OtherCall,
      OnHost 0 (LookedUpDomain ''dom0'' (Returns (Inr exampleDomainHandle))),
      OnHost 0 (SawDomainState exampleDomainHandle (Returns (Inr (DomainShutoff, 0)))), OnHost 0 HostQuery]"

lemmas example_domain_defs = exampleDomain_def exampleDomainEnv_def exampleDomainHandle_def exampleDomainOpening_def

lemmas domain_run_defs = Domain_Reconcile_def Domain_HostRef_def withHost_def Domain_withClient_def NewDomainAction_def
  Domain_ResourceName_def DomainState_def

lemma exampleDomainDeletion_events:
  "newEvents (exampleState quietClient ()) (snd (Domain_Reconcile 0 (exampleDomainEnv quietClient (deleted exampleDomain))
       exampleRequest (exampleState quietClient ()))) =
     DidGet DomainKind exampleRequest (Returns (Inr (KDomain (deleted exampleDomain)))) # exampleDomainOpening @
     OnHost 0 (DidDomainUndefine exampleDomainHandle (Returns None)) #
     [exampleDropped KDomain (deleted exampleDomain)]"
  by (simp add: example_defs example_domain_defs run_defs domain_run_defs Domain_finalize_def Dom_Delete_def)

lemma exampleDomainEnv_ok: "apimachinery_ok (e_api (exampleDomainEnv client domain))"
  by (simp add: exampleDomainEnv_def exampleEnv_def apimachinery_ref_ok)

text \<open>C8: A domain is only ever undefined in a reconciliation that has found its object being deleted and
  holding the operator's finalizer, has looked the handle up by the object's resource name, and has seen
  the daemon report that domain shut off. So no running domain loses its definition, and none is taken
  from a host whose object is not deleted.\<close>

theorem Domain_undefine_safe:
  assumes "apimachinery_ok (e_api env)" and "Domain_Reconcile fuel env req s = (r, s')"
    and "newEvents s s' = pre @ OnHost a (DidDomainUndefine d res) # post"
  shows "\<exists>domain pre'. pre = DidGet DomainKind req (Returns (Inr (KDomain domain))) # pre' \<and>
    deleting domain \<and> Finalizer \<in> set (om_Finalizers (Meta domain)) \<and>
    OnHost a (LookedUpDomain (Domain_ResourceName domain) (Returns (Inr d))) \<in> set pre' \<and>
    (\<exists>reason. OnHost a (SawDomainState d (Returns (Inr (DomainShutoff, reason)))) \<in> set pre')"
proof -
  from Domain_Reconcile_orderly [OF assms(1,2)] assms(3) obtain domain pre'
    where p: "pre = DidGet DomainKind req (Returns (Inr (KDomain domain))) # pre'"
      and o: "orderly (deletionGuards domain) [] (pre' @ OnHost a (DidDomainUndefine d res) # post)"
    by (cases pre) auto
  from o have g: "\<exists>e'\<in>set pre'. p e'" if "p \<in> set (deletionGuards domain (OnHost a (DidDomainUndefine d res)))" for p
    using orderly_nth [OF o refl that] by simp
  have "\<exists>reason. OnHost a (SawDomainState d (Returns (Inr (DomainShutoff, reason)))) \<in> set pre'"
    using g [of "sawShutoff a d"] by (auto simp: sawShutoff_def)
  then show ?thesis
    by (intro exI [of _ domain] exI [of _ pre']) (use p g in auto)
qed

theorem Domain_undefine_safe_witness:
  "\<exists>domain pre'. DidGet DomainKind exampleRequest (Returns (Inr (KDomain (deleted exampleDomain)))) # exampleDomainOpening =
       DidGet DomainKind exampleRequest (Returns (Inr (KDomain domain))) # pre' \<and>
    deleting domain \<and> Finalizer \<in> set (om_Finalizers (Meta domain)) \<and>
    OnHost 0 (LookedUpDomain (Domain_ResourceName domain) (Returns (Inr exampleDomainHandle))) \<in> set pre' \<and>
    (\<exists>reason. OnHost 0 (SawDomainState exampleDomainHandle (Returns (Inr (DomainShutoff, reason)))) \<in> set pre')"
  by (rule Domain_undefine_safe [OF exampleDomainEnv_ok surjective_pairing
      exampleDomainDeletion_events [folded append_Cons]])

text \<open>C9: The object of a domain that is being deleted is only updated, and so loses its finalizer, after the
  daemon has said that there is no domain of that name or has undefined the domain.\<close>

theorem Domain_finalizer_kept:
  assumes "apimachinery_ok (e_api env)" and "Domain_Reconcile fuel env req s = (r, s')"
    and "newEvents s s' = DidGet DomainKind req (Returns (Inr (KDomain domain))) # pre @ DidUpdate obj res # post"
    and "deleting domain"
  shows "\<exists>e\<in>set pre. domainGone (Domain_ResourceName domain) e"
proof -
  from Domain_Reconcile_orderly [OF assms(1,2)] assms(3)
  have "orderly (deletionGuards domain) [] (pre @ DidUpdate obj res # post)" by auto
  from orderly_nth [OF this refl, of "domainGone (Domain_ResourceName domain)"] assms(4) show ?thesis by simp
qed

theorem Domain_finalizer_kept_witness:
  "\<exists>e\<in>set (exampleDomainOpening @ [OnHost 0 (DidDomainUndefine exampleDomainHandle (Returns None))]).
     domainGone (Domain_ResourceName (deleted exampleDomain)) e"
  by (rule Domain_finalizer_kept [OF exampleDomainEnv_ok surjective_pairing exampleDomainDeletion_events [THEN trans]])
    (simp_all add: exampleDropped_def deleting_def deleted_def)

end
