(* ===== verification/DomainCreation.thy ===== *)
theory DomainCreation
  imports DomainSafety
begin

text \<open>
  When a domain is defined, started and shut down. What is asked of the spec is asked of the object the
  reconciliation read. The handler goes on with the objects the API server answers its updates with, so
  the theorems assume that an update of labels, finalizers or status answers with the spec it was given
  (\<open>keepsSpec\<close>).
\<close>

definition sameSpec :: "Domain \<Rightarrow> Domain \<Rightarrow> bool" where
  "sameSpec d d' \<longleftrightarrow> Spec d = Spec d' \<and> om_Namespace (Meta d) = om_Namespace (Meta d')"

definition keepsSpec :: "'w env \<Rightarrow> bool" where
  "keepsSpec env \<longleftrightarrow> (\<forall>d d' w w'.
     k_Update (e_Domains env) d w = (Returns (Inr d'), w') \<or>
     k_StatusUpdate (e_Domains env) d w = (Returns (Inr d'), w') \<longrightarrow> sameSpec d' d)"

lemma sameSpec_refl [simp]: "sameSpec d d"
  by (simp add: sameSpec_def)

lemma sameSpec_trans: "sameSpec d d' \<Longrightarrow> sameSpec d' d'' \<Longrightarrow> sameSpec d d''"
  by (simp add: sameSpec_def)

lemma keepsSpecD:
  assumes "keepsSpec env"
  shows "k_Update (e_Domains env) d w = (Returns (Inr d'), w') \<Longrightarrow> sameSpec d' d"
    and "k_StatusUpdate (e_Domains env) d w = (Returns (Inr d'), w') \<Longrightarrow> sameSpec d' d"
  using assms unfolding keepsSpec_def by blast+

text \<open>An object is updated with its spec, and the answer is taken for the object.\<close>

lemma keepsSpec_answers:
  assumes "keepsSpec env" and "sameSpec d domain"
  shows "answers (\<lambda>d'. sameSpec d' domain) (apiUpdate (Domains env) d)"
    and "answers (\<lambda>d'. sameSpec d' domain) (apiStatusUpdate (Domains env) d)"
  unfolding apiUpdate_def apiStatusUpdate_def
  by (auto intro!: answers_called sameSpec_trans [OF _ assms(2)] dest: keepsSpecD [OF assms(1)] simp: Domains_def)

lemma answers_SetLabelOn:
  assumes "keepsSpec env" and "sameSpec d domain"
  shows "answers (\<lambda>d'. sameSpec d' domain) (SetLabelOn d k v (Domains env))"
  unfolding SetLabelOn_def
  using assms
  by (intro yields_rules keepsSpec_answers)
    (auto simp: sameSpec_def SetObjectLabel_def SetLabel_frame split: prod.splits
      dest!: arg_cong [where f = snd, of "SetLabel _ _ _"] arg_cong [where f = om_Namespace])

lemma answers_setStatusCondition:
  assumes "keepsSpec env" and "sameSpec d domain"
  shows "answers (\<lambda>d'. sameSpec d' domain) (Domain_setStatusCondition env d t st msg rs)"
  unfolding Domain_setStatusCondition_def setStatusCondition_def Let_def
  using assms by (intro yields_rules keepsSpec_answers) (auto simp: sameSpec_def)

lemma answers_addFinalizer:
  assumes ok: "apimachinery_ok (e_api env)" and "keepsSpec env" and "sameSpec d domain"
  shows "answers (\<lambda>d'. sameSpec d' domain) (addFinalizer env (Domains env) d)"
  unfolding addFinalizer_def
  using assms by (intro yields_rules keepsSpec_answers) (auto simp: sameSpec_def apimachinery_okD(1) [OF ok] split: if_splits)

section \<open>What has to come first\<close>

text \<open>
  The answers the handler needs for each device of a domain: the object of the device, ready and on the
  domain's host.
\<close>

definition gotVolume :: "'w env \<Rightarrow> Domain \<Rightarrow> DomainDisk \<Rightarrow> event \<Rightarrow> bool" where
  "gotVolume env domain disk e \<longleftrightarrow>
     (\<exists>volume. e = DidGet VolumeKind (Domain_VolumeRef domain disk) (Returns (Inr (KVolume volume))) \<and>
        isTrue env volume ConditionReady \<and> vst_Host (Status volume) = ref_Name (ds_HostRef (Spec domain)))"

definition gotNetwork :: "'w env \<Rightarrow> Domain \<Rightarrow> DomainInterface \<Rightarrow> event \<Rightarrow> bool" where
  "gotNetwork env domain i e \<longleftrightarrow>
     (\<exists>network. e = DidGet NetworkKind (Domain_NetworkRef domain i) (Returns (Inr (KNetwork network))) \<and>
        isTrue env network ConditionReady \<and> ref_Name (ns_HostRef (Spec network)) = ref_Name (ds_HostRef (Spec domain)))"

definition gotPCIDevice :: "'w env \<Rightarrow> Domain \<Rightarrow> DomainPCIPassthrough \<Rightarrow> event \<Rightarrow> bool" where
  "gotPCIDevice env domain pci e \<longleftrightarrow>
     (\<exists>device. e = DidGet PCIDeviceKind (Domain_PCIDeviceRef domain pci) (Returns (Inr (KPCIDevice device))) \<and>
        isTrue env device ConditionReady \<and> pdst_Address (Status device) \<noteq> None \<and>
        ref_Name (pds_HostRef (Spec device)) = ref_Name (ds_HostRef (Spec domain)))"

definition gotImage :: "'w env \<Rightarrow> Domain \<Rightarrow> event \<Rightarrow> bool" where
  "gotImage env domain e \<longleftrightarrow>
     (\<exists>ci ref. Domain_CloudInitRef domain = Some ref \<and> e = DidGet CloudInitKind ref (Returns (Inr (KCloudInit ci))) \<and>
        isTrue env ci ConditionReady \<and> cist_Host (Status ci) = ref_Name (ds_HostRef (Spec domain)))"

definition deviceGuards :: "'w env \<Rightarrow> Domain \<Rightarrow> (event \<Rightarrow> bool) list" where
  "deviceGuards env domain =
     map (gotVolume env domain) (ds_Disks (Spec domain)) @
     map (gotNetwork env domain) (ds_Interfaces (Spec domain)) @
     map (gotPCIDevice env domain) (ds_PCIPassthrough (Spec domain)) @
     (if ds_CloudInit (Spec domain) = None then [] else [gotImage env domain])"

definition notFound :: "nat \<Rightarrow> string \<Rightarrow> event \<Rightarrow> bool" where
  "notFound a name e \<longleftrightarrow> (\<exists>err. isCode ErrNoDomain err \<and> e = OnHost a (LookedUpDomain name (Returns (Inl err))))"

definition definedAs :: "nat \<Rightarrow> LvDomain \<Rightarrow> event \<Rightarrow> bool" where
  "definedAs a d e \<longleftrightarrow> (\<exists>xml. e = OnHost a (DidDomainDefineXML xml (Returns (Inr d))))"

fun domainGuards :: "'w env \<Rightarrow> Domain \<Rightarrow> event \<Rightarrow> (event \<Rightarrow> bool) list" where
  "domainGuards env domain (OnHost a (DidDomainDefineXML xml r)) =
     (\<lambda>e. \<not> deleting domain \<and> notFound a (Domain_ResourceName domain) e) # deviceGuards env domain"
| "domainGuards env domain (OnHost a (DidDomainCreate d r)) =
     [\<lambda>e. \<not> deleting domain \<and> ds_Shutoff (Spec domain) \<noteq> Some True \<and> (sawShutoff a d e \<or> definedAs a d e)]"
| "domainGuards env domain (OnHost a (DidDomainShutdown d r)) =
     [\<lambda>e. (deleting domain \<or> ds_Shutoff (Spec domain) = Some True) \<and>
        e = OnHost a (LookedUpDomain (Domain_ResourceName domain) (Returns (Inr d))), sawNotShutoff a d]"
| "domainGuards env domain e = []"

lemma domainGuards_mild: "mild e \<Longrightarrow> domainGuards env domain e = []"
  by (cases e rule: mild.cases) auto

lemma licensed_domain_mild: "mild e \<Longrightarrow> licensed (domainGuards env domain) B e"
  by (simp add: licensed_def domainGuards_mild)

lemma licensed_domain_update [simp]: "licensed (domainGuards env domain) B (DidUpdate obj r)"
  by (simp add: licensed_def)

section \<open>Calls of the handler, one by one\<close>

text \<open>
  What a step needs of the rest \<open>k\<close> of the handler: that it comes in order after whatever was logged so
  far, for an object with the spec that was read.
\<close>

definition orderlyRest :: "'w env \<Rightarrow> Domain \<Rightarrow> event set \<Rightarrow> 'w build \<Rightarrow> bool" where
  "orderlyRest env domain B k \<longleftrightarrow> (\<forall>action d B'. B \<subseteq> B' \<longrightarrow> da_id action = None \<longrightarrow> sameSpec d domain \<longrightarrow>
     heeds (domainGuards env domain) B' (k action d))"

lemma orderlyRestD:
  "orderlyRest env domain B k \<Longrightarrow> B \<subseteq> B' \<Longrightarrow> da_id action = None \<Longrightarrow> sameSpec d domain \<Longrightarrow>
     heeds (domainGuards env domain) B' (k action d)"
  by (simp add: orderlyRest_def)

lemma orderlyRestI:
  "(\<And>action d B'. B \<subseteq> B' \<Longrightarrow> da_id action = None \<Longrightarrow> sameSpec d domain \<Longrightarrow>
     heeds (domainGuards env domain) B' (k action d)) \<Longrightarrow> orderlyRest env domain B k"
  by (simp add: orderlyRest_def)

lemma orderlyRest_mono: "orderlyRest env domain B k \<Longrightarrow> B \<subseteq> B' \<Longrightarrow> orderlyRest env domain B' k"
  unfolding orderlyRest_def by (meson subset_trans)

text \<open>The methods of the action leave the handle alone.\<close>

lemma Dom_Disk_keeps:
  fixes c :: "'s Client"
  shows "yields (\<lambda>(r, action'). da_id action' = da_id action) (Dom_Disk fuel x c action v p wwn ro)"
  unfolding Dom_Disk_def Let_def appendDisk_def withTargetFormat_def
  by (intro yields_rules) (simp_all add: withDevices_def)

lemma heeds_Dom_Disk:
  assumes "da_id action = None" and h: "\<And>err. heeds (domainGuards env domain) B (h err)"
    and k: "\<And>action'. da_id action' = None \<Longrightarrow> heeds (domainGuards env domain) B (k action')"
  shows "heeds (domainGuards env domain) B (andThen (Dom_Disk fuel x (observed a cl) action v p wwn ro)
    (\<lambda>(r, action). case r of Some err \<Rightarrow> h err | None \<Rightarrow> k action))"
  by (rule heeds_andThen_yields [OF acts_mono [OF acts_Dom_Disk licensed_domain_mild] Dom_Disk_keeps])
    (use assms in \<open>auto split: option.split\<close>)

lemma heeds_label:
  assumes "keepsSpec env" and "sameSpec d domain"
    and "\<And>d'. sameSpec d' domain \<Longrightarrow> heeds (domainGuards env domain) B (k d')"
  shows "heeds (domainGuards env domain) B (attempt (SetLabelOn d key v (Domains env)) fail k)"
  by (rule heeds_attempt_answers [OF _ answers_SetLabelOn [OF assms(1,2)]])
    (auto intro!: acts_SetLabelOn heeds_ret assms(3))

lemma heeds_notReady: "heeds (domainGuards env domain) B (Domain_notReady env d msg)"
  by (intro heeds_acts acts_Domain_notReady licensed_domain_mild)

lemma heeds_Domain_disks:
  assumes keeps: "keepsSpec env"
  shows "da_id action = None \<Longrightarrow> sameSpec d domain \<Longrightarrow>
    (\<And>B'. B \<subseteq> B' \<Longrightarrow> \<forall>disk\<in>set disks. \<exists>e\<in>B'. gotVolume env domain disk e \<Longrightarrow> orderlyRest env domain B' k) \<Longrightarrow>
    heeds (domainGuards env domain) B (Domain_disks fuel env (observed a cl) disks k action d)"
proof (induction disks arbitrary: action d B)
  case Nil
  from Nil.prems(3) [of B] Nil.prems(1,2) show ?case by (auto dest: orderlyRestD)
next
  case (Cons disk disks)
  let ?W = "domainGuards env domain"
  let ?ev = "\<lambda>r. DidGet VolumeKind (Domain_VolumeRef d disk) (one KVolume r)"
  have ref: "Domain_VolumeRef d disk = Domain_VolumeRef domain disk" "Spec d = Spec domain"
    using Cons.prems(2) by (simp_all add: Domain_VolumeRef_def sameSpec_def)
  have step: "heeds ?W (insert (?ev (Returns (Inr volume))) B) (Domain_disks fuel env (observed a cl) disks k action' d')"
    if "isTrue env volume ConditionReady" "vst_Host (Status volume) = ref_Name (ds_HostRef (Spec d))"
      "da_id action' = None" "sameSpec d' domain" for volume action' d'
  proof (rule Cons.IH [OF that(3,4)])
    fix B' assume B': "insert (?ev (Returns (Inr volume))) B \<subseteq> B'" "\<forall>disk\<in>set disks. \<exists>e\<in>B'. gotVolume env domain disk e"
    moreover have "gotVolume env domain disk (?ev (Returns (Inr volume)))"
      using that ref by (simp add: gotVolume_def)
    ultimately show "orderlyRest env domain B' k" by (intro Cons.prems(3)) auto
  qed
  show ?case
    unfolding Domain_disks.simps apiGet_def
    by (rule heeds_attempt_called)
      (auto intro!: heeds_rules heeds_notReady heeds_Dom_Disk heeds_label keeps step [simplified] Cons.prems
        simp: licensed_domain_mild Volumes_def)
qed

lemma Dom_settings_keep:
  fixes s :: 's
  shows "yields (\<lambda>action'. da_id action' = da_id action) (Dom_VCPU action n :: ('s, DomainAction) prog)"
    and "yields (\<lambda>action'. da_id action' = da_id action) (Dom_Memory action n u :: ('s, DomainAction) prog)"
    and "yields (\<lambda>action'. da_id action' = da_id action) (Dom_Interface action nw qs mac :: ('s, DomainAction) prog)"
    and "yields (\<lambda>action'. da_id action' = da_id action) (Dom_PCIPassthrough action a b c e :: ('s, DomainAction) prog)"
  unfolding Dom_VCPU_def Dom_Memory_def Dom_Interface_def Dom_PCIPassthrough_def Let_def
  by (intro yields_rules; simp add: withDevices_def)+

lemma heeds_Dom_setting:
  assumes "acts mild m" and "yields (\<lambda>action'. da_id action' = da_id action) m" and "da_id action = None"
    and "\<And>action'. da_id action' = None \<Longrightarrow> heeds (domainGuards env domain) B (k action')"
  shows "heeds (domainGuards env domain) B (andThen m k)"
  by (rule heeds_andThen_yields [OF acts_mono [OF assms(1) licensed_domain_mild] assms(2)]) (simp_all add: assms(3,4))

lemma heeds_Domain_interfaces:
  assumes keeps: "keepsSpec env"
  shows "da_id action = None \<Longrightarrow> sameSpec d domain \<Longrightarrow>
    (\<And>B'. B \<subseteq> B' \<Longrightarrow> \<forall>i\<in>set interfaces. \<exists>e\<in>B'. gotNetwork env domain i e \<Longrightarrow> orderlyRest env domain B' k) \<Longrightarrow>
    heeds (domainGuards env domain) B (Domain_interfaces env interfaces k action d)"
proof (induction interfaces arbitrary: action d B)
  case Nil
  from Nil.prems(3) [of B] Nil.prems(1,2) show ?case by (auto dest: orderlyRestD)
next
  case (Cons i interfaces)
  let ?W = "domainGuards env domain"
  let ?ev = "\<lambda>r. DidGet NetworkKind (Domain_NetworkRef d i) (one KNetwork r)"
  have ref: "Domain_NetworkRef d i = Domain_NetworkRef domain i" "Spec d = Spec domain"
    using Cons.prems(2) by (simp_all add: Domain_NetworkRef_def sameSpec_def)
  have step: "heeds ?W (insert (?ev (Returns (Inr network))) B) (Domain_interfaces env interfaces k action' d')"
    if "isTrue env network ConditionReady" "ref_Name (ns_HostRef (Spec network)) = ref_Name (ds_HostRef (Spec d))"
      "da_id action' = None" "sameSpec d' domain" for network action' d'
  proof (rule Cons.IH [OF that(3,4)])
    fix B' assume B': "insert (?ev (Returns (Inr network))) B \<subseteq> B'" "\<forall>i\<in>set interfaces. \<exists>e\<in>B'. gotNetwork env domain i e"
    moreover have "gotNetwork env domain i (?ev (Returns (Inr network)))"
      using that ref by (simp add: gotNetwork_def)
    ultimately show "orderlyRest env domain B' k" by (intro Cons.prems(3)) auto
  qed
  show ?case
    unfolding Domain_interfaces.simps apiGet_def Let_def
    by (rule heeds_attempt_called)
      (auto intro!: heeds_rules heeds_notReady heeds_Dom_setting [OF _ Dom_settings_keep(3)] acts_Dom_settings
          heeds_label keeps step [simplified] Cons.prems
        simp: licensed_domain_mild Networks_def)
qed

lemma heeds_Domain_pciDevices:
  assumes keeps: "keepsSpec env"
  shows "da_id action = None \<Longrightarrow> sameSpec d domain \<Longrightarrow>
    (\<And>B'. B \<subseteq> B' \<Longrightarrow> \<forall>pci\<in>set pcis. \<exists>e\<in>B'. gotPCIDevice env domain pci e \<Longrightarrow> orderlyRest env domain B' k) \<Longrightarrow>
    heeds (domainGuards env domain) B (Domain_pciDevices env pcis k action d)"
proof (induction pcis arbitrary: action d B)
  case Nil
  from Nil.prems(3) [of B] Nil.prems(1,2) show ?case by (auto dest: orderlyRestD)
next
  case (Cons pci pcis)
  let ?W = "domainGuards env domain"
  let ?ev = "\<lambda>r. DidGet PCIDeviceKind (Domain_PCIDeviceRef d pci) (one KPCIDevice r)"
  have ref: "Domain_PCIDeviceRef d pci = Domain_PCIDeviceRef domain pci" "Spec d = Spec domain"
    using Cons.prems(2) by (simp_all add: Domain_PCIDeviceRef_def sameSpec_def)
  have step: "heeds ?W (insert (?ev (Returns (Inr device))) B) (Domain_pciDevices env pcis k action' d')"
    if "isTrue env device ConditionReady" "ref_Name (pds_HostRef (Spec device)) = ref_Name (ds_HostRef (Spec d))"
      "pdst_Address (Status device) = Some address" "da_id action' = None" "sameSpec d' domain" for device action' d' address
  proof (rule Cons.IH [OF that(4,5)])
    fix B' assume B': "insert (?ev (Returns (Inr device))) B \<subseteq> B'" "\<forall>pci\<in>set pcis. \<exists>e\<in>B'. gotPCIDevice env domain pci e"
    moreover have "gotPCIDevice env domain pci (?ev (Returns (Inr device)))"
      using that ref by (simp add: gotPCIDevice_def)
    ultimately show "orderlyRest env domain B' k" by (intro Cons.prems(3)) auto
  qed
  show ?case
    unfolding Domain_pciDevices.simps apiGet_def Let_def
    by (rule heeds_attempt_called)
      (auto intro!: heeds_rules heeds_notReady heeds_Dom_setting [OF _ Dom_settings_keep(4)] acts_Dom_settings
          heeds_label keeps step [simplified] Cons.prems
        simp: licensed_domain_mild PCIDevices_def)
qed

lemma heeds_Domain_cloudInit:
  assumes keeps: "keepsSpec env" and d: "da_id action = None" "sameSpec d domain"
    and k: "\<And>B'. B \<subseteq> B' \<Longrightarrow> (ds_CloudInit (Spec domain) \<noteq> None \<Longrightarrow> \<exists>e\<in>B'. gotImage env domain e) \<Longrightarrow>
      orderlyRest env domain B' k"
  shows "heeds (domainGuards env domain) B (Domain_cloudInit fuel env (observed a cl) k action d)"
proof (cases "ds_CloudInit (Spec domain) = None")
  case True
  moreover from d(2) have "Spec d = Spec domain" by (simp add: sameSpec_def)
  ultimately show ?thesis
    using orderlyRestD [OF k [of B] _ d] by (simp add: Domain_cloudInit_def)
next
  case False
  let ?W = "domainGuards env domain"
  let ?ev = "\<lambda>ref r. DidGet CloudInitKind ref (one KCloudInit r)"
  have spec: "Spec d = Spec domain" "Domain_CloudInitRef d = Domain_CloudInitRef domain"
    using d by (simp_all add: Domain_CloudInitRef_def sameSpec_def cong: option.case_cong)
  have rest: "heeds ?W (insert (?ev ref (Returns (Inr ci))) B) (k action' d')"
    if "Domain_CloudInitRef d = Some ref" "isTrue env ci ConditionReady"
      "cist_Host (Status ci) = ref_Name (ds_HostRef (Spec d))" "da_id action' = None" "sameSpec d' domain"
    for ref ci action' d'
  proof -
    have "gotImage env domain (?ev ref (Returns (Inr ci)))"
      using that spec by (simp add: gotImage_def)
    then have "orderlyRest env domain (insert (?ev ref (Returns (Inr ci))) B) k" by (intro k) auto
    then show ?thesis using that by (auto dest: orderlyRestD)
  qed
  show ?thesis
    unfolding Domain_cloudInit_def apiGet_def
    using False spec
    by (auto intro!: heeds_deref heeds_attempt_called heeds_rules heeds_notReady heeds_Dom_Disk heeds_label keeps
          rest [simplified] d
        simp: licensed_domain_mild CloudInits_def)
qed

section \<open>The handler\<close>

lemma heeds_Domain_commit:
  assumes keeps: "keepsSpec env" and d: "sameSpec d domain"
    and B: "\<not> deleting domain" "\<exists>e\<in>B. notFound a (Domain_ResourceName domain) e"
      "\<forall>p\<in>set (deviceGuards env domain). \<exists>e\<in>B. p e"
  shows "heeds (domainGuards env domain) B (Domain_commit env (observed a cl) host action d)"
proof -
  let ?W = "domainGuards env domain"
  define Q :: "(error option \<times> DomainAction) outcome \<Rightarrow> event list \<Rightarrow> bool" where
    "Q r tr \<longleftrightarrow> (\<forall>action'. r = Returns (None, action') \<longrightarrow> (\<exists>d. da_id action' = Some d \<and> (\<exists>e\<in>set tr. definedAs a d e)))" for r tr
  have making: "traces (Dom_Create (e_xml env) (observed a cl) action) s
      (\<lambda>r tr. list_all (licensed ?W B) tr \<and> Q r tr)" for s
    unfolding Dom_Create_def observed_select Q_def
    by (intro traces_rules) (use B in \<open>auto simp: licensed_def definedAs_def\<close>)
  have starts: "acts (licensed ?W B') (Dom_Start (observed a cl) action')"
    if "da_id action' = Some i" "\<exists>e\<in>B'. definedAs a i e" "ds_Shutoff (Spec domain) \<noteq> Some True" for B' action' i
    unfolding Dom_Start_def observed_select deref_def that(1) option.case
    by (rule acts_called) (use that B in \<open>auto simp: licensed_def\<close>)
  have power: "heeds ?W (B \<union> set tr) (guarded
      (if ds_Shutoff (Spec d') \<noteq> Some True then Dom_Start (observed a cl) action' else ret None) fail
      (finish (Domain_setStatusCondition env d' t st msg rs)))"
    if "Q (Returns (None, action')) tr" "sameSpec d' domain" for action' tr d' t st msg rs
  proof -
    from that obtain i where i: "da_id action' = Some i" "\<exists>e\<in>set tr. definedAs a i e" and spec: "Spec d' = Spec domain"
      by (auto simp: Q_def sameSpec_def)
    have "acts (licensed ?W (B \<union> set tr))
        (if ds_Shutoff (Spec d') \<noteq> Some True then Dom_Start (observed a cl) action' else ret None)"
      unfolding spec by (intro acts_rules starts [OF i(1)]) (use i in auto)
    then show ?thesis
      unfolding Domain_setStatusCondition_def
      by (intro heeds_guarded heeds_ret heeds_acts [OF acts_finish] acts_setStatusCondition licensed_domain_mild) simp_all
  qed
  have reports: "heeds ?W B' (attempt (Domain_setStatusCondition env d t st msg rs) fail (\<lambda>_. fail err))" for B' t st msg rs err
    unfolding Domain_setStatusCondition_def
    by (intro heeds_attempt heeds_ret acts_setStatusCondition licensed_domain_mild) simp_all
  show ?thesis
    unfolding Domain_commit_def
    by (rule heeds_andThen_of [OF making], intro heeds_prod heeds_option)
      (simp_all only:, rule heeds_label [OF keeps d power], assumption+, rule reports)
qed

lemma deviceGuards_got:
  "p \<in> set (deviceGuards env domain) \<longleftrightarrow>
     (\<exists>disk\<in>set (ds_Disks (Spec domain)). p = gotVolume env domain disk) \<or>
     (\<exists>i\<in>set (ds_Interfaces (Spec domain)). p = gotNetwork env domain i) \<or>
     (\<exists>pci\<in>set (ds_PCIPassthrough (Spec domain)). p = gotPCIDevice env domain pci) \<or>
     (ds_CloudInit (Spec domain) \<noteq> None \<and> p = gotImage env domain)"
  by (auto simp: deviceGuards_def)

lemma deviceGuards_all:
  "(\<forall>p\<in>set (deviceGuards env domain). Q p) \<longleftrightarrow>
     (\<forall>disk\<in>set (ds_Disks (Spec domain)). Q (gotVolume env domain disk)) \<and>
     (\<forall>i\<in>set (ds_Interfaces (Spec domain)). Q (gotNetwork env domain i)) \<and>
     (\<forall>pci\<in>set (ds_PCIPassthrough (Spec domain)). Q (gotPCIDevice env domain pci)) \<and>
     (ds_CloudInit (Spec domain) \<noteq> None \<longrightarrow> Q (gotImage env domain))"
  by (auto simp: deviceGuards_def)

lemma Domain_settings_keep:
  "yields (\<lambda>action'. da_id action' = da_id action) (Domain_settings cast spec action)"
proof -
  let ?Q = "\<lambda>action'. da_id action' = da_id action"
  have opt: "yields ?Q (whenSome p f action')" if "?Q action'" "\<And>x action'. ?Q action' \<Longrightarrow> yields ?Q (f x action')" for p f action'
    using that unfolding whenSome_def by (intro yields_rules) simp_all
  have set: "yields ?Q (Dom_SCSIMultiqueue action' q)" "yields ?Q (Dom_UEFI action')"
    "yields ?Q (Dom_NoSecureBoot action')" "yields ?Q (Dom_VCPUPlacement action' pl)" if "?Q action'" for action' q pl
    unfolding Dom_SCSIMultiqueue_def Dom_UEFI_def Dom_NoSecureBoot_def Dom_VCPUPlacement_def
    by (intro yields_rules; simp add: withDevices_def that)+
  show ?thesis
    unfolding Domain_settings_def
    by (intro yields_andThen_of [where Q = ?Q] opt yields_if set yields_ret)
      (simp_all add: Dom_NumatuneMode_def Dom_CPUMode_def Dom_CPUCacheMode_def)
qed

lemma heeds_Domain_create:
  assumes keeps: "keepsSpec env" and a: "da_id action = None" and d: "sameSpec d domain"
    and B: "\<not> deleting domain" "\<exists>e\<in>B. notFound a (Domain_ResourceName domain) e"
  shows "heeds (domainGuards env domain) B (Domain_create fuel env (observed a cl) host action d)"
proof -
  have spec: "Spec d' = Spec domain" if "sameSpec d' domain" for d' using that by (simp add: sameSpec_def)
  have rest: "orderlyRest env domain B4 (Domain_commit env (observed a cl) host)"
    if g: "B \<subseteq> B1" "\<forall>disk\<in>set (ds_Disks (Spec domain)). \<exists>e\<in>B1. gotVolume env domain disk e"
      "B1 \<subseteq> B2" "\<forall>i\<in>set (ds_Interfaces (Spec domain)). \<exists>e\<in>B2. gotNetwork env domain i e"
      "B2 \<subseteq> B3" "\<forall>pci\<in>set (ds_PCIPassthrough (Spec domain)). \<exists>e\<in>B3. gotPCIDevice env domain pci e"
      "B3 \<subseteq> B4" "ds_CloudInit (Spec domain) \<noteq> None \<Longrightarrow> \<exists>e\<in>B4. gotImage env domain e" for B1 B2 B3 B4
  proof -
    have "\<exists>e\<in>B4. p e" if "p \<in> set (deviceGuards env domain)" for p
      using that g unfolding deviceGuards_got by - (elim disjE bexE conjE; hypsubst; blast)
    moreover have "\<exists>e\<in>B4. notFound a (Domain_ResourceName domain) e" using B g(1,3,5,7) by blast
    ultimately show ?thesis
      unfolding orderlyRest_def by (intro allI impI heeds_mono [OF heeds_Domain_commit [OF keeps _ B(1)]]) auto
  qed
  have image: "orderlyRest env domain B3 (\<lambda>action d. andThen (Domain_settings (e_cast env) (Spec d) action) (\<lambda>action.
      Domain_cloudInit fuel env (observed a cl) (Domain_commit env (observed a cl) host) action d))"
    if g: "B \<subseteq> B1" "\<forall>disk\<in>set (ds_Disks (Spec domain)). \<exists>e\<in>B1. gotVolume env domain disk e"
      "B1 \<subseteq> B2" "\<forall>i\<in>set (ds_Interfaces (Spec domain)). \<exists>e\<in>B2. gotNetwork env domain i e"
      "B2 \<subseteq> B3" "\<forall>pci\<in>set (ds_PCIPassthrough (Spec domain)). \<exists>e\<in>B3. gotPCIDevice env domain pci e" for B1 B2 B3
    unfolding orderlyRest_def
    by (intro allI impI heeds_Dom_setting [OF acts_Domain_settings Domain_settings_keep] heeds_Domain_cloudInit [OF keeps])
      (use rest [OF g] in auto)
  let ?image = "\<lambda>action d. andThen (Domain_settings (e_cast env) (Spec d) action) (\<lambda>action.
      Domain_cloudInit fuel env (observed a cl) (Domain_commit env (observed a cl) host) action d)"
  let ?pcis = "\<lambda>action d. Domain_pciDevices env (ds_PCIPassthrough (Spec d)) ?image action d"
  let ?interfaces = "\<lambda>action d. Domain_interfaces env (ds_Interfaces (Spec d)) ?pcis action d"
  have pcis: "orderlyRest env domain B2 ?pcis"
    if g: "B \<subseteq> B1" "\<forall>disk\<in>set (ds_Disks (Spec domain)). \<exists>e\<in>B1. gotVolume env domain disk e"
      "B1 \<subseteq> B2" "\<forall>i\<in>set (ds_Interfaces (Spec domain)). \<exists>e\<in>B2. gotNetwork env domain i e" for B1 B2
  proof (rule orderlyRestI)
    fix action :: DomainAction and d B3 assume d: "B2 \<subseteq> B3" "da_id action = None" "sameSpec d domain"
    show "heeds (domainGuards env domain) B3 (?pcis action d)"
      unfolding spec [OF d(3)]
      by (rule heeds_Domain_pciDevices [OF keeps d(2,3)]) (use image [OF g] d(1) in blast)
  qed
  have interfaces: "orderlyRest env domain B1 ?interfaces"
    if g: "B \<subseteq> B1" "\<forall>disk\<in>set (ds_Disks (Spec domain)). \<exists>e\<in>B1. gotVolume env domain disk e" for B1
  proof (rule orderlyRestI)
    fix action :: DomainAction and d B2 assume d: "B1 \<subseteq> B2" "da_id action = None" "sameSpec d domain"
    show "heeds (domainGuards env domain) B2 (?interfaces action d)"
      unfolding spec [OF d(3)]
      by (rule heeds_Domain_interfaces [OF keeps d(2,3)]) (use pcis [OF g] d(1) in blast)
  qed
  show ?thesis
    unfolding Domain_create_def Let_def spec [OF d]
    by (intro heeds_Dom_setting [OF acts_Dom_settings(1) Dom_settings_keep(1) a]
        heeds_Dom_setting [OF acts_Dom_settings(3) Dom_settings_keep(2)] heeds_Domain_disks [OF keeps] d interfaces)
      (auto simp: a)
qed

lemma acts_Dom_Shutdown:
  assumes "\<And>e. mild e \<Longrightarrow> E e" and "\<And>d r. da_id action = Some d \<Longrightarrow> E (OnHost a (DidDomainShutdown d r))"
  shows "acts E (Dom_Shutdown (observed a cl) action)"
  unfolding Dom_Shutdown_def observed_select
  by (intro acts_rules acts_mono [OF acts_awaitShutoff]) (simp_all add: assms)

lemma acts_Domain_power':
  assumes d: "\<not> deleting domain" "sameSpec d domain" and found: "found a (Domain_ResourceName domain) action B"
    and ex: "da_id action = Some i"
  shows "acts (licensed (domainGuards env domain) B) (Domain_power (observed a cl) action d)"
proof -
  let ?W = "domainGuards env domain"
  note seen = found_exists [OF found ex]
  have spec: "Spec d = Spec domain" using d by (simp add: sameSpec_def)
  have "acts (licensed ?W B) (Dom_Shutdown (observed a cl) action)"
    if "ds_Shutoff (Spec domain) = Some True" "da_state action \<noteq> DomainShutoff"
    by (rule acts_Dom_Shutdown) (use that seen ex in \<open>auto simp: licensed_domain_mild licensed_def domainGuards_mild\<close>)
  moreover have "acts (licensed ?W B) (Dom_Start (observed a cl) action)"
    if "ds_Shutoff (Spec domain) \<noteq> Some True" "da_state action = DomainShutoff"
    unfolding Dom_Start_def observed_select ex deref_def option.case
    by (rule acts_called) (use that seen(2) d in \<open>auto simp: licensed_def\<close>)
  ultimately show ?thesis
    unfolding Domain_power_def DomainState_def Let_def spec snd_conv by (intro acts_rules) simp_all
qed

lemma heeds_Domain_existing:
  assumes keeps: "keepsSpec env" and d: "\<not> deleting domain" "sameSpec d domain"
    and found: "found a (Domain_ResourceName domain) action B" and ex: "da_id action = Some i"
  shows "heeds (domainGuards env domain) B (Domain_existing env (observed a cl) action d)"
proof -
  have "acts (licensed (domainGuards env domain) B) (Domain_setStatusCondition env d t st msg rs)" for t st msg rs
    unfolding Domain_setStatusCondition_def by (intro acts_setStatusCondition licensed_domain_mild) simp_all
  then show ?thesis
    unfolding Domain_existing_def
    by (intro heeds_if heeds_acts [OF acts_Domain_power' [OF d found ex]]
        heeds_attempt_answers [OF _ answers_setStatusCondition [OF keeps d(2)]] heeds_ret
        heeds_acts [OF acts_Domain_power' [OF d(1) _ found ex]])
qed

lemma heeds_Domain_finalize_power:
  assumes del: "deleting domain" and found: "found a (Domain_ResourceName domain) action B"
  shows "heeds (domainGuards env domain) B (Domain_finalize env (observed a cl) action domain)"
proof -
  let ?W = "domainGuards env domain"
  have off: "acts (licensed ?W B) (if da_state action \<noteq> DomainShutoff then Dom_Shutdown (observed a cl) action else ret None)"
    by (intro acts_rules acts_Dom_Shutdown)
      (use found_exists [OF found] del in \<open>auto simp: licensed_domain_mild licensed_def domainGuards_mild\<close>)
  have gone: "acts (licensed ?W B) (Dom_Delete (observed a cl) action)"
    unfolding Dom_Delete_def observed_select by (intro acts_rules) (simp add: licensed_def)
  show ?thesis
    unfolding Domain_finalize_def DomainState_def prod.case
    by (intro heeds_acts acts_rules off gone) simp_all
qed

lemma traces_Domain_managed:
  assumes ok: "apimachinery_ok (e_api env)" and keeps: "keepsSpec env"
    and found: "found a (Domain_ResourceName domain) action (set before)"
  shows "traces (withFinalizer env (Domains env) domain (Domain_finalize env (observed a cl) action domain) (\<lambda>domain.
     if fst (DomainState action) then Domain_existing env (observed a cl) action domain
     else Domain_create fuel env (observed a cl) host action domain)) s (\<lambda>r. orderly (domainGuards env domain) before)"
proof (cases "deleting domain")
  case True
  from heedsD [OF heeds_Domain_finalize_power [OF True found] subset_refl] show ?thesis
    unfolding withFinalizer_def using True by (auto intro!: traces_rules simp: deleting_def)
next
  case False
  have managed: "heeds (domainGuards env domain) (set before)
      (if fst (DomainState action) then Domain_existing env (observed a cl) action d
       else Domain_create fuel env (observed a cl) host action d)" if d: "sameSpec d domain" for d
  proof (cases "da_id action")
    case None
    with found have "\<exists>e\<in>set before. notFound a (Domain_ResourceName domain) e"
      by (auto simp: found_def notFound_def)
    with None show ?thesis
      by (simp add: DomainState_def heeds_Domain_create [OF keeps None d False])
  next
    case (Some i)
    then show ?thesis by (simp add: DomainState_def heeds_Domain_existing [OF keeps False d found Some])
  qed
  have "heeds (domainGuards env domain) (set before) (attempt (addFinalizer env (Domains env) domain) fail (\<lambda>domain.
      if fst (DomainState action) then Domain_existing env (observed a cl) action domain
      else Domain_create fuel env (observed a cl) host action domain))"
    by (rule heeds_attempt_answers [OF _ answers_addFinalizer [OF ok keeps sameSpec_refl]])
      (rule acts_addFinalizer, simp, rule heeds_ret, erule managed)
  from heedsD [OF this subset_refl] show ?thesis
    unfolding withFinalizer_def using False by (simp add: deleting_def)
qed

lemma Domain_Reconcile_managed:
  assumes "apimachinery_ok (e_api env)" and "keepsSpec env" and "Domain_Reconcile fuel env req s = (r, s')"
  shows "(\<exists>res. newEvents s s' = [DidGet DomainKind req res]) \<or>
    (\<exists>domain tr'. newEvents s s' = DidGet DomainKind req (Returns (Inr (KDomain domain))) # tr' \<and>
       orderly (domainGuards env domain) [] tr')"
  by (rule traces_newEvents [OF traces_Domain_Reconcile assms(3)])
    (auto intro: traces_Domain_managed assms(1,2) domainGuards_mild)

section \<open>When a domain is defined, started and shut down\<close>

text \<open>A daemon that does not know the domain, and one that runs it and refuses to shut it down.\<close>

definition emptyHostClient :: "'w Client" where
  "emptyHostClient = quietClient\<lparr>
     DomainLookupByName := (\<lambda>_. ret (Inl (LibvirtError ErrNoDomain ''no domain''))),
     DomainDefineXML := (\<lambda>_. ret (Inr exampleDomainHandle))\<rparr>"

definition busyClient :: "'w Client" where
  "busyClient = quietClient\<lparr>DomainGetState := (\<lambda>_ _. ret (Inr (DomainRunning, 0))),
     DomainShutdown := (\<lambda>_. ret (Some (PlainError ''busy'')))\<rparr>"

definition exampleShutoff :: Domain where
  "exampleShutoff = exampleDomain\<lparr>Spec := (Spec exampleDomain)\<lparr>ds_Shutoff := Some True\<rparr>\<rparr>"

lemma exampleDomainEnv_keeps: "keepsSpec (exampleDomainEnv client domain)"
  by (simp add: keepsSpec_def exampleDomainEnv_def answering_def ret_def)

text \<open>The run that defines the example domain, and the part of it that comes before the definition.\<close>

definition exampleDefinition :: "event list" where
  "exampleDefinition = newEvents (exampleState emptyHostClient ()) (snd (Domain_Reconcile 0
     (exampleDomainEnv emptyHostClient exampleDomain) exampleRequest (exampleState emptyHostClient ())))"

definition exampleDefinitionBefore :: "event list" where
  "exampleDefinitionBefore =
     [DidGet DomainKind exampleRequest (Returns (Inr (KDomain exampleDomain))),
      DidGet HostKind \<lparr>nn_Name = ''host'', nn_Namespace = ''ns''\<rparr> (Returns (Inr (KHost exampleHost))),
      OnHost 0 HostQuery, OtherCall,
      OnHost 0 (LookedUpDomain ''dom0'' (Returns (Inl (LibvirtError ErrNoDomain ''no domain'')))),
      DidGet VolumeKind \<lparr>nn_Name = ''vol'', nn_Namespace = ''ns''\<rparr> (Returns (Inr (KVolume exampleVolume))),
      OnHost 0 HostQuery,
      OnHost 0 (LookedUpVolume \<lparr>lsp_Name = ''default''\<rparr> ''vol0'' (Returns (Inr (exampleHandle ''vol0'')))),
      OnHost 0 HostQuery,
      let d = snd (SetObjectLabel exampleDomain (DiskLabelPrefix @ ''/vol'') '''') in
      DidUpdate (KDomain d) (Returns (Inr (KDomain d)))]"

lemmas domain_create_defs = Domain_create_def Dom_VCPU_def Dom_Memory_def newDomainDef_def addFinalizer_def
  Domain_VolumeRef_def Dom_Disk_def getNextAvailableTargetDev_def Domain_settings_def whenSome_def Domain_cloudInit_def
  Domain_commit_def Volume_ResourceName_def nextTargetDev.simps letters_def getVolumeSourceDescription_def
  withTargetFormat_def setDomainDiskSource_def appendDisk_def withDevices_def emptyDiskSource_def emptyStorageVolume_def
  SetLabelOn_def SetObjectLabel_def SetLabel_def Dom_Create_def Dom_Start_def Domain_setStatusCondition_def
  setStatusCondition_def

lemma exampleDefinition_starts:
  "take 11 exampleDefinition =
     exampleDefinitionBefore @ [OnHost 0 (DidDomainDefineXML ''domain'' (Returns (Inr exampleDomainHandle)))]"
  by (simp add: exampleDefinition_def exampleDefinitionBefore_def example_defs example_domain_defs run_defs domain_run_defs
      emptyHostClient_def domain_create_defs)

lemma exampleDefinition_events:
  "exampleDefinition = exampleDefinitionBefore @
     OnHost 0 (DidDomainDefineXML ''domain'' (Returns (Inr exampleDomainHandle))) # drop 11 exampleDefinition"
  using append_take_drop_id [of 11 exampleDefinition] by (simp add: exampleDefinition_starts)



text \<open>C11: A domain is only ever started in a reconciliation whose object is not being deleted and does not ask for
  the domain to be shut off, after the daemon has reported that domain shut off or has just defined it.\<close>

theorem Domain_started_as_asked:
  assumes "apimachinery_ok (e_api env)" and "keepsSpec env" and "Domain_Reconcile fuel env req s = (r, s')"
    and "newEvents s s' = pre @ OnHost a (DidDomainCreate d res) # post"
  shows "\<exists>domain pre'. pre = DidGet DomainKind req (Returns (Inr (KDomain domain))) # pre' \<and> \<not> deleting domain \<and>
    ds_Shutoff (Spec domain) \<noteq> Some True \<and> (\<exists>e\<in>set pre'. sawShutoff a d e \<or> definedAs a d e)"
proof -
  from Domain_Reconcile_managed [OF assms(1-3)] assms(4) obtain domain pre'
    where p: "pre = DidGet DomainKind req (Returns (Inr (KDomain domain))) # pre'"
      and o: "orderly (domainGuards env domain) [] (pre' @ OnHost a (DidDomainCreate d res) # post)"
    by (cases pre) auto
  from orderly_nth [OF o refl, of "hd (domainGuards env domain (OnHost a (DidDomainCreate d res)))"]
  show ?thesis by (intro exI [of _ domain] exI [of _ pre']) (auto simp: p)
qed

lemma exampleStart_events:
  "newEvents (exampleState quietClient ()) (snd (Domain_Reconcile 0 (exampleDomainEnv quietClient exampleDomain)
       exampleRequest (exampleState quietClient ()))) =
     (DidGet DomainKind exampleRequest (Returns (Inr (KDomain exampleDomain))) # exampleDomainOpening) @
     OnHost 0 (DidDomainCreate exampleDomainHandle (Returns None)) # []"
  by (simp add: example_defs example_domain_defs run_defs domain_run_defs addFinalizer_def Domain_existing_def Domain_power_def
      Dom_Start_def)

theorem Domain_started_as_asked_witness:
  "\<exists>domain pre'. DidGet DomainKind exampleRequest (Returns (Inr (KDomain exampleDomain))) # exampleDomainOpening =
       DidGet DomainKind exampleRequest (Returns (Inr (KDomain domain))) # pre' \<and> \<not> deleting domain \<and>
    ds_Shutoff (Spec domain) \<noteq> Some True \<and>
    (\<exists>e\<in>set pre'. sawShutoff 0 exampleDomainHandle e \<or> definedAs 0 exampleDomainHandle e)"
  by (rule Domain_started_as_asked [OF exampleDomainEnv_ok exampleDomainEnv_keeps surjective_pairing exampleStart_events])


definition exampleShutdownBefore :: "event list" where
  "exampleShutdownBefore = DidGet DomainKind exampleRequest (Returns (Inr (KDomain exampleShutoff))) #
     take 4 exampleDomainOpening @
     [OnHost 0 (SawDomainState exampleDomainHandle (Returns (Inr (DomainRunning, 0)))), OnHost 0 HostQuery]"

lemma exampleShutdown_events:
  "newEvents (exampleState busyClient ()) (snd (Domain_Reconcile 0 (exampleDomainEnv busyClient exampleShutoff)
       exampleRequest (exampleState busyClient ()))) =
     exampleShutdownBefore @
     OnHost 0 (DidDomainShutdown exampleDomainHandle (Returns (Some (PlainError ''busy'')))) # []"
  by (simp add: example_defs example_domain_defs run_defs domain_run_defs addFinalizer_def Domain_existing_def Domain_power_def
      Dom_Shutdown_def busyClient_def exampleShutoff_def exampleShutdownBefore_def)


section \<open>Volumes that are being deleted\<close>

text \<open>
  A volume that is being deleted is ready until it is gone, and nothing else is asked of it: the example domain is
  defined with such a volume as well. Its own controller may have seen no users before the label was set.
\<close>

definition deletingVolumeEnv :: "unit env" where
  "deletingVolumeEnv = (exampleDomainEnv emptyHostClient exampleDomain)\<lparr>e_Volumes := answering (deleted exampleVolume) []\<rparr>"

lemma Domain_defined_on_deleted_volume:
  "OnHost 0 (DidDomainDefineXML ''domain'' (Returns (Inr exampleDomainHandle))) \<in> set (take 11
     (newEvents (exampleState emptyHostClient ()) (snd (Domain_Reconcile 0 deletingVolumeEnv exampleRequest
       (exampleState emptyHostClient ())))))"
  by (simp add: deletingVolumeEnv_def example_defs example_domain_defs run_defs domain_run_defs
      emptyHostClient_def domain_create_defs)

end
