(* ===== verification/DomainDisks.thy ===== *)
theory DomainDisks
  imports DomainCreation
begin

text \<open>
  The disks of a domain (\<open>Disk\<close> and \<open>getNextAvailableTargetDev\<close> of \<^verbatim>\<open>internal/action/domain.go\<close>): the names they
  get, what is described of a volume and of the images below it, and that the walk over those ends.
\<close>

section \<open>Target names\<close>

definition targetDevs :: "DomainDiskXML list \<Rightarrow> string list" where
  "targetDevs disks = map (\<lambda>d. case dx_Target d of None \<Rightarrow> '''' | Some t \<Rightarrow> ddt_Dev t) disks"

definition allTargets :: "DomainDiskXML list \<Rightarrow> bool" where
  "allTargets disks \<longleftrightarrow> list_all (\<lambda>d. dx_Target d \<noteq> None) disks"

lemma devInUse_total: "allTargets disks \<Longrightarrow> devInUse disks dev = Returns (dev \<in> set (targetDevs disks))"
  by (induction disks) (auto simp: allTargets_def targetDevs_def)

text \<open>The sequence of names, and that no name comes twice in it.\<close>

definition diskName :: "nat \<Rightarrow> string" where
  "diskName k = ''sd'' @ (succId ^^ k) ''a''"

lemma idRank_iterate: "(succId ^^ k) ''a'' \<noteq> [] \<and> idRank ((succId ^^ k) ''a'') = Suc k"
proof (induction k)
  case 0
  show ?case using index_letters [of 0] by (simp add: idRank_def letters_def)
next
  case (Suc k)
  then show ?case by (simp add: idRank_succId)
qed

lemma inj_diskName: "inj diskName"
  by (rule injI) (metis diskName_def append_same_eq idRank_iterate nat.inject same_append_eq)

lemma nextTargetDev_from:
  assumes all: "allTargets disks"
  shows "\<exists>k\<ge>i. nextTargetDev disks ((succId ^^ i) ''a'') = Returns (diskName k) \<and> diskName k \<notin> set (targetDevs disks) \<and>
    (\<forall>j. i \<le> j \<and> j < k \<longrightarrow> diskName j \<in> set (targetDevs disks))"
proof (induction "length (disksFrom disks ((succId ^^ i) ''a''))" arbitrary: i rule: less_induct)
  case less
  note ne = idRank_iterate [of i, THEN conjunct1]
  show ?case
  proof (cases "diskName i \<in> set (targetDevs disks)")
    case True
    then have used: "devInUse disks (''sd'' @ (succId ^^ i) ''a'') = Returns True"
      by (simp add: devInUse_total [OF all] diskName_def)
    then have "length (disksFrom disks (succId ((succId ^^ i) ''a''))) < length (disksFrom disks ((succId ^^ i) ''a''))"
      by (rule disksFrom_less [OF _ ne])
    then have "length (disksFrom disks ((succId ^^ Suc i) ''a'')) < length (disksFrom disks ((succId ^^ i) ''a''))" by simp
    from less [OF this] obtain k where k: "Suc i \<le> k" "nextTargetDev disks ((succId ^^ Suc i) ''a'') = Returns (diskName k)"
      "diskName k \<notin> set (targetDevs disks)" "\<forall>j. Suc i \<le> j \<and> j < k \<longrightarrow> diskName j \<in> set (targetDevs disks)" by blast
    have "nextTargetDev disks ((succId ^^ i) ''a'') = Returns (diskName k)"
      using ne k(2) used by (simp add: nextTargetDev.simps [of disks "(succId ^^ i) ''a''"])
    moreover have "diskName j \<in> set (targetDevs disks)" if "i \<le> j" "j < k" for j
      using that True k(4) by (cases "j = i") auto
    ultimately show ?thesis using k(1,3) by (intro exI [of _ k]) auto
  next
    case False
    then show ?thesis by (intro exI [of _ i]) (auto simp: nextTargetDev.simps [of disks "(succId ^^ i) ''a''"] devInUse_total [OF all] diskName_def)
  qed
qed

text \<open>The device name of a new disk is the first one of the sequence sda, ..., sdz, sdza, ... that no disk of the
  definition has, and the search ends after at most as many steps as there are disks.\<close>

theorem getNextAvailableTargetDev_first:
  assumes "dom_Devices (da_def action) = Some devs" and "allTargets (ddl_Disks devs)"
  shows "\<exists>k\<le>length (ddl_Disks devs). getNextAvailableTargetDev action = Returns (diskName k) \<and>
    diskName k \<notin> set (targetDevs (ddl_Disks devs)) \<and> (\<forall>j<k. diskName j \<in> set (targetDevs (ddl_Disks devs)))"
proof -
  obtain k where k: "nextTargetDev (ddl_Disks devs) ''a'' = Returns (diskName k)"
    "diskName k \<notin> set (targetDevs (ddl_Disks devs))" "\<forall>j<k. diskName j \<in> set (targetDevs (ddl_Disks devs))"
    using nextTargetDev_from [OF assms(2), of 0] by auto
  have "card (diskName ` {..<k}) \<le> card (set (targetDevs (ddl_Disks devs)))"
    by (rule card_mono) (use k(3) in auto)
  then have "k \<le> length (ddl_Disks devs)"
    using card_length [of "targetDevs (ddl_Disks devs)"]
    by (simp add: card_image [OF inj_on_subset [OF inj_diskName subset_UNIV]]) (simp add: targetDevs_def)
  with k show ?thesis
    by (intro exI [of _ k]) (simp add: getNextAvailableTargetDev_def assms(1) letters_def)
qed

definition targetsOk :: "DomainAction \<Rightarrow> bool" where
  "targetsOk action = (case dom_Devices (da_def action) of None \<Rightarrow> False
     | Some devs \<Rightarrow> allTargets (ddl_Disks devs) \<and> distinct (targetDevs (ddl_Disks devs)))"

text \<open>C36: Adding volumes to a domain never gives two disks the same device name, whatever the daemon answers.\<close>

theorem Dom_Disk_keeps_targets_distinct:
  assumes "targetsOk action" and "Dom_Disk fuel x c action v p wwn ro s = (Returns (r, action'), s')"
  shows "targetsOk action'"
proof -
  from assms(1) obtain devs where devs: "dom_Devices (da_def action) = Some devs" "allTargets (ddl_Disks devs)"
    "distinct (targetDevs (ddl_Disks devs))" by (auto simp: targetsOk_def split: option.splits)
  obtain dev where dev: "getNextAvailableTargetDev action = Returns dev" "dev \<notin> set (targetDevs (ddl_Disks devs))"
    using getNextAvailableTargetDev_first [OF devs(1,2)] by blast
  have append: "targetsOk (withDevices action (devs\<lparr>ddl_Disks := ddl_Disks devs @ [d]\<rparr>))"
    if "map_option ddt_Dev (dx_Target d) = Some dev" for d
    using that devs dev by (auto simp: targetsOk_def withDevices_def allTargets_def targetDevs_def)
  have step: "yields (\<lambda>(r, action'). targetsOk action') (appendDisk action d)"
    if "map_option ddt_Dev (dx_Target d) = Some dev" for d
    unfolding appendDisk_def by (intro yields_rules) (use append [OF that] devs in simp)
  have getNext: "yields (\<lambda>dev'. dev' = dev) (\<lambda>s. (getNextAvailableTargetDev action, s))"
    by (simp add: yields_def dev)
  have "yields (\<lambda>(r, action'). targetsOk action') (Dom_Disk fuel x c action v p wwn ro)"
    unfolding Dom_Disk_def Let_def withTargetFormat_def
    by (intro yields_andThen_of [OF getNext] yields_rules step; simp add: assms(1) split: option.split)+
  from yieldsD [OF this assms(2)] show ?thesis by simp
qed

section \<open>Disks and their backing stores\<close>

text \<open>
  A daemon in state \<open>s\<close> whose queries leave the state alone and describe the volume with a key, or the volume
  of a pool, as a store of descriptions says.
\<close>

definition describesKeys :: "xmlcodec \<Rightarrow> 's Client \<Rightarrow> 's \<Rightarrow> (string \<rightharpoonup> StorageVolume) \<Rightarrow> bool" where
  "describesKeys x c s store \<longleftrightarrow> (\<forall>key desc. store key = Some desc \<longrightarrow> (\<exists>v xml.
     StorageVolLookupByKey c key s = (Returns (Inr v), s) \<and> StorageVolGetXMLDesc c v 0 s = (Returns (Inr xml), s) \<and>
     vol_Unmarshal x xml = Inr desc))"

definition describesVolume :: "xmlcodec \<Rightarrow> 's Client \<Rightarrow> 's \<Rightarrow> string \<Rightarrow> string \<Rightarrow> StorageVolume \<Rightarrow> bool" where
  "describesVolume x c s pool volume desc \<longleftrightarrow> (\<exists>p v xml.
     StoragePoolLookupByName c pool s = (Returns (Inr p), s) \<and>
     StorageVolLookupByName c p volume s = (Returns (Inr v), s) \<and>
     StorageVolGetXMLDesc c v 0 s = (Returns (Inr xml), s) \<and> vol_Unmarshal x xml = Inr desc)"

text \<open>The format and the source of a described image.\<close>

definition imageOf :: "StorageVolume \<Rightarrow> (string \<times> DomainDiskSource) option" where
  "imageOf desc = (case sv_Target desc of
     None \<Rightarrow> None
   | Some t \<Rightarrow> (case svt_Format t of
       None \<Rightarrow> None
     | Some f \<Rightarrow> (case setDomainDiskSource emptyDiskSource (sv_Type desc) (svt_Path t) of
         Inl err \<Rightarrow> None
       | Inr source \<Rightarrow> Some (svtf_Type f, source))))"

text \<open>
  The specification: \<open>chainOf store key bs n\<close> says that the \<open>n\<close> images from the one at \<open>key\<close> down to an image
  without a backing store are described by \<open>store\<close>, and are the nested elements of \<open>bs\<close>.
\<close>

inductive chainOf :: "(string \<rightharpoonup> StorageVolume) \<Rightarrow> string \<Rightarrow> DomainDiskBackingStore \<Rightarrow> nat \<Rightarrow> bool" for store where
  chain_bottom: "store key = Some desc \<Longrightarrow> imageOf desc = Some (format, source) \<Longrightarrow> sv_BackingStore desc = None \<Longrightarrow>
     chainOf store key (BackingStore (Some format) (Some source) None) 1"
| chain_above: "store key = Some desc \<Longrightarrow> imageOf desc = Some (format, source) \<Longrightarrow> sv_BackingStore desc = Some below \<Longrightarrow>
     chainOf store (svb_Path below) bs n \<Longrightarrow>
     chainOf store key (BackingStore (Some format) (Some source) (Some bs)) (Suc n)"


lemma imageOf_Some:
  "imageOf desc = Some (format, source) \<longleftrightarrow> (\<exists>t f. sv_Target desc = Some t \<and> svt_Format t = Some f \<and>
     svtf_Type f = format \<and> setDomainDiskSource emptyDiskSource (sv_Type desc) (svt_Path t) = Inr source)"
  by (auto simp: imageOf_def split: option.splits sum.splits)

text \<open>A chain has one reading, so a chain that goes round in a circle has none.\<close>

lemma chainOf_unique: "chainOf store key bs n \<Longrightarrow> chainOf store key bs' n' \<Longrightarrow> bs' = bs \<and> n' = n"
proof (induction arbitrary: bs' n' rule: chainOf.induct)
  case (chain_bottom key desc format source)
  from chain_bottom.prems chain_bottom.hyps show ?case by (cases rule: chainOf.cases) auto
next
  case (chain_above key desc format source below bs n)
  note hyps = chain_above.hyps and IH = chain_above.IH
  from chain_above.prems show ?case
  proof (cases rule: chainOf.cases)
    case chain_bottom
    with hyps show ?thesis by simp
  next
    case (chain_above desc' format' source' below' bs'' n'')
    with hyps have "chainOf store (svb_Path below) bs'' n''" by simp
    with IH [OF this] hyps chain_above show ?thesis by simp
  qed
qed

lemma backingChain_reads:
  assumes "chainOf store key bs n" and "describesKeys x c s store" and "n \<le> fuel" and "svb_Path chain = key"
  shows "backingChain fuel x c chain s = (Returns (Inr bs), s)"
  using assms(1,3,4)
proof (induction arbitrary: fuel chain rule: chainOf.induct)
  case (chain_bottom key desc format source)
  then obtain k where "fuel = Suc k" by (cases fuel) auto
  with chain_bottom assms(2) show ?case
    by (auto simp: describesKeys_def imageOf_Some getVolumeSourceDescription_def withTargetFormat_def attempt_def andThen_def
        ret_def deref_def dest!: spec [of _ key])
next
  case (chain_above key desc format source below bs n)
  then obtain k where k: "fuel = Suc k" "n \<le> k" by (cases fuel) auto
  note chain_above.IH [OF k(2) refl]
  with chain_above.hyps chain_above.prems assms(2) show ?case
    by (auto simp: k describesKeys_def imageOf_Some getVolumeSourceDescription_def withTargetFormat_def attempt_def andThen_def
        ret_def deref_def dest!: spec [of _ key])
qed

text \<open>C37: The walk over the backing stores of a disk ends when the chain does: with as much fuel as the chain has
  images it returns, without changing anything, the nested description of exactly those images, and more
  fuel makes no difference.\<close>

theorem backingChain_complete:
  assumes "chainOf store (svb_Path chain) bs n" and "describesKeys x c s store" and "n \<le> fuel"
  shows "backingChain fuel x c chain s = (Returns (Inr bs), s)"
  by (rule backingChain_reads [OF assms refl])

text \<open>A file or block volume the daemon describes is added to the end of the disks as a disk of its own, with its
  path, its chain of backing stores and the next free device name.\<close>

theorem Dom_Disk_adds:
  assumes "describesVolume x c s pool volume desc" and "imageOf desc = Some (format, source)"
    and "sv_BackingStore desc = Some chain" and "chainOf store (svb_Path chain) bs n" and "describesKeys x c s store"
    and "n \<le> fuel" and "dom_Devices (da_def action) = Some devs" and "getNextAvailableTargetDev action = Returns dev"
  shows "\<exists>d. Dom_Disk fuel x c action volume pool wwn ro s =
      (Returns (None, withDevices action (devs\<lparr>ddl_Disks := ddl_Disks devs @ [d]\<rparr>)), s) \<and>
    dx_Source d = Some source \<and> dx_BackingStore d = Some bs \<and> map_option ddt_Dev (dx_Target d) = Some dev \<and>
    dx_ReadOnly d = (ro = Some True)"
proof -
  have chain: "backingChain fuel x c chain s = (Returns (Inr bs), s)"
    by (rule backingChain_reads [OF assms(4-6) refl])
  have type: "sv_Type desc = ''file'' \<or> sv_Type desc = ''block''"
    using assms(2) by (auto simp: imageOf_Some setDomainDiskSource_def split: if_splits)
  define d where "d = \<lparr>dx_Device = ''disk'', dx_Driver = Some \<lparr>ddd_Name = ''qemu'',
      ddd_Type = (if format = ''iso'' then ''raw'' else format), ddd_Discard = (if ro = Some True then '''' else ''unmap''),
      ddd_DetectZeros = (if ro = Some True then '''' else ''unmap'')\<rparr>, dx_Source = Some source, dx_BackingStore = Some bs,
    dx_Target = Some \<lparr>ddt_Dev = dev, ddt_Bus = ''scsi''\<rparr>, dx_ReadOnly = (ro = Some True),
    dx_WWN = (case wwn of None \<Rightarrow> '''' | Some w \<Rightarrow> w)\<rparr>"
  have "Dom_Disk fuel x c action volume pool wwn ro s =
      (Returns (None, withDevices action (devs\<lparr>ddl_Disks := ddl_Disks devs @ [d]\<rparr>)), s)"
    using assms(1,2,3,7,8) chain type
    by (cases wwn) (auto simp: describesVolume_def imageOf_Some Dom_Disk_def Let_def getVolumeSourceDescription_def
        withTargetFormat_def attempt_def andThen_def ret_def deref_def appendDisk_def d_def)
  then show ?thesis by (auto simp: d_def)
qed
text \<open>A volume that is neither a file nor a block device is left out without an error: the domain is defined
  without the disk its spec asks for.\<close>

theorem Dom_Disk_leaves_out:
  assumes "describesVolume x c s pool volume desc" and "sv_Type desc \<notin> {''file'', ''block''}"
    and "sv_Target desc = Some t" and "svt_Format t = Some f" and "getNextAvailableTargetDev action = Returns dev"
  shows "Dom_Disk fuel x c action volume pool wwn ro s = (Returns (None, action), s)"
  using assms
  by (auto simp: describesVolume_def Dom_Disk_def Let_def getVolumeSourceDescription_def withTargetFormat_def
      attempt_def andThen_def ret_def deref_def)

section \<open>A run of the methods\<close>

text \<open>A daemon with an image \<open>vol0\<close> on top of an image \<open>base\<close>, and a pool with a network volume.\<close>

definition imageDef :: "string \<Rightarrow> string \<Rightarrow> string option \<Rightarrow> StorageVolume" where
  "imageDef type path base = emptyStorageVolume\<lparr>sv_Type := type,
     sv_Target := Some \<lparr>svt_Path = path, svt_Format = Some \<lparr>svtf_Type = ''qcow2''\<rparr>\<rparr>,
     sv_BackingStore := map_option (\<lambda>p. \<lparr>svb_Path = p, svb_Format = None\<rparr>) base\<rparr>"

definition layeredStore :: "string \<rightharpoonup> StorageVolume" where
  "layeredStore = [''/base'' \<mapsto> imageDef ''file'' ''/base'' None]"

definition layeredCodec :: xmlcodec where
  "layeredCodec = exampleCodec\<lparr>vol_Unmarshal := (\<lambda>xml.
     if xml = ''vol0'' then Inr (imageDef ''file'' ''/vol0'' (Some ''/base''))
     else if xml = ''/base'' then Inr (imageDef ''file'' ''/base'' None)
     else Inr (imageDef ''network'' ''rbd'' None))\<rparr>"

definition layeredClient :: "unit Client" where
  "layeredClient = quietClient\<lparr>
     StorageVolLookupByKey := (\<lambda>k. ret (Inr \<lparr>lsv_Pool = ''default'', lsv_Name = k, lsv_Key = k\<rparr>)),
     StorageVolGetXMLDesc := (\<lambda>v _. ret (Inr (lsv_Name v)))\<rparr>"

definition layeredAction :: DomainAction where
  "layeredAction = \<lparr>da_name = ''dom0'', da_id = None, da_def = newDomainDef ''dom0'', da_state = 0\<rparr>"

lemmas layered_defs = layeredStore_def layeredCodec_def layeredClient_def layeredAction_def imageDef_def emptyStorageVolume_def
  quietClient_def exampleCodec_def newDomainDef_def Let_def ret_def

definition baseSource :: DomainDiskSource where
  "baseSource = emptyDiskSource\<lparr>dds_File := Some \<lparr>ddsf_File = ''/base''\<rparr>\<rparr>"

lemma layered_chain: "chainOf layeredStore ''/base'' (BackingStore (Some ''qcow2'') (Some baseSource) None) (Suc 0)"
  by (rule chain_bottom [simplified, of _ _ "imageDef ''file'' ''/base'' None"])
    (simp_all add: layered_defs imageOf_def setDomainDiskSource_def baseSource_def)

lemma layered_keys: "describesKeys layeredCodec layeredClient () layeredStore"
  by (auto simp: describesKeys_def layered_defs split: if_splits)

lemma layered_volume:
  "describesVolume layeredCodec layeredClient () ''default'' ''vol0'' (imageDef ''file'' ''/vol0'' (Some ''/base''))"
  "describesVolume layeredCodec layeredClient () ''default'' ''ceph'' (imageDef ''network'' ''rbd'' None)"
  by (simp_all add: describesVolume_def layered_defs)

lemma layered_dev: "getNextAvailableTargetDev layeredAction = Returns ''sda''"
  by (simp add: getNextAvailableTargetDev_def layered_defs nextTargetDev.simps letters_def)

theorem backingChain_complete_witness:
  "backingChain 3 layeredCodec layeredClient \<lparr>svb_Path = ''/base'', svb_Format = None\<rparr> () =
     (Returns (Inr (BackingStore (Some ''qcow2'') (Some baseSource) None)), ())"
  by (rule backingChain_complete [OF _ layered_keys, of _ _ "Suc 0"]) (simp_all add: layered_chain)

theorem Dom_Disk_adds_witness:
  "\<exists>d. Dom_Disk 1 layeredCodec layeredClient layeredAction ''vol0'' ''default'' None None () =
      (Returns (None, withDevices layeredAction ((the (dom_Devices (da_def layeredAction)))\<lparr>ddl_Disks :=
        ddl_Disks (the (dom_Devices (da_def layeredAction))) @ [d]\<rparr>)), ()) \<and>
    dx_Source d = Some (emptyDiskSource\<lparr>dds_File := Some \<lparr>ddsf_File = ''/vol0''\<rparr>\<rparr>) \<and>
    dx_BackingStore d = Some (BackingStore (Some ''qcow2'') (Some baseSource) None) \<and>
    map_option ddt_Dev (dx_Target d) = Some ''sda'' \<and> dx_ReadOnly d = (None = Some True)"
  by (rule Dom_Disk_adds [OF layered_volume(1), where format = "''qcow2''" and n = "Suc 0" and store = layeredStore
        and chain = "\<lparr>svb_Path = ''/base'', svb_Format = None\<rparr>"])
    (simp_all add: layered_chain layered_keys layered_dev,
      simp_all add: imageDef_def imageOf_def setDomainDiskSource_def layeredAction_def newDomainDef_def)

theorem Dom_Disk_leaves_out_witness:
  "Dom_Disk 1 layeredCodec layeredClient layeredAction ''ceph'' ''default'' None None () =
     (Returns (None, layeredAction), ())"
  by (rule Dom_Disk_leaves_out [OF layered_volume(2), where t = "\<lparr>svt_Path = ''rbd'', svt_Format = Some \<lparr>svtf_Type = ''qcow2''\<rparr>\<rparr>"
        and f = "\<lparr>svtf_Type = ''qcow2''\<rparr>" and dev = "''sda''"])
    (simp_all add: layered_dev, simp_all add: layered_defs)

lemma layered_targets: "targetsOk layeredAction"
  by (simp add: targetsOk_def layeredAction_def newDomainDef_def allTargets_def targetDevs_def)

definition onlyDisk :: DomainDiskXML where
  "onlyDisk = \<lparr>dx_Device = ''disk'', dx_Driver = None, dx_Source = None, dx_BackingStore = None,
     dx_Target = Some \<lparr>ddt_Dev = ''sda'', ddt_Bus = ''scsi''\<rparr>, dx_ReadOnly = False, dx_WWN = ''''\<rparr>"

definition oneDisk :: DomainDeviceList where
  "oneDisk = (the (dom_Devices (da_def layeredAction)))\<lparr>ddl_Disks := [onlyDisk]\<rparr>"

theorem getNextAvailableTargetDev_first_witness:
  "\<exists>k\<le>length (ddl_Disks oneDisk). getNextAvailableTargetDev (withDevices layeredAction oneDisk) = Returns (diskName k) \<and>
     diskName k \<notin> set (targetDevs (ddl_Disks oneDisk)) \<and> (\<forall>j<k. diskName j \<in> set (targetDevs (ddl_Disks oneDisk)))"
  by (rule getNextAvailableTargetDev_first) (simp_all add: withDevices_def oneDisk_def onlyDisk_def allTargets_def)

lemma layered_run: "\<exists>r action'. Dom_Disk 1 layeredCodec layeredClient layeredAction ''vol0'' ''default'' None None () =
    (Returns (r, action'), ())"
  unfolding Dom_Disk_def layered_dev Let_def
  by (simp add: getVolumeSourceDescription_def withTargetFormat_def setDomainDiskSource_def
      attempt_def andThen_def deref_def appendDisk_def layered_defs)

theorem Dom_Disk_keeps_targets_distinct_witness:
  "\<exists>r action'. Dom_Disk 1 layeredCodec layeredClient layeredAction ''vol0'' ''default'' None None () =
     (Returns (r, action'), ()) \<and> targetsOk action'"
proof -
  obtain r action' where run: "Dom_Disk 1 layeredCodec layeredClient layeredAction ''vol0'' ''default'' None None () =
      (Returns (r, action'), ())" using layered_run by blast
  with Dom_Disk_keeps_targets_distinct [OF layered_targets run] show ?thesis by blast
qed

end
