(* ===== verification/DomainShutdown.thy ===== *)
theory DomainShutdown
  imports DomainSafety
begin

text \<open>
  Shutting a domain down (\<open>Shutdown\<close> of \<^verbatim>\<open>internal/action/domain.go\<close>): the request, and the wait for the
  daemon to report the domain shut off.
\<close>

section \<open>Shutting down\<close>

definition answeredOff :: "(error + u32 \<times> u32) outcome \<Rightarrow> bool" where
  "answeredOff x \<longleftrightarrow> (case x of Returns (Inr (state, reason)) \<Rightarrow> state = DomainShutoff | _ \<Rightarrow> False)"

lemma answeredOff_simps [simp]:
  "\<not> answeredOff Panics" "\<not> answeredOff Hangs" "\<not> answeredOff (Returns (Inl err))"
  "answeredOff (Returns (Inr (state, reason))) \<longleftrightarrow> state = DomainShutoff"
  by (simp_all add: answeredOff_def)

text \<open>The seen to at most \<open>n\<close> queries of a wait that ends with \<open>r\<close>.\<close>

definition waited :: "nat \<Rightarrow> error option outcome \<Rightarrow> (error + u32 \<times> u32) outcome list \<Rightarrow> bool" where
  "waited n r seen \<longleftrightarrow> seen \<noteq> [] \<and> length seen \<le> n \<and> list_all (\<lambda>x. \<not> answeredOff x) (butlast seen) \<and>
     (answeredOff (last seen) \<longleftrightarrow> r = Returns None)"

lemma waited_Cons: "waited n r seen \<Longrightarrow> \<not> answeredOff x \<Longrightarrow> waited (Suc n) r (x # seen)"
  by (auto simp: waited_def)

abbreviation sawStates :: "nat \<Rightarrow> LvDomain \<Rightarrow> (error + u32 \<times> u32) outcome list \<Rightarrow> event list" where
  "sawStates a d \<equiv> map (\<lambda>x. OnHost a (SawDomainState d x))"

lemma waited_one: "\<not> answeredOff x \<Longrightarrow> r \<noteq> Returns None \<Longrightarrow> waited (Suc n) r [x]"
  by (simp add: waited_def)

lemma sawStates_Cons: "\<exists>seen. tr = sawStates a d seen \<and> P (x # seen) \<Longrightarrow>
    \<exists>seen. OnHost a (SawDomainState d x) # tr = sawStates a d seen \<and> P seen"
  by (elim exE conjE, rule exI [of _ "x # _"]) simp

lemma sawStates_one: "P [x] \<Longrightarrow> \<exists>seen. [OnHost a (SawDomainState d x)] = sawStates a d seen \<and> P seen"
  by (rule exI [of _ "[x]"]) simp

lemma traces_awaitShutoff_bounded:
  fixes s :: "('w, 'z) World_scheme"
  shows "traces (awaitShutoff (observed a cl) d n res) s (\<lambda>r tr.
     \<exists>seen. tr = sawStates a d seen \<and> waited (Suc n) r (Returns res # seen))"
proof (induction n arbitrary: res s)
  case 0
  show ?case by (cases res) (auto intro!: traces_rules simp: waited_def)
next
  case (Suc n)
  have next_: "traces (andThen (DomainGetState (observed a cl) d 0) (awaitShutoff (observed a cl) d n)) s
      (\<lambda>r tr. \<exists>seen. tr = sawStates a d seen \<and> waited (Suc n) r seen)" for s :: "('w, 'z) World_scheme"
    unfolding observed_select
  proof (rule traces_andThen_called)
    show "traces (awaitShutoff (observed a cl) d n x) s' (\<lambda>r tr. \<exists>seen.
        OnHost a (SawDomainState d (Returns x)) # tr = sawStates a d seen \<and> waited (Suc n) r seen)"
      for x and s' :: "('w, 'z) World_scheme"
      by (rule traces_mono [OF Suc]) (rule sawStates_Cons)
  qed (simp_all add: sawStates_one waited_one)
  have "traces (awaitShutoff (observed a cl) d (Suc n) (Inr (st, reason))) s (\<lambda>r tr.
      \<exists>seen. tr = sawStates a d seen \<and> waited (Suc (Suc n)) r (Returns (Inr (st, reason)) # seen))" for st reason
  proof (cases "st = DomainShutoff")
    case True
    then show ?thesis by (auto intro!: traces_rules simp: waited_def)
  next
    case False
    with next_ [of s] show ?thesis by (auto elim!: traces_mono intro!: waited_Cons)
  qed
  moreover have "traces (awaitShutoff (observed a cl) d (Suc n) (Inl err)) s (\<lambda>r tr.
      \<exists>seen. tr = sawStates a d seen \<and> waited (Suc (Suc n)) r (Returns (Inl err) # seen))" for err
    by (auto intro!: traces_rules simp: waited_def)
  ultimately show ?case by (cases res) (simp_all only: split_paired_all)
qed

text \<open>C38: Shutting a domain down asks the daemon for the state at most 31 times, stops at the first answer that says
  shut off, and succeeds exactly when it got that answer.\<close>

theorem Dom_Shutdown_bounded:
  assumes "da_id action = Some d" and "Dom_Shutdown (observed a cl) action s = (r, s')"
  shows "\<exists>called seen. newEvents s s' = OnHost a (DidDomainShutdown d called) # sawStates a d seen \<and>
    (called = Returns None \<longrightarrow> waited 31 r seen) \<and> (called \<noteq> Returns None \<longrightarrow> seen = [] \<and> r = called)"
proof -
  have w: "traces (andThen (DomainGetState (observed a cl) d 0) (awaitShutoff (observed a cl) d 30)) s1
      (\<lambda>r tr. \<exists>seen. tr = sawStates a d seen \<and> waited 31 r seen)" for s1
    unfolding observed_select
  proof (rule traces_andThen_called)
    show "traces (awaitShutoff (observed a cl) d 30 x) s' (\<lambda>r tr. \<exists>seen.
        OnHost a (SawDomainState d (Returns x)) # tr = sawStates a d seen \<and> waited 31 r seen)" for x s'
      by (rule traces_mono [OF traces_awaitShutoff_bounded [where n = 30]], rule sawStates_Cons) simp
  qed (simp_all add: sawStates_one waited_one [where n = 30, simplified])
  have "traces (Dom_Shutdown (observed a cl) action) s (\<lambda>r tr. \<exists>called seen.
      tr = OnHost a (DidDomainShutdown d called) # sawStates a d seen \<and>
      (called = Returns None \<longrightarrow> waited 31 r seen) \<and> (called \<noteq> Returns None \<longrightarrow> seen = [] \<and> r = called))"
    unfolding Dom_Shutdown_def assms(1) deref_def option.case observed_select
    by (rule traces_guarded_called) (auto intro!: traces_mono [OF w [unfolded observed_select]] traces_ret)
  from traces_newEvents [OF this assms(2)] show ?thesis .
qed

text \<open>If the daemon accepts the request and reports the domain shut off within 31 queries, shutting down succeeds:
  the wait does not give up early.\<close>

theorem Dom_Shutdown_succeeds:
  assumes "da_id action = Some d" and "n \<le> 30" and "DomainShutdown c d s = (Returns None, at 0)"
    and "\<And>k. k \<le> n \<Longrightarrow> DomainGetState c d 0 (at k) = (Returns (Inr (states k, 0)), at (Suc k))"
    and "states n = DomainShutoff"
  shows "fst (Dom_Shutdown c action s) = Returns None"
proof -
  have "fst (andThen (DomainGetState c d 0) (awaitShutoff c d m) (at k)) = Returns None" if "k \<le> n" "n - k \<le> m" for k m
    using that
  proof (induction m arbitrary: k)
    case 0
    with assms(4) [of k] assms(5) show ?case by (simp add: andThen_def ret_def)
  next
    case (Suc m)
    show ?case
    proof (cases "k = n")
      case True
      with assms(4) [of n] assms(5) show ?thesis by (simp add: andThen_def ret_def)
    next
      case False
      with Suc.prems have "fst (andThen (DomainGetState c d 0) (awaitShutoff c d m) (at (Suc k))) = Returns None"
        by (intro Suc.IH) auto
      with assms(4) [OF Suc.prems(1)] show ?thesis
        by (subst andThen_def) (simp add: ret_def)
    qed
  qed
  from this [of 0 30] assms(1-3) show ?thesis
    by (simp add: Dom_Shutdown_def deref_def guarded_def) (simp add: andThen_def)
qed

text \<open>A daemon that takes three queries to shut a domain down.\<close>

definition slowClient :: "nat Client" where
  "slowClient = quietClient\<lparr>DomainGetState := (\<lambda>_ _ k. (Returns (Inr (if k < 3 then DomainRunning else DomainShutoff, 0)), Suc k))\<rparr>"

definition slowAction :: DomainAction where
  "slowAction = \<lparr>da_name = ''dom0'', da_id = Some exampleDomainHandle, da_def = newDomainDef ''dom0'', da_state = DomainRunning\<rparr>"

theorem Dom_Shutdown_succeeds_witness: "fst (Dom_Shutdown slowClient slowAction 0) = Returns None"
  by (rule Dom_Shutdown_succeeds [of _ exampleDomainHandle 3 _ _ "\<lambda>k. k" "\<lambda>k. if k < 3 then DomainRunning else DomainShutoff"])
    (simp_all add: slowAction_def slowClient_def quietClient_def Let_def ret_def)

theorem Dom_Shutdown_bounded_witness:
  "\<exists>called seen. newEvents (exampleState slowClient 0) (snd (Dom_Shutdown (observed 0 slowClient) slowAction (exampleState slowClient 0))) =
      OnHost 0 (DidDomainShutdown exampleDomainHandle called) # sawStates 0 exampleDomainHandle seen \<and>
    (called = Returns None \<longrightarrow> waited 31 (fst (Dom_Shutdown (observed 0 slowClient) slowAction (exampleState slowClient 0))) seen) \<and>
    (called \<noteq> Returns None \<longrightarrow> seen = [] \<and> fst (Dom_Shutdown (observed 0 slowClient) slowAction (exampleState slowClient 0)) = called)"
  by (rule Dom_Shutdown_bounded [OF _ surjective_pairing]) (simp add: slowAction_def)

end
