(* ===== verification/HostContract.thy ===== *)
theory HostContract
  imports DomainAction VolumeAction
begin

text \<open>
  What the actions rely on of a libvirt daemon, as locales over a \<open>Client\<close> and an abstract view of the
  daemon's state: its domains by name, with their state and definition, and the volumes of its pools by
  name. The laws are those of a daemon that nobody else uses and that shuts a domain down at once; the
  repository's fake libvirt (theory \<open>Fake\<close>) is proved to obey them, so its operations refine the abstract
  ones. What the actions do on such a daemon is proved from the laws.
\<close>

section \<open>Domains\<close>

locale domain_host =
  fixes x :: xmlcodec and c :: "'s Client" and doms :: "'s \<Rightarrow> string \<rightharpoonup> u32 \<times> DomainXML"
  assumes lookup: "doms s n = Some (st, d) \<Longrightarrow> DomainLookupByName c n s = (Returns (Inr \<lparr>ld_Name = n\<rparr>), s)"
    and missing: "doms s n = None \<Longrightarrow>
      \<exists>err. isCode ErrNoDomain err \<and> DomainLookupByName c n s = (Returns (Inl err), s)"
    and state: "doms s n = Some (st, d) \<Longrightarrow>
      \<exists>reason. DomainGetState c \<lparr>ld_Name = n\<rparr> flags s = (Returns (Inr (st, reason)), s)"
    and describe: "doms s n = Some (st, d) \<Longrightarrow> DomainGetXMLDesc c \<lparr>ld_Name = n\<rparr> flags s = (Returns (dom_Marshal x d), s)"
    and defines_: "dom_Unmarshal x xml = Inr d \<Longrightarrow> doms s (dom_Name d) = None \<Longrightarrow>
      \<exists>s'. DomainDefineXML c xml s = (Returns (Inr \<lparr>ld_Name = dom_Name d\<rparr>), s') \<and>
        doms s' = (doms s)(dom_Name d \<mapsto> (DomainShutoff, d))"
    and starts: "doms s n = Some (st, d) \<Longrightarrow> st \<noteq> DomainRunning \<Longrightarrow>
      \<exists>s'. DomainCreate c \<lparr>ld_Name = n\<rparr> s = (Returns None, s') \<and> doms s' = (doms s)(n \<mapsto> (DomainRunning, d))"
    and stops: "doms s n = Some (st, d) \<Longrightarrow> st \<noteq> DomainShutoff \<Longrightarrow>
      \<exists>s'. DomainShutdown c \<lparr>ld_Name = n\<rparr> s = (Returns None, s') \<and> doms s' = (doms s)(n \<mapsto> (DomainShutoff, d))"
    and undefines: "\<exists>s'. DomainUndefineFlags c \<lparr>ld_Name = n\<rparr> flags s = (Returns None, s') \<and> doms s' = (doms s)(n := None)"
begin

lemma NewDomainAction_finds:
  assumes "doms s n = Some (st, d)" and "dom_Marshal x d = Inr xml" and "dom_Unmarshal x xml = Inr d"
  shows "NewDomainAction x c n s =
    (Returns (Inr \<lparr>da_name = n, da_id = Some \<lparr>ld_Name = n\<rparr>, da_def = d, da_state = st\<rparr>), s)"
  using lookup [OF assms(1)] state [OF assms(1), of 0] describe [OF assms(1), of 0] assms(2,3)
  by (auto simp: NewDomainAction_def attempt_def andThen_def ret_def)

lemma NewDomainAction_misses:
  assumes "doms s n = None"
  shows "NewDomainAction x c n s = (Returns (Inr \<lparr>da_name = n, da_id = None, da_def = newDomainDef n, da_state = 0\<rparr>), s)"
  using missing [OF assms] by (auto simp: NewDomainAction_def attempt_def andThen_def ret_def)

lemma Dom_Create_Start:
  assumes "dom_Marshal x (da_def action) = Inr xml" and "dom_Unmarshal x xml = Inr (da_def action)"
    and "dom_Name (da_def action) = n" and "doms s n = None"
  shows "\<exists>action' s1 s2. Dom_Create x c action s = (Returns (None, action'), s1) \<and>
    Dom_Start c action' s1 = (Returns None, s2) \<and> da_id action' = Some \<lparr>ld_Name = n\<rparr> \<and>
    doms s2 = (doms s)(n \<mapsto> (DomainRunning, da_def action))"
proof -
  obtain s1 where s1: "DomainDefineXML c xml s = (Returns (Inr \<lparr>ld_Name = n\<rparr>), s1)"
    "doms s1 = (doms s)(n \<mapsto> (DomainShutoff, da_def action))"
    using defines_ [OF assms(2)] assms(3,4) by auto
  then obtain s2 where "DomainCreate c \<lparr>ld_Name = n\<rparr> s1 = (Returns None, s2)"
    "doms s2 = (doms s1)(n \<mapsto> (DomainRunning, da_def action))"
    using starts [of s1 n DomainShutoff "da_def action"] by auto
  with s1 assms(1) show ?thesis
    by (simp add: Dom_Create_def Dom_Start_def attempt_def andThen_def ret_def deref_def)
qed

lemma Dom_Shutdown_Delete:
  assumes "da_id action = Some \<lparr>ld_Name = n\<rparr>" and "doms s n = Some (DomainRunning, d)"
  shows "\<exists>s1 s2. Dom_Shutdown c action s = (Returns None, s1) \<and> Dom_Delete c action s1 = (Returns None, s2) \<and>
    doms s2 = (doms s)(n := None)"
proof -
  obtain s1 where s1: "DomainShutdown c \<lparr>ld_Name = n\<rparr> s = (Returns None, s1)" "doms s1 = (doms s)(n \<mapsto> (DomainShutoff, d))"
    using stops [OF assms(2)] by auto
  then obtain reason where "DomainGetState c \<lparr>ld_Name = n\<rparr> 0 s1 = (Returns (Inr (DomainShutoff, reason)), s1)"
    using state [of s1 n DomainShutoff d 0] by auto
  with s1 have "Dom_Shutdown c action s = (Returns None, s1)"
    by (simp add: Dom_Shutdown_def assms(1) deref_def guarded_def andThen_def numeral_eq_Suc ret_def)
  with undefines [of n DomainUndefineNvram s1] s1(2) show ?thesis
    by (auto simp: Dom_Delete_def assms(1) deref_def)
qed

end

section \<open>Volumes\<close>

locale volume_host =
  fixes x :: xmlcodec and c :: "'s Client" and vols :: "'s \<Rightarrow> string \<rightharpoonup> (string \<rightharpoonup> StorageVolume)"
  assumes pool: "vols s p = Some m \<Longrightarrow> StoragePoolLookupByName c p s = (Returns (Inr \<lparr>lsp_Name = p\<rparr>), s)"
    and lookup: "vols s p = Some m \<Longrightarrow> m n = Some v \<Longrightarrow> StorageVolLookupByName c \<lparr>lsp_Name = p\<rparr> n s =
      (Returns (Inr \<lparr>lsv_Pool = p, lsv_Name = n, lsv_Key = sv_Key v\<rparr>), s)"
    and missing: "vols s p = Some m \<Longrightarrow> m n = None \<Longrightarrow>
      \<exists>err. isCode ErrNoStorageVol err \<and> StorageVolLookupByName c \<lparr>lsp_Name = p\<rparr> n s = (Returns (Inl err), s)"
    and describe: "vols s p = Some m \<Longrightarrow> m n = Some v \<Longrightarrow>
      StorageVolGetXMLDesc c \<lparr>lsv_Pool = p, lsv_Name = n, lsv_Key = k\<rparr> flags s = (Returns (vol_Marshal x v), s)"
    and creates: "vols s p = Some m \<Longrightarrow> vol_Unmarshal x xml = Inr v \<Longrightarrow> m (sv_Name v) = None \<Longrightarrow>
      \<exists>s'. StorageVolCreateXML c \<lparr>lsp_Name = p\<rparr> xml flags s =
          (Returns (Inr \<lparr>lsv_Pool = p, lsv_Name = sv_Name v, lsv_Key = sv_Key v\<rparr>), s') \<and>
        vols s' = (vols s)(p \<mapsto> m(sv_Name v \<mapsto> v))"
    and resizes: "vols s p = Some m \<Longrightarrow> m n = Some v \<Longrightarrow> sv_Capacity v \<noteq> None \<Longrightarrow>
      \<exists>s'. StorageVolResize c \<lparr>lsv_Pool = p, lsv_Name = n, lsv_Key = k\<rparr> b flags s = (Returns None, s') \<and>
        vols s' = (vols s)(p \<mapsto> m(n \<mapsto> v\<lparr>sv_Capacity := Some \<lparr>svs_Unit = ''bytes'', svs_Value = b\<rparr>\<rparr>))"
    and deletes: "vols s p = Some m \<Longrightarrow> m n = Some v \<Longrightarrow>
      \<exists>s'. StorageVolDelete c \<lparr>lsv_Pool = p, lsv_Name = n, lsv_Key = k\<rparr> flags s = (Returns None, s') \<and>
        vols s' = (vols s)(p \<mapsto> m(n := None))"
begin

lemma NewVolumeAction_finds:
  assumes "vols s p = Some m" and "m n = Some v" and "vol_Marshal x v = Inr xml" and "vol_Unmarshal x xml = Inr v"
  shows "NewVolumeAction x c n p s = (Returns (Inr \<lparr>va_name = n, va_poolName = p, va_pool = \<lparr>lsp_Name = p\<rparr>,
    va_id = Some \<lparr>lsv_Pool = p, lsv_Name = n, lsv_Key = sv_Key v\<rparr>, va_def = v, va_source = None\<rparr>), s)"
  using pool [OF assms(1)] lookup [OF assms(1,2)] describe [OF assms(1,2), of _ 0] assms(3,4)
  by (auto simp: NewVolumeAction_def attempt_def andThen_def ret_def Let_def)

lemma NewVolumeAction_misses:
  assumes "vols s p = Some m" and "m n = None"
  shows "NewVolumeAction x c n p s = (Returns (Inr \<lparr>va_name = n, va_poolName = p, va_pool = \<lparr>lsp_Name = p\<rparr>,
    va_id = None, va_def = emptyStorageVolume\<lparr>sv_Name := n\<rparr>, va_source = None\<rparr>), s)"
  using pool [OF assms(1)] missing [OF assms] by (auto simp: NewVolumeAction_def attempt_def andThen_def ret_def Let_def)

lemma VolumeCreate_plain:
  assumes "vols s p = Some m" and "va_pool action = \<lparr>lsp_Name = p\<rparr>" and "va_source action = None"
    and "vol_Marshal x (va_def action) = Inr xml" and "vol_Unmarshal x xml = Inr (va_def action)"
    and "sv_Name (va_def action) = n" and "m n = None"
  shows "\<exists>action' s'. VolumeCreate x c action s = (Returns (None, action'), s') \<and> VolumeState action' \<and>
    vols s' = (vols s)(p \<mapsto> m(n \<mapsto> va_def action))"
  using creates [OF assms(1,5), of 0] assms
  by (auto simp: VolumeCreate_def attempt_def andThen_def ret_def VolumeState_def Let_def)

lemma VolumeResize_Delete:
  assumes "vols s p = Some m" and "m n = Some v" and "va_id action = Some \<lparr>lsv_Pool = p, lsv_Name = n, lsv_Key = k\<rparr>"
  shows "sv_Capacity v \<noteq> None \<Longrightarrow> \<exists>s'. VolumeResize c action u b s = (Returns None, s') \<and>
      vols s' = (vols s)(p \<mapsto> m(n \<mapsto> v\<lparr>sv_Capacity := Some \<lparr>svs_Unit = ''bytes'', svs_Value = ConvertToBytes b u\<rparr>\<rparr>))"
    and "\<exists>s'. VolumeDelete c action s = (Returns None, s') \<and> vols s' = (vols s)(p \<mapsto> m(n := None))"
  using resizes [OF assms(1,2), of k "ConvertToBytes b u" 0] deletes [OF assms(1,2), of k StorageVolDeleteNormal]
  by (auto simp: VolumeResize_def VolumeDelete_def assms(3) deref_def)

end

text \<open>A daemon of both.\<close>

locale libvirt_host = domain_host x c doms + volume_host x c vols
  for x :: xmlcodec and c :: "'s Client" and doms vols

section \<open>The fake libvirt obeys the laws\<close>

text \<open>The first element with a key.\<close>

definition firstBy :: "('a \<Rightarrow> 'k) \<Rightarrow> 'a list \<Rightarrow> 'k \<rightharpoonup> 'a" where
  "firstBy key xs k = map_option ((!) xs) (IndexFunc (\<lambda>a. key a = k) xs)"

lemma firstBy_simps [simp]:
  "firstBy key [] = Map.empty"
  "firstBy key (a # xs) = (firstBy key xs)(key a \<mapsto> a)"
proof -
  show "firstBy key (a # xs) = (firstBy key xs)(key a \<mapsto> a)"
    by (rule ext, case_tac "IndexFunc (\<lambda>a. key a = x) xs") (auto simp: firstBy_def)
qed (simp add: firstBy_def fun_eq_iff)

lemma firstBy_append: "firstBy key xs (key a) = None \<Longrightarrow> firstBy key (xs @ [a]) = (firstBy key xs)(key a \<mapsto> a)"
  by (induction xs) (auto split: if_splits simp: fun_upd_twist)

lemma firstBy_filter: "firstBy key (filter (\<lambda>a. key a \<noteq> k) xs) = (firstBy key xs)(k := None)"
  by (induction xs) auto

lemma firstBy_update:
  "IndexFunc (\<lambda>a. key a = k) xs = Some i \<Longrightarrow> key a = k \<Longrightarrow> firstBy key (xs[i := a]) = (firstBy key xs)(k \<mapsto> a)"
  by (induction xs arbitrary: i) (auto split: if_splits simp: fun_upd_twist)

lemma firstBy_None: "firstBy key xs k = None \<longleftrightarrow> IndexFunc (\<lambda>a. key a = k) xs = None"
  by (simp add: firstBy_def)

lemma firstBy_Some: "firstBy key xs k = Some a \<longleftrightarrow> (\<exists>i. IndexFunc (\<lambda>a. key a = k) xs = Some i \<and> xs ! i = a)"
  by (auto simp: firstBy_def)

definition fakeDomains :: "Fake \<Rightarrow> string \<rightharpoonup> u32 \<times> DomainXML" where
  "fakeDomains f = map_option (\<lambda>d. (fd_state d, fd_xml d)) \<circ> firstBy (\<lambda>d. dom_Name (fd_xml d)) (f_domains f)"

definition fakeVolumes :: "Fake \<Rightarrow> string \<rightharpoonup> (string \<rightharpoonup> StorageVolume)" where
  "fakeVolumes f = map_option (\<lambda>p. firstBy sv_Name (fp_volumes p)) \<circ> firstBy (\<lambda>p. spx_Name (fp_xml p)) (f_pools f)"

lemma fakeDomains_None: "fakeDomains f n = None \<longleftrightarrow> getDomainIndex n f = Inl (LibvirtError ErrNoDomain ErrDomainNotExist)"
  by (auto simp: fakeDomains_def firstBy_None getDomainIndex_def split: option.splits)

lemma fakeDomains_Some:
  "fakeDomains f n = Some (st, d) \<longleftrightarrow>
     (\<exists>i. getDomainIndex n f = Inr i \<and> fd_state (f_domains f ! i) = st \<and> fd_xml (f_domains f ! i) = d)"
  by (auto simp: fakeDomains_def firstBy_Some firstBy_None getDomainIndex_def split: option.splits)

lemma fakeDomains_name: "getDomainIndex n f = Inr i \<Longrightarrow> dom_Name (fd_xml (f_domains f ! i)) = n"
  by (auto simp: getDomainIndex_def split: option.splits dest: IndexFunc_Some)

lemma fakeDomains_setState:
  assumes "getDomainIndex n f = Inr i"
  shows "fakeDomains (setDomainState i st reason f) = (fakeDomains f)(n \<mapsto> (st, fd_xml (f_domains f ! i)))"
proof -
  have "IndexFunc (\<lambda>d. dom_Name (fd_xml d) = n) (f_domains f) = Some i"
    using assms by (auto simp: getDomainIndex_def split: option.splits)
  from firstBy_update [OF this] fakeDomains_name [OF assms] show ?thesis
    by (simp add: fakeDomains_def setDomainState_def fun_eq_iff)
qed

interpretation fake_domains: domain_host x "fakeClient x sc" fakeDomains for x sc
proof
  fix s n st d flags
  assume found: "fakeDomains s n = Some (st, d)"
  then obtain i where i: "getDomainIndex n s = Inr i" "fd_state (f_domains s ! i) = st" "fd_xml (f_domains s ! i) = d"
    by (auto simp: fakeDomains_Some)
  note name = fakeDomains_name [OF i(1)]
  show "DomainLookupByName (fakeClient x sc) n s = (Returns (Inr \<lparr>ld_Name = n\<rparr>), s)"
    by (simp add: fakeClient_def fakeDomainLookupByName_def i(1) name)
  show "\<exists>reason. DomainGetState (fakeClient x sc) \<lparr>ld_Name = n\<rparr> flags s = (Returns (Inr (st, reason)), s)"
    by (simp add: fakeClient_def fakeDomainGetState_def i)
  show "DomainGetXMLDesc (fakeClient x sc) \<lparr>ld_Name = n\<rparr> flags s = (Returns (dom_Marshal x d), s)"
    by (simp add: fakeClient_def fakeDomainGetXMLDesc_def i)
  show "\<exists>s'. DomainCreate (fakeClient x sc) \<lparr>ld_Name = n\<rparr> s = (Returns None, s') \<and>
      fakeDomains s' = (fakeDomains s)(n \<mapsto> (DomainRunning, d))" if "st \<noteq> DomainRunning"
    using that fakeDomains_setState [OF i(1)] by (simp add: fakeClient_def fakeDomainCreate_def i)
  show "\<exists>s'. DomainShutdown (fakeClient x sc) \<lparr>ld_Name = n\<rparr> s = (Returns None, s') \<and>
      fakeDomains s' = (fakeDomains s)(n \<mapsto> (DomainShutoff, d))" if "st \<noteq> DomainShutoff"
    using that fakeDomains_setState [OF i(1)] by (simp add: fakeClient_def fakeDomainShutdown_def i)
next
  fix s n assume "fakeDomains s n = None"
  then show "\<exists>err. isCode ErrNoDomain err \<and> DomainLookupByName (fakeClient x sc) n s = (Returns (Inl err), s)"
    by (simp add: fakeDomains_None fakeClient_def fakeDomainLookupByName_def)
next
  fix s d xml assume "dom_Unmarshal x xml = Inr d" and new: "fakeDomains s (dom_Name d) = None"
  then have "DomainDefineXML (fakeClient x sc) xml s = (Returns (Inr \<lparr>ld_Name = dom_Name d\<rparr>),
      s\<lparr>f_domains := f_domains s @ [\<lparr>fd_state = DomainShutoff, fd_reason = 0, fd_xml = d\<rparr>]\<rparr>)"
    by (simp add: fakeDomains_None fakeClient_def fakeDomainDefineXML_def)
  moreover have "fakeDomains (s\<lparr>f_domains := f_domains s @ [\<lparr>fd_state = DomainShutoff, fd_reason = 0, fd_xml = d\<rparr>]\<rparr>) =
      (fakeDomains s)(dom_Name d \<mapsto> (DomainShutoff, d))"
    using new firstBy_append [of "\<lambda>d. dom_Name (fd_xml d)" "f_domains s" "\<lparr>fd_state = DomainShutoff, fd_reason = 0, fd_xml = d\<rparr>"]
    by (simp add: fakeDomains_def fun_eq_iff)
  ultimately show "\<exists>s'. DomainDefineXML (fakeClient x sc) xml s = (Returns (Inr \<lparr>ld_Name = dom_Name d\<rparr>), s') \<and>
      fakeDomains s' = (fakeDomains s)(dom_Name d \<mapsto> (DomainShutoff, d))" by blast
next
  fix n flags s
  show "\<exists>s'. DomainUndefineFlags (fakeClient x sc) \<lparr>ld_Name = n\<rparr> flags s = (Returns None, s') \<and>
      fakeDomains s' = (fakeDomains s)(n := None)"
    by (simp add: fakeClient_def fakeDomainUndefineFlags_def fakeDomains_def firstBy_filter fun_eq_iff)
qed

text \<open>The position of a pool and of a volume.\<close>

lemma fakeVolumes_Some:
  "fakeVolumes f p = Some m \<longleftrightarrow>
     (\<exists>i. getPoolIndex p f = Inr i \<and> m = firstBy sv_Name (fp_volumes (f_pools f ! i)))"
  by (auto simp: fakeVolumes_def firstBy_Some firstBy_None getPoolIndex_def split: option.splits)

lemma getPoolIndex_name: "getPoolIndex p f = Inr i \<Longrightarrow> spx_Name (fp_xml (f_pools f ! i)) = p \<and> i < length (f_pools f)"
  by (auto simp: getPoolIndex_def split: option.splits dest: IndexFunc_Some)

lemma getVolumeIndex_firstBy:
  "getVolumeIndex n p = Inr j \<longleftrightarrow> IndexFunc (\<lambda>v. sv_Name v = n) (fp_volumes p) = Some j"
  "firstBy sv_Name (fp_volumes p) n = None \<longleftrightarrow> getVolumeIndex n p = Inl (LibvirtError ErrNoStorageVol ErrVolumeNotExist)"
  "firstBy sv_Name (fp_volumes p) n = Some v \<longleftrightarrow> (\<exists>j. getVolumeIndex n p = Inr j \<and> fp_volumes p ! j = v)"
  by (auto simp: getVolumeIndex_def firstBy_Some firstBy_None split: option.splits)

lemma fakeVolumes_setPool:
  assumes "getPoolIndex p f = Inr i"
  shows "fakeVolumes (f\<lparr>f_pools := (f_pools f)[i := (f_pools f ! i)\<lparr>fp_volumes := vs\<rparr>]\<rparr>) =
    (fakeVolumes f)(p \<mapsto> firstBy sv_Name vs)"
proof -
  have "IndexFunc (\<lambda>q. spx_Name (fp_xml q) = p) (f_pools f) = Some i"
    using assms by (auto simp: getPoolIndex_def split: option.splits)
  from firstBy_update [OF this] getPoolIndex_name [OF assms] show ?thesis
    by (simp add: fakeVolumes_def fun_eq_iff)
qed

interpretation fake_volumes: volume_host x "fakeClient x sc" fakeVolumes for x sc
proof
  fix s p m assume "fakeVolumes s p = Some m"
  then obtain i where i: "getPoolIndex p s = Inr i" and m: "m = firstBy sv_Name (fp_volumes (f_pools s ! i))"
    by (auto simp: fakeVolumes_Some)
  note pn = getPoolIndex_name [OF i]
  show "StoragePoolLookupByName (fakeClient x sc) p s = (Returns (Inr \<lparr>lsp_Name = p\<rparr>), s)"
    by (simp add: fakeClient_def fakeStoragePoolLookupByName_def i pn)
  show "\<exists>err. isCode ErrNoStorageVol err \<and>
      StorageVolLookupByName (fakeClient x sc) \<lparr>lsp_Name = p\<rparr> n s = (Returns (Inl err), s)" if "m n = None" for n
    using that by (simp add: fakeClient_def fakeStorageVolLookupByName_def i m getVolumeIndex_firstBy(2))
  fix n v assume "m n = Some v"
  then obtain j where j: "getVolumeIndex n (f_pools s ! i) = Inr j" "fp_volumes (f_pools s ! i) ! j = v"
    by (auto simp: m getVolumeIndex_firstBy(3))
  then have vn: "sv_Name v = n" and jx: "IndexFunc (\<lambda>v. sv_Name v = n) (fp_volumes (f_pools s ! i)) = Some j"
    by (auto simp: getVolumeIndex_firstBy(1) dest: IndexFunc_Some)
  show "StorageVolLookupByName (fakeClient x sc) \<lparr>lsp_Name = p\<rparr> n s =
      (Returns (Inr \<lparr>lsv_Pool = p, lsv_Name = n, lsv_Key = sv_Key v\<rparr>), s)"
    by (simp add: fakeClient_def fakeStorageVolLookupByName_def i j vn)
  show "StorageVolGetXMLDesc (fakeClient x sc) \<lparr>lsv_Pool = p, lsv_Name = n, lsv_Key = k\<rparr> flags s =
      (Returns (vol_Marshal x v), s)" for k flags
    by (simp add: fakeClient_def fakeStorageVolGetXMLDesc_def withVolume_def i j ret_def)
  show "\<exists>s'. StorageVolResize (fakeClient x sc) \<lparr>lsv_Pool = p, lsv_Name = n, lsv_Key = k\<rparr> b flags s = (Returns None, s') \<and>
      fakeVolumes s' = (fakeVolumes s)(p \<mapsto> m(n \<mapsto> v\<lparr>sv_Capacity := Some \<lparr>svs_Unit = ''bytes'', svs_Value = b\<rparr>\<rparr>))"
    if "sv_Capacity v \<noteq> None" for k b flags
  proof -
    have cap: "cap\<lparr>svs_Unit := ''bytes'', svs_Value := b\<rparr> = \<lparr>svs_Unit = ''bytes'', svs_Value = b\<rparr>" for cap :: StorageVolumeSize
      by (cases cap) simp
    with that show ?thesis
      using fakeVolumes_setPool [OF i] firstBy_update [OF jx, of "v\<lparr>sv_Capacity := Some \<lparr>svs_Unit = ''bytes'', svs_Value = b\<rparr>\<rparr>"] vn
      by (auto simp: fakeClient_def fakeStorageVolResize_def withVolume_def i j setCapacityBytes_def setVolume_def m cap)
  qed
  show "\<exists>s'. StorageVolDelete (fakeClient x sc) \<lparr>lsv_Pool = p, lsv_Name = n, lsv_Key = k\<rparr> flags s = (Returns None, s') \<and>
      fakeVolumes s' = (fakeVolumes s)(p \<mapsto> m(n := None))" for k flags
    by (simp add: fakeClient_def fakeStorageVolDelete_def deleteVol_def i j fakeVolumes_setPool [OF i] firstBy_filter m)
next
  fix s p m xml v flags
  assume "fakeVolumes s p = Some m" and v: "vol_Unmarshal x xml = Inr v" "m (sv_Name v) = None"
  then obtain i where i: "getPoolIndex p s = Inr i" and m: "m = firstBy sv_Name (fp_volumes (f_pools s ! i))"
    by (auto simp: fakeVolumes_Some)
  with v have "getVolumeIndex (sv_Name v) (f_pools s ! i) = Inl (LibvirtError ErrNoStorageVol ErrVolumeNotExist)"
    by (simp add: getVolumeIndex_firstBy(2))
  then show "\<exists>s'. StorageVolCreateXML (fakeClient x sc) \<lparr>lsp_Name = p\<rparr> xml flags s =
      (Returns (Inr \<lparr>lsv_Pool = p, lsv_Name = sv_Name v, lsv_Key = sv_Key v\<rparr>), s') \<and>
      fakeVolumes s' = (fakeVolumes s)(p \<mapsto> m(sv_Name v \<mapsto> v))"
    using v getPoolIndex_name [OF i] firstBy_append [of sv_Name "fp_volumes (f_pools s ! i)" v]
    by (simp add: fakeClient_def fakeStorageVolCreateXML_def createVol_def i m attempt_def andThen_def ret_def
        fakeVolumes_setPool [OF i])
qed

interpretation fake_host: libvirt_host x "fakeClient x sc" fakeDomains fakeVolumes for x sc
  by unfold_locales

section \<open>Properties\<close>

text \<open>The abstract operations on a map of domains; \<open>None\<close> is a refusal.\<close>

definition absStart :: "string \<Rightarrow> (string \<rightharpoonup> u32 \<times> DomainXML) \<Rightarrow> (string \<rightharpoonup> u32 \<times> DomainXML) option" where
  "absStart n m = (case m n of None \<Rightarrow> None
     | Some (st, d) \<Rightarrow> if st = DomainRunning then None else Some (m(n \<mapsto> (DomainRunning, d))))"

definition absShutdown :: "string \<Rightarrow> (string \<rightharpoonup> u32 \<times> DomainXML) \<Rightarrow> (string \<rightharpoonup> u32 \<times> DomainXML) option" where
  "absShutdown n m = (case m n of None \<Rightarrow> None
     | Some (st, d) \<Rightarrow> if st = DomainShutoff then None else Some (m(n \<mapsto> (DomainShutoff, d))))"

definition refines :: "(Fake \<Rightarrow> error option outcome \<times> Fake)
    \<Rightarrow> ((string \<rightharpoonup> u32 \<times> DomainXML) \<Rightarrow> (string \<rightharpoonup> u32 \<times> DomainXML) option) \<Rightarrow> Fake \<Rightarrow> bool" where
  "refines m absm f = (case absm (fakeDomains f) of
     None \<Rightarrow> (\<exists>err. m f = (Returns (Some err), f))
   | Some doms \<Rightarrow> (\<exists>f'. m f = (Returns None, f') \<and> fakeDomains f' = doms))"

text \<open>The fake libvirt refines a map from names to domains: starting and shutting down a domain succeed
  exactly when the map has the domain in another state and then change that state only, a refused
  request changes nothing, and undefining removes the name.\<close>

theorem Fake_domains_refine:
  "refines (fakeDomainCreate \<lparr>ld_Name = n\<rparr>) (absStart n) f \<and>
   refines (fakeDomainShutdown \<lparr>ld_Name = n\<rparr>) (absShutdown n) f \<and>
   refines (fakeDomainUndefineFlags \<lparr>ld_Name = n\<rparr> flags) (\<lambda>m. Some (m(n := None))) f"
proof (cases "fakeDomains f n")
  case None
  then have "getDomainIndex n f = Inl (LibvirtError ErrNoDomain ErrDomainNotExist)" by (simp add: fakeDomains_None)
  with None show ?thesis
    using fake_domains.undefines [where n = n and flags = flags and s = f]
    by (auto simp: refines_def absStart_def absShutdown_def fakeDomainCreate_def fakeDomainShutdown_def fakeClient_def)
next
  case (Some p)
  then obtain i where i: "getDomainIndex n f = Inr i" "p = (fd_state (f_domains f ! i), fd_xml (f_domains f ! i))"
    by (cases p) (auto simp: fakeDomains_Some)
  then show ?thesis
    using Some fake_domains.undefines [where n = n and flags = flags and s = f]
    by (auto simp: refines_def absStart_def absShutdown_def fakeDomainCreate_def fakeDomainShutdown_def fakeClient_def
        fakeDomains_setState [OF i(1)])
qed

text \<open>On the fake libvirt a domain that is defined and started is found again by its name, running and with the
  definition it was given; shut down and deleted it is gone, and all other domains are as before.\<close>

theorem Domain_roundtrip:
  assumes "dom_Marshal x d = Inr xml" and "dom_Unmarshal x xml = Inr d" and "dom_Name d = n"
    and "da_def action = d" and "fakeDomains f n = None"
  shows "\<exists>created f1 f2 f3 f4 found. Dom_Create x (fakeClient x sc) action f = (Returns (None, created), f1) \<and>
    Dom_Start (fakeClient x sc) created f1 = (Returns None, f2) \<and>
    found = \<lparr>da_name = n, da_id = Some \<lparr>ld_Name = n\<rparr>, da_def = d, da_state = DomainRunning\<rparr> \<and>
    NewDomainAction x (fakeClient x sc) n f2 = (Returns (Inr found), f2) \<and>
    Dom_Shutdown (fakeClient x sc) found f2 = (Returns None, f3) \<and>
    Dom_Delete (fakeClient x sc) found f3 = (Returns None, f4) \<and>
    NewDomainAction x (fakeClient x sc) n f4 =
      (Returns (Inr \<lparr>da_name = n, da_id = None, da_def = newDomainDef n, da_state = 0\<rparr>), f4) \<and>
    fakeDomains f4 = fakeDomains f"
proof -
  have "\<exists>created f1 f2. Dom_Create x (fakeClient x sc) action f = (Returns (None, created), f1) \<and>
      Dom_Start (fakeClient x sc) created f1 = (Returns None, f2) \<and> da_id created = Some \<lparr>ld_Name = n\<rparr> \<and>
      fakeDomains f2 = (fakeDomains f)(n \<mapsto> (DomainRunning, da_def action))"
    by (rule fake_domains.Dom_Create_Start [of _ _ xml]) (use assms in simp_all)
  then obtain created f1 f2 where up: "Dom_Create x (fakeClient x sc) action f = (Returns (None, created), f1)"
    "Dom_Start (fakeClient x sc) created f1 = (Returns None, f2)" "fakeDomains f2 = (fakeDomains f)(n \<mapsto> (DomainRunning, d))"
    using assms(4) by auto
  let ?found = "\<lparr>da_name = n, da_id = Some \<lparr>ld_Name = n\<rparr>, da_def = d, da_state = DomainRunning\<rparr>"
  have running: "fakeDomains f2 n = Some (DomainRunning, d)" by (simp add: up(3))
  have "\<exists>f3 f4. Dom_Shutdown (fakeClient x sc) ?found f2 = (Returns None, f3) \<and>
      Dom_Delete (fakeClient x sc) ?found f3 = (Returns None, f4) \<and> fakeDomains f4 = (fakeDomains f2)(n := None)"
    by (rule fake_domains.Dom_Shutdown_Delete [OF _ running]) simp
  then obtain f3 f4 where down: "Dom_Shutdown (fakeClient x sc) ?found f2 = (Returns None, f3)"
    "Dom_Delete (fakeClient x sc) ?found f3 = (Returns None, f4)" "fakeDomains f4 = (fakeDomains f2)(n := None)"
    by blast
  have "NewDomainAction x (fakeClient x sc) n f2 = (Returns (Inr ?found), f2)"
    by (rule fake_domains.NewDomainAction_finds [OF running assms(1,2)])
  moreover have "fakeDomains f4 = fakeDomains f" using down(3) up(3) assms(5) by (simp add: fun_upd_idem)
  moreover from this have "NewDomainAction x (fakeClient x sc) n f4 =
      (Returns (Inr \<lparr>da_name = n, da_id = None, da_def = newDomainDef n, da_state = 0\<rparr>), f4)"
    by (intro fake_domains.NewDomainAction_misses) (simp add: assms(5))
  ultimately show ?thesis using up(1,2) down(1,2) by blast
qed

text \<open>C39: On the fake libvirt a volume that is created is found again with its definition; once it was resized to a
  size, no resize to that size is asked for any more; deleted, it is gone and everything else is as before.\<close>

theorem Volume_roundtrip:
  assumes "vol_Marshal x v = Inr xml" and "vol_Unmarshal x xml = Inr v" and "sv_Name v = n" and "sv_Capacity v \<noteq> None"
    and "va_def action = v" and "va_source action = None" and "va_pool action = \<lparr>lsp_Name = p\<rparr>"
    and "fakeVolumes f p = Some m" and "m n = None"
    and "resized = v\<lparr>sv_Capacity := Some \<lparr>svs_Unit = ''bytes'', svs_Value = ConvertToBytes b u\<rparr>\<rparr>"
    and "vol_Marshal x resized = Inr xml'" and "vol_Unmarshal x xml' = Inr resized"
  shows "\<exists>created found found' f1 f2 f3. VolumeCreate x (fakeClient x sc) action f = (Returns (None, created), f1) \<and>
    NewVolumeAction x (fakeClient x sc) n p f1 = (Returns (Inr found), f1) \<and> VolumeState found \<and> va_def found = v \<and>
    VolumeResize (fakeClient x sc) found u b f1 = (Returns None, f2) \<and>
    NewVolumeAction x (fakeClient x sc) n p f2 = (Returns (Inr found'), f2) \<and>
    ResizeRequired found' u b f2 = (Returns (Inr False), f2) \<and>
    VolumeDelete (fakeClient x sc) found' f2 = (Returns None, f3) \<and> fakeVolumes f3 = fakeVolumes f"
proof -
  let ?act = "\<lambda>v. \<lparr>va_name = n, va_poolName = p, va_pool = \<lparr>lsp_Name = p\<rparr>,
      va_id = Some \<lparr>lsv_Pool = p, lsv_Name = n, lsv_Key = sv_Key v\<rparr>, va_def = v, va_source = None\<rparr> :: VolumeAction"
  have "\<exists>created f1. VolumeCreate x (fakeClient x sc) action f = (Returns (None, created), f1) \<and> VolumeState created \<and>
      fakeVolumes f1 = (fakeVolumes f)(p \<mapsto> m(n \<mapsto> va_def action))"
    by (rule fake_volumes.VolumeCreate_plain [of _ _ _ _ _ xml]) (use assms in simp_all)
  then obtain created f1 where create: "VolumeCreate x (fakeClient x sc) action f = (Returns (None, created), f1)"
    "fakeVolumes f1 = (fakeVolumes f)(p \<mapsto> m(n \<mapsto> v))"
    using assms(5) by auto
  have here: "fakeVolumes f1 p = Some (m(n \<mapsto> v))" by (simp add: create(2))
  have found: "NewVolumeAction x (fakeClient x sc) n p f1 = (Returns (Inr (?act v)), f1)"
    by (rule fake_volumes.NewVolumeAction_finds [OF here _ assms(1,2)]) simp
  have "\<exists>f2. VolumeResize (fakeClient x sc) (?act v) u b f1 = (Returns None, f2) \<and> fakeVolumes f2 = (fakeVolumes f1)(p \<mapsto>
      (m(n \<mapsto> v))(n \<mapsto> v\<lparr>sv_Capacity := Some \<lparr>svs_Unit = ''bytes'', svs_Value = ConvertToBytes b u\<rparr>\<rparr>))"
    by (rule fake_volumes.VolumeResize_Delete(1) [OF here _ _ assms(4)]) simp_all
  then obtain f2 where resize: "VolumeResize (fakeClient x sc) (?act v) u b f1 = (Returns None, f2)"
    "fakeVolumes f2 = (fakeVolumes f1)(p \<mapsto> m(n \<mapsto> resized))"
    by (auto simp: assms(10))
  have there: "fakeVolumes f2 p = Some (m(n \<mapsto> resized))" by (simp add: resize(2))
  have found': "NewVolumeAction x (fakeClient x sc) n p f2 = (Returns (Inr (?act resized)), f2)"
    by (rule fake_volumes.NewVolumeAction_finds [OF there _ assms(11,12)]) simp
  have "\<exists>f3. VolumeDelete (fakeClient x sc) (?act resized) f2 = (Returns None, f3) \<and>
      fakeVolumes f3 = (fakeVolumes f2)(p \<mapsto> (m(n \<mapsto> resized))(n := None))"
    by (rule fake_volumes.VolumeResize_Delete(2) [OF there]) simp_all
  then obtain f3 where delete: "VolumeDelete (fakeClient x sc) (?act resized) f2 = (Returns None, f3)"
    "fakeVolumes f3 = (fakeVolumes f2)(p \<mapsto> m(n := None))"
    by auto
  have "ResizeRequired (?act resized) u b f2 = (Returns (Inr False), f2)"
    by (simp add: ResizeRequired_def assms(10) deref_def ret_def)
  moreover have "fakeVolumes f3 = fakeVolumes f"
    using assms(8,9) by (simp add: delete(2) resize(2) create(2) fun_upd_idem)
  ultimately show ?thesis
    using create(1) found resize(1) found' delete(1)
    by (intro exI [of _ created] exI [of _ "?act v"] exI [of _ "?act resized"] exI [of _ f1] exI [of _ f2] exI [of _ f3])
      (simp add: VolumeState_def)
qed

text \<open>A codec of one domain and two sizes of one volume, and a fake with an empty pool.\<close>

definition smallVolume :: StorageVolume where
  "smallVolume = emptyStorageVolume\<lparr>sv_Name := ''vol0'', sv_Capacity := Some \<lparr>svs_Unit = ''GiB'', svs_Value = 1\<rparr>\<rparr>"

definition grownVolume :: StorageVolume where
  "grownVolume = smallVolume\<lparr>sv_Capacity := Some \<lparr>svs_Unit = ''bytes'', svs_Value = ConvertToBytes 2 ''GiB''\<rparr>\<rparr>"

definition smallCodec :: xmlcodec where
  "smallCodec = (let e = PlainError ''xml'' in \<lparr>
     vol_Marshal = (\<lambda>v. Inr (if v = smallVolume then ''small'' else ''grown'')),
     vol_Unmarshal = (\<lambda>xml. Inr (if xml = ''small'' then smallVolume else grownVolume)),
     dom_Marshal = (\<lambda>_. Inr ''dom0''), dom_Unmarshal = (\<lambda>n. Inr (newDomainDef n)),
     caps_Marshal = (\<lambda>_. Inl e), caps_Unmarshal = (\<lambda>_. Inl e),
     nodedev_Marshal = (\<lambda>_. Inl e), nodedev_Unmarshal = (\<lambda>_. Inl e)\<rparr>)"

definition onePool :: Fake where
  "onePool = WithPool \<lparr>spx_Name = ''default'', spx_Capacity = None, spx_Allocation = None, spx_Available = None\<rparr> 2 [] fakeNew"

lemma smallVolume_grown: "grownVolume \<noteq> smallVolume" "smallVolume \<noteq> grownVolume"
  by (simp_all add: smallVolume_def grownVolume_def emptyStorageVolume_def)

theorem Domain_roundtrip_witness:
  "\<exists>created f1 f2 f3 f4 found.
    Dom_Create smallCodec (fakeClient smallCodec safecast_clamping)
      \<lparr>da_name = ''dom0'', da_id = None, da_def = newDomainDef ''dom0'', da_state = 0\<rparr> onePool = (Returns (None, created), f1) \<and>
    Dom_Start (fakeClient smallCodec safecast_clamping) created f1 = (Returns None, f2) \<and>
    found = \<lparr>da_name = ''dom0'', da_id = Some \<lparr>ld_Name = ''dom0''\<rparr>, da_def = newDomainDef ''dom0'', da_state = DomainRunning\<rparr> \<and>
    NewDomainAction smallCodec (fakeClient smallCodec safecast_clamping) ''dom0'' f2 = (Returns (Inr found), f2) \<and>
    Dom_Shutdown (fakeClient smallCodec safecast_clamping) found f2 = (Returns None, f3) \<and>
    Dom_Delete (fakeClient smallCodec safecast_clamping) found f3 = (Returns None, f4) \<and>
    NewDomainAction smallCodec (fakeClient smallCodec safecast_clamping) ''dom0'' f4 =
      (Returns (Inr \<lparr>da_name = ''dom0'', da_id = None, da_def = newDomainDef ''dom0'', da_state = 0\<rparr>), f4) \<and>
    fakeDomains f4 = fakeDomains onePool"
  by (rule Domain_roundtrip [where xml = "''dom0''"])
    (simp_all add: smallCodec_def Let_def newDomainDef_def onePool_def fakeNew_def WithPool_def fakeDomains_def)

theorem Volume_roundtrip_witness:
  "\<exists>created found found' f1 f2 f3.
    VolumeCreate smallCodec (fakeClient smallCodec safecast_clamping)
      (emptyAction\<lparr>va_pool := \<lparr>lsp_Name = ''default''\<rparr>, va_def := smallVolume\<rparr>) onePool = (Returns (None, created), f1) \<and>
    NewVolumeAction smallCodec (fakeClient smallCodec safecast_clamping) ''vol0'' ''default'' f1 = (Returns (Inr found), f1) \<and>
    VolumeState found \<and> va_def found = smallVolume \<and>
    VolumeResize (fakeClient smallCodec safecast_clamping) found ''GiB'' 2 f1 = (Returns None, f2) \<and>
    NewVolumeAction smallCodec (fakeClient smallCodec safecast_clamping) ''vol0'' ''default'' f2 = (Returns (Inr found'), f2) \<and>
    ResizeRequired found' ''GiB'' 2 f2 = (Returns (Inr False), f2) \<and>
    VolumeDelete (fakeClient smallCodec safecast_clamping) found' f2 = (Returns None, f3) \<and> fakeVolumes f3 = fakeVolumes onePool"
  by (rule Volume_roundtrip [where xml = "''small''" and xml' = "''grown''" and resized = grownVolume and m = Map.empty])
    (simp_all add: smallCodec_def Let_def smallVolume_grown,
      simp_all add: smallVolume_def grownVolume_def emptyAction_def onePool_def fakeNew_def WithPool_def fakeVolumes_def
        emptyStorageVolume_def)

end
