(* ===== verification/HostMonitor.thy ===== *)
theory HostMonitor
  imports HostStore
begin

text \<open>
  The goroutine of an entry of the connection store (\<open>monitor\<close> and \<open>gracefulDisconnect\<close> of
  \<^verbatim>\<open>internal/store/host.go\<close>), interleaved with the callers that open and end sessions on the entry. A step
  is one atomic action of one of them; \<open>Session\<close> takes two, because the test of the connection is made
  before the mutex is taken, and the monitor reads the sessions without the mutex.
\<close>

section \<open>States of a monitor are ordered\<close>

fun monitor_rank :: "monitor \<Rightarrow> nat" where
  "monitor_rank NotStarted = 0"
| "monitor_rank Watching = 1"
| "monitor_rank Draining = 2"
| "monitor_rank Disconnecting = 3"
| "monitor_rank Stopped = 4"

lemma monitor_rank_inj: "monitor_rank m = monitor_rank m' \<Longrightarrow> m = m'"
  by (cases m; cases m') simp_all

instantiation monitor :: linorder
begin

definition less_eq_monitor :: "monitor \<Rightarrow> monitor \<Rightarrow> bool" where
  "less_eq_monitor m m' \<longleftrightarrow> monitor_rank m \<le> monitor_rank m'"

definition less_monitor :: "monitor \<Rightarrow> monitor \<Rightarrow> bool" where
  "less_monitor m m' \<longleftrightarrow> monitor_rank m < monitor_rank m'"

instance
  by standard (auto simp: less_eq_monitor_def less_monitor_def intro: monitor_rank_inj)

end

lemmas monitor_order = less_eq_monitor_def less_monitor_def

section \<open>Steps\<close>

text \<open>
  \<open>es_opening\<close> counts the callers of \<open>Session\<close> that have found the client connected and have not yet added
  their session. \<open>es_seen\<close> says that the monitor has found the client connected and is about to read the number of
  sessions.
\<close>

record EntryState =
  es_monitor :: monitor
  es_connected :: bool
  es_seen :: bool
  es_sessions :: "string set"
  es_opening :: nat

datatype label =
    Lose \<comment> \<open>the connection breaks\<close>
  | Reconnect bool \<comment> \<open>the monitor calls \<open>Connect\<close>, with or without success\<close>
  | Told \<comment> \<open>the monitor receives from \<open>mon\<close> or its context is done\<close>
  | FindsConnected \<comment> \<open>the monitor finds the client connected\<close>
  | Wait \<comment> \<open>the monitor finds sessions and sleeps\<close>
  | FindsIdle \<comment> \<open>the monitor finds no session\<close>
  | FindsClosed \<comment> \<open>the monitor finds the client not connected and returns\<close>
  | Disconnects bool \<comment> \<open>the monitor calls \<open>Disconnect\<close>, with or without success, and returns\<close>
  | Test \<comment> \<open>a caller of \<open>Session\<close> finds the client connected\<close>
  | Open string \<comment> \<open>the caller adds its session\<close>
  | Close string \<comment> \<open>a session is ended\<close>

inductive entryStep :: "label \<Rightarrow> EntryState \<Rightarrow> EntryState \<Rightarrow> bool" where
  lose: "es_connected s \<Longrightarrow> entryStep Lose s (s\<lparr>es_connected := False\<rparr>)"
| reconnect: "es_monitor s = Watching \<Longrightarrow> \<not> es_connected s \<Longrightarrow> entryStep (Reconnect ok) s (s\<lparr>es_connected := ok\<rparr>)"
| told: "es_monitor s = Watching \<Longrightarrow> entryStep Told s (s\<lparr>es_monitor := Draining\<rparr>)"
| connected: "es_monitor s = Draining \<Longrightarrow> \<not> es_seen s \<Longrightarrow> es_connected s \<Longrightarrow>
    entryStep FindsConnected s (s\<lparr>es_seen := True\<rparr>)"
| waits: "es_monitor s = Draining \<Longrightarrow> es_seen s \<Longrightarrow> es_sessions s \<noteq> {} \<Longrightarrow> entryStep Wait s (s\<lparr>es_seen := False\<rparr>)"
| idle: "es_monitor s = Draining \<Longrightarrow> es_seen s \<Longrightarrow> es_sessions s = {} \<Longrightarrow>
    entryStep FindsIdle s (s\<lparr>es_monitor := Disconnecting\<rparr>)"
| closed: "es_monitor s = Draining \<Longrightarrow> \<not> es_seen s \<Longrightarrow> \<not> es_connected s \<Longrightarrow>
    entryStep FindsClosed s (s\<lparr>es_monitor := Stopped\<rparr>)"
| disconnects: "es_monitor s = Disconnecting \<Longrightarrow>
    entryStep (Disconnects ok) s (s\<lparr>es_monitor := Stopped, es_connected := es_connected s \<and> \<not> ok\<rparr>)"
| test: "es_connected s \<Longrightarrow> entryStep Test s (s\<lparr>es_opening := Suc (es_opening s)\<rparr>)"
| opens: "es_opening s = Suc k \<Longrightarrow>
    entryStep (Open n) s (s\<lparr>es_opening := k, es_sessions := insert n (es_sessions s)\<rparr>)"
| closes: "entryStep (Close n) s (s\<lparr>es_sessions := es_sessions s - {n}\<rparr>)"

inductive_simps entryStep_simps:
  "entryStep Lose s s'" "entryStep (Reconnect ok) s s'" "entryStep Told s s'" "entryStep FindsConnected s s'" "entryStep Wait s s'"
  "entryStep FindsIdle s s'" "entryStep FindsClosed s s'" "entryStep (Disconnects ok) s s'"
  "entryStep Test s s'" "entryStep (Open n) s s'" "entryStep (Close n) s s'"

inductive entryRun :: "label list \<Rightarrow> EntryState \<Rightarrow> EntryState \<Rightarrow> bool" where
  nothing: "entryRun [] s s"
| step: "entryStep l s s' \<Longrightarrow> entryRun ls s' s'' \<Longrightarrow> entryRun (l # ls) s s''"

inductive_cases entryRun_NilE: "entryRun [] s s'"
inductive_cases entryRun_ConsE: "entryRun (l # ls) s s'"

lemma entryRun_Nil [simp]: "entryRun [] s s' \<longleftrightarrow> s' = s"
  by (auto intro: entryRun.nothing elim: entryRun_NilE)

lemma entryRun_Cons: "entryRun (l # ls) s s'' \<longleftrightarrow> (\<exists>s'. entryStep l s s' \<and> entryRun ls s' s'')"
  by (blast intro: entryRun.step elim: entryRun_ConsE)

lemma entryRun_append: "entryRun (ls @ ls') s s'' \<longleftrightarrow> (\<exists>s'. entryRun ls s s' \<and> entryRun ls' s' s'')"
  by (induction ls arbitrary: s) (auto simp: entryRun_Cons)

section \<open>Invariants\<close>

lemma entryStep_monitor: "entryStep l s s' \<Longrightarrow> es_monitor s \<le> es_monitor s'"
  by (cases rule: entryStep.cases) (auto simp: monitor_order)

lemma entryRun_monitor: "entryRun ls s s' \<Longrightarrow> es_monitor s \<le> es_monitor s'"
  by (induction rule: entryRun.induct) (auto dest: entryStep_monitor)

text \<open>A session that is open before the monitor has found the entry idle holds the monitor there.\<close>

lemma entryStep_holds:
  assumes "entryStep l s s'" and "n \<in> es_sessions s" and "es_monitor s \<le> Draining" and "l \<noteq> Close n"
  shows "n \<in> es_sessions s' \<and> (es_monitor s' \<le> Draining \<or> l = FindsClosed) \<and> (\<forall>ok. l \<noteq> Disconnects ok)"
  using assms by (cases rule: entryStep.cases) (auto simp: monitor_order)

lemma entryStep_stopped: "entryStep l s s' \<Longrightarrow> es_monitor s = Stopped \<Longrightarrow> es_monitor s' = Stopped \<and> (\<forall>ok. l \<noteq> Disconnects ok)"
  by (cases rule: entryStep.cases) auto

lemma entryRun_stopped: "entryRun ls s s' \<Longrightarrow> es_monitor s = Stopped \<Longrightarrow> (\<forall>ok. Disconnects ok \<notin> set ls) \<and> es_monitor s' = Stopped"
  by (induction rule: entryRun.induct) (auto dest: entryStep_stopped)

lemma entryRun_sessions: "entryRun ls s s' \<Longrightarrow> n \<in> es_sessions s \<Longrightarrow> Close n \<notin> set ls \<Longrightarrow> n \<in> es_sessions s'"
proof (induction rule: entryRun.induct)
  case (step l s s' ls s'')
  from step.hyps(1) step.prems have "n \<in> es_sessions s'" by (cases rule: entryStep.cases) auto
  with step show ?case by simp
qed simp

lemma entryStep_holds_monitor:
  assumes "entryStep l s s'" and "n \<in> es_sessions s" and "es_monitor s \<le> Draining"
  shows "es_monitor s' \<le> Draining \<or> es_monitor s' = Stopped"
  using assms by (cases rule: entryStep.cases) (auto simp: monitor_order)

text \<open>C28: The operator never disconnects a client under a session that was opened before the monitor of its entry
  found the entry idle: as long as that session is not ended, no step of any run calls \<open>Disconnect\<close>.\<close>

theorem session_not_cut_off:
  assumes "entryRun ls s s'" and "n \<in> es_sessions s" and "es_monitor s \<le> Draining" and "Close n \<notin> set ls"
  shows "(\<forall>ok. Disconnects ok \<notin> set ls) \<and> n \<in> es_sessions s'"
proof -
  have "(es_monitor s' \<le> Draining \<or> es_monitor s' = Stopped) \<and> (\<forall>ok. Disconnects ok \<notin> set ls) \<and> n \<in> es_sessions s'"
    using assms
  proof (induction rule: entryRun.induct)
    case (step l s s' ls s'')
    then have s': "n \<in> es_sessions s'" "es_monitor s' \<le> Draining \<or> es_monitor s' = Stopped" "\<forall>ok. l \<noteq> Disconnects ok"
      using entryStep_holds [OF step.hyps(1)] entryStep_holds_monitor [OF step.hyps(1)] by auto
    show ?case
    proof (cases "es_monitor s' \<le> Draining")
      case True
      with step s' show ?thesis by auto
    next
      case False
      with s' have "es_monitor s' = Stopped" by simp
      with entryRun_stopped [OF step.hyps(2)] entryRun_sessions [OF step.hyps(2) s'(1)] step.prems(3) s'(3)
      show ?thesis by auto
    qed
  qed simp
  then show ?thesis by simp
qed

definition connectedEntry :: EntryState where
  "connectedEntry = \<lparr>es_monitor = Watching, es_connected = True, es_seen = False, es_sessions = {}, es_opening = 0\<rparr>"

lemma exampleRun:
  "entryRun [Told, FindsConnected, Wait, FindsConnected] (connectedEntry\<lparr>es_sessions := {''s''}\<rparr>)
     (connectedEntry\<lparr>es_sessions := {''s''}, es_seen := True, es_monitor := Draining\<rparr>)"
  by (simp add: entryRun_Cons entryStep_simps connectedEntry_def)

theorem session_not_cut_off_witness:
  "(\<forall>ok. Disconnects ok \<notin> set [Told, FindsConnected, Wait, FindsConnected]) \<and>
     ''s'' \<in> es_sessions (connectedEntry\<lparr>es_sessions := {''s''}, es_seen := True, es_monitor := Draining\<rparr>)"
  by (rule session_not_cut_off [OF exampleRun]) (simp_all add: connectedEntry_def monitor_order)


definition leaving :: "EntryState \<Rightarrow> label list" where
  "leaving s = (if es_seen s then [FindsIdle, Disconnects True]
     else if es_connected s then [FindsConnected, FindsIdle, Disconnects True] else [FindsClosed])"

lemma leaving_sessions [simp]: "leaving (s\<lparr>es_sessions := S\<rparr>) = leaving s"
  unfolding leaving_def by simp

lemma idle_leaves:
  assumes "es_monitor s = Draining" and "es_sessions s = {}"
  shows "\<exists>s'. entryRun (leaving s) s s' \<and>
    es_monitor s' = Stopped \<and> \<not> es_connected s'"
  using assms by (auto simp: leaving_def entryRun_Cons entryStep_simps)

text \<open>Once it was told to stop and no caller opens sessions any more, the monitor stops: whatever the state, ending
  the sessions that are open lets it leave in at most three steps, and no run takes it back.\<close>

theorem monitor_drains:
  assumes "es_monitor s = Draining" and "finite (es_sessions s)"
  shows "\<exists>ls s'. entryRun (map Close ls @ leaving s) s s' \<and>
    set ls = es_sessions s \<and> es_monitor s' = Stopped \<and> \<not> es_connected s' \<and>
    (\<forall>ls' s''. entryRun ls' s' s'' \<longrightarrow> es_monitor s'' = Stopped)"
proof -
  obtain ls where ls: "set ls = es_sessions s" using finite_list [OF assms(2)] by blast
  have closes: "entryRun (map Close xs) t (t\<lparr>es_sessions := es_sessions t - set xs\<rparr>)" for xs t
  proof (induction xs arbitrary: t)
    case (Cons x xs)
    have "t\<lparr>es_sessions := es_sessions t - {x} - set xs\<rparr> = t\<lparr>es_sessions := es_sessions t - set (x # xs)\<rparr>"
      by (rule arg_cong [where f = "\<lambda>S. t\<lparr>es_sessions := S\<rparr>"]) auto
    with Cons.IH [of "t\<lparr>es_sessions := es_sessions t - {x}\<rparr>"] show ?case
      by (auto simp: entryRun_Cons entryStep_simps)
  qed simp
  let ?t = "s\<lparr>es_sessions := {}\<rparr>"
  have "entryRun (map Close ls) s ?t" using closes [of ls s] ls by simp
  moreover obtain s' where "entryRun (leaving s) ?t s'"
    "es_monitor s' = Stopped" "\<not> es_connected s'"
    using idle_leaves [of ?t] assms(1) by auto
  ultimately have "\<exists>s'. entryRun (map Close ls @ leaving s) s s' \<and>
      es_monitor s' = Stopped \<and> \<not> es_connected s'"
    unfolding entryRun_append by blast
  then show ?thesis using ls entryRun_stopped by blast
qed

theorem monitor_drains_witness:
  "\<exists>ls s'. entryRun (map Close ls @ [FindsConnected, FindsIdle, Disconnects True])
      (connectedEntry\<lparr>es_monitor := Draining, es_sessions := {''a'', ''b''}\<rparr>) s' \<and>
    set ls = {''a'', ''b''} \<and> es_monitor s' = Stopped \<and> \<not> es_connected s' \<and>
    (\<forall>ls' s''. entryRun ls' s' s'' \<longrightarrow> es_monitor s'' = Stopped)"
  using monitor_drains [of "connectedEntry\<lparr>es_monitor := Draining, es_sessions := {''a'', ''b''}\<rparr>"]
  by (simp add: connectedEntry_def leaving_def)

section \<open>The operations of the store are runs of these steps\<close>

definition entryView :: "nat \<Rightarrow> bool \<Rightarrow> bool \<Rightarrow> nat \<Rightarrow> ('w, 'z) HostSys_scheme \<Rightarrow> EntryState" where
  "entryView a seen connected opening s =
     \<lparr>es_monitor = hs_monitor s a, es_connected = connected, es_seen = seen, es_sessions = hs_sessions s a, es_opening = opening\<rparr>"

lemma entryView_select [simp]:
  "es_monitor (entryView a seen c k s) = hs_monitor s a" "es_seen (entryView a seen c k s) = seen" "es_connected (entryView a seen c k s) = c"
  "es_sessions (entryView a seen c k s) = hs_sessions s a" "es_opening (entryView a seen c k s) = k"
  by (simp_all add: entryView_def)

lemma entryView_update:
  "(entryView a seen c k s)\<lparr>es_opening := k'\<rparr> = entryView a seen c k' s"
  "(entryView a seen c k s)\<lparr>es_sessions := S\<rparr> = entryView a seen c k (s\<lparr>hs_sessions := (hs_sessions s)(a := S)\<rparr>)"
  "(entryView a seen c k s)\<lparr>es_monitor := m\<rparr> = entryView a seen c k (s\<lparr>hs_monitor := (hs_monitor s)(a := m)\<rparr>)"
  by (simp_all add: entryView_def)

lemma endSession_steps: "entryStep (Close n) (entryView a seen c k s) (entryView a seen c k (snd (endSession a n s)))"
  by (simp add: entryStep_simps endSession_def modify_def entryView_def)

lemma Session_steps:
  fixes s :: "('w, 'z) HostSys_scheme"
  shows "runs (Session lib e) s (\<lambda>r s'.
    case r of
      Returns (Inr (client, end)) \<Rightarrow> \<exists>n. end = endSession (he_addr e) n \<and>
        entryRun [Test, Open n] (entryView (he_addr e) seen True k s) (entryView (he_addr e) seen True k s')
    | _ \<Rightarrow> entryView (he_addr e) seen c k s' = entryView (he_addr e) seen c k s)"
  by (auto simp: runs_def Session_def observed_select called_def unlogged_def andThen_def ret_def modify_def Let_def
      entryRun_Cons entryStep_simps entryView_def split: prod.splits outcome.splits)

lemma sendMon_steps:
  "runs (sendMon e) s (\<lambda>r s'. case r of
      Returns _ \<Rightarrow> entryRun [Told] (entryView (he_addr e) seen c k s) (entryView (he_addr e) seen c k s')
    | _ \<Rightarrow> hs_monitor s (he_addr e) \<noteq> Watching \<and> s' = s)"
  by (auto simp: runs_sendMon entryRun_Cons entryStep_simps entryView_def)


text \<open>Deregistering a host that is registered is the receipt of its monitor; it hangs exactly where the monitor
  has left its loop.\<close>

lemma HostDeregister_refines_steps:
  "case hs_entries s uid of
     None \<Rightarrow> HostDeregister uid s = (Returns (), s)
   | Some e \<Rightarrow> runs (HostDeregister uid) s (\<lambda>r s'. case r of
         Returns _ \<Rightarrow> entryRun [Told] (entryView (he_addr e) seen c k s) (entryView (he_addr e) seen c k s') \<and> hs_entries s' uid = None
       | _ \<Rightarrow> r = Hangs \<and> hs_monitor s (he_addr e) \<noteq> Watching)"
  by (auto simp: HostDeregister_def host_runs entryRun_Cons entryStep_simps entryView_def reading_def ret_def
      split: option.splits)

section \<open>The store never waits for ever\<close>

text \<open>C29: In a store in order, registering a host returns as soon as the attempt to connect returns, successful or not:
  the UID then has a new entry with the given generation, the entry it replaces is told to disconnect, every other
  entry is left alone and the store is in order again.\<close>

theorem HostRegister_returns:
  fixes s :: "('w, 'z) HostSys_scheme"
  assumes ok: "host_store_ok s" and connects: "Connect (host_New lib d (hs_next s)) (w_ext s) = (Returns r, w)"
  shows "runs (HostRegister lib uid g d) s (\<lambda>r s'. r = Returns () \<and> host_store_ok s' \<and>
    hs_entries s' = (hs_entries s)(uid \<mapsto> \<lparr>he_addr = hs_next s, he_generation = g, he_client = host_New lib d (hs_next s)\<rparr>) \<and>
    (\<forall>a < hs_next s. hs_sessions s' a = hs_sessions s a \<and> hs_monitor s' a =
      (if \<exists>old. hs_entries s uid = Some old \<and> he_addr old = a then Draining else hs_monitor s a)))"
proof -
  have entries: "runs (HostRegister lib uid g d) s (\<lambda>r s'.
      hs_entries s' = (hs_entries s)(uid \<mapsto> \<lparr>he_addr = hs_next s, he_generation = g, he_client = host_New lib d (hs_next s)\<rparr>) \<and>
      (\<forall>a < hs_next s. hs_sessions s' a = hs_sessions s a \<and> hs_monitor s' a =
        (if \<exists>old. hs_entries s uid = Some old \<and> he_addr old = a then Draining else hs_monitor s a)))"
    using connects host_store_okD(1) [OF ok, of uid]
    by (cases "hs_entries s uid")
      (auto simp: HostRegister_def host_runs Let_def observed_def called_def runs_def [of "called _ _"])
  with HostRegister_keeps [OF ok, of lib uid g d] connects show ?thesis by (auto simp: runs_def split: prod.splits)
qed

definition emptyStore :: "'w \<Rightarrow> 'w HostSys" where
  "emptyStore w = \<lparr>w_ext = w, w_log = [], hs_entries = NewHostStore, hs_next = 0, hs_sessions = (\<lambda>_. {}),
     hs_monitor = (\<lambda>_. NotStarted)\<rparr>"

definition refusingLib :: "unit hostlib" where
  "refusingLib = \<lparr>host_New = (\<lambda>_ _. undefined\<lparr>Connect := ret (Some (PlainError ''refused''))\<rparr>), NewUUID = ret ''id''\<rparr>"

lemma emptyStore_ok: "host_store_ok (emptyStore w)"
  by (simp add: host_store_ok_def emptyStore_def NewHostStore_def)

theorem HostRegister_returns_witness:
  "runs (HostRegister refusingLib ''u'' 7 (NewTLS ''h'' [])) (emptyStore ()) (\<lambda>r s'. r = Returns () \<and> host_store_ok s')"
  by (rule runs_mono [OF HostRegister_returns [where r = "Some (PlainError ''refused'')" and w = "()", OF emptyStore_ok]])
    (simp_all add: refusingLib_def ret_def)

text \<open>In a store in order, deregistering a UID returns; the UID then has no entry, the monitor of the one it had is
  told to disconnect, and the store is in order again.\<close>

lemma HostDeregister_returns:
  assumes ok: "host_store_ok s"
  shows "runs (HostDeregister uid) s (\<lambda>r s'. r = Returns () \<and> host_store_ok s' \<and>
    hs_entries s' = (hs_entries s)(uid := None) \<and> hs_sessions s' = hs_sessions s \<and>
    hs_monitor s' = (case hs_entries s uid of None \<Rightarrow> hs_monitor s
      | Some e \<Rightarrow> (hs_monitor s)(he_addr e := Draining)))"
proof -
  have "runs (HostDeregister uid) s (\<lambda>r s'. hs_entries s' = (hs_entries s)(uid := None) \<and> hs_sessions s' = hs_sessions s \<and>
      hs_monitor s' = (case hs_entries s uid of None \<Rightarrow> hs_monitor s
        | Some e \<Rightarrow> (hs_monitor s)(he_addr e := Draining)))"
    using host_store_okD(1) [OF ok, of uid]
    by (cases "hs_entries s uid") (auto simp: HostDeregister_def host_runs)
  with HostDeregister_ok [OF ok, of uid] show ?thesis by (auto simp: runs_def split: prod.splits)
qed

end
