(* ===== verification/Reconcilers.thy ===== *)
theory Reconcilers
  imports DomainCreation HostMonitor
begin

text \<open>
  What holds of every controller (\<^verbatim>\<open>internal/controller\<close>): a reconciliation gives back the sessions it
  opened on the connections of hosts, and leaves the store of connections in order, so that no later operation of
  the store waits for ever.
\<close>

section \<open>The controllers\<close>

inductive reconciliation :: "'w env \<Rightarrow> 'w reconcile \<Rightarrow> bool" for env where
  "reconciliation env (Auth_Reconcile env req)"
| "reconciliation env (Host_Reconcile env req)"
| "reconciliation env (Pool_Reconcile env req)"
| "reconciliation env (Network_Reconcile env req)"
| "reconciliation env (PCIDevice_Reconcile env req)"
| "reconciliation env (Volume_Reconcile env req)"
| "reconciliation env (CloudInit_Reconcile env req)"
| "reconciliation env (Domain_Reconcile fuel env req)"

text \<open>What a program may do when nothing is asked of its events.\<close>

abbreviation tidy :: "('w sys, 'a) prog \<Rightarrow> bool" where
  "tidy m \<equiv> acts (\<lambda>_. True) m"

lemma acts_tidy: "acts E m \<Longrightarrow> tidy m"
  by (rule acts_mono) simp_all

lemmas acts_actions = acts_NewVolumeAction [THEN acts_tidy] acts_NewDomainAction [THEN acts_tidy]
  acts_CleanupSource [THEN acts_tidy] acts_awaitShutoff [THEN acts_tidy] acts_VolumeDelete

lemma tidy_registrations:
  "tidy (Auth_finalize env auth)" "tidy (Host_finalize env host)" "tidy (Pool_finalize env pool)"
  "tidy (Network_finalize env network)" "tidy (PCIDevice_finalize env pciDevice)"
  unfolding Auth_finalize_def Host_finalize_def Pool_finalize_def Network_finalize_def PCIDevice_finalize_def
    Auth_setStatusCondition_def Host_setStatusCondition_def Pool_setStatusCondition_def
    Network_setStatusCondition_def PCIDevice_setStatusCondition_def
  by (intro acts_rules; simp)+

lemma tidy_devices:
  "tidy (Volume_finalize env (observed a cl) action volume)"
  "tidy (CloudInit_finalize env (observed a cl) action ci)"
  "tidy (Domain_finalize env (observed a cl) domainAction domain)"
proof -
  have dom: "tidy (Dom_Shutdown (observed a cl) domainAction)" "tidy (Dom_Delete (observed a cl) domainAction)"
    unfolding Dom_Shutdown_def Dom_Delete_def observed_select by (intro acts_rules acts_actions; simp)+
  show "tidy (Volume_finalize env (observed a cl) action volume)"
    "tidy (CloudInit_finalize env (observed a cl) action ci)"
    "tidy (Domain_finalize env (observed a cl) domainAction domain)"
    unfolding Volume_finalize_def Volume_delete_def CloudInit_finalize_def Domain_finalize_def
      Volume_setStatusCondition_def CloudInit_setStatusCondition_def Domain_setStatusCondition_def Let_def
    by (intro acts_rules acts_actions dom; simp)+
qed

lemma tidy_reconciliation: "reconciliation env m \<Longrightarrow> tidy m"
proof (induction rule: reconciliation.induct)
  case (1 req)
  show ?case unfolding Auth_Reconcile_def Let_def
    by (intro acts_rules tidy_registrations acts_Auth_register; simp)
next
  case (2 req)
  show ?case unfolding Host_Reconcile_def
    by (intro acts_rules tidy_registrations acts_Host_register; simp)
next
  case (3 req)
  show ?case unfolding Pool_Reconcile_def
    by (intro acts_rules tidy_registrations acts_probeObject acts_probed; simp)
next
  case (4 req)
  show ?case unfolding Network_Reconcile_def
    by (intro acts_rules tidy_registrations acts_probeObject acts_probed; simp)
next
  case (5 req)
  show ?case unfolding PCIDevice_Reconcile_def
    by (intro acts_rules tidy_registrations acts_probeObject acts_probed; simp)
next
  case (6 req)
  show ?case unfolding Volume_Reconcile_def Volume_withAction_def
    by (intro acts_rules acts_withPool acts_actions tidy_devices acts_Volume_manage; simp)
next
  case (7 req)
  show ?case unfolding CloudInit_Reconcile_def CloudInit_withAction_def
    by (intro acts_rules acts_withPool acts_actions tidy_devices acts_CloudInit_manage; simp)
next
  case (8 fuel req)
  show ?case unfolding Domain_Reconcile_def Domain_withClient_def
    by (intro acts_rules acts_withHost acts_actions tidy_devices acts_Domain_managed; simp)
qed

text \<open>C26: Whatever the daemons, the API server and the operating system answer, a reconciliation of any kind that ends,
  with a result, an error or a panic, has closed every session it opened, and has kept the store of connections in
  the state in which registering and deregistering return.\<close>

theorem Reconcile_keeps_store:
  assumes "reconciliation env m" and "m s = (r, s')" and "r \<noteq> Hangs"
  shows "(\<forall>a. hs_sessions s' a \<subseteq> hs_sessions s a) \<and> (host_store_ok s \<longrightarrow> host_store_ok s' \<and>
    (\<forall>uid. runs (HostDeregister uid) s' (\<lambda>r s''. r = Returns () \<and> host_store_ok s'')))"
  using acts_sessions [OF tidy_reconciliation [OF assms(1)] assms(2,3)]
    acts_store_ok [OF tidy_reconciliation [OF assms(1)] assms(2,3)] HostDeregister_ok by blast

lemma exampleState_ok: "host_store_ok (exampleState client w)"
  by (simp add: host_store_ok_def exampleState_def)

lemma exampleState_sessions: "hs_sessions (exampleState client w) a = {}"
  by (simp add: exampleState_def)

lemma exampleDeletion_ends:
  "fst (Volume_Reconcile exampleDeletionEnv exampleRequest (exampleState quietClient ())) \<noteq> Hangs"
  by (simp add: example_defs run_defs exampleDeletionEnv_def Volume_Reconcile_def withPool_def withHost_def resolveRefs_def
      Volume_withAction_def NewVolumeAction_def Volume_finalize_def Volume_delete_def VolumeDelete_def)

theorem Reconcile_keeps_store_witness:
  "let s' = snd (Volume_Reconcile exampleDeletionEnv exampleRequest (exampleState quietClient ())) in
     (\<forall>a. hs_sessions s' a = {}) \<and> host_store_ok s'"
  using Reconcile_keeps_store [OF reconciliation.intros(6) surjective_pairing exampleDeletion_ends]
    exampleState_ok [of quietClient "()"]
  by (simp add: Let_def exampleState_sessions)

end
