(* ===== verification/Credentials.thy ===== *)
theory Credentials
  imports HostController
begin

text \<open>
  The two controllers that meet at the store of credentials: what the controller of \<open>Auth\<close> objects writes
  (\<^verbatim>\<open>internal/controller/auth.go\<close>) and what the dialer reads that the controller of \<open>Host\<close> objects makes
  (\<^verbatim>\<open>internal/controller/host.go\<close>).
\<close>

section \<open>What a dialer reads\<close>

text \<open>
  The files that the options of a dialer name. The TLS dialer looks for its files by their fixed names in the
  directory, the certificate of the authority only when it verifies the server.
\<close>

fun sshOptionFiles :: "SSHOption \<Rightarrow> string list list" where
  "sshOptionFiles (UseKeyFile p) = [p]"
| "sshOptionFiles (UseKnownHostsFile p) = [p]"
| "sshOptionFiles _ = []"

fun tlsOptionFiles :: "bool \<Rightarrow> TLSOption \<Rightarrow> string list list" where
  "tlsOptionFiles verifying (UsePKIPath dir) =
     [dir @ [clientCert], dir @ [clientKey]] @ (if verifying then [dir @ [caCert]] else [])"
| "tlsOptionFiles verifying _ = []"

fun dialerFiles :: "Dialer \<Rightarrow> string list list" where
  "dialerFiles (NewSSH address opts) = concat (map sshOptionFiles opts)"
| "dialerFiles (NewTLS address opts) = concat (map (tlsOptionFiles (WithInsecureNoVerify \<notin> set opts)) opts)"

lemma portOption_files:
  "concat (map sshOptionFiles (portOption UseSSHPort host)) = []"
  "concat (map (tlsOptionFiles v) (portOption UseTLSPort host)) = []"
  "WithInsecureNoVerify \<notin> set (portOption UseTLSPort host)"
  by (cases "hs_Port (Spec host)"; simp add: portOption_def)+

lemma verifies_iff: "verifies auth \<longleftrightarrow> \<not> insecure auth"
  by (cases "as_Verify (Spec auth)") (auto simp: verifies_def insecure_def)

lemma file_names_differ: "privateKey \<noteq> knownHosts" "distinct [clientCert, clientKey, caCert]" "SSHAuth \<noteq> TLSAuth"
  by (simp_all add: privateKey_def knownHosts_def clientCert_def clientKey_def caCert_def SSHAuth_def TLSAuth_def)


definition exampleSecret :: Secret where
  "exampleSecret = \<lparr>sec_Meta = exampleMeta ''secret'', sec_Type = SecretTypeSSHAuth, sec_Data = [''ssh-privatekey'' \<mapsto> ''key'']\<rparr>"

definition exampleEntry :: AuthEntry where
  "exampleEntry = \<lparr>ae_path = [''tmp'', ''u-auth''], ae_generation = 1\<rparr>"

end
