(* ===== verification/VolumeGrowth.thy ===== *)
theory VolumeGrowth
  imports VolumeController Ordering Example
begin

text \<open>
  Growing volumes: \<open>resizeVolume\<close> of \<^verbatim>\<open>internal/controller/volume.go\<close> with \<open>ResizeRequired\<close>, \<open>Resize\<close> and
  \<open>LiveResize\<close> of \<^verbatim>\<open>internal/action/volume.go\<close>.
\<close>

section \<open>When a size is sent to a daemon\<close>

text \<open>The sizes that an event asks a daemon for.\<close>

fun resizesTo :: "event \<Rightarrow> u64 option" where
  "resizesTo (OnHost a (DidStorageVolResize v b r)) = Some b"
| "resizesTo (OnHost a (DidDomainBlockResize d disk b r)) = Some b"
| "resizesTo _ = None"

fun_cases resizesTo_SomeE: "resizesTo e = Some b"

lemma resizesTo_Some:
  "resizesTo e = Some b \<longleftrightarrow> (\<exists>a v r. e = OnHost a (DidStorageVolResize v b r)) \<or>
     (\<exists>a d disk r. e = OnHost a (DidDomainBlockResize d disk b r))"
  by (auto elim!: resizesTo_SomeE)

lemma mild_resizes: "mild e \<Longrightarrow> resizesTo e = None"
  by (cases e rule: resizesTo.cases) auto

text \<open>
  What has to hold for a size that is sent: it is the one the spec asks for, it is larger than the capacity the
  daemon described, and no volume has this one as its backing store.
\<close>

definition grows :: "'w env \<Rightarrow> VolumeAction \<Rightarrow> Volume \<Rightarrow> u64 \<Rightarrow> bool" where
  "grows env action volume b \<longleftrightarrow> (\<exists>sz cap. vsp_Size (Spec volume) = Some sz \<and> sv_Capacity (va_def action) = Some cap \<and>
     b = ConvertToBytes (ToUint64 (e_cast env) (vs_Value sz)) (vs_Unit sz) \<and>
     ConvertToBytes (svs_Value cap) (svs_Unit cap) < b)"

definition noOverlay :: "Volume \<Rightarrow> event" where
  "noOverlay volume =
     DidList VolumeKind (Some \<lparr>rq_Key = VolumeLabel, rq_Value = om_Name (Meta volume)\<rparr>) (Returns (Inr []))"

definition growthGuards :: "'w env \<Rightarrow> VolumeAction \<Rightarrow> Volume \<Rightarrow> event \<Rightarrow> (event \<Rightarrow> bool) list" where
  "growthGuards env action volume e = (case resizesTo e of
     None \<Rightarrow> [] | Some b \<Rightarrow> [\<lambda>e'. e' = noOverlay volume, \<lambda>_. grows env action volume b])"

lemma growthGuards_simps:
  "resizesTo e = None \<Longrightarrow> licensed (growthGuards env action volume) B e"
  "resizesTo e = Some b \<Longrightarrow> noOverlay volume \<in> B \<Longrightarrow> grows env action volume b \<Longrightarrow> licensed (growthGuards env action volume) B e"
  by (auto simp: licensed_def growthGuards_def)

lemma ResizeRequired_grows:
  assumes "vsp_Size (Spec volume) = Some sz"
  shows "answers (\<lambda>required. required \<longrightarrow>
      grows env action volume (ConvertToBytes (ToUint64 (e_cast env) (vs_Value sz)) (vs_Unit sz)))
    (ResizeRequired action (vs_Unit sz) (ToUint64 (e_cast env) (vs_Value sz)))"
  unfolding ResizeRequired_def Let_def
  by (intro yields_rules) (auto simp: grows_def assms)

lemma traces_isNotBackingStore:
  assumes ok: "apimachinery_ok (e_api env)"
  shows "traces (isNotBackingStore env (om_Name (Meta volume))) s (\<lambda>r tr. list_all mild tr \<and>
     (r = Returns (Inr True) \<longrightarrow> noOverlay volume \<in> set tr))"
  unfolding isNotBackingStore_def withRequirement_def apiList_def
  by (intro traces_rules) (auto simp: noOverlay_def resource_defs dest!: apimachinery_okD(6) [OF ok])

lemma heeds_Volume_resize:
  assumes ok: "apimachinery_ok (e_api env)"
  shows "heeds (growthGuards env action volume) B (Volume_resize env (observed a cl) action volume)"
proof (cases "vsp_Size (Spec volume)")
  case None
  then show ?thesis by (simp add: Volume_resize_def heeds_ret)
next
  case (Some sz)
  let ?W = "growthGuards env action volume"
  have m: "licensed ?W B' e" if "mild e" for B' e by (simp add: growthGuards_simps mild_resizes that)
  show ?thesis
    unfolding Volume_resize_def Some option.simps Let_def
  proof (rule heeds_attempt_answers [OF acts_ResizeRequired ResizeRequired_grows [OF Some]])
    fix required
    assume g: "required \<longrightarrow> grows env action volume (ConvertToBytes (ToUint64 (e_cast env) (vs_Value sz)) (vs_Unit sz))"
    have w: "licensed ?W B' e" if "required" "noOverlay volume \<in> B'"
      "resizesTo e = Some (ConvertToBytes (ToUint64 (e_cast env) (vs_Value sz)) (vs_Unit sz))" for B' e
      by (rule growthGuards_simps(2) [OF that(3,2)]) (use g that(1) in simp)
    show "heeds ?W B (if \<not> required then stop
       else attempt (isNotBackingStore env (om_Name (Meta volume))) fail (\<lambda>free.
          if \<not> free then fail (PlainError ErrCannotResizeBackingStore)
          else attempt (usedByDomain env (om_Name (Meta volume))) fail (\<lambda>used.
          case used of
            None \<Rightarrow> endWith (VolumeResize (observed a cl) action (vs_Unit sz) (ToUint64 (e_cast env) (vs_Value sz)))
          | Some d \<Rightarrow> endWith (LiveResize (e_xml env) (observed a cl) action d (vs_Unit sz) (ToUint64 (e_cast env) (vs_Value sz))))))"
      apply (rule heeds_if)
       apply (simp add: heeds_ret)
      apply (rule heeds_attempt_of [where Q = "\<lambda>r tr. r = Returns (Inr True) \<longrightarrow> noOverlay volume \<in> set tr"])
        apply (rule traces_mono [OF traces_isNotBackingStore [OF ok]])
        apply (auto simp: list_all_iff m intro!: heeds_ret heeds_if)[1]
       apply (simp add: heeds_ret)
      apply (rule heeds_if)
       apply (simp add: heeds_ret)
      apply (rule heeds_acts)
      apply (intro acts_rules acts_mono [OF acts_usedByDomain] acts_LiveResize acts_VolumeResize)
           apply ((erule m) | (rule w, blast, blast, (simp; fail)) | (rule m, (simp; fail)))+
      done
  qed (simp add: heeds_ret)
qed

text \<open>C32: A daemon is asked for a new size of a volume, or of the disk of a running domain that uses it, only when the
  size is the one the spec of the volume asks for, in bytes, and is larger than the capacity that was
  described, and only after the API server has said that no other volume is backed by this one: no
  daemon is asked to shrink a volume, or to change the size of an image that others are known to be built on.\<close>

theorem Volume_resize_safe:
  assumes "apimachinery_ok (e_api env)" and "Volume_resize env (observed a cl) action volume s = (r, s')"
    and "newEvents s s' = pre @ e # post" and "resizesTo e = Some b"
  shows "noOverlay volume \<in> set pre \<and> grows env action volume b"
proof -
  have "orderly (growthGuards env action volume) [] (pre @ e # post)"
    using traces_newEvents [OF heedsD [OF heeds_Volume_resize [OF assms(1)]] assms(2), of "{}" "[]"] assms(3) by simp
  from orderly_nth [OF this refl] assms(4) show ?thesis by (auto simp: growthGuards_def)
qed

text \<open>A run that grows the example volume, described with one GiB, to the two its spec asks for.\<close>

definition smallAction :: VolumeAction where
  "smallAction = \<lparr>va_name = ''vol0'', va_poolName = ''default'', va_pool = \<lparr>lsp_Name = ''default''\<rparr>,
     va_id = Some (exampleHandle ''vol0''), va_def = exampleDef, va_source = None\<rparr>"

lemma exampleGrowth_events:
  "newEvents (exampleState quietClient ())
     (snd (Volume_resize (exampleEnv quietClient) (observed 0 quietClient) smallAction exampleVolume (exampleState quietClient ()))) =
   [DidList VolumeKind (Some \<lparr>rq_Key = VolumeLabel, rq_Value = ''vol''\<rparr>) (Returns (Inr [])),
    DidList DomainKind (Some \<lparr>rq_Key = DiskLabelPrefix @ ''/vol'', rq_Value = ''''\<rparr>) (Returns (Inr []))] @
   OnHost 0 (DidStorageVolResize (exampleHandle ''vol0'') 2147483648 (Returns None)) # []"
  by (simp add: example_defs run_defs smallAction_def Volume_resize_def ResizeRequired_def VolumeResize_def
      isNotBackingStore_def usedByDomain_def endWith_def ConvertToBytes_def unitConversion_def safecast_clamping_def clamp_def)

theorem Volume_resize_safe_witness:
  "noOverlay exampleVolume \<in> set [DidList VolumeKind (Some \<lparr>rq_Key = VolumeLabel, rq_Value = ''vol''\<rparr>) (Returns (Inr [])),
      DidList DomainKind (Some \<lparr>rq_Key = DiskLabelPrefix @ ''/vol'', rq_Value = ''''\<rparr>) (Returns (Inr []))] \<and>
   grows (exampleEnv quietClient :: unit env) smallAction exampleVolume 2147483648"
proof -
  have ok: "apimachinery_ok (e_api (exampleEnv quietClient :: unit env))"
    by (simp add: exampleEnv_def apimachinery_ref_ok)
  show ?thesis
    by (rule Volume_resize_safe [OF ok surjective_pairing exampleGrowth_events]) simp
qed

end
