(* ===== verification/VolumeCreation.thy ===== *)
theory VolumeCreation
  imports CloudInitController Ordering
begin

text \<open>
  When a volume is created and written to: \<open>create\<close> of \<^verbatim>\<open>internal/controller/volume.go\<close>, the last part of
  \<open>Reconcile\<close> of \<^verbatim>\<open>internal/controller/cloudinit.go\<close>, and \<open>Create\<close> of \<^verbatim>\<open>internal/action/volume.go\<close>. Uploading
  overwrites what a volume holds, so it matters that it only ever happens to a volume the same
  reconciliation has just created.
\<close>

section \<open>What has to come first\<close>

text \<open>
  Before a volume is created: the daemon has said that the pool has none of the name, and the definition
  that is sent is one the object asks for (\<open>D\<close>); what else the object needs (\<open>needs\<close>). Before content is
  uploaded: the volume was created.
\<close>

definition volumeAbsent :: "nat \<Rightarrow> LvStoragePool \<Rightarrow> string \<Rightarrow> event \<Rightarrow> bool" where
  "volumeAbsent a p name e \<longleftrightarrow> (\<exists>err. isCode ErrNoStorageVol err \<and> e = OnHost a (LookedUpVolume p name (Returns (Inl err))))"

definition createdAs :: "nat \<Rightarrow> LvStorageVol \<Rightarrow> event \<Rightarrow> bool" where
  "createdAs a v e \<longleftrightarrow> (\<exists>p xml. e = OnHost a (DidStorageVolCreateXML p xml (Returns (Inr v))))"

fun creationGuards :: "bool \<Rightarrow> xmlcodec \<Rightarrow> string \<Rightarrow> (StorageVolume \<Rightarrow> bool) \<Rightarrow> (event \<Rightarrow> bool) list \<Rightarrow> event
    \<Rightarrow> (event \<Rightarrow> bool) list" where
  "creationGuards managed x name D needs (OnHost a (DidStorageVolCreateXML p xml r)) =
     (\<lambda>e. managed \<and> volumeAbsent a p name e \<and> (\<exists>def. D def \<and> sv_Name def = name \<and> vol_Marshal x def = Inr xml)) # needs"
| "creationGuards managed x name D needs (OnHost a (DidStorageVolUpload v bs r)) = [createdAs a v]"
| "creationGuards managed x name D needs e = []"

lemma creationGuards_mild: "mild e \<Longrightarrow> creationGuards managed x name D needs e = []"
  by (cases e rule: mild.cases) auto

lemma licensed_creation_mild: "mild e \<Longrightarrow> licensed (creationGuards managed x name D needs) B e"
  by (simp add: licensed_def creationGuards_mild)

lemma licensed_creation_simps [simp]:
  "licensed (creationGuards managed x name D needs) B (DidUpdate obj r)"
  "licensed (creationGuards managed x name D needs) B (DidStatusUpdate obj r)"
  "licensed (creationGuards managed x name D needs) B OtherCall"
  "licensed (creationGuards managed x name D needs) B (OnHost a (DidStorageVolDelete v r'))"
  "licensed (creationGuards managed x name D needs) B (OnHost a (DidStorageVolResize v b r'))"
  "licensed (creationGuards managed x name D needs) B (OnHost a (DidDomainBlockResize d disk b r'))"
  "licensed (creationGuards managed x name D needs) B (DidGet k nn r'')"
  by (simp_all add: licensed_def)

text \<open>A program whose events are in order, followed by one whose events are.\<close>

lemma heeds_seq:
  fixes m :: "(('w, 'z) HostSys_scheme, 'a) prog"
  assumes m: "heeds W B m" and k: "\<And>x. heeds W B (k x)"
  shows "heeds W B (andThen m k)"
  unfolding heeds_def
proof (intro allI impI)
  fix before and s :: "('w, 'z) HostSys_scheme"
  assume B: "B \<subseteq> set before"
  show "traces (andThen m k) s (\<lambda>r. orderly W before)"
  proof (rule traces_andThen_of [OF heedsD [OF m B]])
    fix x tr and s' :: "('w, 'z) HostSys_scheme" assume o: "orderly W before tr"
    have "traces (k x) s' (\<lambda>r. orderly W (before @ tr))"
      by (rule heedsD [OF k]) (use B in auto)
    then show "traces (k x) s' (\<lambda>r tr'. orderly W before (tr @ tr'))"
      by (rule traces_mono) (simp add: orderly_append o)
  qed auto
qed

section \<open>The action\<close>

text \<open>
  What is known of an action for a volume that does not exist yet: the daemon has said so, and the
  definition has the name. An action that was just made has nothing else in its definition.
\<close>

definition fresh :: "nat \<Rightarrow> string \<Rightarrow> VolumeAction \<Rightarrow> event set \<Rightarrow> bool" where
  "fresh a name action B \<longleftrightarrow> sv_Name (va_def action) = name \<and> (\<exists>e\<in>B. volumeAbsent a (va_pool action) name e)"

lemma fresh_mono: "fresh a name action B \<Longrightarrow> B \<subseteq> B' \<Longrightarrow> fresh a name action B'"
  by (auto simp: fresh_def)

lemma traces_NewVolumeAction_fresh:
  "traces (NewVolumeAction x (observed a cl) name pool) s (\<lambda>r tr. list_all mild tr \<and>
     (\<forall>action. r = Returns (Inr action) \<longrightarrow> \<not> VolumeState action \<longrightarrow>
        va_def action = emptyStorageVolume\<lparr>sv_Name := name\<rparr> \<and> fresh a name action (set tr)))"
  unfolding NewVolumeAction_def Let_def observed_select
  by (intro traces_rules) (auto simp: fresh_def volumeAbsent_def VolumeState_def)

text \<open>Creating: the call, and the upload to what it answered.\<close>

lemma heeds_VolumeCreate:
  assumes "managed" and f: "fresh a name action B" and D: "D (va_def action)" and needs: "\<forall>p\<in>set needs. \<exists>e\<in>B. p e"
  shows "heeds (creationGuards managed x name D needs) B (VolumeCreate x (observed a cl) action)"
proof -
  let ?W = "creationGuards managed x name D needs"
  have c: "licensed ?W B (OnHost a (DidStorageVolCreateXML (va_pool action) xml r))"
    if "vol_Marshal x (va_def action) = Inr xml" for xml r
    using assms that by (auto simp: licensed_def fresh_def)
  have u: "licensed ?W (insert (OnHost a (DidStorageVolCreateXML p xml (Returns (Inr v)))) B) (OnHost a (DidStorageVolUpload v bs r))"
    for p xml v bs r
    by (auto simp: licensed_def createdAs_def)
  show ?thesis
    unfolding VolumeCreate_def Let_def observed_select
    by (intro heeds_sum heeds_ret heeds_attempt_called heeds_option heeds_andThen acts_called c u)
qed

text \<open>The object an update is answered with has the spec it was given, as in \<open>keepsSpec\<close> for domains.\<close>

definition keepsSpecs :: "('w, ('spec, 'st) Object) resource \<Rightarrow> bool" where
  "keepsSpecs R \<longleftrightarrow> (\<forall>d d' w w'. k_Update (rs_api R) d w = (Returns (Inr d'), w') \<longrightarrow>
     Spec d' = Spec d \<and> om_Namespace (Meta d') = om_Namespace (Meta d))"

definition specOf :: "('spec, 'st) Object \<Rightarrow> ('spec, 'st) Object \<Rightarrow> bool" where
  "specOf d d' \<longleftrightarrow> Spec d' = Spec d \<and> om_Namespace (Meta d') = om_Namespace (Meta d)"

lemma specOf_refl [simp]: "specOf d d"
  by (simp add: specOf_def)

lemma answers_update: "keepsSpecs R \<Longrightarrow> specOf d e \<Longrightarrow> answers (specOf d) (apiUpdate R e)"
  unfolding apiUpdate_def specOf_def by (rule answers_called) (metis keepsSpecs_def)

lemma answers_label:
  assumes "keepsSpecs R" and "specOf d e"
  shows "answers (specOf d) (SetLabelOn e k v R)"
  unfolding SetLabelOn_def
  using assms
  by (intro yields_rules answers_update)
    (auto simp: specOf_def SetObjectLabel_def SetLabel_frame split: prod.splits
      dest!: arg_cong [where f = snd, of "SetLabel _ _ _"] arg_cong [where f = om_Namespace])

lemma answers_finalizer:
  assumes "apimachinery_ok (e_api env)" and "keepsSpecs R"
  shows "answers (specOf d) (addFinalizer env R d)"
  unfolding addFinalizer_def
  using assms(2)
  by (intro yields_rules answers_update) (auto simp: specOf_def apimachinery_okD(1) [OF assms(1)] split: if_splits)

section \<open>A volume\<close>

text \<open>
  The definition a spec asks for: its format, its size if it has one, and a backing store if it names
  one and no source.
\<close>

definition hasBacking :: "VolumeSpec \<Rightarrow> bool" where
  "hasBacking spec \<longleftrightarrow> vsp_Source spec = None \<and> vsp_BackingStoreRef spec \<noteq> None"

definition asSpecified :: "'w env \<Rightarrow> VolumeSpec \<Rightarrow> StorageVolume \<Rightarrow> bool" where
  "asSpecified env spec def \<longleftrightarrow>
     sv_Target def = Some \<lparr>svt_Path = '''', svt_Format = Some \<lparr>svtf_Type = vsp_Format spec\<rparr>\<rparr> \<and>
     (\<forall>sz. vsp_Size spec = Some sz \<longrightarrow>
        sv_Capacity def = Some \<lparr>svs_Unit = vs_Unit sz, svs_Value = ToUint64 (e_cast env) (vs_Value sz)\<rparr>) \<and>
     (sv_BackingStore def \<noteq> None \<longleftrightarrow> hasBacking spec)"

text \<open>The backing store was read, was ready and is on the host of the pool.\<close>

definition gotBacking :: "'w env \<Rightarrow> Volume \<Rightarrow> Pool \<Rightarrow> event \<Rightarrow> bool" where
  "gotBacking env volume pool e \<longleftrightarrow>
     (\<exists>bs. e = DidGet VolumeKind (Volume_BackingStoreRef volume) (Returns (Inr (KVolume bs))) \<and>
        isTrue env bs ConditionReady \<and> vst_Host (Status bs) = ref_Name (pls_HostRef (Spec pool)))"

abbreviation volumeCreation :: "'w env \<Rightarrow> Volume \<Rightarrow> Pool \<Rightarrow> event \<Rightarrow> (event \<Rightarrow> bool) list" where
  "volumeCreation env volume pool \<equiv> creationGuards (\<not> deleting volume) (e_xml env) (Volume_ResourceName volume)
     (asSpecified env (Spec volume)) (if hasBacking (Spec volume) then [gotBacking env volume pool] else [])"

lemma heeds_Volume_commit:
  assumes "\<not> deleting volume" and "fresh a (Volume_ResourceName volume) action B"
    and "asSpecified env (Spec volume) (va_def action)"
    and "hasBacking (Spec volume) \<Longrightarrow> \<exists>e\<in>B. gotBacking env volume pool e"
  shows "heeds (volumeCreation env volume pool) B (Volume_commit env (observed a cl) pool hasSource action v)"
proof -
  have label: "acts (licensed (volumeCreation env volume pool) B) (SetLabelOn v' k w (Volumes env))" for v' k w
    by (intro acts_rules) simp
  have rest: "acts (licensed (volumeCreation env volume pool) B)
      (andThen (if hasSource then CleanupSource (liftOS (e_OS env)) action' else ret None) (\<lambda>_.
         attempt (Volume_setStatusCondition env v' t st msg rs) (\<lambda>err. ret (Some err)) (\<lambda>_. ret None)))" for action' v' t st msg rs
    unfolding Volume_setStatusCondition_def
    by (intro acts_rules acts_mono [OF acts_CleanupSource]) (simp_all add: licensed_creation_mild)
  have err: "acts (licensed (volumeCreation env volume pool) B) (failing env v' reason err)" for v' reason err
    by (intro acts_rules) simp_all
  show ?thesis
    unfolding Volume_commit_def
    by (intro heeds_attempt label heeds_ret heeds_seq heeds_prod heeds_option heeds_acts [OF rest] heeds_acts [OF err]
        heeds_VolumeCreate) (use assms in \<open>auto split: if_splits\<close>)
qed

text \<open>What downloading a source and describing a backing store leave of the action.\<close>

definition keepsDef :: "VolumeAction \<Rightarrow> VolumeAction \<Rightarrow> bool" where
  "keepsDef a b \<longleftrightarrow> va_pool b = va_pool a \<and> sv_Name (va_def b) = sv_Name (va_def a) \<and>
     sv_Target (va_def b) = sv_Target (va_def a) \<and>
     (sv_Capacity (va_def a) \<noteq> None \<longrightarrow> sv_Capacity (va_def b) = sv_Capacity (va_def a))"

lemma yields_RemoteSource:
  fixes os :: "'s OS"
  shows "yields (\<lambda>(r, b). keepsDef action b \<and> sv_BackingStore (va_def b) = sv_BackingStore (va_def action))
    (RemoteSource sc os action url cs)"
  unfolding RemoteSource_def Let_def guarded_def attempt_def
  by (intro yields_rules) (auto simp: VolumeSize_set_def keepsDef_def)

lemma yields_VolumeBackingStore:
  fixes c :: "'s Client"
  shows "yields (\<lambda>(r, b). r = None \<longrightarrow> keepsDef action b \<and> sv_BackingStore (va_def b) \<noteq> None)
    (VolumeBackingStore x c action name pool)"
  unfolding VolumeBackingStore_def Let_def attempt_def
  by (intro yields_rules) (auto simp: VolumeSize_set_def keepsDef_def)

lemma fresh_keepsDef: "fresh a name action B \<Longrightarrow> keepsDef action action' \<Longrightarrow> fresh a name action' B"
  by (simp add: fresh_def keepsDef_def)

text \<open>The definition before the source and the backing store are looked at.\<close>

definition begun :: "'w env \<Rightarrow> VolumeSpec \<Rightarrow> VolumeAction \<Rightarrow> VolumeAction" where
  "begun env spec action = VolumeFormat (case vsp_Size spec of
      None \<Rightarrow> action
    | Some sz \<Rightarrow> VolumeSize_set action (vs_Unit sz) (ToUint64 (e_cast env) (vs_Value sz))) (vsp_Format spec)"

lemma begun_specified:
  assumes "keepsDef (begun env spec action) b" and "sv_BackingStore (va_def b) \<noteq> None \<longleftrightarrow> hasBacking spec"
  shows "asSpecified env spec (va_def b)"
  using assms by (auto simp: begun_def keepsDef_def asSpecified_def VolumeFormat_def VolumeSize_set_def)

lemma fresh_begun:
  assumes "fresh a name action B"
  shows "fresh a name (begun env spec action) B"
  using assms by (auto simp: begun_def fresh_def VolumeFormat_def VolumeSize_set_def split: option.split)

lemma heeds_Volume_create:
  assumes keeps: "keepsSpecs (Volumes env)" and v: "specOf volume v" and n: "\<not> deleting volume"
    and def: "va_def action = emptyStorageVolume\<lparr>sv_Name := Volume_ResourceName volume\<rparr>"
    and f: "fresh a (Volume_ResourceName volume) action B"
  shows "heeds (volumeCreation env volume pool) B (Volume_create env (observed a cl) pool action v)"
proof -
  let ?W = "volumeCreation env volume pool"
  let ?action = "begun env (Spec volume) action"
  have spec: "Spec v = Spec volume" "Volume_BackingStoreRef v = Volume_BackingStoreRef volume"
    using v by (simp_all add: specOf_def Volume_BackingStoreRef_def cong: option.case_cong)
  have bare: "sv_BackingStore (va_def ?action) = None"
    by (simp add: begun_def VolumeFormat_def VolumeSize_set_def def emptyStorageVolume_def split: option.split)
  have err: "heeds ?W B' (failing env v' reason e)" for B' v' reason e
    by (rule heeds_acts) (intro acts_rules; simp)
  have commit: "heeds ?W B' (Volume_commit env (observed a cl) pool hasSource action' v')"
    if "keepsDef ?action action'" "sv_BackingStore (va_def action') \<noteq> None \<longleftrightarrow> hasBacking (Spec volume)" "B \<subseteq> B'"
      "hasBacking (Spec volume) \<Longrightarrow> \<exists>e\<in>B'. gotBacking env volume pool e" for B' hasSource action' v'
    by (intro heeds_Volume_commit n begun_specified [OF that(1,2)] that(4) fresh_keepsDef [OF _ that(1)] fresh_mono [OF fresh_begun [OF f] that(3)])
  let ?got = "\<lambda>bs. DidGet VolumeKind (Volume_BackingStoreRef volume) (Returns (Inr (KVolume bs)))"
  have backed: "heeds ?W (insert (?got bs) B) (andThen (VolumeBackingStore (e_xml env) (observed a cl) ?action nm pl)
      (\<lambda>(r, action'). case r of
         Some e \<Rightarrow> failing env v ConditionError e
       | None \<Rightarrow> attempt (SetLabelOn v VolumeLabel lb (Volumes env)) (\<lambda>e. ret (Some e))
           (Volume_commit env (observed a cl) pool False action')))"
    if "isTrue env bs ConditionReady" "vst_Host (Status bs) = ref_Name (pls_HostRef (Spec pool))" "hasBacking (Spec volume)"
    for bs nm pl lb
  proof (rule heeds_andThen_yields [OF _ yields_VolumeBackingStore])
    show "acts (licensed ?W (insert (?got bs) B)) (VolumeBackingStore (e_xml env) (observed a cl) ?action nm pl)"
      by (intro acts_mono [OF acts_VolumeBackingStore]) (rule licensed_creation_mild)
    have g: "gotBacking env volume pool (?got bs)" using that by (simp add: gotBacking_def)
    have label: "acts (licensed ?W B') (SetLabelOn v VolumeLabel lb (Volumes env))" for B'
      by (intro acts_rules) simp
    show "heeds ?W (insert (?got bs) B) (case x of (r, action') \<Rightarrow> (case r of
         Some e \<Rightarrow> failing env v ConditionError e
       | None \<Rightarrow> attempt (SetLabelOn v VolumeLabel lb (Volumes env)) (\<lambda>e. ret (Some e))
           (Volume_commit env (observed a cl) pool False action')))"
      if "case x of (r, b) \<Rightarrow> r = None \<longrightarrow> keepsDef ?action b \<and> sv_BackingStore (va_def b) \<noteq> None" for x
      by (intro heeds_prod heeds_option err heeds_attempt label heeds_ret commit)
        (use that \<open>hasBacking (Spec volume)\<close> g in auto)
  qed
  have source: "heeds ?W B (andThen (RemoteSource (e_cast env) (liftOS (e_OS env)) ?action url cs)
      (\<lambda>(r, action'). case r of
         Some e \<Rightarrow> failing env v ConditionError e
       | None \<Rightarrow> Volume_commit env (observed a cl) pool True action' v))"
    if "vsp_Source (Spec volume) \<noteq> None" for url cs
  proof (rule heeds_andThen_yields [OF _ yields_RemoteSource])
    show "acts (licensed ?W B) (RemoteSource (e_cast env) (liftOS (e_OS env)) ?action url cs)"
      by (intro acts_mono [OF acts_RemoteSource]) (rule licensed_creation_mild)
    show "heeds ?W B (case x of (r, action') \<Rightarrow> (case r of
         Some e \<Rightarrow> failing env v ConditionError e
       | None \<Rightarrow> Volume_commit env (observed a cl) pool True action' v))"
      if "case x of (r, b) \<Rightarrow> keepsDef ?action b \<and> sv_BackingStore (va_def b) = sv_BackingStore (va_def ?action)" for x
      by (intro heeds_prod heeds_option err commit)
        (use that \<open>vsp_Source (Spec volume) \<noteq> None\<close> bare in \<open>auto simp: hasBacking_def\<close>)
  qed
  show ?thesis
    unfolding Volume_create_def Volume_backed_def apiGet_def spec Let_def begun_def [symmetric]
    by (intro heeds_option source heeds_if heeds_attempt_called err commit)
      (use backed in \<open>auto simp: Volumes_def hasBacking_def keepsDef_def bare\<close>)
qed

section \<open>From the request to the volume\<close>

text \<open>
  The opening both owners of volumes share, with what it is known to have read: the pool, which was ready.
\<close>

definition gotPool :: "'w env \<Rightarrow> NamespacedName \<Rightarrow> Pool \<Rightarrow> event list \<Rightarrow> bool" where
  "gotPool env nn pool tr \<longleftrightarrow>
     DidGet PoolKind nn (Returns (Inr (KPool pool))) \<in> set tr \<and> isTrue env pool ConditionReady"

lemma traces_resolveRefs:
  "traces (resolveRefs env nn) s (\<lambda>r tr. list_all mild tr \<and>
     (\<forall>pool host. r = Returns (Inr (pool, host)) \<longrightarrow> DidGet PoolKind nn (Returns (Inr (KPool pool))) \<in> set tr))"
  unfolding resolveRefs_def apiGet_def
  by (intro traces_rules) (auto simp: Pools_def Hosts_def)

lemma traces_withPool_known:
  assumes k: "\<And>pool a cl s. traces (k pool (observed a cl)) s (P pool)"
  shows "traces (withPool env R obj nn k) s (\<lambda>r tr. list_all mild tr \<or>
    (\<exists>pool tr1 tr2. tr = tr1 @ tr2 \<and> list_all mild tr1 \<and> gotPool env nn pool tr1 \<and> P pool r tr2))"
  unfolding withPool_def
proof (rule traces_attempt_of [OF traces_resolveRefs])
  let ?G = "\<lambda>r tr. list_all mild tr \<or>
    (\<exists>pool tr1 tr2. tr = tr1 @ tr2 \<and> list_all mild tr1 \<and> gotPool env nn pool tr1 \<and> P pool r tr2)"
  fix x :: "Pool \<times> Host" and tr and s' :: "'a sys"
  assume t: "list_all mild tr \<and> (\<forall>pool host. Returns (Inr x) = Returns (Inr (pool, host)) \<longrightarrow>
    DidGet PoolKind nn (Returns (Inr (KPool pool))) \<in> set tr)"
  obtain pool host where x: "x = (pool, host)" by (cases x)
  show "traces (case x of (pool, host) \<Rightarrow>
      if \<not> isTrue env pool ConditionReady then unmet env R obj conditionPoolNotReady requeue
      else withHost env R obj host (k pool)) s' (\<lambda>r tr'. ?G r (tr @ tr'))"
  proof (cases "isTrue env pool ConditionReady")
    case True
    have "traces (withHost env R obj host (k pool)) s' (\<lambda>r tr'. ?G r (tr @ tr'))"
    proof (rule traces_withHost)
      show "?G r (tr @ tr')" if "list_all mild tr'" for r tr' using that t by simp
      show "traces (k pool (observed a cl)) s'' (\<lambda>r tr''. ?G r (tr @ tr' @ tr''))" if "list_all mild tr'" for a cl s'' tr'
      proof (rule traces_mono [OF k])
        fix r tr'' assume P: "P pool r tr''"
        have "gotPool env nn pool (tr @ tr')" using t x True by (simp add: gotPool_def)
        with P t that show "?G r (tr @ tr' @ tr'')"
          by (intro disjI2 exI [of _ pool] exI [of _ "tr @ tr'"] exI [of _ tr'']) simp
      qed
    qed
    with x True show ?thesis by simp
  next
    case False
    have "traces (unmet env R obj conditionPoolNotReady requeue) s' (\<lambda>r tr'. ?G r (tr @ tr'))"
      by (rule acts_traces [where E = mild]) (use t in \<open>auto intro!: acts_rules\<close>)
    with x False show ?thesis by simp
  qed
next
  let ?G = "\<lambda>r tr. list_all mild tr \<or>
    (\<exists>pool tr1 tr2. tr = tr1 @ tr2 \<and> list_all mild tr1 \<and> gotPool env nn pool tr1 \<and> P pool r tr2)"
  show "traces (unmet env R obj (ErrorText e) (fail e)) s' (\<lambda>r tr'. ?G r (tr @ tr'))"
    if "list_all mild tr \<and> (\<forall>pool host. Returns (Inl e) = Returns (Inr (pool, host)) \<longrightarrow>
      DidGet PoolKind nn (Returns (Inr (KPool pool))) \<in> set tr)" for e tr s'
    by (rule acts_traces [where E = mild]) (use that in \<open>auto intro!: acts_rules\<close>)
qed auto

text \<open>The part of an owner that works on the action.\<close>

lemma heeds_owned:
  assumes ok: "apimachinery_ok (e_api env)" and keeps: "keepsSpecs R" and mild: "\<And>e B. mild e \<Longrightarrow> licensed W B e"
    and update: "\<And>obj r B. licensed W B (DidUpdate obj r)"
    and fin: "\<And>action B. acts (licensed W B) (fin action)"
    and existing: "\<And>action obj' B. VolumeState action \<Longrightarrow> acts (licensed W B) (rest action obj')"
    and creating: "\<And>action obj' B. \<not> deleting obj \<Longrightarrow> specOf obj obj' \<Longrightarrow> \<not> VolumeState action \<Longrightarrow>
      va_def action = emptyStorageVolume\<lparr>sv_Name := name\<rparr> \<Longrightarrow> fresh a name action B \<Longrightarrow> heeds W B (rest action obj')"
  shows "heeds W {} (attempt (NewVolumeAction x (observed a cl) name pl) fail
      (\<lambda>action. withFinalizer env R obj (fin action) (rest action)))"
proof (rule heeds_attempt_of)
  show "traces (NewVolumeAction x (observed a cl) name pl) s (\<lambda>r tr. list_all (licensed W {}) tr \<and>
     (\<forall>action. r = Returns (Inr action) \<longrightarrow> \<not> VolumeState action \<longrightarrow>
        va_def action = emptyStorageVolume\<lparr>sv_Name := name\<rparr> \<and> fresh a name action (set tr)))" for s
    by (rule traces_mono [OF traces_NewVolumeAction_fresh]) (auto simp: list_all_iff mild)
next
  fix action tr assume t: "\<forall>action'. Returns (Inr action) = Returns (Inr action') \<longrightarrow> \<not> VolumeState action' \<longrightarrow>
        va_def action' = emptyStorageVolume\<lparr>sv_Name := name\<rparr> \<and> fresh a name action' (set tr)"
  have rest: "heeds W (set tr) (rest action obj')" if "specOf obj obj'" "\<not> deleting obj" for obj'
  proof (cases "VolumeState action")
    case True
    then show ?thesis by (intro heeds_acts existing)
  next
    case False
    with t that show ?thesis by (intro creating) auto
  qed
  show "heeds W ({} \<union> set tr) (withFinalizer env R obj (fin action) (rest action))"
    unfolding withFinalizer_def
    by (intro heeds_if heeds_attempt_answers [OF _ answers_finalizer [OF ok keeps]] heeds_ret heeds_acts [OF fin]
        acts_addFinalizer update) (auto intro!: rest simp: deleting_def)
qed (rule heeds_ret)

lemma acts_Volume_finalize:
  assumes "\<And>e. mild e \<Longrightarrow> E e" and "\<And>v r. E (OnHost a (DidStorageVolDelete v r))" and "\<And>obj r. E (DidUpdate (KVolume obj) r)"
  shows "acts E (Volume_finalize env (observed a cl) action volume)"
  unfolding Volume_finalize_def Volume_delete_def Volume_setStatusCondition_def
  by (intro acts_rules acts_VolumeDelete) (simp_all add: resource_defs assms)

lemma heeds_Volume_withAction:
  assumes ok: "apimachinery_ok (e_api env)" and keeps: "keepsSpecs (Volumes env)"
  shows "heeds (volumeCreation env volume pool) {} (Volume_withAction env volume pool (observed a cl))"
  unfolding Volume_withAction_def
proof (rule heeds_owned [OF ok keeps])
  let ?W = "volumeCreation env volume pool"
  show "acts (licensed ?W B) (Volume_finalize env (observed a cl) action volume)" for action B
    by (rule acts_Volume_finalize) (simp_all add: licensed_creation_mild)
  show "acts (licensed ?W B) (Volume_manage env pool (observed a cl) action obj')" if "VolumeState action" for action obj' B
    unfolding Volume_manage_def if_P [OF that] Volume_existing_def Volume_setStatusCondition_def
    by (intro acts_rules acts_Volume_resize) (simp_all add: licensed_creation_mild)
  show "heeds ?W B (Volume_manage env pool (observed a cl) action obj')"
    if "\<not> deleting volume" "specOf volume obj'" "\<not> VolumeState action"
      "va_def action = emptyStorageVolume\<lparr>sv_Name := Volume_ResourceName volume\<rparr>"
      "fresh a (Volume_ResourceName volume) action B" for action obj' B
    unfolding Volume_manage_def guarded_def if_not_P [OF that(3)]
    by (intro heeds_seq heeds_Volume_create [OF keeps that(2,1,4,5)] heeds_option heeds_if heeds_ret)
qed (simp_all add: licensed_creation_mild)

lemma traces_Volume_creation:
  assumes ok: "apimachinery_ok (e_api env)" and keeps: "keepsSpecs (Volumes env)"
  shows "traces (Volume_Reconcile env req) s (\<lambda>r tr. list_all mild tr \<or> (\<exists>volume pool tr1 tr2.
    tr = DidGet VolumeKind req (Returns (Inr (KVolume volume))) # tr1 @ tr2 \<and> list_all mild tr1 \<and>
    gotPool env (Volume_PoolRef volume) pool tr1 \<and> orderly (volumeCreation env volume pool) [] tr2))"
proof -
  have w: "traces (withPool env (Volumes env) volume nn (Volume_withAction env volume)) s'
      (\<lambda>r tr. list_all mild tr \<or> (\<exists>pool tr1 tr2. tr = tr1 @ tr2 \<and> list_all mild tr1 \<and> gotPool env nn pool tr1 \<and>
         orderly (volumeCreation env volume pool) [] tr2))" for volume nn s'
    by (rule traces_withPool_known) (rule heedsD [OF heeds_Volume_withAction [OF ok keeps]], simp)
  show ?thesis
    unfolding Volume_Reconcile_def getRequested_def apiGet_def
    by (intro traces_rules traces_mono [OF w]) (auto simp: Volumes_def)
qed

text \<open>An event that is not mild comes after the opening and after what is asked for it.\<close>

lemma creation_ordered:
  assumes t: "pre @ e # post = d # tr1 @ tr2" and m: "mild d" "list_all mild tr1" and e: "\<not> mild e"
    and o: "orderly W [] tr2"
  obtains pre' where "pre = d # pre'" and "set tr1 \<subseteq> set pre'" and "\<forall>q\<in>set (W e). \<exists>e'\<in>set pre'. q e'"
proof -
  from t m(1) e obtain pre' where p: "pre = d # pre'" and t': "pre' @ e # post = tr1 @ tr2"
    by (cases pre) auto
  from t' obtain us where us: "pre' = tr1 @ us" "tr2 = us @ e # post"
    using m(2) e by (auto simp: append_eq_append_conv2 append_eq_Cons_conv Cons_eq_append_conv)
  have "\<forall>q\<in>set (W e). \<exists>e'\<in>set pre'. q e'"
    using orderly_nth [OF o us(2)] unfolding us(1) by fastforce
  with p us(1) that show ?thesis by simp
qed

lemma Volume_Reconcile_creation:
  assumes "apimachinery_ok (e_api env)" and "keepsSpecs (Volumes env)" and "Volume_Reconcile env req s = (r, s')"
    and new: "newEvents s s' = pre @ e # post" and "\<not> mild e"
  shows "\<exists>volume pool pre'. pre = DidGet VolumeKind req (Returns (Inr (KVolume volume))) # pre' \<and>
    gotPool env (Volume_PoolRef volume) pool pre' \<and> (\<forall>p\<in>set (volumeCreation env volume pool e). \<exists>e'\<in>set pre'. p e')"
proof -
  from traces_newEvents [OF traces_Volume_creation [OF assms(1,2)] assms(3)] assms(5) new
  obtain volume pool tr1 tr2 where t: "pre @ e # post = DidGet VolumeKind req (Returns (Inr (KVolume volume))) # tr1 @ tr2"
    and m: "list_all mild tr1" and g: "gotPool env (Volume_PoolRef volume) pool tr1"
    and o: "orderly (volumeCreation env volume pool) [] tr2"
    by (auto simp: list_all_iff)
  from t _ m assms(5) o obtain pre' where "pre = DidGet VolumeKind req (Returns (Inr (KVolume volume))) # pre'"
    and s: "set tr1 \<subseteq> set pre'" and "\<forall>q\<in>set (volumeCreation env volume pool e). \<exists>e'\<in>set pre'. q e'"
    by (rule creation_ordered) simp_all
  moreover have "gotPool env (Volume_PoolRef volume) pool pre'" using g s by (auto simp: gotPool_def)
  ultimately show ?thesis by blast
qed


section \<open>A cloud-init image\<close>

text \<open>
  The definition an image is created from: as large as its documents are, but at least one sector, and
  without a backing store.
\<close>

definition imageSpecified :: "'w env \<Rightarrow> CloudInitSpec \<Rightarrow> StorageVolume \<Rightarrow> bool" where
  "imageSpecified env spec def \<longleftrightarrow> (\<exists>files n.
     cloudInitSourceFiles env (cis_Metadata spec) (cis_UserData spec) (cis_NetworkConfig spec) (cis_VendorData spec) =
       Inr (files, n) \<and>
     sv_Capacity def = Some \<lparr>svs_Unit = ''bytes'', svs_Value = ToUint64 (e_cast env) (max 2048 n)\<rparr> \<and>
     sv_Target def = Some \<lparr>svt_Path = '''', svt_Format = Some \<lparr>svtf_Type = ''raw''\<rparr>\<rparr> \<and>
     sv_BackingStore def = None)"

abbreviation imageCreation :: "'w env \<Rightarrow> CloudInit \<Rightarrow> event \<Rightarrow> (event \<Rightarrow> bool) list" where
  "imageCreation env ci \<equiv> creationGuards (\<not> deleting ci) (e_xml env) (CloudInit_ResourceName ci)
     (imageSpecified env (Spec ci)) []"

lemma heeds_CloudInit_create:
  assumes v: "specOf ci v" and n: "\<not> deleting ci"
    and def: "va_def action = emptyStorageVolume\<lparr>sv_Name := CloudInit_ResourceName ci\<rparr>"
    and f: "fresh a (CloudInit_ResourceName ci) action B"
  shows "heeds (imageCreation env ci) B (CloudInit_create env (observed a cl) pool action v)"
proof -
  let ?W = "imageCreation env ci"
  have spec: "Spec v = Spec ci" using v by (simp add: specOf_def)
  have err: "acts (licensed ?W B') (CloudInit_failing env v' e)" for B' v' e
    by (intro acts_rules) simp_all
  have finishing: "acts (licensed ?W B') (attempt (SetLabelOn v' k w (CloudInits env)) fail (\<lambda>ci.
         attempt (CloudInit_setStatusCondition env (CloudInit_created ci pool) t st msg rs) fail (\<lambda>_.
         andThen (CleanupSource (liftOS (e_OS env)) action') (\<lambda>_. stop))))" for B' v' k w t st msg rs action'
    unfolding CloudInit_setStatusCondition_def
    by (intro acts_rules acts_mono [OF acts_CleanupSource]) (simp_all add: licensed_creation_mild)
  have commit: "heeds ?W B (CloudInit_commit env (observed a cl) pool action' v)"
    if "fresh a (CloudInit_ResourceName ci) action' B" "imageSpecified env (Spec ci) (va_def action')" for action'
    unfolding CloudInit_commit_def
    by (intro heeds_seq heeds_VolumeCreate that n heeds_prod heeds_option heeds_acts [OF err] heeds_acts [OF finishing]) simp_all
  have iso: "acts (licensed ?W B) (cloudInitCreateISO env files k)" for files k
    by (rule acts_mono [OF acts_cloudInitCreateISO]) (rule licensed_creation_mild)
  show ?thesis
    unfolding CloudInit_create_def spec Let_def
    by (intro heeds_sum heeds_prod heeds_attempt iso heeds_acts [OF err] commit)
      (use f def in \<open>auto simp: fresh_def imageSpecified_def VolumeSize_set_def VolumeFormat_def LocalSource_def
         emptyStorageVolume_def max_def\<close>)
qed

lemma acts_CloudInit_finalize:
  assumes "\<And>e. mild e \<Longrightarrow> E e" and "\<And>v r. E (OnHost a (DidStorageVolDelete v r))" and "\<And>obj r. E (DidUpdate (KCloudInit obj) r)"
  shows "acts E (CloudInit_finalize env (observed a cl) action ci)"
  unfolding CloudInit_finalize_def CloudInit_setStatusCondition_def
  by (intro acts_rules acts_VolumeDelete) (simp_all add: resource_defs assms)

lemma heeds_CloudInit_withAction:
  assumes ok: "apimachinery_ok (e_api env)" and keeps: "keepsSpecs (CloudInits env)"
  shows "heeds (imageCreation env ci) {} (CloudInit_withAction env ci pool (observed a cl))"
  unfolding CloudInit_withAction_def
proof (rule heeds_owned [OF ok keeps])
  let ?W = "imageCreation env ci"
  show "acts (licensed ?W B) (CloudInit_finalize env (observed a cl) action ci)" for action B
    by (rule acts_CloudInit_finalize) (simp_all add: licensed_creation_mild)
  show "acts (licensed ?W B) (if VolumeState action then CloudInit_existing env pool obj'
      else CloudInit_create env (observed a cl) pool action obj')" if "VolumeState action" for action obj' B
    unfolding if_P [OF that] CloudInit_existing_def CloudInit_setStatusCondition_def
    by (intro acts_rules) simp_all
  show "heeds ?W B (if VolumeState action then CloudInit_existing env pool obj'
      else CloudInit_create env (observed a cl) pool action obj')"
    if "\<not> deleting ci" "specOf ci obj'" "\<not> VolumeState action"
      "va_def action = emptyStorageVolume\<lparr>sv_Name := CloudInit_ResourceName ci\<rparr>"
      "fresh a (CloudInit_ResourceName ci) action B" for action obj' B
    unfolding if_not_P [OF that(3)] by (rule heeds_CloudInit_create [OF that(2,1,4,5)])
qed (simp_all add: licensed_creation_mild)

lemma traces_CloudInit_creation:
  assumes ok: "apimachinery_ok (e_api env)" and keeps: "keepsSpecs (CloudInits env)"
  shows "traces (CloudInit_Reconcile env req) s (\<lambda>r tr. list_all mild tr \<or> (\<exists>ci pool tr1 tr2.
    tr = DidGet CloudInitKind req (Returns (Inr (KCloudInit ci))) # tr1 @ tr2 \<and> list_all mild tr1 \<and>
    gotPool env (CloudInit_PoolRef ci) pool tr1 \<and> orderly (imageCreation env ci) [] tr2))"
proof -
  have w: "traces (withPool env (CloudInits env) ci nn (CloudInit_withAction env ci)) s'
      (\<lambda>r tr. list_all mild tr \<or> (\<exists>pool tr1 tr2. tr = tr1 @ tr2 \<and> list_all mild tr1 \<and> gotPool env nn pool tr1 \<and>
         orderly (imageCreation env ci) [] tr2))" for ci nn s'
    by (rule traces_withPool_known) (rule heedsD [OF heeds_CloudInit_withAction [OF ok keeps]], simp)
  show ?thesis
    unfolding CloudInit_Reconcile_def getRequested_def apiGet_def
    by (intro traces_rules traces_mono [OF w]) (auto simp: CloudInits_def)
qed

lemma CloudInit_Reconcile_creation:
  assumes "apimachinery_ok (e_api env)" and "keepsSpecs (CloudInits env)" and "CloudInit_Reconcile env req s = (r, s')"
    and new: "newEvents s s' = pre @ e # post" and "\<not> mild e"
  shows "\<exists>ci pool pre'. pre = DidGet CloudInitKind req (Returns (Inr (KCloudInit ci))) # pre' \<and>
    gotPool env (CloudInit_PoolRef ci) pool pre' \<and> (\<forall>p\<in>set (imageCreation env ci e). \<exists>e'\<in>set pre'. p e')"
proof -
  from traces_newEvents [OF traces_CloudInit_creation [OF assms(1,2)] assms(3)] assms(5) new
  obtain ci pool tr1 tr2 where t: "pre @ e # post = DidGet CloudInitKind req (Returns (Inr (KCloudInit ci))) # tr1 @ tr2"
    and m: "list_all mild tr1" and g: "gotPool env (CloudInit_PoolRef ci) pool tr1"
    and o: "orderly (imageCreation env ci) [] tr2"
    by (auto simp: list_all_iff)
  from t _ m assms(5) o obtain pre' where "pre = DidGet CloudInitKind req (Returns (Inr (KCloudInit ci))) # pre'"
    and s: "set tr1 \<subseteq> set pre'" and "\<forall>q\<in>set (imageCreation env ci e). \<exists>e'\<in>set pre'. q e'"
    by (rule creation_ordered) simp_all
  moreover have "gotPool env (CloudInit_PoolRef ci) pool pre'" using g s by (auto simp: gotPool_def)
  ultimately show ?thesis by blast
qed

text \<open>C6: The volume of a cloud-init image is only ever created in a reconciliation of an object that is not being
  deleted, after its pool was read and ready and the daemon has said that the pool on the host has no
  volume of the object's resource name; it is created with that name, as a raw volume as large as the
  documents of the spec, at least 2048 bytes.\<close>

theorem CloudInit_created_as_specified:
  assumes "apimachinery_ok (e_api env)" and "keepsSpecs (CloudInits env)" and "CloudInit_Reconcile env req s = (r, s')"
    and "newEvents s s' = pre @ OnHost a (DidStorageVolCreateXML p xml res) # post"
  shows "\<exists>ci pool pre' def err. pre = DidGet CloudInitKind req (Returns (Inr (KCloudInit ci))) # pre' \<and> \<not> deleting ci \<and>
    gotPool env (CloudInit_PoolRef ci) pool pre' \<and>
    isCode ErrNoStorageVol err \<and> OnHost a (LookedUpVolume p (CloudInit_ResourceName ci) (Returns (Inl err))) \<in> set pre' \<and>
    vol_Marshal (e_xml env) def = Inr xml \<and> sv_Name def = CloudInit_ResourceName ci \<and> imageSpecified env (Spec ci) def"
proof -
  from CloudInit_Reconcile_creation [OF assms] obtain ci pool pre' where
    g: "pre = DidGet CloudInitKind req (Returns (Inr (KCloudInit ci))) # pre'" "gotPool env (CloudInit_PoolRef ci) pool pre'"
    and "\<forall>q\<in>set (imageCreation env ci (OnHost a (DidStorageVolCreateXML p xml res))). \<exists>e'\<in>set pre'. q e'"
    by auto
  then have "\<exists>e'\<in>set pre'. \<not> deleting ci \<and> volumeAbsent a p (CloudInit_ResourceName ci) e' \<and>
      (\<exists>def. imageSpecified env (Spec ci) def \<and> sv_Name def = CloudInit_ResourceName ci \<and> vol_Marshal (e_xml env) def = Inr xml)"
    by simp
  with g show ?thesis unfolding volumeAbsent_def by blast
qed

section \<open>Content\<close>

text \<open>C5: Content is only ever uploaded to a volume that the same reconciliation has created before, on the same
  host: no reconciliation of a volume or of a cloud-init image overwrites what a volume holds.\<close>

theorem uploads_only_to_new:
  assumes "apimachinery_ok (e_api env)" and "keepsSpecs (Volumes env)" and "keepsSpecs (CloudInits env)"
    and "Volume_Reconcile env req s = (r, s') \<or> CloudInit_Reconcile env req s = (r, s')"
    and "newEvents s s' = pre @ OnHost a (DidStorageVolUpload v bs res) # post"
  shows "\<exists>e\<in>set pre. createdAs a v e"
  using assms(4)
proof
  assume "Volume_Reconcile env req s = (r, s')"
  from Volume_Reconcile_creation [OF assms(1,2) this assms(5)] show ?thesis by auto
next
  assume "CloudInit_Reconcile env req s = (r, s')"
  from CloudInit_Reconcile_creation [OF assms(1,3) this assms(5)] show ?thesis by auto
qed

section \<open>Runs that create\<close>

text \<open>A daemon without volumes.\<close>

definition noVolumeClient :: "'w Client" where
  "noVolumeClient = quietClient\<lparr>StorageVolLookupByName := \<lambda>_ _. ret (Inl (LibvirtError ErrNoStorageVol ''no volume''))\<rparr>"

definition exampleCreationEnv :: "unit env" where
  "exampleCreationEnv = (exampleEnv noVolumeClient)\<lparr>e_CloudInits := answering exampleCloudInit []\<rparr>"

definition exampleVolumeCreation :: "event list" where
  "exampleVolumeCreation = newEvents (exampleState noVolumeClient ()) (snd (Volume_Reconcile exampleCreationEnv
     exampleRequest (exampleState noVolumeClient ())))"

definition exampleImageCreation :: "event list" where
  "exampleImageCreation = newEvents (exampleState noVolumeClient ()) (snd (CloudInit_Reconcile exampleCreationEnv
     exampleRequest (exampleState noVolumeClient ())))"

definition exampleCreationOpening :: "string \<Rightarrow> event list" where
  "exampleCreationOpening n = take 5 (exampleOpening n) @
     [OnHost 0 (LookedUpVolume \<lparr>lsp_Name = ''default''\<rparr> n (Returns (Inl (LibvirtError ErrNoStorageVol ''no volume''))))]"

lemma exampleCreationEnv_ok: "apimachinery_ok (e_api exampleCreationEnv)"
  by (simp add: exampleCreationEnv_def exampleEnv_def apimachinery_ref_ok)

lemma exampleCreationEnv_keeps: "keepsSpecs (Volumes exampleCreationEnv)" "keepsSpecs (CloudInits exampleCreationEnv)"
  by (auto simp: keepsSpecs_def exampleCreationEnv_def exampleEnv_def answering_def resource_defs ret_def)

lemmas creation_run_defs = exampleCreationEnv_def noVolumeClient_def Volume_Reconcile_def CloudInit_Reconcile_def
  withPool_def resolveRefs_def withHost_def Volume_withAction_def CloudInit_withAction_def NewVolumeAction_def
  Volume_manage_def Volume_create_def Volume_commit_def VolumeState_def Pool_HostRef_def Volume_PoolRef_def
  CloudInit_PoolRef_def Pool_ResourceName_def Volume_ResourceName_def CloudInit_ResourceName_def addFinalizer_def
  VolumeFormat_def VolumeSize_set_def VolumeCreate_def SetLabelOn_def SetObjectLabel_def SetLabel_def emptyStorageVolume_def
  CloudInit_create_def CloudInit_commit_def cloudInitSourceFiles_def addSource_def cloudInitCreateISO_def LocalSource_def
  exampleIso_def exampleOS_def exampleYaml_def Marshal_def exampleCreationOpening_def CloudInit_setStatusCondition_def
  Volume_setStatusCondition_def setStatusCondition_def CloudInit_created_def Volume_created_def CleanupSource_def liftOS_select

definition exampleVolumeBefore :: "event list" where
  "exampleVolumeBefore = DidGet VolumeKind exampleRequest (Returns (Inr (KVolume exampleVolume))) #
     exampleCreationOpening ''vol0'' @
     [let v = snd (SetObjectLabel exampleVolume PoolLabel ''pool'') in DidUpdate (KVolume v) (Returns (Inr (KVolume v)))]"

definition exampleImageCreationBefore :: "event list" where
  "exampleImageCreationBefore = DidGet CloudInitKind exampleRequest (Returns (Inr (KCloudInit exampleCloudInit))) #
     exampleCreationOpening ''ci0'' @ replicate 6 OtherCall"

lemma exampleVolumeCreation_starts:
  "take 9 exampleVolumeCreation = exampleVolumeBefore @
     [OnHost 0 (DidStorageVolCreateXML \<lparr>lsp_Name = ''default''\<rparr> ''vol0'' (Returns (Inr (exampleHandle ''vol0''))))]"
  by (simp add: exampleVolumeCreation_def exampleVolumeBefore_def example_defs run_defs creation_run_defs)

lemma exampleImageCreation_starts:
  "take 15 exampleImageCreation = exampleImageCreationBefore @
     [OnHost 0 (DidStorageVolCreateXML \<lparr>lsp_Name = ''default''\<rparr> ''ci0'' (Returns (Inr (exampleHandle ''ci0'')))),
      OnHost 0 (DidStorageVolUpload (exampleHandle ''ci0'') [] (Returns None))]"
  by (simp add: exampleImageCreation_def exampleImageCreationBefore_def example_defs run_defs creation_run_defs numeral_eq_Suc)

lemma exampleVolumeCreation_events:
  "exampleVolumeCreation = exampleVolumeBefore @
     OnHost 0 (DidStorageVolCreateXML \<lparr>lsp_Name = ''default''\<rparr> ''vol0'' (Returns (Inr (exampleHandle ''vol0'')))) #
     drop 9 exampleVolumeCreation"
  using append_take_drop_id [of 9 exampleVolumeCreation] by (simp add: exampleVolumeCreation_starts)

lemma exampleImageCreation_events:
  "exampleImageCreation = exampleImageCreationBefore @
     OnHost 0 (DidStorageVolCreateXML \<lparr>lsp_Name = ''default''\<rparr> ''ci0'' (Returns (Inr (exampleHandle ''ci0'')))) #
     OnHost 0 (DidStorageVolUpload (exampleHandle ''ci0'') [] (Returns None)) # drop 15 exampleImageCreation"
  using append_take_drop_id [of 15 exampleImageCreation] by (simp add: exampleImageCreation_starts)


theorem CloudInit_created_as_specified_witness:
  "\<exists>ci pool pre' def err. exampleImageCreationBefore =
      DidGet CloudInitKind exampleRequest (Returns (Inr (KCloudInit ci))) # pre' \<and> \<not> deleting ci \<and>
    gotPool exampleCreationEnv (CloudInit_PoolRef ci) pool pre' \<and>
    isCode ErrNoStorageVol err \<and>
    OnHost 0 (LookedUpVolume \<lparr>lsp_Name = ''default''\<rparr> (CloudInit_ResourceName ci) (Returns (Inl err))) \<in> set pre' \<and>
    vol_Marshal (e_xml exampleCreationEnv) def = Inr ''ci0'' \<and> sv_Name def = CloudInit_ResourceName ci \<and>
    imageSpecified exampleCreationEnv (Spec ci) def"
  by (rule CloudInit_created_as_specified [OF exampleCreationEnv_ok exampleCreationEnv_keeps(2) surjective_pairing
      exampleImageCreation_events [unfolded exampleImageCreation_def]])

theorem uploads_only_to_new_witness:
  "\<exists>e\<in>set (exampleImageCreationBefore @
      [OnHost 0 (DidStorageVolCreateXML \<lparr>lsp_Name = ''default''\<rparr> ''ci0'' (Returns (Inr (exampleHandle ''ci0''))))]).
     createdAs 0 (exampleHandle ''ci0'') e"
  by (rule uploads_only_to_new [OF exampleCreationEnv_ok exampleCreationEnv_keeps disjI2 [OF surjective_pairing]
      exampleImageCreation_events [unfolded exampleImageCreation_def, THEN trans]]) simp

section \<open>The documents of an image\<close>

text \<open>
  What \<^verbatim>\<open>cloudInitSourceFiles\<close> is meant to compute, without its order of steps: the documents that are
  present, each rendered under the name by which cloud-init looks for it; the first error if there is one,
  and otherwise the files with their length in total.
\<close>

definition present :: "string \<Rightarrow> ('d \<Rightarrow> error + bytes) \<Rightarrow> 'd option \<Rightarrow> (string \<times> (error + bytes)) list" where
  "present name render doc = (case doc of None \<Rightarrow> [] | Some d \<Rightarrow> [(name, render d)])"

definition documents :: "'w env \<Rightarrow> CloudInitSpec \<Rightarrow> (string \<times> (error + bytes)) list" where
  "documents env spec =
     [(''meta-data'', Marshal (e_yamlMetadata env) [] (cis_Metadata spec))] @
     present ''user-data'' (cloudInitCloudConfig env) (cis_UserData spec) @
     present ''vendor-data'' (cloudInitCloudConfig env) (cis_VendorData spec) @
     present ''network-config'' (cloudInitNetworkConfig env) (cis_NetworkConfig spec)"

definition errorsOf :: "(string \<times> (error + bytes)) list \<Rightarrow> error list" where
  "errorsOf docs = concat (map (\<lambda>d. case snd d of Inl e \<Rightarrow> [e] | Inr _ \<Rightarrow> []) docs)"

definition filesOf :: "(string \<times> (error + bytes)) list \<Rightarrow> error + sources" where
  "filesOf docs = (case errorsOf docs of
      e # _ \<Rightarrow> Inl e
    | [] \<Rightarrow> Inr (map (\<lambda>d. (fst d, projr (snd d))) docs, int64 (\<Sum>d\<leftarrow>docs. int (length (projr (snd d))))))"

lemma int64_plus: "int64 (int64 a + b) = int64 (a + b)"
  unfolding int64_def by (simp add: wi_hom_add [symmetric])

lemma errorsOf_simps [simp]:
  "errorsOf [] = []" "errorsOf (d # docs) = (case snd d of Inl e \<Rightarrow> [e] | Inr _ \<Rightarrow> []) @ errorsOf docs"
  by (simp_all add: errorsOf_def)

lemma errorsOf_append: "errorsOf (docs @ docs') = errorsOf docs @ errorsOf docs'"
  by (simp add: errorsOf_def)

lemma errorsOf_present: "errorsOf (present name render doc) =
    (case doc of None \<Rightarrow> [] | Some d \<Rightarrow> (case render d of Inl e \<Rightarrow> [e] | Inr _ \<Rightarrow> []))"
  by (simp add: errorsOf_def present_def split: option.split sum.split)

lemma addSource_present: "addSource name render doc (filesOf docs) = filesOf (docs @ present name render doc)"
  by (auto simp: addSource_def filesOf_def errorsOf_append errorsOf_present int64_plus present_def
      split: list.split option.split sum.split)


end
