(* ===== verification/VolumeReadiness.thy ===== *)
theory VolumeReadiness
  imports VolumeCreation
begin

text \<open>
  When a volume is reported ready. Domains are defined from volumes whose condition \<open>Ready\<close> is true
  (\<open>Domain_defined_from_ready\<close>), and other volumes are built on them, so the condition has to mean
  something: that the daemon has found the volume by its name, or has created it and taken its content.
\<close>

section \<open>What has to come first\<close>

text \<open>
  \<open>volumePresent name sourced\<close>: the lookup found the volume; or it was created and, if it has a source, the
  upload succeeded.
\<close>

fun volumePresent :: "string \<Rightarrow> bool \<Rightarrow> event \<Rightarrow> bool" where
  "volumePresent name sourced (OnHost a (LookedUpVolume p n (Returns (Inr v)))) \<longleftrightarrow> n = name"
| "volumePresent name sourced (OnHost a (DidStorageVolCreateXML p xml (Returns (Inr v)))) \<longleftrightarrow> \<not> sourced"
| "volumePresent name sourced (OnHost a (DidStorageVolUpload v bs (Returns None))) \<longleftrightarrow> sourced"
| "volumePresent name sourced e \<longleftrightarrow> False"

definition becomesReady :: "'w env \<Rightarrow> Volume \<Rightarrow> event \<Rightarrow> bool" where
  "becomesReady env volume e \<longleftrightarrow> (\<exists>v r. e = DidStatusUpdate (KVolume v) r \<and> isTrue env v ConditionReady) \<and>
     \<not> isTrue env volume ConditionReady"

definition readyGuards :: "'w env \<Rightarrow> Volume \<Rightarrow> event \<Rightarrow> (event \<Rightarrow> bool) list" where
  "readyGuards env volume e = (if becomesReady env volume e
     then [volumePresent (Volume_ResourceName volume) (vsp_Source (Spec volume) \<noteq> None)] else [])"

fun statusEvent :: "event \<Rightarrow> bool" where
  "statusEvent (DidStatusUpdate obj r) = True"
| "statusEvent e = False"

lemma licensed_ready_plain: "\<not> statusEvent e \<Longrightarrow> licensed (readyGuards env volume) B e"
  by (cases e) (auto simp: licensed_def readyGuards_def becomesReady_def)

lemma licensed_ready_same:
  "(isTrue env v ConditionReady \<Longrightarrow> isTrue env volume ConditionReady) \<Longrightarrow>
     licensed (readyGuards env volume) B (DidStatusUpdate (KVolume v) r)"
  by (auto simp: licensed_def readyGuards_def becomesReady_def)

lemma licensed_ready_present:
  "\<exists>e'\<in>B. volumePresent (Volume_ResourceName volume) (vsp_Source (Spec volume) \<noteq> None) e' \<Longrightarrow>
     licensed (readyGuards env volume) B e"
  by (auto simp: licensed_def readyGuards_def)

text \<open>The condition after a status was reported.\<close>

lemma acts_setStatusCondition_exact:
  assumes ok: "apimachinery_ok (e_api env)" and "E OtherCall"
    and st: "\<And>obj' r. isTrue env obj' ConditionReady =
      (if t = ConditionReady then st = ConditionTrue else isTrue env obj ConditionReady) \<Longrightarrow> E (DidStatusUpdate (rs_obj R obj') r)"
  shows "acts E (setStatusCondition env R obj t st msg rs)"
  unfolding setStatusCondition_def Let_def
proof (intro acts_rules assms(2))
  fix now changed cs
  let ?c = "\<lparr>cond_Type = t, cond_Status = st, cond_LastTransitionTime = 0, cond_Reason = rs, cond_Message = msg\<rparr>"
  assume s: "SetStatusCondition (e_api env) now (Conditions (Status obj)) ?c = (changed, cs)"
  show "E (DidStatusUpdate (rs_obj R (obj\<lparr>Status := (Status obj)\<lparr>Conditions := cs\<rparr>\<rparr>)) r)" for r
    using SetStatusCondition_okD(1,2) [OF ok s] by (intro st) (auto simp: isTrue_def apimachinery_okD(5) [OF ok])
qed

text \<open>Reporting anything but a true \<open>Ready\<close> leaves an object that was not ready so.\<close>

lemma acts_status_not_ready:
  assumes "apimachinery_ok (e_api env)" and "t = ConditionReady \<Longrightarrow> st \<noteq> ConditionTrue"
    and "isTrue env v ConditionReady = isTrue env volume ConditionReady"
  shows "acts (licensed (readyGuards env volume) B) (setStatusCondition env (Volumes env) v t st msg rs)"
  by (rule acts_setStatusCondition_exact [OF assms(1)])
    (use assms(2,3) in \<open>auto simp: Volumes_def licensed_ready_plain intro!: licensed_ready_same split: if_splits\<close>)

section \<open>The opening\<close>

text \<open>A session and the way to it, in a form that composes with \<open>heeds\<close>.\<close>

lemma heeds_withSession:
  assumes q: "\<And>a. licensed W B (OnHost a HostQuery)" "licensed W B OtherCall"
    and h: "\<And>err. heeds W B (h err)" and k: "\<And>a cl. heeds W B (k (observed a cl))"
  shows "heeds W B (withSession lib e h k)"
  unfolding heeds_def
proof (intro allI impI)
  fix before s assume B: "B \<subseteq> set before"
  have o: "orderly W before tr" if "list_all (\<lambda>e. e = OtherCall \<or> (\<exists>a. e = OnHost a HostQuery)) tr" for tr
  proof (rule orderly_licensed)
    fix e p assume "e \<in> set tr" "p \<in> set (W e)"
    then have "licensed W B e" using that q by (auto simp: list_all_iff)
    then show "\<exists>e'\<in>set before. p e'" using \<open>p \<in> set (W e)\<close> B by (auto simp: licensed_def)
  qed
  have after: "traces m s' (\<lambda>r tr'. orderly W before (tr @ tr'))"
    if "list_all (\<lambda>e. e = OtherCall \<or> (\<exists>a. e = OnHost a HostQuery)) tr" "heeds W B m" for tr m s'
    by (rule traces_mono [OF heedsD [OF that(2), of "before @ tr"]]) (use B that(1) in \<open>auto simp: orderly_append o\<close>)
  show "traces (withSession lib e h k) s (\<lambda>r. orderly W before)"
    by (rule traces_withSession) (intro after h k o; assumption)+
qed

lemma heeds_withPool:
  assumes plain: "\<And>e. \<not> statusEvent e \<Longrightarrow> mild e \<Longrightarrow> licensed W B e"
    and unmet: "\<And>msg m. acts (licensed W B) m \<Longrightarrow> acts (licensed W B) (unmet env R obj msg m)"
    and k: "\<And>pool a cl. heeds W B (k pool (observed a cl))"
  shows "heeds W B (withPool env R obj nn k)"
proof -
  have refs: "acts (licensed W B) (resolveRefs env nn)"
    unfolding resolveRefs_def by (intro acts_rules plain) simp_all
  have u: "heeds W B (unmet env R obj msg m)" if "acts (licensed W B) m" for msg m
    by (rule heeds_acts [OF unmet [OF that]])
  show ?thesis
    unfolding withPool_def withHost_def
    by (intro heeds_attempt refs u heeds_prod heeds_if heeds_reading heeds_option heeds_withSession k plain acts_rules)
      simp_all
qed

section \<open>The object on its way through the reconciliation\<close>

text \<open>
  An update of labels or finalizers is answered with the spec and the status it was given: the hypothesis
  on the API server.
\<close>

definition keepsObjects :: "('w, ('spec, 'st) Object) resource \<Rightarrow> bool" where
  "keepsObjects R \<longleftrightarrow> (\<forall>d d' w w'. k_Update (rs_api R) d w = (Returns (Inr d'), w') \<longrightarrow>
     Spec d' = Spec d \<and> Status d' = Status d)"

definition sameObject :: "('spec, 'st) Object \<Rightarrow> ('spec, 'st) Object \<Rightarrow> bool" where
  "sameObject d d' \<longleftrightarrow> Spec d' = Spec d \<and> Status d' = Status d"

lemma answers_update_object: "keepsObjects R \<Longrightarrow> sameObject d e \<Longrightarrow> answers (sameObject d) (apiUpdate R e)"
  unfolding apiUpdate_def sameObject_def by (rule answers_called) (metis keepsObjects_def)

lemma answers_label_object:
  assumes "keepsObjects R" and "sameObject d e"
  shows "answers (sameObject d) (SetLabelOn e k v R)"
  unfolding SetLabelOn_def
  using assms
  by (intro yields_rules answers_update_object)
    (auto simp: sameObject_def SetObjectLabel_def split: prod.splits)

lemma answers_finalizer_object:
  assumes "keepsObjects R"
  shows "answers (sameObject d) (addFinalizer env R d)"
  unfolding addFinalizer_def
  using assms
  by (intro yields_rules answers_update_object) (auto simp: sameObject_def)

lemma sameObject_isTrue: "sameObject volume v \<Longrightarrow> isTrue env v t = isTrue env volume t"
  by (simp add: sameObject_def isTrue_def)

section \<open>Creating\<close>

text \<open>A call of \<open>Create\<close> that succeeds has created the volume, and uploaded the content if there is any.\<close>

lemma traces_VolumeCreate_present:
  "traces (VolumeCreate x (observed a cl) action) s (\<lambda>r tr. list_all (\<lambda>e. \<not> statusEvent e) tr \<and>
     (\<forall>action'. r = Returns (None, action') \<longrightarrow> (\<exists>e\<in>set tr. volumePresent name (va_source action \<noteq> None) e)))"
  unfolding VolumeCreate_def Let_def observed_select
  by (intro traces_rules) auto

text \<open>Only an action with a source has one after a download.\<close>

lemma yields_RemoteSource_source:
  fixes os :: "'s OS"
  shows "yields (\<lambda>(r, b). r = None \<longrightarrow> va_source b \<noteq> None) (RemoteSource sc os action url cs)"
  unfolding RemoteSource_def Let_def guarded_def attempt_def
  by (intro yields_rules) (auto simp: VolumeSize_set_def)

lemma yields_VolumeBackingStore_source:
  fixes c :: "'s Client"
  shows "yields (\<lambda>(r, b). r = None \<longrightarrow> va_source b = va_source action) (VolumeBackingStore x c action name pool)"
  unfolding VolumeBackingStore_def Let_def attempt_def
  by (intro yields_rules) (auto simp: VolumeSize_set_def)

lemma acts_failing_not_ready:
  assumes ok: "apimachinery_ok (e_api env)" and v: "sameObject volume v"
  shows "acts (licensed (readyGuards env volume) B) (failing env v reason err)"
  unfolding failing_def Volume_setStatusCondition_def
  by (intro acts_rules acts_status_not_ready [OF ok]) (simp_all add: sameObject_isTrue [OF v])

lemma heeds_ready_commit:
  assumes ok: "apimachinery_ok (e_api env)" and keeps: "keepsObjects (Volumes env)" and v: "sameObject volume v"
    and src: "va_source action \<noteq> None \<longleftrightarrow> vsp_Source (Spec volume) \<noteq> None"
  shows "heeds (readyGuards env volume) B (Volume_commit env (observed a cl) pool hasSource action v)"
proof -
  let ?W = "readyGuards env volume"
  define Q where "Q r tr \<longleftrightarrow> (\<forall>action'. r = Returns (None, action') \<longrightarrow>
      (\<exists>e\<in>set tr. volumePresent (Volume_ResourceName volume) (vsp_Source (Spec volume) \<noteq> None) e))"
    for r :: "(error option \<times> VolumeAction) outcome" and tr
  have create: "traces (VolumeCreate (e_xml env) (observed a cl) action) s (\<lambda>r tr. list_all (licensed ?W B') tr \<and> Q r tr)" for s B'
    unfolding Q_def src [symmetric]
    by (rule traces_mono [OF traces_VolumeCreate_present [where name = "Volume_ResourceName volume"]])
      (auto simp: list_all_iff licensed_ready_plain simp del: not_None_eq)
  have rest: "acts (licensed ?W (B' \<union> set tr)) (andThen (if hasSource then CleanupSource (liftOS (e_OS env)) action' else ret None) (\<lambda>_.
         attempt (Volume_setStatusCondition env v' t st msg rs) (\<lambda>err. ret (Some err)) (\<lambda>_. ret None)))"
    if "Q (Returns (None, action')) tr" for action' B' tr v' t st msg rs
  proof -
    have p: "licensed ?W (B' \<union> set tr) e" for e
      by (rule licensed_ready_present) (use that in \<open>auto simp: Q_def\<close>)
    show ?thesis
      unfolding Volume_setStatusCondition_def
      by (intro acts_rules acts_mono [OF acts_CleanupSource] p)
  qed
  have after: "heeds ?W B' (andThen (VolumeCreate (e_xml env) (observed a cl) action) (\<lambda>(r, action').
      case r of
        Some err \<Rightarrow> failing env v' ConditionError err
      | None \<Rightarrow> andThen (if hasSource then CleanupSource (liftOS (e_OS env)) action' else ret None) (\<lambda>_.
          attempt (Volume_setStatusCondition env (Volume_created v' pool) ConditionReady ConditionTrue
            conditionCreationSucceeded ConditionCreated) (\<lambda>err. ret (Some err)) (\<lambda>_. ret None))))"
    if "sameObject volume v'" for v' B'
    by (rule heeds_andThen_of [OF create])
      (auto intro!: heeds_prod heeds_option heeds_acts [OF acts_failing_not_ready [OF ok that]] heeds_acts [OF rest])
  have label: "acts (licensed ?W B) (SetLabelOn v k w (Volumes env))" for k w
    by (intro acts_rules) (simp add: licensed_ready_plain)
  show ?thesis
    unfolding Volume_commit_def
    by (rule heeds_attempt_answers [OF label answers_label_object [OF keeps v]]) (simp_all add: heeds_ret after)
qed

lemma heeds_ready_create:
  assumes ok: "apimachinery_ok (e_api env)" and keeps: "keepsObjects (Volumes env)" and v: "sameObject volume v"
    and src: "va_source action = None"
  shows "heeds (readyGuards env volume) B (Volume_create env (observed a cl) pool action v)"
proof -
  let ?W = "readyGuards env volume"
  let ?action = "begun env (Spec v) action"
  have spec: "Spec v = Spec volume" using v by (simp add: sameObject_def)
  have bare: "va_source ?action = None"
    by (simp add: begun_def VolumeFormat_def VolumeSize_set_def src split: option.split)
  have err: "heeds ?W B' (failing env v reason e)" for B' reason e
    by (rule heeds_acts [OF acts_failing_not_ready [OF ok v]])
  have plain: "acts (licensed ?W B') m" if "acts (\<lambda>e. mild e \<and> \<not> statusEvent e) m" for m :: "('a sys, 'r) prog" and B'
    by (rule acts_mono [OF that]) (simp add: licensed_ready_plain)
  have source: "heeds ?W B (andThen (RemoteSource (e_cast env) (liftOS (e_OS env)) ?action url cs)
      (\<lambda>(r, action'). case r of
         Some e \<Rightarrow> failing env v ConditionError e
       | None \<Rightarrow> Volume_commit env (observed a cl) pool True action' v))"
    if "vsp_Source (Spec volume) \<noteq> None" for url cs
  proof (rule heeds_andThen_yields [OF _ yields_RemoteSource_source])
    show "acts (licensed ?W B) (RemoteSource (e_cast env) (liftOS (e_OS env)) ?action url cs)"
      unfolding RemoteSource_def verifyChecksum_def Let_def liftOS_select
      by (intro acts_rules) (simp_all add: licensed_ready_plain)
    show "heeds ?W B (case x of (r, action') \<Rightarrow> (case r of
         Some e \<Rightarrow> failing env v ConditionError e
       | None \<Rightarrow> Volume_commit env (observed a cl) pool True action' v))"
      if "case x of (r, b) \<Rightarrow> r = None \<longrightarrow> va_source b \<noteq> None" for x
      by (intro heeds_prod heeds_option err heeds_ready_commit [OF ok keeps v])
        (use that \<open>vsp_Source (Spec volume) \<noteq> None\<close> in auto)
  qed
  have commit: "heeds ?W B' (Volume_commit env (observed a cl) pool False action' v')"
    if "vsp_Source (Spec volume) = None" "va_source action' = None" "sameObject volume v'" for action' v' B'
    by (rule heeds_ready_commit [OF ok keeps that(3)]) (use that in simp)
  have backed: "heeds ?W B' (andThen (VolumeBackingStore (e_xml env) (observed a cl) ?action nm pl)
      (\<lambda>(r, action'). case r of
         Some e \<Rightarrow> failing env v ConditionError e
       | None \<Rightarrow> attempt (SetLabelOn v VolumeLabel lb (Volumes env)) (\<lambda>e. ret (Some e))
           (Volume_commit env (observed a cl) pool False action')))"
    if "vsp_Source (Spec volume) = None" for nm pl lb B'
  proof (rule heeds_andThen_yields [OF _ yields_VolumeBackingStore_source])
    show "acts (licensed ?W B') (VolumeBackingStore (e_xml env) (observed a cl) ?action nm pl)"
      unfolding VolumeBackingStore_def Let_def observed_select
      by (intro acts_rules) (simp_all add: licensed_ready_plain)
    have label: "acts (licensed ?W B') (SetLabelOn v VolumeLabel lb (Volumes env))"
      by (intro acts_rules) (simp add: licensed_ready_plain)
    show "heeds ?W B' (case x of (r, action') \<Rightarrow> (case r of
         Some e \<Rightarrow> failing env v ConditionError e
       | None \<Rightarrow> attempt (SetLabelOn v VolumeLabel lb (Volumes env)) (\<lambda>e. ret (Some e))
           (Volume_commit env (observed a cl) pool False action')))"
      if "case x of (r, b) \<Rightarrow> r = None \<longrightarrow> va_source b = va_source ?action" for x
      by (intro heeds_prod heeds_option err heeds_attempt_answers [OF label answers_label_object [OF keeps v]] heeds_ret commit)
        (use that \<open>vsp_Source (Spec volume) = None\<close> bare in auto)
  qed
  show ?thesis
    unfolding Volume_create_def Volume_backed_def apiGet_def Let_def begun_def [symmetric]
    by (intro heeds_option source heeds_if heeds_attempt_called err commit backed v)
      (use bare in \<open>auto simp: spec licensed_ready_plain\<close>)
qed

section \<open>The reconciliation\<close>

lemma traces_NewVolumeAction_present:
  "traces (NewVolumeAction x (observed a cl) name pool) s (\<lambda>r tr. list_all (\<lambda>e. \<not> statusEvent e) tr \<and>
     (\<forall>action. r = Returns (Inr action) \<longrightarrow> va_source action = None \<and>
        (VolumeState action \<longrightarrow> (\<exists>e\<in>set tr. volumePresent name sourced e))))"
  unfolding NewVolumeAction_def Let_def observed_select
  by (intro traces_rules) (auto simp: VolumeState_def)

lemma acts_ready_finalize:
  assumes ok: "apimachinery_ok (e_api env)"
  shows "acts (licensed (readyGuards env volume) B) (Volume_finalize env (observed a cl) action volume)"
  unfolding Volume_finalize_def Volume_delete_def Volume_setStatusCondition_def
  by (intro acts_rules acts_VolumeDelete acts_status_not_ready [OF ok])
    (simp_all add: licensed_ready_plain ConditionReady_def ConditionDeletionPrevented_def)

lemma heeds_ready_withAction:
  assumes ok: "apimachinery_ok (e_api env)" and keeps: "keepsObjects (Volumes env)"
  shows "heeds (readyGuards env volume) B (Volume_withAction env volume pool (observed a cl))"
  unfolding Volume_withAction_def
proof (rule heeds_attempt_of)
  let ?W = "readyGuards env volume"
  let ?present = "volumePresent (Volume_ResourceName volume) (vsp_Source (Spec volume) \<noteq> None)"
  show "traces (NewVolumeAction (e_xml env) (observed a cl) (Volume_ResourceName volume) (Pool_ResourceName pool)) s
      (\<lambda>r tr. list_all (licensed ?W B) tr \<and> (\<forall>action. r = Returns (Inr action) \<longrightarrow> va_source action = None \<and>
        (VolumeState action \<longrightarrow> (\<exists>e\<in>set tr. ?present e))))" for s
    by (rule traces_mono [OF traces_NewVolumeAction_present [where sourced = "vsp_Source (Spec volume) \<noteq> None"]])
      (simp add: list_all_iff licensed_ready_plain)
  fix action tr
  assume t: "\<forall>action'. Returns (Inr action) = Returns (Inr action') \<longrightarrow> va_source action' = None \<and>
      (VolumeState action' \<longrightarrow> (\<exists>e\<in>set tr. ?present e))"
  have manage: "heeds ?W (B \<union> set tr) (Volume_manage env pool (observed a cl) action v)" if "sameObject volume v" for v
  proof (cases "VolumeState action")
    case True
    show ?thesis
      by (intro heeds_acts acts_Volume_manage licensed_ready_present) (use t True in auto)
  next
    case False
    then show ?thesis
      unfolding Volume_manage_def guarded_def if_not_P [OF False]
      by (intro heeds_seq heeds_ready_create [OF ok keeps that] heeds_option heeds_if heeds_ret) (use t in simp)
  qed
  have finalizer: "acts (licensed ?W (B \<union> set tr)) (addFinalizer env (Volumes env) volume)"
    by (intro acts_rules) (simp add: licensed_ready_plain)
  show "heeds ?W (B \<union> set tr) (withFinalizer env (Volumes env) volume (Volume_finalize env (observed a cl) action volume)
      (Volume_manage env pool (observed a cl) action))"
    unfolding withFinalizer_def
    by (intro heeds_if heeds_attempt_answers [OF finalizer answers_finalizer_object [OF keeps]] heeds_ret
        heeds_acts [OF acts_ready_finalize [OF ok]] manage)
qed (rule heeds_ret)

lemma traces_Volume_readiness:
  assumes ok: "apimachinery_ok (e_api env)" and keeps: "keepsObjects (Volumes env)"
  shows "traces (Volume_Reconcile env req) s (\<lambda>r tr. (\<exists>res. tr = [DidGet VolumeKind req res]) \<or>
    (\<exists>volume tr'. tr = DidGet VolumeKind req (Returns (Inr (KVolume volume))) # tr' \<and> orderly (readyGuards env volume) [] tr'))"
proof -
  have u: "acts (licensed (readyGuards env volume) {}) (unmet env (Volumes env) volume msg m)"
    if "acts (licensed (readyGuards env volume) {}) m" for volume msg m
    unfolding unmet_def report_def
    by (intro acts_rules acts_status_not_ready [OF ok] that) (simp_all add: that)
  have h: "heeds (readyGuards env volume) {} (withPool env (Volumes env) volume nn (Volume_withAction env volume))" for volume nn
    by (rule heeds_withPool) (simp_all add: licensed_ready_plain u heeds_ready_withAction [OF ok keeps])
  have w: "traces (withPool env (Volumes env) volume nn (Volume_withAction env volume)) s'
      (\<lambda>r. orderly (readyGuards env volume) [])" for volume nn s'
    by (rule heedsD [OF h]) simp
  show ?thesis
    unfolding Volume_Reconcile_def getRequested_def apiGet_def
    by (intro traces_rules traces_mono [OF w]) (auto simp: Volumes_def)
qed

text \<open>C7: A volume that was not ready is only ever reported ready in a reconciliation in which the daemon has found the
  volume by the object's resource name, or has created it and, if the spec names a source, has taken the
  content: what is built on a ready volume is built on one that was there.\<close>

theorem Volume_ready_means_present:
  assumes "apimachinery_ok (e_api env)" and "keepsObjects (Volumes env)" and "Volume_Reconcile env req s = (r, s')"
    and "newEvents s s' = DidGet VolumeKind req (Returns (Inr (KVolume volume))) # pre @ DidStatusUpdate (KVolume v) res # post"
    and "isTrue env v ConditionReady" and "\<not> isTrue env volume ConditionReady"
  shows "\<exists>e\<in>set pre. volumePresent (Volume_ResourceName volume) (vsp_Source (Spec volume) \<noteq> None) e"
proof -
  from traces_newEvents [OF traces_Volume_readiness [OF assms(1,2)] assms(3)] assms(4)
  have "orderly (readyGuards env volume) [] (pre @ DidStatusUpdate (KVolume v) res # post)" by auto
  from orderly_nth [OF this refl] assms(5,6) show ?thesis by (auto simp: readyGuards_def becomesReady_def)
qed

text \<open>A run that creates a volume and reports it.\<close>

definition exampleNewVolume :: Volume where
  "exampleNewVolume = exampleVolume\<lparr>Status := (Status exampleVolume)\<lparr>Conditions := []\<rparr>\<rparr>"

definition exampleReadyEnv :: "unit env" where
  "exampleReadyEnv = exampleCreationEnv\<lparr>e_Volumes := answering exampleNewVolume []\<rparr>"

definition exampleReadiness :: "event list" where
  "exampleReadiness = newEvents (exampleState noVolumeClient ()) (snd (Volume_Reconcile exampleReadyEnv
     exampleRequest (exampleState noVolumeClient ())))"

definition exampleLabelled :: Volume where
  "exampleLabelled = snd (SetObjectLabel exampleNewVolume PoolLabel ''pool'')"

definition exampleReadyVolume :: Volume where
  "exampleReadyVolume = exampleLabelled\<lparr>Status := (Status exampleLabelled)\<lparr>Conditions :=
     [\<lparr>cond_Type = ConditionReady, cond_Status = ConditionTrue, cond_LastTransitionTime = 0, cond_Reason = ConditionCreated,
       cond_Message = conditionCreationSucceeded\<rparr>]\<rparr>\<rparr>"

definition exampleReadinessBefore :: "event list" where
  "exampleReadinessBefore = exampleCreationOpening ''vol0'' @
     [DidUpdate (KVolume exampleLabelled) (Returns (Inr (KVolume exampleLabelled))),
      OnHost 0 (DidStorageVolCreateXML \<lparr>lsp_Name = ''default''\<rparr> ''vol0'' (Returns (Inr (exampleHandle ''vol0'')))),
      OtherCall]"

lemma exampleReadiness_events:
  "exampleReadiness = DidGet VolumeKind exampleRequest (Returns (Inr (KVolume exampleNewVolume))) # exampleReadinessBefore @
     DidStatusUpdate (KVolume exampleReadyVolume) (Returns (Inr (KVolume exampleReadyVolume))) # []"
  by (simp add: exampleReadiness_def exampleReadinessBefore_def exampleReadyVolume_def exampleLabelled_def
      exampleReadyEnv_def exampleNewVolume_def example_defs run_defs creation_run_defs)

lemma exampleReadyEnv_ok: "apimachinery_ok (e_api exampleReadyEnv)"
  by (simp add: exampleReadyEnv_def exampleCreationEnv_def exampleEnv_def apimachinery_ref_ok)

lemma exampleReadyEnv_keeps: "keepsObjects (Volumes exampleReadyEnv)"
  by (auto simp: keepsObjects_def exampleReadyEnv_def answering_def Volumes_def ret_def)

theorem Volume_ready_means_present_witness:
  "\<exists>e\<in>set exampleReadinessBefore.
     volumePresent (Volume_ResourceName exampleNewVolume) (vsp_Source (Spec exampleNewVolume) \<noteq> None) e"
proof (rule Volume_ready_means_present [OF exampleReadyEnv_ok exampleReadyEnv_keeps surjective_pairing
      exampleReadiness_events [unfolded exampleReadiness_def]])
  show "isTrue exampleReadyEnv exampleReadyVolume ConditionReady"
    by (simp add: isTrue_def apimachinery_okD(5) [OF exampleReadyEnv_ok] exampleReadyVolume_def findCondition_def)
  show "\<not> isTrue exampleReadyEnv exampleNewVolume ConditionReady"
    by (simp add: isTrue_def apimachinery_okD(5) [OF exampleReadyEnv_ok] exampleNewVolume_def findCondition_def)
qed

text \<open>
  Being found is enough, though: a volume that an earlier reconciliation created and whose upload then failed is
  reported ready by the next one, without the content that its spec names (its size is not given, so
  nothing is compared with the daemon either).
\<close>

definition leftoverVolume :: Volume where
  "leftoverVolume = exampleNewVolume\<lparr>Spec := (Spec exampleNewVolume)\<lparr>vsp_Size := None,
     vsp_Source := Some \<lparr>vsrc_URL = ''http://image'', vsrc_Checksum = None\<rparr>\<rparr>\<rparr>"

definition leftoverEnv :: "unit env" where
  "leftoverEnv = (exampleEnv quietClient)\<lparr>e_Volumes := answering leftoverVolume []\<rparr>"

definition leftoverReady :: Volume where
  "leftoverReady = leftoverVolume\<lparr>Status := \<lparr>Conditions =
     [\<lparr>cond_Type = ConditionReady, cond_Status = ConditionTrue, cond_LastTransitionTime = 0, cond_Reason = ConditionCreated,
       cond_Message = conditionCreationSucceeded\<rparr>], vst_Pool = ''default'', vst_Host = ''host''\<rparr>\<rparr>"

lemma leftover_reported_ready:
  "newEvents (exampleState quietClient ()) (snd (Volume_Reconcile leftoverEnv exampleRequest (exampleState quietClient ()))) =
     DidGet VolumeKind exampleRequest (Returns (Inr (KVolume leftoverVolume))) # exampleOpening ''vol0'' @
     [OtherCall, DidStatusUpdate (KVolume leftoverReady) (Returns (Inr (KVolume leftoverReady)))]"
  by (simp add: leftoverEnv_def leftoverVolume_def leftoverReady_def exampleNewVolume_def Volume_existing_def Volume_resize_def
      example_defs run_defs creation_run_defs)

end
