(* ===== verification/Webhook.thy ===== *)
theory Webhook
  imports Effects
begin

text \<open>
  The admission webhooks (\<^verbatim>\<open>internal/webhook\<close>): they give an object that names none a generated external
  name, and refuse an object whose name is taken in its pool or on its host.

  A \<open>runtime.Object\<close> is a value of \<open>kobj\<close>; a type assertion is a case on its constructor.
\<close>

section \<open>Generated names\<close>

text \<open>Three kinds implement \<open>resource.External\<close>.\<close>

definition named :: "('o \<Rightarrow> string) \<Rightarrow> ((nat \<Rightarrow> string) \<Rightarrow> 'o \<Rightarrow> 'o) \<Rightarrow> (nat \<Rightarrow> string) \<Rightarrow> 'o \<Rightarrow> 'o" where
  "named resourceName setGenerated rand ex = (if resourceName ex = '''' then setGenerated rand ex else ex)"

fun generateName :: "(nat \<Rightarrow> string) \<Rightarrow> kobj \<Rightarrow> error + kobj" where
  "generateName rand (KVolume ex) = Inr (KVolume (named Volume_ResourceName Volume_SetGeneratedResourceName rand ex))"
| "generateName rand (KCloudInit ex) =
     Inr (KCloudInit (named CloudInit_ResourceName CloudInit_SetGeneratedResourceName rand ex))"
| "generateName rand (KDomain ex) = Inr (KDomain (named Domain_ResourceName Domain_SetGeneratedResourceName rand ex))"
| "generateName rand _ = Inl (PlainError ''object does not support external resource name generation'')"

definition VolumeDefaulter_Default :: "(nat \<Rightarrow> string) \<Rightarrow> kobj \<Rightarrow> error + kobj" where
  "VolumeDefaulter_Default rand obj = generateName rand obj"

definition DomainDefaulter_Default :: "(nat \<Rightarrow> string) \<Rightarrow> kobj \<Rightarrow> error + kobj" where
  "DomainDefaulter_Default rand obj = generateName rand obj"

definition CloudInitDefaulter_Default :: "(nat \<Rightarrow> string) \<Rightarrow> kobj \<Rightarrow> error + kobj" where
  "CloudInitDefaulter_Default rand obj =
     (case generateName rand obj of
        Inl err \<Rightarrow> Inl err
      | Inr (KCloudInit ci) \<Rightarrow>
          if cis_Metadata (Spec ci) \<noteq> None then Inr (KCloudInit ci)
          else Inr (KCloudInit (ci\<lparr>Spec := (Spec ci)\<lparr>cis_Metadata :=
                 Some \<lparr>cim_LocalHostname = CloudInit_ResourceName ci, cim_InstanceID = None\<rparr>\<rparr>\<rparr>))
      | Inr _ \<Rightarrow> Inl (PlainError ''object is not of CloudInit type''))"

text \<open>An external resource that has a base or a name has a name after defaulting.\<close>

lemma named_nonempty:
  assumes "external_resource nm setg base"
  shows "nm (named nm setg rand x) = '''' \<longleftrightarrow> nm x = '''' \<and> base x = ''''"
  using external_resource.generated_empty_iff [OF assms] by (auto simp: named_def)

section \<open>Unique names\<close>

text \<open>The loops of \<open>ValidateCreate\<close>.\<close>

fun Volume_conflict :: "Volume list \<Rightarrow> Volume \<Rightarrow> error option" where
  "Volume_conflict [] volume = None"
| "Volume_conflict (v # vs) volume =
     (if xr_Name (Spec v) = xr_Name (Spec volume) \<and>
         ref_Name (vsp_PoolRef (Spec v)) = ref_Name (vsp_PoolRef (Spec volume))
      then Some (PlainError ''name already in use in pool'') else Volume_conflict vs volume)"

fun CloudInit_conflict :: "CloudInit list \<Rightarrow> CloudInit \<Rightarrow> error option" where
  "CloudInit_conflict [] cloudInit = None"
| "CloudInit_conflict (ci # cis) cloudInit =
     (if xr_Name (Spec ci) = xr_Name (Spec cloudInit) \<and>
         ref_Name (cis_PoolRef (Spec ci)) = ref_Name (cis_PoolRef (Spec cloudInit))
      then Some (PlainError ''name already in use in pool'') else CloudInit_conflict cis cloudInit)"

fun Domain_conflict :: "Domain list \<Rightarrow> Domain \<Rightarrow> error option" where
  "Domain_conflict [] domain = None"
| "Domain_conflict (d # ds) domain =
     (if xr_Name (Spec d) = xr_Name (Spec domain) \<and>
         ref_Name (ds_HostRef (Spec d)) = ref_Name (ds_HostRef (Spec domain))
      then Some (PlainError ''name already in use on host'') else Domain_conflict ds domain)"

text \<open>The contract of the three loops: a name and a scope, and a conflict exactly when both are taken.\<close>

locale name_validator =
  fixes nm :: "'o \<Rightarrow> string" and scope :: "'o \<Rightarrow> string"
    and conflict :: "'o list \<Rightarrow> 'o \<Rightarrow> error option"
  assumes conflict_None_iff:
    "conflict items x = None \<longleftrightarrow> (\<forall>y\<in>set items. \<not> (nm y = nm x \<and> scope y = scope x))"
begin

definition unique :: "'o list \<Rightarrow> bool" where
  "unique items \<longleftrightarrow> distinct (map (\<lambda>x. (scope x, nm x)) items)"

lemma accepted_unique: "unique items \<Longrightarrow> conflict items x = None \<Longrightarrow> unique (items @ [x])"
  by (auto simp: unique_def conflict_None_iff)

lemma taken_refused: "y \<in> set items \<Longrightarrow> nm y = nm x \<Longrightarrow> scope y = scope x \<Longrightarrow> conflict items x \<noteq> None"
  unfolding conflict_None_iff by blast

text \<open>However many objects are admitted one after the other, no two share a name in a scope.\<close>

lemma admitted_unique:
  "unique items \<Longrightarrow> (\<And>i. i < length xs \<Longrightarrow> conflict (items @ take i xs) (xs ! i) = None) \<Longrightarrow> unique (items @ xs)"
proof (induction xs arbitrary: items)
  case (Cons x xs)
  from Cons.prems(2) [of 0] Cons.prems(1) have "unique (items @ [x])" by (simp add: accepted_unique)
  moreover have "conflict ((items @ [x]) @ take i xs) (xs ! i) = None" if "i < length xs" for i
    using Cons.prems(2) [of "Suc i"] that by simp
  ultimately have "unique ((items @ [x]) @ xs)" by (rule Cons.IH)
  then show ?case by simp
qed simp

end

interpretation volume_names: name_validator "\<lambda>v. xr_Name (Spec v)" "\<lambda>v. ref_Name (vsp_PoolRef (Spec v))" Volume_conflict
proof
  show "Volume_conflict items x = None \<longleftrightarrow> (\<forall>y\<in>set items. \<not> (xr_Name (Spec y) = xr_Name (Spec x) \<and>
      ref_Name (vsp_PoolRef (Spec y)) = ref_Name (vsp_PoolRef (Spec x))))" for items x
    by (induction items) auto
qed

interpretation cloudinit_names: name_validator "\<lambda>v. xr_Name (Spec v)" "\<lambda>v. ref_Name (cis_PoolRef (Spec v))" CloudInit_conflict
proof
  show "CloudInit_conflict items x = None \<longleftrightarrow> (\<forall>y\<in>set items. \<not> (xr_Name (Spec y) = xr_Name (Spec x) \<and>
      ref_Name (cis_PoolRef (Spec y)) = ref_Name (cis_PoolRef (Spec x))))" for items x
    by (induction items) auto
qed

interpretation domain_names: name_validator "\<lambda>v. xr_Name (Spec v)" "\<lambda>v. ref_Name (ds_HostRef (Spec v))" Domain_conflict
proof
  show "Domain_conflict items x = None \<longleftrightarrow> (\<forall>y\<in>set items. \<not> (xr_Name (Spec y) = xr_Name (Spec x) \<and>
      ref_Name (ds_HostRef (Spec y)) = ref_Name (ds_HostRef (Spec x))))" for items x
    by (induction items) auto
qed

section \<open>The validators\<close>

definition isVolumeObject :: "kobj \<Rightarrow> error + Volume" where
  "isVolumeObject obj = (case obj of KVolume v \<Rightarrow> Inr v | _ \<Rightarrow> Inl (PlainError ''not a volume object''))"

definition isCloudInitObject :: "kobj \<Rightarrow> error + CloudInit" where
  "isCloudInitObject obj =
     (case obj of KCloudInit ci \<Rightarrow> Inr ci | _ \<Rightarrow> Inl (PlainError ''not a cloud-init object''))"

definition isDomainObject :: "kobj \<Rightarrow> error + Domain" where
  "isDomainObject obj = (case obj of KDomain d \<Rightarrow> Inr d | _ \<Rightarrow> Inl (PlainError ''not a domain object''))"

text \<open>Warnings are always nil, so a validator returns its error only.\<close>

definition VolumeValidator_ValidateCreate :: "'w env \<Rightarrow> kobj \<Rightarrow> ('w sys, error option) prog" where
  "VolumeValidator_ValidateCreate env obj =
     (case isVolumeObject obj of
        Inl err \<Rightarrow> ret (Some err)
      | Inr volume \<Rightarrow> attempt (apiList (Volumes env) None) (\<lambda>err. ret (Some err))
          (\<lambda>volumes. ret (Volume_conflict volumes volume)))"

definition CloudInitValidator_ValidateCreate :: "'w env \<Rightarrow> kobj \<Rightarrow> ('w sys, error option) prog" where
  "CloudInitValidator_ValidateCreate env obj =
     (case isCloudInitObject obj of
        Inl err \<Rightarrow> ret (Some err)
      | Inr cloudInit \<Rightarrow> attempt (apiList (CloudInits env) None) (\<lambda>err. ret (Some err))
          (\<lambda>cloudInits. ret (CloudInit_conflict cloudInits cloudInit)))"

definition DomainValidator_ValidateCreate :: "'w env \<Rightarrow> kobj \<Rightarrow> ('w sys, error option) prog" where
  "DomainValidator_ValidateCreate env obj =
     (case isDomainObject obj of
        Inl err \<Rightarrow> ret (Some err)
      | Inr domain \<Rightarrow> attempt (apiList (Domains env) None) (\<lambda>err. ret (Some err))
          (\<lambda>domains. ret (Domain_conflict domains domain)))"

text \<open>Updates and deletions are only checked for their type.\<close>

definition typeCheck :: "(kobj \<Rightarrow> error + 'o) \<Rightarrow> kobj \<Rightarrow> error option" where
  "typeCheck is obj = (case is obj of Inl err \<Rightarrow> Some err | Inr _ \<Rightarrow> None)"

definition VolumeValidator_ValidateUpdate :: "kobj \<Rightarrow> kobj \<Rightarrow> error option" where
  "VolumeValidator_ValidateUpdate oldObj newObj = typeCheck isVolumeObject newObj"
definition VolumeValidator_ValidateDelete :: "kobj \<Rightarrow> error option" where
  "VolumeValidator_ValidateDelete obj = typeCheck isVolumeObject obj"
definition CloudInitValidator_ValidateUpdate :: "kobj \<Rightarrow> kobj \<Rightarrow> error option" where
  "CloudInitValidator_ValidateUpdate oldObj newObj = typeCheck isCloudInitObject newObj"
definition CloudInitValidator_ValidateDelete :: "kobj \<Rightarrow> error option" where
  "CloudInitValidator_ValidateDelete obj = typeCheck isCloudInitObject obj"
definition DomainValidator_ValidateUpdate :: "kobj \<Rightarrow> kobj \<Rightarrow> error option" where
  "DomainValidator_ValidateUpdate oldObj newObj = typeCheck isDomainObject newObj"
definition DomainValidator_ValidateDelete :: "kobj \<Rightarrow> error option" where
  "DomainValidator_ValidateDelete obj = typeCheck isDomainObject obj"

section \<open>Names stay unique\<close>

text \<open>
  The specification of the three \<open>ValidateCreate\<close>: the answer is made from one list of all objects of the kind. An
  error of the list is passed on; otherwise the object is refused exactly when an object of the list has its key, the
  name and the scope.
\<close>

definition creates :: "kind \<Rightarrow> ('o \<Rightarrow> kobj) \<Rightarrow> ('o \<Rightarrow> string \<times> string) \<Rightarrow> 'o \<Rightarrow> error option outcome \<Rightarrow> event list \<Rightarrow> bool" where
  "creates k wrap key x r tr \<longleftrightarrow> (\<exists>res. tr = [DidList k None res] \<and> (case res of
     Returns (Inr items) \<Rightarrow> \<exists>xs answer. items = map wrap xs \<and> r = Returns answer \<and>
       (answer \<noteq> None \<longleftrightarrow> key x \<in> key ` set xs)
   | Returns (Inl err) \<Rightarrow> r = Returns (Some err)
   | Panics \<Rightarrow> r = Panics
   | Hangs \<Rightarrow> r = Hangs))"

definition inPool :: "('spec \<Rightarrow> string) \<Rightarrow> ('spec \<Rightarrow> ResourceRef) \<Rightarrow> ('spec, 'st) Object \<Rightarrow> string \<times> string" where
  "inPool nm scope x = (nm (Spec x), ref_Name (scope (Spec x)))"

lemma traces_validator:
  assumes conflict: "\<And>xs. conflict xs x = None \<longleftrightarrow> key x \<notin> key ` set xs"
  shows "traces (attempt (apiList R None) (\<lambda>err. ret (Some err)) (\<lambda>xs. ret (conflict xs x))) s
    (creates (rs_kind R) (rs_obj R) key x)"
  unfolding apiList_def
  by (intro traces_rules) (simp_all add: creates_def conflict del: not_None_eq, auto)

text \<open>C40: A new volume or cloud-init image is admitted exactly when the list of the objects of its kind, asked of the API
  server at that moment, has none with its name and pool, and a new domain exactly when the list of domains has
  none with its name and host; if the list cannot be had, the object is refused with that error. An object of
  another kind is never asked for, so a volume and a cloud-init image of the same name are both admitted in one
  pool.\<close>

theorem ValidateCreate_unique:
  "traces (VolumeValidator_ValidateCreate env (KVolume volume)) s
     (creates VolumeKind KVolume (inPool xr_Name vsp_PoolRef) volume) \<and>
   traces (CloudInitValidator_ValidateCreate env (KCloudInit ci)) s
     (creates CloudInitKind KCloudInit (inPool xr_Name cis_PoolRef) ci) \<and>
   traces (DomainValidator_ValidateCreate env (KDomain domain)) s
     (creates DomainKind KDomain (inPool xr_Name ds_HostRef) domain)"
proof -
  have "Volume_conflict vs volume = None \<longleftrightarrow> inPool xr_Name vsp_PoolRef volume \<notin> inPool xr_Name vsp_PoolRef ` set vs" for vs
    by (auto simp: volume_names.conflict_None_iff inPool_def image_iff)
  note volumes = traces_validator [of Volume_conflict volume "inPool xr_Name vsp_PoolRef", OF this, of "Volumes env" s]
  have "CloudInit_conflict cis ci = None \<longleftrightarrow> inPool xr_Name cis_PoolRef ci \<notin> inPool xr_Name cis_PoolRef ` set cis" for cis
    by (auto simp: cloudinit_names.conflict_None_iff inPool_def image_iff)
  note cloudInits = traces_validator [of CloudInit_conflict ci "inPool xr_Name cis_PoolRef", OF this, of "CloudInits env" s]
  have "Domain_conflict ds domain = None \<longleftrightarrow> inPool xr_Name ds_HostRef domain \<notin> inPool xr_Name ds_HostRef ` set ds" for ds
    by (auto simp: domain_names.conflict_None_iff inPool_def image_iff)
  note domains = traces_validator [of Domain_conflict domain "inPool xr_Name ds_HostRef", OF this, of "Domains env" s]
  show ?thesis
    using volumes cloudInits domains
    by (simp add: VolumeValidator_ValidateCreate_def CloudInitValidator_ValidateCreate_def DomainValidator_ValidateCreate_def
        isVolumeObject_def isCloudInitObject_def isDomainObject_def resource_defs)
qed

end
