(* ===== verification/Version.thy ===== *)
theory Version
  imports Util
begin

text \<open>
  The version information of the binary (\<^verbatim>\<open>internal/version/version.go\<close>) and the command that prints it
  (\<^verbatim>\<open>internal/cmd/version.go\<close>). What \<open>debug.ReadBuildInfo\<close> answers and the variable set at link time are
  arguments; \<open>json.MarshalIndent\<close> is a parameter like the YAML encoder.
\<close>

record BuildInfo =
  bi_GoVersion :: string
  bi_Settings :: "(string \<times> string) list"

record Info =
  i_Version :: string
  i_GitCommit :: string
  i_GitCommitDate :: string
  i_GitTreeState :: string
  i_GoVersion :: string
  i_Compiler :: string
  i_Platform :: string

definition emptyInfo :: Info where
  "emptyInfo = \<lparr>i_Version = '''', i_GitCommit = '''', i_GitCommitDate = '''', i_GitTreeState = '''',
     i_GoVersion = '''', i_Compiler = '''', i_Platform = ''''\<rparr>"

text \<open>One round of the loop over the settings: the information, and the variables \<open>os\<close> and \<open>arch\<close>.\<close>

fun readSetting :: "string \<times> string \<Rightarrow> Info \<times> string \<times> string \<Rightarrow> Info \<times> string \<times> string" where
  "readSetting (key, v) (i, os, arch) =
     (if key = ''vcs.revision'' then (i\<lparr>i_GitCommit := v\<rparr>, os, arch)
      else if key = ''vcs.time'' then (i\<lparr>i_GitCommitDate := v\<rparr>, os, arch)
      else if key = ''vcs.modified'' then
        (i\<lparr>i_GitTreeState := (if v = ''true'' then ''dirty'' else ''clean'')\<rparr>, os, arch)
      else if key = ''GOOS'' then (i, v, arch)
      else if key = ''GOARCH'' then (i, os, v)
      else if key = ''-compiler'' then (i\<lparr>i_Compiler := v\<rparr>, os, arch)
      else (i, os, arch))"

definition NewInfo :: "string \<Rightarrow> BuildInfo option \<Rightarrow> Info" where
  "NewInfo version bi =
     (case bi of
        None \<Rightarrow> emptyInfo
      | Some bi \<Rightarrow>
          (case fold readSetting (bi_Settings bi) (emptyInfo, '''', '''') of (i, os, arch) \<Rightarrow>
             i\<lparr>i_Version := (if version = '''' then ''sha-'' @ i_GitCommit i else version),
               i_GoVersion := bi_GoVersion bi,
               i_Platform := os @ ''/'' @ arch\<rparr>))"

definition Info_String :: "Info \<Rightarrow> string" where
  "Info_String i = ''version: '' @ i_Version i"

definition Info_JSON :: "(Info \<Rightarrow> error + bytes) \<Rightarrow> Info \<Rightarrow> error + string" where
  "Info_JSON marshalIndent i = marshalIndent i"

definition Info_YAML :: "Info yaml_encoder \<Rightarrow> Info \<Rightarrow> error + string" where
  "Info_YAML enc i = Marshal enc [] i"

text \<open>What the command prints.\<close>

definition runVersion :: "(Info \<Rightarrow> error + bytes) \<Rightarrow> Info yaml_encoder \<Rightarrow> Info \<Rightarrow> string \<Rightarrow> string" where
  "runVersion marshalIndent enc i output =
     (if output = ''json'' then (case Info_JSON marshalIndent i of Inl err \<Rightarrow> ErrorText err | Inr info \<Rightarrow> info)
      else if output = ''yaml'' then (case Info_YAML enc i of Inl err \<Rightarrow> ErrorText err | Inr info \<Rightarrow> info)
      else Info_String i)"

text \<open>A setting that occurs once is found wherever it is.\<close>

definition setting :: "BuildInfo \<Rightarrow> string \<Rightarrow> string" where
  "setting bi key = (case map_of (rev (bi_Settings bi)) key of None \<Rightarrow> '''' | Some v \<Rightarrow> v)"

lemma fold_readSetting:
  "fold readSetting xs (i, os, arch) = (i', os', arch') \<Longrightarrow>
     i_GitCommit i' = (case map_of (rev xs) ''vcs.revision'' of None \<Rightarrow> i_GitCommit i | Some v \<Rightarrow> v) \<and>
     i_GitCommitDate i' = (case map_of (rev xs) ''vcs.time'' of None \<Rightarrow> i_GitCommitDate i | Some v \<Rightarrow> v) \<and>
     i_GitTreeState i' = (case map_of (rev xs) ''vcs.modified'' of None \<Rightarrow> i_GitTreeState i
        | Some v \<Rightarrow> if v = ''true'' then ''dirty'' else ''clean'') \<and>
     i_Compiler i' = (case map_of (rev xs) ''-compiler'' of None \<Rightarrow> i_Compiler i | Some v \<Rightarrow> v) \<and>
     os' = (case map_of (rev xs) ''GOOS'' of None \<Rightarrow> os | Some v \<Rightarrow> v) \<and>
     arch' = (case map_of (rev xs) ''GOARCH'' of None \<Rightarrow> arch | Some v \<Rightarrow> v)"
proof (induction xs arbitrary: i' os' arch' rule: rev_induct)
  case (snoc x xs)
  obtain key v where x: "x = (key, v)" by fastforce
  obtain i1 os1 arch1 where f: "fold readSetting xs (i, os, arch) = (i1, os1, arch1)"
    by (cases "fold readSetting xs (i, os, arch)") auto
  note IH = snoc.IH [OF f]
  from snoc.prems have "readSetting (key, v) (i1, os1, arch1) = (i', os', arch')" by (simp add: f x)
  then consider
      "key = ''vcs.revision''" "i' = i1\<lparr>i_GitCommit := v\<rparr>" "os' = os1" "arch' = arch1"
    | "key = ''vcs.time''" "i' = i1\<lparr>i_GitCommitDate := v\<rparr>" "os' = os1" "arch' = arch1"
    | "key = ''vcs.modified''" "i' = i1\<lparr>i_GitTreeState := (if v = ''true'' then ''dirty'' else ''clean'')\<rparr>"
        "os' = os1" "arch' = arch1"
    | "key = ''GOOS''" "i' = i1" "os' = v" "arch' = arch1"
    | "key = ''GOARCH''" "i' = i1" "os' = os1" "arch' = v"
    | "key = ''-compiler''" "i' = i1\<lparr>i_Compiler := v\<rparr>" "os' = os1" "arch' = arch1"
    | "key \<notin> {''vcs.revision'', ''vcs.time'', ''vcs.modified'', ''GOOS'', ''GOARCH'', ''-compiler''}"
        "i' = i1" "os' = os1" "arch' = arch1"
    by (simp split: if_splits)
  then show ?case by cases (use IH in \<open>auto simp: x\<close>)
qed simp

end
