(* ===== verification/Divergences.thy ===== *)
theory Divergences
  imports DomainController CloudInitController
begin

text \<open>
  Behaviour of the code that differs from what its comments, its validation rules or its callers expect, as facts
  about the model.
\<close>

section \<open>Dialers and downloads\<close>

text \<open>\<^verbatim>\<open>internal/controller/host.go\<close>: the port 22 is given to the dialer as a control character.\<close>

lemma port_is_a_character:
  assumes "hs_Port (Spec host) = Some 22"
  shows "portOption UseSSHPort host = [UseSSHPort [char_of (22 :: nat)]]" and "[char_of (22 :: nat)] \<noteq> ''22''"
  using assms by (simp_all add: portOption_def rune_string_def)

text \<open>\<^verbatim>\<open>internal/action/volume.go\<close>: no status of a response makes a difference.\<close>

definition withStatus :: "nat \<Rightarrow> 's OS \<Rightarrow> 's OS" where
  "withStatus code os = os\<lparr>http_Do := (\<lambda>url. andThen (http_Do os url)
     (\<lambda>r. ret (map_sum id (\<lambda>resp. resp\<lparr>hr_StatusCode := code\<rparr>) r)))\<rparr>"

lemma withStatus_select:
  "os_CreateTemp (withStatus code os) = os_CreateTemp os" "os_Write (withStatus code os) = os_Write os"
  "os_Seek (withStatus code os) = os_Seek os" "os_Read (withStatus code os) = os_Read os"
  "http_NewRequest (withStatus code os) = http_NewRequest os" "sha256 (withStatus code os) = sha256 os"
  "sha512 (withStatus code os) = sha512 os"
  "http_Do (withStatus code os) = (\<lambda>url. andThen (http_Do os url)
     (\<lambda>r. ret (map_sum id (\<lambda>resp. resp\<lparr>hr_StatusCode := code\<rparr>) r)))"
  by (simp_all add: withStatus_def)

lemma attempt_mapped:
  "attempt (andThen m (\<lambda>r. ret (map_sum id f r))) h k = attempt m h (\<lambda>x. k (f x))"
  by (rule ext) (simp add: attempt_def andThen_def ret_def split: prod.split outcome.split sum.split)

lemma RemoteSource_ignores_status: "RemoteSource sc (withStatus code os) a url checksum = RemoteSource sc os a url checksum"
proof -
  have "verifyChecksum (withStatus code os) = verifyChecksum os"
    by (intro ext) (simp only: verifyChecksum_def withStatus_select)
  then show ?thesis by (simp add: RemoteSource_def withStatus_select attempt_mapped Let_def cong: sum.case_cong option.case_cong if_cong)
qed

text \<open>A response of unknown length has the length \<open>- 1\<close>.\<close>

lemma unknown_length_is_zero: "ToUint64 safecast_clamping (- 1) = 0"
  by (simp add: safecast_clamping_def clamp_def)

section \<open>Generations\<close>

text \<open>
  \<^verbatim>\<open>internal/controller/auth.go\<close>: credentials whose sum of generations is the registered one are not written, whatever is
  in the secret.
\<close>

lemma Auth_register_same_sum:
  assumes "k_Get (e_Secrets env) (Auth_SecretRef auth) (w_ext s) = (Returns (Inr secret), w)"
    and "int64 (om_Generation (Meta auth) + om_Generation (sec_Meta secret)) = ae_generation entry"
  shows "\<exists>s'. Auth_register env (Some entry) auth s = (Returns (emptyResult, None), s') \<and> sys_auth s' = sys_auth s"
  using assms
  by (simp add: Auth_register_def Let_def attempt_def andThen_def apiGet_def called_def resource_defs ret_def)

section \<open>Devices\<close>

text \<open>
  \<^verbatim>\<open>internal/controller/domain.go\<close>: a PCI device that is ready but has no address yet, which its controller persists before
  the address, makes the reconciliation of a domain panic.
\<close>

lemma Domain_pciDevices_nil_address:
  assumes "k_Get (e_PCIDevices env) (Domain_PCIDeviceRef domain pci) (w_ext s) = (Returns (Inr pciDevice), w)"
    and "isTrue env pciDevice ConditionReady" and "ref_Name (pds_HostRef (Spec pciDevice)) = ref_Name (ds_HostRef (Spec domain))"
    and "pdst_Address (Status pciDevice) = None"
  shows "fst (Domain_pciDevices env (pci # pcis) k action domain s) = Panics"
  using assms by (simp add: attempt_def andThen_def apiGet_def called_def resource_defs deref_def panic_def ret_def)

section \<open>The fake daemon\<close>

lemma fake_texts_equal: "ErrDomainAlreadyExist = ErrDomainNotExist"
  by (simp add: ErrDomainAlreadyExist_def ErrDomainNotExist_def)

lemma WithNetwork_ignores_state: "WithNetwork network state f = WithNetwork network state' f"
  by (simp add: WithNetwork_def)

section \<open>Validation rules\<close>

lemma tls_rule_admits_ssh_fields:
  assumes "as_Ca spec = Some ca"
  shows "AuthSpec_tls_rule (spec\<lparr>as_Username := Some user, as_KnownHosts := Some kh\<rparr>)"
  using assms by (simp add: AuthSpec_tls_rule_def)

lemma secure_boot_rule_admits_no_uefi:
  "DomainSpec_rule (spec\<lparr>ds_SecureBoot := Some True, ds_UEFI := None\<rparr>)"
  by (simp add: DomainSpec_rule_def)

end
