(* ===== verification/Operator.thy ===== *)
theory Operator
  imports Prelude "HOL-Library.Sublist"
begin

text \<open>
  The start of the operator (\<open>runOperator\<close> of \<^verbatim>\<open>internal/cmd/root.go\<close>): a sequence of calls of libraries, each of which
  may fail and then ends the process. The calls are kept in the order they were made, in \<open>op_calls\<close>.
\<close>

section \<open>Flags\<close>

definition defaultNamespacePath :: string where
  "defaultNamespacePath = ''/var/run/secrets/kubernetes.io/serviceaccount/namespace''"
definition defaultLeaderElectionID :: string where
  "defaultLeaderElectionID = ''lock.libvirt.karelvanhecke.com''"

record Flags =
  fl_verbose :: int
  fl_logFormat :: string
  fl_namespace :: string
  fl_leaderElection :: bool
  fl_LeaderElectionID :: string
  fl_metricsAddress :: string
  fl_probeAddress :: string

definition defaultFlags :: Flags where
  "defaultFlags = \<lparr>fl_verbose = 0, fl_logFormat = ''logfmt'', fl_namespace = '''', fl_leaderElection = True,
     fl_LeaderElectionID = defaultLeaderElectionID, fl_metricsAddress = '':8080'', fl_probeAddress = '':8081''\<rparr>"

section \<open>Calls\<close>

record ManagerOptions =
  mo_DefaultNamespace :: string
  mo_LeaderElection :: bool
  mo_LeaderElectionID :: string
  mo_MetricsBindAddress :: string
  mo_HealthProbeBindAddress :: string

datatype reconciler =
    AuthReconciler | HostReconciler | PoolReconciler | NetworkReconciler | PCIDeviceReconciler
  | VolumeReconciler | CloudInitReconciler | DomainReconciler

datatype webhook = VolumeWebhook | CloudInitWebhook | DomainWebhook

datatype setupCall =
    SetLogger int bool \<comment> \<open>level, and whether the format is JSON\<close>
  | GetConfig
  | AddClientGoToScheme
  | AddV1alpha1ToScheme
  | ReadFile string
  | NewManager ManagerOptions
  | AddHealthzCheck
  | AddReadyzCheck
  | SetupController reconciler
  | SetupWebhook webhook
  | Start

record 'w Operator =
  op_ext :: 'w
  op_calls :: "setupCall list"

text \<open>What the libraries answer: a text where the call has a result (the content of a file), or an error.\<close>

type_synonym 'w setuplib = "setupCall \<Rightarrow> ('w, error + string) prog"

definition setUp :: "'w setuplib \<Rightarrow> setupCall \<Rightarrow> ('w Operator, error + string) prog" where
  "setUp lib c s = (case lib c (op_ext s) of (r, w) \<Rightarrow> (r, s\<lparr>op_ext := w, op_calls := op_calls s @ [c]\<rparr>))"

text \<open>\<open>setupLog.Error(err, msg)\<close> and \<open>os.Exit(1)\<close>: the process ends, with the message it logged.\<close>

definition must :: "'w setuplib \<Rightarrow> setupCall \<Rightarrow> string \<Rightarrow> (string \<Rightarrow> ('w Operator, string option) prog)
    \<Rightarrow> ('w Operator, string option) prog" where
  "must lib c msg k = attempt (setUp lib c) (\<lambda>err. ret (Some msg)) k"

text \<open>A sequence of such calls, and what comes after it.\<close>

fun mustAll :: "'w setuplib \<Rightarrow> (setupCall \<times> string) list \<Rightarrow> ('w Operator, string option) prog
    \<Rightarrow> ('w Operator, string option) prog" where
  "mustAll lib [] k = k"
| "mustAll lib ((c, msg) # cs) k = must lib c msg (\<lambda>_. mustAll lib cs k)"

section \<open>The sequence\<close>

definition managerOptions :: "Flags \<Rightarrow> string \<Rightarrow> ManagerOptions" where
  "managerOptions fl ns = \<lparr>mo_DefaultNamespace = ns, mo_LeaderElection = fl_leaderElection fl,
     mo_LeaderElectionID = fl_LeaderElectionID fl, mo_MetricsBindAddress = fl_metricsAddress fl,
     mo_HealthProbeBindAddress = fl_probeAddress fl\<rparr>"

definition beforeNamespace :: "(setupCall \<times> string) list" where
  "beforeNamespace =
     [(GetConfig, ''failed to get kubeconfig''),
      (AddClientGoToScheme, ''failed to add scheme''),
      (AddV1alpha1ToScheme, ''failed to add scheme libvirt.karelvanhecke.com/v1alpha1'')]"

definition afterNamespace :: "Flags \<Rightarrow> string \<Rightarrow> (setupCall \<times> string) list" where
  "afterNamespace fl ns =
     [(NewManager (managerOptions fl ns), ''failed to create manager''),
      (AddHealthzCheck, ''failed to setup healthz check''),
      (AddReadyzCheck, ''failed to setup readyz check''),
      (SetupController AuthReconciler, ''failed to setup auth controller with manager''),
      (SetupController HostReconciler, ''failed to setup host controller with manager''),
      (SetupController PoolReconciler, ''failed to setup pool controller with manager''),
      (SetupController NetworkReconciler, ''failed to setup network controller with manager''),
      (SetupController PCIDeviceReconciler, ''failed to setup pci device controller with manager''),
      (SetupController VolumeReconciler, ''failed to setup volume controller with manager''),
      (SetupController CloudInitReconciler, ''failed to setup cloud-init controller with manager''),
      (SetupController DomainReconciler, ''failed to setup domain controller with manager''),
      (SetupWebhook VolumeWebhook, ''failed to setup volume webhook with manager''),
      (SetupWebhook CloudInitWebhook, ''failed to setup cloud-init webhook with manager''),
      (SetupWebhook DomainWebhook, ''failed to setup domain webhook with manager''),
      (Start, ''failed to start manager'')]"

definition runOperator :: "'w setuplib \<Rightarrow> Flags \<Rightarrow> ('w Operator, string option) prog" where
  "runOperator lib fl =
     andThen (setUp lib (SetLogger (- fl_verbose fl) (fl_logFormat fl = ''json''))) (\<lambda>_.
     mustAll lib beforeNamespace (
       if fl_namespace fl = ''''
       then must lib (ReadFile defaultNamespacePath) ''could not determine operator namespace''
              (\<lambda>ns. mustAll lib (afterNamespace fl ns) (ret None))
       else mustAll lib (afterNamespace fl (fl_namespace fl)) (ret None)))"

section \<open>What a start does\<close>

text \<open>The calls of a start that goes well, with the namespace it found.\<close>

definition startSequence :: "Flags \<Rightarrow> string \<Rightarrow> setupCall list" where
  "startSequence fl ns =
     [SetLogger (- fl_verbose fl) (fl_logFormat fl = ''json'')] @ map fst beforeNamespace @
     (if fl_namespace fl = '''' then [ReadFile defaultNamespacePath] else []) @ map fst (afterNamespace fl ns)"

lemma runs_must:
  assumes "\<And>x w. runs (k x) (s\<lparr>op_ext := w, op_calls := op_calls s @ [c]\<rparr>) Q"
    and "\<And>r w. r \<noteq> Returns None \<Longrightarrow> Q r (s\<lparr>op_ext := w, op_calls := op_calls s @ [c]\<rparr>)"
  shows "runs (must lib c msg k) s Q"
proof -
  obtain r w where lib: "lib c (op_ext s) = (r, w)" by fastforce
  have "must lib c msg k s = (case r of Returns (Inr x) \<Rightarrow> k x (s\<lparr>op_ext := w, op_calls := op_calls s @ [c]\<rparr>)
      | Returns (Inl err) \<Rightarrow> (Returns (Some msg), s\<lparr>op_ext := w, op_calls := op_calls s @ [c]\<rparr>)
      | Panics \<Rightarrow> (Panics, s\<lparr>op_ext := w, op_calls := op_calls s @ [c]\<rparr>)
      | Hangs \<Rightarrow> (Hangs, s\<lparr>op_ext := w, op_calls := op_calls s @ [c]\<rparr>))"
    by (simp add: must_def setUp_def attempt_def andThen_def ret_def lib split: outcome.split sum.split)
  with assms(1) [of _ w] assms(2) [of _ w] show ?thesis
    by (simp add: runs_def split: outcome.split sum.split)
qed

lemma runs_mustAll:
  assumes "\<And>s'. op_calls s' = op_calls s @ map fst cs \<Longrightarrow> runs k s' Q"
    and "\<And>r s' tr. op_calls s' = op_calls s @ tr \<Longrightarrow> prefix tr (map fst cs) \<Longrightarrow> r \<noteq> Returns None \<Longrightarrow> Q r s'"
  shows "runs (mustAll lib cs k) s Q"
  using assms
proof (induction cs arbitrary: s)
  case (Cons c cs)
  obtain call msg where c: "c = (call, msg)" by (cases c)
  show ?case
    unfolding c mustAll.simps
  proof (rule runs_must)
    fix w
    show "runs (mustAll lib cs k) (s\<lparr>op_ext := w, op_calls := op_calls s @ [call]\<rparr>) Q"
    proof (rule Cons.IH)
      show "runs k s' Q" if "op_calls s' = op_calls (s\<lparr>op_ext := w, op_calls := op_calls s @ [call]\<rparr>) @ map fst cs" for s'
        by (rule Cons.prems(1)) (use that in \<open>simp add: c\<close>)
      show "Q r s'" if "op_calls s' = op_calls (s\<lparr>op_ext := w, op_calls := op_calls s @ [call]\<rparr>) @ tr"
        "prefix tr (map fst cs)" "r \<noteq> Returns None" for r s' tr
        by (rule Cons.prems(2) [of _ "call # tr"]) (use that in \<open>simp_all add: c\<close>)
    qed
    show "Q r (s\<lparr>op_ext := w, op_calls := op_calls s @ [call]\<rparr>)" if "r \<noteq> Returns None" for r w
      by (rule Cons.prems(2) [of _ "[call]"]) (use that in \<open>simp_all add: c\<close>)
  qed
qed simp

text \<open>
  The calls of a start are a beginning of the sequence, for the namespace of the flags or the one that was read, and the
  start ends well only after all of it. In particular the manager is started after every controller and every webhook
  is set up, with the namespace it watches.
\<close>

definition startedInOrder :: "Flags \<Rightarrow> setupCall list \<Rightarrow> string option outcome \<Rightarrow> 'w Operator \<Rightarrow> bool" where
  "startedInOrder fl before r s' \<longleftrightarrow> (\<exists>ns tr. op_calls s' = before @ tr \<and> prefix tr (startSequence fl ns) \<and>
     (fl_namespace fl \<noteq> '''' \<longrightarrow> ns = fl_namespace fl) \<and> (r = Returns None \<longrightarrow> tr = startSequence fl ns))"

lemma startedInOrder_part:
  assumes "op_calls s' = before @ pre @ tr" and "startSequence fl ns = pre @ post" and "prefix tr post"
    and "fl_namespace fl \<noteq> '''' \<longrightarrow> ns = fl_namespace fl" and "r = Returns None \<longrightarrow> tr = post"
  shows "startedInOrder fl before r s'"
  unfolding startedInOrder_def
  by (intro exI [of _ ns] exI [of _ "pre @ tr"]) (use assms in simp)

lemma runs_afterNamespace:
  assumes "op_calls s = before @ pre" and "startSequence fl ns = pre @ map fst (afterNamespace fl ns)"
    and "fl_namespace fl \<noteq> '''' \<longrightarrow> ns = fl_namespace fl"
  shows "runs (mustAll lib (afterNamespace fl ns) (ret None)) s (startedInOrder fl before)"
  by (rule runs_mustAll) (use assms in \<open>auto simp: runs_simps intro: startedInOrder_part [of _ before pre]\<close>)

lemma runOperator_in_order: "runs (runOperator lib fl) s (startedInOrder fl (op_calls s))"
proof -
  let ?log = "[SetLogger (- fl_verbose fl) (fl_logFormat fl = ''json'')]"
  let ?read = "if fl_namespace fl = '''' then [ReadFile defaultNamespacePath] else []"
  have seq: "startSequence fl ns = (?log @ map fst beforeNamespace @ ?read) @ map fst (afterNamespace fl ns)"
    "startSequence fl ns = ?log @ map fst beforeNamespace @ ?read @ map fst (afterNamespace fl ns)" for ns
    by (simp_all add: startSequence_def)
  have read: "runs (if fl_namespace fl = '''' then must lib (ReadFile defaultNamespacePath) ''could not determine operator namespace''
          (\<lambda>ns. mustAll lib (afterNamespace fl ns) (ret None))
        else mustAll lib (afterNamespace fl (fl_namespace fl)) (ret None)) s' (startedInOrder fl (op_calls s))"
    if s': "op_calls s' = op_calls s @ ?log @ map fst beforeNamespace" for s'
  proof (cases "fl_namespace fl = ''''")
    case True
    show ?thesis
      unfolding if_P [OF True]
    proof (rule runs_must)
      fix ns w
      show "runs (mustAll lib (afterNamespace fl ns) (ret None))
          (s'\<lparr>op_ext := w, op_calls := op_calls s' @ [ReadFile defaultNamespacePath]\<rparr>) (startedInOrder fl (op_calls s))"
        by (rule runs_afterNamespace [where pre = "?log @ map fst beforeNamespace @ ?read"]) (use s' True seq in simp_all)
    next
      fix r w
      assume "r \<noteq> Returns (None :: string option)"
      then show "startedInOrder fl (op_calls s) r (s'\<lparr>op_ext := w, op_calls := op_calls s' @ [ReadFile defaultNamespacePath]\<rparr>)"
        by (intro startedInOrder_part [where pre = "?log @ map fst beforeNamespace @ ?read" and tr = "[]"]) (use s' True seq in simp_all)
    qed
  next
    case False
    show ?thesis
      unfolding if_not_P [OF False]
      by (rule runs_afterNamespace [where pre = "?log @ map fst beforeNamespace @ ?read"]) (use s' False seq in simp_all)
  qed
  have before: "runs (mustAll lib beforeNamespace (if fl_namespace fl = '''' then must lib (ReadFile defaultNamespacePath)
          ''could not determine operator namespace'' (\<lambda>ns. mustAll lib (afterNamespace fl ns) (ret None))
        else mustAll lib (afterNamespace fl (fl_namespace fl)) (ret None))) s' (startedInOrder fl (op_calls s))"
    if s': "op_calls s' = op_calls s @ ?log" for s'
  proof (rule runs_mustAll)
    show "startedInOrder fl (op_calls s) r s''"
      if "op_calls s'' = op_calls s' @ tr" "prefix tr (map fst beforeNamespace)" "r \<noteq> Returns None" for r s'' tr
      by (rule startedInOrder_part [where pre = ?log and tr = tr and ns = "fl_namespace fl", OF _ seq(2)])
        (use that s' in \<open>simp_all add: prefix_prefix\<close>)
  qed (rule read, simp add: s')
  obtain r s' where log: "setUp lib (SetLogger (- fl_verbose fl) (fl_logFormat fl = ''json'')) s = (r, s')"
    "op_calls s' = op_calls s @ ?log"
    by (cases "lib (SetLogger (- fl_verbose fl) (fl_logFormat fl = ''json'')) (op_ext s)") (simp add: setUp_def)
  have "startedInOrder fl (op_calls s) r' s'" if "r' \<noteq> Returns None" for r'
    by (rule startedInOrder_part [where pre = ?log and tr = "[]" and ns = "fl_namespace fl", OF _ seq(2)])
      (use that log(2) in simp_all)
  then show ?thesis
    unfolding runOperator_def runs_andThen runs_def [of "setUp _ _"] log(1) prod.case
    by (cases r) (simp_all add: before [OF log(2)] del: if_image_distrib)
qed

end
