(* ===== verification/GoHeap.thy ===== *)
theory GoHeap
  imports Prelude
begin

text \<open>
  Go values that share memory. The rest of the development models the API objects as values; the
  generated functions of \<^verbatim>\<open>api/v1alpha1/zz_generated.deepcopy.go\<close> exist because they are not: a pointer,
  a slice and a map of an object lead to memory that a plain assignment of the object shares.

  \<^item> A heap is a list of cells; an address is a position. A cell holds a variable, the backing
    array of slices, or a map.
  \<^item> \<open>gotype\<close> is the type of a value. \<open>deep P ty h v\<close> reads the value \<open>v\<close> of type \<open>ty\<close> through every
    pointer, slice and map; it is \<open>None\<close> where \<open>v\<close> is not of the type, dangles, or leads to an
    address that does not satisfy \<open>P\<close>.
  \<^item> The statements of which a generated function consists are \<open>copier\<close>s: a plain assignment, a copy
    behind a pointer, of a slice, of a map, and a list of such statements on the fields of a
    struct.
  \<^item> \<open>copies ty c\<close> is the contract of a copy: it does not panic, leaves every cell of the old heap as
    it was, and gives a value that reads the same and leads to new cells only. Every kind of
    statement meets it, given its parts do (\<open>copies_rules\<close>).
\<close>

section \<open>Values, types and the heap\<close>

datatype val =
    BoolV bool
  | NumV int
  | StrV string
  | StructV "(string \<times> val) list"
  | PtrV "nat option"
  | SliceV "(nat \<times> nat \<times> nat) option"
  | MapV "nat option"

text \<open>
  A slice is the address of its backing array, the offset of its first element and its length; the
  capacity plays no part in a copy. \<open>None\<close> is \<open>nil\<close> throughout. The integer types are one type, for
  a copy does not compute with them; a named string type is a string.
\<close>

datatype cell = Var val | Array "val list" | Table "(string \<times> val) list"

type_synonym heap = "cell list"

datatype gotype =
    BoolT
  | NumT
  | StrT
  | StructT "(string \<times> gotype) list"
  | PtrT gotype
  | SliceT gotype
  | MapT gotype

fun zero :: "gotype \<Rightarrow> val" where
  "zero BoolT = BoolV False"
| "zero NumT = NumV 0"
| "zero StrT = StrV []"
| "zero (StructT fs) = StructV (map (\<lambda>f. (fst f, zero (snd f))) fs)"
| "zero (PtrT ty) = PtrV None"
| "zero (SliceT ty) = SliceV None"
| "zero (MapT ty) = MapV None"

definition cellAt :: "heap \<Rightarrow> nat \<Rightarrow> cell option" where
  "cellAt h a = (if a < length h then Some (h ! a) else None)"

section \<open>Reading a value through the heap\<close>

datatype tree =
    Atom val
  | Fields "(string \<times> tree) list"
  | Pointee "tree option"
  | Items "tree list option"
  | Entries "(string \<times> tree) list option"

text \<open>Every element of a list, where each can be read.\<close>

fun those_of :: "('a \<Rightarrow> 'b option) \<Rightarrow> 'a list \<Rightarrow> 'b list option" where
  "those_of f [] = Some []"
| "those_of f (x # xs) = (case f x of None \<Rightarrow> None | Some y \<Rightarrow> map_option ((#) y) (those_of f xs))"

lemma those_of_cong [fundef_cong]:
  "xs = ys \<Longrightarrow> (\<And>x. x \<in> set ys \<Longrightarrow> f x = g x) \<Longrightarrow> those_of f xs = those_of g ys"
  by (induction xs arbitrary: ys) (auto split: option.split)

definition keyed :: "('v \<Rightarrow> 't option) \<Rightarrow> string \<times> 'v \<Rightarrow> (string \<times> 't) option" where
  "keyed f e = map_option (Pair (fst e)) (f (snd e))"

lemma keyed_cong [fundef_cong]: "e = e' \<Longrightarrow> f (snd e') = g (snd e') \<Longrightarrow> keyed f e = keyed g e'"
  by (simp add: keyed_def)

function deep :: "(nat \<Rightarrow> bool) \<Rightarrow> gotype \<Rightarrow> heap \<Rightarrow> val \<Rightarrow> tree option" where
  "deep P BoolT h v = (case v of BoolV b \<Rightarrow> Some (Atom v) | _ \<Rightarrow> None)"
| "deep P NumT h v = (case v of NumV n \<Rightarrow> Some (Atom v) | _ \<Rightarrow> None)"
| "deep P StrT h v = (case v of StrV s \<Rightarrow> Some (Atom v) | _ \<Rightarrow> None)"
| "deep P (StructT fs) h v = (case v of
      StructV vs \<Rightarrow> if map fst vs = map fst fs
        then map_option Fields (those_of (\<lambda>f. case map_of vs (fst f) of
            None \<Rightarrow> None
          | Some w \<Rightarrow> map_option (Pair (fst f)) (deep P (snd f) h w)) fs)
        else None
    | _ \<Rightarrow> None)"
| "deep P (PtrT ty) h v = (case v of
      PtrV None \<Rightarrow> Some (Pointee None)
    | PtrV (Some a) \<Rightarrow> (case cellAt h a of
          Some (Var w) \<Rightarrow> if P a then map_option (\<lambda>t. Pointee (Some t)) (deep P ty h w) else None
        | _ \<Rightarrow> None)
    | _ \<Rightarrow> None)"
| "deep P (SliceT ty) h v = (case v of
      SliceV None \<Rightarrow> Some (Items None)
    | SliceV (Some (a, i, n)) \<Rightarrow> (case cellAt h a of
          Some (Array xs) \<Rightarrow> if P a \<and> i + n \<le> length xs
            then map_option (\<lambda>ts. Items (Some ts)) (those_of (deep P ty h) (take n (drop i xs)))
            else None
        | _ \<Rightarrow> None)
    | _ \<Rightarrow> None)"
| "deep P (MapT ty) h v = (case v of
      MapV None \<Rightarrow> Some (Entries None)
    | MapV (Some a) \<Rightarrow> (case cellAt h a of
          Some (Table es) \<Rightarrow> if P a \<and> distinct (map fst es)
            then map_option (\<lambda>ts. Entries (Some ts)) (those_of (keyed (deep P ty h)) es)
            else None
        | _ \<Rightarrow> None)
    | _ \<Rightarrow> None)"
  by pat_completeness auto

lemma size_field: "(f, ty) \<in> set fs \<Longrightarrow> size ty < size_list (size_prod (\<lambda>_. 0) size) fs"
  by (induction fs) auto

termination deep
  by (relation "measure (\<lambda>(P, ty, h, v). size ty)") (auto simp: less_Suc_eq dest: size_field)

text \<open>A type without pointers, slices and maps.\<close>

fun flat :: "gotype \<Rightarrow> bool" where
  "flat (StructT fs) = list_all (\<lambda>f. flat (snd f)) fs"
| "flat (PtrT ty) = False"
| "flat (SliceT ty) = False"
| "flat (MapT ty) = False"
| "flat ty = True"

section \<open>The statements of a generated function\<close>

type_synonym copier = "val \<Rightarrow> (heap, val) prog"

text \<open>
  Allocating a cell, reading and assigning a variable, an element of a slice, an entry of a map.
  A value of another shape than the type says cannot occur in Go; it panics here, and the contract
  below shows that it does not.
\<close>

definition allocate :: "cell \<Rightarrow> (heap, nat) prog" where
  "allocate c h = (Returns (length h), h @ [c])"

definition load :: "nat \<Rightarrow> (heap, val) prog" where
  "load a = reading (\<lambda>h. case cellAt h a of Some (Var v) \<Rightarrow> ret v | _ \<Rightarrow> panic)"

definition assign :: "nat \<Rightarrow> val \<Rightarrow> (heap, unit) prog" where
  "assign a v = modify (\<lambda>h. h[a := Var v])"

fun elemAt :: "nat \<Rightarrow> nat \<Rightarrow> nat \<Rightarrow> (heap, val) prog" where
  "elemAt a i k = reading (\<lambda>h. case cellAt h a of
      Some (Array xs) \<Rightarrow> if i + k < length xs then ret (xs ! (i + k)) else panic
    | _ \<Rightarrow> panic)"

fun assignElem :: "nat \<Rightarrow> nat \<Rightarrow> val \<Rightarrow> (heap, unit) prog" where
  "assignElem b k v = reading (\<lambda>h. case cellAt h b of
      Some (Array xs) \<Rightarrow> if k < length xs then modify (\<lambda>h. h[b := Array (xs[k := v])]) else panic
    | _ \<Rightarrow> panic)"

fun put :: "string \<Rightarrow> val \<Rightarrow> (string \<times> val) list \<Rightarrow> (string \<times> val) list" where
  "put k v [] = [(k, v)]"
| "put k v (e # es) = (if fst e = k then (k, v) # es else e # put k v es)"

fun assignEntry :: "nat \<Rightarrow> string \<Rightarrow> val \<Rightarrow> (heap, unit) prog" where
  "assignEntry b k v = reading (\<lambda>h. case cellAt h b of
      Some (Table es) \<Rightarrow> modify (\<lambda>h. h[b := Table (put k v es)])
    | _ \<Rightarrow> panic)"

text \<open>\<^verbatim>\<open>out.F = in.F\<close>, \<^verbatim>\<open>**out = **in\<close>, \<^verbatim>\<open>(*out)[key] = val\<close>, \<^verbatim>\<open>copy(*out, *in)\<close>: the value itself.\<close>

definition plain :: copier where
  "plain v = ret v"

text \<open>
  \<^verbatim>\<open>if in.F != nil { *out = new(T); (*in).DeepCopyInto(*out) }\<close>, and the body of every \<^verbatim>\<open>DeepCopy()\<close>,
  which returns \<^verbatim>\<open>nil\<close> for \<^verbatim>\<open>nil\<close>.
\<close>

definition copyPtr :: "gotype \<Rightarrow> copier \<Rightarrow> copier" where
  "copyPtr ty c v = (case v of
      PtrV None \<Rightarrow> ret (PtrV None)
    | PtrV (Some a) \<Rightarrow>
        andThen (allocate (Var (zero ty))) (\<lambda>b.
        andThen (load a) (\<lambda>x.
        andThen (c x) (\<lambda>y.
        andThen (assign b y) (\<lambda>_.
        ret (PtrV (Some b))))))
    | _ \<Rightarrow> panic)"

text \<open>
  \<^verbatim>\<open>if in.F != nil { *out = make([]T, len(*in)); for i := range *in {(*in)[i].DeepCopyInto(&(*out)[i])} }\<close>.
\<close>

fun copyElems :: "copier \<Rightarrow> nat \<Rightarrow> nat \<Rightarrow> nat \<Rightarrow> nat list \<Rightarrow> (heap, unit) prog" where
  "copyElems c a i b [] = ret ()"
| "copyElems c a i b (k # ks) =
     andThen (elemAt a i k) (\<lambda>x.
     andThen (c x) (\<lambda>y.
     andThen (assignElem b k y) (\<lambda>_.
     copyElems c a i b ks)))"

definition copySlice :: "gotype \<Rightarrow> copier \<Rightarrow> copier" where
  "copySlice ty c v = (case v of
      SliceV None \<Rightarrow> ret (SliceV None)
    | SliceV (Some (a, i, n)) \<Rightarrow>
        andThen (allocate (Array (replicate n (zero ty)))) (\<lambda>b.
        andThen (copyElems c a i b [0..<n]) (\<lambda>_.
        ret (SliceV (Some (b, 0, n)))))
    | _ \<Rightarrow> panic)"

text \<open>
  \<^verbatim>\<open>if in.F != nil { *out = make(map[string]T, len(*in)); for key, val := range *in {(*out)[key] = ...} }\<close>.
  The order of the entries is the order of the iteration, which Go leaves open.
\<close>

fun copyEntries :: "copier \<Rightarrow> nat \<Rightarrow> (string \<times> val) list \<Rightarrow> (heap, unit) prog" where
  "copyEntries c b [] = ret ()"
| "copyEntries c b (e # es) =
     andThen (c (snd e)) (\<lambda>y.
     andThen (assignEntry b (fst e) y) (\<lambda>_.
     copyEntries c b es))"

definition copyMap :: "copier \<Rightarrow> copier" where
  "copyMap c v = (case v of
      MapV None \<Rightarrow> ret (MapV None)
    | MapV (Some a) \<Rightarrow> reading (\<lambda>h. case cellAt h a of
          Some (Table es) \<Rightarrow>
            andThen (allocate (Table [])) (\<lambda>b.
            andThen (copyEntries c b es) (\<lambda>_.
            ret (MapV (Some b))))
        | _ \<Rightarrow> panic)
    | _ \<Rightarrow> panic)"

text \<open>\<^verbatim>\<open>*val.DeepCopy()\<close>: the copy of the loop variable \<^verbatim>\<open>val\<close>, read through the pointer to it.\<close>

definition starDeepCopy :: "copier \<Rightarrow> copier" where
  "starDeepCopy dc x =
     andThen (allocate (Var x)) (\<lambda>a.
     andThen (dc (PtrV (Some a))) (\<lambda>p. case p of PtrV (Some b) \<Rightarrow> load b | _ \<Rightarrow> panic))"

text \<open>
  A function \<^verbatim>\<open>DeepCopyInto\<close>: \<^verbatim>\<open>*out = *in\<close>, then one statement for each field that needs one. The
  value is what is in \<^verbatim>\<open>*in\<close>, the result what is in \<^verbatim>\<open>*out\<close> at the end.
\<close>

definition setField :: "string \<Rightarrow> val \<Rightarrow> (string \<times> val) list \<Rightarrow> (string \<times> val) list" where
  "setField f w = map (\<lambda>e. if fst e = f then (f, w) else e)"

fun copyFields :: "(string \<times> copier) list \<Rightarrow> (string \<times> val) list \<Rightarrow> (string \<times> val) list
    \<Rightarrow> (heap, (string \<times> val) list) prog" where
  "copyFields [] inn out = ret out"
| "copyFields (s # ss) inn out = deref (map_of inn (fst s)) (\<lambda>x.
     andThen (snd s x) (\<lambda>y. copyFields ss inn (setField (fst s) y out)))"

definition into :: "(string \<times> copier) list \<Rightarrow> copier" where
  "into ss v = (case v of
      StructV fs \<Rightarrow> andThen (copyFields ss fs fs) (\<lambda>out. ret (StructV out))
    | _ \<Rightarrow> panic)"

text \<open>
  \<^verbatim>\<open>DeepCopyObject()\<close> returns an interface: its nil is not a pointer, so the test
  \<^verbatim>\<open>if c := in.DeepCopy(); c != nil\<close> matters. \<open>None\<close> is the nil interface.
\<close>

definition asObject :: "copier \<Rightarrow> val \<Rightarrow> (heap, val option) prog" where
  "asObject dc v = andThen (dc v) (\<lambda>c. if c \<noteq> PtrV None then ret (Some c) else ret None)"

section \<open>Reading a value that other cells do not reach\<close>

text \<open>
  \<open>kept A h h'\<close>: the heap has grown, and the cells that satisfy \<open>A\<close> are as they were. What a value
  reads as depends only on the cells it leads to.
\<close>

definition kept :: "(nat \<Rightarrow> bool) \<Rightarrow> heap \<Rightarrow> heap \<Rightarrow> bool" where
  "kept A h h' \<longleftrightarrow> length h \<le> length h' \<and> (\<forall>a < length h. A a \<longrightarrow> h' ! a = h ! a)"

lemma kept_refl [simp]: "kept A h h"
  by (simp add: kept_def)

lemma kept_trans: "kept A h h' \<Longrightarrow> kept A h' h'' \<Longrightarrow> kept A h h''"
  by (auto simp: kept_def)

lemma kept_weaken: "kept A h h' \<Longrightarrow> (\<And>a. B a \<Longrightarrow> A a) \<Longrightarrow> kept B h h'"
  by (auto simp: kept_def)

lemma kept_append [simp]: "kept A h (h @ k)"
  by (simp add: kept_def nth_append)

lemma kept_update: "\<not> A b \<Longrightarrow> kept A h (h[b := c])"
  unfolding kept_def by (metis length_list_update nth_list_update_neq order_refl)

lemma kept_cellAt: "kept A h h' \<Longrightarrow> A a \<Longrightarrow> cellAt h a = Some c \<Longrightarrow> cellAt h' a = Some c"
  by (auto simp: kept_def cellAt_def split: if_splits)

lemma kept_length: "kept A h h' \<Longrightarrow> length h \<le> length h'"
  by (simp add: kept_def)

lemma cellAt_append [simp]: "cellAt (h @ [c]) (length h) = Some c"
  by (simp add: cellAt_def)

lemma cellAt_update: "cellAt (h[b := c]) a = (if a = b \<and> b < length h then Some c else cellAt h a)"
  by (simp add: cellAt_def nth_list_update)

lemma cellAt_length: "cellAt h a = Some c \<Longrightarrow> a < length h"
  by (simp add: cellAt_def split: if_splits)

lemma those_of_mono:
  "those_of f xs = Some ys \<Longrightarrow> (\<And>x y. x \<in> set xs \<Longrightarrow> f x = Some y \<Longrightarrow> g x = Some y) \<Longrightarrow> those_of g xs = Some ys"
  by (induction xs arbitrary: ys) (auto split: option.splits)

lemma those_of_all: "those_of f xs = Some ys \<Longrightarrow> x \<in> set xs \<Longrightarrow> \<exists>y. f x = Some y"
  by (induction xs arbitrary: ys) (auto split: option.splits)

lemma those_of_append:
  "those_of f (xs @ ys) = (case those_of f xs of None \<Rightarrow> None | Some us \<Rightarrow> map_option ((@) us) (those_of f ys))"
  by (induction xs) (cases "those_of f ys"; auto split: option.split)+

lemma those_of_length: "those_of f xs = Some ys \<Longrightarrow> length ys = length xs"
  by (induction xs arbitrary: ys) (auto split: option.splits)

lemma keyed_mono: "keyed f e = Some y \<Longrightarrow> (\<And>t. f (snd e) = Some t \<Longrightarrow> g (snd e) = Some t) \<Longrightarrow> keyed g e = Some y"
  by (auto simp: keyed_def)

lemma deep_StructT_iff:
  "deep P (StructT fs) h v = Some t \<longleftrightarrow> (\<exists>vs ts. v = StructV vs \<and> map fst vs = map fst fs \<and> t = Fields ts \<and>
     those_of (\<lambda>f. case map_of vs (fst f) of None \<Rightarrow> None
       | Some w \<Rightarrow> map_option (Pair (fst f)) (deep P (snd f) h w)) fs = Some ts)"
  by (auto split: val.splits)

lemma deep_PtrT_iff:
  "deep P (PtrT ty) h v = Some t \<longleftrightarrow> v = PtrV None \<and> t = Pointee None \<or>
     (\<exists>a w u. v = PtrV (Some a) \<and> cellAt h a = Some (Var w) \<and> P a \<and> deep P ty h w = Some u \<and> t = Pointee (Some u))"
  by (auto split: val.splits option.splits cell.splits if_splits)

lemma deep_SliceT_iff:
  "deep P (SliceT ty) h v = Some t \<longleftrightarrow> v = SliceV None \<and> t = Items None \<or>
     (\<exists>a i n xs ts. v = SliceV (Some (a, i, n)) \<and> cellAt h a = Some (Array xs) \<and> P a \<and> i + n \<le> length xs \<and>
        those_of (deep P ty h) (take n (drop i xs)) = Some ts \<and> t = Items (Some ts))"
  by (auto split: val.splits option.splits cell.splits if_splits)

lemma deep_MapT_iff:
  "deep P (MapT ty) h v = Some t \<longleftrightarrow> v = MapV None \<and> t = Entries None \<or>
     (\<exists>a es ts. v = MapV (Some a) \<and> cellAt h a = Some (Table es) \<and> P a \<and> distinct (map fst es) \<and>
        those_of (keyed (deep P ty h)) es = Some ts \<and> t = Entries (Some ts))"
  by (auto split: val.splits option.splits cell.splits if_splits)

lemmas deep_iffs = deep_StructT_iff deep_PtrT_iff deep_SliceT_iff deep_MapT_iff

declare deep.simps(4-7) [simp del]

lemma deep_frame:
  assumes kept: "kept P h h'" and sub: "\<And>a. P a \<Longrightarrow> a < length h \<Longrightarrow> Q a"
  shows "deep P ty h v = Some t \<Longrightarrow> deep Q ty h' v = Some t"
proof (induction ty arbitrary: v t)
  case (StructT fs)
  then show ?case
    unfolding deep_StructT_iff by (fastforce elim!: those_of_mono split: option.splits)
next
  case (PtrT ty)
  then show ?case
    unfolding deep_PtrT_iff by (metis kept sub kept_cellAt cellAt_length)
next
  case (SliceT ty)
  from SliceT.prems consider "v = SliceV None" "t = Items None"
    | a i n xs ts where "v = SliceV (Some (a, i, n))" "cellAt h a = Some (Array xs)" "P a" "i + n \<le> length xs"
      "those_of (deep P ty h) (take n (drop i xs)) = Some ts" "t = Items (Some ts)"
    unfolding deep_SliceT_iff by blast
  then show ?case
  proof cases
    case 2
    then show ?thesis
      using SliceT.IH kept_cellAt [OF kept] cellAt_length sub unfolding deep_SliceT_iff by (blast intro: those_of_mono)
  qed (simp add: deep_SliceT_iff)
next
  case (MapT ty)
  from MapT.prems consider "v = MapV None" "t = Entries None"
    | a es ts where "v = MapV (Some a)" "cellAt h a = Some (Table es)" "P a" "distinct (map fst es)"
      "those_of (keyed (deep P ty h)) es = Some ts" "t = Entries (Some ts)"
    unfolding deep_MapT_iff by blast
  then show ?case
  proof cases
    case 2
    then show ?thesis
      using MapT.IH kept_cellAt [OF kept] cellAt_length sub unfolding deep_MapT_iff
      by (blast intro: those_of_mono keyed_mono)
  qed (simp add: deep_MapT_iff)
qed (auto split: val.splits)

section \<open>What a copy promises\<close>

abbreviation anywhere :: "nat \<Rightarrow> bool" where
  "anywhere \<equiv> \<lambda>_. True"

definition copies :: "gotype \<Rightarrow> copier \<Rightarrow> bool" where
  "copies ty c \<longleftrightarrow> (\<forall>h v t. deep anywhere ty h v = Some t \<longrightarrow>
     runs (c v) h (\<lambda>r h'. kept anywhere h h' \<and>
       (\<exists>w. r = Returns w \<and> deep (\<lambda>a. length h \<le> a) ty h' w = Some t)))"

named_theorems copies_rules "the contract of a copy, for every kind of statement"

lemma copiesD:
  assumes "copies ty c" and "deep anywhere ty h v = Some t"
  obtains w h' where "c v h = (Returns w, h')" and "kept anywhere h h'"
    and "deep (\<lambda>a. length h \<le> a) ty h' w = Some t"
proof (cases "c v h")
  case (Pair r h')
  with assms have "kept anywhere h h' \<and> (\<exists>w. r = Returns w \<and> deep (\<lambda>a. length h \<le> a) ty h' w = Some t)"
    unfolding copies_def runs_def by fastforce
  with Pair that show ?thesis by blast
qed

lemma copiesI:
  assumes "\<And>h v t. deep anywhere ty h v = Some t \<Longrightarrow> \<exists>w h'. c v h = (Returns w, h') \<and> kept anywhere h h' \<and>
    deep (\<lambda>a. length h \<le> a) ty h' w = Some t"
  shows "copies ty c"
  unfolding copies_def runs_def by (auto dest!: assms)

lemma runs_copies:
  assumes "copies ty c" and "deep P ty h v = Some t"
    and "\<And>w h'. kept anywhere h h' \<Longrightarrow> deep (\<lambda>a. length h \<le> a) ty h' w = Some t \<Longrightarrow> Q (Returns w) h'"
  shows "runs (c v) h Q"
proof -
  have "deep anywhere ty h v = Some t"
    by (rule deep_frame [OF _ _ assms(2)]) simp_all
  with assms(1) obtain w h' where "c v h = (Returns w, h')" "kept anywhere h h'"
    "deep (\<lambda>a. length h \<le> a) ty h' w = Some t" by (rule copiesD)
  then show ?thesis by (simp add: runs_def assms(3))
qed

lemma deep_flat: "flat ty \<Longrightarrow> deep P ty h v = deep Q ty h' v"
proof (induction ty arbitrary: v)
  case (StructT fs)
  have same: "deep P (snd f) h w = deep Q (snd f) h' w" if f: "f \<in> set fs" for f w
    using StructT.IH [OF f, of "snd f"] StructT.prems f by (simp add: list_all_iff snds.simps)
  have "those_of (\<lambda>f. case map_of vs (fst f) of None \<Rightarrow> None | Some w \<Rightarrow> map_option (Pair (fst f)) (deep P (snd f) h w)) fs =
      those_of (\<lambda>f. case map_of vs (fst f) of None \<Rightarrow> None | Some w \<Rightarrow> map_option (Pair (fst f)) (deep Q (snd f) h' w)) fs"
    for vs
    by (rule those_of_cong [OF refl]) (simp add: same split: option.split)
  then show ?case
    by (simp add: deep.simps(4) split: val.split)
qed simp_all

lemma copies_plain [copies_rules]: "flat ty \<Longrightarrow> copies ty plain"
proof (rule copiesI)
  fix h v t assume "flat ty" "deep anywhere ty h v = Some t"
  then show "\<exists>w h'. plain v h = (Returns w, h') \<and> kept anywhere h h' \<and> deep (\<lambda>a. length h \<le> a) ty h' w = Some t"
    using deep_flat [of ty "\<lambda>a. length h \<le> a" h v anywhere h] by (simp add: plain_def ret_def)
qed

text \<open>The primitive steps under \<open>runs\<close>.\<close>

lemma runs_allocate [runs_simps]: "runs (allocate c) h Q = Q (Returns (length h)) (h @ [c])"
  by (simp add: runs_def allocate_def)

lemma runs_load: "cellAt h a = Some (Var v) \<Longrightarrow> runs (load a) h Q = Q (Returns v) h"
  by (simp add: load_def runs_simps)

lemma runs_assign [runs_simps]: "runs (assign a v) h Q = Q (Returns ()) (h[a := Var v])"
  by (simp add: assign_def runs_simps)

lemma deep_grown: "deep P ty h v = Some t \<Longrightarrow> kept anywhere h h' \<Longrightarrow> deep P ty h' v = Some t"
  by (rule deep_frame) (auto elim: kept_weaken)

lemma copies_ptr [copies_rules]:
  assumes c: "copies ty c"
  shows "copies (PtrT ty) (copyPtr ty c)"
  unfolding copies_def
proof (intro allI impI)
  fix h v t assume "deep anywhere (PtrT ty) h v = Some t"
  then consider "v = PtrV None" "t = Pointee None"
    | a w u where "v = PtrV (Some a)" "cellAt h a = Some (Var w)" "deep anywhere ty h w = Some u" "t = Pointee (Some u)"
    by (auto simp: deep_PtrT_iff)
  then show "runs (copyPtr ty c v) h (\<lambda>r h'. kept anywhere h h' \<and>
      (\<exists>w. r = Returns w \<and> deep (\<lambda>a. length h \<le> a) (PtrT ty) h' w = Some t))"
  proof cases
    case 2
    define h1 where "h1 = h @ [Var (zero ty)]"
    have "cellAt h1 a = Some (Var w)" "deep anywhere ty h1 w = Some u" "kept anywhere h h1"
      using 2 by (auto simp: h1_def intro: kept_cellAt [of anywhere h] deep_grown)
    moreover have "kept anywhere h (h2[length h := Var y]) \<and>
        deep (\<lambda>a. length h \<le> a) (PtrT ty) (h2[length h := Var y]) (PtrV (Some (length h))) = Some t"
      if k: "kept anywhere h1 h2" and d: "deep (\<lambda>a. length h1 \<le> a) ty h2 y = Some u" for y h2
    proof -
      have "length h < length h2" using kept_length [OF k] by (simp add: h1_def)
      moreover have "kept (\<lambda>a. length h1 \<le> a) h2 (h2[length h := Var y])" by (rule kept_update) (simp add: h1_def)
      then have "deep (\<lambda>a. length h \<le> a) ty (h2[length h := Var y]) y = Some u"
        by (rule deep_frame [OF _ _ d]) (simp add: h1_def)
      ultimately show ?thesis
        using k \<open>kept anywhere h h1\<close> 2
        by (auto simp: deep_PtrT_iff cellAt_update kept_def nth_list_update h1_def)
    qed
    ultimately show ?thesis
      using 2 by (simp add: copyPtr_def runs_simps runs_load h1_def [symmetric] runs_copies [OF c])
  qed (simp add: copyPtr_def runs_simps deep_PtrT_iff)
qed

text \<open>
  The loop over a slice: the elements from \<open>k\<close> on are still to be copied, those before it are. The
  loop writes into the new array only.
\<close>

lemma runs_elemAt:
  "cellAt h a = Some (Array xs) \<Longrightarrow> i + k < length xs \<Longrightarrow> runs (elemAt a i k) h Q = Q (Returns (xs ! (i + k))) h"
  by (simp add: runs_simps)

lemma runs_assignElem:
  "cellAt h b = Some (Array xs) \<Longrightarrow> k < length xs \<Longrightarrow>
     runs (assignElem b k v) h Q = Q (Returns ()) (h[b := Array (xs[k := v])])"
  by (simp add: runs_simps)

declare elemAt.simps [simp del] assignElem.simps [simp del]

lemma those_of_take_Suc:
  assumes "those_of f (take k ys) = Some ts" and "k < length ys" and "f w = Some u"
  shows "those_of f (take (Suc k) (ys[k := w])) = Some (ts @ [u])"
  using assms by (simp add: take_Suc_conv_app_nth those_of_append)

lemma kept_step:
  assumes "kept anywhere h h1" and "\<not> P b"
  shows "kept P h (h1[b := c])"
proof (rule kept_trans)
  show "kept P h h1" using assms(1) by (simp add: kept_def)
  show "kept P h1 (h1[b := c])" using assms(2) by (rule kept_update)
qed

lemma deep_step:
  "kept anywhere h h1 \<Longrightarrow> \<not> P b \<Longrightarrow> deep P ty h v = Some t \<Longrightarrow> deep P ty (h1[b := c]) v = Some t"
  using deep_frame [of P h "h1[b := c]" P] kept_step [of h h1 P] by blast

lemma those_of_deep_step:
  "kept anywhere h h1 \<Longrightarrow> \<not> P b \<Longrightarrow> those_of (deep P ty h) vs = Some ts \<Longrightarrow>
     those_of (deep P ty (h1[b := c])) vs = Some ts"
  using deep_step [of h h1 P] those_of_mono [of "deep P ty h" vs ts "deep P ty (h1[b := c])"] by blast

lemma runs_copyElems:
  assumes c: "copies ty c"
  shows "cellAt h a = Some (Array xs) \<Longrightarrow> cellAt h b = Some (Array ys) \<Longrightarrow> a < b \<Longrightarrow> k \<le> n \<Longrightarrow> length ys = n \<Longrightarrow>
    i + n \<le> length xs \<Longrightarrow> those_of (deep (\<lambda>x. x < b) ty h) (drop k (take n (drop i xs))) = Some us \<Longrightarrow>
    those_of (deep (\<lambda>x. b < x) ty h) (take k ys) = Some ts \<Longrightarrow>
    runs (copyElems c a i b [k..<n]) h (\<lambda>r h'. r = Returns () \<and> kept (\<lambda>x. x \<noteq> b) h h' \<and>
      (\<exists>zs. cellAt h' b = Some (Array zs) \<and> length zs = n \<and>
        those_of (deep (\<lambda>x. b < x) ty h') zs = Some (ts @ us)))"
proof (induction us arbitrary: k h ys ts)
  case Nil
  then have "drop k (take n (drop i xs)) = []" using those_of_length [OF Nil(7)] by simp
  then have "k = n" using Nil.prems by simp
  then show ?case using Nil.prems by (simp add: runs_simps)
next
  case (Cons u us)
  from those_of_length [OF Cons.prems(7)] have kn: "k < n" using Cons.prems(6) by simp
  let ?x = "xs ! (i + k)"
  have split: "drop k (take n (drop i xs)) = ?x # drop (Suc k) (take n (drop i xs))"
    using kn Cons.prems(6) by (subst Cons_nth_drop_Suc [symmetric]) simp_all
  then have x: "deep (\<lambda>x. x < b) ty h ?x = Some u"
    and rest: "those_of (deep (\<lambda>x. x < b) ty h) (drop (Suc k) (take n (drop i xs))) = Some us"
    using Cons.prems(7) by (auto split: option.splits)
  have bh: "b < length h" using Cons.prems(2) by (rule cellAt_length)
  have "runs (copyElems c a i b [Suc k..<n]) h2 (\<lambda>r h'. r = Returns () \<and> kept (\<lambda>x. x \<noteq> b) h h' \<and>
      (\<exists>zs. cellAt h' b = Some (Array zs) \<and> length zs = n \<and> those_of (deep (\<lambda>x. b < x) ty h') zs = Some (ts @ u # us)))"
    if k1: "kept anywhere h h1" and y: "deep (\<lambda>x. length h \<le> x) ty h1 y = Some u"
      and h2: "h2 = h1[b := Array (ys[k := y])]" for h1 y h2
  proof -
    have b1: "b < length h1" using bh kept_length [OF k1] by simp
    have kept2: "kept (\<lambda>x. x \<noteq> b) h h2"
      using kept_step [of h h1 "\<lambda>x. x \<noteq> b" b] k1 h2 by simp
    have "deep (\<lambda>x. b < x) ty h1 y = Some u"
      by (rule deep_frame [OF _ _ y]) (use bh in simp_all)
    then have y2: "deep (\<lambda>x. b < x) ty h2 y = Some u"
      using deep_step [of h1 h1 "\<lambda>x. b < x" b] h2 by simp
    have "those_of (deep (\<lambda>x. b < x) ty h2) (take k ys) = Some ts"
      using those_of_deep_step [of h h1 "\<lambda>x. b < x" b, OF k1 _ Cons.prems(8)] h2 by simp
    then have ts2: "those_of (deep (\<lambda>x. b < x) ty h2) (take (Suc k) (ys[k := y])) = Some (ts @ [u])"
      using y2 kn Cons.prems(5) by (intro those_of_take_Suc) simp_all
    have "runs (copyElems c a i b [Suc k..<n]) h2 (\<lambda>r h'. r = Returns () \<and> kept (\<lambda>x. x \<noteq> b) h2 h' \<and>
        (\<exists>zs. cellAt h' b = Some (Array zs) \<and> length zs = n \<and>
          those_of (deep (\<lambda>x. b < x) ty h') zs = Some ((ts @ [u]) @ us)))"
    proof (rule Cons.IH [OF _ _ Cons.prems(3) _ _ Cons.prems(6) _ ts2])
      show "cellAt h2 a = Some (Array xs)"
        using Cons.prems(1,3) by (auto intro: kept_cellAt [OF kept2])
      show "cellAt h2 b = Some (Array (ys[k := y]))" by (simp add: h2 cellAt_update b1)
      show "those_of (deep (\<lambda>x. x < b) ty h2) (drop (Suc k) (take n (drop i xs))) = Some us"
        using those_of_deep_step [of h h1 "\<lambda>x. x < b" b, OF k1 _ rest] h2 by simp
    qed (use kn Cons.prems(5) in simp_all)
    then show ?thesis by (rule runs_mono) (use kept2 in \<open>auto elim: kept_trans\<close>)
  qed
  moreover have "cellAt h1 b = Some (Array ys)" if "kept anywhere h h1" for h1
    using kept_cellAt [OF that _ Cons.prems(2)] by simp
  ultimately show ?case
    using Cons.prems kn
    by (simp add: upt_conv_Cons runs_simps(6) runs_elemAt runs_assignElem runs_copies [OF c x])
qed

lemma copies_slice [copies_rules]:
  assumes c: "copies ty c"
  shows "copies (SliceT ty) (copySlice ty c)"
  unfolding copies_def
proof (intro allI impI)
  fix h v t assume "deep anywhere (SliceT ty) h v = Some t"
  then consider "v = SliceV None" "t = Items None"
    | a i n xs ts where "v = SliceV (Some (a, i, n))" "cellAt h a = Some (Array xs)" "i + n \<le> length xs"
      "those_of (deep anywhere ty h) (take n (drop i xs)) = Some ts" "t = Items (Some ts)"
    by (auto simp: deep_SliceT_iff)
  then show "runs (copySlice ty c v) h (\<lambda>r h'. kept anywhere h h' \<and>
      (\<exists>w. r = Returns w \<and> deep (\<lambda>a. length h \<le> a) (SliceT ty) h' w = Some t))"
  proof cases
    case 2
    define b where "b = length h"
    define h1 where "h1 = h @ [Array (replicate n (zero ty))]"
    have k1: "kept anywhere h h1" by (simp add: h1_def)
    have ab: "a < b" using 2(2) by (simp add: b_def cellAt_length)
    have "deep (\<lambda>x. x < b) ty h1 x = Some u" if "deep anywhere ty h x = Some u" for x u
      by (rule deep_frame [OF k1 _ that]) (simp add: b_def)
    then have src: "those_of (deep (\<lambda>x. x < b) ty h1) (drop 0 (take n (drop i xs))) = Some ts"
      using those_of_mono [OF 2(4)] by simp
    have "runs (copyElems c a i b [0..<n]) h1 (\<lambda>r h'. r = Returns () \<and> kept (\<lambda>x. x \<noteq> b) h1 h' \<and>
        (\<exists>zs. cellAt h' b = Some (Array zs) \<and> length zs = n \<and> those_of (deep (\<lambda>x. b < x) ty h') zs = Some ([] @ ts)))"
    proof (rule runs_copyElems [OF c _ _ ab _ _ 2(3) src])
      show "cellAt h1 a = Some (Array xs)" by (rule kept_cellAt [OF k1 _ 2(2)]) simp
      show "cellAt h1 b = Some (Array (replicate n (zero ty)))" by (simp add: h1_def b_def)
    qed simp_all
    then have "runs (copyElems c a i b [0..<n]) h1 (\<lambda>r h'. r = Returns () \<and> kept anywhere h h' \<and>
        deep (\<lambda>a. b \<le> a) (SliceT ty) h' (SliceV (Some (b, 0, n))) = Some t)"
    proof (rule runs_mono)
      fix r h' assume *: "r = Returns () \<and> kept (\<lambda>x. x \<noteq> b) h1 h' \<and>
        (\<exists>zs. cellAt h' b = Some (Array zs) \<and> length zs = n \<and> those_of (deep (\<lambda>x. b < x) ty h') zs = Some ([] @ ts))"
      then obtain zs where zs: "cellAt h' b = Some (Array zs)" "length zs = n"
        "those_of (deep (\<lambda>x. b < x) ty h') zs = Some ts" by auto
      have "those_of (deep (\<lambda>x. b \<le> x) ty h') zs = Some ts"
        by (rule those_of_mono [OF zs(3)]) (rule deep_frame [of "\<lambda>x. b < x" h' h' "\<lambda>x. b \<le> x"], simp_all)
      moreover have "kept anywhere h h'"
        using * by (auto simp: kept_def h1_def b_def nth_append)
      ultimately show "r = Returns () \<and> kept anywhere h h' \<and>
          deep (\<lambda>a. b \<le> a) (SliceT ty) h' (SliceV (Some (b, 0, n))) = Some t"
        using * zs 2(5) by (simp add: deep_SliceT_iff)
    qed
    then show ?thesis
      using 2(1) by (simp add: copySlice_def runs_simps(6) runs_allocate b_def h1_def)
        (auto elim!: runs_mono simp: runs_ret)
  qed (simp add: copySlice_def runs_simps deep_SliceT_iff)
qed

text \<open>The loop over the entries of a map: those of \<open>ys\<close> have been copied.\<close>

lemma put_new: "k \<notin> fst ` set es \<Longrightarrow> put k v es = es @ [(k, v)]"
  by (induction es) auto

lemma runs_assignEntry:
  "cellAt h b = Some (Table es) \<Longrightarrow> runs (assignEntry b k v) h Q = Q (Returns ()) (h[b := Table (put k v es)])"
  by (simp add: runs_simps)

declare assignEntry.simps [simp del]

lemma keyed_deep_step:
  assumes "kept anywhere h h1" and "\<not> P b" and "those_of (keyed (deep P ty h)) es = Some ts"
  shows "those_of (keyed (deep P ty (h1[b := c]))) es = Some ts"
  by (rule those_of_mono [OF assms(3)]) (erule keyed_mono, rule deep_step [of h h1 P, OF assms(1,2)])

lemma runs_copyEntries:
  assumes c: "copies ty c"
  shows "cellAt h b = Some (Table ys) \<Longrightarrow> distinct (map fst (ys @ es)) \<Longrightarrow>
    those_of (keyed (deep (\<lambda>x. x < b) ty h)) es = Some us \<Longrightarrow>
    those_of (keyed (deep (\<lambda>x. b < x) ty h)) ys = Some ts \<Longrightarrow>
    runs (copyEntries c b es) h (\<lambda>r h'. r = Returns () \<and> kept (\<lambda>x. x \<noteq> b) h h' \<and>
      (\<exists>zs. cellAt h' b = Some (Table zs) \<and> distinct (map fst zs) \<and>
        those_of (keyed (deep (\<lambda>x. b < x) ty h')) zs = Some (ts @ us)))"
proof (induction es arbitrary: h ys ts us)
  case Nil
  then show ?case by (simp add: runs_simps)
next
  case (Cons e es)
  from Cons.prems(3) obtain u us' where x: "deep (\<lambda>x. x < b) ty h (snd e) = Some u"
    and rest: "those_of (keyed (deep (\<lambda>x. x < b) ty h)) es = Some us'" and us: "us = (fst e, u) # us'"
    by (auto simp: keyed_def [of _ e] split: option.splits)
  have bh: "b < length h" using Cons.prems(1) by (rule cellAt_length)
  have "runs (copyEntries c b es) h2 (\<lambda>r h'. r = Returns () \<and> kept (\<lambda>x. x \<noteq> b) h h' \<and>
      (\<exists>zs. cellAt h' b = Some (Table zs) \<and> distinct (map fst zs) \<and>
        those_of (keyed (deep (\<lambda>x. b < x) ty h')) zs = Some (ts @ us)))"
    if k1: "kept anywhere h h1" and y: "deep (\<lambda>x. length h \<le> x) ty h1 y = Some u"
      and h2: "h2 = h1[b := Table (put (fst e) y ys)]" for h1 y h2
  proof -
    have b1: "b < length h1" using bh kept_length [OF k1] by simp
    have kept2: "kept (\<lambda>x. x \<noteq> b) h h2"
      using kept_step [of h h1 "\<lambda>x. x \<noteq> b" b] k1 h2 by simp
    have "deep (\<lambda>x. b < x) ty h1 y = Some u"
      by (rule deep_frame [OF _ _ y]) (use bh in simp_all)
    then have y2: "deep (\<lambda>x. b < x) ty h2 y = Some u"
      using deep_step [of h1 h1 "\<lambda>x. b < x" b] h2 by simp
    have "those_of (keyed (deep (\<lambda>x. b < x) ty h2)) ys = Some ts"
      using keyed_deep_step [of h h1 "\<lambda>x. b < x" b, OF k1 _ Cons.prems(4)] h2 by simp
    then have ts2: "those_of (keyed (deep (\<lambda>x. b < x) ty h2)) (ys @ [(fst e, y)]) = Some (ts @ [(fst e, u)])"
      using y2 by (simp add: those_of_append keyed_def)
    have put: "put (fst e) y ys = ys @ [(fst e, y)]"
      using Cons.prems(2) by (intro put_new) auto
    have "runs (copyEntries c b es) h2 (\<lambda>r h'. r = Returns () \<and> kept (\<lambda>x. x \<noteq> b) h2 h' \<and>
        (\<exists>zs. cellAt h' b = Some (Table zs) \<and> distinct (map fst zs) \<and>
          those_of (keyed (deep (\<lambda>x. b < x) ty h')) zs = Some ((ts @ [(fst e, u)]) @ us')))"
    proof (rule Cons.IH [OF _ _ _ ts2])
      show "cellAt h2 b = Some (Table (ys @ [(fst e, y)]))" by (simp add: h2 put cellAt_update b1)
      show "those_of (keyed (deep (\<lambda>x. x < b) ty h2)) es = Some us'"
        using keyed_deep_step [of h h1 "\<lambda>x. x < b" b, OF k1 _ rest] h2 by simp
      show "distinct (map fst ((ys @ [(fst e, y)]) @ es))" using Cons.prems(2) by auto
    qed
    then show ?thesis by (rule runs_mono) (use kept2 us in \<open>auto elim: kept_trans\<close>)
  qed
  moreover have "cellAt h1 b = Some (Table ys)" if "kept anywhere h h1" for h1
    using kept_cellAt [OF that _ Cons.prems(1)] by simp
  ultimately show ?case
    by (simp add: runs_simps(6) runs_assignEntry runs_copies [OF c x])
qed

lemma copies_map [copies_rules]:
  assumes c: "copies ty c"
  shows "copies (MapT ty) (copyMap c)"
  unfolding copies_def
proof (intro allI impI)
  fix h v t assume "deep anywhere (MapT ty) h v = Some t"
  then consider "v = MapV None" "t = Entries None"
    | a es ts where "v = MapV (Some a)" "cellAt h a = Some (Table es)" "distinct (map fst es)"
      "those_of (keyed (deep anywhere ty h)) es = Some ts" "t = Entries (Some ts)"
    by (auto simp: deep_MapT_iff)
  then show "runs (copyMap c v) h (\<lambda>r h'. kept anywhere h h' \<and>
      (\<exists>w. r = Returns w \<and> deep (\<lambda>a. length h \<le> a) (MapT ty) h' w = Some t))"
  proof cases
    case 2
    define b where "b = length h"
    define h1 where "h1 = h @ [Table []]"
    have k1: "kept anywhere h h1" by (simp add: h1_def)
    have below: "deep (\<lambda>x. x < b) ty h1 x = Some u" if "deep anywhere ty h x = Some u" for x u
      by (rule deep_frame [OF k1 _ that]) (simp add: b_def)
    have src: "those_of (keyed (deep (\<lambda>x. x < b) ty h1)) es = Some ts"
      by (rule those_of_mono [OF 2(4)]) (erule keyed_mono, rule below)
    have "runs (copyEntries c b es) h1 (\<lambda>r h'. r = Returns () \<and> kept (\<lambda>x. x \<noteq> b) h1 h' \<and>
        (\<exists>zs. cellAt h' b = Some (Table zs) \<and> distinct (map fst zs) \<and>
          those_of (keyed (deep (\<lambda>x. b < x) ty h')) zs = Some ([] @ ts)))"
    proof (rule runs_copyEntries [OF c _ _ src])
      show "cellAt h1 b = Some (Table [])" by (simp add: h1_def b_def)
    qed (simp_all add: 2(3))
    then have "runs (copyEntries c b es) h1 (\<lambda>r h'. r = Returns () \<and> kept anywhere h h' \<and>
        deep (\<lambda>a. b \<le> a) (MapT ty) h' (MapV (Some b)) = Some t)"
    proof (rule runs_mono)
      fix r h' assume *: "r = Returns () \<and> kept (\<lambda>x. x \<noteq> b) h1 h' \<and>
        (\<exists>zs. cellAt h' b = Some (Table zs) \<and> distinct (map fst zs) \<and>
          those_of (keyed (deep (\<lambda>x. b < x) ty h')) zs = Some ([] @ ts))"
      then obtain zs where zs: "cellAt h' b = Some (Table zs)" "distinct (map fst zs)"
        "those_of (keyed (deep (\<lambda>x. b < x) ty h')) zs = Some ts" by auto
      have "those_of (keyed (deep (\<lambda>x. b \<le> x) ty h')) zs = Some ts"
        by (rule those_of_mono [OF zs(3)])
          (erule keyed_mono, rule deep_frame [of "\<lambda>x. b < x" h' h' "\<lambda>x. b \<le> x"], simp_all)
      moreover have "kept anywhere h h'"
        using * by (auto simp: kept_def h1_def b_def nth_append)
      ultimately show "r = Returns () \<and> kept anywhere h h' \<and>
          deep (\<lambda>a. b \<le> a) (MapT ty) h' (MapV (Some b)) = Some t"
        using * zs 2(5) by (simp add: deep_MapT_iff)
    qed
    then show ?thesis
      using 2(1,2) by (simp add: copyMap_def runs_simps(4,6) runs_allocate b_def h1_def)
        (auto elim!: runs_mono simp: runs_ret)
  qed (simp add: copyMap_def runs_simps deep_MapT_iff)
qed

lemma copies_star [copies_rules]:
  assumes dc: "copies (PtrT ty) dc"
  shows "copies ty (starDeepCopy dc)"
  unfolding copies_def
proof (intro allI impI)
  fix h v t assume v: "deep anywhere ty h v = Some t"
  define h1 where "h1 = h @ [Var v]"
  have k1: "kept anywhere h h1" by (simp add: h1_def)
  have "deep anywhere (PtrT ty) h1 (PtrV (Some (length h))) = Some (Pointee (Some t))"
    using deep_grown [OF v k1] by (simp add: deep_PtrT_iff h1_def)
  then have "runs (dc (PtrV (Some (length h)))) h1 (\<lambda>r h'. kept anywhere h h' \<and> (\<exists>b w. r = Returns (PtrV (Some b)) \<and>
      cellAt h' b = Some (Var w) \<and> deep (\<lambda>a. length h \<le> a) ty h' w = Some t))"
  proof (rule runs_copies [OF dc])
    fix p h' assume k: "kept anywhere h1 h'"
      and d: "deep (\<lambda>a. length h1 \<le> a) (PtrT ty) h' p = Some (Pointee (Some t))"
    have "deep (\<lambda>a. length h \<le> a) (PtrT ty) h' p = Some (Pointee (Some t))"
      by (rule deep_frame [OF _ _ d]) (simp_all add: h1_def)
    then show "kept anywhere h h' \<and> (\<exists>b w. Returns p = Returns (PtrV (Some b)) \<and>
        cellAt h' b = Some (Var w) \<and> deep (\<lambda>a. length h \<le> a) ty h' w = Some t)"
      using kept_trans [OF k1 k] by (auto simp: deep_PtrT_iff)
  qed
  then show "runs (starDeepCopy dc v) h (\<lambda>r h'. kept anywhere h h' \<and>
      (\<exists>w. r = Returns w \<and> deep (\<lambda>a. length h \<le> a) ty h' w = Some t))"
    by (simp add: starDeepCopy_def runs_simps(6) runs_allocate h1_def)
      (auto elim!: runs_mono simp: runs_load)
qed

text \<open>
  The statements on the fields of a struct. \<open>covered fs ss\<close>: every statement is a copy for the type of
  its field, and a field without a statement has no part in shared memory. Then, after the
  statements in \<open>D\<close>, the fields in \<open>D\<close> are copies and the others what they were.
\<close>

definition covered :: "(string \<times> gotype) list \<Rightarrow> (string \<times> copier) list \<Rightarrow> bool" where
  "covered fs ss \<longleftrightarrow>
     (\<forall>f \<in> set fs. (fst f \<in> fst ` set ss \<or> flat (snd f)) \<and> (\<forall>s \<in> set ss. fst s = fst f \<longrightarrow> copies (snd f) (snd s))) \<and>
     fst ` set ss \<subseteq> fst ` set fs"

definition copied_so_far :: "(nat \<Rightarrow> bool) \<Rightarrow> string set \<Rightarrow> (string \<times> gotype) list \<Rightarrow> heap \<Rightarrow>
    (string \<times> val) list \<Rightarrow> heap \<Rightarrow> (string \<times> val) list \<Rightarrow> bool" where
  "copied_so_far P D fs h0 inn h out \<longleftrightarrow> map fst out = map fst fs \<and>
     (\<forall>f \<in> set fs. \<exists>v w t. map_of inn (fst f) = Some v \<and> map_of out (fst f) = Some w \<and>
        deep anywhere (snd f) h0 v = Some t \<and> deep (if fst f \<in> D then P else anywhere) (snd f) h w = Some t)"

lemma map_fst_setField [simp]: "map fst (setField f w es) = map fst es"
  by (simp add: setField_def)

lemma map_of_setField:
  "map_of (setField f w es) g = (if f = g \<and> map_of es g \<noteq> None then Some w else map_of es g)"
  by (induction es) (auto simp: setField_def)

lemma copied_so_far_field:
  assumes inv: "copied_so_far P D fs h0 inn h out" and k: "kept anywhere h h'"
    and f: "\<And>f v t. f \<in> set fs \<Longrightarrow> fst f = s \<Longrightarrow> map_of inn s = Some v \<Longrightarrow> deep anywhere (snd f) h0 v = Some t \<Longrightarrow>
      deep P (snd f) h' y = Some t"
  shows "copied_so_far P (insert s D) fs h0 inn h' (setField s y out)"
  unfolding copied_so_far_def
proof (intro conjI ballI)
  show "map fst (setField s y out) = map fst fs" using inv by (simp add: copied_so_far_def)
  fix g assume g: "g \<in> set fs"
  with inv obtain v w t where *: "map_of inn (fst g) = Some v" "map_of out (fst g) = Some w"
    "deep anywhere (snd g) h0 v = Some t" "deep (if fst g \<in> D then P else anywhere) (snd g) h w = Some t"
    unfolding copied_so_far_def by blast
  show "\<exists>v w t. map_of inn (fst g) = Some v \<and> map_of (setField s y out) (fst g) = Some w \<and>
      deep anywhere (snd g) h0 v = Some t \<and> deep (if fst g \<in> insert s D then P else anywhere) (snd g) h' w = Some t"
  proof (cases "fst g = s")
    case True
    then show ?thesis using * f [OF g True] by (auto simp: map_of_setField)
  next
    case False
    then show ?thesis using * deep_grown [OF *(4) k] by (auto simp: map_of_setField)
  qed
qed

lemma runs_copyFields:
  "copied_so_far (\<lambda>a. length h0 \<le> a) D fs h0 inn h out \<Longrightarrow> kept anywhere h0 h \<Longrightarrow>
     (\<And>f s. f \<in> set fs \<Longrightarrow> s \<in> set ss \<Longrightarrow> fst s = fst f \<Longrightarrow> copies (snd f) (snd s)) \<Longrightarrow> fst ` set ss \<subseteq> fst ` set fs \<Longrightarrow>
     runs (copyFields ss inn out) h (\<lambda>r h'. kept anywhere h0 h' \<and>
       (\<exists>out'. r = Returns out' \<and> copied_so_far (\<lambda>a. length h0 \<le> a) (D \<union> fst ` set ss) fs h0 inn h' out'))"
proof (induction ss arbitrary: h out D)
  case Nil
  then show ?case by (simp add: runs_simps)
next
  case (Cons s ss)
  let ?P = "\<lambda>a. length h0 \<le> a"
  from Cons.prems(4) obtain f where f: "f \<in> set fs" "fst f = fst s" by auto
  with Cons.prems(1) obtain x t where x: "map_of inn (fst s) = Some x" "deep anywhere (snd f) h0 x = Some t"
    unfolding copied_so_far_def by metis
  have fc: "copies (snd f) (snd s)" using Cons.prems(3) f by simp
  obtain y h' where y: "snd s x h = (Returns y, h')" and k: "kept anywhere h h'"
    using copiesD [OF fc deep_grown [OF x(2) Cons.prems(2)]] by metis
  have le: "length h0 \<le> length h" using Cons.prems(2) by (rule kept_length)
  have "copied_so_far ?P (insert (fst s) D) fs h0 inn h' (setField (fst s) y out)"
  proof (rule copied_so_far_field [OF Cons.prems(1) k])
    fix g v u assume g: "g \<in> set fs" "fst g = fst s" "map_of inn (fst s) = Some v" "deep anywhere (snd g) h0 v = Some u"
    have gc: "copies (snd g) (snd s)" using Cons.prems(3) g by simp
    have "deep (\<lambda>a. length h \<le> a) (snd g) h' y = Some u"
      using copiesD [OF gc deep_grown [OF g(4) Cons.prems(2)]] y x(1) g(3) by (metis Pair_inject option.inject outcome.inject)
    then show "deep ?P (snd g) h' y = Some u"
      using le deep_frame [of "\<lambda>a. length h \<le> a" h' h' ?P] by auto
  qed
  then have "runs (copyFields ss inn (setField (fst s) y out)) h' (\<lambda>r h''. kept anywhere h0 h'' \<and>
      (\<exists>out'. r = Returns out' \<and> copied_so_far ?P (insert (fst s) D \<union> fst ` set ss) fs h0 inn h'' out'))"
    using Cons.prems(2-4) k by (intro Cons.IH) (auto intro: kept_trans)
  moreover have "runs (snd s x) h Q = Q (Returns y) h'" for Q
    using y by (simp add: runs_def)
  ultimately show ?case
    by (simp add: runs_simps(6,7) x(1))
qed

lemma copies_into [copies_rules]:
  assumes cov: "covered fs ss"
  shows "copies (StructT fs) (into ss)"
  unfolding copies_def
proof (intro allI impI)
  fix h v t assume "deep anywhere (StructT fs) h v = Some t"
  then obtain vs ts where v: "v = StructV vs" "map fst vs = map fst fs" "t = Fields ts"
    and ts: "those_of (\<lambda>f. case map_of vs (fst f) of None \<Rightarrow> None
       | Some w \<Rightarrow> map_option (Pair (fst f)) (deep anywhere (snd f) h w)) fs = Some ts"
    by (auto simp: deep_StructT_iff)
  let ?P = "\<lambda>a. length h \<le> a"
  have "\<exists>w t. map_of vs (fst f) = Some w \<and> deep anywhere (snd f) h w = Some t" if "f \<in> set fs" for f
    using those_of_all [OF ts that] by (auto split: option.splits)
  then have "copied_so_far ?P {} fs h vs h vs"
    unfolding copied_so_far_def using v(2) by fastforce
  then have "runs (copyFields ss vs vs) h (\<lambda>r h'. kept anywhere h h' \<and>
      (\<exists>out'. r = Returns out' \<and> copied_so_far ?P ({} \<union> fst ` set ss) fs h vs h' out'))"
    by (rule runs_copyFields) (use cov in \<open>auto simp: covered_def\<close>)
  moreover have "deep ?P (StructT fs) h' (StructV out) = Some t"
    if sofar: "copied_so_far ?P ({} \<union> fst ` set ss) fs h vs h' out" for h' out
    unfolding deep_StructT_iff
  proof (intro exI conjI)
    show "those_of (\<lambda>f. case map_of out (fst f) of None \<Rightarrow> None
       | Some w \<Rightarrow> map_option (Pair (fst f)) (deep ?P (snd f) h' w)) fs = Some ts"
    proof (rule those_of_mono [OF ts])
      fix f y assume f: "f \<in> set fs" and y: "(case map_of vs (fst f) of None \<Rightarrow> None
         | Some w \<Rightarrow> map_option (Pair (fst f)) (deep anywhere (snd f) h w)) = Some y"
      from sofar f obtain v w u where "map_of vs (fst f) = Some v" "deep anywhere (snd f) h v = Some u"
        "map_of out (fst f) = Some w" "deep (if fst f \<in> {} \<union> fst ` set ss then ?P else anywhere) (snd f) h' w = Some u"
        unfolding copied_so_far_def by blast
      with y have w: "map_of out (fst f) = Some w" "y = (fst f, u)"
        "deep (if fst f \<in> {} \<union> fst ` set ss then ?P else anywhere) (snd f) h' w = Some u"
        by auto
      have "deep ?P (snd f) h' w = Some u"
      proof (cases "fst f \<in> fst ` set ss")
        case False
        then have "flat (snd f)" using cov f by (auto simp: covered_def)
        then show ?thesis using w(3) False by (metis Un_empty_left deep_flat)
      qed (use w(3) in simp)
      then show "(case map_of out (fst f) of None \<Rightarrow> None
         | Some w \<Rightarrow> map_option (Pair (fst f)) (deep ?P (snd f) h' w)) = Some y"
        using w by simp
    qed
  qed (use sofar v in \<open>auto simp: copied_so_far_def\<close>)
  ultimately show "runs (into ss v) h (\<lambda>r h'. kept anywhere h h' \<and>
      (\<exists>w. r = Returns w \<and> deep ?P (StructT fs) h' w = Some t))"
    unfolding into_def v(1) by (simp add: runs_simps(6)) (auto elim!: runs_mono simp: runs_ret)
qed

text \<open>
  What the contract means for whoever holds the original and whoever holds the copy: the copy reads
  the same as the original, and goes on to do so in every heap that differs from the one after the
  copy in old cells only; the original goes on to read as it did in every heap that differs in new
  cells only.
\<close>

lemma copies_detached:
  assumes "copies ty c" and "deep anywhere ty h v = Some t"
  shows "\<exists>w h'. c v h = (Returns w, h') \<and>
    (\<forall>k. kept (\<lambda>a. length h \<le> a) h' k \<longrightarrow> deep anywhere ty k w = Some t) \<and>
    (\<forall>k. kept (\<lambda>a. a < length h) h' k \<longrightarrow> deep anywhere ty k v = Some t)"
proof -
  obtain w h' where c: "c v h = (Returns w, h')" and k: "kept anywhere h h'"
    and w: "deep (\<lambda>a. length h \<le> a) ty h' w = Some t"
    using assms by (rule copiesD)
  have v: "deep (\<lambda>a. a < length h) ty h' v = Some t"
    by (rule deep_frame [OF k _ assms(2)])
  show ?thesis
    using c deep_frame [OF _ _ w, where Q = anywhere] deep_frame [OF _ _ v, where Q = anywhere] by blast
qed

lemma copies_nil: "copies (PtrT ty) dc \<Longrightarrow> \<exists>h'. dc (PtrV None) h = (Returns (PtrV None), h')"
  using copiesD [of "PtrT ty" dc h "PtrV None" "Pointee None"] by (auto simp: deep_PtrT_iff)

end
