(* ===== verification/CloudInitCopies.thy ===== *)
theory CloudInitCopies
  imports GoHeap
begin

text \<open>
  The generated functions \<^verbatim>\<open>DeepCopyInto\<close> and \<^verbatim>\<open>DeepCopy\<close> of the types a cloud-init document is made of
  (\<^verbatim>\<open>CloudInitMetadata\<close>, \<^verbatim>\<open>CloudInitCloudConfig\<close>, \<^verbatim>\<open>CloudInitNetworkConfig\<close> and their parts), from
  \<^verbatim>\<open>api/v1alpha1/zz_generated.deepcopy.go\<close>. For each type: its fields (\<open>_type\<close>, from
  \<^verbatim>\<open>api/v1alpha1/cloudinit_types.go\<close>), the two functions statement by statement, and that they are
  copies.
\<close>

subsection \<open>\<^verbatim>\<open>CloudInitMetadata\<close>\<close>

definition CloudInitMetadata_type :: "gotype" where
  "CloudInitMetadata_type = StructT [
     (''LocalHostname'', StrT),
     (''InstanceID'', PtrT StrT)]"

definition CloudInitMetadata_DeepCopyInto :: "copier" where
  "CloudInitMetadata_DeepCopyInto = into [
     (''InstanceID'', copyPtr StrT plain)]"

definition CloudInitMetadata_DeepCopy :: "copier" where
  "CloudInitMetadata_DeepCopy = copyPtr CloudInitMetadata_type CloudInitMetadata_DeepCopyInto"

lemma CloudInitMetadata_copies [copies_rules]: "copies CloudInitMetadata_type CloudInitMetadata_DeepCopyInto"
  by (simp add: CloudInitMetadata_type_def CloudInitMetadata_DeepCopyInto_def covered_def copies_rules)

lemma CloudInitMetadata_DeepCopy_copies [copies_rules]: "copies (PtrT CloudInitMetadata_type) CloudInitMetadata_DeepCopy"
  by (simp add: CloudInitMetadata_DeepCopy_def copies_rules)

subsection \<open>\<^verbatim>\<open>CloudInitUser\<close>\<close>

definition CloudInitUser_type :: "gotype" where
  "CloudInitUser_type = StructT [
     (''Name'', StrT),
     (''Doas'', SliceT StrT),
     (''ExpireDate'', PtrT StrT),
     (''Gecos'', PtrT StrT),
     (''Groups'', PtrT StrT),
     (''HomeDir'', PtrT StrT),
     (''Intactive'', PtrT StrT),
     (''LockPasswd'', PtrT BoolT),
     (''NoCreateHome'', PtrT BoolT),
     (''NoLogInit'', PtrT BoolT),
     (''NoUserGroup'', PtrT BoolT),
     (''Passwd'', PtrT StrT),
     (''HashedPasswd'', PtrT StrT),
     (''PlaintextPasswd'', PtrT StrT),
     (''CreateGroups'', PtrT BoolT),
     (''PrimaryGroup'', PtrT StrT),
     (''SELinuxUser'', PtrT StrT),
     (''Shell'', PtrT StrT),
     (''SnapUser'', PtrT StrT),
     (''SSHAuthorizedKeys'', SliceT StrT),
     (''SSHImportID'', SliceT StrT),
     (''SSHRedirectUser'', PtrT BoolT),
     (''System'', PtrT BoolT),
     (''Sudo'', SliceT StrT),
     (''UID'', PtrT NumT)]"

definition CloudInitUser_DeepCopyInto :: "copier" where
  "CloudInitUser_DeepCopyInto = into [
     (''Doas'', copySlice StrT plain),
     (''ExpireDate'', copyPtr StrT plain),
     (''Gecos'', copyPtr StrT plain),
     (''Groups'', copyPtr StrT plain),
     (''HomeDir'', copyPtr StrT plain),
     (''Intactive'', copyPtr StrT plain),
     (''LockPasswd'', copyPtr BoolT plain),
     (''NoCreateHome'', copyPtr BoolT plain),
     (''NoLogInit'', copyPtr BoolT plain),
     (''NoUserGroup'', copyPtr BoolT plain),
     (''Passwd'', copyPtr StrT plain),
     (''HashedPasswd'', copyPtr StrT plain),
     (''PlaintextPasswd'', copyPtr StrT plain),
     (''CreateGroups'', copyPtr BoolT plain),
     (''PrimaryGroup'', copyPtr StrT plain),
     (''SELinuxUser'', copyPtr StrT plain),
     (''Shell'', copyPtr StrT plain),
     (''SnapUser'', copyPtr StrT plain),
     (''SSHAuthorizedKeys'', copySlice StrT plain),
     (''SSHImportID'', copySlice StrT plain),
     (''SSHRedirectUser'', copyPtr BoolT plain),
     (''System'', copyPtr BoolT plain),
     (''Sudo'', copySlice StrT plain),
     (''UID'', copyPtr NumT plain)]"

definition CloudInitUser_DeepCopy :: "copier" where
  "CloudInitUser_DeepCopy = copyPtr CloudInitUser_type CloudInitUser_DeepCopyInto"

lemma CloudInitUser_copies [copies_rules]: "copies CloudInitUser_type CloudInitUser_DeepCopyInto"
  by (simp add: CloudInitUser_type_def CloudInitUser_DeepCopyInto_def covered_def copies_rules)

lemma CloudInitUser_DeepCopy_copies [copies_rules]: "copies (PtrT CloudInitUser_type) CloudInitUser_DeepCopy"
  by (simp add: CloudInitUser_DeepCopy_def copies_rules)

subsection \<open>\<^verbatim>\<open>CloudInitWriteFileSource\<close>\<close>

definition CloudInitWriteFileSource_type :: "gotype" where
  "CloudInitWriteFileSource_type = StructT [
     (''URI'', StrT),
     (''Headers'', MapT StrT)]"

definition CloudInitWriteFileSource_DeepCopyInto :: "copier" where
  "CloudInitWriteFileSource_DeepCopyInto = into [
     (''Headers'', copyMap plain)]"

definition CloudInitWriteFileSource_DeepCopy :: "copier" where
  "CloudInitWriteFileSource_DeepCopy = copyPtr CloudInitWriteFileSource_type CloudInitWriteFileSource_DeepCopyInto"

lemma CloudInitWriteFileSource_copies [copies_rules]: "copies CloudInitWriteFileSource_type CloudInitWriteFileSource_DeepCopyInto"
  by (simp add: CloudInitWriteFileSource_type_def CloudInitWriteFileSource_DeepCopyInto_def covered_def copies_rules)

lemma CloudInitWriteFileSource_DeepCopy_copies [copies_rules]: "copies (PtrT CloudInitWriteFileSource_type) CloudInitWriteFileSource_DeepCopy"
  by (simp add: CloudInitWriteFileSource_DeepCopy_def copies_rules)

subsection \<open>\<^verbatim>\<open>CloudInitWriteFile\<close>\<close>

definition CloudInitWriteFile_type :: "gotype" where
  "CloudInitWriteFile_type = StructT [
     (''Path'', StrT),
     (''Content'', PtrT StrT),
     (''Source'', PtrT CloudInitWriteFileSource_type),
     (''Owner'', PtrT StrT),
     (''Permissions'', PtrT StrT),
     (''Encoding'', PtrT StrT),
     (''Append'', PtrT BoolT),
     (''Defer'', PtrT BoolT)]"

definition CloudInitWriteFile_DeepCopyInto :: "copier" where
  "CloudInitWriteFile_DeepCopyInto = into [
     (''Content'', copyPtr StrT plain),
     (''Source'', copyPtr CloudInitWriteFileSource_type CloudInitWriteFileSource_DeepCopyInto),
     (''Owner'', copyPtr StrT plain),
     (''Permissions'', copyPtr StrT plain),
     (''Encoding'', copyPtr StrT plain),
     (''Append'', copyPtr BoolT plain),
     (''Defer'', copyPtr BoolT plain)]"

definition CloudInitWriteFile_DeepCopy :: "copier" where
  "CloudInitWriteFile_DeepCopy = copyPtr CloudInitWriteFile_type CloudInitWriteFile_DeepCopyInto"

lemma CloudInitWriteFile_copies [copies_rules]: "copies CloudInitWriteFile_type CloudInitWriteFile_DeepCopyInto"
  by (simp add: CloudInitWriteFile_type_def CloudInitWriteFile_DeepCopyInto_def covered_def copies_rules)

lemma CloudInitWriteFile_DeepCopy_copies [copies_rules]: "copies (PtrT CloudInitWriteFile_type) CloudInitWriteFile_DeepCopy"
  by (simp add: CloudInitWriteFile_DeepCopy_def copies_rules)

subsection \<open>\<^verbatim>\<open>CloudInitGrowpart\<close>\<close>

definition CloudInitGrowpart_type :: "gotype" where
  "CloudInitGrowpart_type = StructT [
     (''Mode'', PtrT StrT),
     (''Devices'', SliceT StrT),
     (''IgnoreGrowrootDisabled'', PtrT BoolT)]"

definition CloudInitGrowpart_DeepCopyInto :: "copier" where
  "CloudInitGrowpart_DeepCopyInto = into [
     (''Mode'', copyPtr StrT plain),
     (''Devices'', copySlice StrT plain),
     (''IgnoreGrowrootDisabled'', copyPtr BoolT plain)]"

definition CloudInitGrowpart_DeepCopy :: "copier" where
  "CloudInitGrowpart_DeepCopy = copyPtr CloudInitGrowpart_type CloudInitGrowpart_DeepCopyInto"

lemma CloudInitGrowpart_copies [copies_rules]: "copies CloudInitGrowpart_type CloudInitGrowpart_DeepCopyInto"
  by (simp add: CloudInitGrowpart_type_def CloudInitGrowpart_DeepCopyInto_def covered_def copies_rules)

lemma CloudInitGrowpart_DeepCopy_copies [copies_rules]: "copies (PtrT CloudInitGrowpart_type) CloudInitGrowpart_DeepCopy"
  by (simp add: CloudInitGrowpart_DeepCopy_def copies_rules)

subsection \<open>\<^verbatim>\<open>CloudInitMountSwap\<close>\<close>

definition CloudInitMountSwap_type :: "gotype" where
  "CloudInitMountSwap_type = StructT [
     (''Filename'', PtrT StrT),
     (''Size'', PtrT StrT),
     (''MaxSize'', PtrT StrT)]"

definition CloudInitMountSwap_DeepCopyInto :: "copier" where
  "CloudInitMountSwap_DeepCopyInto = into [
     (''Filename'', copyPtr StrT plain),
     (''Size'', copyPtr StrT plain),
     (''MaxSize'', copyPtr StrT plain)]"

definition CloudInitMountSwap_DeepCopy :: "copier" where
  "CloudInitMountSwap_DeepCopy = copyPtr CloudInitMountSwap_type CloudInitMountSwap_DeepCopyInto"

lemma CloudInitMountSwap_copies [copies_rules]: "copies CloudInitMountSwap_type CloudInitMountSwap_DeepCopyInto"
  by (simp add: CloudInitMountSwap_type_def CloudInitMountSwap_DeepCopyInto_def covered_def copies_rules)

lemma CloudInitMountSwap_DeepCopy_copies [copies_rules]: "copies (PtrT CloudInitMountSwap_type) CloudInitMountSwap_DeepCopy"
  by (simp add: CloudInitMountSwap_DeepCopy_def copies_rules)

subsection \<open>\<^verbatim>\<open>CloudInitDisk\<close>\<close>

definition CloudInitDisk_type :: "gotype" where
  "CloudInitDisk_type = StructT [
     (''TableType'', PtrT StrT),
     (''Layout'', SliceT StrT),
     (''Overwrite'', PtrT BoolT)]"

definition CloudInitDisk_DeepCopyInto :: "copier" where
  "CloudInitDisk_DeepCopyInto = into [
     (''TableType'', copyPtr StrT plain),
     (''Layout'', copySlice StrT plain),
     (''Overwrite'', copyPtr BoolT plain)]"

definition CloudInitDisk_DeepCopy :: "copier" where
  "CloudInitDisk_DeepCopy = copyPtr CloudInitDisk_type CloudInitDisk_DeepCopyInto"

lemma CloudInitDisk_copies [copies_rules]: "copies CloudInitDisk_type CloudInitDisk_DeepCopyInto"
  by (simp add: CloudInitDisk_type_def CloudInitDisk_DeepCopyInto_def covered_def copies_rules)

lemma CloudInitDisk_DeepCopy_copies [copies_rules]: "copies (PtrT CloudInitDisk_type) CloudInitDisk_DeepCopy"
  by (simp add: CloudInitDisk_DeepCopy_def copies_rules)

subsection \<open>\<^verbatim>\<open>CloudInitFS\<close>\<close>

definition CloudInitFS_type :: "gotype" where
  "CloudInitFS_type = StructT [
     (''Label'', PtrT StrT),
     (''Filesystem'', StrT),
     (''Device'', StrT),
     (''Partitions'', PtrT StrT),
     (''Overwrite'', PtrT BoolT),
     (''ReplaceFS'', PtrT StrT),
     (''ExtraOpts'', SliceT StrT),
     (''CMD'', SliceT StrT)]"

definition CloudInitFS_DeepCopyInto :: "copier" where
  "CloudInitFS_DeepCopyInto = into [
     (''Label'', copyPtr StrT plain),
     (''Partitions'', copyPtr StrT plain),
     (''Overwrite'', copyPtr BoolT plain),
     (''ReplaceFS'', copyPtr StrT plain),
     (''ExtraOpts'', copySlice StrT plain),
     (''CMD'', copySlice StrT plain)]"

definition CloudInitFS_DeepCopy :: "copier" where
  "CloudInitFS_DeepCopy = copyPtr CloudInitFS_type CloudInitFS_DeepCopyInto"

lemma CloudInitFS_copies [copies_rules]: "copies CloudInitFS_type CloudInitFS_DeepCopyInto"
  by (simp add: CloudInitFS_type_def CloudInitFS_DeepCopyInto_def covered_def copies_rules)

lemma CloudInitFS_DeepCopy_copies [copies_rules]: "copies (PtrT CloudInitFS_type) CloudInitFS_DeepCopy"
  by (simp add: CloudInitFS_DeepCopy_def copies_rules)

subsection \<open>\<^verbatim>\<open>CloudInitCACerts\<close>\<close>

definition CloudInitCACerts_type :: "gotype" where
  "CloudInitCACerts_type = StructT [
     (''RemoveDefaults'', PtrT BoolT),
     (''Trusted'', SliceT StrT)]"

definition CloudInitCACerts_DeepCopyInto :: "copier" where
  "CloudInitCACerts_DeepCopyInto = into [
     (''RemoveDefaults'', copyPtr BoolT plain),
     (''Trusted'', copySlice StrT plain)]"

definition CloudInitCACerts_DeepCopy :: "copier" where
  "CloudInitCACerts_DeepCopy = copyPtr CloudInitCACerts_type CloudInitCACerts_DeepCopyInto"

lemma CloudInitCACerts_copies [copies_rules]: "copies CloudInitCACerts_type CloudInitCACerts_DeepCopyInto"
  by (simp add: CloudInitCACerts_type_def CloudInitCACerts_DeepCopyInto_def covered_def copies_rules)

lemma CloudInitCACerts_DeepCopy_copies [copies_rules]: "copies (PtrT CloudInitCACerts_type) CloudInitCACerts_DeepCopy"
  by (simp add: CloudInitCACerts_DeepCopy_def copies_rules)

subsection \<open>\<^verbatim>\<open>CloudInitNTPConfig\<close>\<close>

definition CloudInitNTPConfig_type :: "gotype" where
  "CloudInitNTPConfig_type = StructT [
     (''ConfPath'', PtrT StrT),
     (''CheckEXE'', PtrT StrT),
     (''Packages'', SliceT StrT),
     (''ServiceName'', PtrT StrT),
     (''Template'', PtrT StrT)]"

definition CloudInitNTPConfig_DeepCopyInto :: "copier" where
  "CloudInitNTPConfig_DeepCopyInto = into [
     (''ConfPath'', copyPtr StrT plain),
     (''CheckEXE'', copyPtr StrT plain),
     (''Packages'', copySlice StrT plain),
     (''ServiceName'', copyPtr StrT plain),
     (''Template'', copyPtr StrT plain)]"

definition CloudInitNTPConfig_DeepCopy :: "copier" where
  "CloudInitNTPConfig_DeepCopy = copyPtr CloudInitNTPConfig_type CloudInitNTPConfig_DeepCopyInto"

lemma CloudInitNTPConfig_copies [copies_rules]: "copies CloudInitNTPConfig_type CloudInitNTPConfig_DeepCopyInto"
  by (simp add: CloudInitNTPConfig_type_def CloudInitNTPConfig_DeepCopyInto_def covered_def copies_rules)

lemma CloudInitNTPConfig_DeepCopy_copies [copies_rules]: "copies (PtrT CloudInitNTPConfig_type) CloudInitNTPConfig_DeepCopy"
  by (simp add: CloudInitNTPConfig_DeepCopy_def copies_rules)

subsection \<open>\<^verbatim>\<open>CloudInitNTP\<close>\<close>

definition CloudInitNTP_type :: "gotype" where
  "CloudInitNTP_type = StructT [
     (''Pools'', SliceT StrT),
     (''Servers'', SliceT StrT),
     (''Peers'', SliceT StrT),
     (''Allow'', SliceT StrT),
     (''NTPClient'', PtrT StrT),
     (''Enabled'', PtrT BoolT),
     (''Config'', PtrT CloudInitNTPConfig_type)]"

definition CloudInitNTP_DeepCopyInto :: "copier" where
  "CloudInitNTP_DeepCopyInto = into [
     (''Pools'', copySlice StrT plain),
     (''Servers'', copySlice StrT plain),
     (''Peers'', copySlice StrT plain),
     (''Allow'', copySlice StrT plain),
     (''NTPClient'', copyPtr StrT plain),
     (''Enabled'', copyPtr BoolT plain),
     (''Config'', copyPtr CloudInitNTPConfig_type CloudInitNTPConfig_DeepCopyInto)]"

definition CloudInitNTP_DeepCopy :: "copier" where
  "CloudInitNTP_DeepCopy = copyPtr CloudInitNTP_type CloudInitNTP_DeepCopyInto"

lemma CloudInitNTP_copies [copies_rules]: "copies CloudInitNTP_type CloudInitNTP_DeepCopyInto"
  by (simp add: CloudInitNTP_type_def CloudInitNTP_DeepCopyInto_def covered_def copies_rules)

lemma CloudInitNTP_DeepCopy_copies [copies_rules]: "copies (PtrT CloudInitNTP_type) CloudInitNTP_DeepCopy"
  by (simp add: CloudInitNTP_DeepCopy_def copies_rules)

subsection \<open>\<^verbatim>\<open>CloudInitKeyboard\<close>\<close>

definition CloudInitKeyboard_type :: "gotype" where
  "CloudInitKeyboard_type = StructT [
     (''Layout'', StrT),
     (''Model'', PtrT StrT),
     (''Variant'', PtrT StrT),
     (''Options'', PtrT StrT)]"

definition CloudInitKeyboard_DeepCopyInto :: "copier" where
  "CloudInitKeyboard_DeepCopyInto = into [
     (''Model'', copyPtr StrT plain),
     (''Variant'', copyPtr StrT plain),
     (''Options'', copyPtr StrT plain)]"

definition CloudInitKeyboard_DeepCopy :: "copier" where
  "CloudInitKeyboard_DeepCopy = copyPtr CloudInitKeyboard_type CloudInitKeyboard_DeepCopyInto"

lemma CloudInitKeyboard_copies [copies_rules]: "copies CloudInitKeyboard_type CloudInitKeyboard_DeepCopyInto"
  by (simp add: CloudInitKeyboard_type_def CloudInitKeyboard_DeepCopyInto_def covered_def copies_rules)

lemma CloudInitKeyboard_DeepCopy_copies [copies_rules]: "copies (PtrT CloudInitKeyboard_type) CloudInitKeyboard_DeepCopy"
  by (simp add: CloudInitKeyboard_DeepCopy_def copies_rules)

subsection \<open>\<^verbatim>\<open>CloudInitPhoneHome\<close>\<close>

definition CloudInitPhoneHome_type :: "gotype" where
  "CloudInitPhoneHome_type = StructT [
     (''URL'', StrT),
     (''Post'', SliceT StrT),
     (''Tries'', PtrT NumT)]"

definition CloudInitPhoneHome_DeepCopyInto :: "copier" where
  "CloudInitPhoneHome_DeepCopyInto = into [
     (''Post'', copySlice StrT plain),
     (''Tries'', copyPtr NumT plain)]"

definition CloudInitPhoneHome_DeepCopy :: "copier" where
  "CloudInitPhoneHome_DeepCopy = copyPtr CloudInitPhoneHome_type CloudInitPhoneHome_DeepCopyInto"

lemma CloudInitPhoneHome_copies [copies_rules]: "copies CloudInitPhoneHome_type CloudInitPhoneHome_DeepCopyInto"
  by (simp add: CloudInitPhoneHome_type_def CloudInitPhoneHome_DeepCopyInto_def covered_def copies_rules)

lemma CloudInitPhoneHome_DeepCopy_copies [copies_rules]: "copies (PtrT CloudInitPhoneHome_type) CloudInitPhoneHome_DeepCopy"
  by (simp add: CloudInitPhoneHome_DeepCopy_def copies_rules)

subsection \<open>\<^verbatim>\<open>CloudInitCloudConfig\<close>\<close>

definition CloudInitCloudConfig_type :: "gotype" where
  "CloudInitCloudConfig_type = StructT [
     (''BootCMD'', SliceT (SliceT StrT)),
     (''Groups'', MapT (SliceT StrT)),
     (''User'', PtrT CloudInitUser_type),
     (''Users'', SliceT CloudInitUser_type),
     (''WriteFiles'', SliceT CloudInitWriteFile_type),
     (''RunCMD'', SliceT (SliceT StrT)),
     (''Growpart'', PtrT CloudInitGrowpart_type),
     (''Mounts'', SliceT (SliceT StrT)),
     (''MountDefaultFields'', SliceT StrT),
     (''Swap'', PtrT CloudInitMountSwap_type),
     (''DeviceAliases'', MapT StrT),
     (''DiskSetup'', MapT CloudInitDisk_type),
     (''FSSetup'', SliceT CloudInitFS_type),
     (''CACerts'', PtrT CloudInitCACerts_type),
     (''PreserveHostname'', PtrT BoolT),
     (''PreferFQDNOverHostname'', PtrT BoolT),
     (''CreateHostnameFile'', PtrT BoolT),
     (''FQDN'', PtrT StrT),
     (''Hostname'', PtrT StrT),
     (''Timezone'', PtrT StrT),
     (''NTP'', PtrT CloudInitNTP_type),
     (''Locale'', PtrT StrT),
     (''LocaleConfigfile'', PtrT StrT),
     (''Keyboard'', PtrT CloudInitKeyboard_type),
     (''PhoneHome'', PtrT CloudInitPhoneHome_type)]"

definition CloudInitCloudConfig_DeepCopyInto :: "copier" where
  "CloudInitCloudConfig_DeepCopyInto = into [
     (''BootCMD'', copySlice (SliceT StrT) (copySlice StrT plain)),
     (''Groups'', copyMap (copySlice StrT plain)),
     (''User'', copyPtr CloudInitUser_type CloudInitUser_DeepCopyInto),
     (''Users'', copySlice CloudInitUser_type CloudInitUser_DeepCopyInto),
     (''WriteFiles'', copySlice CloudInitWriteFile_type CloudInitWriteFile_DeepCopyInto),
     (''RunCMD'', copySlice (SliceT StrT) (copySlice StrT plain)),
     (''Growpart'', copyPtr CloudInitGrowpart_type CloudInitGrowpart_DeepCopyInto),
     (''Mounts'', copySlice (SliceT StrT) (copySlice StrT plain)),
     (''MountDefaultFields'', copySlice StrT plain),
     (''Swap'', copyPtr CloudInitMountSwap_type CloudInitMountSwap_DeepCopyInto),
     (''DeviceAliases'', copyMap plain),
     (''DiskSetup'', copyMap (starDeepCopy CloudInitDisk_DeepCopy)),
     (''FSSetup'', copySlice CloudInitFS_type CloudInitFS_DeepCopyInto),
     (''CACerts'', copyPtr CloudInitCACerts_type CloudInitCACerts_DeepCopyInto),
     (''PreserveHostname'', copyPtr BoolT plain),
     (''PreferFQDNOverHostname'', copyPtr BoolT plain),
     (''CreateHostnameFile'', copyPtr BoolT plain),
     (''FQDN'', copyPtr StrT plain),
     (''Hostname'', copyPtr StrT plain),
     (''Timezone'', copyPtr StrT plain),
     (''NTP'', copyPtr CloudInitNTP_type CloudInitNTP_DeepCopyInto),
     (''Locale'', copyPtr StrT plain),
     (''LocaleConfigfile'', copyPtr StrT plain),
     (''Keyboard'', copyPtr CloudInitKeyboard_type CloudInitKeyboard_DeepCopyInto),
     (''PhoneHome'', copyPtr CloudInitPhoneHome_type CloudInitPhoneHome_DeepCopyInto)]"

definition CloudInitCloudConfig_DeepCopy :: "copier" where
  "CloudInitCloudConfig_DeepCopy = copyPtr CloudInitCloudConfig_type CloudInitCloudConfig_DeepCopyInto"

lemma CloudInitCloudConfig_copies [copies_rules]: "copies CloudInitCloudConfig_type CloudInitCloudConfig_DeepCopyInto"
  by (simp add: CloudInitCloudConfig_type_def CloudInitCloudConfig_DeepCopyInto_def covered_def copies_rules)

lemma CloudInitCloudConfig_DeepCopy_copies [copies_rules]: "copies (PtrT CloudInitCloudConfig_type) CloudInitCloudConfig_DeepCopy"
  by (simp add: CloudInitCloudConfig_DeepCopy_def copies_rules)

subsection \<open>\<^verbatim>\<open>CloudInitMatch\<close>\<close>

definition CloudInitMatch_type :: "gotype" where
  "CloudInitMatch_type = StructT [
     (''Name'', PtrT StrT),
     (''MacAddress'', PtrT StrT),
     (''Driver'', PtrT StrT)]"

definition CloudInitMatch_DeepCopyInto :: "copier" where
  "CloudInitMatch_DeepCopyInto = into [
     (''Name'', copyPtr StrT plain),
     (''MacAddress'', copyPtr StrT plain),
     (''Driver'', copyPtr StrT plain)]"

definition CloudInitMatch_DeepCopy :: "copier" where
  "CloudInitMatch_DeepCopy = copyPtr CloudInitMatch_type CloudInitMatch_DeepCopyInto"

lemma CloudInitMatch_copies [copies_rules]: "copies CloudInitMatch_type CloudInitMatch_DeepCopyInto"
  by (simp add: CloudInitMatch_type_def CloudInitMatch_DeepCopyInto_def covered_def copies_rules)

lemma CloudInitMatch_DeepCopy_copies [copies_rules]: "copies (PtrT CloudInitMatch_type) CloudInitMatch_DeepCopy"
  by (simp add: CloudInitMatch_DeepCopy_def copies_rules)

subsection \<open>\<^verbatim>\<open>CloudInitPhysicalProperties\<close>\<close>

definition CloudInitPhysicalProperties_type :: "gotype" where
  "CloudInitPhysicalProperties_type = StructT [
     (''Match'', PtrT CloudInitMatch_type),
     (''SetName'', PtrT StrT),
     (''WakeOnLAN'', PtrT BoolT)]"

definition CloudInitPhysicalProperties_DeepCopyInto :: "copier" where
  "CloudInitPhysicalProperties_DeepCopyInto = into [
     (''Match'', copyPtr CloudInitMatch_type CloudInitMatch_DeepCopyInto),
     (''SetName'', copyPtr StrT plain),
     (''WakeOnLAN'', copyPtr BoolT plain)]"

definition CloudInitPhysicalProperties_DeepCopy :: "copier" where
  "CloudInitPhysicalProperties_DeepCopy = copyPtr CloudInitPhysicalProperties_type CloudInitPhysicalProperties_DeepCopyInto"

lemma CloudInitPhysicalProperties_copies [copies_rules]: "copies CloudInitPhysicalProperties_type CloudInitPhysicalProperties_DeepCopyInto"
  by (simp add: CloudInitPhysicalProperties_type_def CloudInitPhysicalProperties_DeepCopyInto_def covered_def copies_rules)

lemma CloudInitPhysicalProperties_DeepCopy_copies [copies_rules]: "copies (PtrT CloudInitPhysicalProperties_type) CloudInitPhysicalProperties_DeepCopy"
  by (simp add: CloudInitPhysicalProperties_DeepCopy_def copies_rules)

subsection \<open>\<^verbatim>\<open>CloudInitDHCPOverrides\<close>\<close>

definition CloudInitDHCPOverrides_type :: "gotype" where
  "CloudInitDHCPOverrides_type = StructT [
     (''UseDNS'', PtrT BoolT),
     (''UseNTP'', PtrT BoolT),
     (''SendHostName'', PtrT BoolT),
     (''UseMTU'', PtrT BoolT),
     (''Hostname'', PtrT StrT),
     (''UseRoutes'', PtrT BoolT),
     (''RouteMetric'', PtrT NumT),
     (''UseDomains'', PtrT BoolT)]"

definition CloudInitDHCPOverrides_DeepCopyInto :: "copier" where
  "CloudInitDHCPOverrides_DeepCopyInto = into [
     (''UseDNS'', copyPtr BoolT plain),
     (''UseNTP'', copyPtr BoolT plain),
     (''SendHostName'', copyPtr BoolT plain),
     (''UseMTU'', copyPtr BoolT plain),
     (''Hostname'', copyPtr StrT plain),
     (''UseRoutes'', copyPtr BoolT plain),
     (''RouteMetric'', copyPtr NumT plain),
     (''UseDomains'', copyPtr BoolT plain)]"

definition CloudInitDHCPOverrides_DeepCopy :: "copier" where
  "CloudInitDHCPOverrides_DeepCopy = copyPtr CloudInitDHCPOverrides_type CloudInitDHCPOverrides_DeepCopyInto"

lemma CloudInitDHCPOverrides_copies [copies_rules]: "copies CloudInitDHCPOverrides_type CloudInitDHCPOverrides_DeepCopyInto"
  by (simp add: CloudInitDHCPOverrides_type_def CloudInitDHCPOverrides_DeepCopyInto_def covered_def copies_rules)

lemma CloudInitDHCPOverrides_DeepCopy_copies [copies_rules]: "copies (PtrT CloudInitDHCPOverrides_type) CloudInitDHCPOverrides_DeepCopy"
  by (simp add: CloudInitDHCPOverrides_DeepCopy_def copies_rules)

subsection \<open>\<^verbatim>\<open>CloudInitNameservers\<close>\<close>

definition CloudInitNameservers_type :: "gotype" where
  "CloudInitNameservers_type = StructT [
     (''Addresses'', SliceT StrT),
     (''Search'', SliceT StrT)]"

definition CloudInitNameservers_DeepCopyInto :: "copier" where
  "CloudInitNameservers_DeepCopyInto = into [
     (''Addresses'', copySlice StrT plain),
     (''Search'', copySlice StrT plain)]"

definition CloudInitNameservers_DeepCopy :: "copier" where
  "CloudInitNameservers_DeepCopy = copyPtr CloudInitNameservers_type CloudInitNameservers_DeepCopyInto"

lemma CloudInitNameservers_copies [copies_rules]: "copies CloudInitNameservers_type CloudInitNameservers_DeepCopyInto"
  by (simp add: CloudInitNameservers_type_def CloudInitNameservers_DeepCopyInto_def covered_def copies_rules)

lemma CloudInitNameservers_DeepCopy_copies [copies_rules]: "copies (PtrT CloudInitNameservers_type) CloudInitNameservers_DeepCopy"
  by (simp add: CloudInitNameservers_DeepCopy_def copies_rules)

subsection \<open>\<^verbatim>\<open>CloudInitRoute\<close>\<close>

definition CloudInitRoute_type :: "gotype" where
  "CloudInitRoute_type = StructT [
     (''To'', StrT),
     (''Via'', StrT),
     (''Metric'', PtrT NumT)]"

definition CloudInitRoute_DeepCopyInto :: "copier" where
  "CloudInitRoute_DeepCopyInto = into [
     (''Metric'', copyPtr NumT plain)]"

definition CloudInitRoute_DeepCopy :: "copier" where
  "CloudInitRoute_DeepCopy = copyPtr CloudInitRoute_type CloudInitRoute_DeepCopyInto"

lemma CloudInitRoute_copies [copies_rules]: "copies CloudInitRoute_type CloudInitRoute_DeepCopyInto"
  by (simp add: CloudInitRoute_type_def CloudInitRoute_DeepCopyInto_def covered_def copies_rules)

lemma CloudInitRoute_DeepCopy_copies [copies_rules]: "copies (PtrT CloudInitRoute_type) CloudInitRoute_DeepCopy"
  by (simp add: CloudInitRoute_DeepCopy_def copies_rules)

subsection \<open>\<^verbatim>\<open>NetplanRAOverrides\<close>\<close>

definition NetplanRAOverrides_type :: "gotype" where
  "NetplanRAOverrides_type = StructT [
     (''UseDNS'', PtrT BoolT),
     (''UseDomains'', PtrT StrT),
     (''Table'', PtrT NumT)]"

definition NetplanRAOverrides_DeepCopyInto :: "copier" where
  "NetplanRAOverrides_DeepCopyInto = into [
     (''UseDNS'', copyPtr BoolT plain),
     (''UseDomains'', copyPtr StrT plain),
     (''Table'', copyPtr NumT plain)]"

definition NetplanRAOverrides_DeepCopy :: "copier" where
  "NetplanRAOverrides_DeepCopy = copyPtr NetplanRAOverrides_type NetplanRAOverrides_DeepCopyInto"

lemma NetplanRAOverrides_copies [copies_rules]: "copies NetplanRAOverrides_type NetplanRAOverrides_DeepCopyInto"
  by (simp add: NetplanRAOverrides_type_def NetplanRAOverrides_DeepCopyInto_def covered_def copies_rules)

lemma NetplanRAOverrides_DeepCopy_copies [copies_rules]: "copies (PtrT NetplanRAOverrides_type) NetplanRAOverrides_DeepCopy"
  by (simp add: NetplanRAOverrides_DeepCopy_def copies_rules)

subsection \<open>\<^verbatim>\<open>NetplanPassthrough\<close>\<close>

definition NetplanPassthrough_type :: "gotype" where
  "NetplanPassthrough_type = StructT [
     (''AcceptRA'', PtrT BoolT),
     (''RAOverrides'', PtrT NetplanRAOverrides_type)]"

definition NetplanPassthrough_DeepCopyInto :: "copier" where
  "NetplanPassthrough_DeepCopyInto = into [
     (''AcceptRA'', copyPtr BoolT plain),
     (''RAOverrides'', copyPtr NetplanRAOverrides_type NetplanRAOverrides_DeepCopyInto)]"

definition NetplanPassthrough_DeepCopy :: "copier" where
  "NetplanPassthrough_DeepCopy = copyPtr NetplanPassthrough_type NetplanPassthrough_DeepCopyInto"

lemma NetplanPassthrough_copies [copies_rules]: "copies NetplanPassthrough_type NetplanPassthrough_DeepCopyInto"
  by (simp add: NetplanPassthrough_type_def NetplanPassthrough_DeepCopyInto_def covered_def copies_rules)

lemma NetplanPassthrough_DeepCopy_copies [copies_rules]: "copies (PtrT NetplanPassthrough_type) NetplanPassthrough_DeepCopy"
  by (simp add: NetplanPassthrough_DeepCopy_def copies_rules)

subsection \<open>\<^verbatim>\<open>CloudInitNetworkProperties\<close>\<close>

definition CloudInitNetworkProperties_type :: "gotype" where
  "CloudInitNetworkProperties_type = StructT [
     (''Renderer'', PtrT StrT),
     (''DHCP4'', PtrT BoolT),
     (''DHCP6'', PtrT BoolT),
     (''DHCP4Overrides'', PtrT CloudInitDHCPOverrides_type),
     (''DHCP6Overrides'', PtrT CloudInitDHCPOverrides_type),
     (''Addresses'', SliceT StrT),
     (''MTU'', PtrT NumT),
     (''Optional'', PtrT BoolT),
     (''Nameservers'', PtrT CloudInitNameservers_type),
     (''Routes'', SliceT CloudInitRoute_type),
     (''NetplanPassthrough'', NetplanPassthrough_type)]"

definition CloudInitNetworkProperties_DeepCopyInto :: "copier" where
  "CloudInitNetworkProperties_DeepCopyInto = into [
     (''Renderer'', copyPtr StrT plain),
     (''DHCP4'', copyPtr BoolT plain),
     (''DHCP6'', copyPtr BoolT plain),
     (''DHCP4Overrides'', copyPtr CloudInitDHCPOverrides_type CloudInitDHCPOverrides_DeepCopyInto),
     (''DHCP6Overrides'', copyPtr CloudInitDHCPOverrides_type CloudInitDHCPOverrides_DeepCopyInto),
     (''Addresses'', copySlice StrT plain),
     (''MTU'', copyPtr NumT plain),
     (''Optional'', copyPtr BoolT plain),
     (''Nameservers'', copyPtr CloudInitNameservers_type CloudInitNameservers_DeepCopyInto),
     (''Routes'', copySlice CloudInitRoute_type CloudInitRoute_DeepCopyInto),
     (''NetplanPassthrough'', NetplanPassthrough_DeepCopyInto)]"

definition CloudInitNetworkProperties_DeepCopy :: "copier" where
  "CloudInitNetworkProperties_DeepCopy = copyPtr CloudInitNetworkProperties_type CloudInitNetworkProperties_DeepCopyInto"

lemma CloudInitNetworkProperties_copies [copies_rules]: "copies CloudInitNetworkProperties_type CloudInitNetworkProperties_DeepCopyInto"
  by (simp add: CloudInitNetworkProperties_type_def CloudInitNetworkProperties_DeepCopyInto_def covered_def copies_rules)

lemma CloudInitNetworkProperties_DeepCopy_copies [copies_rules]: "copies (PtrT CloudInitNetworkProperties_type) CloudInitNetworkProperties_DeepCopy"
  by (simp add: CloudInitNetworkProperties_DeepCopy_def copies_rules)

subsection \<open>\<^verbatim>\<open>CloudInitEthernet\<close>\<close>

definition CloudInitEthernet_type :: "gotype" where
  "CloudInitEthernet_type = StructT [
     (''CloudInitPhysicalProperties'', CloudInitPhysicalProperties_type),
     (''CloudInitNetworkProperties'', CloudInitNetworkProperties_type)]"

definition CloudInitEthernet_DeepCopyInto :: "copier" where
  "CloudInitEthernet_DeepCopyInto = into [
     (''CloudInitPhysicalProperties'', CloudInitPhysicalProperties_DeepCopyInto),
     (''CloudInitNetworkProperties'', CloudInitNetworkProperties_DeepCopyInto)]"

definition CloudInitEthernet_DeepCopy :: "copier" where
  "CloudInitEthernet_DeepCopy = copyPtr CloudInitEthernet_type CloudInitEthernet_DeepCopyInto"

lemma CloudInitEthernet_copies [copies_rules]: "copies CloudInitEthernet_type CloudInitEthernet_DeepCopyInto"
  by (simp add: CloudInitEthernet_type_def CloudInitEthernet_DeepCopyInto_def covered_def copies_rules)

lemma CloudInitEthernet_DeepCopy_copies [copies_rules]: "copies (PtrT CloudInitEthernet_type) CloudInitEthernet_DeepCopy"
  by (simp add: CloudInitEthernet_DeepCopy_def copies_rules)

subsection \<open>\<^verbatim>\<open>CloudInitBondParameters\<close>\<close>

definition CloudInitBondParameters_type :: "gotype" where
  "CloudInitBondParameters_type = StructT [
     (''Mode'', PtrT StrT),
     (''LACPRate'', PtrT StrT),
     (''MIIMonitorInterval'', PtrT NumT),
     (''MinLinks'', PtrT NumT),
     (''TransmitHashPolicy'', PtrT StrT),
     (''ADSelect'', PtrT StrT),
     (''AllSlavesActive'', PtrT BoolT),
     (''ARPInterval'', PtrT NumT),
     (''ARPIPTargets'', SliceT StrT),
     (''ARPValidate'', PtrT StrT),
     (''ARPAllTargets'', PtrT StrT),
     (''UpDelay'', PtrT NumT),
     (''DownDelay'', PtrT NumT),
     (''FailOverMACPolicy'', PtrT StrT),
     (''GratuitousARP'', PtrT NumT),
     (''PacketsPerSlave'', PtrT NumT),
     (''PrimaryReselectPolicy'', PtrT StrT),
     (''LearnPacketInterval'', PtrT NumT)]"

definition CloudInitBondParameters_DeepCopyInto :: "copier" where
  "CloudInitBondParameters_DeepCopyInto = into [
     (''Mode'', copyPtr StrT plain),
     (''LACPRate'', copyPtr StrT plain),
     (''MIIMonitorInterval'', copyPtr NumT plain),
     (''MinLinks'', copyPtr NumT plain),
     (''TransmitHashPolicy'', copyPtr StrT plain),
     (''ADSelect'', copyPtr StrT plain),
     (''AllSlavesActive'', copyPtr BoolT plain),
     (''ARPInterval'', copyPtr NumT plain),
     (''ARPIPTargets'', copySlice StrT plain),
     (''ARPValidate'', copyPtr StrT plain),
     (''ARPAllTargets'', copyPtr StrT plain),
     (''UpDelay'', copyPtr NumT plain),
     (''DownDelay'', copyPtr NumT plain),
     (''FailOverMACPolicy'', copyPtr StrT plain),
     (''GratuitousARP'', copyPtr NumT plain),
     (''PacketsPerSlave'', copyPtr NumT plain),
     (''PrimaryReselectPolicy'', copyPtr StrT plain),
     (''LearnPacketInterval'', copyPtr NumT plain)]"

definition CloudInitBondParameters_DeepCopy :: "copier" where
  "CloudInitBondParameters_DeepCopy = copyPtr CloudInitBondParameters_type CloudInitBondParameters_DeepCopyInto"

lemma CloudInitBondParameters_copies [copies_rules]: "copies CloudInitBondParameters_type CloudInitBondParameters_DeepCopyInto"
  by (simp add: CloudInitBondParameters_type_def CloudInitBondParameters_DeepCopyInto_def covered_def copies_rules)

lemma CloudInitBondParameters_DeepCopy_copies [copies_rules]: "copies (PtrT CloudInitBondParameters_type) CloudInitBondParameters_DeepCopy"
  by (simp add: CloudInitBondParameters_DeepCopy_def copies_rules)

subsection \<open>\<^verbatim>\<open>CloudInitBond\<close>\<close>

definition CloudInitBond_type :: "gotype" where
  "CloudInitBond_type = StructT [
     (''CloudInitNetworkProperties'', CloudInitNetworkProperties_type),
     (''Interfaces'', SliceT StrT),
     (''Parameters'', PtrT CloudInitBondParameters_type)]"

definition CloudInitBond_DeepCopyInto :: "copier" where
  "CloudInitBond_DeepCopyInto = into [
     (''CloudInitNetworkProperties'', CloudInitNetworkProperties_DeepCopyInto),
     (''Interfaces'', copySlice StrT plain),
     (''Parameters'', copyPtr CloudInitBondParameters_type CloudInitBondParameters_DeepCopyInto)]"

definition CloudInitBond_DeepCopy :: "copier" where
  "CloudInitBond_DeepCopy = copyPtr CloudInitBond_type CloudInitBond_DeepCopyInto"

lemma CloudInitBond_copies [copies_rules]: "copies CloudInitBond_type CloudInitBond_DeepCopyInto"
  by (simp add: CloudInitBond_type_def CloudInitBond_DeepCopyInto_def covered_def copies_rules)

lemma CloudInitBond_DeepCopy_copies [copies_rules]: "copies (PtrT CloudInitBond_type) CloudInitBond_DeepCopy"
  by (simp add: CloudInitBond_DeepCopy_def copies_rules)

subsection \<open>\<^verbatim>\<open>CloudInitBridgeParameters\<close>\<close>

definition CloudInitBridgeParameters_type :: "gotype" where
  "CloudInitBridgeParameters_type = StructT [
     (''AgeingTime'', PtrT NumT),
     (''Priority'', PtrT NumT),
     (''ForwardDelay'', PtrT NumT),
     (''HelloTime'', PtrT NumT),
     (''MaxAge'', PtrT NumT),
     (''PathCost'', PtrT NumT),
     (''STP'', PtrT BoolT)]"

definition CloudInitBridgeParameters_DeepCopyInto :: "copier" where
  "CloudInitBridgeParameters_DeepCopyInto = into [
     (''AgeingTime'', copyPtr NumT plain),
     (''Priority'', copyPtr NumT plain),
     (''ForwardDelay'', copyPtr NumT plain),
     (''HelloTime'', copyPtr NumT plain),
     (''MaxAge'', copyPtr NumT plain),
     (''PathCost'', copyPtr NumT plain),
     (''STP'', copyPtr BoolT plain)]"

definition CloudInitBridgeParameters_DeepCopy :: "copier" where
  "CloudInitBridgeParameters_DeepCopy = copyPtr CloudInitBridgeParameters_type CloudInitBridgeParameters_DeepCopyInto"

lemma CloudInitBridgeParameters_copies [copies_rules]: "copies CloudInitBridgeParameters_type CloudInitBridgeParameters_DeepCopyInto"
  by (simp add: CloudInitBridgeParameters_type_def CloudInitBridgeParameters_DeepCopyInto_def covered_def copies_rules)

lemma CloudInitBridgeParameters_DeepCopy_copies [copies_rules]: "copies (PtrT CloudInitBridgeParameters_type) CloudInitBridgeParameters_DeepCopy"
  by (simp add: CloudInitBridgeParameters_DeepCopy_def copies_rules)

subsection \<open>\<^verbatim>\<open>CloudInitBridge\<close>\<close>

definition CloudInitBridge_type :: "gotype" where
  "CloudInitBridge_type = StructT [
     (''CloudInitNetworkProperties'', CloudInitNetworkProperties_type),
     (''Interfaces'', SliceT StrT),
     (''Parameters'', PtrT CloudInitBridgeParameters_type)]"

definition CloudInitBridge_DeepCopyInto :: "copier" where
  "CloudInitBridge_DeepCopyInto = into [
     (''CloudInitNetworkProperties'', CloudInitNetworkProperties_DeepCopyInto),
     (''Interfaces'', copySlice StrT plain),
     (''Parameters'', copyPtr CloudInitBridgeParameters_type CloudInitBridgeParameters_DeepCopyInto)]"

definition CloudInitBridge_DeepCopy :: "copier" where
  "CloudInitBridge_DeepCopy = copyPtr CloudInitBridge_type CloudInitBridge_DeepCopyInto"

lemma CloudInitBridge_copies [copies_rules]: "copies CloudInitBridge_type CloudInitBridge_DeepCopyInto"
  by (simp add: CloudInitBridge_type_def CloudInitBridge_DeepCopyInto_def covered_def copies_rules)

lemma CloudInitBridge_DeepCopy_copies [copies_rules]: "copies (PtrT CloudInitBridge_type) CloudInitBridge_DeepCopy"
  by (simp add: CloudInitBridge_DeepCopy_def copies_rules)

subsection \<open>\<^verbatim>\<open>CloudInitVLAN\<close>\<close>

definition CloudInitVLAN_type :: "gotype" where
  "CloudInitVLAN_type = StructT [
     (''CloudInitNetworkProperties'', CloudInitNetworkProperties_type),
     (''ID'', NumT),
     (''Link'', StrT)]"

definition CloudInitVLAN_DeepCopyInto :: "copier" where
  "CloudInitVLAN_DeepCopyInto = into [
     (''CloudInitNetworkProperties'', CloudInitNetworkProperties_DeepCopyInto)]"

definition CloudInitVLAN_DeepCopy :: "copier" where
  "CloudInitVLAN_DeepCopy = copyPtr CloudInitVLAN_type CloudInitVLAN_DeepCopyInto"

lemma CloudInitVLAN_copies [copies_rules]: "copies CloudInitVLAN_type CloudInitVLAN_DeepCopyInto"
  by (simp add: CloudInitVLAN_type_def CloudInitVLAN_DeepCopyInto_def covered_def copies_rules)

lemma CloudInitVLAN_DeepCopy_copies [copies_rules]: "copies (PtrT CloudInitVLAN_type) CloudInitVLAN_DeepCopy"
  by (simp add: CloudInitVLAN_DeepCopy_def copies_rules)

subsection \<open>\<^verbatim>\<open>CloudInitNetworkConfig\<close>\<close>

definition CloudInitNetworkConfig_type :: "gotype" where
  "CloudInitNetworkConfig_type = StructT [
     (''Ethernets'', MapT CloudInitEthernet_type),
     (''Bonds'', MapT CloudInitBond_type),
     (''Bridges'', MapT CloudInitBridge_type),
     (''VLANs'', MapT CloudInitVLAN_type)]"

definition CloudInitNetworkConfig_DeepCopyInto :: "copier" where
  "CloudInitNetworkConfig_DeepCopyInto = into [
     (''Ethernets'', copyMap (starDeepCopy CloudInitEthernet_DeepCopy)),
     (''Bonds'', copyMap (starDeepCopy CloudInitBond_DeepCopy)),
     (''Bridges'', copyMap (starDeepCopy CloudInitBridge_DeepCopy)),
     (''VLANs'', copyMap (starDeepCopy CloudInitVLAN_DeepCopy))]"

definition CloudInitNetworkConfig_DeepCopy :: "copier" where
  "CloudInitNetworkConfig_DeepCopy = copyPtr CloudInitNetworkConfig_type CloudInitNetworkConfig_DeepCopyInto"

lemma CloudInitNetworkConfig_copies [copies_rules]: "copies CloudInitNetworkConfig_type CloudInitNetworkConfig_DeepCopyInto"
  by (simp add: CloudInitNetworkConfig_type_def CloudInitNetworkConfig_DeepCopyInto_def covered_def copies_rules)

lemma CloudInitNetworkConfig_DeepCopy_copies [copies_rules]: "copies (PtrT CloudInitNetworkConfig_type) CloudInitNetworkConfig_DeepCopy"
  by (simp add: CloudInitNetworkConfig_DeepCopy_def copies_rules)

end
