(* ===== verification/DeepCopies.thy ===== *)
theory DeepCopies
  imports CloudInitCopies
begin

text \<open>
  The generated functions \<^verbatim>\<open>DeepCopyInto\<close>, \<^verbatim>\<open>DeepCopy\<close> and \<^verbatim>\<open>DeepCopyObject\<close> of the API kinds and their
  parts, from \<^verbatim>\<open>api/v1alpha1/zz_generated.deepcopy.go\<close>, with the types of their fields
  (\<^verbatim>\<open>api/v1alpha1/*_types.go\<close>), and what they promise together: a deep copy reads as its original and
  shares no memory with it.

  The types of package \<^verbatim>\<open>metav1\<close> that a kind embeds are not in the repository: \<open>metav1\<close> gives the
  shape of each and its \<^verbatim>\<open>DeepCopyInto\<close>, and \<open>metav1_ok\<close> says what that package documents, that a deep
  copy is one. \<^verbatim>\<open>TypeMeta\<close> consists of strings.
\<close>

record metav1 =
  TypeMeta_type :: gotype
  ObjectMeta_type :: gotype
  ObjectMeta_DeepCopyInto :: copier
  ListMeta_type :: gotype
  ListMeta_DeepCopyInto :: copier
  Condition_type :: gotype
  Condition_DeepCopyInto :: copier

definition metav1_ok :: "metav1 \<Rightarrow> bool" where
  "metav1_ok m \<longleftrightarrow> flat (TypeMeta_type m) \<and>
     copies (ObjectMeta_type m) (ObjectMeta_DeepCopyInto m) \<and>
     copies (ListMeta_type m) (ListMeta_DeepCopyInto m) \<and>
     copies (Condition_type m) (Condition_DeepCopyInto m)"

subsection \<open>\<^verbatim>\<open>ResourceRef\<close>\<close>

definition ResourceRef_type :: "gotype" where
  "ResourceRef_type = StructT [
     (''Name'', StrT)]"

definition ResourceRef_DeepCopyInto :: "copier" where
  "ResourceRef_DeepCopyInto = into []"

definition ResourceRef_DeepCopy :: "copier" where
  "ResourceRef_DeepCopy = copyPtr ResourceRef_type ResourceRef_DeepCopyInto"

lemma flat_ResourceRef [simp]: "flat ResourceRef_type"
  by (simp add: ResourceRef_type_def)

lemma ResourceRef_copies [copies_rules]: "copies ResourceRef_type ResourceRef_DeepCopyInto"
  by (simp add: ResourceRef_type_def ResourceRef_DeepCopyInto_def covered_def copies_rules)

lemma ResourceRef_DeepCopy_copies [copies_rules]: "copies (PtrT ResourceRef_type) ResourceRef_DeepCopy"
  by (simp add: ResourceRef_DeepCopy_def copies_rules)

subsection \<open>\<^verbatim>\<open>AuthSpec\<close>\<close>

definition AuthSpec_type :: "gotype" where
  "AuthSpec_type = StructT [
     (''Type'', StrT),
     (''SecretRef'', ResourceRef_type),
     (''Verify'', PtrT BoolT),
     (''Ca'', PtrT StrT),
     (''KnownHosts'', PtrT StrT),
     (''Username'', PtrT StrT)]"

definition AuthSpec_DeepCopyInto :: "copier" where
  "AuthSpec_DeepCopyInto = into [
     (''SecretRef'', plain),
     (''Verify'', copyPtr BoolT plain),
     (''Ca'', copyPtr StrT plain),
     (''KnownHosts'', copyPtr StrT plain),
     (''Username'', copyPtr StrT plain)]"

definition AuthSpec_DeepCopy :: "copier" where
  "AuthSpec_DeepCopy = copyPtr AuthSpec_type AuthSpec_DeepCopyInto"

lemma AuthSpec_copies [copies_rules]: "copies AuthSpec_type AuthSpec_DeepCopyInto"
  by (simp add: AuthSpec_type_def AuthSpec_DeepCopyInto_def covered_def copies_rules)

lemma AuthSpec_DeepCopy_copies [copies_rules]: "copies (PtrT AuthSpec_type) AuthSpec_DeepCopy"
  by (simp add: AuthSpec_DeepCopy_def copies_rules)

subsection \<open>\<^verbatim>\<open>AuthStatus\<close>\<close>

definition AuthStatus_type :: "metav1 \<Rightarrow> gotype" where
  "AuthStatus_type m = StructT [
     (''Conditions'', SliceT (Condition_type m))]"

definition AuthStatus_DeepCopyInto :: "metav1 \<Rightarrow> copier" where
  "AuthStatus_DeepCopyInto m = into [
     (''Conditions'', copySlice (Condition_type m) (Condition_DeepCopyInto m))]"

definition AuthStatus_DeepCopy :: "metav1 \<Rightarrow> copier" where
  "AuthStatus_DeepCopy m = copyPtr (AuthStatus_type m) (AuthStatus_DeepCopyInto m)"

lemma AuthStatus_copies [copies_rules]: "metav1_ok m \<Longrightarrow> copies (AuthStatus_type m) (AuthStatus_DeepCopyInto m)"
  by (simp add: AuthStatus_type_def AuthStatus_DeepCopyInto_def covered_def copies_rules metav1_ok_def)

lemma AuthStatus_DeepCopy_copies [copies_rules]: "metav1_ok m \<Longrightarrow> copies (PtrT (AuthStatus_type m)) (AuthStatus_DeepCopy m)"
  by (simp add: AuthStatus_DeepCopy_def copies_rules)

subsection \<open>\<^verbatim>\<open>Auth\<close>\<close>

definition Auth_type :: "metav1 \<Rightarrow> gotype" where
  "Auth_type m = StructT [
     (''TypeMeta'', TypeMeta_type m),
     (''ObjectMeta'', ObjectMeta_type m),
     (''Spec'', AuthSpec_type),
     (''Status'', AuthStatus_type m)]"

definition Auth_DeepCopyInto :: "metav1 \<Rightarrow> copier" where
  "Auth_DeepCopyInto m = into [
     (''TypeMeta'', plain),
     (''ObjectMeta'', ObjectMeta_DeepCopyInto m),
     (''Spec'', AuthSpec_DeepCopyInto),
     (''Status'', AuthStatus_DeepCopyInto m)]"

definition Auth_DeepCopy :: "metav1 \<Rightarrow> copier" where
  "Auth_DeepCopy m = copyPtr (Auth_type m) (Auth_DeepCopyInto m)"

definition Auth_DeepCopyObject :: "metav1 \<Rightarrow> val \<Rightarrow> (heap, val option) prog" where
  "Auth_DeepCopyObject m = asObject (Auth_DeepCopy m)"

lemma Auth_copies [copies_rules]: "metav1_ok m \<Longrightarrow> copies (Auth_type m) (Auth_DeepCopyInto m)"
  by (simp add: Auth_type_def Auth_DeepCopyInto_def covered_def copies_rules metav1_ok_def)

lemma Auth_DeepCopy_copies [copies_rules]: "metav1_ok m \<Longrightarrow> copies (PtrT (Auth_type m)) (Auth_DeepCopy m)"
  by (simp add: Auth_DeepCopy_def copies_rules)

subsection \<open>\<^verbatim>\<open>AuthList\<close>\<close>

definition AuthList_type :: "metav1 \<Rightarrow> gotype" where
  "AuthList_type m = StructT [
     (''TypeMeta'', TypeMeta_type m),
     (''ListMeta'', ListMeta_type m),
     (''Items'', SliceT (Auth_type m))]"

definition AuthList_DeepCopyInto :: "metav1 \<Rightarrow> copier" where
  "AuthList_DeepCopyInto m = into [
     (''TypeMeta'', plain),
     (''ListMeta'', ListMeta_DeepCopyInto m),
     (''Items'', copySlice (Auth_type m) (Auth_DeepCopyInto m))]"

definition AuthList_DeepCopy :: "metav1 \<Rightarrow> copier" where
  "AuthList_DeepCopy m = copyPtr (AuthList_type m) (AuthList_DeepCopyInto m)"

definition AuthList_DeepCopyObject :: "metav1 \<Rightarrow> val \<Rightarrow> (heap, val option) prog" where
  "AuthList_DeepCopyObject m = asObject (AuthList_DeepCopy m)"

lemma AuthList_copies [copies_rules]: "metav1_ok m \<Longrightarrow> copies (AuthList_type m) (AuthList_DeepCopyInto m)"
  by (simp add: AuthList_type_def AuthList_DeepCopyInto_def covered_def copies_rules metav1_ok_def)

lemma AuthList_DeepCopy_copies [copies_rules]: "metav1_ok m \<Longrightarrow> copies (PtrT (AuthList_type m)) (AuthList_DeepCopy m)"
  by (simp add: AuthList_DeepCopy_def copies_rules)

subsection \<open>\<^verbatim>\<open>ExternalResourceMeta\<close>\<close>

definition ExternalResourceMeta_type :: "gotype" where
  "ExternalResourceMeta_type = StructT [
     (''Name'', StrT),
     (''GenerateName'', StrT)]"

definition ExternalResourceMeta_DeepCopyInto :: "copier" where
  "ExternalResourceMeta_DeepCopyInto = into []"

definition ExternalResourceMeta_DeepCopy :: "copier" where
  "ExternalResourceMeta_DeepCopy = copyPtr ExternalResourceMeta_type ExternalResourceMeta_DeepCopyInto"

lemma flat_ExternalResourceMeta [simp]: "flat ExternalResourceMeta_type"
  by (simp add: ExternalResourceMeta_type_def)

lemma ExternalResourceMeta_copies [copies_rules]: "copies ExternalResourceMeta_type ExternalResourceMeta_DeepCopyInto"
  by (simp add: ExternalResourceMeta_type_def ExternalResourceMeta_DeepCopyInto_def covered_def copies_rules)

lemma ExternalResourceMeta_DeepCopy_copies [copies_rules]: "copies (PtrT ExternalResourceMeta_type) ExternalResourceMeta_DeepCopy"
  by (simp add: ExternalResourceMeta_DeepCopy_def copies_rules)

subsection \<open>\<^verbatim>\<open>CloudInitSpec\<close>\<close>

definition CloudInitSpec_type :: "gotype" where
  "CloudInitSpec_type = StructT [
     (''ExternalResourceMeta'', ExternalResourceMeta_type),
     (''PoolRef'', ResourceRef_type),
     (''Metadata'', PtrT CloudInitMetadata_type),
     (''UserData'', PtrT CloudInitCloudConfig_type),
     (''VendorData'', PtrT CloudInitCloudConfig_type),
     (''NetworkConfig'', PtrT CloudInitNetworkConfig_type)]"

definition CloudInitSpec_DeepCopyInto :: "copier" where
  "CloudInitSpec_DeepCopyInto = into [
     (''ExternalResourceMeta'', plain),
     (''PoolRef'', plain),
     (''Metadata'', copyPtr CloudInitMetadata_type CloudInitMetadata_DeepCopyInto),
     (''UserData'', copyPtr CloudInitCloudConfig_type CloudInitCloudConfig_DeepCopyInto),
     (''VendorData'', copyPtr CloudInitCloudConfig_type CloudInitCloudConfig_DeepCopyInto),
     (''NetworkConfig'', copyPtr CloudInitNetworkConfig_type CloudInitNetworkConfig_DeepCopyInto)]"

definition CloudInitSpec_DeepCopy :: "copier" where
  "CloudInitSpec_DeepCopy = copyPtr CloudInitSpec_type CloudInitSpec_DeepCopyInto"

lemma CloudInitSpec_copies [copies_rules]: "copies CloudInitSpec_type CloudInitSpec_DeepCopyInto"
  by (simp add: CloudInitSpec_type_def CloudInitSpec_DeepCopyInto_def covered_def copies_rules)

lemma CloudInitSpec_DeepCopy_copies [copies_rules]: "copies (PtrT CloudInitSpec_type) CloudInitSpec_DeepCopy"
  by (simp add: CloudInitSpec_DeepCopy_def copies_rules)

subsection \<open>\<^verbatim>\<open>CloudInitStatus\<close>\<close>

definition CloudInitStatus_type :: "metav1 \<Rightarrow> gotype" where
  "CloudInitStatus_type m = StructT [
     (''Pool'', StrT),
     (''Host'', StrT),
     (''Conditions'', SliceT (Condition_type m))]"

definition CloudInitStatus_DeepCopyInto :: "metav1 \<Rightarrow> copier" where
  "CloudInitStatus_DeepCopyInto m = into [
     (''Conditions'', copySlice (Condition_type m) (Condition_DeepCopyInto m))]"

definition CloudInitStatus_DeepCopy :: "metav1 \<Rightarrow> copier" where
  "CloudInitStatus_DeepCopy m = copyPtr (CloudInitStatus_type m) (CloudInitStatus_DeepCopyInto m)"

lemma CloudInitStatus_copies [copies_rules]: "metav1_ok m \<Longrightarrow> copies (CloudInitStatus_type m) (CloudInitStatus_DeepCopyInto m)"
  by (simp add: CloudInitStatus_type_def CloudInitStatus_DeepCopyInto_def covered_def copies_rules metav1_ok_def)

lemma CloudInitStatus_DeepCopy_copies [copies_rules]: "metav1_ok m \<Longrightarrow> copies (PtrT (CloudInitStatus_type m)) (CloudInitStatus_DeepCopy m)"
  by (simp add: CloudInitStatus_DeepCopy_def copies_rules)

subsection \<open>\<^verbatim>\<open>CloudInit\<close>\<close>

definition CloudInit_type :: "metav1 \<Rightarrow> gotype" where
  "CloudInit_type m = StructT [
     (''TypeMeta'', TypeMeta_type m),
     (''ObjectMeta'', ObjectMeta_type m),
     (''Spec'', CloudInitSpec_type),
     (''Status'', CloudInitStatus_type m)]"

definition CloudInit_DeepCopyInto :: "metav1 \<Rightarrow> copier" where
  "CloudInit_DeepCopyInto m = into [
     (''TypeMeta'', plain),
     (''ObjectMeta'', ObjectMeta_DeepCopyInto m),
     (''Spec'', CloudInitSpec_DeepCopyInto),
     (''Status'', CloudInitStatus_DeepCopyInto m)]"

definition CloudInit_DeepCopy :: "metav1 \<Rightarrow> copier" where
  "CloudInit_DeepCopy m = copyPtr (CloudInit_type m) (CloudInit_DeepCopyInto m)"

definition CloudInit_DeepCopyObject :: "metav1 \<Rightarrow> val \<Rightarrow> (heap, val option) prog" where
  "CloudInit_DeepCopyObject m = asObject (CloudInit_DeepCopy m)"

lemma CloudInit_copies [copies_rules]: "metav1_ok m \<Longrightarrow> copies (CloudInit_type m) (CloudInit_DeepCopyInto m)"
  by (simp add: CloudInit_type_def CloudInit_DeepCopyInto_def covered_def copies_rules metav1_ok_def)

lemma CloudInit_DeepCopy_copies [copies_rules]: "metav1_ok m \<Longrightarrow> copies (PtrT (CloudInit_type m)) (CloudInit_DeepCopy m)"
  by (simp add: CloudInit_DeepCopy_def copies_rules)

subsection \<open>\<^verbatim>\<open>CloudInitList\<close>\<close>

definition CloudInitList_type :: "metav1 \<Rightarrow> gotype" where
  "CloudInitList_type m = StructT [
     (''TypeMeta'', TypeMeta_type m),
     (''ListMeta'', ListMeta_type m),
     (''Items'', SliceT (CloudInit_type m))]"

definition CloudInitList_DeepCopyInto :: "metav1 \<Rightarrow> copier" where
  "CloudInitList_DeepCopyInto m = into [
     (''TypeMeta'', plain),
     (''ListMeta'', ListMeta_DeepCopyInto m),
     (''Items'', copySlice (CloudInit_type m) (CloudInit_DeepCopyInto m))]"

definition CloudInitList_DeepCopy :: "metav1 \<Rightarrow> copier" where
  "CloudInitList_DeepCopy m = copyPtr (CloudInitList_type m) (CloudInitList_DeepCopyInto m)"

definition CloudInitList_DeepCopyObject :: "metav1 \<Rightarrow> val \<Rightarrow> (heap, val option) prog" where
  "CloudInitList_DeepCopyObject m = asObject (CloudInitList_DeepCopy m)"

lemma CloudInitList_copies [copies_rules]: "metav1_ok m \<Longrightarrow> copies (CloudInitList_type m) (CloudInitList_DeepCopyInto m)"
  by (simp add: CloudInitList_type_def CloudInitList_DeepCopyInto_def covered_def copies_rules metav1_ok_def)

lemma CloudInitList_DeepCopy_copies [copies_rules]: "metav1_ok m \<Longrightarrow> copies (PtrT (CloudInitList_type m)) (CloudInitList_DeepCopy m)"
  by (simp add: CloudInitList_DeepCopy_def copies_rules)

subsection \<open>\<^verbatim>\<open>DomainVCPU\<close>\<close>

definition DomainVCPU_type :: "gotype" where
  "DomainVCPU_type = StructT [
     (''Value'', NumT),
     (''Placement'', PtrT StrT)]"

definition DomainVCPU_DeepCopyInto :: "copier" where
  "DomainVCPU_DeepCopyInto = into [
     (''Placement'', copyPtr StrT plain)]"

definition DomainVCPU_DeepCopy :: "copier" where
  "DomainVCPU_DeepCopy = copyPtr DomainVCPU_type DomainVCPU_DeepCopyInto"

lemma DomainVCPU_copies [copies_rules]: "copies DomainVCPU_type DomainVCPU_DeepCopyInto"
  by (simp add: DomainVCPU_type_def DomainVCPU_DeepCopyInto_def covered_def copies_rules)

lemma DomainVCPU_DeepCopy_copies [copies_rules]: "copies (PtrT DomainVCPU_type) DomainVCPU_DeepCopy"
  by (simp add: DomainVCPU_DeepCopy_def copies_rules)

subsection \<open>\<^verbatim>\<open>DomainCPU\<close>\<close>

definition DomainCPU_type :: "gotype" where
  "DomainCPU_type = StructT [
     (''Mode'', PtrT StrT),
     (''CacheMode'', PtrT StrT)]"

definition DomainCPU_DeepCopyInto :: "copier" where
  "DomainCPU_DeepCopyInto = into [
     (''Mode'', copyPtr StrT plain),
     (''CacheMode'', copyPtr StrT plain)]"

definition DomainCPU_DeepCopy :: "copier" where
  "DomainCPU_DeepCopy = copyPtr DomainCPU_type DomainCPU_DeepCopyInto"

lemma DomainCPU_copies [copies_rules]: "copies DomainCPU_type DomainCPU_DeepCopyInto"
  by (simp add: DomainCPU_type_def DomainCPU_DeepCopyInto_def covered_def copies_rules)

lemma DomainCPU_DeepCopy_copies [copies_rules]: "copies (PtrT DomainCPU_type) DomainCPU_DeepCopy"
  by (simp add: DomainCPU_DeepCopy_def copies_rules)

subsection \<open>\<^verbatim>\<open>DomainMemory\<close>\<close>

definition DomainMemory_type :: "gotype" where
  "DomainMemory_type = StructT [
     (''Unit'', StrT),
     (''Value'', NumT)]"

definition DomainMemory_DeepCopyInto :: "copier" where
  "DomainMemory_DeepCopyInto = into []"

definition DomainMemory_DeepCopy :: "copier" where
  "DomainMemory_DeepCopy = copyPtr DomainMemory_type DomainMemory_DeepCopyInto"

lemma flat_DomainMemory [simp]: "flat DomainMemory_type"
  by (simp add: DomainMemory_type_def)

lemma DomainMemory_copies [copies_rules]: "copies DomainMemory_type DomainMemory_DeepCopyInto"
  by (simp add: DomainMemory_type_def DomainMemory_DeepCopyInto_def covered_def copies_rules)

lemma DomainMemory_DeepCopy_copies [copies_rules]: "copies (PtrT DomainMemory_type) DomainMemory_DeepCopy"
  by (simp add: DomainMemory_DeepCopy_def copies_rules)

subsection \<open>\<^verbatim>\<open>DomainDisk\<close>\<close>

definition DomainDisk_type :: "gotype" where
  "DomainDisk_type = StructT [
     (''VolumeRef'', ResourceRef_type),
     (''WWN'', PtrT StrT)]"

definition DomainDisk_DeepCopyInto :: "copier" where
  "DomainDisk_DeepCopyInto = into [
     (''VolumeRef'', plain),
     (''WWN'', copyPtr StrT plain)]"

definition DomainDisk_DeepCopy :: "copier" where
  "DomainDisk_DeepCopy = copyPtr DomainDisk_type DomainDisk_DeepCopyInto"

lemma DomainDisk_copies [copies_rules]: "copies DomainDisk_type DomainDisk_DeepCopyInto"
  by (simp add: DomainDisk_type_def DomainDisk_DeepCopyInto_def covered_def copies_rules)

lemma DomainDisk_DeepCopy_copies [copies_rules]: "copies (PtrT DomainDisk_type) DomainDisk_DeepCopy"
  by (simp add: DomainDisk_DeepCopy_def copies_rules)

subsection \<open>\<^verbatim>\<open>DomainInterface\<close>\<close>

definition DomainInterface_type :: "gotype" where
  "DomainInterface_type = StructT [
     (''NetworkRef'', ResourceRef_type),
     (''Queues'', PtrT NumT),
     (''MacAddress'', PtrT StrT)]"

definition DomainInterface_DeepCopyInto :: "copier" where
  "DomainInterface_DeepCopyInto = into [
     (''NetworkRef'', plain),
     (''Queues'', copyPtr NumT plain),
     (''MacAddress'', copyPtr StrT plain)]"

definition DomainInterface_DeepCopy :: "copier" where
  "DomainInterface_DeepCopy = copyPtr DomainInterface_type DomainInterface_DeepCopyInto"

lemma DomainInterface_copies [copies_rules]: "copies DomainInterface_type DomainInterface_DeepCopyInto"
  by (simp add: DomainInterface_type_def DomainInterface_DeepCopyInto_def covered_def copies_rules)

lemma DomainInterface_DeepCopy_copies [copies_rules]: "copies (PtrT DomainInterface_type) DomainInterface_DeepCopy"
  by (simp add: DomainInterface_DeepCopy_def copies_rules)

subsection \<open>\<^verbatim>\<open>DomainCloudInit\<close>\<close>

definition DomainCloudInit_type :: "gotype" where
  "DomainCloudInit_type = StructT [
     (''CloudInitRef'', PtrT ResourceRef_type)]"

definition DomainCloudInit_DeepCopyInto :: "copier" where
  "DomainCloudInit_DeepCopyInto = into [
     (''CloudInitRef'', copyPtr ResourceRef_type plain)]"

definition DomainCloudInit_DeepCopy :: "copier" where
  "DomainCloudInit_DeepCopy = copyPtr DomainCloudInit_type DomainCloudInit_DeepCopyInto"

lemma DomainCloudInit_copies [copies_rules]: "copies DomainCloudInit_type DomainCloudInit_DeepCopyInto"
  by (simp add: DomainCloudInit_type_def DomainCloudInit_DeepCopyInto_def covered_def copies_rules)

lemma DomainCloudInit_DeepCopy_copies [copies_rules]: "copies (PtrT DomainCloudInit_type) DomainCloudInit_DeepCopy"
  by (simp add: DomainCloudInit_DeepCopy_def copies_rules)

subsection \<open>\<^verbatim>\<open>DomainPCIPassthrough\<close>\<close>

definition DomainPCIPassthrough_type :: "gotype" where
  "DomainPCIPassthrough_type = StructT [
     (''PCIDeviceRef'', ResourceRef_type)]"

definition DomainPCIPassthrough_DeepCopyInto :: "copier" where
  "DomainPCIPassthrough_DeepCopyInto = into [
     (''PCIDeviceRef'', plain)]"

definition DomainPCIPassthrough_DeepCopy :: "copier" where
  "DomainPCIPassthrough_DeepCopy = copyPtr DomainPCIPassthrough_type DomainPCIPassthrough_DeepCopyInto"

lemma flat_DomainPCIPassthrough [simp]: "flat DomainPCIPassthrough_type"
  by (simp add: DomainPCIPassthrough_type_def)

lemma DomainPCIPassthrough_copies [copies_rules]: "copies DomainPCIPassthrough_type DomainPCIPassthrough_DeepCopyInto"
  by (simp add: DomainPCIPassthrough_type_def DomainPCIPassthrough_DeepCopyInto_def covered_def copies_rules)

lemma DomainPCIPassthrough_DeepCopy_copies [copies_rules]: "copies (PtrT DomainPCIPassthrough_type) DomainPCIPassthrough_DeepCopy"
  by (simp add: DomainPCIPassthrough_DeepCopy_def copies_rules)

subsection \<open>\<^verbatim>\<open>DomainSpec\<close>\<close>

definition DomainSpec_type :: "gotype" where
  "DomainSpec_type = StructT [
     (''ExternalResourceMeta'', ExternalResourceMeta_type),
     (''HostRef'', ResourceRef_type),
     (''VCPU'', DomainVCPU_type),
     (''CPU'', PtrT DomainCPU_type),
     (''Memory'', DomainMemory_type),
     (''SCSIQueues'', PtrT NumT),
     (''Disks'', SliceT DomainDisk_type),
     (''Interfaces'', SliceT DomainInterface_type),
     (''CloudInit'', PtrT DomainCloudInit_type),
     (''NumatuneMode'', PtrT StrT),
     (''PCIPassthrough'', SliceT DomainPCIPassthrough_type),
     (''UEFI'', PtrT BoolT),
     (''SecureBoot'', PtrT BoolT),
     (''Shutoff'', PtrT BoolT)]"

definition DomainSpec_DeepCopyInto :: "copier" where
  "DomainSpec_DeepCopyInto = into [
     (''ExternalResourceMeta'', plain),
     (''HostRef'', plain),
     (''VCPU'', DomainVCPU_DeepCopyInto),
     (''CPU'', copyPtr DomainCPU_type DomainCPU_DeepCopyInto),
     (''Memory'', plain),
     (''SCSIQueues'', copyPtr NumT plain),
     (''Disks'', copySlice DomainDisk_type DomainDisk_DeepCopyInto),
     (''Interfaces'', copySlice DomainInterface_type DomainInterface_DeepCopyInto),
     (''CloudInit'', copyPtr DomainCloudInit_type DomainCloudInit_DeepCopyInto),
     (''NumatuneMode'', copyPtr StrT plain),
     (''PCIPassthrough'', copySlice DomainPCIPassthrough_type plain),
     (''UEFI'', copyPtr BoolT plain),
     (''SecureBoot'', copyPtr BoolT plain),
     (''Shutoff'', copyPtr BoolT plain)]"

definition DomainSpec_DeepCopy :: "copier" where
  "DomainSpec_DeepCopy = copyPtr DomainSpec_type DomainSpec_DeepCopyInto"

lemma DomainSpec_copies [copies_rules]: "copies DomainSpec_type DomainSpec_DeepCopyInto"
  by (simp add: DomainSpec_type_def DomainSpec_DeepCopyInto_def covered_def copies_rules)

lemma DomainSpec_DeepCopy_copies [copies_rules]: "copies (PtrT DomainSpec_type) DomainSpec_DeepCopy"
  by (simp add: DomainSpec_DeepCopy_def copies_rules)

subsection \<open>\<^verbatim>\<open>DomainStatus\<close>\<close>

definition DomainStatus_type :: "metav1 \<Rightarrow> gotype" where
  "DomainStatus_type m = StructT [
     (''Conditions'', SliceT (Condition_type m))]"

definition DomainStatus_DeepCopyInto :: "metav1 \<Rightarrow> copier" where
  "DomainStatus_DeepCopyInto m = into [
     (''Conditions'', copySlice (Condition_type m) (Condition_DeepCopyInto m))]"

definition DomainStatus_DeepCopy :: "metav1 \<Rightarrow> copier" where
  "DomainStatus_DeepCopy m = copyPtr (DomainStatus_type m) (DomainStatus_DeepCopyInto m)"

lemma DomainStatus_copies [copies_rules]: "metav1_ok m \<Longrightarrow> copies (DomainStatus_type m) (DomainStatus_DeepCopyInto m)"
  by (simp add: DomainStatus_type_def DomainStatus_DeepCopyInto_def covered_def copies_rules metav1_ok_def)

lemma DomainStatus_DeepCopy_copies [copies_rules]: "metav1_ok m \<Longrightarrow> copies (PtrT (DomainStatus_type m)) (DomainStatus_DeepCopy m)"
  by (simp add: DomainStatus_DeepCopy_def copies_rules)

subsection \<open>\<^verbatim>\<open>Domain\<close>\<close>

definition Domain_type :: "metav1 \<Rightarrow> gotype" where
  "Domain_type m = StructT [
     (''TypeMeta'', TypeMeta_type m),
     (''ObjectMeta'', ObjectMeta_type m),
     (''Spec'', DomainSpec_type),
     (''Status'', DomainStatus_type m)]"

definition Domain_DeepCopyInto :: "metav1 \<Rightarrow> copier" where
  "Domain_DeepCopyInto m = into [
     (''TypeMeta'', plain),
     (''ObjectMeta'', ObjectMeta_DeepCopyInto m),
     (''Spec'', DomainSpec_DeepCopyInto),
     (''Status'', DomainStatus_DeepCopyInto m)]"

definition Domain_DeepCopy :: "metav1 \<Rightarrow> copier" where
  "Domain_DeepCopy m = copyPtr (Domain_type m) (Domain_DeepCopyInto m)"

definition Domain_DeepCopyObject :: "metav1 \<Rightarrow> val \<Rightarrow> (heap, val option) prog" where
  "Domain_DeepCopyObject m = asObject (Domain_DeepCopy m)"

lemma Domain_copies [copies_rules]: "metav1_ok m \<Longrightarrow> copies (Domain_type m) (Domain_DeepCopyInto m)"
  by (simp add: Domain_type_def Domain_DeepCopyInto_def covered_def copies_rules metav1_ok_def)

lemma Domain_DeepCopy_copies [copies_rules]: "metav1_ok m \<Longrightarrow> copies (PtrT (Domain_type m)) (Domain_DeepCopy m)"
  by (simp add: Domain_DeepCopy_def copies_rules)

subsection \<open>\<^verbatim>\<open>DomainList\<close>\<close>

definition DomainList_type :: "metav1 \<Rightarrow> gotype" where
  "DomainList_type m = StructT [
     (''TypeMeta'', TypeMeta_type m),
     (''ListMeta'', ListMeta_type m),
     (''Items'', SliceT (Domain_type m))]"

definition DomainList_DeepCopyInto :: "metav1 \<Rightarrow> copier" where
  "DomainList_DeepCopyInto m = into [
     (''TypeMeta'', plain),
     (''ListMeta'', ListMeta_DeepCopyInto m),
     (''Items'', copySlice (Domain_type m) (Domain_DeepCopyInto m))]"

definition DomainList_DeepCopy :: "metav1 \<Rightarrow> copier" where
  "DomainList_DeepCopy m = copyPtr (DomainList_type m) (DomainList_DeepCopyInto m)"

definition DomainList_DeepCopyObject :: "metav1 \<Rightarrow> val \<Rightarrow> (heap, val option) prog" where
  "DomainList_DeepCopyObject m = asObject (DomainList_DeepCopy m)"

lemma DomainList_copies [copies_rules]: "metav1_ok m \<Longrightarrow> copies (DomainList_type m) (DomainList_DeepCopyInto m)"
  by (simp add: DomainList_type_def DomainList_DeepCopyInto_def covered_def copies_rules metav1_ok_def)

lemma DomainList_DeepCopy_copies [copies_rules]: "metav1_ok m \<Longrightarrow> copies (PtrT (DomainList_type m)) (DomainList_DeepCopy m)"
  by (simp add: DomainList_DeepCopy_def copies_rules)

subsection \<open>\<^verbatim>\<open>HostSpec\<close>\<close>

definition HostSpec_type :: "gotype" where
  "HostSpec_type = StructT [
     (''Address'', StrT),
     (''AuthRef'', ResourceRef_type),
     (''Port'', PtrT NumT)]"

definition HostSpec_DeepCopyInto :: "copier" where
  "HostSpec_DeepCopyInto = into [
     (''AuthRef'', plain),
     (''Port'', copyPtr NumT plain)]"

definition HostSpec_DeepCopy :: "copier" where
  "HostSpec_DeepCopy = copyPtr HostSpec_type HostSpec_DeepCopyInto"

lemma HostSpec_copies [copies_rules]: "copies HostSpec_type HostSpec_DeepCopyInto"
  by (simp add: HostSpec_type_def HostSpec_DeepCopyInto_def covered_def copies_rules)

lemma HostSpec_DeepCopy_copies [copies_rules]: "copies (PtrT HostSpec_type) HostSpec_DeepCopy"
  by (simp add: HostSpec_DeepCopy_def copies_rules)

subsection \<open>\<^verbatim>\<open>HostMemory\<close>\<close>

definition HostMemory_type :: "gotype" where
  "HostMemory_type = StructT [
     (''Total'', NumT),
     (''Free'', NumT)]"

definition HostMemory_DeepCopyInto :: "copier" where
  "HostMemory_DeepCopyInto = into []"

definition HostMemory_DeepCopy :: "copier" where
  "HostMemory_DeepCopy = copyPtr HostMemory_type HostMemory_DeepCopyInto"

lemma flat_HostMemory [simp]: "flat HostMemory_type"
  by (simp add: HostMemory_type_def)

lemma HostMemory_copies [copies_rules]: "copies HostMemory_type HostMemory_DeepCopyInto"
  by (simp add: HostMemory_type_def HostMemory_DeepCopyInto_def covered_def copies_rules)

lemma HostMemory_DeepCopy_copies [copies_rules]: "copies (PtrT HostMemory_type) HostMemory_DeepCopy"
  by (simp add: HostMemory_DeepCopy_def copies_rules)

subsection \<open>\<^verbatim>\<open>HostCapability\<close>\<close>

definition HostCapability_type :: "gotype" where
  "HostCapability_type = StructT [
     (''Arch'', StrT),
     (''CPUS'', NumT),
     (''Memory'', HostMemory_type),
     (''NUMA'', BoolT)]"

definition HostCapability_DeepCopyInto :: "copier" where
  "HostCapability_DeepCopyInto = into [
     (''Memory'', plain)]"

definition HostCapability_DeepCopy :: "copier" where
  "HostCapability_DeepCopy = copyPtr HostCapability_type HostCapability_DeepCopyInto"

lemma flat_HostCapability [simp]: "flat HostCapability_type"
  by (simp add: HostCapability_type_def)

lemma HostCapability_copies [copies_rules]: "copies HostCapability_type HostCapability_DeepCopyInto"
  by (simp add: HostCapability_type_def HostCapability_DeepCopyInto_def covered_def copies_rules)

lemma HostCapability_DeepCopy_copies [copies_rules]: "copies (PtrT HostCapability_type) HostCapability_DeepCopy"
  by (simp add: HostCapability_DeepCopy_def copies_rules)

subsection \<open>\<^verbatim>\<open>HostStatus\<close>\<close>

definition HostStatus_type :: "metav1 \<Rightarrow> gotype" where
  "HostStatus_type m = StructT [
     (''Capacity'', PtrT HostCapability_type),
     (''Conditions'', SliceT (Condition_type m))]"

definition HostStatus_DeepCopyInto :: "metav1 \<Rightarrow> copier" where
  "HostStatus_DeepCopyInto m = into [
     (''Capacity'', copyPtr HostCapability_type plain),
     (''Conditions'', copySlice (Condition_type m) (Condition_DeepCopyInto m))]"

definition HostStatus_DeepCopy :: "metav1 \<Rightarrow> copier" where
  "HostStatus_DeepCopy m = copyPtr (HostStatus_type m) (HostStatus_DeepCopyInto m)"

lemma HostStatus_copies [copies_rules]: "metav1_ok m \<Longrightarrow> copies (HostStatus_type m) (HostStatus_DeepCopyInto m)"
  by (simp add: HostStatus_type_def HostStatus_DeepCopyInto_def covered_def copies_rules metav1_ok_def)

lemma HostStatus_DeepCopy_copies [copies_rules]: "metav1_ok m \<Longrightarrow> copies (PtrT (HostStatus_type m)) (HostStatus_DeepCopy m)"
  by (simp add: HostStatus_DeepCopy_def copies_rules)

subsection \<open>\<^verbatim>\<open>Host\<close>\<close>

definition Host_type :: "metav1 \<Rightarrow> gotype" where
  "Host_type m = StructT [
     (''TypeMeta'', TypeMeta_type m),
     (''ObjectMeta'', ObjectMeta_type m),
     (''Spec'', HostSpec_type),
     (''Status'', HostStatus_type m)]"

definition Host_DeepCopyInto :: "metav1 \<Rightarrow> copier" where
  "Host_DeepCopyInto m = into [
     (''TypeMeta'', plain),
     (''ObjectMeta'', ObjectMeta_DeepCopyInto m),
     (''Spec'', HostSpec_DeepCopyInto),
     (''Status'', HostStatus_DeepCopyInto m)]"

definition Host_DeepCopy :: "metav1 \<Rightarrow> copier" where
  "Host_DeepCopy m = copyPtr (Host_type m) (Host_DeepCopyInto m)"

definition Host_DeepCopyObject :: "metav1 \<Rightarrow> val \<Rightarrow> (heap, val option) prog" where
  "Host_DeepCopyObject m = asObject (Host_DeepCopy m)"

lemma Host_copies [copies_rules]: "metav1_ok m \<Longrightarrow> copies (Host_type m) (Host_DeepCopyInto m)"
  by (simp add: Host_type_def Host_DeepCopyInto_def covered_def copies_rules metav1_ok_def)

lemma Host_DeepCopy_copies [copies_rules]: "metav1_ok m \<Longrightarrow> copies (PtrT (Host_type m)) (Host_DeepCopy m)"
  by (simp add: Host_DeepCopy_def copies_rules)

subsection \<open>\<^verbatim>\<open>HostList\<close>\<close>

definition HostList_type :: "metav1 \<Rightarrow> gotype" where
  "HostList_type m = StructT [
     (''TypeMeta'', TypeMeta_type m),
     (''ListMeta'', ListMeta_type m),
     (''Items'', SliceT (Host_type m))]"

definition HostList_DeepCopyInto :: "metav1 \<Rightarrow> copier" where
  "HostList_DeepCopyInto m = into [
     (''TypeMeta'', plain),
     (''ListMeta'', ListMeta_DeepCopyInto m),
     (''Items'', copySlice (Host_type m) (Host_DeepCopyInto m))]"

definition HostList_DeepCopy :: "metav1 \<Rightarrow> copier" where
  "HostList_DeepCopy m = copyPtr (HostList_type m) (HostList_DeepCopyInto m)"

definition HostList_DeepCopyObject :: "metav1 \<Rightarrow> val \<Rightarrow> (heap, val option) prog" where
  "HostList_DeepCopyObject m = asObject (HostList_DeepCopy m)"

lemma HostList_copies [copies_rules]: "metav1_ok m \<Longrightarrow> copies (HostList_type m) (HostList_DeepCopyInto m)"
  by (simp add: HostList_type_def HostList_DeepCopyInto_def covered_def copies_rules metav1_ok_def)

lemma HostList_DeepCopy_copies [copies_rules]: "metav1_ok m \<Longrightarrow> copies (PtrT (HostList_type m)) (HostList_DeepCopy m)"
  by (simp add: HostList_DeepCopy_def copies_rules)

subsection \<open>\<^verbatim>\<open>NetworkSpec\<close>\<close>

definition NetworkSpec_type :: "gotype" where
  "NetworkSpec_type = StructT [
     (''Name'', StrT),
     (''HostRef'', ResourceRef_type)]"

definition NetworkSpec_DeepCopyInto :: "copier" where
  "NetworkSpec_DeepCopyInto = into [
     (''HostRef'', plain)]"

definition NetworkSpec_DeepCopy :: "copier" where
  "NetworkSpec_DeepCopy = copyPtr NetworkSpec_type NetworkSpec_DeepCopyInto"

lemma flat_NetworkSpec [simp]: "flat NetworkSpec_type"
  by (simp add: NetworkSpec_type_def)

lemma NetworkSpec_copies [copies_rules]: "copies NetworkSpec_type NetworkSpec_DeepCopyInto"
  by (simp add: NetworkSpec_type_def NetworkSpec_DeepCopyInto_def covered_def copies_rules)

lemma NetworkSpec_DeepCopy_copies [copies_rules]: "copies (PtrT NetworkSpec_type) NetworkSpec_DeepCopy"
  by (simp add: NetworkSpec_DeepCopy_def copies_rules)

subsection \<open>\<^verbatim>\<open>NetworkStatus\<close>\<close>

definition NetworkStatus_type :: "metav1 \<Rightarrow> gotype" where
  "NetworkStatus_type m = StructT [
     (''Conditions'', SliceT (Condition_type m))]"

definition NetworkStatus_DeepCopyInto :: "metav1 \<Rightarrow> copier" where
  "NetworkStatus_DeepCopyInto m = into [
     (''Conditions'', copySlice (Condition_type m) (Condition_DeepCopyInto m))]"

definition NetworkStatus_DeepCopy :: "metav1 \<Rightarrow> copier" where
  "NetworkStatus_DeepCopy m = copyPtr (NetworkStatus_type m) (NetworkStatus_DeepCopyInto m)"

lemma NetworkStatus_copies [copies_rules]: "metav1_ok m \<Longrightarrow> copies (NetworkStatus_type m) (NetworkStatus_DeepCopyInto m)"
  by (simp add: NetworkStatus_type_def NetworkStatus_DeepCopyInto_def covered_def copies_rules metav1_ok_def)

lemma NetworkStatus_DeepCopy_copies [copies_rules]: "metav1_ok m \<Longrightarrow> copies (PtrT (NetworkStatus_type m)) (NetworkStatus_DeepCopy m)"
  by (simp add: NetworkStatus_DeepCopy_def copies_rules)

subsection \<open>\<^verbatim>\<open>Network\<close>\<close>

definition Network_type :: "metav1 \<Rightarrow> gotype" where
  "Network_type m = StructT [
     (''TypeMeta'', TypeMeta_type m),
     (''ObjectMeta'', ObjectMeta_type m),
     (''Spec'', NetworkSpec_type),
     (''Status'', NetworkStatus_type m)]"

definition Network_DeepCopyInto :: "metav1 \<Rightarrow> copier" where
  "Network_DeepCopyInto m = into [
     (''TypeMeta'', plain),
     (''ObjectMeta'', ObjectMeta_DeepCopyInto m),
     (''Spec'', plain),
     (''Status'', NetworkStatus_DeepCopyInto m)]"

definition Network_DeepCopy :: "metav1 \<Rightarrow> copier" where
  "Network_DeepCopy m = copyPtr (Network_type m) (Network_DeepCopyInto m)"

definition Network_DeepCopyObject :: "metav1 \<Rightarrow> val \<Rightarrow> (heap, val option) prog" where
  "Network_DeepCopyObject m = asObject (Network_DeepCopy m)"

lemma Network_copies [copies_rules]: "metav1_ok m \<Longrightarrow> copies (Network_type m) (Network_DeepCopyInto m)"
  by (simp add: Network_type_def Network_DeepCopyInto_def covered_def copies_rules metav1_ok_def)

lemma Network_DeepCopy_copies [copies_rules]: "metav1_ok m \<Longrightarrow> copies (PtrT (Network_type m)) (Network_DeepCopy m)"
  by (simp add: Network_DeepCopy_def copies_rules)

subsection \<open>\<^verbatim>\<open>NetworkList\<close>\<close>

definition NetworkList_type :: "metav1 \<Rightarrow> gotype" where
  "NetworkList_type m = StructT [
     (''TypeMeta'', TypeMeta_type m),
     (''ListMeta'', ListMeta_type m),
     (''Items'', SliceT (Network_type m))]"

definition NetworkList_DeepCopyInto :: "metav1 \<Rightarrow> copier" where
  "NetworkList_DeepCopyInto m = into [
     (''TypeMeta'', plain),
     (''ListMeta'', ListMeta_DeepCopyInto m),
     (''Items'', copySlice (Network_type m) (Network_DeepCopyInto m))]"

definition NetworkList_DeepCopy :: "metav1 \<Rightarrow> copier" where
  "NetworkList_DeepCopy m = copyPtr (NetworkList_type m) (NetworkList_DeepCopyInto m)"

definition NetworkList_DeepCopyObject :: "metav1 \<Rightarrow> val \<Rightarrow> (heap, val option) prog" where
  "NetworkList_DeepCopyObject m = asObject (NetworkList_DeepCopy m)"

lemma NetworkList_copies [copies_rules]: "metav1_ok m \<Longrightarrow> copies (NetworkList_type m) (NetworkList_DeepCopyInto m)"
  by (simp add: NetworkList_type_def NetworkList_DeepCopyInto_def covered_def copies_rules metav1_ok_def)

lemma NetworkList_DeepCopy_copies [copies_rules]: "metav1_ok m \<Longrightarrow> copies (PtrT (NetworkList_type m)) (NetworkList_DeepCopy m)"
  by (simp add: NetworkList_DeepCopy_def copies_rules)

subsection \<open>\<^verbatim>\<open>PCIDeviceSpec\<close>\<close>

definition PCIDeviceSpec_type :: "gotype" where
  "PCIDeviceSpec_type = StructT [
     (''Name'', StrT),
     (''HostRef'', ResourceRef_type)]"

definition PCIDeviceSpec_DeepCopyInto :: "copier" where
  "PCIDeviceSpec_DeepCopyInto = into [
     (''HostRef'', plain)]"

definition PCIDeviceSpec_DeepCopy :: "copier" where
  "PCIDeviceSpec_DeepCopy = copyPtr PCIDeviceSpec_type PCIDeviceSpec_DeepCopyInto"

lemma flat_PCIDeviceSpec [simp]: "flat PCIDeviceSpec_type"
  by (simp add: PCIDeviceSpec_type_def)

lemma PCIDeviceSpec_copies [copies_rules]: "copies PCIDeviceSpec_type PCIDeviceSpec_DeepCopyInto"
  by (simp add: PCIDeviceSpec_type_def PCIDeviceSpec_DeepCopyInto_def covered_def copies_rules)

lemma PCIDeviceSpec_DeepCopy_copies [copies_rules]: "copies (PtrT PCIDeviceSpec_type) PCIDeviceSpec_DeepCopy"
  by (simp add: PCIDeviceSpec_DeepCopy_def copies_rules)

subsection \<open>\<^verbatim>\<open>PCIDeviceAddress\<close>\<close>

definition PCIDeviceAddress_type :: "gotype" where
  "PCIDeviceAddress_type = StructT [
     (''Domain'', NumT),
     (''Bus'', NumT),
     (''Slot'', NumT),
     (''Function'', NumT)]"

definition PCIDeviceAddress_DeepCopyInto :: "copier" where
  "PCIDeviceAddress_DeepCopyInto = into []"

definition PCIDeviceAddress_DeepCopy :: "copier" where
  "PCIDeviceAddress_DeepCopy = copyPtr PCIDeviceAddress_type PCIDeviceAddress_DeepCopyInto"

lemma flat_PCIDeviceAddress [simp]: "flat PCIDeviceAddress_type"
  by (simp add: PCIDeviceAddress_type_def)

lemma PCIDeviceAddress_copies [copies_rules]: "copies PCIDeviceAddress_type PCIDeviceAddress_DeepCopyInto"
  by (simp add: PCIDeviceAddress_type_def PCIDeviceAddress_DeepCopyInto_def covered_def copies_rules)

lemma PCIDeviceAddress_DeepCopy_copies [copies_rules]: "copies (PtrT PCIDeviceAddress_type) PCIDeviceAddress_DeepCopy"
  by (simp add: PCIDeviceAddress_DeepCopy_def copies_rules)

subsection \<open>\<^verbatim>\<open>PCIDeviceStatus\<close>\<close>

definition PCIDeviceStatus_type :: "metav1 \<Rightarrow> gotype" where
  "PCIDeviceStatus_type m = StructT [
     (''Address'', PtrT PCIDeviceAddress_type),
     (''Conditions'', SliceT (Condition_type m))]"

definition PCIDeviceStatus_DeepCopyInto :: "metav1 \<Rightarrow> copier" where
  "PCIDeviceStatus_DeepCopyInto m = into [
     (''Address'', copyPtr PCIDeviceAddress_type plain),
     (''Conditions'', copySlice (Condition_type m) (Condition_DeepCopyInto m))]"

definition PCIDeviceStatus_DeepCopy :: "metav1 \<Rightarrow> copier" where
  "PCIDeviceStatus_DeepCopy m = copyPtr (PCIDeviceStatus_type m) (PCIDeviceStatus_DeepCopyInto m)"

lemma PCIDeviceStatus_copies [copies_rules]: "metav1_ok m \<Longrightarrow> copies (PCIDeviceStatus_type m) (PCIDeviceStatus_DeepCopyInto m)"
  by (simp add: PCIDeviceStatus_type_def PCIDeviceStatus_DeepCopyInto_def covered_def copies_rules metav1_ok_def)

lemma PCIDeviceStatus_DeepCopy_copies [copies_rules]: "metav1_ok m \<Longrightarrow> copies (PtrT (PCIDeviceStatus_type m)) (PCIDeviceStatus_DeepCopy m)"
  by (simp add: PCIDeviceStatus_DeepCopy_def copies_rules)

subsection \<open>\<^verbatim>\<open>PCIDevice\<close>\<close>

definition PCIDevice_type :: "metav1 \<Rightarrow> gotype" where
  "PCIDevice_type m = StructT [
     (''TypeMeta'', TypeMeta_type m),
     (''ObjectMeta'', ObjectMeta_type m),
     (''Spec'', PCIDeviceSpec_type),
     (''Status'', PCIDeviceStatus_type m)]"

definition PCIDevice_DeepCopyInto :: "metav1 \<Rightarrow> copier" where
  "PCIDevice_DeepCopyInto m = into [
     (''TypeMeta'', plain),
     (''ObjectMeta'', ObjectMeta_DeepCopyInto m),
     (''Spec'', plain),
     (''Status'', PCIDeviceStatus_DeepCopyInto m)]"

definition PCIDevice_DeepCopy :: "metav1 \<Rightarrow> copier" where
  "PCIDevice_DeepCopy m = copyPtr (PCIDevice_type m) (PCIDevice_DeepCopyInto m)"

definition PCIDevice_DeepCopyObject :: "metav1 \<Rightarrow> val \<Rightarrow> (heap, val option) prog" where
  "PCIDevice_DeepCopyObject m = asObject (PCIDevice_DeepCopy m)"

lemma PCIDevice_copies [copies_rules]: "metav1_ok m \<Longrightarrow> copies (PCIDevice_type m) (PCIDevice_DeepCopyInto m)"
  by (simp add: PCIDevice_type_def PCIDevice_DeepCopyInto_def covered_def copies_rules metav1_ok_def)

lemma PCIDevice_DeepCopy_copies [copies_rules]: "metav1_ok m \<Longrightarrow> copies (PtrT (PCIDevice_type m)) (PCIDevice_DeepCopy m)"
  by (simp add: PCIDevice_DeepCopy_def copies_rules)

subsection \<open>\<^verbatim>\<open>PCIDeviceList\<close>\<close>

definition PCIDeviceList_type :: "metav1 \<Rightarrow> gotype" where
  "PCIDeviceList_type m = StructT [
     (''TypeMeta'', TypeMeta_type m),
     (''ListMeta'', ListMeta_type m),
     (''Items'', SliceT (PCIDevice_type m))]"

definition PCIDeviceList_DeepCopyInto :: "metav1 \<Rightarrow> copier" where
  "PCIDeviceList_DeepCopyInto m = into [
     (''TypeMeta'', plain),
     (''ListMeta'', ListMeta_DeepCopyInto m),
     (''Items'', copySlice (PCIDevice_type m) (PCIDevice_DeepCopyInto m))]"

definition PCIDeviceList_DeepCopy :: "metav1 \<Rightarrow> copier" where
  "PCIDeviceList_DeepCopy m = copyPtr (PCIDeviceList_type m) (PCIDeviceList_DeepCopyInto m)"

definition PCIDeviceList_DeepCopyObject :: "metav1 \<Rightarrow> val \<Rightarrow> (heap, val option) prog" where
  "PCIDeviceList_DeepCopyObject m = asObject (PCIDeviceList_DeepCopy m)"

lemma PCIDeviceList_copies [copies_rules]: "metav1_ok m \<Longrightarrow> copies (PCIDeviceList_type m) (PCIDeviceList_DeepCopyInto m)"
  by (simp add: PCIDeviceList_type_def PCIDeviceList_DeepCopyInto_def covered_def copies_rules metav1_ok_def)

lemma PCIDeviceList_DeepCopy_copies [copies_rules]: "metav1_ok m \<Longrightarrow> copies (PtrT (PCIDeviceList_type m)) (PCIDeviceList_DeepCopy m)"
  by (simp add: PCIDeviceList_DeepCopy_def copies_rules)

subsection \<open>\<^verbatim>\<open>PoolSpec\<close>\<close>

definition PoolSpec_type :: "gotype" where
  "PoolSpec_type = StructT [
     (''Name'', StrT),
     (''HostRef'', ResourceRef_type)]"

definition PoolSpec_DeepCopyInto :: "copier" where
  "PoolSpec_DeepCopyInto = into [
     (''HostRef'', plain)]"

definition PoolSpec_DeepCopy :: "copier" where
  "PoolSpec_DeepCopy = copyPtr PoolSpec_type PoolSpec_DeepCopyInto"

lemma flat_PoolSpec [simp]: "flat PoolSpec_type"
  by (simp add: PoolSpec_type_def)

lemma PoolSpec_copies [copies_rules]: "copies PoolSpec_type PoolSpec_DeepCopyInto"
  by (simp add: PoolSpec_type_def PoolSpec_DeepCopyInto_def covered_def copies_rules)

lemma PoolSpec_DeepCopy_copies [copies_rules]: "copies (PtrT PoolSpec_type) PoolSpec_DeepCopy"
  by (simp add: PoolSpec_DeepCopy_def copies_rules)

subsection \<open>\<^verbatim>\<open>PoolCapacity\<close>\<close>

definition PoolCapacity_type :: "gotype" where
  "PoolCapacity_type = StructT [
     (''Capacity'', NumT),
     (''Allocation'', NumT),
     (''Available'', NumT)]"

definition PoolCapacity_DeepCopyInto :: "copier" where
  "PoolCapacity_DeepCopyInto = into []"

definition PoolCapacity_DeepCopy :: "copier" where
  "PoolCapacity_DeepCopy = copyPtr PoolCapacity_type PoolCapacity_DeepCopyInto"

lemma flat_PoolCapacity [simp]: "flat PoolCapacity_type"
  by (simp add: PoolCapacity_type_def)

lemma PoolCapacity_copies [copies_rules]: "copies PoolCapacity_type PoolCapacity_DeepCopyInto"
  by (simp add: PoolCapacity_type_def PoolCapacity_DeepCopyInto_def covered_def copies_rules)

lemma PoolCapacity_DeepCopy_copies [copies_rules]: "copies (PtrT PoolCapacity_type) PoolCapacity_DeepCopy"
  by (simp add: PoolCapacity_DeepCopy_def copies_rules)

subsection \<open>\<^verbatim>\<open>PoolStatus\<close>\<close>

definition PoolStatus_type :: "metav1 \<Rightarrow> gotype" where
  "PoolStatus_type m = StructT [
     (''Capacity'', PtrT PoolCapacity_type),
     (''Conditions'', SliceT (Condition_type m))]"

definition PoolStatus_DeepCopyInto :: "metav1 \<Rightarrow> copier" where
  "PoolStatus_DeepCopyInto m = into [
     (''Capacity'', copyPtr PoolCapacity_type plain),
     (''Conditions'', copySlice (Condition_type m) (Condition_DeepCopyInto m))]"

definition PoolStatus_DeepCopy :: "metav1 \<Rightarrow> copier" where
  "PoolStatus_DeepCopy m = copyPtr (PoolStatus_type m) (PoolStatus_DeepCopyInto m)"

lemma PoolStatus_copies [copies_rules]: "metav1_ok m \<Longrightarrow> copies (PoolStatus_type m) (PoolStatus_DeepCopyInto m)"
  by (simp add: PoolStatus_type_def PoolStatus_DeepCopyInto_def covered_def copies_rules metav1_ok_def)

lemma PoolStatus_DeepCopy_copies [copies_rules]: "metav1_ok m \<Longrightarrow> copies (PtrT (PoolStatus_type m)) (PoolStatus_DeepCopy m)"
  by (simp add: PoolStatus_DeepCopy_def copies_rules)

subsection \<open>\<^verbatim>\<open>Pool\<close>\<close>

definition Pool_type :: "metav1 \<Rightarrow> gotype" where
  "Pool_type m = StructT [
     (''TypeMeta'', TypeMeta_type m),
     (''ObjectMeta'', ObjectMeta_type m),
     (''Spec'', PoolSpec_type),
     (''Status'', PoolStatus_type m)]"

definition Pool_DeepCopyInto :: "metav1 \<Rightarrow> copier" where
  "Pool_DeepCopyInto m = into [
     (''TypeMeta'', plain),
     (''ObjectMeta'', ObjectMeta_DeepCopyInto m),
     (''Spec'', plain),
     (''Status'', PoolStatus_DeepCopyInto m)]"

definition Pool_DeepCopy :: "metav1 \<Rightarrow> copier" where
  "Pool_DeepCopy m = copyPtr (Pool_type m) (Pool_DeepCopyInto m)"

definition Pool_DeepCopyObject :: "metav1 \<Rightarrow> val \<Rightarrow> (heap, val option) prog" where
  "Pool_DeepCopyObject m = asObject (Pool_DeepCopy m)"

lemma Pool_copies [copies_rules]: "metav1_ok m \<Longrightarrow> copies (Pool_type m) (Pool_DeepCopyInto m)"
  by (simp add: Pool_type_def Pool_DeepCopyInto_def covered_def copies_rules metav1_ok_def)

lemma Pool_DeepCopy_copies [copies_rules]: "metav1_ok m \<Longrightarrow> copies (PtrT (Pool_type m)) (Pool_DeepCopy m)"
  by (simp add: Pool_DeepCopy_def copies_rules)

subsection \<open>\<^verbatim>\<open>PoolList\<close>\<close>

definition PoolList_type :: "metav1 \<Rightarrow> gotype" where
  "PoolList_type m = StructT [
     (''TypeMeta'', TypeMeta_type m),
     (''ListMeta'', ListMeta_type m),
     (''Items'', SliceT (Pool_type m))]"

definition PoolList_DeepCopyInto :: "metav1 \<Rightarrow> copier" where
  "PoolList_DeepCopyInto m = into [
     (''TypeMeta'', plain),
     (''ListMeta'', ListMeta_DeepCopyInto m),
     (''Items'', copySlice (Pool_type m) (Pool_DeepCopyInto m))]"

definition PoolList_DeepCopy :: "metav1 \<Rightarrow> copier" where
  "PoolList_DeepCopy m = copyPtr (PoolList_type m) (PoolList_DeepCopyInto m)"

definition PoolList_DeepCopyObject :: "metav1 \<Rightarrow> val \<Rightarrow> (heap, val option) prog" where
  "PoolList_DeepCopyObject m = asObject (PoolList_DeepCopy m)"

lemma PoolList_copies [copies_rules]: "metav1_ok m \<Longrightarrow> copies (PoolList_type m) (PoolList_DeepCopyInto m)"
  by (simp add: PoolList_type_def PoolList_DeepCopyInto_def covered_def copies_rules metav1_ok_def)

lemma PoolList_DeepCopy_copies [copies_rules]: "metav1_ok m \<Longrightarrow> copies (PtrT (PoolList_type m)) (PoolList_DeepCopy m)"
  by (simp add: PoolList_DeepCopy_def copies_rules)

subsection \<open>\<^verbatim>\<open>VolumeSize\<close>\<close>

definition VolumeSize_type :: "gotype" where
  "VolumeSize_type = StructT [
     (''Unit'', StrT),
     (''Value'', NumT)]"

definition VolumeSize_DeepCopyInto :: "copier" where
  "VolumeSize_DeepCopyInto = into []"

definition VolumeSize_DeepCopy :: "copier" where
  "VolumeSize_DeepCopy = copyPtr VolumeSize_type VolumeSize_DeepCopyInto"

lemma flat_VolumeSize [simp]: "flat VolumeSize_type"
  by (simp add: VolumeSize_type_def)

lemma VolumeSize_copies [copies_rules]: "copies VolumeSize_type VolumeSize_DeepCopyInto"
  by (simp add: VolumeSize_type_def VolumeSize_DeepCopyInto_def covered_def copies_rules)

lemma VolumeSize_DeepCopy_copies [copies_rules]: "copies (PtrT VolumeSize_type) VolumeSize_DeepCopy"
  by (simp add: VolumeSize_DeepCopy_def copies_rules)

subsection \<open>\<^verbatim>\<open>VolumeSource\<close>\<close>

definition VolumeSource_type :: "gotype" where
  "VolumeSource_type = StructT [
     (''URL'', StrT),
     (''Checksum'', PtrT StrT)]"

definition VolumeSource_DeepCopyInto :: "copier" where
  "VolumeSource_DeepCopyInto = into [
     (''Checksum'', copyPtr StrT plain)]"

definition VolumeSource_DeepCopy :: "copier" where
  "VolumeSource_DeepCopy = copyPtr VolumeSource_type VolumeSource_DeepCopyInto"

lemma VolumeSource_copies [copies_rules]: "copies VolumeSource_type VolumeSource_DeepCopyInto"
  by (simp add: VolumeSource_type_def VolumeSource_DeepCopyInto_def covered_def copies_rules)

lemma VolumeSource_DeepCopy_copies [copies_rules]: "copies (PtrT VolumeSource_type) VolumeSource_DeepCopy"
  by (simp add: VolumeSource_DeepCopy_def copies_rules)

subsection \<open>\<^verbatim>\<open>VolumeSpec\<close>\<close>

definition VolumeSpec_type :: "gotype" where
  "VolumeSpec_type = StructT [
     (''ExternalResourceMeta'', ExternalResourceMeta_type),
     (''Format'', StrT),
     (''Size'', PtrT VolumeSize_type),
     (''PoolRef'', ResourceRef_type),
     (''Source'', PtrT VolumeSource_type),
     (''BackingStoreRef'', PtrT ResourceRef_type)]"

definition VolumeSpec_DeepCopyInto :: "copier" where
  "VolumeSpec_DeepCopyInto = into [
     (''ExternalResourceMeta'', plain),
     (''Size'', copyPtr VolumeSize_type plain),
     (''PoolRef'', plain),
     (''Source'', copyPtr VolumeSource_type VolumeSource_DeepCopyInto),
     (''BackingStoreRef'', copyPtr ResourceRef_type plain)]"

definition VolumeSpec_DeepCopy :: "copier" where
  "VolumeSpec_DeepCopy = copyPtr VolumeSpec_type VolumeSpec_DeepCopyInto"

lemma VolumeSpec_copies [copies_rules]: "copies VolumeSpec_type VolumeSpec_DeepCopyInto"
  by (simp add: VolumeSpec_type_def VolumeSpec_DeepCopyInto_def covered_def copies_rules)

lemma VolumeSpec_DeepCopy_copies [copies_rules]: "copies (PtrT VolumeSpec_type) VolumeSpec_DeepCopy"
  by (simp add: VolumeSpec_DeepCopy_def copies_rules)

subsection \<open>\<^verbatim>\<open>VolumeStatus\<close>\<close>

definition VolumeStatus_type :: "metav1 \<Rightarrow> gotype" where
  "VolumeStatus_type m = StructT [
     (''Pool'', StrT),
     (''Host'', StrT),
     (''Conditions'', SliceT (Condition_type m))]"

definition VolumeStatus_DeepCopyInto :: "metav1 \<Rightarrow> copier" where
  "VolumeStatus_DeepCopyInto m = into [
     (''Conditions'', copySlice (Condition_type m) (Condition_DeepCopyInto m))]"

definition VolumeStatus_DeepCopy :: "metav1 \<Rightarrow> copier" where
  "VolumeStatus_DeepCopy m = copyPtr (VolumeStatus_type m) (VolumeStatus_DeepCopyInto m)"

lemma VolumeStatus_copies [copies_rules]: "metav1_ok m \<Longrightarrow> copies (VolumeStatus_type m) (VolumeStatus_DeepCopyInto m)"
  by (simp add: VolumeStatus_type_def VolumeStatus_DeepCopyInto_def covered_def copies_rules metav1_ok_def)

lemma VolumeStatus_DeepCopy_copies [copies_rules]: "metav1_ok m \<Longrightarrow> copies (PtrT (VolumeStatus_type m)) (VolumeStatus_DeepCopy m)"
  by (simp add: VolumeStatus_DeepCopy_def copies_rules)

subsection \<open>\<^verbatim>\<open>Volume\<close>\<close>

definition Volume_type :: "metav1 \<Rightarrow> gotype" where
  "Volume_type m = StructT [
     (''TypeMeta'', TypeMeta_type m),
     (''ObjectMeta'', ObjectMeta_type m),
     (''Spec'', VolumeSpec_type),
     (''Status'', VolumeStatus_type m)]"

definition Volume_DeepCopyInto :: "metav1 \<Rightarrow> copier" where
  "Volume_DeepCopyInto m = into [
     (''TypeMeta'', plain),
     (''ObjectMeta'', ObjectMeta_DeepCopyInto m),
     (''Spec'', VolumeSpec_DeepCopyInto),
     (''Status'', VolumeStatus_DeepCopyInto m)]"

definition Volume_DeepCopy :: "metav1 \<Rightarrow> copier" where
  "Volume_DeepCopy m = copyPtr (Volume_type m) (Volume_DeepCopyInto m)"

definition Volume_DeepCopyObject :: "metav1 \<Rightarrow> val \<Rightarrow> (heap, val option) prog" where
  "Volume_DeepCopyObject m = asObject (Volume_DeepCopy m)"

lemma Volume_copies [copies_rules]: "metav1_ok m \<Longrightarrow> copies (Volume_type m) (Volume_DeepCopyInto m)"
  by (simp add: Volume_type_def Volume_DeepCopyInto_def covered_def copies_rules metav1_ok_def)

lemma Volume_DeepCopy_copies [copies_rules]: "metav1_ok m \<Longrightarrow> copies (PtrT (Volume_type m)) (Volume_DeepCopy m)"
  by (simp add: Volume_DeepCopy_def copies_rules)

subsection \<open>\<^verbatim>\<open>VolumeList\<close>\<close>

definition VolumeList_type :: "metav1 \<Rightarrow> gotype" where
  "VolumeList_type m = StructT [
     (''TypeMeta'', TypeMeta_type m),
     (''ListMeta'', ListMeta_type m),
     (''Items'', SliceT (Volume_type m))]"

definition VolumeList_DeepCopyInto :: "metav1 \<Rightarrow> copier" where
  "VolumeList_DeepCopyInto m = into [
     (''TypeMeta'', plain),
     (''ListMeta'', ListMeta_DeepCopyInto m),
     (''Items'', copySlice (Volume_type m) (Volume_DeepCopyInto m))]"

definition VolumeList_DeepCopy :: "metav1 \<Rightarrow> copier" where
  "VolumeList_DeepCopy m = copyPtr (VolumeList_type m) (VolumeList_DeepCopyInto m)"

definition VolumeList_DeepCopyObject :: "metav1 \<Rightarrow> val \<Rightarrow> (heap, val option) prog" where
  "VolumeList_DeepCopyObject m = asObject (VolumeList_DeepCopy m)"

lemma VolumeList_copies [copies_rules]: "metav1_ok m \<Longrightarrow> copies (VolumeList_type m) (VolumeList_DeepCopyInto m)"
  by (simp add: VolumeList_type_def VolumeList_DeepCopyInto_def covered_def copies_rules metav1_ok_def)

lemma VolumeList_DeepCopy_copies [copies_rules]: "metav1_ok m \<Longrightarrow> copies (PtrT (VolumeList_type m)) (VolumeList_DeepCopy m)"
  by (simp add: VolumeList_DeepCopy_def copies_rules)

section \<open>A deep copy and its original\<close>

text \<open>
  All deep copies of the API, each with the type it copies; and those that make the kinds and their
  lists objects of the Kubernetes runtime.
\<close>

definition deepCopies :: "metav1 \<Rightarrow> (gotype \<times> copier) list" where
  "deepCopies m = [
     (ResourceRef_type, ResourceRef_DeepCopy),
     (AuthSpec_type, AuthSpec_DeepCopy),
     (AuthStatus_type m, AuthStatus_DeepCopy m),
     (Auth_type m, Auth_DeepCopy m),
     (AuthList_type m, AuthList_DeepCopy m),
     (ExternalResourceMeta_type, ExternalResourceMeta_DeepCopy),
     (CloudInitMetadata_type, CloudInitMetadata_DeepCopy),
     (CloudInitUser_type, CloudInitUser_DeepCopy),
     (CloudInitWriteFileSource_type, CloudInitWriteFileSource_DeepCopy),
     (CloudInitWriteFile_type, CloudInitWriteFile_DeepCopy),
     (CloudInitGrowpart_type, CloudInitGrowpart_DeepCopy),
     (CloudInitMountSwap_type, CloudInitMountSwap_DeepCopy),
     (CloudInitDisk_type, CloudInitDisk_DeepCopy),
     (CloudInitFS_type, CloudInitFS_DeepCopy),
     (CloudInitCACerts_type, CloudInitCACerts_DeepCopy),
     (CloudInitNTPConfig_type, CloudInitNTPConfig_DeepCopy),
     (CloudInitNTP_type, CloudInitNTP_DeepCopy),
     (CloudInitKeyboard_type, CloudInitKeyboard_DeepCopy),
     (CloudInitPhoneHome_type, CloudInitPhoneHome_DeepCopy),
     (CloudInitCloudConfig_type, CloudInitCloudConfig_DeepCopy),
     (CloudInitMatch_type, CloudInitMatch_DeepCopy),
     (CloudInitPhysicalProperties_type, CloudInitPhysicalProperties_DeepCopy),
     (CloudInitDHCPOverrides_type, CloudInitDHCPOverrides_DeepCopy),
     (CloudInitNameservers_type, CloudInitNameservers_DeepCopy),
     (CloudInitRoute_type, CloudInitRoute_DeepCopy),
     (NetplanRAOverrides_type, NetplanRAOverrides_DeepCopy),
     (NetplanPassthrough_type, NetplanPassthrough_DeepCopy),
     (CloudInitNetworkProperties_type, CloudInitNetworkProperties_DeepCopy),
     (CloudInitEthernet_type, CloudInitEthernet_DeepCopy),
     (CloudInitBondParameters_type, CloudInitBondParameters_DeepCopy),
     (CloudInitBond_type, CloudInitBond_DeepCopy),
     (CloudInitBridgeParameters_type, CloudInitBridgeParameters_DeepCopy),
     (CloudInitBridge_type, CloudInitBridge_DeepCopy),
     (CloudInitVLAN_type, CloudInitVLAN_DeepCopy),
     (CloudInitNetworkConfig_type, CloudInitNetworkConfig_DeepCopy),
     (CloudInitSpec_type, CloudInitSpec_DeepCopy),
     (CloudInitStatus_type m, CloudInitStatus_DeepCopy m),
     (CloudInit_type m, CloudInit_DeepCopy m),
     (CloudInitList_type m, CloudInitList_DeepCopy m),
     (DomainVCPU_type, DomainVCPU_DeepCopy),
     (DomainCPU_type, DomainCPU_DeepCopy),
     (DomainMemory_type, DomainMemory_DeepCopy),
     (DomainDisk_type, DomainDisk_DeepCopy),
     (DomainInterface_type, DomainInterface_DeepCopy),
     (DomainCloudInit_type, DomainCloudInit_DeepCopy),
     (DomainPCIPassthrough_type, DomainPCIPassthrough_DeepCopy),
     (DomainSpec_type, DomainSpec_DeepCopy),
     (DomainStatus_type m, DomainStatus_DeepCopy m),
     (Domain_type m, Domain_DeepCopy m),
     (DomainList_type m, DomainList_DeepCopy m),
     (HostSpec_type, HostSpec_DeepCopy),
     (HostMemory_type, HostMemory_DeepCopy),
     (HostCapability_type, HostCapability_DeepCopy),
     (HostStatus_type m, HostStatus_DeepCopy m),
     (Host_type m, Host_DeepCopy m),
     (HostList_type m, HostList_DeepCopy m),
     (NetworkSpec_type, NetworkSpec_DeepCopy),
     (NetworkStatus_type m, NetworkStatus_DeepCopy m),
     (Network_type m, Network_DeepCopy m),
     (NetworkList_type m, NetworkList_DeepCopy m),
     (PCIDeviceSpec_type, PCIDeviceSpec_DeepCopy),
     (PCIDeviceAddress_type, PCIDeviceAddress_DeepCopy),
     (PCIDeviceStatus_type m, PCIDeviceStatus_DeepCopy m),
     (PCIDevice_type m, PCIDevice_DeepCopy m),
     (PCIDeviceList_type m, PCIDeviceList_DeepCopy m),
     (PoolSpec_type, PoolSpec_DeepCopy),
     (PoolCapacity_type, PoolCapacity_DeepCopy),
     (PoolStatus_type m, PoolStatus_DeepCopy m),
     (Pool_type m, Pool_DeepCopy m),
     (PoolList_type m, PoolList_DeepCopy m),
     (VolumeSize_type, VolumeSize_DeepCopy),
     (VolumeSource_type, VolumeSource_DeepCopy),
     (VolumeSpec_type, VolumeSpec_DeepCopy),
     (VolumeStatus_type m, VolumeStatus_DeepCopy m),
     (Volume_type m, Volume_DeepCopy m),
     (VolumeList_type m, VolumeList_DeepCopy m)]"

definition deepCopyObjects :: "metav1 \<Rightarrow> (gotype \<times> copier \<times> (val \<Rightarrow> (heap, val option) prog)) list" where
  "deepCopyObjects m = [
     (Auth_type m, Auth_DeepCopy m, Auth_DeepCopyObject m),
     (AuthList_type m, AuthList_DeepCopy m, AuthList_DeepCopyObject m),
     (CloudInit_type m, CloudInit_DeepCopy m, CloudInit_DeepCopyObject m),
     (CloudInitList_type m, CloudInitList_DeepCopy m, CloudInitList_DeepCopyObject m),
     (Domain_type m, Domain_DeepCopy m, Domain_DeepCopyObject m),
     (DomainList_type m, DomainList_DeepCopy m, DomainList_DeepCopyObject m),
     (Host_type m, Host_DeepCopy m, Host_DeepCopyObject m),
     (HostList_type m, HostList_DeepCopy m, HostList_DeepCopyObject m),
     (Network_type m, Network_DeepCopy m, Network_DeepCopyObject m),
     (NetworkList_type m, NetworkList_DeepCopy m, NetworkList_DeepCopyObject m),
     (PCIDevice_type m, PCIDevice_DeepCopy m, PCIDevice_DeepCopyObject m),
     (PCIDeviceList_type m, PCIDeviceList_DeepCopy m, PCIDeviceList_DeepCopyObject m),
     (Pool_type m, Pool_DeepCopy m, Pool_DeepCopyObject m),
     (PoolList_type m, PoolList_DeepCopy m, PoolList_DeepCopyObject m),
     (Volume_type m, Volume_DeepCopy m, Volume_DeepCopyObject m),
     (VolumeList_type m, VolumeList_DeepCopy m, VolumeList_DeepCopyObject m)]"

lemma deepCopies_copies: "metav1_ok m \<Longrightarrow> list_all (\<lambda>(ty, dc). copies (PtrT ty) dc) (deepCopies m)"
  by (simp add: deepCopies_def copies_rules)

lemma deepCopyObjects_deepCopies:
  "list_all (\<lambda>(ty, dc, dco). (ty, dc) \<in> set (deepCopies m) \<and> dco = asObject dc) (deepCopyObjects m)"
  by (simp add: deepCopyObjects_def deepCopies_def Auth_DeepCopyObject_def AuthList_DeepCopyObject_def CloudInit_DeepCopyObject_def CloudInitList_DeepCopyObject_def Domain_DeepCopyObject_def DomainList_DeepCopyObject_def Host_DeepCopyObject_def HostList_DeepCopyObject_def Network_DeepCopyObject_def NetworkList_DeepCopyObject_def PCIDevice_DeepCopyObject_def PCIDeviceList_DeepCopyObject_def Pool_DeepCopyObject_def PoolList_DeepCopyObject_def Volume_DeepCopyObject_def VolumeList_DeepCopyObject_def)

lemma deepCopies_member: "metav1_ok m \<Longrightarrow> (ty, dc) \<in> set (deepCopies m) \<Longrightarrow> copies (PtrT ty) dc"
  using deepCopies_copies [of m] by (auto simp: list_all_iff)

text \<open>C27: A deep copy reads as its original and shares no memory with it: \<^verbatim>\<open>DeepCopy\<close> of every API type returns
  without a panic, and whatever is written afterwards to the memory of the original is not seen
  through the copy, whatever is written to new memory not through the original.\<close>

theorem DeepCopy_detached:
  assumes "metav1_ok m" and "(ty, dc) \<in> set (deepCopies m)" and "deep anywhere (PtrT ty) h p = Some t"
  shows "\<exists>q h'. dc p h = (Returns q, h') \<and>
    (\<forall>k. kept (\<lambda>a. length h \<le> a) h' k \<longrightarrow> deep anywhere (PtrT ty) k q = Some t) \<and>
    (\<forall>k. kept (\<lambda>a. a < length h) h' k \<longrightarrow> deep anywhere (PtrT ty) k p = Some t)"
  by (rule copies_detached [OF deepCopies_member [OF assms(1,2)] assms(3)])

text \<open>\<^verbatim>\<open>DeepCopyObject\<close> of a kind or a list of a kind returns the nil interface for a nil pointer, and
  never an interface that holds a nil pointer; for any other pointer it returns what \<^verbatim>\<open>DeepCopy\<close>
  returns.\<close>

theorem DeepCopyObject_nil:
  assumes "metav1_ok m" and "(ty, dc, dco) \<in> set (deepCopyObjects m)" and "deep anywhere (PtrT ty) h p = Some t"
  shows "\<exists>q h'. dc p h = (Returns q, h') \<and> (q = PtrV None \<longleftrightarrow> p = PtrV None) \<and>
    dco p h = (Returns (if p = PtrV None then None else Some q), h')"
proof -
  have "(ty, dc) \<in> set (deepCopies m)" and dco: "dco = asObject dc"
    using deepCopyObjects_deepCopies [of m] assms(2) by (auto simp: list_all_iff)
  then have "copies (PtrT ty) dc" using assms(1) by (blast intro: deepCopies_member)
  then obtain q h' where q: "dc p h = (Returns q, h')" and d: "deep (\<lambda>a. length h \<le> a) (PtrT ty) h' q = Some t"
    using assms(3) by (rule copiesD)
  have "q = PtrV None \<longleftrightarrow> p = PtrV None"
    using d assms(3) by (auto simp: deep_PtrT_iff)
  then show ?thesis by (simp add: q dco asObject_def andThen_def ret_def)
qed

section \<open>An example\<close>

text \<open>A package \<^verbatim>\<open>metav1\<close> that copies as documented, and credentials with a CA certificate.\<close>

definition metav1_example :: metav1 where
  "metav1_example = \<lparr>
     TypeMeta_type = StructT [(''Kind'', StrT), (''APIVersion'', StrT)],
     ObjectMeta_type = StructT [(''Name'', StrT), (''Namespace'', StrT), (''Generation'', NumT),
       (''Labels'', MapT StrT), (''Finalizers'', SliceT StrT)],
     ObjectMeta_DeepCopyInto = into [(''Labels'', copyMap plain), (''Finalizers'', copySlice StrT plain)],
     ListMeta_type = StructT [(''ResourceVersion'', StrT), (''RemainingItemCount'', PtrT NumT)],
     ListMeta_DeepCopyInto = into [(''RemainingItemCount'', copyPtr NumT plain)],
     Condition_type = StructT [(''Type'', StrT), (''Status'', StrT), (''Reason'', StrT)],
     Condition_DeepCopyInto = into []\<rparr>"

lemma metav1_example_ok: "metav1_ok metav1_example"
  by (simp add: metav1_ok_def metav1_example_def copies_rules covered_def)

definition credentials_example :: heap where
  "credentials_example = [
     Var (StructV [(''Type'', StrV ''tls''), (''SecretRef'', StructV [(''Name'', StrV ''secret'')]),
       (''Verify'', PtrV None), (''Ca'', PtrV (Some 1)), (''KnownHosts'', PtrV None), (''Username'', PtrV None)]),
     Var (StrV ''ca'')]"

definition credentials_tree :: tree where
  "credentials_tree = Pointee (Some (Fields [
     (''Type'', Atom (StrV ''tls'')), (''SecretRef'', Fields [(''Name'', Atom (StrV ''secret''))]),
     (''Verify'', Pointee None), (''Ca'', Pointee (Some (Atom (StrV ''ca'')))),
     (''KnownHosts'', Pointee None), (''Username'', Pointee None)]))"

lemma credentials_deep: "deep anywhere (PtrT AuthSpec_type) credentials_example (PtrV (Some 0)) = Some credentials_tree"
  by (simp add: credentials_example_def credentials_tree_def AuthSpec_type_def ResourceRef_type_def deep.simps cellAt_def)

theorem DeepCopy_detached_witness:
  "\<exists>q h'. AuthSpec_DeepCopy (PtrV (Some 0)) credentials_example = (Returns q, h') \<and>
     (\<forall>k. kept (\<lambda>a. length credentials_example \<le> a) h' k \<longrightarrow> deep anywhere (PtrT AuthSpec_type) k q = Some credentials_tree) \<and>
     (\<forall>k. kept (\<lambda>a. a < length credentials_example) h' k \<longrightarrow>
       deep anywhere (PtrT AuthSpec_type) k (PtrV (Some 0)) = Some credentials_tree)"
  by (rule DeepCopy_detached [OF metav1_example_ok _ credentials_deep]) (simp add: deepCopies_def)

text \<open>An empty list of networks, with a pointer in its metadata.\<close>

definition networks_example :: heap where
  "networks_example = [
     Var (StructV [(''TypeMeta'', StructV [(''Kind'', StrV ''NetworkList''), (''APIVersion'', StrV ''v1alpha1'')]),
       (''ListMeta'', StructV [(''ResourceVersion'', StrV ''7''), (''RemainingItemCount'', PtrV (Some 1))]),
       (''Items'', SliceV (Some (2, 0, 0)))]),
     Var (NumV 0), Array []]"

definition networks_tree :: tree where
  "networks_tree = Pointee (Some (Fields [
     (''TypeMeta'', Fields [(''Kind'', Atom (StrV ''NetworkList'')), (''APIVersion'', Atom (StrV ''v1alpha1''))]),
     (''ListMeta'', Fields [(''ResourceVersion'', Atom (StrV ''7'')), (''RemainingItemCount'', Pointee (Some (Atom (NumV 0))))]),
     (''Items'', Items (Some []))]))"

lemma networks_deep:
  "deep anywhere (PtrT (NetworkList_type metav1_example)) networks_example (PtrV (Some 0)) = Some networks_tree"
  by (simp add: networks_example_def networks_tree_def NetworkList_type_def metav1_example_def deep.simps cellAt_def)

theorem DeepCopyObject_nil_witness:
  "\<exists>q h'. NetworkList_DeepCopy metav1_example (PtrV (Some 0)) networks_example = (Returns q, h') \<and>
     (q = PtrV None \<longleftrightarrow> PtrV (Some 0) = PtrV None) \<and>
     NetworkList_DeepCopyObject metav1_example (PtrV (Some 0)) networks_example =
       (Returns (if PtrV (Some 0) = PtrV None then None else Some q), h')"
  by (rule DeepCopyObject_nil [OF metav1_example_ok _ networks_deep]) (simp add: deepCopyObjects_def)

text \<open>An assignment of the struct is no copy of it: the pointer to the certificate is shared.\<close>

lemma assignment_is_no_copy: "\<not> copies AuthSpec_type (into [])"
proof
  let ?v = "StructV [(''Type'', StrV []), (''SecretRef'', StructV [(''Name'', StrV [])]),
    (''Verify'', PtrV None), (''Ca'', PtrV (Some 0)), (''KnownHosts'', PtrV None), (''Username'', PtrV None)]"
  assume c: "copies AuthSpec_type (into [])"
  obtain t where "deep anywhere AuthSpec_type [Var (StrV [])] ?v = Some t"
    by (simp add: AuthSpec_type_def ResourceRef_type_def deep.simps cellAt_def)
  from copiesD [OF c this] show False
    by (auto simp: into_def andThen_def ret_def AuthSpec_type_def ResourceRef_type_def deep.simps cellAt_def)
qed

end
