(* ===== verification/HostKeys.thy ===== *)
theory HostKeys
  imports HostContract DomainDisks
begin

text \<open>
  Two more laws of a daemon. Volumes by their keys: the walk over the backing stores of a disk asks the daemon for volumes by key, not by name.
  A daemon that finds every volume it has under its key describes each chain of its volumes; the fake does, as long as
  no two of its pools and no two volumes of a pool have the same name. Uploads: they are accepted, and may change the
  size that the daemon reports, but nothing else of what it describes.
\<close>

section \<open>The contract\<close>

definition heldAs :: "(string \<rightharpoonup> (string \<rightharpoonup> StorageVolume)) \<Rightarrow> string \<Rightarrow> StorageVolume \<Rightarrow> bool" where
  "heldAs vols key v \<longleftrightarrow> (\<exists>p m n. vols p = Some m \<and> m n = Some v) \<and> sv_Key v = key"

locale keyed_volume_host = volume_host x c vols
  for x :: xmlcodec and c :: "'s Client" and vols +
  assumes keyed: "heldAs (vols s) key v \<Longrightarrow> \<exists>p m n v'. vols s p = Some m \<and> m n = Some v' \<and> sv_Key v' = key \<and>
      StorageVolLookupByKey c key s = (Returns (Inr \<lparr>lsv_Pool = p, lsv_Name = n, lsv_Key = key\<rparr>), s)"
begin

text \<open>The volumes that are the only ones with their key are those that a walk can read.\<close>

lemma describes:
  assumes "\<And>key v. store key = Some v \<Longrightarrow> heldAs (vols s) key v \<and> (\<forall>v'. heldAs (vols s) key v' \<longrightarrow> v' = v) \<and>
      (\<exists>xml. vol_Marshal x v = Inr xml \<and> vol_Unmarshal x xml = Inr v)"
  shows "describesKeys x c s store"
  unfolding describesKeys_def
proof (intro allI impI)
  fix key v assume "store key = Some v"
  from assms [OF this] obtain xml where v: "heldAs (vols s) key v" "\<And>v'. heldAs (vols s) key v' \<Longrightarrow> v' = v"
    "vol_Marshal x v = Inr xml" "vol_Unmarshal x xml = Inr v" by blast
  from keyed [OF v(1)] obtain p m n v' where k: "vols s p = Some m" "m n = Some v'" "sv_Key v' = key"
    "StorageVolLookupByKey c key s = (Returns (Inr \<lparr>lsv_Pool = p, lsv_Name = n, lsv_Key = key\<rparr>), s)" by blast
  then have "v' = v" by (intro v(2)) (auto simp: heldAs_def)
  with describe [OF k(1,2), of key 0] k(4) v(3,4)
  show "\<exists>h xml. StorageVolLookupByKey c key s = (Returns (Inr h), s) \<and>
      StorageVolGetXMLDesc c h 0 s = (Returns (Inr xml), s) \<and> vol_Unmarshal x xml = Inr v" by auto
qed

corollary walks:
  assumes "chainOf store (svb_Path chain) bs n" and "n \<le> fuel"
    and "\<And>key v. store key = Some v \<Longrightarrow> heldAs (vols s) key v \<and> (\<forall>v'. heldAs (vols s) key v' \<longrightarrow> v' = v) \<and>
      (\<exists>xml. vol_Marshal x v = Inr xml \<and> vol_Unmarshal x xml = Inr v)"
  shows "backingChain fuel x c chain s = (Returns (Inr bs), s)"
  by (rule backingChain_reads [OF assms(1) describes assms(2) refl]) (rule assms(3))

end

locale uploading_volume_host = volume_host x c vols
  for x :: xmlcodec and c :: "'s Client" and vols +
  assumes uploads: "vols s p = Some m \<Longrightarrow> m n = Some v \<Longrightarrow> sv_Capacity v \<noteq> None \<Longrightarrow>
      \<exists>s' cap. StorageVolUpload c \<lparr>lsv_Pool = p, lsv_Name = n, lsv_Key = k\<rparr> bs off len flags s = (Returns None, s') \<and>
        vols s' = (vols s)(p \<mapsto> m(n \<mapsto> v\<lparr>sv_Capacity := cap\<rparr>))"
begin

text \<open>Creating a volume and filling it.\<close>

lemma VolumeCreate_filled:
  assumes "vols s p = Some m" and "va_pool action = \<lparr>lsp_Name = p\<rparr>" and "va_source action = Some file"
    and "vol_Marshal x (va_def action) = Inr xml" and "vol_Unmarshal x xml = Inr (va_def action)"
    and "sv_Name (va_def action) = n" and "m n = None" and "sv_Capacity (va_def action) \<noteq> None"
  shows "\<exists>action' s' cap. VolumeCreate x c action s = (Returns (None, action'), s') \<and> VolumeState action' \<and>
    vols s' = (vols s)(p \<mapsto> m(n \<mapsto> (va_def action)\<lparr>sv_Capacity := cap\<rparr>))"
proof -
  let ?v = "va_def action"
  from creates [OF assms(1,5), of 0] assms(6,7) obtain s1 where
    s1: "StorageVolCreateXML c \<lparr>lsp_Name = p\<rparr> xml 0 s = (Returns (Inr \<lparr>lsv_Pool = p, lsv_Name = n, lsv_Key = sv_Key ?v\<rparr>), s1)"
      "vols s1 = (vols s)(p \<mapsto> m(n \<mapsto> ?v))" by auto
  from uploads [of s1 p "m(n \<mapsto> ?v)" n ?v "sv_Key ?v" "drop (of_Offset file) (of_Content file)" 0 0 StorageVolUploadSparseStream]
    s1(2) assms(8) obtain s2 cap where
    "StorageVolUpload c \<lparr>lsv_Pool = p, lsv_Name = n, lsv_Key = sv_Key ?v\<rparr> (drop (of_Offset file) (of_Content file)) 0 0
       StorageVolUploadSparseStream s1 = (Returns None, s2)" "vols s2 = (vols s)(p \<mapsto> m(n \<mapsto> ?v\<lparr>sv_Capacity := cap\<rparr>))"
    by auto
  with s1(1) assms(2-4) show ?thesis
    by (auto simp: VolumeCreate_def attempt_def andThen_def ret_def VolumeState_def Let_def)
qed

end

section \<open>The fake libvirt\<close>

definition wellNamed :: "Fake \<Rightarrow> bool" where
  "wellNamed f \<longleftrightarrow> distinct (map (\<lambda>p. spx_Name (fp_xml p)) (f_pools f)) \<and>
     (\<forall>p\<in>set (f_pools f). distinct (map sv_Name (fp_volumes p)))"

definition knownVolumes :: "Fake \<Rightarrow> string \<rightharpoonup> (string \<rightharpoonup> StorageVolume)" where
  "knownVolumes f = (if wellNamed f then fakeVolumes f else Map.empty)"

lemma knownVolumes_Some: "knownVolumes f p = Some m \<longleftrightarrow> wellNamed f \<and> fakeVolumes f p = Some m"
  by (simp add: knownVolumes_def)

lemma firstBy_distinct: "distinct (map key xs) \<Longrightarrow> a \<in> set xs \<Longrightarrow> firstBy key xs (key a) = Some a"
  by (induction xs) (auto simp: rev_image_eqI)

lemma firstBy_member: "firstBy key xs k = Some a \<Longrightarrow> a \<in> set xs \<and> key a = k"
  by (induction xs) (auto split: if_splits)

lemma lookupKey_found: "lookupKey key pools = Inr h \<Longrightarrow> \<exists>p v. p \<in> set pools \<and> v \<in> set (fp_volumes p) \<and> sv_Key v = key \<and>
    h = \<lparr>lsv_Pool = spx_Name (fp_xml p), lsv_Name = sv_Name v, lsv_Key = key\<rparr>"
proof (induction pools)
  case (Cons p pools)
  show ?case
  proof (cases "IndexFunc (\<lambda>v. sv_Key v = key) (fp_volumes p)")
    case (Some i)
    then show ?thesis using Cons.prems IndexFunc_Some [OF Some] by (auto simp: Let_def intro!: bexI exI)
  qed (use Cons in auto)
qed simp

lemma lookupKey_finds: "p \<in> set pools \<Longrightarrow> v \<in> set (fp_volumes p) \<Longrightarrow> \<exists>h. lookupKey (sv_Key v) pools = Inr h"
  by (induction pools) (auto split: option.split simp: Let_def IndexFunc_None_iff)

lemma wellNamed_setPool:
  assumes "wellNamed f" and "distinct (map sv_Name vs)"
  shows "wellNamed (f\<lparr>f_pools := (f_pools f)[i := (f_pools f ! i)\<lparr>fp_volumes := vs\<rparr>]\<rparr>)"
proof (cases "i < length (f_pools f)")
  case True
  have "map (\<lambda>p. spx_Name (fp_xml p)) ((f_pools f)[i := (f_pools f ! i)\<lparr>fp_volumes := vs\<rparr>]) = map (\<lambda>p. spx_Name (fp_xml p)) (f_pools f)"
    using True by (simp add: map_update list_update_same_conv)
  with assms show ?thesis
    by (auto simp: wellNamed_def dest!: subsetD [OF set_update_subset_insert])
qed (use assms in \<open>simp add: wellNamed_def not_less list_update_beyond\<close>)

lemma wellNamed_volumes: "wellNamed f \<Longrightarrow> getPoolIndex p f = Inr i \<Longrightarrow> distinct (map sv_Name (fp_volumes (f_pools f ! i)))"
  by (auto simp: wellNamed_def dest!: getPoolIndex_name)

text \<open>That names are distinct is kept by the calls on volumes.\<close>

lemma wellNamed_calls:
  "moves (\<lambda>f f'. wellNamed f \<longrightarrow> wellNamed f') (fakeStorageVolCreateXML x p xml fl)"
  "moves (\<lambda>f f'. wellNamed f \<longrightarrow> wellNamed f') (fakeStorageVolDelete v fl)"
  "moves (\<lambda>f f'. wellNamed f \<longrightarrow> wellNamed f') (fakeStorageVolResize v b fl)"
  "moves (\<lambda>f f'. wellNamed f \<longrightarrow> wellNamed f') (fakeStorageVolUpload v bs off len fl)"
proof -
  show "moves (\<lambda>f f'. wellNamed f \<longrightarrow> wellNamed f') (fakeStorageVolCreateXML x p xml fl)"
  proof (intro movesI impI)
    fix f assume o: "wellNamed f"
    show "wellNamed (snd (fakeStorageVolCreateXML x p xml fl f))"
      using o
      by (auto simp: fakeStorageVolCreateXML_def createVol_def attempt_def andThen_def ret_def getVolumeIndex_def IndexFunc_None_iff
          image_iff split: sum.split option.splits intro!: wellNamed_setPool) (use wellNamed_volumes in blast)+
  qed
  show "moves (\<lambda>f f'. wellNamed f \<longrightarrow> wellNamed f') (fakeStorageVolDelete v fl)"
  proof (intro movesI impI)
    fix f assume o: "wellNamed f"
    show "wellNamed (snd (fakeStorageVolDelete v fl f))"
      using o
      by (auto simp: fakeStorageVolDelete_def deleteVol_def split: sum.split
          intro!: wellNamed_setPool distinct_map_filter intro: wellNamed_volumes)
  qed
  have same: "map sv_Name (vs[j := (vs ! j)\<lparr>sv_Capacity := c\<rparr>]) = map sv_Name vs" for vs :: "StorageVolume list" and j c
    by (cases "j < length vs") (simp_all add: map_update list_update_same_conv not_less list_update_beyond)
  have sized: "moves (\<lambda>f f'. wellNamed f \<longrightarrow> wellNamed f') (withVolume v (\<lambda>err. ret (Some err)) (\<lambda>i j v. setCapacityBytes i j v b))" for b
  proof (intro movesI impI)
    fix f assume o: "wellNamed f"
    then show "wellNamed (snd (withVolume v (\<lambda>err. ret (Some err)) (\<lambda>i j v. setCapacityBytes i j v b) f))"
      by (auto simp: withVolume_def setCapacityBytes_def setVolume_def ret_def same
          split: sum.split option.split intro!: wellNamed_setPool intro: wellNamed_volumes)
  qed
  show "moves (\<lambda>f f'. wellNamed f \<longrightarrow> wellNamed f') (fakeStorageVolResize v b fl)"
    unfolding fakeStorageVolResize_def by (rule sized)
  show "moves (\<lambda>f f'. wellNamed f \<longrightarrow> wellNamed f') (fakeStorageVolUpload v bs off len fl)"
    unfolding fakeStorageVolUpload_def by (rule sized)
qed

interpretation known_volumes: volume_host x "fakeClient x sc" knownVolumes for x sc
proof
  fix s p m assume "knownVolumes s p = Some m"
  then have o: "wellNamed s" "knownVolumes s = fakeVolumes s" and p: "fakeVolumes s p = Some m"
    by (simp_all add: knownVolumes_def split: if_splits)
  have kept: "knownVolumes s' = fakeVolumes s'" if "moves (\<lambda>f f'. wellNamed f \<longrightarrow> wellNamed f') call" "call s = (r, s')"
    for s' r and call :: "(Fake, 'r) prog"
    using movesD [OF that] o(1) by (simp add: knownVolumes_def)
  show "StoragePoolLookupByName (fakeClient x sc) p s = (Returns (Inr \<lparr>lsp_Name = p\<rparr>), s)" by (rule fake_volumes.pool [OF p])
  fix n v k flags
  show "StorageVolLookupByName (fakeClient x sc) \<lparr>lsp_Name = p\<rparr> n s =
      (Returns (Inr \<lparr>lsv_Pool = p, lsv_Name = n, lsv_Key = sv_Key v\<rparr>), s)" if "m n = Some v"
    by (rule fake_volumes.lookup [OF p that])
  show "\<exists>err. isCode ErrNoStorageVol err \<and> StorageVolLookupByName (fakeClient x sc) \<lparr>lsp_Name = p\<rparr> n s = (Returns (Inl err), s)"
    if "m n = None"
    by (rule fake_volumes.missing [OF p that])
  show "StorageVolGetXMLDesc (fakeClient x sc) \<lparr>lsv_Pool = p, lsv_Name = n, lsv_Key = k\<rparr> flags s = (Returns (vol_Marshal x v), s)"
    if "m n = Some v"
    by (rule fake_volumes.describe [OF p that])
  show "\<exists>s'. StorageVolCreateXML (fakeClient x sc) \<lparr>lsp_Name = p\<rparr> xml flags s =
      (Returns (Inr \<lparr>lsv_Pool = p, lsv_Name = sv_Name v, lsv_Key = sv_Key v\<rparr>), s') \<and>
      knownVolumes s' = (knownVolumes s)(p \<mapsto> m(sv_Name v \<mapsto> v))"
    if v: "vol_Unmarshal x xml = Inr v" "m (sv_Name v) = None" for xml
    using fake_volumes.creates [OF p v, of sc flags] kept [OF wellNamed_calls(1)] o(2) by (auto simp: fakeClient_def)
  show "\<exists>s'. StorageVolResize (fakeClient x sc) \<lparr>lsv_Pool = p, lsv_Name = n, lsv_Key = k\<rparr> b flags s = (Returns None, s') \<and>
      knownVolumes s' = (knownVolumes s)(p \<mapsto> m(n \<mapsto> v\<lparr>sv_Capacity := Some \<lparr>svs_Unit = ''bytes'', svs_Value = b\<rparr>\<rparr>))"
    if v: "m n = Some v" "sv_Capacity v \<noteq> None" for b
    using fake_volumes.resizes [OF p v, of x sc k b flags] kept [OF wellNamed_calls(3)] o(2) by (auto simp: fakeClient_def)
  show "\<exists>s'. StorageVolDelete (fakeClient x sc) \<lparr>lsv_Pool = p, lsv_Name = n, lsv_Key = k\<rparr> flags s = (Returns None, s') \<and>
      knownVolumes s' = (knownVolumes s)(p \<mapsto> m(n := None))" if v: "m n = Some v"
    using fake_volumes.deletes [OF p v, of x sc k flags] kept [OF wellNamed_calls(2)] o(2) by (auto simp: fakeClient_def)
qed

interpretation keyed_fake: keyed_volume_host x "fakeClient x sc" knownVolumes for x sc
proof
  fix s key v assume "heldAs (knownVolumes s) key v"
  then obtain p m n where h: "wellNamed s" "fakeVolumes s p = Some m" "m n = Some v" "sv_Key v = key"
    by (auto simp: heldAs_def knownVolumes_Some)
  then obtain i where i: "getPoolIndex p s = Inr i" "m = firstBy sv_Name (fp_volumes (f_pools s ! i))"
    by (auto simp: fakeVolumes_Some)
  from getPoolIndex_name [OF i(1)] firstBy_member [of sv_Name _ n v] h(3) i(2)
  have "f_pools s ! i \<in> set (f_pools s)" "v \<in> set (fp_volumes (f_pools s ! i))" by auto
  from lookupKey_finds [OF this] h(4) obtain hd where hd: "lookupKey key (f_pools s) = Inr hd" by auto
  from lookupKey_found [OF hd] obtain q v' where q: "q \<in> set (f_pools s)" "v' \<in> set (fp_volumes q)" "sv_Key v' = key"
    "hd = \<lparr>lsv_Pool = spx_Name (fp_xml q), lsv_Name = sv_Name v', lsv_Key = key\<rparr>" by blast
  have "fakeVolumes s (spx_Name (fp_xml q)) = Some (firstBy sv_Name (fp_volumes q))"
    using h(1) q(1) firstBy_distinct [of "\<lambda>p. spx_Name (fp_xml p)" "f_pools s" q] by (simp add: fakeVolumes_def wellNamed_def)
  moreover have "firstBy sv_Name (fp_volumes q) (sv_Name v') = Some v'"
    using h(1) q(1,2) by (intro firstBy_distinct) (simp_all add: wellNamed_def)
  ultimately show "\<exists>p m n v'. knownVolumes s p = Some m \<and> m n = Some v' \<and> sv_Key v' = key \<and>
      StorageVolLookupByKey (fakeClient x sc) key s = (Returns (Inr \<lparr>lsv_Pool = p, lsv_Name = n, lsv_Key = key\<rparr>), s)"
    using h(1) q(3,4) hd by (auto simp: knownVolumes_Some fakeClient_def fakeStorageVolLookupByKey_def)
qed

text \<open>An upload to the fake changes the capacity as a resize does.\<close>

interpretation uploading_fake: uploading_volume_host x "fakeClient x sc" knownVolumes for x sc
proof
  fix s p m n v k bs off len flags
  assume h: "knownVolumes s p = Some m" "m n = Some v" "sv_Capacity v \<noteq> None"
  have "StorageVolUpload (fakeClient x sc) \<lparr>lsv_Pool = p, lsv_Name = n, lsv_Key = k\<rparr> bs off len flags s =
      StorageVolResize (fakeClient x sc) \<lparr>lsv_Pool = p, lsv_Name = n, lsv_Key = k\<rparr> (of_nat (length bs)) flags s"
    by (simp add: fakeClient_def fakeStorageVolUpload_def fakeStorageVolResize_def)
  with known_volumes.resizes [OF h, of x sc k "of_nat (length bs)" flags]
  show "\<exists>s' cap. StorageVolUpload (fakeClient x sc) \<lparr>lsv_Pool = p, lsv_Name = n, lsv_Key = k\<rparr> bs off len flags s = (Returns None, s') \<and>
      knownVolumes s' = (knownVolumes s)(p \<mapsto> m(n \<mapsto> v\<lparr>sv_Capacity := cap\<rparr>))"
    by auto
qed

end
