(* ===== verification/Progress.thy ===== *)
theory Progress
  imports HostKeys VolumeController
begin

text \<open>
  That the controllers get somewhere. The theorems on the order of effects hold whatever the outside does; here the
  outside cooperates: an API server that stores what it is sent, a daemon that obeys the contract of
  \<open>HostContract\<close> and \<open>HostKeys\<close>, a connection that is up. What a reconciliation then ensures is a statement of total
  correctness over a view of the outside: it returns, and leaves this behind.
\<close>

section \<open>Total correctness over a view of the outside\<close>

text \<open>
  \<open>ensures view conns m V Q\<close>: run where the outside is seen as \<open>V\<close> and the registered connections are \<open>conns\<close>, the
  program \<open>m\<close> returns a value and a view that satisfy \<open>Q\<close>, with the same connections.
\<close>

definition ensures :: "('w \<Rightarrow> 'v) \<Rightarrow> (string \<rightharpoonup> 'w HostEntry) \<Rightarrow> ('w sys, 'a) prog \<Rightarrow> 'v \<Rightarrow> ('a \<Rightarrow> 'v \<Rightarrow> bool) \<Rightarrow> bool" where
  "ensures view conns m V Q \<longleftrightarrow> (\<forall>s. view (w_ext s) = V \<and> hs_entries s = conns \<longrightarrow>
     (\<exists>x s'. m s = (Returns x, s') \<and> hs_entries s' = conns \<and> Q x (view (w_ext s'))))"

named_theorems ensures_rules

lemma ensuresD:
  assumes "ensures view conns m V Q" and "view (w_ext s) = V" and "hs_entries s = conns"
  obtains x s' where "m s = (Returns x, s')" and "hs_entries s' = conns" and "Q x (view (w_ext s'))"
  using assms by (auto simp: ensures_def)

lemma ensures_mono: "ensures view conns m V P \<Longrightarrow> (\<And>x V'. P x V' \<Longrightarrow> Q x V') \<Longrightarrow> ensures view conns m V Q"
  unfolding ensures_def by blast

lemma ensures_ret [ensures_rules]: "Q x V \<Longrightarrow> ensures view conns (ret x) V Q"
  by (simp add: ensures_def ret_def)

lemma ensures_andThen [ensures_rules]:
  assumes "ensures view conns m V (\<lambda>x V'. ensures view conns (k x) V' Q)"
  shows "ensures view conns (andThen m k) V Q"
  using assms by (fastforce simp: ensures_def andThen_def)

lemma ensures_attempt [ensures_rules]:
  assumes "ensures view conns m V (\<lambda>r V'. case r of Inl e \<Rightarrow> ensures view conns (h e) V' Q | Inr x \<Rightarrow> ensures view conns (k x) V' Q)"
  shows "ensures view conns (attempt m h k) V Q"
  unfolding attempt_def
  by (rule ensures_andThen [OF ensures_mono [OF assms]]) (auto split: sum.splits)

lemma ensures_guarded [ensures_rules]:
  assumes "ensures view conns m V (\<lambda>r V'. case r of Some e \<Rightarrow> ensures view conns (h e) V' Q | None \<Rightarrow> ensures view conns k V' Q)"
  shows "ensures view conns (guarded m h k) V Q"
  unfolding guarded_def
  by (rule ensures_andThen [OF ensures_mono [OF assms]]) (auto split: option.splits)

lemma ensures_deref [ensures_rules]: "p = Some x \<Longrightarrow> ensures view conns (k x) V Q \<Longrightarrow> ensures view conns (deref p k) V Q"
  by (simp add: deref_def)

lemma ensures_called [ensures_rules]:
  assumes "\<And>w. view w = V \<Longrightarrow> \<exists>x w'. m w = (Returns x, w') \<and> Q x (view w')"
  shows "ensures view conns (called ev m) V Q"
  unfolding ensures_def
proof (intro allI impI)
  fix s :: "'a sys" assume s: "view (w_ext s) = V \<and> hs_entries s = conns"
  with assms [of "w_ext s"] obtain x w' where "m (w_ext s) = (Returns x, w')" "Q x (view w')" by blast
  with s show "\<exists>x s'. called ev m s = (Returns x, s') \<and> hs_entries s' = conns \<and> Q x (view (w_ext s'))"
    by (intro exI [of _ x] exI [of _ "s\<lparr>w_ext := w', w_log := w_log s @ [ev (Returns x)]\<rparr>"]) (simp add: called_def)
qed

text \<open>A call whose answer is known and which leaves the view alone.\<close>

lemma ensures_asked:
  assumes "\<And>w. view w = V \<Longrightarrow> \<exists>w'. m w = (Returns x, w') \<and> view w' = V" and "Q x V"
  shows "ensures view conns (called ev m) V Q"
proof (rule ensures_called)
  fix w assume "view w = V"
  from assms(1) [OF this] obtain w' where "m w = (Returns x, w')" "view w' = V" by blast
  then show "\<exists>x w'. m w = (Returns x, w') \<and> Q x (view w')" using assms(2) by blast
qed

lemma ensures_any:
  assumes "\<And>w. \<exists>x w'. m w = (Returns x, w') \<and> view w' = view w" and "\<And>x. Q x V"
  shows "ensures view conns (called ev m) V Q"
proof (rule ensures_called)
  fix w assume "view w = V"
  with assms(1) [of w] obtain x w' where "m w = (Returns x, w')" "view w' = V" by metis
  then show "\<exists>x w'. m w = (Returns x, w') \<and> Q x (view w')" using assms(2) by blast
qed

lemma ensures_sessions: "Q () V \<Longrightarrow> ensures view conns (modify (\<lambda>s. s\<lparr>hs_sessions := f s\<rparr>)) V Q"
  by (simp add: ensures_def modify_def)

section \<open>The view\<close>

text \<open>
  The objects of the API server by name, and what one daemon has: its domains and the volumes of its pools
  (\<open>HostContract\<close>); \<open>v_up\<close> says whether the connection to it is up.
\<close>

record surroundings =
  v_Hosts :: "NamespacedName \<rightharpoonup> Host"
  v_Pools :: "NamespacedName \<rightharpoonup> Pool"
  v_Networks :: "NamespacedName \<rightharpoonup> Network"
  v_PCIDevices :: "NamespacedName \<rightharpoonup> PCIDevice"
  v_Volumes :: "NamespacedName \<rightharpoonup> Volume"
  v_CloudInits :: "NamespacedName \<rightharpoonup> CloudInit"
  v_Domains :: "NamespacedName \<rightharpoonup> Domain"
  v_up :: bool
  v_vols :: "string \<rightharpoonup> (string \<rightharpoonup> StorageVolume)"
  v_doms :: "string \<rightharpoonup> u32 \<times> DomainXML"

definition named :: "('spec, 'st) Object \<Rightarrow> NamespacedName" where
  "named obj = \<lparr>nn_Name = om_Name (Meta obj), nn_Namespace = om_Namespace (Meta obj)\<rparr>"

lemma named_Status [simp]: "named (obj\<lparr>Status := st\<rparr>) = named obj"
  by (simp add: named_def)

definition carries :: "('spec, 'st) Object \<Rightarrow> Requirement \<Rightarrow> bool" where
  "carries obj req \<longleftrightarrow> label_of (Meta obj) (rq_Key req) = Some (rq_Value req)"

text \<open>
  An API server that answers and stores, for one kind of objects: reading gives what is stored; an update of the
  metadata is stored, with the status as it was, and removes an object that is being deleted when its last
  finalizer goes; an update of the status stores the status only; a list has exactly the objects with the
  label. There are no conflicts, because nobody else writes.
\<close>

definition gives :: "('w \<Rightarrow> 'v) \<Rightarrow> ('v \<Rightarrow> NamespacedName \<rightharpoonup> 'o) \<Rightarrow> ('w, 'o) kclient \<Rightarrow> bool" where
  "gives view objs kc \<longleftrightarrow> (\<forall>w nn obj. objs (view w) nn = Some obj \<longrightarrow>
     (\<exists>w'. k_Get kc nn w = (Returns (Inr obj), w') \<and> view w' = view w))"

definition vanishes :: "('spec, 'st) Object \<Rightarrow> bool" where
  "vanishes obj \<longleftrightarrow> om_DeletionTimestamp (Meta obj) \<noteq> None \<and> om_Finalizers (Meta obj) = []"

definition stores :: "('w \<Rightarrow> 'v) \<Rightarrow> ('v \<Rightarrow> NamespacedName \<rightharpoonup> ('spec, 'st) Object)
    \<Rightarrow> (((NamespacedName \<rightharpoonup> ('spec, 'st) Object) \<Rightarrow> (NamespacedName \<rightharpoonup> ('spec, 'st) Object)) \<Rightarrow> 'v \<Rightarrow> 'v)
    \<Rightarrow> ('w, ('spec, 'st) Object) kclient \<Rightarrow> bool" where
  "stores view objs put kc \<longleftrightarrow> gives view objs kc \<and>
     (\<forall>w obj old. objs (view w) (named obj) = Some old \<longrightarrow> Spec obj = Spec old \<longrightarrow>
        om_DeletionTimestamp (Meta obj) = om_DeletionTimestamp (Meta old) \<longrightarrow>
        (\<exists>w'. k_Update kc obj w = (Returns (Inr (obj\<lparr>Status := Status old\<rparr>)), w') \<and>
           view w' = put (\<lambda>m. m(named obj := if vanishes obj then None else Some (obj\<lparr>Status := Status old\<rparr>))) (view w))) \<and>
     (\<forall>w obj old. objs (view w) (named obj) = Some old \<longrightarrow>
        (\<exists>w'. k_StatusUpdate kc obj w = (Returns (Inr (old\<lparr>Status := Status obj\<rparr>)), w') \<and>
           view w' = put (\<lambda>m. m(named obj \<mapsto> old\<lparr>Status := Status obj\<rparr>)) (view w))) \<and>
     (\<forall>w req. \<exists>xs w'. k_List kc (Some req) w = (Returns (Inr xs), w') \<and> view w' = view w \<and>
        set xs = {obj \<in> ran (objs (view w)). carries obj req})"

lemma storesD:
  assumes "stores view objs put kc"
  shows "gives view objs kc"
    and "objs (view w) (named obj) = Some old \<Longrightarrow> Spec obj = Spec old \<Longrightarrow>
      om_DeletionTimestamp (Meta obj) = om_DeletionTimestamp (Meta old) \<Longrightarrow>
      \<exists>w'. k_Update kc obj w = (Returns (Inr (obj\<lparr>Status := Status old\<rparr>)), w') \<and>
         view w' = put (\<lambda>m. m(named obj := if vanishes obj then None else Some (obj\<lparr>Status := Status old\<rparr>))) (view w)"
    and "objs (view w) (named obj) = Some old \<Longrightarrow>
      \<exists>w'. k_StatusUpdate kc obj w = (Returns (Inr (old\<lparr>Status := Status obj\<rparr>)), w') \<and>
         view w' = put (\<lambda>m. m(named obj \<mapsto> old\<lparr>Status := Status obj\<rparr>)) (view w)"
    and "\<exists>xs w'. k_List kc (Some req) w = (Returns (Inr xs), w') \<and> view w' = view w \<and>
        set xs = {obj \<in> ran (objs (view w)). carries obj req}"
  using assms unfolding stores_def by blast+

lemma ensures_apiGet:
  assumes "gives view objs (rs_api R)" and "objs V nn = Some obj" and "Q (Inr obj) V"
  shows "ensures view conns (apiGet R nn) V Q"
  unfolding apiGet_def by (rule ensures_asked) (use assms in \<open>auto simp: gives_def\<close>)

lemma ensures_apiList:
  assumes "stores view objs put (rs_api R)" and "\<And>xs. set xs = {obj \<in> ran (objs V). carries obj req} \<Longrightarrow> Q (Inr xs) V"
  shows "ensures view conns (apiList R (Some req)) V Q"
  unfolding apiList_def
proof (rule ensures_called)
  fix w assume w: "view w = V"
  from storesD(4) [OF assms(1)] obtain xs w' where "k_List (rs_api R) (Some req) w = (Returns (Inr xs), w')" "view w' = view w"
    "set xs = {obj \<in> ran (objs (view w)). carries obj req}" by blast
  then show "\<exists>x w'. k_List (rs_api R) (Some req) w = (Returns x, w') \<and> Q x (view w')"
    using assms(2) [of xs] w by auto
qed

text \<open>An object as it is stored, and with the finalizer.\<close>

definition labelled :: "('spec, 'st) Object \<Rightarrow> string \<Rightarrow> string \<Rightarrow> ('spec, 'st) Object" where
  "labelled obj k v = snd (SetObjectLabel obj k v)"

lemma labelled_simps [simp]:
  "named (labelled obj k v) = named obj" "Spec (labelled obj k v) = Spec obj" "Status (labelled obj k v) = Status obj"
  "om_DeletionTimestamp (Meta (labelled obj k v)) = om_DeletionTimestamp (Meta obj)"
  "om_Finalizers (Meta (labelled obj k v)) = om_Finalizers (Meta obj)"
  "label_of (Meta (labelled obj k v)) k' = (if k' = k then Some v else label_of (Meta obj) k')"
  using SetLabel_frame [of "Meta obj" k v]
  by (auto simp: labelled_def SetObjectLabel_def named_def split_beta SetLabel_sets SetLabel_other)

definition storing :: "(((NamespacedName \<rightharpoonup> ('spec, 'st) Object) \<Rightarrow> (NamespacedName \<rightharpoonup> ('spec, 'st) Object)) \<Rightarrow> 'v \<Rightarrow> 'v)
    \<Rightarrow> ('spec, 'st) Object \<Rightarrow> 'v \<Rightarrow> 'v" where
  "storing put obj = put (\<lambda>m. m(named obj \<mapsto> obj))"

definition finalized :: "('spec, 'st) Object \<Rightarrow> ('spec, 'st) Object" where
  "finalized obj = (if Finalizer \<in> set (om_Finalizers (Meta obj)) then obj
     else obj\<lparr>Meta := (Meta obj)\<lparr>om_Finalizers := om_Finalizers (Meta obj) @ [Finalizer]\<rparr>\<rparr>)"

text \<open>A field of the view, and changing it.\<close>

locale view_field =
  fixes objs :: "'v \<Rightarrow> NamespacedName \<rightharpoonup> ('spec, 'st StatusBase_scheme) Object"
    and put :: "((NamespacedName \<rightharpoonup> ('spec, 'st StatusBase_scheme) Object)
      \<Rightarrow> (NamespacedName \<rightharpoonup> ('spec, 'st StatusBase_scheme) Object)) \<Rightarrow> 'v \<Rightarrow> 'v"
  assumes objs_put: "objs (put f V) = f (objs V)"
    and put_same: "f (objs V) = objs V \<Longrightarrow> put f V = V"
begin

lemma storing_same: "objs V (named obj) = Some obj \<Longrightarrow> storing put obj V = V"
  unfolding storing_def by (rule put_same) (simp add: fun_upd_idem)

lemma objs_storing: "objs (storing put obj V) nn = (if nn = named obj then Some obj else objs V nn)"
  by (simp add: storing_def objs_put)

text \<open>An update of the metadata of an object that was read.\<close>

lemma ensures_update:
  assumes "stores view objs put (rs_api R)" and "objs V (named obj) = Some obj"
    and "named obj' = named obj" "Spec obj' = Spec obj" "Status obj' = Status obj"
      "om_DeletionTimestamp (Meta obj') = om_DeletionTimestamp (Meta obj)"
    and "\<not> vanishes obj'" and "Q (Inr obj') (storing put obj' V)"
  shows "ensures view conns (apiUpdate R obj') V Q"
  unfolding apiUpdate_def
proof (rule ensures_called)
  fix w assume w: "view w = V"
  have "\<exists>w'. k_Update (rs_api R) obj' w = (Returns (Inr (obj'\<lparr>Status := Status obj\<rparr>)), w') \<and>
      view w' = put (\<lambda>m. m(named obj' := if vanishes obj' then None else Some (obj'\<lparr>Status := Status obj\<rparr>))) (view w)"
    using storesD(2) [OF assms(1), of w obj' obj] assms(2-6) w by simp
  moreover have "obj'\<lparr>Status := Status obj\<rparr> = obj'" by (simp add: assms(5) [symmetric])
  ultimately show "\<exists>x w'. k_Update (rs_api R) obj' w = (Returns x, w') \<and> Q x (view w')"
    using assms(7,8) w by (auto simp: storing_def)
qed

text \<open>The last finalizer of an object that is being deleted.\<close>

lemma ensures_vanish:
  assumes "stores view objs put (rs_api R)" and "objs V (named obj) = Some obj"
    and "named obj' = named obj" "Spec obj' = Spec obj"
      "om_DeletionTimestamp (Meta obj') = om_DeletionTimestamp (Meta obj)"
    and "vanishes obj'" and "\<And>x. Q (Inr x) (put (\<lambda>m. m(named obj := None)) V)"
  shows "ensures view conns (apiUpdate R obj') V Q"
  unfolding apiUpdate_def
proof (rule ensures_called)
  fix w assume w: "view w = V"
  have "\<exists>w'. k_Update (rs_api R) obj' w = (Returns (Inr (obj'\<lparr>Status := Status obj\<rparr>)), w') \<and>
      view w' = put (\<lambda>m. m(named obj' := if vanishes obj' then None else Some (obj'\<lparr>Status := Status obj\<rparr>))) (view w)"
    using storesD(2) [OF assms(1), of w obj' obj] assms(2-5) w by simp
  then show "\<exists>x w'. k_Update (rs_api R) obj' w = (Returns x, w') \<and> Q x (view w')"
    using assms(3,6,7) w by auto
qed

text \<open>Labels and the finalizer: nothing is sent when there is nothing to change.\<close>

lemma ensures_SetLabelOn:
  assumes "stores view objs put (rs_api R)" and "objs V (named obj) = Some obj" and "om_DeletionTimestamp (Meta obj) = None"
    and "Q (Inr (labelled obj k v)) (storing put (labelled obj k v) V)"
  shows "ensures view conns (SetLabelOn obj k v R) V Q"
proof (cases "fst (SetObjectLabel obj k v)")
  case True
  then show ?thesis
    unfolding SetLabelOn_def
    using assms(3,4) unfolding labelled_def [symmetric]
    by (auto simp: split_beta labelled_def [symmetric] vanishes_def intro!: ensures_update [OF assms(1,2)])
next
  case False
  then have "snd (SetObjectLabel obj k v) = obj"
    by (auto simp: SetObjectLabel_def SetLabel_def split: option.splits if_splits)
  with False show ?thesis
    unfolding SetLabelOn_def
    using assms(4) by (auto simp: labelled_def split_beta storing_same [OF assms(2)] intro!: ensures_ret)
qed

lemma ensures_addFinalizer:
  assumes "apimachinery_ok (e_api env)" and "stores view objs put (rs_api R)" and "objs V (named obj) = Some obj"
    and "om_DeletionTimestamp (Meta obj) = None" and "Q (Inr (finalized obj)) (storing put (finalized obj) V)"
  shows "ensures view conns (addFinalizer env R obj) V Q"
  using assms(3-5) unfolding addFinalizer_def
  by (auto simp: apimachinery_okD(1) [OF assms(1)] finalized_def storing_same named_def vanishes_def
      intro!: ensures_ret ensures_update [OF assms(2,3)])

text \<open>A condition that becomes true: the status is stored as it is, with the conditions as they are then.\<close>

lemma ensures_becomesTrue:
  assumes "apimachinery_ok (e_api env)" and "stores view objs put (rs_api R)" and "objs V (named obj) = Some old"
    and "Meta old = Meta obj" "Spec old = Spec obj" and "\<not> isTrue env obj t"
    and clock: "\<And>w. \<exists>now w'. e_Now env w = (Returns now, w') \<and> view w' = view w"
    and "\<And>cs obj'. obj' = obj\<lparr>Status := (Status obj)\<lparr>Conditions := cs\<rparr>\<rparr> \<Longrightarrow> isTrue env obj' t \<Longrightarrow> Q (Inr obj') (storing put obj' V)"
  shows "ensures view conns (setStatusCondition env R obj t ConditionTrue msg rs) V Q"
  unfolding setStatusCondition_def Let_def unlogged_def
proof (intro ensures_andThen ensures_called)
  fix w assume "view w = V"
  from clock [of w] this obtain now w' where now: "e_Now env w = (Returns now, w')" "view w' = V" by metis
  let ?c = "\<lparr>cond_Type = t, cond_Status = ConditionTrue, cond_LastTransitionTime = 0, cond_Reason = rs, cond_Message = msg\<rparr>"
  obtain changed cs where s: "SetStatusCondition (e_api env) now (Conditions (Status obj)) ?c = (changed, cs)"
    by fastforce
  let ?obj = "obj\<lparr>Status := (Status obj)\<lparr>Conditions := cs\<rparr>\<rparr>"
  have true: "isTrue env ?obj t"
    using SetStatusCondition_okD(1) [OF assms(1) s] by (auto simp: isTrue_def apimachinery_okD(5) [OF assms(1)])
  then have changed using SetStatusCondition_okD(3) [OF assms(1) s] assms(6) by (auto simp: isTrue_def)
  have old: "old\<lparr>Status := (Status obj)\<lparr>Conditions := cs\<rparr>\<rparr> = ?obj"
    using assms(4,5) by simp
  have "ensures view conns (apiStatusUpdate R ?obj) V Q"
    unfolding apiStatusUpdate_def
  proof (rule ensures_called)
    fix w assume w: "view w = V"
    have "named ?obj = named obj" by (simp add: named_def)
    then have "\<exists>w'. k_StatusUpdate (rs_api R) ?obj w = (Returns (Inr (old\<lparr>Status := Status ?obj\<rparr>)), w') \<and>
        view w' = put (\<lambda>m. m(named ?obj \<mapsto> old\<lparr>Status := Status ?obj\<rparr>)) (view w)"
      using storesD(3) [OF assms(2), of w ?obj old] assms(3) w by simp
    then show "\<exists>x w'. k_StatusUpdate (rs_api R) ?obj w = (Returns x, w') \<and> Q x (view w')"
      using assms(8) [OF refl true] w old by (auto simp: storing_def)
  qed
  with \<open>changed\<close> now s show "\<exists>x w'. e_Now env w = (Returns x, w') \<and>
      ensures view conns (case SetStatusCondition (e_api env) x (Conditions (Status obj)) ?c of
        (changed, cs) \<Rightarrow> if changed then apiStatusUpdate R (obj\<lparr>Status := (Status obj)\<lparr>Conditions := cs\<rparr>\<rparr>)
          else ret (Inr (obj\<lparr>Status := (Status obj)\<lparr>Conditions := cs\<rparr>\<rparr>))) (view w') Q"
    by (intro exI [of _ now] exI [of _ w']) simp
qed

end

interpretation volumes_field: view_field v_Volumes v_Volumes_update
  by unfold_locales simp_all

interpretation domains_field: view_field v_Domains v_Domains_update
  by unfold_locales simp_all

interpretation cloudInits_field: view_field v_CloudInits v_CloudInits_update
  by unfold_locales simp_all

section \<open>Hosts\<close>

text \<open>
  A connection to a daemon that obeys the contract; a call on its volumes leaves everything else as it is, and
  so does one on its domains.
\<close>

definition withoutVols :: "surroundings \<Rightarrow> surroundings" where
  "withoutVols V = V\<lparr>v_vols := Map.empty\<rparr>"

definition withoutDoms :: "surroundings \<Rightarrow> surroundings" where
  "withoutDoms V = V\<lparr>v_doms := Map.empty\<rparr>"

definition obeys :: "('w \<Rightarrow> surroundings) \<Rightarrow> xmlcodec \<Rightarrow> 'w Client \<Rightarrow> bool" where
  "obeys view x cl \<longleftrightarrow> libvirt_host x cl (\<lambda>w. v_doms (view w)) (\<lambda>w. v_vols (view w)) \<and>
     keyed_volume_host x cl (\<lambda>w. v_vols (view w)) \<and> uploading_volume_host x cl (\<lambda>w. v_vols (view w)) \<and>
     (\<forall>w. \<exists>w'. IsConnected cl w = (Returns (v_up (view w)), w') \<and> view w' = view w) \<and>
     (\<forall>p xml f. moves (same (\<lambda>w. withoutVols (view w))) (StorageVolCreateXML cl p xml f)) \<and>
     (\<forall>v f. moves (same (\<lambda>w. withoutVols (view w))) (StorageVolDelete cl v f)) \<and>
     (\<forall>v b f. moves (same (\<lambda>w. withoutVols (view w))) (StorageVolResize cl v b f)) \<and>
     (\<forall>v bs off len f. moves (same (\<lambda>w. withoutVols (view w))) (StorageVolUpload cl v bs off len f)) \<and>
     (\<forall>xml. moves (same (\<lambda>w. withoutDoms (view w))) (DomainDefineXML cl xml)) \<and>
     (\<forall>d. moves (same (\<lambda>w. withoutDoms (view w))) (DomainCreate cl d)) \<and>
     (\<forall>d. moves (same (\<lambda>w. withoutDoms (view w))) (DomainShutdown cl d)) \<and>
     (\<forall>d f. moves (same (\<lambda>w. withoutDoms (view w))) (DomainUndefineFlags cl d f))"

text \<open>Everything the controllers of volumes, images and domains talk to.\<close>

definition cooperates :: "('w \<Rightarrow> surroundings) \<Rightarrow> 'w env \<Rightarrow> bool" where
  "cooperates view env \<longleftrightarrow> apimachinery_ok (e_api env) \<and>
     gives view v_Hosts (e_Hosts env) \<and> gives view v_Pools (e_Pools env) \<and> gives view v_Networks (e_Networks env) \<and>
     gives view v_PCIDevices (e_PCIDevices env) \<and>
     stores view v_Volumes v_Volumes_update (e_Volumes env) \<and> stores view v_Domains v_Domains_update (e_Domains env) \<and>
     stores view v_CloudInits v_CloudInits_update (e_CloudInits env) \<and>
     (\<forall>w. \<exists>now w'. e_Now env w = (Returns now, w') \<and> view w' = view w) \<and>
     (\<forall>w. \<exists>uuid w'. NewUUID env w = (Returns uuid, w') \<and> view w' = view w)"

lemma cooperatesD:
  assumes "cooperates view env"
  shows "apimachinery_ok (e_api env)" and "gives view v_Hosts (rs_api (Hosts env))" and "gives view v_Pools (rs_api (Pools env))"
    and "gives view v_Networks (rs_api (Networks env))" and "gives view v_PCIDevices (rs_api (PCIDevices env))"
    and "gives view v_CloudInits (rs_api (CloudInits env))"
    and "stores view v_Volumes v_Volumes_update (rs_api (Volumes env))"
    and "stores view v_Domains v_Domains_update (rs_api (Domains env))"
    and "\<exists>now w'. e_Now env w = (Returns now, w') \<and> view w' = view w"
    and "\<exists>uuid w'. NewUUID env w = (Returns uuid, w') \<and> view w' = view w"
    and "stores view v_CloudInits v_CloudInits_update (rs_api (CloudInits env))"
  using assms by (auto simp: cooperates_def resource_defs dest: storesD(1))

lemma obeysD:
  assumes "obeys view x cl"
  shows "volume_host x cl (\<lambda>w. v_vols (view w))" and "domain_host x cl (\<lambda>w. v_doms (view w))"
    and "\<exists>w'. IsConnected cl w = (Returns (v_up (view w)), w') \<and> view w' = view w"
    and "moves (same (\<lambda>w. withoutVols (view w))) (StorageVolCreateXML cl p xml f)"
    and "moves (same (\<lambda>w. withoutVols (view w))) (StorageVolDelete cl v f)"
    and "moves (same (\<lambda>w. withoutVols (view w))) (StorageVolResize cl v b f)"
    and "moves (same (\<lambda>w. withoutDoms (view w))) (DomainDefineXML cl xml)"
    and "moves (same (\<lambda>w. withoutDoms (view w))) (DomainCreate cl d)"
    and "moves (same (\<lambda>w. withoutDoms (view w))) (DomainShutdown cl d)"
    and "moves (same (\<lambda>w. withoutDoms (view w))) (DomainUndefineFlags cl d f)"
    and "keyed_volume_host x cl (\<lambda>w. v_vols (view w))"
    and "uploading_volume_host x cl (\<lambda>w. v_vols (view w))"
    and "moves (same (\<lambda>w. withoutVols (view w))) (StorageVolUpload cl v bs off len f)"
  using assms unfolding obeys_def libvirt_host_def by blast+

lemma withoutVols_eq: "withoutVols V' = withoutVols V \<Longrightarrow> v_vols V' = m \<Longrightarrow> V' = V\<lparr>v_vols := m\<rparr>"
  by (cases V; cases V') (simp add: withoutVols_def)

lemma withoutDoms_eq: "withoutDoms V' = withoutDoms V \<Longrightarrow> v_doms V' = m \<Longrightarrow> V' = V\<lparr>v_doms := m\<rparr>"
  by (cases V; cases V') (simp add: withoutDoms_def)

section \<open>The way in\<close>

lemma ensures_endSession: "ensures view conns m V Q \<Longrightarrow> ensures view conns (deferred (endSession a i) m) V Q"
  by (fastforce simp: ensures_def deferred_def endSession_def modify_def)

lemma ensures_withHost:
  assumes coop: "cooperates view env" and "conns (om_UID (Meta host)) = Some e" and ob: "obeys view x (he_client e)" and up: "v_up V"
    and k: "ensures view conns (k (observed (he_addr e) (he_client e))) V Q"
  shows "ensures view conns (withHost env R obj host k) V Q"
proof -
  let ?c = "observed (he_addr e) (he_client e)"
  have connected: "\<exists>w'. IsConnected (he_client e) w = (Returns True, w') \<and> view w' = V" if "view w = V" for w
    using obeysD(3) [OF ob, of w] that up by auto
  have "ensures view conns (Session env e) V (\<lambda>r V'. V' = V \<and> (\<exists>i. r = Inr (?c, endSession (he_addr e) i)))"
    unfolding Session_def Let_def observed_select unlogged_def
    by (rule ensures_andThen, rule ensures_asked [where x = True, OF connected])
      (auto intro!: ensures_andThen ensures_any cooperatesD(10) [OF coop] ensures_sessions ensures_ret)
  then have s: "ensures view conns (withSession env e h k) V Q" for h
    unfolding withSession_def
    by (intro ensures_attempt) (erule ensures_mono, auto intro: ensures_endSession [OF k])
  show ?thesis
    unfolding withHost_def ensures_def reading_def HostLookup_def
    using s [of "\<lambda>_. unmet env R obj conditionHostClientNotReady requeue"] assms(2)
    by (auto simp: ensures_def)
qed

lemma ensures_withPool:
  assumes coop: "cooperates view env" and "v_Pools V nn = Some pool" and "v_Hosts V (Pool_HostRef pool) = Some host"
    and "isTrue env pool ConditionReady" and "conns (om_UID (Meta host)) = Some e" and "obeys view x (he_client e)" and "v_up V"
    and "ensures view conns (k pool (observed (he_addr e) (he_client e))) V Q"
  shows "ensures view conns (withPool env R obj nn k) V Q"
proof -
  have "ensures view conns (resolveRefs env nn) V (\<lambda>r V'. r = Inr (pool, host) \<and> V' = V)"
    unfolding resolveRefs_def
    by (intro ensures_attempt ensures_apiGet [OF cooperatesD(3) [OF coop] assms(2)]
        ensures_apiGet [OF cooperatesD(2) [OF coop] assms(3)] ensures_ret | simp)+
  moreover have "ensures view conns (withHost env R obj host (k pool)) V Q"
    by (rule ensures_withHost [where k = "k pool", OF coop assms(5-8)])
  ultimately show ?thesis
    unfolding withPool_def
    by (intro ensures_attempt) (erule ensures_mono, simp add: assms(4))
qed

section \<open>Volumes of a daemon\<close>

definition describable :: "xmlcodec \<Rightarrow> StorageVolume \<Rightarrow> bool" where
  "describable x v \<longleftrightarrow> (\<exists>xml. vol_Marshal x v = Inr xml \<and> vol_Unmarshal x xml = Inr v)"

definition handleOf :: "string \<Rightarrow> string \<Rightarrow> StorageVolume \<Rightarrow> LvStorageVol" where
  "handleOf p n v = \<lparr>lsv_Pool = p, lsv_Name = n, lsv_Key = sv_Key v\<rparr>"

definition foundVolume :: "string \<Rightarrow> string \<Rightarrow> StorageVolume \<Rightarrow> VolumeAction" where
  "foundVolume p n v = \<lparr>va_name = n, va_poolName = p, va_pool = \<lparr>lsp_Name = p\<rparr>, va_id = Some (handleOf p n v),
     va_def = v, va_source = None\<rparr>"

definition missingVolume :: "string \<Rightarrow> string \<Rightarrow> VolumeAction" where
  "missingVolume p n = \<lparr>va_name = n, va_poolName = p, va_pool = \<lparr>lsp_Name = p\<rparr>, va_id = None,
     va_def = emptyStorageVolume\<lparr>sv_Name := n\<rparr>, va_source = None\<rparr>"

lemma ensures_pool:
  assumes "obeys view x cl" and "v_vols V p = Some m" and "Q (Inr \<lparr>lsp_Name = p\<rparr>) V"
  shows "ensures view conns (StoragePoolLookupByName (observed a cl) p) V Q"
  unfolding observed_select
  by (rule ensures_asked) (use volume_host.pool [OF obeysD(1) [OF assms(1)]] assms in auto)

lemma ensures_volume:
  assumes "obeys view x cl" and "v_vols V p = Some m" and "m n = Some v" and "Q (Inr (handleOf p n v)) V"
  shows "ensures view conns (StorageVolLookupByName (observed a cl) \<lparr>lsp_Name = p\<rparr> n) V Q"
  unfolding observed_select
  by (rule ensures_asked) (use volume_host.lookup [OF obeysD(1) [OF assms(1)]] assms in \<open>auto simp: handleOf_def\<close>)

lemma ensures_noVolume:
  assumes "obeys view x cl" and "v_vols V p = Some m" and "m n = None"
    and "\<And>err. isCode ErrNoStorageVol err \<Longrightarrow> Q (Inl err) V"
  shows "ensures view conns (StorageVolLookupByName (observed a cl) \<lparr>lsp_Name = p\<rparr> n) V Q"
  unfolding observed_select
proof (rule ensures_called)
  fix w assume w: "view w = V"
  from volume_host.missing [OF obeysD(1) [OF assms(1)], of w p m n] w assms(2,3)
  obtain err where "isCode ErrNoStorageVol err" "StorageVolLookupByName cl \<lparr>lsp_Name = p\<rparr> n w = (Returns (Inl err), w)" by auto
  with assms(4) w show "\<exists>x w'. StorageVolLookupByName cl \<lparr>lsp_Name = p\<rparr> n w = (Returns x, w') \<and> Q x (view w')" by auto
qed

lemma ensures_described:
  assumes "obeys view x cl" and "v_vols V p = Some m" and "m n = Some v" and "Q (vol_Marshal x v) V"
  shows "ensures view conns (StorageVolGetXMLDesc (observed a cl) (handleOf p n v) 0) V Q"
  unfolding observed_select
  by (rule ensures_asked) (use volume_host.describe [OF obeysD(1) [OF assms(1)]] assms in \<open>auto simp: handleOf_def\<close>)

lemma ensures_createVolume:
  assumes "obeys view x cl" and "v_vols V p = Some m" and "vol_Unmarshal x xml = Inr v" and "m (sv_Name v) = None"
    and "Q (Inr (handleOf p (sv_Name v) v)) (V\<lparr>v_vols := (v_vols V)(p \<mapsto> m(sv_Name v \<mapsto> v))\<rparr>)"
  shows "ensures view conns (StorageVolCreateXML (observed a cl) \<lparr>lsp_Name = p\<rparr> xml 0) V Q"
  unfolding observed_select
proof (rule ensures_called)
  fix w assume w: "view w = V"
  from volume_host.creates [OF obeysD(1) [OF assms(1)], of w p m xml v 0] w assms(2-4)
  obtain w' where w': "StorageVolCreateXML cl \<lparr>lsp_Name = p\<rparr> xml 0 w = (Returns (Inr (handleOf p (sv_Name v) v)), w')"
    "v_vols (view w') = (v_vols V)(p \<mapsto> m(sv_Name v \<mapsto> v))"
    by (auto simp: handleOf_def)
  moreover have "view w' = V\<lparr>v_vols := (v_vols V)(p \<mapsto> m(sv_Name v \<mapsto> v))\<rparr>"
    by (rule withoutVols_eq [OF _ w'(2)])
      (use movesD [OF obeysD(4) [OF assms(1)] w'(1)] w in \<open>simp add: same_def\<close>)
  ultimately show "\<exists>x w'. StorageVolCreateXML cl \<lparr>lsp_Name = p\<rparr> xml 0 w = (Returns x, w') \<and> Q x (view w')"
    using assms(5) by auto
qed

lemma ensures_deleteVolume:
  assumes "obeys view x cl" and "v_vols V p = Some m" and "m n = Some v"
    and "Q None (V\<lparr>v_vols := (v_vols V)(p \<mapsto> m(n := None))\<rparr>)"
  shows "ensures view conns (StorageVolDelete (observed a cl) (handleOf p n v) f) V Q"
  unfolding observed_select
proof (rule ensures_called)
  fix w assume w: "view w = V"
  from volume_host.deletes [OF obeysD(1) [OF assms(1)], of w p m n v "sv_Key v" f] w assms(2,3)
  obtain w' where w': "StorageVolDelete cl (handleOf p n v) f w = (Returns None, w')"
    "v_vols (view w') = (v_vols V)(p \<mapsto> m(n := None))"
    by (auto simp: handleOf_def)
  moreover have "view w' = V\<lparr>v_vols := (v_vols V)(p \<mapsto> m(n := None))\<rparr>"
    by (rule withoutVols_eq [OF _ w'(2)])
      (use movesD [OF obeysD(5) [OF assms(1)] w'(1)] w in \<open>simp add: same_def\<close>)
  ultimately show "\<exists>x w'. StorageVolDelete cl (handleOf p n v) f w = (Returns x, w') \<and> Q x (view w')"
    using assms(4) by auto
qed

lemma ensures_upload:
  assumes "obeys view x cl" and "v_vols V p = Some m" and "m n = Some v" and "sv_Capacity v \<noteq> None"
    and "\<And>cap. Q None (V\<lparr>v_vols := (v_vols V)(p \<mapsto> m(n \<mapsto> v\<lparr>sv_Capacity := cap\<rparr>))\<rparr>)"
  shows "ensures view conns (StorageVolUpload (observed a cl) (handleOf p n v) bs off len f) V Q"
  unfolding observed_select
proof (rule ensures_called)
  fix w assume w: "view w = V"
  from uploading_volume_host.uploads [OF obeysD(12) [OF assms(1)], of w p m n v "sv_Key v" bs off len f] w assms(2-4)
  obtain w' cap where w': "StorageVolUpload cl (handleOf p n v) bs off len f w = (Returns None, w')"
    "v_vols (view w') = (v_vols V)(p \<mapsto> m(n \<mapsto> v\<lparr>sv_Capacity := cap\<rparr>))"
    by (auto simp: handleOf_def)
  moreover have "view w' = V\<lparr>v_vols := (v_vols V)(p \<mapsto> m(n \<mapsto> v\<lparr>sv_Capacity := cap\<rparr>))\<rparr>"
    by (rule withoutVols_eq [OF _ w'(2)])
      (use movesD [OF obeysD(13) [OF assms(1)] w'(1)] w in \<open>simp add: same_def\<close>)
  ultimately show "\<exists>x w'. StorageVolUpload cl (handleOf p n v) bs off len f w = (Returns x, w') \<and> Q x (view w')"
    using assms(5) by auto
qed

lemma ensures_NewVolumeAction:
  assumes "obeys view x cl" and "v_vols V p = Some m"
    and "\<And>v. m n = Some v \<Longrightarrow> describable x v \<and> Q (Inr (foundVolume p n v)) V"
    and "m n = None \<Longrightarrow> Q (Inr (missingVolume p n)) V"
  shows "ensures view conns (NewVolumeAction x (observed a cl) n p) V Q"
proof (cases "m n")
  case None
  show ?thesis
    unfolding NewVolumeAction_def Let_def
    by (intro ensures_attempt ensures_pool [OF assms(1,2)] ensures_noVolume [OF assms(1,2) None] | simp)+
      (auto intro!: ensures_ret simp: assms(4) [OF None, unfolded missingVolume_def])
next
  case (Some v)
  with assms(3) obtain xml where v: "vol_Marshal x v = Inr xml" "vol_Unmarshal x xml = Inr v" "Q (Inr (foundVolume p n v)) V"
    by (auto simp: describable_def)
  show ?thesis
    unfolding NewVolumeAction_def Let_def
    by (intro ensures_attempt ensures_pool [OF assms(1,2)] ensures_volume [OF assms(1,2) Some]
        ensures_described [OF assms(1,2) Some] ensures_ret | simp add: v(1,2))+
      (use v(3) in \<open>simp add: foundVolume_def\<close>)
qed

end
