(* ===== verification/VolumeProgress.thy ===== *)
theory VolumeProgress
  imports Progress
begin

text \<open>
  What a reconciliation of a volume achieves where the outside cooperates: a volume that is not there is
  created as its spec says and reported ready; one that is there and as large as its spec says is left
  alone, so that the second reconciliation changes nothing; one that is smaller is grown; one that is deleted
  and not used is gone from the daemon, and its object from the API server.
\<close>

section \<open>The specification\<close>

text \<open>
  The volume that a spec asks for. \<open>info\<close> describes the backing store, if there is one: without a size of its own the
  volume has the size of the backing store.
\<close>

definition wantedVolume :: "safecast \<Rightarrow> Volume \<Rightarrow> StorageVolume option \<Rightarrow> StorageVolume" where
  "wantedVolume sc volume info = emptyStorageVolume\<lparr>
     sv_Name := Volume_ResourceName volume,
     sv_Capacity := (case vsp_Size (Spec volume) of
         Some sz \<Rightarrow> Some \<lparr>svs_Unit = vs_Unit sz, svs_Value = ToUint64 sc (vs_Value sz)\<rparr>
       | None \<Rightarrow> Option.bind info sv_Capacity),
     sv_Target := Some \<lparr>svt_Path = '''', svt_Format = Some \<lparr>svtf_Type = vsp_Format (Spec volume)\<rparr>\<rparr>,
     sv_BackingStore := map_option (\<lambda>t. \<lparr>svb_Path = svt_Path t, svb_Format = svt_Format t\<rparr>) (Option.bind info sv_Target)\<rparr>"

text \<open>The backing store that a spec refers to, as it has to be: ready, on the host of the pool, and described with a target and a size.\<close>

fun backedBy :: "'w env \<Rightarrow> surroundings \<Rightarrow> Pool \<Rightarrow> Volume \<Rightarrow> StorageVolume option \<Rightarrow> bool" where
  "backedBy env V pool volume None \<longleftrightarrow> vsp_BackingStoreRef (Spec volume) = None"
| "backedBy env V pool volume (Some info) \<longleftrightarrow> vsp_BackingStoreRef (Spec volume) \<noteq> None \<and>
     (\<exists>b m. v_Volumes V (Volume_BackingStoreRef volume) = Some b \<and> isTrue env b ConditionReady \<and>
        vst_Host (Status b) = ref_Name (pls_HostRef (Spec pool)) \<and>
        v_vols V (vst_Pool (Status b)) = Some m \<and> m (Volume_ResourceName b) = Some info) \<and>
     describable (e_xml env) info \<and> sv_Target info \<noteq> None \<and> sv_Capacity info \<noteq> None"

text \<open>
  The object whose volume is to be looked after: its pool is ready, has a host with a connection \<open>e\<close> to a
  daemon that is up, and the daemon has the pool, with the volumes \<open>m\<close>.
\<close>

definition reachable :: "('w \<Rightarrow> surroundings) \<Rightarrow> 'w env \<Rightarrow> (string \<rightharpoonup> 'w HostEntry) \<Rightarrow> surroundings \<Rightarrow> Volume \<Rightarrow> Pool
    \<Rightarrow> (string \<rightharpoonup> StorageVolume) \<Rightarrow> bool" where
  "reachable view env conns V volume pool m \<longleftrightarrow> v_Volumes V (named volume) = Some volume \<and>
     v_Pools V (Volume_PoolRef volume) = Some pool \<and> isTrue env pool ConditionReady \<and>
     (\<exists>host e. v_Hosts V (Pool_HostRef pool) = Some host \<and> conns (om_UID (Meta host)) = Some e \<and>
        obeys view (e_xml env) (he_client e)) \<and> v_up V \<and>
     v_vols V (Pool_ResourceName pool) = Some m"

section \<open>Creation\<close>

lemma storing_Volumes: "storing v_Volumes_update v V = V\<lparr>v_Volumes := (v_Volumes V)(named v \<mapsto> v)\<rparr>"
  by (simp add: storing_def)

lemma VolumeCreate_ensures:
  assumes "obeys view x cl" and "v_vols V p = Some m" and "va_pool action = \<lparr>lsp_Name = p\<rparr>" and "va_source action = None"
    and "describable x (va_def action)" and "m (sv_Name (va_def action)) = None"
    and "\<And>action'. Q (None, action') (V\<lparr>v_vols := (v_vols V)(p \<mapsto> m(sv_Name (va_def action) \<mapsto> va_def action))\<rparr>)"
  shows "ensures view conns (VolumeCreate x (observed a cl) action) V Q"
proof -
  from assms(5) obtain xml where xml: "vol_Marshal x (va_def action) = Inr xml" "vol_Unmarshal x xml = Inr (va_def action)"
    by (auto simp: describable_def)
  show ?thesis
    unfolding VolumeCreate_def xml(1) sum.case assms(3) Let_def
    by (intro ensures_attempt ensures_createVolume [OF assms(1,2) xml(2) assms(6)])
      (auto simp: assms(4,7) intro!: ensures_ret)
qed

text \<open>How an object comes out of the reconciliation that creates its volume.\<close>

definition readyVolume :: "'w env \<Rightarrow> Volume \<Rightarrow> Pool \<Rightarrow> Volume \<Rightarrow> bool" where
  "readyVolume env volume pool v \<longleftrightarrow> named v = named volume \<and> Spec v = Spec volume \<and>
     om_DeletionTimestamp (Meta v) = None \<and> Finalizer \<in> set (om_Finalizers (Meta v)) \<and>
     isTrue env v ConditionReady \<and> vst_Pool (Status v) = Pool_ResourceName pool \<and>
     vst_Host (Status v) = ref_Name (pls_HostRef (Spec pool))"

lemma Volume_commit_ensures:
  assumes coop: "cooperates view env" and ob: "obeys view (e_xml env) cl"
    and v: "v_Volumes V (named v) = Some v" "om_DeletionTimestamp (Meta v) = None" "Finalizer \<in> set (om_Finalizers (Meta v))"
      "\<not> isTrue env v ConditionReady"
    and p: "v_vols V (Pool_ResourceName pool) = Some m" "va_pool action = \<lparr>lsp_Name = Pool_ResourceName pool\<rparr>"
      "va_source action = None" "m (sv_Name (va_def action)) = None" "describable (e_xml env) (va_def action)"
    and Q: "\<And>v'. readyVolume env v pool v' \<Longrightarrow> label_of (Meta v') PoolLabel = Some (ref_Name (vsp_PoolRef (Spec v))) \<Longrightarrow>
      Q None (V\<lparr>v_vols := (v_vols V)(Pool_ResourceName pool \<mapsto> m(sv_Name (va_def action) \<mapsto> va_def action)),
         v_Volumes := (v_Volumes V)(named v \<mapsto> v')\<rparr>)"
  shows "ensures view conns (Volume_commit env (observed a cl) pool False action v) V Q"
proof -
  define l where "l = labelled v PoolLabel (ref_Name (vsp_PoolRef (Spec v)))"
  have l: "named l = named v" "Spec l = Spec v" "Status l = Status v" "om_DeletionTimestamp (Meta l) = None"
    "Finalizer \<in> set (om_Finalizers (Meta l))" "\<not> isTrue env l ConditionReady"
    "label_of (Meta l) PoolLabel = Some (ref_Name (vsp_PoolRef (Spec v)))"
    using v(2-4) by (simp_all add: l_def isTrue_def)
  have created: "named (Volume_created l pool) = named v" "Meta (Volume_created l pool) = Meta l"
    "Spec (Volume_created l pool) = Spec v"
    by (simp_all add: Volume_created_def named_def l(2) l(1) [unfolded named_def])
  have isTrue_created: "\<not> isTrue env (Volume_created l pool) ConditionReady"
    using l(6) by (simp add: isTrue_def Volume_created_def)
  have ready: "Q None (V\<lparr>v_vols := (v_vols V)(Pool_ResourceName pool \<mapsto> m(sv_Name (va_def action) \<mapsto> va_def action)),
      v_Volumes := (v_Volumes V)(named v \<mapsto> v')\<rparr>)"
    if "v' = (Volume_created l pool)\<lparr>Status := (Status (Volume_created l pool))\<lparr>Conditions := cs\<rparr>\<rparr>"
      "isTrue env v' ConditionReady" for v' cs
  proof -
    have "readyVolume env v pool v'"
      using that l by (auto simp: readyVolume_def Volume_created_def named_def)
    moreover have "label_of (Meta v') PoolLabel = Some (ref_Name (vsp_PoolRef (Spec v)))"
      using that l(7) by (simp add: Volume_created_def)
    ultimately show ?thesis using Q by simp
  qed
  have "ensures view conns (andThen (VolumeCreate (e_xml env) (observed a cl) action) (\<lambda>(r, action).
       case r of Some err \<Rightarrow> failing env l ConditionError err
       | None \<Rightarrow> andThen (if False then CleanupSource (liftOS (e_OS env)) action else ret None) (\<lambda>_.
          attempt (setStatusCondition env (Volumes env) (Volume_created l pool) ConditionReady ConditionTrue
            conditionCreationSucceeded ConditionCreated) (\<lambda>err. ret (Some err)) (\<lambda>_. ret None))))
       (storing v_Volumes_update l V) Q"
    by (intro ensures_andThen VolumeCreate_ensures [where m = m, OF ob _ p(2,3,5,4)],
        simp add: storing_def p, simp only: prod.case option.case if_False)
      (intro ensures_andThen ensures_ret ensures_attempt
        volumes_field.ensures_becomesTrue [where old = l, OF cooperatesD(1) [OF coop] cooperatesD(7) [OF coop]]
        cooperatesD(9) [OF coop],
       simp_all add: storing_Volumes l created ready isTrue_created ensures_ret)
  then show ?thesis
    unfolding Volume_commit_def Volume_setStatusCondition_def
    by (intro ensures_attempt volumes_field.ensures_SetLabelOn [OF cooperatesD(7) [OF coop] v(1,2)])
      (simp only: l_def [symmetric] sum.case)
qed

text \<open>The definition that the action holds when the volume is created.\<close>

lemma ensures_VolumeBackingStore:
  assumes "obeys view x cl" and "v_vols V p = Some m" and "m n = Some info" and "describable x info"
    and "sv_Target info = Some t" and "sv_Capacity info = Some cap"
    and "Q (None, let a = action\<lparr>va_def := (va_def action)\<lparr>sv_BackingStore :=
            Some \<lparr>svb_Path = svt_Path t, svb_Format = svt_Format t\<rparr>\<rparr>\<rparr> in
         if sv_Capacity (va_def a) = None then VolumeSize_set a (svs_Unit cap) (svs_Value cap) else a) V"
  shows "ensures view conns (VolumeBackingStore x (observed a cl) action n p) V Q"
proof -
  from assms(4) obtain xml where xml: "vol_Marshal x info = Inr xml" "vol_Unmarshal x xml = Inr info"
    by (auto simp: describable_def)
  show ?thesis
    unfolding VolumeBackingStore_def
    by (intro ensures_attempt ensures_pool [OF assms(1,2)] ensures_volume [OF assms(1-3)] ensures_described [OF assms(1-3)]
        ensures_deref [OF assms(5)] | simp add: xml Let_def)+
      (use assms(5-7) in \<open>auto simp: Let_def deref_def intro!: ensures_ret\<close>)
qed

lemma Volume_create_ensures:
  assumes coop: "cooperates view env" and ob: "obeys view (e_xml env) cl"
    and v: "v_Volumes V (named v) = Some v" "om_DeletionTimestamp (Meta v) = None" "Finalizer \<in> set (om_Finalizers (Meta v))"
      "\<not> isTrue env v ConditionReady"
    and p: "v_vols V (Pool_ResourceName pool) = Some m" "m (Volume_ResourceName v) = None"
    and spec: "vsp_Source (Spec v) = None" "backedBy env V pool v info" "describable (e_xml env) (wantedVolume (e_cast env) v info)"
    and Q: "\<And>v'. readyVolume env v pool v' \<Longrightarrow> label_of (Meta v') PoolLabel = Some (ref_Name (vsp_PoolRef (Spec v))) \<Longrightarrow>
      Q None (V\<lparr>v_vols := (v_vols V)(Pool_ResourceName pool \<mapsto> m(Volume_ResourceName v \<mapsto> wantedVolume (e_cast env) v info)),
         v_Volumes := (v_Volumes V)(named v \<mapsto> v')\<rparr>)"
  shows "ensures view conns (Volume_create env (observed a cl) pool (missingVolume (Pool_ResourceName pool) (Volume_ResourceName v)) v) V Q"
proof -
  let ?n = "Volume_ResourceName v" and ?p = "Pool_ResourceName pool"
  let ?a = "VolumeFormat (case vsp_Size (Spec v) of None \<Rightarrow> missingVolume ?p ?n
      | Some sz \<Rightarrow> VolumeSize_set (missingVolume ?p ?n) (vs_Unit sz) (ToUint64 (e_cast env) (vs_Value sz))) (vsp_Format (Spec v))"
  show ?thesis
  proof (cases info)
    case None
    have a: "va_def ?a = wantedVolume (e_cast env) v info" "va_pool ?a = \<lparr>lsp_Name = ?p\<rparr>" "va_source ?a = None"
      by (simp_all add: None wantedVolume_def VolumeFormat_def VolumeSize_set_def missingVolume_def emptyStorageVolume_def split: option.split)
    have n: "sv_Name (wantedVolume (e_cast env) v info) = ?n" by (simp add: wantedVolume_def)
    have "ensures view conns (Volume_commit env (observed a cl) pool False ?a v) V Q"
      by (rule Volume_commit_ensures [OF coop ob v p(1) a(2,3)]) (use a(1) n p(2) spec(3) Q in simp_all)
    with None spec(1,2) show ?thesis
      by (simp add: Volume_create_def Let_def)
  next
    case (Some i)
    then obtain b m' where b: "vsp_BackingStoreRef (Spec v) \<noteq> None" "v_Volumes V (Volume_BackingStoreRef v) = Some b"
      "isTrue env b ConditionReady" "vst_Host (Status b) = ref_Name (pls_HostRef (Spec pool))"
      "v_vols V (vst_Pool (Status b)) = Some m'" "m' (Volume_ResourceName b) = Some i" "describable (e_xml env) i"
      using spec(2) by auto
    from Some spec(2) obtain t cap where i: "sv_Target i = Some t" "sv_Capacity i = Some cap" by auto
    let ?b = "let a = ?a\<lparr>va_def := (va_def ?a)\<lparr>sv_BackingStore :=
            Some \<lparr>svb_Path = svt_Path t, svb_Format = svt_Format t\<rparr>\<rparr>\<rparr> in
         if sv_Capacity (va_def a) = None then VolumeSize_set a (svs_Unit cap) (svs_Value cap) else a"
    have a: "va_def ?b = wantedVolume (e_cast env) v info" "va_pool ?b = \<lparr>lsp_Name = ?p\<rparr>" "va_source ?b = None"
      by (simp_all add: Some i wantedVolume_def VolumeFormat_def VolumeSize_set_def missingVolume_def emptyStorageVolume_def Let_def
          split: option.split)
    define l where "l = labelled v VolumeLabel (om_Name (Meta b))"
    let ?V = "storing v_Volumes_update l V"
    have l: "named l = named v" "Spec l = Spec v" "Status l = Status v" "om_DeletionTimestamp (Meta l) = None"
      "Finalizer \<in> set (om_Finalizers (Meta l))" "\<not> isTrue env l ConditionReady" "Volume_ResourceName l = ?n"
      using v(2-4) by (simp_all add: l_def isTrue_def Volume_ResourceName_def)
    have n: "sv_Name (wantedVolume (e_cast env) v info) = ?n" by (simp add: wantedVolume_def)
    have "ensures view conns (Volume_commit env (observed a cl) pool False ?b l) ?V Q"
    proof (rule Volume_commit_ensures [OF coop ob _ l(4,5,6) _ a(2,3)])
      show "v_Volumes ?V (named l) = Some l" by (simp add: storing_Volumes l(1))
      show "v_vols ?V ?p = Some m" by (simp add: storing_Volumes p(1))
      show "m (sv_Name (va_def ?b)) = None" "describable (e_xml env) (va_def ?b)" using p(2) spec(3) by (simp_all only: a(1) n)
      fix v' assume v': "readyVolume env l pool v'" "label_of (Meta v') PoolLabel = Some (ref_Name (vsp_PoolRef (Spec l)))"
      then have "readyVolume env v pool v'" by (simp add: readyVolume_def l(1,2))
      from Q [OF this] v'(2) show "Q None (?V\<lparr>v_vols := (v_vols ?V)(?p \<mapsto> m(sv_Name (va_def ?b) \<mapsto> va_def ?b)),
          v_Volumes := (v_Volumes ?V)(named l \<mapsto> v')\<rparr>)"
        by (simp only: a(1) n) (simp add: storing_Volumes l(1,2))
    qed
    then have "ensures view conns (Volume_backed env (observed a cl) pool ?a v (Volume_commit env (observed a cl) pool False)) V Q"
      unfolding Volume_backed_def
      by (intro ensures_attempt ensures_andThen ensures_apiGet [OF storesD(1) [OF cooperatesD(7) [OF coop]] b(2)],
          simp only: sum.case b(3,4) not_True_eq_False simp_thms if_False)
        (intro ensures_andThen ensures_VolumeBackingStore [OF ob b(5,6,7) i], simp only: prod.case option.case,
         intro ensures_attempt volumes_field.ensures_SetLabelOn [OF cooperatesD(7) [OF coop] v(1,2)],
         simp only: l_def [symmetric] sum.case)
    with Some spec(1) b(1) show ?thesis
      by (simp add: Volume_create_def Let_def)
  qed
qed

section \<open>The reconciliation\<close>

text \<open>The way to the action: what was read, and what the daemon has under the name.\<close>

definition actionOn :: "Pool \<Rightarrow> Volume \<Rightarrow> (string \<rightharpoonup> StorageVolume) \<Rightarrow> VolumeAction" where
  "actionOn p v m = (case m (Volume_ResourceName v) of
        None \<Rightarrow> missingVolume (Pool_ResourceName p) (Volume_ResourceName v)
      | Some i \<Rightarrow> foundVolume (Pool_ResourceName p) (Volume_ResourceName v) i)"

lemma Volume_Reconcile_ensures:
  assumes coop: "cooperates view env" and r: "reachable view env conns V volume pool m"
    and d: "\<And>v. m (Volume_ResourceName volume) = Some v \<Longrightarrow> describable (e_xml env) v"
    and k: "\<And>a cl. obeys view (e_xml env) cl \<Longrightarrow> ensures view conns (withFinalizer env (Volumes env) volume
      (Volume_finalize env (observed a cl) (actionOn pool volume m) volume)
      (Volume_manage env pool (observed a cl) (actionOn pool volume m))) V Q"
  shows "ensures view conns (Volume_Reconcile env (named volume)) V Q"
proof -
  from r obtain host e where h: "v_Volumes V (named volume) = Some volume" "v_Pools V (Volume_PoolRef volume) = Some pool"
    "isTrue env pool ConditionReady" "v_Hosts V (Pool_HostRef pool) = Some host" "conns (om_UID (Meta host)) = Some e"
    "obeys view (e_xml env) (he_client e)" "v_vols V (Pool_ResourceName pool) = Some m" "v_up V"
    by (auto simp: reachable_def)
  have "ensures view conns (Volume_withAction env volume pool (observed (he_addr e) (he_client e))) V Q"
    unfolding Volume_withAction_def
    by (intro ensures_attempt ensures_NewVolumeAction [OF h(6,7)])
      (use d k [OF h(6)] in \<open>auto simp: actionOn_def\<close>)
  then show ?thesis
    unfolding Volume_Reconcile_def getRequested_def
    by (intro ensures_attempt ensures_apiGet [OF storesD(1) [OF cooperatesD(7) [OF coop]] h(1)], simp only: sum.case)
      (rule ensures_withPool [where k = "Volume_withAction env volume" and pool = pool and host = host and e = e and x = "e_xml env"
          and conns = conns and V = V, OF coop h(2,4,3,5,6,8)])
qed

lemma VolumeState_actions [simp]: "VolumeState (foundVolume p n v)" "\<not> VolumeState (missingVolume p n)"
  by (simp_all add: VolumeState_def foundVolume_def missingVolume_def)

lemma finalized_simps:
  "named (finalized obj) = named obj" "Spec (finalized obj) = Spec obj" "Status (finalized obj) = Status obj"
  "om_DeletionTimestamp (Meta (finalized obj)) = om_DeletionTimestamp (Meta obj)"
  "Finalizer \<in> set (om_Finalizers (Meta (finalized obj)))" "isTrue env (finalized obj) t = isTrue env obj t"
  by (simp_all add: finalized_def named_def isTrue_def)

lemma backedBy_stored:
  assumes "backedBy env V pool volume info" and "v_Volumes V (named volume) = Some volume" and "\<not> isTrue env volume ConditionReady"
    and "named v = named volume" "Spec v = Spec volume" "om_Namespace (Meta v) = om_Namespace (Meta volume)"
  shows "backedBy env (storing v_Volumes_update v V) pool v info"
  using assms by (cases info) (auto simp: storing_Volumes Volume_BackingStoreRef_def)

lemma creation_ensures:
  assumes coop: "cooperates view env" and r: "reachable view env conns V volume pool m"
    and new: "om_DeletionTimestamp (Meta volume) = None" "m (Volume_ResourceName volume) = None" "\<not> isTrue env volume ConditionReady"
    and spec: "vsp_Source (Spec volume) = None" "backedBy env V pool volume info"
      "describable (e_xml env) (wantedVolume (e_cast env) volume info)"
  shows "ensures view conns (Volume_Reconcile env (named volume)) V (\<lambda>r V'. r = (emptyResult, None) \<and> (\<exists>v. readyVolume env volume pool v \<and>
      label_of (Meta v) PoolLabel = Some (ref_Name (vsp_PoolRef (Spec volume))) \<and>
      V' = V\<lparr>v_vols := (v_vols V)(Pool_ResourceName pool \<mapsto> m(Volume_ResourceName volume \<mapsto> wantedVolume (e_cast env) volume info)),
         v_Volumes := (v_Volumes V)(named volume \<mapsto> v)\<rparr>))"
proof (rule Volume_Reconcile_ensures [OF coop r])
  fix a cl assume ob: "obeys view (e_xml env) cl"
  let ?f = "finalized volume" and ?V = "storing v_Volumes_update (finalized volume) V"
  let ?Q = "\<lambda>r V'. r = (emptyResult, None) \<and> (\<exists>v. readyVolume env volume pool v \<and>
      label_of (Meta v) PoolLabel = Some (ref_Name (vsp_PoolRef (Spec volume))) \<and>
      V' = V\<lparr>v_vols := (v_vols V)(Pool_ResourceName pool \<mapsto> m(Volume_ResourceName volume \<mapsto> wantedVolume (e_cast env) volume info)),
         v_Volumes := (v_Volumes V)(named volume \<mapsto> v)\<rparr>)"
  note v = r [unfolded reachable_def, THEN conjunct1]
  have same: "Volume_ResourceName ?f = Volume_ResourceName volume" "wantedVolume (e_cast env) ?f info = wantedVolume (e_cast env) volume info"
    "readyVolume env ?f pool v' = readyVolume env volume pool v'" for v'
    by (simp_all add: finalized_simps Volume_ResourceName_def wantedVolume_def readyVolume_def)
  have a: "actionOn pool volume m = missingVolume (Pool_ResourceName pool) (Volume_ResourceName ?f)"
    by (simp add: actionOn_def new(2) same(1))
  have "ensures view conns (Volume_create env (observed a cl) pool (actionOn pool volume m) ?f) ?V
      (\<lambda>r V'. r = None \<and> ?Q (emptyResult, None) V')"
    unfolding a
  proof (rule Volume_create_ensures [OF coop ob, where m = m and info = info])
    show "v_Volumes ?V (named ?f) = Some ?f" by (simp add: storing_Volumes)
    show "v_vols ?V (Pool_ResourceName pool) = Some m" using r by (simp add: storing_Volumes reachable_def)
    show "backedBy env ?V pool ?f info"
      by (rule backedBy_stored [OF spec(2) v new(3)]) (simp_all add: finalized_simps, simp add: finalized_def)
  qed (use new spec in \<open>auto simp: finalized_simps same storing_Volumes intro!: exI\<close>)
  then have m: "ensures view conns (Volume_manage env pool (observed a cl) (actionOn pool volume m) ?f) ?V ?Q"
    unfolding Volume_manage_def
    by (simp only: a VolumeState_actions if_False, intro ensures_guarded) (erule ensures_mono, auto intro: ensures_ret)
  show "ensures view conns (withFinalizer env (Volumes env) volume (Volume_finalize env (observed a cl) (actionOn pool volume m) volume)
      (Volume_manage env pool (observed a cl) (actionOn pool volume m))) V ?Q"
    unfolding withFinalizer_def if_P [OF new(1)]
    by (intro ensures_attempt volumes_field.ensures_addFinalizer [OF cooperatesD(1) [OF coop] cooperatesD(7) [OF coop] v new(1)])
      (simp only: sum.case m)
qed (use new in simp)

text \<open>A volume that is there, ready and as large as its spec says: nothing is changed.\<close>

definition fits :: "safecast \<Rightarrow> Volume \<Rightarrow> StorageVolume \<Rightarrow> bool" where
  "fits sc volume v \<longleftrightarrow> (case vsp_Size (Spec volume) of None \<Rightarrow> True
     | Some sz \<Rightarrow> (\<exists>cap. sv_Capacity v = Some cap \<and>
         ConvertToBytes (svs_Value cap) (svs_Unit cap) = ConvertToBytes (ToUint64 sc (vs_Value sz)) (vs_Unit sz)))"

lemma settled_ensures:
  assumes coop: "cooperates view env" and r: "reachable view env conns V volume pool m"
    and there: "m (Volume_ResourceName volume) = Some v" "describable (e_xml env) v" "fits (e_cast env) volume v"
    and volume: "om_DeletionTimestamp (Meta volume) = None" "Finalizer \<in> set (om_Finalizers (Meta volume))" "isTrue env volume ConditionReady"
  shows "ensures view conns (Volume_Reconcile env (named volume)) V (\<lambda>r V'. r = (emptyResult, None) \<and> V' = V)"
proof (rule Volume_Reconcile_ensures [OF coop r])
  fix a cl
  let ?Q = "\<lambda>r V'. r = (emptyResult, None) \<and> V' = V"
  note s = r [unfolded reachable_def, THEN conjunct1]
  have f: "finalized volume = volume" by (simp add: finalized_def volume(2))
  have "ensures view conns (Volume_resize env (observed a cl) (foundVolume p n v) volume) V ?Q" for p n
    using there(3) unfolding Volume_resize_def ResizeRequired_def Let_def fits_def
    by (cases "vsp_Size (Spec volume)") (auto simp: foundVolume_def deref_def intro!: ensures_rules)
  then have "ensures view conns (Volume_manage env pool (observed a cl) (actionOn pool volume m) volume) V ?Q"
    by (simp add: Volume_manage_def Volume_existing_def actionOn_def there(1) volume(3))
  then show "ensures view conns (withFinalizer env (Volumes env) volume (Volume_finalize env (observed a cl) (actionOn pool volume m) volume)
      (Volume_manage env pool (observed a cl) (actionOn pool volume m))) V ?Q"
    unfolding withFinalizer_def if_P [OF volume(1)]
    by (intro ensures_attempt volumes_field.ensures_addFinalizer [OF cooperatesD(1) [OF coop] cooperatesD(7) [OF coop] s volume(1)])
      (simp add: f volumes_field.storing_same [OF s])
qed (use there in simp)

section \<open>Deletion\<close>

text \<open>Nobody refers to the volume, as the labels tell.\<close>

definition unused :: "'w env \<Rightarrow> surroundings \<Rightarrow> Volume \<Rightarrow> bool" where
  "unused env V volume \<longleftrightarrow> (\<exists>req req'. NewRequirement (e_api env) VolumeLabel (om_Name (Meta volume)) = Inr req \<and>
     NewRequirement (e_api env) (DiskLabelPrefix @ ''/'' @ om_Name (Meta volume)) '''' = Inr req' \<and>
     (\<forall>v\<in>ran (v_Volumes V). \<not> carries v req) \<and> (\<forall>d\<in>ran (v_Domains V). \<not> carries d req'))"

lemma deletion_ensures:
  assumes coop: "cooperates view env" and r: "reachable view env conns V volume pool m"
    and d: "om_DeletionTimestamp (Meta volume) \<noteq> None" "om_Finalizers (Meta volume) = [Finalizer]" "unused env V volume"
      "\<And>v. m (Volume_ResourceName volume) = Some v \<Longrightarrow> describable (e_xml env) v"
  shows "ensures view conns (Volume_Reconcile env (named volume)) V (\<lambda>r V'. r = (emptyResult, None) \<and>
      V' = V\<lparr>v_vols := (v_vols V)(Pool_ResourceName pool \<mapsto> m(Volume_ResourceName volume := None)),
         v_Volumes := (v_Volumes V)(named volume := None)\<rparr>)"
proof (rule Volume_Reconcile_ensures [OF coop r d(4)])
  fix a cl assume ob: "obeys view (e_xml env) cl"
  let ?n = "Volume_ResourceName volume" and ?p = "Pool_ResourceName pool"
  let ?Q = "\<lambda>r V'. r = (emptyResult, None) \<and> V' = V\<lparr>v_vols := (v_vols V)(?p \<mapsto> m(?n := None)),
         v_Volumes := (v_Volumes V)(named volume := None)\<rparr>"
  let ?V = "V\<lparr>v_vols := (v_vols V)(?p \<mapsto> m(?n := None))\<rparr>"
  have s: "v_Volumes V (named volume) = Some volume" "v_vols V ?p = Some m" using r by (simp_all add: reachable_def)
  from d(3) obtain req req' where req: "NewRequirement (e_api env) VolumeLabel (om_Name (Meta volume)) = Inr req"
    "NewRequirement (e_api env) (DiskLabelPrefix @ ''/'' @ om_Name (Meta volume)) '''' = Inr req'"
    "{v \<in> ran (v_Volumes V). carries v req} = {}" "{d \<in> ran (v_Domains V). carries d req'} = {}"
    unfolding unused_def by blast
  have fin: "ensures view conns (removeFinalizer env (Volumes env) volume) ?V ?Q"
    unfolding removeFinalizer_def finish_def
    by (intro ensures_attempt volumes_field.ensures_vanish [OF cooperatesD(7) [OF coop], where obj = volume])
      (use s d(1,2) in \<open>simp_all add: apimachinery_okD(3) [OF cooperatesD(1) [OF coop]] named_def vanishes_def ensures_ret\<close>)
  have "ensures view conns (Volume_finalize env (observed a cl) (actionOn pool volume m) volume) V ?Q"
  proof (cases "m ?n")
    case None
    then have "?V = V" using s(2) by (simp add: fun_upd_idem)
    with fin show ?thesis by (simp add: Volume_finalize_def actionOn_def None)
  next
    case (Some v)
    have "ensures view conns (VolumeDelete (observed a cl) (foundVolume ?p ?n v)) V (\<lambda>r V'. r = None \<and> V' = ?V)"
      unfolding VolumeDelete_def
      by (intro ensures_deref [where x = "handleOf ?p ?n v"] ensures_deleteVolume [OF ob s(2) Some]) (simp_all add: foundVolume_def)
    then have "ensures view conns (Volume_delete env (observed a cl) volume (foundVolume ?p ?n v)) V (\<lambda>r V'. r = None \<and> V' = ?V)"
      unfolding Volume_delete_def withRequirement_def req(1,2) sum.case
      by (intro ensures_attempt ensures_apiList [OF cooperatesD(7) [OF coop]] ensures_apiList [OF cooperatesD(8) [OF coop]]
          | simp add: req(3,4))+
    then show ?thesis
      by (simp add: Volume_finalize_def actionOn_def Some, intro ensures_guarded) (erule ensures_mono, simp add: fin)
  qed
  then show "ensures view conns (withFinalizer env (Volumes env) volume (Volume_finalize env (observed a cl) (actionOn pool volume m) volume)
      (Volume_manage env pool (observed a cl) (actionOn pool volume m))) V ?Q"
    unfolding withFinalizer_def if_not_P [OF d(1)]
    by (simp only: apimachinery_okD(2) [OF cooperatesD(1) [OF coop]] d(2) list.set insert_iff if_True simp_thms)
qed

section \<open>Growth\<close>

text \<open>The volume is smaller than its spec says; \<open>b\<close> is the size to come, in bytes.\<close>

definition tooSmall :: "safecast \<Rightarrow> Volume \<Rightarrow> StorageVolume \<Rightarrow> u64 \<Rightarrow> bool" where
  "tooSmall sc volume v b \<longleftrightarrow> (\<exists>sz cap. vsp_Size (Spec volume) = Some sz \<and> sv_Capacity v = Some cap \<and>
     b = ConvertToBytes (ToUint64 sc (vs_Value sz)) (vs_Unit sz) \<and> ConvertToBytes (svs_Value cap) (svs_Unit cap) < b)"

definition resized :: "StorageVolume \<Rightarrow> u64 \<Rightarrow> StorageVolume" where
  "resized v b = v\<lparr>sv_Capacity := Some \<lparr>svs_Unit = ''bytes'', svs_Value = b\<rparr>\<rparr>"

lemma resized_fits: "tooSmall sc volume v b \<Longrightarrow> fits sc volume (resized v b)"
  by (auto simp: tooSmall_def fits_def resized_def ConvertToBytes_def unitConversion_def)

lemma ensures_resizeVolume:
  assumes "obeys view x cl" and "v_vols V p = Some m" and "m n = Some v" and "sv_Capacity v \<noteq> None"
    and "Q None (V\<lparr>v_vols := (v_vols V)(p \<mapsto> m(n \<mapsto> resized v b))\<rparr>)"
  shows "ensures view conns (StorageVolResize (observed a cl) (handleOf p n v) b f) V Q"
  unfolding observed_select
proof (rule ensures_called)
  fix w assume w: "view w = V"
  from volume_host.resizes [OF obeysD(1) [OF assms(1)], of w p m n v "sv_Key v" b f] w assms(2-4)
  obtain w' where w': "StorageVolResize cl (handleOf p n v) b f w = (Returns None, w')"
    "v_vols (view w') = (v_vols V)(p \<mapsto> m(n \<mapsto> resized v b))"
    by (auto simp: handleOf_def resized_def)
  moreover have "view w' = V\<lparr>v_vols := (v_vols V)(p \<mapsto> m(n \<mapsto> resized v b))\<rparr>"
    by (rule withoutVols_eq [OF _ w'(2)])
      (use movesD [OF obeysD(6) [OF assms(1)] w'(1)] w in \<open>simp add: same_def\<close>)
  ultimately show "\<exists>x w'. StorageVolResize cl (handleOf p n v) b f w = (Returns x, w') \<and> Q x (view w')"
    using assms(5) by auto
qed

lemma growth_ensures:
  assumes coop: "cooperates view env" and r: "reachable view env conns V volume pool m"
    and there: "m (Volume_ResourceName volume) = Some v" "describable (e_xml env) v" "tooSmall (e_cast env) volume v b"
    and volume: "om_DeletionTimestamp (Meta volume) = None" "Finalizer \<in> set (om_Finalizers (Meta volume))" "isTrue env volume ConditionReady"
      "unused env V volume"
  shows "ensures view conns (Volume_Reconcile env (named volume)) V (\<lambda>r V'. r = (emptyResult, None) \<and>
      V' = V\<lparr>v_vols := (v_vols V)(Pool_ResourceName pool \<mapsto> m(Volume_ResourceName volume \<mapsto> resized v b))\<rparr>)"
proof (rule Volume_Reconcile_ensures [OF coop r])
  fix a cl assume ob: "obeys view (e_xml env) cl"
  let ?n = "Volume_ResourceName volume" and ?p = "Pool_ResourceName pool"
  let ?Q = "\<lambda>r V'. r = (emptyResult, None) \<and> V' = V\<lparr>v_vols := (v_vols V)(?p \<mapsto> m(?n \<mapsto> resized v b))\<rparr>"
  have s: "v_Volumes V (named volume) = Some volume" "v_vols V ?p = Some m" using r by (simp_all add: reachable_def)
  have f: "finalized volume = volume" by (simp add: finalized_def volume(2))
  from there(3) obtain sz cap where sz: "vsp_Size (Spec volume) = Some sz" "sv_Capacity v = Some cap"
    "b = ConvertToBytes (ToUint64 (e_cast env) (vs_Value sz)) (vs_Unit sz)" "ConvertToBytes (svs_Value cap) (svs_Unit cap) < b"
    by (auto simp: tooSmall_def)
  from volume(4) obtain req req' where req: "NewRequirement (e_api env) VolumeLabel (om_Name (Meta volume)) = Inr req"
    "NewRequirement (e_api env) (DiskLabelPrefix @ ''/'' @ om_Name (Meta volume)) '''' = Inr req'"
    "{v \<in> ran (v_Volumes V). carries v req} = {}" "{d \<in> ran (v_Domains V). carries d req'} = {}"
    unfolding unused_def by blast
  have required: "ensures view conns (ResizeRequired (foundVolume ?p ?n v) (vs_Unit sz) (ToUint64 (e_cast env) (vs_Value sz))) V
      (\<lambda>r V'. r = Inr True \<and> V' = V)"
    unfolding ResizeRequired_def using sz(2-4) by (auto simp: foundVolume_def Let_def deref_def intro!: ensures_ret)
  have free: "ensures view conns (isNotBackingStore env (om_Name (Meta volume))) V (\<lambda>r V'. r = Inr True \<and> V' = V)"
    unfolding isNotBackingStore_def withRequirement_def req(1) sum.case
    by (intro ensures_attempt ensures_apiList [OF cooperatesD(7) [OF coop]]) (simp add: req(3) ensures_ret)
  have unmounted: "ensures view conns (usedByDomain env (om_Name (Meta volume))) V (\<lambda>r V'. r = Inr None \<and> V' = V)"
    unfolding usedByDomain_def withRequirement_def req(2) sum.case
    by (intro ensures_attempt ensures_apiList [OF cooperatesD(8) [OF coop]]) (simp add: req(4) ensures_ret)
  have grow: "ensures view conns (endWith (VolumeResize (observed a cl) (foundVolume ?p ?n v) (vs_Unit sz) (ToUint64 (e_cast env) (vs_Value sz)))) V ?Q"
    unfolding endWith_def VolumeResize_def sz(3) [symmetric]
    by (intro ensures_andThen ensures_deref [where x = "handleOf ?p ?n v"] ensures_resizeVolume [OF ob s(2) there(1)])
      (simp_all add: foundVolume_def sz(2) ensures_ret)
  have "ensures view conns (Volume_resize env (observed a cl) (foundVolume ?p ?n v) volume) V ?Q"
    unfolding Volume_resize_def sz(1) option.case Let_def
    by (intro ensures_attempt ensures_mono [OF required], clarsimp)
      (intro ensures_attempt ensures_mono [OF free], clarsimp, intro ensures_attempt ensures_mono [OF unmounted], clarsimp simp: grow)
  then have "ensures view conns (Volume_manage env pool (observed a cl) (actionOn pool volume m) volume) V ?Q"
    by (simp add: Volume_manage_def Volume_existing_def actionOn_def there(1) volume(3))
  then show "ensures view conns (withFinalizer env (Volumes env) volume (Volume_finalize env (observed a cl) (actionOn pool volume m) volume)
      (Volume_manage env pool (observed a cl) (actionOn pool volume m))) V ?Q"
    unfolding withFinalizer_def if_P [OF volume(1)]
    by (intro ensures_attempt volumes_field.ensures_addFinalizer [OF cooperatesD(1) [OF coop] cooperatesD(7) [OF coop] s(1) volume(1)])
      (simp add: f volumes_field.storing_same [OF s(1)])
qed (use there in simp)

section \<open>Properties\<close>

text \<open>C13: Where the outside cooperates, one reconciliation of a new volume object returns without an error and leaves the
  volume on the daemon, with the name, size, format and backing store of the spec and everything else as it was, and
  the object ready, with the finalizer, the label of its pool and its place; a second one returns and changes nothing.\<close>

theorem Volume_Reconcile_converges:
  assumes coop: "cooperates view env" and r: "reachable view env (hs_entries s) (view (w_ext s)) volume pool m"
    and new: "om_DeletionTimestamp (Meta volume) = None" "m (Volume_ResourceName volume) = None" "\<not> isTrue env volume ConditionReady"
    and spec: "vsp_Source (Spec volume) = None" "backedBy env (view (w_ext s)) pool volume info"
      "describable (e_xml env) (wantedVolume (e_cast env) volume info)"
  shows "\<exists>s' v. Volume_Reconcile env (named volume) s = (Returns (emptyResult, None), s') \<and>
    readyVolume env volume pool v \<and> label_of (Meta v) PoolLabel = Some (ref_Name (vsp_PoolRef (Spec volume))) \<and>
    view (w_ext s') = (view (w_ext s))\<lparr>v_vols := (v_vols (view (w_ext s)))(Pool_ResourceName pool \<mapsto>
        m(Volume_ResourceName volume \<mapsto> wantedVolume (e_cast env) volume info)),
      v_Volumes := (v_Volumes (view (w_ext s)))(named volume \<mapsto> v)\<rparr> \<and>
    (\<exists>s''. Volume_Reconcile env (named volume) s' = (Returns (emptyResult, None), s'') \<and> view (w_ext s'') = view (w_ext s'))"
proof -
  let ?V = "view (w_ext s)" and ?w = "wantedVolume (e_cast env) volume info"
  from ensuresD [OF creation_ensures [OF assms] refl refl] obtain s' v where
    one: "Volume_Reconcile env (named volume) s = (Returns (emptyResult, None), s')" "hs_entries s' = hs_entries s"
      "readyVolume env volume pool v" "label_of (Meta v) PoolLabel = Some (ref_Name (vsp_PoolRef (Spec volume)))"
    and V: "view (w_ext s') = ?V\<lparr>v_vols := (v_vols ?V)(Pool_ResourceName pool \<mapsto> m(Volume_ResourceName volume \<mapsto> ?w)),
      v_Volumes := (v_Volumes ?V)(named volume \<mapsto> v)\<rparr>"
    by blast
  from one(3) have v: "named v = named volume" "Spec v = Spec volume" "om_Namespace (Meta v) = om_Namespace (Meta volume)"
    by (simp_all add: readyVolume_def named_def)
  have "reachable view env (hs_entries s') (view (w_ext s')) v pool (m(Volume_ResourceName volume \<mapsto> ?w))"
    using r by (simp add: reachable_def V one(2) v Volume_PoolRef_def)
  moreover have "fits (e_cast env) v ?w"
    by (simp add: fits_def v(2) wantedVolume_def split: option.split)
  moreover have "(m(Volume_ResourceName volume \<mapsto> ?w)) (Volume_ResourceName v) = Some ?w"
    by (simp add: v(2) Volume_ResourceName_def)
  moreover have "om_DeletionTimestamp (Meta v) = None" "Finalizer \<in> set (om_Finalizers (Meta v))" "isTrue env v ConditionReady"
    using one(3) by (simp_all add: readyVolume_def)
  ultimately have "ensures view (hs_entries s') (Volume_Reconcile env (named v)) (view (w_ext s'))
      (\<lambda>r V'. r = (emptyResult, None) \<and> V' = view (w_ext s'))"
    using spec(3) by (intro settled_ensures [OF coop])
  from ensuresD [OF this refl refl] v(1) one V show ?thesis by (metis (no_types, lifting))
qed

text \<open>C19: Where the outside cooperates, one reconciliation of a volume object that is being deleted and that no volume and no
  domain refers to returns without an error; the volume is gone from the daemon, whether it was there or not, the
  object from the API server, and everything else is as it was.\<close>

theorem Volume_Reconcile_deletes:
  assumes coop: "cooperates view env" and r: "reachable view env (hs_entries s) (view (w_ext s)) volume pool m"
    and d: "om_DeletionTimestamp (Meta volume) \<noteq> None" "om_Finalizers (Meta volume) = [Finalizer]"
      "unused env (view (w_ext s)) volume"
    and "\<And>v. m (Volume_ResourceName volume) = Some v \<Longrightarrow> describable (e_xml env) v"
  shows "\<exists>s'. Volume_Reconcile env (named volume) s = (Returns (emptyResult, None), s') \<and>
    view (w_ext s') = (view (w_ext s))\<lparr>
      v_vols := (v_vols (view (w_ext s)))(Pool_ResourceName pool \<mapsto> m(Volume_ResourceName volume := None)),
      v_Volumes := (v_Volumes (view (w_ext s)))(named volume := None)\<rparr>"
  using ensuresD [OF deletion_ensures [OF assms] refl refl] by blast

text \<open>C15: Where the outside cooperates, one reconciliation of a ready volume object that no volume and no domain refers to and
  whose spec asks for more than the volume has returns without an error and makes the volume exactly that large; all
  else is as it was, and a second reconciliation changes nothing.\<close>

theorem Volume_Reconcile_grows:
  assumes coop: "cooperates view env" and r: "reachable view env (hs_entries s) (view (w_ext s)) volume pool m"
    and there: "m (Volume_ResourceName volume) = Some v" "describable (e_xml env) v" "tooSmall (e_cast env) volume v b"
    and volume: "om_DeletionTimestamp (Meta volume) = None" "Finalizer \<in> set (om_Finalizers (Meta volume))" "isTrue env volume ConditionReady"
      "unused env (view (w_ext s)) volume"
    and then_: "describable (e_xml env) (resized v b)"
  shows "\<exists>s'. Volume_Reconcile env (named volume) s = (Returns (emptyResult, None), s') \<and>
    view (w_ext s') = (view (w_ext s))\<lparr>v_vols := (v_vols (view (w_ext s)))(Pool_ResourceName pool \<mapsto>
        m(Volume_ResourceName volume \<mapsto> resized v b))\<rparr> \<and>
    (\<exists>s''. Volume_Reconcile env (named volume) s' = (Returns (emptyResult, None), s'') \<and> view (w_ext s'') = view (w_ext s'))"
proof -
  let ?V = "view (w_ext s)" and ?m = "m(Volume_ResourceName volume \<mapsto> resized v b)"
  from ensuresD [OF growth_ensures [OF coop r there volume] refl refl] obtain s' where
    one: "Volume_Reconcile env (named volume) s = (Returns (emptyResult, None), s')" "hs_entries s' = hs_entries s"
    and V: "view (w_ext s') = ?V\<lparr>v_vols := (v_vols ?V)(Pool_ResourceName pool \<mapsto> ?m)\<rparr>"
    by blast
  have "reachable view env (hs_entries s') (view (w_ext s')) volume pool ?m"
    using r by (simp add: reachable_def V one(2))
  then have "ensures view (hs_entries s') (Volume_Reconcile env (named volume)) (view (w_ext s'))
      (\<lambda>r V'. r = (emptyResult, None) \<and> V' = view (w_ext s'))"
    by (rule settled_ensures [OF coop, where v = "resized v b"]) (simp_all add: then_ resized_fits [OF there(3)] volume(1-3))
  from ensuresD [OF this refl refl] one V show ?thesis by (metis (no_types, lifting))
qed

end
