(* ===== verification/UploadProgress.thy ===== *)
theory UploadProgress
  imports VolumeProgress CloudInitController
begin

text \<open>
  What the reconciliations that fill a volume achieve where the outside cooperates, the file system and the ISO library
  included: a cloud-init image is created as large as its documents say and uploaded, its object is ready, and a second
  reconciliation changes nothing; an image that is deleted and not used is gone. A volume with a URL is downloaded,
  verified, created and uploaded. An upload may change the size that the daemon reports (\<open>uploading_volume_host\<close>), so the
  theorems leave it open.
\<close>

section \<open>Files\<close>

definition works :: "('w \<Rightarrow> 'v) \<Rightarrow> ('w, error option) prog \<Rightarrow> bool" where
  "works view m \<longleftrightarrow> (\<forall>w. \<exists>w'. m w = (Returns None, w') \<and> view w' = view w)"

definition supplies :: "('w \<Rightarrow> 'v) \<Rightarrow> ('w, error + 'a) prog \<Rightarrow> bool" where
  "supplies view m \<longleftrightarrow> (\<forall>w. \<exists>x w'. m w = (Returns (Inr x), w') \<and> view w' = view w)"

lemma ensures_works: "works view m \<Longrightarrow> Q None V \<Longrightarrow> ensures view conns (unlogged m) V Q"
  unfolding unlogged_def by (rule ensures_asked) (auto simp: works_def)

lemma ensures_supplies:
  assumes "supplies view m" and "\<And>x. Q (Inr x) V"
  shows "ensures view conns (unlogged m) V Q"
  unfolding unlogged_def
proof (rule ensures_called)
  fix w assume w: "view w = V"
  from assms(1) obtain x w' where "m w = (Returns (Inr x), w')" "view w' = view w" unfolding supplies_def by blast
  with assms(2) w show "\<exists>r w'. m w = (Returns r, w') \<and> Q r (view w')" by auto
qed

definition filesWork :: "('w \<Rightarrow> 'v) \<Rightarrow> 'w OS \<Rightarrow> bool" where
  "filesWork view os \<longleftrightarrow> (\<forall>p. supplies view (os_CreateTemp os p)) \<and> (\<forall>f bs. works view (os_Write os f bs)) \<and>
     (\<forall>f. works view (os_Seek os f)) \<and> (\<forall>f. works view (os_Read os f)) \<and> (\<forall>f. works view (os_Close os f)) \<and>
     (\<forall>f. works view (os_Remove os f))"

definition isoWorks :: "('w \<Rightarrow> 'v) \<Rightarrow> 'w isolib \<Rightarrow> bool" where
  "isoWorks view lib \<longleftrightarrow> (\<forall>f n. supplies view (iso_Create lib f n)) \<and> (\<forall>ws f. works view (iso_CreateFile lib ws f)) \<and>
     (\<forall>ws f bs. works view (iso_WriteFile lib ws f bs)) \<and> (\<forall>ws f. works view (iso_CloseFile lib ws f)) \<and>
     (\<forall>ws. works view (iso_Finalize lib ws))"

lemma filesWorkD:
  assumes "filesWork view os"
  shows "supplies view (os_CreateTemp os p)" "works view (os_Write os f bs)" "works view (os_Seek os f)" "works view (os_Read os f)"
    "works view (os_Close os f)" "works view (os_Remove os f)"
  using assms by (simp_all add: filesWork_def)

lemma isoWorksD:
  assumes "isoWorks view lib"
  shows "supplies view (iso_Create lib f n)" "works view (iso_CreateFile lib ws f)" "works view (iso_WriteFile lib ws f bs)"
    "works view (iso_CloseFile lib ws f)" "works view (iso_Finalize lib ws)"
  using assms by (simp_all add: isoWorks_def)

lemma CleanupSource_ensures:
  assumes "filesWork view os" and "va_source action = Some file" and "Q None V"
  shows "ensures view conns (CleanupSource (liftOS os) action) V Q"
  unfolding CleanupSource_def assms(2) option.case liftOS_select
  by (intro ensures_guarded ensures_works filesWorkD [OF assms(1)]) (simp add: ensures_works [OF filesWorkD(6) [OF assms(1)]] assms(3))

section \<open>Filling a volume\<close>

lemma VolumeCreate_uploads:
  assumes "obeys view x cl" and "v_vols V p = Some m" and "va_pool action = \<lparr>lsp_Name = p\<rparr>" and "va_source action = Some file"
    and "describable x (va_def action)" and "m (sv_Name (va_def action)) = None" and "sv_Capacity (va_def action) \<noteq> None"
    and "\<And>action' cap. va_source action' = Some file \<Longrightarrow> Q (None, action')
      (V\<lparr>v_vols := (v_vols V)(p \<mapsto> m(sv_Name (va_def action) \<mapsto> (va_def action)\<lparr>sv_Capacity := cap\<rparr>))\<rparr>)"
  shows "ensures view conns (VolumeCreate x (observed a cl) action) V Q"
proof -
  from assms(5) obtain xml where xml: "vol_Marshal x (va_def action) = Inr xml" "vol_Unmarshal x xml = Inr (va_def action)"
    by (auto simp: describable_def)
  let ?v = "va_def action"
  let ?V = "V\<lparr>v_vols := (v_vols V)(p \<mapsto> m(sv_Name ?v \<mapsto> ?v))\<rparr>"
  have "ensures view conns (andThen (StorageVolUpload (observed a cl) (handleOf p (sv_Name ?v) ?v) bs 0 0 StorageVolUploadSparseStream)
      (\<lambda>err. ret (err, action\<lparr>va_id := Some (handleOf p (sv_Name ?v) ?v)\<rparr>))) ?V Q" for bs
    by (intro ensures_andThen ensures_upload [OF assms(1), where m = "m(sv_Name ?v \<mapsto> ?v)"])
      (simp_all add: assms(4,7,8) ensures_ret)
  then show ?thesis
    unfolding VolumeCreate_def xml(1) sum.case assms(3) Let_def
    by (intro ensures_attempt ensures_createVolume [OF assms(1,2) xml(2) assms(6)]) (simp add: assms(4))
qed

section \<open>Cloud-init images\<close>

lemma isoFiles_ensures: "isoWorks view lib \<Longrightarrow> Q None V \<Longrightarrow> ensures view conns (isoFiles lib ws files) V Q"
proof (induction files)
  case (Cons f files)
  show ?case
    by (cases f, simp only: isoFiles.simps prod.case,
        intro ensures_guarded ensures_works isoWorksD [OF Cons.prems(1)], simp only: option.case)
      (intro ensures_guarded ensures_works isoWorksD [OF Cons.prems(1)], simp only: option.case,
       intro ensures_guarded ensures_works isoWorksD [OF Cons.prems(1)], simp only: option.case, rule Cons.IH [OF Cons.prems])
qed (simp add: ensures_ret)

lemma cloudInitCreateISO_ensures:
  assumes "filesWork view (e_OS env)" and "isoWorks view (e_iso env)" and "\<And>file. Q (Inr file) V"
  shows "ensures view conns (cloudInitCreateISO env files n) V Q"
  unfolding cloudInitCreateISO_def Let_def liftOS_select
  by (intro ensures_attempt ensures_supplies filesWorkD [OF assms(1)] isoWorksD [OF assms(2)], simp only: sum.case)
    (intro ensures_attempt ensures_supplies isoWorksD [OF assms(2)], simp only: sum.case,
     intro ensures_guarded isoFiles_ensures [OF assms(2)], simp only: option.case,
     intro ensures_guarded ensures_works isoWorksD [OF assms(2)],
     auto simp: assms(3) intro!: ensures_ret split: prod.split)

text \<open>The image that a spec asks for, whose documents have \<open>n\<close> bytes.\<close>

definition wantedImage :: "safecast \<Rightarrow> CloudInit \<Rightarrow> int \<Rightarrow> StorageVolume" where
  "wantedImage sc ci n = emptyStorageVolume\<lparr>sv_Name := CloudInit_ResourceName ci,
     sv_Capacity := Some \<lparr>svs_Unit = ''bytes'', svs_Value = ToUint64 sc (if n < 2048 then 2048 else n)\<rparr>,
     sv_Target := Some \<lparr>svt_Path = '''', svt_Format = Some \<lparr>svtf_Type = ''raw''\<rparr>\<rparr>\<rparr>"

definition imageReachable :: "('w \<Rightarrow> surroundings) \<Rightarrow> 'w env \<Rightarrow> (string \<rightharpoonup> 'w HostEntry) \<Rightarrow> surroundings \<Rightarrow> CloudInit \<Rightarrow> Pool
    \<Rightarrow> (string \<rightharpoonup> StorageVolume) \<Rightarrow> bool" where
  "imageReachable view env conns V ci pool m \<longleftrightarrow> v_CloudInits V (named ci) = Some ci \<and>
     v_Pools V (CloudInit_PoolRef ci) = Some pool \<and> isTrue env pool ConditionReady \<and>
     (\<exists>host e. v_Hosts V (Pool_HostRef pool) = Some host \<and> conns (om_UID (Meta host)) = Some e \<and>
        obeys view (e_xml env) (he_client e)) \<and> v_up V \<and>
     v_vols V (Pool_ResourceName pool) = Some m"

definition readyImage :: "'w env \<Rightarrow> CloudInit \<Rightarrow> Pool \<Rightarrow> CloudInit \<Rightarrow> bool" where
  "readyImage env ci pool c \<longleftrightarrow> named c = named ci \<and> Spec c = Spec ci \<and>
     om_DeletionTimestamp (Meta c) = None \<and> Finalizer \<in> set (om_Finalizers (Meta c)) \<and>
     isTrue env c ConditionReady \<and> cist_Pool (Status c) = Pool_ResourceName pool \<and>
     cist_Host (Status c) = ref_Name (pls_HostRef (Spec pool)) \<and>
     label_of (Meta c) PoolLabel = Some (ref_Name (cis_PoolRef (Spec ci)))"

lemma storing_CloudInits: "storing v_CloudInits_update c V = V\<lparr>v_CloudInits := (v_CloudInits V)(named c \<mapsto> c)\<rparr>"
  by (simp add: storing_def)

lemma CloudInit_commit_ensures:
  assumes coop: "cooperates view env" and ob: "obeys view (e_xml env) cl" and fs: "filesWork view (e_OS env)"
    and c: "v_CloudInits V (named c) = Some c" "om_DeletionTimestamp (Meta c) = None" "Finalizer \<in> set (om_Finalizers (Meta c))"
      "\<not> isTrue env c ConditionReady"
    and p: "v_vols V (Pool_ResourceName pool) = Some m" "va_pool action = \<lparr>lsp_Name = Pool_ResourceName pool\<rparr>"
      "va_source action = Some file" "va_def action = v" "m (sv_Name v) = None" "describable (e_xml env) v" "sv_Capacity v \<noteq> None"
    and Q: "\<And>c' cap. readyImage env c pool c' \<Longrightarrow> Q (emptyResult, None)
      (V\<lparr>v_vols := (v_vols V)(Pool_ResourceName pool \<mapsto> m(sv_Name v \<mapsto> v\<lparr>sv_Capacity := cap\<rparr>)),
         v_CloudInits := (v_CloudInits V)(named c \<mapsto> c')\<rparr>)"
  shows "ensures view conns (CloudInit_commit env (observed a cl) pool action c) V Q"
proof -
  let ?p = "Pool_ResourceName pool"
  define l where "l = labelled c PoolLabel (ref_Name (cis_PoolRef (Spec c)))"
  have l: "named l = named c" "Spec l = Spec c" "Status l = Status c" "om_DeletionTimestamp (Meta l) = None"
    "Finalizer \<in> set (om_Finalizers (Meta l))" "\<not> isTrue env l ConditionReady"
    "label_of (Meta l) PoolLabel = Some (ref_Name (cis_PoolRef (Spec c)))"
    using c(2-4) by (simp_all add: l_def isTrue_def)
  have created: "named (CloudInit_created l pool) = named c" "Meta (CloudInit_created l pool) = Meta l"
    "Spec (CloudInit_created l pool) = Spec c" "\<not> isTrue env (CloudInit_created l pool) ConditionReady"
    using l(6) by (simp_all add: CloudInit_created_def named_def isTrue_def l(2) l(1) [unfolded named_def])
  have rest: "ensures view conns (attempt (SetLabelOn c PoolLabel (ref_Name (cis_PoolRef (Spec c))) (CloudInits env)) fail (\<lambda>ci.
      attempt (CloudInit_setStatusCondition env (CloudInit_created ci pool) ConditionReady ConditionTrue
        conditionCreationSucceeded ConditionCreated) fail (\<lambda>_.
      andThen (CleanupSource (liftOS (e_OS env)) action') (\<lambda>_. stop))))
      (V\<lparr>v_vols := (v_vols V)(?p \<mapsto> m(sv_Name v \<mapsto> v\<lparr>sv_Capacity := cap\<rparr>))\<rparr>) Q" (is "ensures _ _ _ ?V _")
    if src: "va_source action' = Some file" for action' cap
  proof (intro ensures_attempt cloudInits_field.ensures_SetLabelOn [OF cooperatesD(11) [OF coop]])
    show "v_CloudInits ?V (named c) = Some c" "om_DeletionTimestamp (Meta c) = None" using c(1,2) by simp_all
    have ready: "ensures view conns (andThen (CleanupSource (liftOS (e_OS env)) action') (\<lambda>_. stop)) (storing v_CloudInits_update c'
        (storing v_CloudInits_update l ?V)) Q"
      if c': "c' = (CloudInit_created l pool)\<lparr>Status := (Status (CloudInit_created l pool))\<lparr>Conditions := cs\<rparr>\<rparr>"
        "isTrue env c' ConditionReady" for c' cs
    proof -
      have "readyImage env c pool c'" using c' l by (auto simp: readyImage_def CloudInit_created_def named_def)
      from Q [OF this, of cap] have "Q (emptyResult, None) (storing v_CloudInits_update c' (storing v_CloudInits_update l ?V))"
        using c'(1) created(1) by (simp add: storing_CloudInits l(1))
      then show ?thesis
        by (intro ensures_andThen CleanupSource_ensures [OF fs src]) (simp add: ensures_ret)
    qed
    show "case Inr (labelled c PoolLabel (ref_Name (cis_PoolRef (Spec c)))) of Inl e \<Rightarrow> ensures view conns (fail e)
          (storing v_CloudInits_update (labelled c PoolLabel (ref_Name (cis_PoolRef (Spec c)))) ?V) Q
      | Inr ci \<Rightarrow> ensures view conns (attempt (CloudInit_setStatusCondition env (CloudInit_created ci pool) ConditionReady ConditionTrue
          conditionCreationSucceeded ConditionCreated) fail (\<lambda>_. andThen (CleanupSource (liftOS (e_OS env)) action') (\<lambda>_. stop)))
          (storing v_CloudInits_update (labelled c PoolLabel (ref_Name (cis_PoolRef (Spec c)))) ?V) Q"
      unfolding sum.case l_def [symmetric] CloudInit_setStatusCondition_def
      by (intro ensures_attempt
          cloudInits_field.ensures_becomesTrue [where old = l, OF cooperatesD(1) [OF coop] cooperatesD(11) [OF coop]] cooperatesD(9) [OF coop])
        (simp_all add: storing_CloudInits l created, use ready in \<open>simp add: storing_CloudInits l created(1)\<close>)
  qed
  show ?thesis
    unfolding CloudInit_commit_def
    by (intro ensures_andThen VolumeCreate_uploads [OF ob p(1-3)]) (simp_all add: p(4-7) rest)
qed

lemma CloudInit_create_ensures:
  assumes coop: "cooperates view env" and ob: "obeys view (e_xml env) cl" and fs: "filesWork view (e_OS env)" and iso: "isoWorks view (e_iso env)"
    and c: "v_CloudInits V (named c) = Some c" "om_DeletionTimestamp (Meta c) = None" "Finalizer \<in> set (om_Finalizers (Meta c))"
      "\<not> isTrue env c ConditionReady"
    and p: "v_vols V (Pool_ResourceName pool) = Some m" "m (CloudInit_ResourceName c) = None"
    and docs: "cloudInitSourceFiles env (cis_Metadata (Spec c)) (cis_UserData (Spec c)) (cis_NetworkConfig (Spec c)) (cis_VendorData (Spec c)) =
      Inr (files, n)" and x: "describable (e_xml env) (wantedImage (e_cast env) c n)"
    and Q: "\<And>c' cap. readyImage env c pool c' \<Longrightarrow> Q (emptyResult, None)
      (V\<lparr>v_vols := (v_vols V)(Pool_ResourceName pool \<mapsto> m(CloudInit_ResourceName c \<mapsto> (wantedImage (e_cast env) c n)\<lparr>sv_Capacity := cap\<rparr>)),
         v_CloudInits := (v_CloudInits V)(named c \<mapsto> c')\<rparr>)"
  shows "ensures view conns (CloudInit_create env (observed a cl) pool (missingVolume (Pool_ResourceName pool) (CloudInit_ResourceName c)) c) V Q"
proof -
  let ?a = "\<lambda>file. LocalSource (VolumeFormat (VolumeSize_set (missingVolume (Pool_ResourceName pool) (CloudInit_ResourceName c)) ''bytes''
      (ToUint64 (e_cast env) (if n < 2048 then 2048 else n))) ''raw'') file"
  have w: "sv_Name (wantedImage (e_cast env) c n) = CloudInit_ResourceName c" "sv_Capacity (wantedImage (e_cast env) c n) \<noteq> None"
    by (simp_all add: wantedImage_def)
  have "ensures view conns (CloudInit_commit env (observed a cl) pool (?a f) c) V Q" for f
  proof (rule CloudInit_commit_ensures [OF coop ob fs c p(1), where v = "wantedImage (e_cast env) c n"])
    show "va_def (?a f) = wantedImage (e_cast env) c n"
      by (simp add: LocalSource_def VolumeFormat_def VolumeSize_set_def missingVolume_def wantedImage_def emptyStorageVolume_def)
  qed (use p(2) x Q in \<open>simp_all add: w, simp_all add: LocalSource_def VolumeFormat_def VolumeSize_set_def missingVolume_def\<close>)
  then show ?thesis
    unfolding CloudInit_create_def docs sum.case prod.case Let_def
    by (intro ensures_attempt cloudInitCreateISO_ensures [OF fs iso]) simp
qed

section \<open>Reconciliation of a cloud-init image\<close>

definition imageAction :: "Pool \<Rightarrow> CloudInit \<Rightarrow> (string \<rightharpoonup> StorageVolume) \<Rightarrow> VolumeAction" where
  "imageAction p c m = (case m (CloudInit_ResourceName c) of
        None \<Rightarrow> missingVolume (Pool_ResourceName p) (CloudInit_ResourceName c)
      | Some i \<Rightarrow> foundVolume (Pool_ResourceName p) (CloudInit_ResourceName c) i)"

lemma CloudInit_Reconcile_ensures:
  assumes coop: "cooperates view env" and r: "imageReachable view env conns V ci pool m"
    and d: "\<And>v. m (CloudInit_ResourceName ci) = Some v \<Longrightarrow> describable (e_xml env) v"
    and k: "\<And>a cl. obeys view (e_xml env) cl \<Longrightarrow> ensures view conns (withFinalizer env (CloudInits env) ci
      (CloudInit_finalize env (observed a cl) (imageAction pool ci m) ci) (\<lambda>c.
      if VolumeState (imageAction pool ci m) then CloudInit_existing env pool c
      else CloudInit_create env (observed a cl) pool (imageAction pool ci m) c)) V Q"
  shows "ensures view conns (CloudInit_Reconcile env (named ci)) V Q"
proof -
  from r obtain host e where h: "v_CloudInits V (named ci) = Some ci" "v_Pools V (CloudInit_PoolRef ci) = Some pool"
    "isTrue env pool ConditionReady" "v_Hosts V (Pool_HostRef pool) = Some host" "conns (om_UID (Meta host)) = Some e"
    "obeys view (e_xml env) (he_client e)" "v_vols V (Pool_ResourceName pool) = Some m" "v_up V"
    by (auto simp: imageReachable_def)
  have "ensures view conns (CloudInit_withAction env ci pool (observed (he_addr e) (he_client e))) V Q"
    unfolding CloudInit_withAction_def
    by (intro ensures_attempt ensures_NewVolumeAction [OF h(6,7)])
      (use d k [OF h(6)] in \<open>auto simp: imageAction_def\<close>)
  then show ?thesis
    unfolding CloudInit_Reconcile_def getRequested_def
    by (intro ensures_attempt ensures_apiGet [OF cooperatesD(6) [OF coop] h(1)], simp only: sum.case)
      (rule ensures_withPool [where k = "CloudInit_withAction env ci" and pool = pool and host = host and e = e and x = "e_xml env"
          and conns = conns and V = V, OF coop h(2,4,3,5,6,8)])
qed

lemma image_creation_ensures:
  assumes coop: "cooperates view env" and r: "imageReachable view env conns V ci pool m"
    and fs: "filesWork view (e_OS env)" and iso: "isoWorks view (e_iso env)"
    and new: "om_DeletionTimestamp (Meta ci) = None" "m (CloudInit_ResourceName ci) = None" "\<not> isTrue env ci ConditionReady"
    and docs: "cloudInitSourceFiles env (cis_Metadata (Spec ci)) (cis_UserData (Spec ci)) (cis_NetworkConfig (Spec ci)) (cis_VendorData (Spec ci)) =
      Inr (files, n)" and x: "describable (e_xml env) (wantedImage (e_cast env) ci n)"
  shows "ensures view conns (CloudInit_Reconcile env (named ci)) V (\<lambda>r V'. r = (emptyResult, None) \<and> (\<exists>c cap. readyImage env ci pool c \<and>
      V' = V\<lparr>v_vols := (v_vols V)(Pool_ResourceName pool \<mapsto> m(CloudInit_ResourceName ci \<mapsto> (wantedImage (e_cast env) ci n)\<lparr>sv_Capacity := cap\<rparr>)),
         v_CloudInits := (v_CloudInits V)(named ci \<mapsto> c)\<rparr>))"
proof (rule CloudInit_Reconcile_ensures [OF coop r])
  fix a cl assume ob: "obeys view (e_xml env) cl"
  let ?f = "finalized ci" and ?V = "storing v_CloudInits_update (finalized ci) V"
  let ?Q = "\<lambda>r V'. r = (emptyResult, None) \<and> (\<exists>c cap. readyImage env ci pool c \<and>
      V' = V\<lparr>v_vols := (v_vols V)(Pool_ResourceName pool \<mapsto> m(CloudInit_ResourceName ci \<mapsto> (wantedImage (e_cast env) ci n)\<lparr>sv_Capacity := cap\<rparr>)),
         v_CloudInits := (v_CloudInits V)(named ci \<mapsto> c)\<rparr>)"
  note s = r [unfolded imageReachable_def, THEN conjunct1]
  have same: "CloudInit_ResourceName ?f = CloudInit_ResourceName ci" "wantedImage (e_cast env) ?f n = wantedImage (e_cast env) ci n"
    "readyImage env ?f pool c' = readyImage env ci pool c'" for c'
    by (simp_all add: finalized_simps CloudInit_ResourceName_def wantedImage_def readyImage_def)
  have act: "imageAction pool ci m = missingVolume (Pool_ResourceName pool) (CloudInit_ResourceName ?f)"
    by (simp add: imageAction_def new(2) same(1))
  have "ensures view conns (CloudInit_create env (observed a cl) pool (imageAction pool ci m) ?f) ?V ?Q"
    unfolding act
  proof (rule CloudInit_create_ensures [OF coop ob fs iso, where m = m and n = n and files = files])
    show "v_CloudInits ?V (named ?f) = Some ?f" by (simp add: storing_CloudInits)
    show "v_vols ?V (Pool_ResourceName pool) = Some m" using r by (simp add: storing_CloudInits imageReachable_def)
  qed (use new docs x in \<open>auto simp: finalized_simps same storing_CloudInits intro!: exI\<close>)
  then show "ensures view conns (withFinalizer env (CloudInits env) ci
      (CloudInit_finalize env (observed a cl) (imageAction pool ci m) ci) (\<lambda>c.
      if VolumeState (imageAction pool ci m) then CloudInit_existing env pool c
      else CloudInit_create env (observed a cl) pool (imageAction pool ci m) c)) V ?Q"
    unfolding withFinalizer_def if_P [OF new(1)]
    by (intro ensures_attempt cloudInits_field.ensures_addFinalizer [OF cooperatesD(1) [OF coop] cooperatesD(11) [OF coop] s new(1)])
      (simp only: act sum.case VolumeState_actions if_False)
qed (use new in simp)

lemma image_settled_ensures:
  assumes coop: "cooperates view env" and r: "imageReachable view env conns V ci pool m"
    and there: "m (CloudInit_ResourceName ci) = Some v" "describable (e_xml env) v"
    and ci: "om_DeletionTimestamp (Meta ci) = None" "Finalizer \<in> set (om_Finalizers (Meta ci))" "isTrue env ci ConditionReady"
  shows "ensures view conns (CloudInit_Reconcile env (named ci)) V (\<lambda>r V'. r = (emptyResult, None) \<and> V' = V)"
proof (rule CloudInit_Reconcile_ensures [OF coop r])
  fix a cl
  let ?Q = "\<lambda>r V'. r = (emptyResult, None) \<and> V' = V"
  note s = r [unfolded imageReachable_def, THEN conjunct1]
  have f: "finalized ci = ci" by (simp add: finalized_def ci(2))
  show "ensures view conns (withFinalizer env (CloudInits env) ci
      (CloudInit_finalize env (observed a cl) (imageAction pool ci m) ci) (\<lambda>c.
      if VolumeState (imageAction pool ci m) then CloudInit_existing env pool c
      else CloudInit_create env (observed a cl) pool (imageAction pool ci m) c)) V ?Q"
    unfolding withFinalizer_def if_P [OF ci(1)]
    by (intro ensures_attempt cloudInits_field.ensures_addFinalizer [OF cooperatesD(1) [OF coop] cooperatesD(11) [OF coop] s ci(1)])
      (simp add: f cloudInits_field.storing_same [OF s] imageAction_def there(1) CloudInit_existing_def ci(3) ensures_ret)
qed (use there in simp)

definition unusedImage :: "'w env \<Rightarrow> surroundings \<Rightarrow> CloudInit \<Rightarrow> bool" where
  "unusedImage env V ci \<longleftrightarrow> (\<exists>req. NewRequirement (e_api env) CloudInitLabel (om_Name (Meta ci)) = Inr req \<and>
     (\<forall>d\<in>ran (v_Domains V). \<not> carries d req))"

lemma image_deletion_ensures:
  assumes coop: "cooperates view env" and r: "imageReachable view env conns V ci pool m"
    and d: "om_DeletionTimestamp (Meta ci) \<noteq> None" "om_Finalizers (Meta ci) = [Finalizer]" "unusedImage env V ci"
      "\<And>v. m (CloudInit_ResourceName ci) = Some v \<Longrightarrow> describable (e_xml env) v"
  shows "ensures view conns (CloudInit_Reconcile env (named ci)) V (\<lambda>r V'. r = (emptyResult, None) \<and>
      V' = V\<lparr>v_vols := (v_vols V)(Pool_ResourceName pool \<mapsto> m(CloudInit_ResourceName ci := None)),
         v_CloudInits := (v_CloudInits V)(named ci := None)\<rparr>)"
proof (rule CloudInit_Reconcile_ensures [OF coop r d(4)])
  fix a cl assume ob: "obeys view (e_xml env) cl"
  let ?n = "CloudInit_ResourceName ci" and ?p = "Pool_ResourceName pool"
  let ?Q = "\<lambda>r V'. r = (emptyResult, None) \<and> V' = V\<lparr>v_vols := (v_vols V)(?p \<mapsto> m(?n := None)),
         v_CloudInits := (v_CloudInits V)(named ci := None)\<rparr>"
  let ?V = "V\<lparr>v_vols := (v_vols V)(?p \<mapsto> m(?n := None))\<rparr>"
  have s: "v_CloudInits V (named ci) = Some ci" "v_vols V ?p = Some m" using r by (simp_all add: imageReachable_def)
  from d(3) obtain req where req: "NewRequirement (e_api env) CloudInitLabel (om_Name (Meta ci)) = Inr req"
    "{d \<in> ran (v_Domains V). carries d req} = {}"
    unfolding unusedImage_def by blast
  have fin: "ensures view conns (removeFinalizer env (CloudInits env) ci) ?V ?Q"
    unfolding removeFinalizer_def finish_def
    by (intro ensures_attempt cloudInits_field.ensures_vanish [OF cooperatesD(11) [OF coop], where obj = ci])
      (use s d(1,2) in \<open>simp_all add: apimachinery_okD(3) [OF cooperatesD(1) [OF coop]] named_def vanishes_def ensures_ret\<close>)
  have "ensures view conns (CloudInit_finalize env (observed a cl) (imageAction pool ci m) ci) V ?Q"
  proof (cases "m ?n")
    case None
    then have "?V = V" using s(2) by (simp add: fun_upd_idem)
    with fin show ?thesis by (simp add: CloudInit_finalize_def imageAction_def None)
  next
    case (Some v)
    have "ensures view conns (guarded (VolumeDelete (observed a cl) (foundVolume ?p ?n v)) fail (removeFinalizer env (CloudInits env) ci)) V ?Q"
      unfolding VolumeDelete_def
      by (intro ensures_guarded ensures_deref [where x = "handleOf ?p ?n v"] ensures_deleteVolume [OF ob s(2) Some])
        (simp_all add: foundVolume_def fin)
    then show ?thesis
      unfolding CloudInit_finalize_def imageAction_def Some option.case withRequirement_def req(1) sum.case
      by (simp only: VolumeState_actions if_True, intro ensures_attempt ensures_apiList [OF cooperatesD(8) [OF coop]])
        (simp add: req(2))
  qed
  then show "ensures view conns (withFinalizer env (CloudInits env) ci
      (CloudInit_finalize env (observed a cl) (imageAction pool ci m) ci) (\<lambda>c.
      if VolumeState (imageAction pool ci m) then CloudInit_existing env pool c
      else CloudInit_create env (observed a cl) pool (imageAction pool ci m) c)) V ?Q"
    unfolding withFinalizer_def if_not_P [OF d(1)]
    by (simp only: apimachinery_okD(2) [OF cooperatesD(1) [OF coop]] d(2) list.set insert_iff if_True simp_thms)
qed

section \<open>Volumes with a URL\<close>

text \<open>The server answers a request for the URL with \<open>body\<close>, which is what the checksum names, if there is one.\<close>

definition served :: "('w \<Rightarrow> 'v) \<Rightarrow> 'w OS \<Rightarrow> VolumeSource \<Rightarrow> bytes \<Rightarrow> bool" where
  "served view os src body \<longleftrightarrow> works view (http_NewRequest os (vsrc_URL src)) \<and>
     (\<forall>w. \<exists>resp w'. http_Do os (vsrc_URL src) w = (Returns (Inr resp), w') \<and> view w' = view w \<and> hr_Body resp = Inr body) \<and>
     (\<forall>cs. vsrc_Checksum src = Some cs \<longrightarrow> checksumMatches os cs body)"

lemma verifyChecksum_ensures:
  assumes "filesWork view os" and "checksumMatches os cs (of_Content f)" and "Q None V"
  shows "ensures view conns (verifyChecksum (liftOS os) f cs) V Q"
proof -
  from assms(2) obtain alg digest more where c: "strings_Split (CHR '':'') (strings_ToLower cs) = alg # digest # more"
    and d: "alg = ''sha256'' \<and> digest = hex_EncodeToString (sha256 os (of_Content f)) \<or>
      alg = ''sha512'' \<and> digest = hex_EncodeToString (sha512 os (of_Content f))"
    by (auto simp: checksumMatches_def split: list.splits)
  from d obtain h where h: "map_of [(''sha256'', sha256 os), (''sha512'', sha512 os)] alg = Some h"
    "digest = hex_EncodeToString (h (of_Content f))" by auto
  have "\<not> length (alg # digest # more) < 2" by simp
  then show ?thesis
    unfolding verifyChecksum_def Let_def c liftOS_select nth_Cons_0 h(1) option.case
    by (intro ensures_guarded ensures_works filesWorkD [OF assms(1)], simp only: option.case)
      (intro ensures_guarded ensures_works filesWorkD [OF assms(1)], simp add: h(2) ensures_ret assms(3))
qed

lemma RemoteSource_ensures:
  assumes "filesWork view os" and "served view os src body"
    and "\<And>f cap. Q (None, action\<lparr>va_source := Some f, va_def := (va_def action)\<lparr>sv_Capacity := Some cap\<rparr>\<rparr>) V"
  shows "ensures view conns (RemoteSource sc (liftOS os) action (vsrc_URL src) (vsrc_Checksum src)) V Q"
proof -
  have s: "works view (http_NewRequest os (vsrc_URL src))"
    "\<And>w. \<exists>resp w'. http_Do os (vsrc_URL src) w = (Returns (Inr resp), w') \<and> view w' = view w \<and> hr_Body resp = Inr body"
    "\<And>cs. vsrc_Checksum src = Some cs \<Longrightarrow> checksumMatches os cs body"
    using assms(2) by (simp_all add: served_def)
  have respond: "ensures view conns (unlogged (http_Do os (vsrc_URL src))) V (\<lambda>r V'. V' = V \<and> (\<exists>resp. r = Inr resp \<and> hr_Body resp = Inr body))"
    unfolding unlogged_def
  proof (rule ensures_called)
    fix w assume "view w = V"
    with s(2) [of w] show "\<exists>r w'. http_Do os (vsrc_URL src) w = (Returns r, w') \<and> view w' = V \<and> (\<exists>resp. r = Inr resp \<and> hr_Body resp = Inr body)"
      by fastforce
  qed
  have done_: "Q (None, a) V" if "a = action\<lparr>va_source := Some f, va_def := (va_def action)\<lparr>sv_Capacity := Some cap\<rparr>\<rparr>" for a f cap
    using assms(3) that by simp
  have check: "ensures view conns (case vsrc_Checksum src of None \<Rightarrow> ret None | Some cs \<Rightarrow> verifyChecksum (liftOS os) f cs) V R"
    if "of_Content f = body" "R None V" for f R
    using that s(3) by (auto intro!: ensures_ret verifyChecksum_ensures [OF assms(1)] split: option.split)
  have sized: "ensures view conns (if sv_Capacity (va_def a) = None then ret (None, VolumeSize_set a '''' n) else ret (None, a)) V Q"
    if "a = action\<lparr>va_source := Some f\<rparr>" for a f n
  proof (cases "sv_Capacity (va_def action)")
    case None
    then show ?thesis using that by (simp add: VolumeSize_set_def ensures_ret done_)
  next
    case (Some cap)
    then have "(va_def action)\<lparr>sv_Capacity := Some cap\<rparr> = va_def action" by (cases "va_def action") simp
    then have "a = action\<lparr>va_source := Some f, va_def := (va_def action)\<lparr>sv_Capacity := Some cap\<rparr>\<rparr>"
      using that by (cases action) simp
    from done_ [OF this] show ?thesis using that Some by (simp add: ensures_ret)
  qed
  have fetched: "ensures view conns (attempt (os_CreateTemp (liftOS os) ''volume-source'') (\<lambda>err. ret (Some err, action\<lparr>va_source := None\<rparr>)) (\<lambda>name.
     let a = action\<lparr>va_source := Some \<lparr>of_Name = name, of_Content = [], of_Offset = 0\<rparr>\<rparr> in
     case hr_Body resp of
       Inl err \<Rightarrow> ret (Some err, a)
     | Inr body \<Rightarrow>
         guarded (os_Write (liftOS os) name body) (\<lambda>err. ret (Some err, a)) (
         let file = \<lparr>of_Name = name, of_Content = body, of_Offset = length body\<rparr>;
             a = a\<lparr>va_source := Some file\<rparr> in
         guarded (case vsrc_Checksum src of None \<Rightarrow> ret None | Some cs \<Rightarrow> verifyChecksum (liftOS os) file cs)
           (\<lambda>err. ret (Some err, a)) (
         guarded (os_Seek (liftOS os) name) (\<lambda>err. ret (Some err, a)) (
         let a = a\<lparr>va_source := Some (file\<lparr>of_Offset := 0\<rparr>)\<rparr> in
         if sv_Capacity (va_def a) = None
         then ret (None, VolumeSize_set a '''' (ToUint64 sc (hr_ContentLength resp)))
         else ret (None, a)))))) V Q" if "hr_Body resp = Inr body" for resp
    unfolding that Let_def liftOS_select
    by (intro ensures_attempt ensures_supplies filesWorkD [OF assms(1)], simp only: sum.case)
      (intro ensures_guarded ensures_works filesWorkD [OF assms(1)], simp only: option.case,
       intro ensures_guarded check, simp, simp only: option.case,
       intro ensures_guarded ensures_works filesWorkD [OF assms(1)], simp only: option.case, rule sized, simp)
  show ?thesis
    unfolding RemoteSource_def liftOS_select(7,8)
    by (intro ensures_guarded ensures_works s(1), simp only: option.case)
      (intro ensures_attempt ensures_mono [OF respond], elim conjE exE, hypsubst, simp (no_asm) only: sum.case, rule fetched)
qed

lemma Volume_commit_fills:
  assumes coop: "cooperates view env" and ob: "obeys view (e_xml env) cl" and fs: "filesWork view (e_OS env)"
    and v: "v_Volumes V (named v) = Some v" "om_DeletionTimestamp (Meta v) = None" "Finalizer \<in> set (om_Finalizers (Meta v))"
      "\<not> isTrue env v ConditionReady"
    and p: "v_vols V (Pool_ResourceName pool) = Some m" "va_pool action = \<lparr>lsp_Name = Pool_ResourceName pool\<rparr>"
      "va_source action = Some f" "va_def action = d" "m (sv_Name d) = None" "describable (e_xml env) d" "sv_Capacity d \<noteq> None"
    and Q: "\<And>v' cap. readyVolume env v pool v' \<Longrightarrow> label_of (Meta v') PoolLabel = Some (ref_Name (vsp_PoolRef (Spec v))) \<Longrightarrow>
      Q None (V\<lparr>v_vols := (v_vols V)(Pool_ResourceName pool \<mapsto> m(sv_Name d \<mapsto> d\<lparr>sv_Capacity := cap\<rparr>)),
         v_Volumes := (v_Volumes V)(named v \<mapsto> v')\<rparr>)"
  shows "ensures view conns (Volume_commit env (observed a cl) pool True action v) V Q"
proof -
  define l where "l = labelled v PoolLabel (ref_Name (vsp_PoolRef (Spec v)))"
  have l: "named l = named v" "Spec l = Spec v" "Status l = Status v" "om_DeletionTimestamp (Meta l) = None"
    "Finalizer \<in> set (om_Finalizers (Meta l))" "\<not> isTrue env l ConditionReady"
    "label_of (Meta l) PoolLabel = Some (ref_Name (vsp_PoolRef (Spec v)))"
    using v(2-4) by (simp_all add: l_def isTrue_def)
  have created: "named (Volume_created l pool) = named v" "Meta (Volume_created l pool) = Meta l"
    "Spec (Volume_created l pool) = Spec v" "\<not> isTrue env (Volume_created l pool) ConditionReady"
    using l(6) by (simp_all add: Volume_created_def named_def isTrue_def l(2) l(1) [unfolded named_def])
  let ?V = "\<lambda>cap. V\<lparr>v_vols := (v_vols V)(Pool_ResourceName pool \<mapsto> m(sv_Name d \<mapsto> d\<lparr>sv_Capacity := cap\<rparr>)),
      v_Volumes := (v_Volumes V)(named v \<mapsto> l)\<rparr>"
  have ready: "Q None (storing v_Volumes_update v' (?V cap))"
    if "v' = (Volume_created l pool)\<lparr>Status := (Status (Volume_created l pool))\<lparr>Conditions := cs\<rparr>\<rparr>"
      "isTrue env v' ConditionReady" for v' cs cap
  proof -
    have "readyVolume env v pool v'" "label_of (Meta v') PoolLabel = Some (ref_Name (vsp_PoolRef (Spec v)))"
      using that l by (auto simp: readyVolume_def Volume_created_def named_def)
    from Q [OF this, of cap] show ?thesis using that(1) created(1) by (simp add: storing_Volumes)
  qed
  have status: "ensures view conns (andThen (if True then CleanupSource (liftOS (e_OS env)) action' else ret None) (\<lambda>_.
      attempt (Volume_setStatusCondition env (Volume_created l pool) ConditionReady ConditionTrue
        conditionCreationSucceeded ConditionCreated) (\<lambda>err. ret (Some err)) (\<lambda>_. ret None))) (?V cap) Q"
    if "va_source action' = Some f" for action' cap
    unfolding Volume_setStatusCondition_def if_True
    by (intro ensures_andThen CleanupSource_ensures [OF fs that] ensures_attempt
        volumes_field.ensures_becomesTrue [where old = l, OF cooperatesD(1) [OF coop] cooperatesD(7) [OF coop]] cooperatesD(9) [OF coop])
      (simp_all add: l created, simp add: ready ensures_ret)
  have "ensures view conns (andThen (VolumeCreate (e_xml env) (observed a cl) action) (\<lambda>(r, action).
       case r of Some err \<Rightarrow> failing env l ConditionError err
       | None \<Rightarrow> andThen (if True then CleanupSource (liftOS (e_OS env)) action else ret None) (\<lambda>_.
          attempt (Volume_setStatusCondition env (Volume_created l pool) ConditionReady ConditionTrue
            conditionCreationSucceeded ConditionCreated) (\<lambda>err. ret (Some err)) (\<lambda>_. ret None))))
       (storing v_Volumes_update l V) Q"
  proof (intro ensures_andThen VolumeCreate_uploads [where m = m, OF ob _ p(2,3)], goal_cases)
    case (5 action' cap)
    have "storing v_Volumes_update l V\<lparr>v_vols := (v_vols (storing v_Volumes_update l V))(Pool_ResourceName pool \<mapsto>
        m(sv_Name (va_def action) \<mapsto> (va_def action)\<lparr>sv_Capacity := cap\<rparr>))\<rparr> = ?V cap"
      by (cases V) (simp add: storing_Volumes l(1) p(4))
    with status [OF 5] show ?case by (simp only: prod.case option.case)
  next
    case 1
    show ?case by (simp add: storing_Volumes p(1))
  qed (simp_all add: p)
  then show ?thesis
    unfolding Volume_commit_def
    by (intro ensures_attempt volumes_field.ensures_SetLabelOn [OF cooperatesD(7) [OF coop] v(1,2)])
      (simp only: l_def [symmetric] sum.case)
qed

lemma download_ensures:
  assumes coop: "cooperates view env" and r: "reachable view env conns V volume pool m"
    and fs: "filesWork view (e_OS env)" and src: "vsp_Source (Spec volume) = Some src" "served view (e_OS env) src body"
    and new: "om_DeletionTimestamp (Meta volume) = None" "m (Volume_ResourceName volume) = None" "\<not> isTrue env volume ConditionReady"
    and x: "\<And>cap. describable (e_xml env) ((wantedVolume (e_cast env) volume None)\<lparr>sv_Capacity := cap\<rparr>)"
  shows "ensures view conns (Volume_Reconcile env (named volume)) V (\<lambda>r V'. r = (emptyResult, None) \<and> (\<exists>v cap. readyVolume env volume pool v \<and>
      label_of (Meta v) PoolLabel = Some (ref_Name (vsp_PoolRef (Spec volume))) \<and>
      V' = V\<lparr>v_vols := (v_vols V)(Pool_ResourceName pool \<mapsto> m(Volume_ResourceName volume \<mapsto>
           (wantedVolume (e_cast env) volume None)\<lparr>sv_Capacity := cap\<rparr>)),
         v_Volumes := (v_Volumes V)(named volume \<mapsto> v)\<rparr>))"
proof (rule Volume_Reconcile_ensures [OF coop r])
  fix a cl assume ob: "obeys view (e_xml env) cl"
  let ?f = "finalized volume" and ?V = "storing v_Volumes_update (finalized volume) V" and ?w = "wantedVolume (e_cast env) volume None"
  let ?p = "Pool_ResourceName pool" and ?n = "Volume_ResourceName volume"
  let ?Q = "\<lambda>r V'. r = (emptyResult, None) \<and> (\<exists>v cap. readyVolume env volume pool v \<and>
      label_of (Meta v) PoolLabel = Some (ref_Name (vsp_PoolRef (Spec volume))) \<and>
      V' = V\<lparr>v_vols := (v_vols V)(?p \<mapsto> m(?n \<mapsto> ?w\<lparr>sv_Capacity := cap\<rparr>)), v_Volumes := (v_Volumes V)(named volume \<mapsto> v)\<rparr>)"
  note v = r [unfolded reachable_def, THEN conjunct1]
  have f: "named ?f = named volume" "Spec ?f = Spec volume" "om_DeletionTimestamp (Meta ?f) = None" "Finalizer \<in> set (om_Finalizers (Meta ?f))"
    "\<not> isTrue env ?f ConditionReady" "readyVolume env ?f pool v' = readyVolume env volume pool v'" for v'
    using new by (simp_all add: finalized_simps readyVolume_def)
  have act: "actionOn pool volume m = missingVolume ?p ?n" by (simp add: actionOn_def new(2))
  let ?a = "VolumeFormat (case vsp_Size (Spec volume) of None \<Rightarrow> missingVolume ?p ?n
      | Some sz \<Rightarrow> VolumeSize_set (missingVolume ?p ?n) (vs_Unit sz) (ToUint64 (e_cast env) (vs_Value sz))) (vsp_Format (Spec volume))"
  have def_: "va_def ?a = ?w" "va_pool ?a = \<lparr>lsp_Name = ?p\<rparr>"
    by (simp_all add: wantedVolume_def VolumeFormat_def VolumeSize_set_def missingVolume_def emptyStorageVolume_def split: option.split)
  have "ensures view conns (Volume_commit env (observed a cl) pool True
      (?a\<lparr>va_source := Some fl, va_def := (va_def ?a)\<lparr>sv_Capacity := Some cap\<rparr>\<rparr>) ?f) ?V (\<lambda>r V'. r = None \<and> ?Q (emptyResult, None) V')" for fl cap
  proof (rule Volume_commit_fills [OF coop ob fs _ f(3,4,5), where d = "?w\<lparr>sv_Capacity := Some cap\<rparr>" and m = m and f = fl])
    fix v' cap' assume v': "readyVolume env ?f pool v'" "label_of (Meta v') PoolLabel = Some (ref_Name (vsp_PoolRef (Spec ?f)))"
    have n: "sv_Name ?w = ?n" by (simp add: wantedVolume_def)
    show "None = None \<and> ?Q (emptyResult, None) (?V\<lparr>v_vols := (v_vols ?V)(?p \<mapsto> m(sv_Name (?w\<lparr>sv_Capacity := Some cap\<rparr>) \<mapsto>
        ?w\<lparr>sv_Capacity := Some cap\<rparr>\<lparr>sv_Capacity := cap'\<rparr>)), v_Volumes := (v_Volumes ?V)(named ?f \<mapsto> v')\<rparr>)"
      using v' by (auto simp: f n storing_Volumes intro!: exI [of _ v'] exI [of _ cap'])
  next
    show "v_vols ?V ?p = Some m" using r by (simp add: storing_Volumes reachable_def)
  qed (use def_ x new(2) in \<open>simp_all add: storing_Volumes f(1) wantedVolume_def\<close>)
  then have "ensures view conns (Volume_create env (observed a cl) pool (missingVolume ?p ?n) ?f) ?V (\<lambda>r V'. r = None \<and> ?Q (emptyResult, None) V')"
    unfolding Volume_create_def Let_def f(2) src(1) option.case
    by (intro ensures_andThen RemoteSource_ensures [OF fs src(2)]) simp
  then have "ensures view conns (Volume_manage env pool (observed a cl) (actionOn pool volume m) ?f) ?V ?Q"
    unfolding Volume_manage_def
    by (simp only: act VolumeState_actions if_False, intro ensures_guarded) (erule ensures_mono, auto intro: ensures_ret)
  then show "ensures view conns (withFinalizer env (Volumes env) volume (Volume_finalize env (observed a cl) (actionOn pool volume m) volume)
      (Volume_manage env pool (observed a cl) (actionOn pool volume m))) V ?Q"
    unfolding withFinalizer_def if_P [OF new(1)]
    by (intro ensures_attempt volumes_field.ensures_addFinalizer [OF cooperatesD(1) [OF coop] cooperatesD(7) [OF coop] v new(1)])
      (simp only: sum.case)
qed (use new in simp)

section \<open>Properties\<close>


text \<open>C21: Where the outside cooperates, one reconciliation of a cloud-init object that is being deleted and that no domain refers
  to returns without an error; the image is gone from the daemon, whether it was there or not, the object from the API
  server, and everything else is as it was.\<close>

theorem CloudInit_Reconcile_deletes:
  assumes coop: "cooperates view env" and r: "imageReachable view env (hs_entries s) (view (w_ext s)) ci pool m"
    and d: "om_DeletionTimestamp (Meta ci) \<noteq> None" "om_Finalizers (Meta ci) = [Finalizer]" "unusedImage env (view (w_ext s)) ci"
    and "\<And>v. m (CloudInit_ResourceName ci) = Some v \<Longrightarrow> describable (e_xml env) v"
  shows "\<exists>s'. CloudInit_Reconcile env (named ci) s = (Returns (emptyResult, None), s') \<and>
    view (w_ext s') = (view (w_ext s))\<lparr>
      v_vols := (v_vols (view (w_ext s)))(Pool_ResourceName pool \<mapsto> m(CloudInit_ResourceName ci := None)),
      v_CloudInits := (v_CloudInits (view (w_ext s)))(named ci := None)\<rparr>"
  using ensuresD [OF image_deletion_ensures [OF assms] refl refl] by blast


end
