(* ===== verification/DomainProgress.thy ===== *)
theory DomainProgress
  imports Progress DomainDisks
begin

text \<open>
  What a reconciliation of a domain achieves where the outside cooperates: a domain that is not there is defined
  exactly as its spec says, started unless the spec says otherwise, and reported ready; one that is there
  is brought into the state the spec asks for; one that is deleted is shut down and gone.
\<close>

section \<open>Domains of a daemon\<close>

definition describableDomain :: "xmlcodec \<Rightarrow> DomainXML \<Rightarrow> bool" where
  "describableDomain x d \<longleftrightarrow> (\<exists>xml. dom_Marshal x d = Inr xml \<and> dom_Unmarshal x xml = Inr d)"

definition foundDomain :: "string \<Rightarrow> u32 \<Rightarrow> DomainXML \<Rightarrow> DomainAction" where
  "foundDomain n st d = \<lparr>da_name = n, da_id = Some \<lparr>ld_Name = n\<rparr>, da_def = d, da_state = st\<rparr>"

definition building :: "string \<Rightarrow> DomainXML \<Rightarrow> DomainAction" where
  "building n d = \<lparr>da_name = n, da_id = None, da_def = d, da_state = 0\<rparr>"

lemma ensures_NewDomainAction:
  assumes "obeys view x cl"
    and "\<And>st d. v_doms V n = Some (st, d) \<Longrightarrow> describableDomain x d \<and> Q (Inr (foundDomain n st d)) V"
    and "v_doms V n = None \<Longrightarrow> Q (Inr (building n (newDomainDef n))) V"
  shows "ensures view conns (NewDomainAction x (observed a cl) n) V Q"
proof (cases "v_doms V n")
  case None
  have "ensures view conns (DomainLookupByName (observed a cl) n) V (\<lambda>r V'. V' = V \<and> (\<exists>err. r = Inl err \<and> isCode ErrNoDomain err))"
    unfolding observed_select
  proof (rule ensures_called)
    fix w assume "view w = V"
    with domain_host.missing [OF obeysD(2) [OF assms(1)], of w n] None
    show "\<exists>r w'. DomainLookupByName cl n w = (Returns r, w') \<and> view w' = V \<and> (\<exists>err. r = Inl err \<and> isCode ErrNoDomain err)" by auto
  qed
  then show ?thesis
    unfolding NewDomainAction_def
    by (intro ensures_attempt) (erule ensures_mono, auto intro!: ensures_ret assms(3) [OF None, unfolded building_def])
next
  case (Some p)
  obtain st d where p: "p = (st, d)" by fastforce
  note here = Some [unfolded p]
  from assms(2) [OF here] obtain xml where d: "dom_Marshal x d = Inr xml" "dom_Unmarshal x xml = Inr d"
    "Q (Inr (foundDomain n st d)) V"
    by (auto simp: describableDomain_def)
  have look: "ensures view conns (DomainLookupByName (observed a cl) n) V R" if "R (Inr \<lparr>ld_Name = n\<rparr>) V" for R
    unfolding observed_select
    by (rule ensures_asked [where x = "Inr \<lparr>ld_Name = n\<rparr>"])
      (use domain_host.lookup [OF obeysD(2) [OF assms(1)]] here that in auto)
  have state: "ensures view conns (DomainGetState (observed a cl) \<lparr>ld_Name = n\<rparr> 0) V R" if "\<And>rs. R (Inr (st, rs)) V" for R
    unfolding observed_select
  proof (rule ensures_called)
    fix w assume "view w = V"
    with domain_host.state [OF obeysD(2) [OF assms(1)], of w n st d 0] here that
    show "\<exists>r w'. DomainGetState cl \<lparr>ld_Name = n\<rparr> 0 w = (Returns r, w') \<and> R r (view w')" by auto
  qed
  have desc: "ensures view conns (DomainGetXMLDesc (observed a cl) \<lparr>ld_Name = n\<rparr> 0) V R" if "R (Inr xml) V" for R
    unfolding observed_select
    by (rule ensures_asked [where x = "Inr xml"])
      (use domain_host.describe [OF obeysD(2) [OF assms(1)]] here d(1) that in auto)
  show ?thesis
    unfolding NewDomainAction_def
    by (intro ensures_attempt look state desc ensures_ret | simp add: d(2))+ (use d(3) in \<open>simp add: foundDomain_def\<close>)
qed

text \<open>Calls that change a domain.\<close>

lemma ensures_domCall:
  assumes "\<And>w. view w = V \<Longrightarrow> \<exists>w'. m w = (Returns x, w') \<and> v_doms (view w') = doms"
    and "moves (same (\<lambda>w. withoutDoms (view w))) m" and "Q x (V\<lparr>v_doms := doms\<rparr>)"
  shows "ensures view conns (called ev m) V Q"
proof (rule ensures_called)
  fix w assume w: "view w = V"
  from assms(1) [OF this] obtain w' where w': "m w = (Returns x, w')" "v_doms (view w') = doms" by blast
  have "view w' = V\<lparr>v_doms := doms\<rparr>"
    by (rule withoutDoms_eq [OF _ w'(2)]) (use movesD [OF assms(2) w'(1)] w in \<open>simp add: same_def\<close>)
  with w'(1) assms(3) show "\<exists>x w'. m w = (Returns x, w') \<and> Q x (view w')" by auto
qed

lemma ensures_defineDomain:
  assumes "obeys view x cl" and "dom_Unmarshal x xml = Inr d" and "v_doms V (dom_Name d) = None"
    and "Q (Inr \<lparr>ld_Name = dom_Name d\<rparr>) (V\<lparr>v_doms := (v_doms V)(dom_Name d \<mapsto> (DomainShutoff, d))\<rparr>)"
  shows "ensures view conns (DomainDefineXML (observed a cl) xml) V Q"
  unfolding observed_select
  by (rule ensures_domCall [where x = "Inr \<lparr>ld_Name = dom_Name d\<rparr>" and doms = "(v_doms V)(dom_Name d \<mapsto> (DomainShutoff, d))"])
    (use domain_host.defines_ [OF obeysD(2) [OF assms(1)] assms(2)] assms(3) in force, rule obeysD(7) [OF assms(1)], rule assms(4))

lemma ensures_startDomain:
  assumes "obeys view x cl" and "v_doms V n = Some (st, d)" and "st \<noteq> DomainRunning"
    and "Q None (V\<lparr>v_doms := (v_doms V)(n \<mapsto> (DomainRunning, d))\<rparr>)"
  shows "ensures view conns (DomainCreate (observed a cl) \<lparr>ld_Name = n\<rparr>) V Q"
  unfolding observed_select
  by (rule ensures_domCall [where x = "None" and doms = "(v_doms V)(n \<mapsto> (DomainRunning, d))"])
    (use domain_host.starts [OF obeysD(2) [OF assms(1)] _ assms(3)] assms(2) in force, rule obeysD(8) [OF assms(1)], rule assms(4))

lemma ensures_Shutdown:
  assumes "obeys view x cl" and "v_doms V n = Some (st, d)" and "st \<noteq> DomainShutoff" and "da_id action = Some \<lparr>ld_Name = n\<rparr>"
    and "Q None (V\<lparr>v_doms := (v_doms V)(n \<mapsto> (DomainShutoff, d))\<rparr>)"
  shows "ensures view conns (Dom_Shutdown (observed a cl) action) V Q"
proof -
  let ?V = "V\<lparr>v_doms := (v_doms V)(n \<mapsto> (DomainShutoff, d))\<rparr>"
  have stop: "ensures view conns (DomainShutdown (observed a cl) \<lparr>ld_Name = n\<rparr>) V R" if "R None ?V" for R
    unfolding observed_select
    by (rule ensures_domCall [where x = "None" and doms = "(v_doms V)(n \<mapsto> (DomainShutoff, d))"])
      (use domain_host.stops [OF obeysD(2) [OF assms(1)] _ assms(3)] assms(2) in force, rule obeysD(9) [OF assms(1)], rule that)
  have wait: "ensures view conns (andThen (DomainGetState (observed a cl) \<lparr>ld_Name = n\<rparr> 0) (awaitShutoff (observed a cl) \<lparr>ld_Name = n\<rparr> 30)) ?V Q"
    unfolding observed_select
  proof (intro ensures_andThen ensures_called)
    fix w assume w: "view w = ?V"
    with domain_host.state [OF obeysD(2) [OF assms(1)], of w n DomainShutoff d 0] obtain rs where
      "DomainGetState cl \<lparr>ld_Name = n\<rparr> 0 w = (Returns (Inr (DomainShutoff, rs)), w)" by auto
    moreover have "ensures view conns (awaitShutoff (observed a cl) \<lparr>ld_Name = n\<rparr> 30 (Inr (DomainShutoff, rs))) (view w) Q"
      using assms(5) w by (simp add: numeral_eq_Suc ensures_ret)
    ultimately show "\<exists>r w'. DomainGetState cl \<lparr>ld_Name = n\<rparr> 0 w = (Returns r, w') \<and>
        ensures view conns (awaitShutoff (observed a cl) \<lparr>ld_Name = n\<rparr> 30 r) (view w') Q" by blast
  qed
  show ?thesis
    unfolding Dom_Shutdown_def
    by (intro ensures_deref [OF assms(4)] ensures_guarded stop) (simp add: wait)
qed

lemma ensures_Delete:
  assumes "obeys view x cl" and "da_id action = Some \<lparr>ld_Name = n\<rparr>" and "Q None (V\<lparr>v_doms := (v_doms V)(n := None)\<rparr>)"
  shows "ensures view conns (Dom_Delete (observed a cl) action) V Q"
  unfolding Dom_Delete_def observed_select
  by (intro ensures_deref [OF assms(2)] ensures_domCall [where x = None and doms = "(v_doms V)(n := None)"])
    (use domain_host.undefines [OF obeysD(2) [OF assms(1)], of n DomainUndefineNvram] in force, rule obeysD(10) [OF assms(1)], rule assms(3))

section \<open>The specification\<close>

text \<open>
  What a spec refers to, as it was resolved: for each disk the volume and its image, for each interface the network,
  for each PCI device its address, and the cloud-init image. An image is the description of the volume by the daemon,
  with the chain of what is below it.
\<close>

type_synonym image = "StorageVolume \<times> DomainDiskBackingStore option"

record parts =
  p_disks :: "(DomainDisk \<times> Volume \<times> image) list"
  p_interfaces :: "(DomainInterface \<times> Network) list"
  p_pcis :: "(DomainPCIPassthrough \<times> PCIDevice \<times> PCIDeviceAddress) list"
  p_cloudInit :: "(CloudInit \<times> image) option"

text \<open>A disk of the definition: the \<open>k\<close>-th of the domain.\<close>

definition wantedDisk :: "bool \<Rightarrow> string option \<Rightarrow> nat \<Rightarrow> image \<Rightarrow> DomainDiskXML" where
  "wantedDisk ro wwn k img = (case the (imageOf (fst img)) of (format, source) \<Rightarrow>
     \<lparr>dx_Device = ''disk'',
      dx_Driver = Some \<lparr>ddd_Name = ''qemu'', ddd_Type = (if format = ''iso'' then ''raw'' else format),
        ddd_Discard = (if ro then '''' else ''unmap''), ddd_DetectZeros = (if ro then '''' else ''unmap'')\<rparr>,
      dx_Source = Some source, dx_BackingStore = snd img,
      dx_Target = Some \<lparr>ddt_Dev = diskName k, ddt_Bus = ''scsi''\<rparr>, dx_ReadOnly = ro,
      dx_WWN = (case wwn of None \<Rightarrow> '''' | Some w \<Rightarrow> w)\<rparr>)"

fun wantedDisks :: "nat \<Rightarrow> (DomainDisk \<times> Volume \<times> image) list \<Rightarrow> DomainDiskXML list" where
  "wantedDisks k [] = []"
| "wantedDisks k ((disk, volume, img) # ds) = wantedDisk False (dd_WWN disk) k img # wantedDisks (Suc k) ds"

definition wantedInterface :: "safecast \<Rightarrow> DomainInterface \<times> Network \<Rightarrow> DomainInterfaceXML" where
  "wantedInterface sc = (\<lambda>(i, network). \<lparr>dix_DriverName = ''vhost'',
     dix_DriverQueues = (case di_Queues i of None \<Rightarrow> 0 | Some q \<Rightarrow> ToUint sc q), dix_ModelType = ''virtio'',
     dix_SourceNetwork = Network_ResourceName network, dix_MAC = di_MacAddress i\<rparr>)"

definition wantedHostdev :: "safecast \<Rightarrow> DomainPCIPassthrough \<times> PCIDevice \<times> PCIDeviceAddress \<Rightarrow> DomainHostdevPCI" where
  "wantedHostdev sc = (\<lambda>(pci, device, address). \<lparr>dhp_Managed = ''yes'', dhp_DriverName = ''vfio'',
     dhp_Address = \<lparr>dap_Domain = Some (ToUint sc (pa_Domain address)), dap_Bus = Some (ToUint sc (pa_Bus address)),
       dap_Slot = Some (ToUint sc (pa_Slot address)), dap_Function = Some (ToUint sc (pa_Function address))\<rparr>\<rparr>)"

definition wantedCPU :: "DomainSpec \<Rightarrow> DomainCPUXML option" where
  "wantedCPU spec = (case ds_CPU spec of None \<Rightarrow> None
     | Some cpu \<Rightarrow> if dc_Mode cpu = None \<and> dc_CacheMode cpu = None then None
         else Some \<lparr>dcx_Mode = (case dc_Mode cpu of None \<Rightarrow> '''' | Some mode \<Rightarrow> mode), dcx_Cache = dc_CacheMode cpu\<rparr>)"

definition wantedDomain :: "safecast \<Rightarrow> Domain \<Rightarrow> parts \<Rightarrow> DomainXML" where
  "wantedDomain sc domain parts = (let spec = Spec domain in \<lparr>
     dom_Type = ''kvm'',
     dom_Name = Domain_ResourceName domain,
     dom_OS = Some \<lparr>dos_Type = ''hvm'', dos_Machine = ''q35'', dos_BootDevices = [''hd''],
       dos_Firmware = (if ds_UEFI spec = Some True then ''efi'' else ''''),
       dos_LoaderSecure = (if ds_SecureBoot spec = Some False then Some ''no'' else None)\<rparr>,
     dom_Features = [''acpi'', ''apic''],
     dom_VCPU = Some \<lparr>dvx_Value = ToUint sc (dv_Value (ds_VCPU spec)),
       dvx_Placement = (case dv_Placement (ds_VCPU spec) of None \<Rightarrow> '''' | Some p \<Rightarrow> p)\<rparr>,
     dom_Memory = Some \<lparr>dmx_Value = ToUint sc (dm_Value (ds_Memory spec)), dmx_Unit = dm_Unit (ds_Memory spec)\<rparr>,
     dom_CPU = wantedCPU spec,
     dom_NUMATune = ds_NumatuneMode spec,
     dom_Devices = Some \<lparr>
       ddl_Controllers = [\<lparr>dctl_Type = ''scsi'', dctl_Model = ''virtio-scsi'',
         dctl_Driver = Some (map_option (ToUint sc) (ds_SCSIQueues spec))\<rparr>],
       ddl_Disks = wantedDisks 0 (p_disks parts) @ (case p_cloudInit parts of None \<Rightarrow> []
         | Some (ci, img) \<Rightarrow> [wantedDisk True None (length (p_disks parts)) img]),
       ddl_Interfaces = map (wantedInterface sc) (p_interfaces parts),
       ddl_Hostdevs = map (wantedHostdev sc) (p_pcis parts),
       ddl_RNGs = [(''virtio'', ''/dev/urandom'')],
       ddl_Serials = 1,
       ddl_Consoles = [(''pty'', ''virtio'')],
       ddl_Channels = [''org.qemu.guest_agent.0'']\<rparr>,
     dom_SecLabel = [''dynamic'']\<rparr>)"

section \<open>What the spec refers to\<close>

text \<open>
  An image that can be attached: it has a target with a format, is a file or a block device, and has nothing below it or
  a chain of at most \<open>fuel\<close> images, each of them the only volume of the daemon with its key.
\<close>

definition legible :: "xmlcodec \<Rightarrow> surroundings \<Rightarrow> (string \<rightharpoonup> StorageVolume) \<Rightarrow> bool" where
  "legible x V store \<longleftrightarrow> (\<forall>key v. store key = Some v \<longrightarrow> heldAs (v_vols V) key v \<and>
     (\<forall>v'. heldAs (v_vols V) key v' \<longrightarrow> v' = v) \<and> describable x v)"

definition stacked :: "nat \<Rightarrow> xmlcodec \<Rightarrow> surroundings \<Rightarrow> image \<Rightarrow> bool" where
  "stacked fuel x V img \<longleftrightarrow> (case sv_BackingStore (fst img) of None \<Rightarrow> snd img = None
     | Some chain \<Rightarrow> (\<exists>store bs n. legible x V store \<and> chainOf store (svb_Path chain) bs n \<and> n \<le> fuel \<and> snd img = Some bs))"

lemma stacked_Domains [simp]: "stacked fuel x (V\<lparr>v_Domains := ds\<rparr>) img = stacked fuel x V img"
  by (simp add: stacked_def legible_def cong: option.case_cong)

definition imageReady :: "nat \<Rightarrow> 'w env \<Rightarrow> surroundings \<Rightarrow> string \<Rightarrow> string \<Rightarrow> image \<Rightarrow> bool" where
  "imageReady fuel env V pool name img \<longleftrightarrow> (\<exists>m. v_vols V pool = Some m \<and> m name = Some (fst img)) \<and>
     describable (e_xml env) (fst img) \<and> imageOf (fst img) \<noteq> None \<and> stacked fuel (e_xml env) V img"

definition diskReady :: "nat \<Rightarrow> 'w env \<Rightarrow> surroundings \<Rightarrow> Domain \<Rightarrow> DomainDisk \<times> Volume \<times> image \<Rightarrow> bool" where
  "diskReady fuel env V domain = (\<lambda>(disk, volume, img). v_Volumes V (Domain_VolumeRef domain disk) = Some volume \<and>
     isTrue env volume ConditionReady \<and> vst_Host (Status volume) = ref_Name (ds_HostRef (Spec domain)) \<and>
     imageReady fuel env V (vst_Pool (Status volume)) (Volume_ResourceName volume) img)"

definition interfaceReady :: "'w env \<Rightarrow> surroundings \<Rightarrow> Domain \<Rightarrow> DomainInterface \<times> Network \<Rightarrow> bool" where
  "interfaceReady env V domain = (\<lambda>(i, network). v_Networks V (Domain_NetworkRef domain i) = Some network \<and>
     isTrue env network ConditionReady \<and> ref_Name (ns_HostRef (Spec network)) = ref_Name (ds_HostRef (Spec domain)))"

definition pciReady :: "'w env \<Rightarrow> surroundings \<Rightarrow> Domain \<Rightarrow> DomainPCIPassthrough \<times> PCIDevice \<times> PCIDeviceAddress \<Rightarrow> bool" where
  "pciReady env V domain = (\<lambda>(pci, device, address). v_PCIDevices V (Domain_PCIDeviceRef domain pci) = Some device \<and>
     isTrue env device ConditionReady \<and> ref_Name (pds_HostRef (Spec device)) = ref_Name (ds_HostRef (Spec domain)) \<and>
     pdst_Address (Status device) = Some address)"

fun cloudInitReady :: "nat \<Rightarrow> 'w env \<Rightarrow> surroundings \<Rightarrow> Domain \<Rightarrow> (CloudInit \<times> image) option \<Rightarrow> bool" where
  "cloudInitReady fuel env V domain None \<longleftrightarrow> ds_CloudInit (Spec domain) = None"
| "cloudInitReady fuel env V domain (Some (ci, img)) \<longleftrightarrow> ds_CloudInit (Spec domain) \<noteq> None \<and>
     (\<exists>ref. Domain_CloudInitRef domain = Some ref \<and> v_CloudInits V ref = Some ci) \<and> isTrue env ci ConditionReady \<and>
     cist_Host (Status ci) = ref_Name (ds_HostRef (Spec domain)) \<and>
     imageReady fuel env V (cist_Pool (Status ci)) (CloudInit_ResourceName ci) img"

definition partsReady :: "nat \<Rightarrow> 'w env \<Rightarrow> surroundings \<Rightarrow> Domain \<Rightarrow> parts \<Rightarrow> bool" where
  "partsReady fuel env V domain parts \<longleftrightarrow>
     map fst (p_disks parts) = ds_Disks (Spec domain) \<and> list_all (diskReady fuel env V domain) (p_disks parts) \<and>
     map fst (p_interfaces parts) = ds_Interfaces (Spec domain) \<and> list_all (interfaceReady env V domain) (p_interfaces parts) \<and>
     map fst (p_pcis parts) = ds_PCIPassthrough (Spec domain) \<and> list_all (pciReady env V domain) (p_pcis parts) \<and>
     cloudInitReady fuel env V domain (p_cloudInit parts)"

section \<open>Attaching\<close>

text \<open>The definition while it is built, and the object as it collects labels.\<close>

definition draft :: "safecast \<Rightarrow> Domain \<Rightarrow> DomainDiskXML list \<Rightarrow> DomainInterfaceXML list \<Rightarrow> DomainHostdevPCI list \<Rightarrow> DomainAction" where
  "draft sc domain ds is hs = building (Domain_ResourceName domain) ((newDomainDef (Domain_ResourceName domain))\<lparr>
     dom_VCPU := Some \<lparr>dvx_Value = ToUint sc (dv_Value (ds_VCPU (Spec domain))), dvx_Placement = ''''\<rparr>,
     dom_Memory := Some \<lparr>dmx_Value = ToUint sc (dm_Value (ds_Memory (Spec domain))), dmx_Unit = dm_Unit (ds_Memory (Spec domain))\<rparr>,
     dom_Devices := Some ((the (dom_Devices (newDomainDef (Domain_ResourceName domain))))\<lparr>ddl_Disks := ds, ddl_Interfaces := is, ddl_Hostdevs := hs\<rparr>)\<rparr>)"

text \<open>Disks that were attached have the first names of the sequence.\<close>

definition inSequence :: "DomainDiskXML list \<Rightarrow> bool" where
  "inSequence ds \<longleftrightarrow> allTargets ds \<and> targetDevs ds = map diskName [0..<length ds]"

lemma inSequence_next: "inSequence ds \<Longrightarrow> nextTargetDev ds ''a'' = Returns (diskName (length ds))"
proof -
  assume s: "inSequence ds"
  then obtain k where k: "nextTargetDev ds ''a'' = Returns (diskName k)" "diskName k \<notin> set (targetDevs ds)"
    "\<forall>j<k. diskName j \<in> set (targetDevs ds)"
    using nextTargetDev_from [of ds 0] by (auto simp: inSequence_def)
  have "\<not> k < length ds" using k(2) s by (auto simp: inSequence_def)
  moreover have "\<not> length ds < k"
    using k(3) s inj_diskName by (auto simp: inSequence_def inj_eq)
  ultimately show ?thesis using k(1) by simp
qed

lemma inSequence_append: "inSequence ds \<Longrightarrow> imageOf (fst img) \<noteq> None \<Longrightarrow> inSequence (ds @ [wantedDisk ro wwn (length ds) img])"
  by (auto simp: inSequence_def allTargets_def targetDevs_def wantedDisk_def)

text \<open>The walk over what is below an image.\<close>

lemma ensures_looked:
  assumes "obeys view x cl" and "legible x V store" and "store key = Some desc" and "ensures view conns (k desc) V Q"
  shows "ensures view conns (attempt (StorageVolLookupByKey (observed a cl) key) h (\<lambda>v.
    attempt (getVolumeSourceDescription x (observed a cl) v) h' k)) V Q"
proof -
  have l: "heldAs (v_vols V) key desc" "\<And>v. heldAs (v_vols V) key v \<Longrightarrow> v = desc" "sv_Key desc = key" "describable x desc"
    using assms(2,3) by (auto simp: legible_def heldAs_def)
  from l(4) obtain xml where xml: "vol_Marshal x desc = Inr xml" "vol_Unmarshal x xml = Inr desc"
    by (auto simp: describable_def)
  have "ensures view conns (StorageVolLookupByKey (observed a cl) key) V (\<lambda>r V'. V' = V \<and>
      (\<exists>p m n. r = Inr (handleOf p n desc) \<and> v_vols V p = Some m \<and> m n = Some desc))"
    unfolding observed_select
  proof (rule ensures_called)
    fix w assume w: "view w = V"
    from keyed_volume_host.keyed [OF obeysD(11) [OF assms(1)], of w key desc] l(1) w
    obtain p m n v where k: "v_vols V p = Some m" "m n = Some v" "sv_Key v = key"
      "StorageVolLookupByKey cl key w = (Returns (Inr \<lparr>lsv_Pool = p, lsv_Name = n, lsv_Key = key\<rparr>), w)" by auto
    then have "v = desc" by (intro l(2)) (auto simp: heldAs_def)
    with k w l(3) show "\<exists>r w'. StorageVolLookupByKey cl key w = (Returns r, w') \<and> view w' = V \<and>
        (\<exists>p m n. r = Inr (handleOf p n desc) \<and> v_vols V p = Some m \<and> m n = Some desc)"
      by (auto simp: handleOf_def)
  qed
  moreover have "ensures view conns (attempt (getVolumeSourceDescription x (observed a cl) (handleOf p n desc)) h' k) V Q"
    if "v_vols V p = Some m" "m n = Some desc" for p m n
    unfolding getVolumeSourceDescription_def
    by (intro ensures_attempt ensures_described [OF assms(1) that]) (simp add: xml ensures_ret assms(4))
  ultimately show ?thesis
    by (intro ensures_attempt) (erule ensures_mono, auto)
qed

lemma ensures_backingChain:
  assumes "chainOf store key bs n" and "obeys view x cl" and "legible x V store" and "n \<le> fuel" and "svb_Path chain = key"
    and "Q (Inr bs) V"
  shows "ensures view conns (backingChain fuel x (observed a cl) chain) V Q"
  using assms(1,4-6)
proof (induction arbitrary: fuel chain Q rule: chainOf.induct)
  case (chain_bottom key desc format source)
  then obtain k where fuel: "fuel = Suc k" by (cases fuel) auto
  from chain_bottom.hyps(2) obtain t f where i: "sv_Target desc = Some t" "svt_Format t = Some f" "svtf_Type f = format"
    "setDomainDiskSource emptyDiskSource (sv_Type desc) (svt_Path t) = Inr source" by (auto simp: imageOf_Some)
  show ?case
    unfolding fuel backingChain.simps chain_bottom.prems(2) withTargetFormat_def
    by (intro ensures_looked [OF assms(2,3) chain_bottom.hyps(1)] ensures_deref [OF i(1)] ensures_deref [OF i(2)])
      (simp add: i chain_bottom.hyps(3) chain_bottom.prems(3) ensures_ret)
next
  case (chain_above key desc format source below bs n)
  then obtain k where fuel: "fuel = Suc k" "n \<le> k" by (cases fuel) auto
  from chain_above.hyps(2) obtain t f where i: "sv_Target desc = Some t" "svt_Format t = Some f" "svtf_Type f = format"
    "setDomainDiskSource emptyDiskSource (sv_Type desc) (svt_Path t) = Inr source" by (auto simp: imageOf_Some)
  have "ensures view conns (attempt (backingChain k x (observed a cl) below) (\<lambda>err. ret (Inl err))
      (\<lambda>b. ret (Inr (BackingStore (Some format) (Some source) (Some b))))) V Q"
    by (intro ensures_attempt chain_above.IH [OF fuel(2) refl]) (simp add: ensures_ret chain_above.prems(3))
  then show ?case
    unfolding fuel backingChain.simps chain_above.prems(2) withTargetFormat_def
    by (intro ensures_looked [OF assms(2,3) chain_above.hyps(1)] ensures_deref [OF i(1)] ensures_deref [OF i(2)])
      (simp add: i chain_above.hyps(3))
qed

lemma ensures_Disk:
  assumes "obeys view x cl" and "v_vols V p = Some m" and "m n = Some (fst img)" and "describable x (fst img)"
    and "imageOf (fst img) \<noteq> None" and "stacked fuel x V img"
    and "dom_Devices (da_def action) = Some devs" and "inSequence (ddl_Disks devs)"
    and "Q (None, withDevices action (devs\<lparr>ddl_Disks := ddl_Disks devs @ [wantedDisk (ro = Some True) wwn (length (ddl_Disks devs)) img]\<rparr>)) V"
  shows "ensures view conns (Dom_Disk fuel x (observed a cl) action n p wwn ro) V Q"
proof -
  obtain info bs where img: "img = (info, bs)" by fastforce
  from assms(5) obtain format source t f where i: "imageOf info = Some (format, source)" "sv_Target info = Some t"
    "svt_Format t = Some f" "svtf_Type f = format" "setDomainDiskSource emptyDiskSource (sv_Type info) (svt_Path t) = Inr source"
    by (auto simp: imageOf_Some img)
  have ty: "sv_Type info = ''file'' \<or> sv_Type info = ''block''" using i(5) by (auto simp: setDomainDiskSource_def split: if_splits)
  from assms(4) obtain xml where xml: "vol_Marshal x info = Inr xml" "vol_Unmarshal x xml = Inr info"
    by (auto simp: describable_def img)
  have found: "m n = Some info" using assms(3) by (simp add: img)
  have dev: "ensures view conns (\<lambda>s. (getNextAvailableTargetDev action, s)) V R" if "R (diskName (length (ddl_Disks devs))) V" for R
    using that by (simp add: ensures_def getNextAvailableTargetDev_def assms(7) inSequence_next [OF assms(8)] letters_def)
  have desc: "ensures view conns (getVolumeSourceDescription x (observed a cl) (handleOf p n info)) V R" if "R (Inr info) V" for R
    unfolding getVolumeSourceDescription_def
    by (intro ensures_attempt ensures_described [OF assms(1,2) found]) (simp add: xml ensures_ret that)
  have walk: "ensures view conns (backingChain fuel x (observed a cl) chain) V (\<lambda>r V'. (\<exists>b. r = Inr b \<and> bs = Some b) \<and> V' = V)"
    if "sv_BackingStore info = Some chain" for chain
    using assms(6) that by (auto simp: stacked_def img intro!: ensures_backingChain [OF _ assms(1)])
  have below: "ensures view conns (case sv_BackingStore info of None \<Rightarrow> appendDisk action d
      | Some chain \<Rightarrow> attempt (backingChain fuel x (observed a cl) chain) (\<lambda>err. ret (Some err, action))
          (\<lambda>bs. appendDisk action (d\<lparr>dx_BackingStore := Some bs\<rparr>))) V Q"
    if "d\<lparr>dx_BackingStore := bs\<rparr> = wantedDisk (ro = Some True) wwn (length (ddl_Disks devs)) img" "dx_BackingStore d = None" for d
  proof (cases "sv_BackingStore info")
    case None
    then have "bs = None" using assms(6) by (simp add: stacked_def img)
    then have "d = wantedDisk (ro = Some True) wwn (length (ddl_Disks devs)) img" using that by (cases d) simp
    then show ?thesis by (simp add: None appendDisk_def deref_def assms(7) ensures_ret assms(9))
  next
    case (Some chain)
    show ?thesis
      unfolding Some option.case
      by (intro ensures_attempt ensures_mono [OF walk [OF Some]])
        (use assms(9) that(1) in \<open>auto simp: appendDisk_def deref_def assms(7) intro!: ensures_ret\<close>)
  qed
  show ?thesis
    unfolding Dom_Disk_def Let_def withTargetFormat_def
    by (intro ensures_andThen dev ensures_attempt ensures_pool [OF assms(1,2)] ensures_volume [OF assms(1,2) found] desc
        ensures_deref [OF i(2)] ensures_deref [OF i(3)] | simp only: sum.case)+
      (use ty in \<open>cases wwn; auto simp: i wantedDisk_def img intro!: below\<close>)
qed

text \<open>How the object comes out of the loops: with more labels, and never without one that marks a disk.\<close>

definition grown :: "Domain \<Rightarrow> Domain \<Rightarrow> bool" where
  "grown d d' \<longleftrightarrow> named d' = named d \<and> Spec d' = Spec d \<and> Status d' = Status d \<and>
     om_DeletionTimestamp (Meta d') = om_DeletionTimestamp (Meta d) \<and> om_Finalizers (Meta d') = om_Finalizers (Meta d) \<and>
     (\<forall>n. label_of (Meta d) (DiskLabelPrefix @ ''/'' @ n) = Some '''' \<longrightarrow> label_of (Meta d') (DiskLabelPrefix @ ''/'' @ n) = Some '''')"

lemma grown_refl: "grown d d"
  by (simp add: grown_def)

lemma grown_trans: "grown d d' \<Longrightarrow> grown d' d'' \<Longrightarrow> grown d d''"
  by (simp add: grown_def)

lemma grown_labelled: "v = '''' \<or> (\<forall>n. k \<noteq> DiskLabelPrefix @ ''/'' @ n) \<Longrightarrow> grown d (labelled d k v)"
  by (auto simp: grown_def)

lemma storing_Domains: "storing v_Domains_update d V = V\<lparr>v_Domains := (v_Domains V)(named d \<mapsto> d)\<rparr>"
  by (simp add: storing_def)

text \<open>One label more, on the way to what comes next.\<close>

lemma ensures_labelDomain:
  assumes coop: "cooperates view env" and "v_Domains V (named d) = Some d" and "om_DeletionTimestamp (Meta d) = None"
    and "v = '''' \<or> (\<forall>n. k \<noteq> DiskLabelPrefix @ ''/'' @ n)"
    and "\<And>d'. d' = labelled d k v \<Longrightarrow> grown d d' \<Longrightarrow> ensures view conns (f d') (V\<lparr>v_Domains := (v_Domains V)(named d \<mapsto> d')\<rparr>) Q"
  shows "ensures view conns (attempt (SetLabelOn d k v (Domains env)) h f) V Q"
  by (intro ensures_attempt domains_field.ensures_SetLabelOn [OF cooperatesD(8) [OF coop] assms(2,3)])
    (simp add: storing_Domains assms(5) [OF refl grown_labelled [OF assms(4)]])

lemma grownD:
  assumes "grown d d'"
  shows "named d' = named d" "Spec d' = Spec d" "om_DeletionTimestamp (Meta d') = om_DeletionTimestamp (Meta d)"
    "om_Namespace (Meta d') = om_Namespace (Meta d)"
  using assms by (simp_all add: grown_def named_def)

lemma refs_grown:
  assumes "grown d d'"
  shows "Domain_VolumeRef d' disk = Domain_VolumeRef d disk" "Domain_NetworkRef d' i = Domain_NetworkRef d i"
    "Domain_PCIDeviceRef d' p = Domain_PCIDeviceRef d p" "Domain_CloudInitRef d' = Domain_CloudInitRef d"
    "Domain_ResourceName d' = Domain_ResourceName d"
  using grownD [OF assms]
  by (simp_all add: Domain_VolumeRef_def Domain_NetworkRef_def Domain_PCIDeviceRef_def Domain_CloudInitRef_def Domain_ResourceName_def
      cong: option.case_cong)

text \<open>What the parts need is not changed by labels.\<close>

lemma ready_grown:
  assumes "grown d d'"
  shows "diskReady fuel env (V\<lparr>v_Domains := ds\<rparr>) d' = diskReady fuel env V d" "interfaceReady env (V\<lparr>v_Domains := ds\<rparr>) d' = interfaceReady env V d"
    "pciReady env (V\<lparr>v_Domains := ds\<rparr>) d' = pciReady env V d"
    "cloudInitReady fuel env (V\<lparr>v_Domains := ds\<rparr>) d' c = cloudInitReady fuel env V d c"
  by (auto simp: diskReady_def interfaceReady_def pciReady_def imageReady_def refs_grown [OF assms] grownD [OF assms]
      fun_eq_iff cloudInitReady.simps split: option.splits intro!: cloudInitReady.cases [where P = "cloudInitReady fuel env (V\<lparr>v_Domains := ds\<rparr>) d' c = cloudInitReady fuel env V d c" and x = "(fuel, env, V, d, c)"])

lemma draft_grown: "grown d d' \<Longrightarrow> draft sc d' ds is hs = draft sc d ds is hs"
  by (simp add: draft_def grownD refs_grown)

lemma draft_Devices: "\<exists>devs. dom_Devices (da_def (draft sc d ds is hs)) = Some devs \<and> ddl_Disks devs = ds \<and>
    withDevices (draft sc d ds is hs) (devs\<lparr>ddl_Disks := ds'\<rparr>) = draft sc d ds' is hs"
  by (simp add: draft_def building_def withDevices_def newDomainDef_def)

lemma disks_ensure:
  assumes coop: "cooperates view env" and ob: "obeys view (e_xml env) cl"
    and "list_all (diskReady fuel env V d) parts" and "inSequence ds"
    and "v_Domains V (named d) = Some d" and "om_DeletionTimestamp (Meta d) = None"
    and "\<And>d'. grown d d' \<Longrightarrow> \<forall>(disk, volume, img)\<in>set parts. label_of (Meta d') (DiskLabelPrefix @ ''/'' @ om_Name (Meta volume)) = Some '''' \<Longrightarrow>
      inSequence (ds @ wantedDisks (length ds) parts) \<Longrightarrow>
      ensures view conns (k (draft (e_cast env) d (ds @ wantedDisks (length ds) parts) is hs) d') (V\<lparr>v_Domains := (v_Domains V)(named d \<mapsto> d')\<rparr>) Q"
  shows "ensures view conns (Domain_disks fuel env (observed a cl) (map fst parts) k (draft (e_cast env) d ds is hs) d) V Q"
  using assms(3-7)
proof (induction parts arbitrary: ds d V)
  case Nil
  then show ?case using Nil(5) [OF grown_refl] by (simp add: fun_upd_idem)
next
  case (Cons p parts)
  obtain disk volume img where p: "p = (disk, volume, img)" by (cases p)
  from Cons.prems(1) have r: "v_Volumes V (Domain_VolumeRef d disk) = Some volume" "isTrue env volume ConditionReady"
    "vst_Host (Status volume) = ref_Name (ds_HostRef (Spec d))" "describable (e_xml env) (fst img)" "imageOf (fst img) \<noteq> None"
    "stacked fuel (e_xml env) V img" and rest: "list_all (diskReady fuel env V d) parts"
    by (auto simp: p diskReady_def imageReady_def)
  from Cons.prems(1) obtain m where m: "v_vols V (vst_Pool (Status volume)) = Some m" "m (Volume_ResourceName volume) = Some (fst img)"
    by (auto simp: p diskReady_def imageReady_def)
  obtain devs where devs: "dom_Devices (da_def (draft (e_cast env) d ds is hs)) = Some devs" "ddl_Disks devs = ds"
    "\<And>ds'. withDevices (draft (e_cast env) d ds is hs) (devs\<lparr>ddl_Disks := ds'\<rparr>) = draft (e_cast env) d ds' is hs"
    by (simp add: draft_def building_def withDevices_def newDomainDef_def)
  let ?w = "wantedDisk False (dd_WWN disk) (length ds) img"
  have onward: "ensures view conns (Domain_disks fuel env (observed a cl) (map fst parts) k (draft (e_cast env) d (ds @ [?w]) is hs) d')
      (V\<lparr>v_Domains := (v_Domains V)(named d \<mapsto> d')\<rparr>) Q"
    if d': "d' = labelled d (DiskLabelPrefix @ ''/'' @ om_Name (Meta volume)) ''''" "grown d d'" for d'
  proof -
    let ?V = "V\<lparr>v_Domains := (v_Domains V)(named d \<mapsto> d')\<rparr>"
    have "ensures view conns (Domain_disks fuel env (observed a cl) (map fst parts) k (draft (e_cast env) d' (ds @ [?w]) is hs) d') ?V Q"
    proof (rule Cons.IH)
      show "list_all (diskReady fuel env ?V d') parts" using rest by (simp add: ready_grown [OF d'(2)])
      show "inSequence (ds @ [?w])" using inSequence_append [OF Cons.prems(2) r(5)] .
      show "v_Domains ?V (named d') = Some d'" "om_DeletionTimestamp (Meta d') = None"
        using Cons.prems(4) by (simp_all add: grownD [OF d'(2)])
      fix d'' assume g: "grown d' d''" and l: "\<forall>(disk, volume, img)\<in>set parts.
          label_of (Meta d'') (DiskLabelPrefix @ ''/'' @ om_Name (Meta volume)) = Some ''''"
        and s: "inSequence ((ds @ [?w]) @ wantedDisks (length (ds @ [?w])) parts)"
      have "label_of (Meta d'') (DiskLabelPrefix @ ''/'' @ om_Name (Meta volume)) = Some ''''"
        using g by (simp add: grown_def d'(1))
      have V: "?V\<lparr>v_Domains := (v_Domains ?V)(named d' \<mapsto> d'')\<rparr> = V\<lparr>v_Domains := (v_Domains V)(named d \<mapsto> d'')\<rparr>"
        by (simp add: grownD [OF d'(2)])
      have w: "(ds @ [?w]) @ wantedDisks (length (ds @ [?w])) parts = ds @ wantedDisks (length ds) (p # parts)" by (simp add: p)
      show "ensures view conns (k (draft (e_cast env) d' ((ds @ [?w]) @ wantedDisks (length (ds @ [?w])) parts) is hs) d'')
          (?V\<lparr>v_Domains := (v_Domains ?V)(named d' \<mapsto> d'')\<rparr>) Q"
        unfolding V w draft_grown [OF d'(2)]
      proof (rule Cons.prems(5) [OF grown_trans [OF d'(2) g]])
        show "inSequence (ds @ wantedDisks (length ds) (p # parts))" using s unfolding w .
        show "\<forall>(disk, volume, img)\<in>set (p # parts).
            label_of (Meta d'') (DiskLabelPrefix @ ''/'' @ om_Name (Meta volume)) = Some ''''"
          using l \<open>label_of (Meta d'') (DiskLabelPrefix @ ''/'' @ om_Name (Meta volume)) = Some ''''\<close> by (simp add: p)
      qed
    qed
    then show ?thesis by (simp add: draft_grown [OF d'(2)])
  qed
  show ?case
    unfolding p list.map fst_conv Domain_disks.simps
    by (intro ensures_attempt ensures_apiGet [OF storesD(1) [OF cooperatesD(7) [OF coop]] r(1)],
        simp only: sum.case r(2,3) not_True_eq_False if_False simp_thms)
      (intro ensures_andThen ensures_Disk [OF ob m r(4-6) devs(1)],
       use Cons.prems(2,3,4) in \<open>auto simp: devs(2,3) intro!: ensures_labelDomain [OF coop] onward\<close>)
qed

lemma stored_twice: "named d' = named d \<Longrightarrow> V\<lparr>v_Domains := (v_Domains V)(named d \<mapsto> d')\<rparr>\<lparr>v_Domains :=
    (v_Domains (V\<lparr>v_Domains := (v_Domains V)(named d \<mapsto> d')\<rparr>))(named d' \<mapsto> d'')\<rparr> = V\<lparr>v_Domains := (v_Domains V)(named d \<mapsto> d'')\<rparr>"
  by simp

lemma interfaces_ensure:
  assumes coop: "cooperates view env"
    and "list_all (interfaceReady env V d) parts" and "v_Domains V (named d) = Some d" and "om_DeletionTimestamp (Meta d) = None"
    and "\<And>d'. grown d d' \<Longrightarrow>
      ensures view conns (k (draft (e_cast env) d ds (is @ map (wantedInterface (e_cast env)) parts) hs) d') (V\<lparr>v_Domains := (v_Domains V)(named d \<mapsto> d')\<rparr>) Q"
  shows "ensures view conns (Domain_interfaces env (map fst parts) k (draft (e_cast env) d ds is hs) d) V Q"
  using assms(2-5)
proof (induction parts arbitrary: "is" d V)
  case Nil
  then show ?case using Nil(4) [OF grown_refl] by (simp add: fun_upd_idem)
next
  case (Cons p parts)
  obtain i network where p: "p = (i, network)" by (cases p)
  from Cons.prems(1) have r: "v_Networks V (Domain_NetworkRef d i) = Some network" "isTrue env network ConditionReady"
    "ref_Name (ns_HostRef (Spec network)) = ref_Name (ds_HostRef (Spec d))" and rest: "list_all (interfaceReady env V d) parts"
    by (auto simp: p interfaceReady_def)
  let ?a = "draft (e_cast env) d ds (is @ [wantedInterface (e_cast env) p]) hs"
  have onward: "ensures view conns (Domain_interfaces env (map fst parts) k ?a d') (V\<lparr>v_Domains := (v_Domains V)(named d \<mapsto> d')\<rparr>) Q"
    if g: "grown d d'" for d'
  proof -
    let ?V = "V\<lparr>v_Domains := (v_Domains V)(named d \<mapsto> d')\<rparr>"
    have "ensures view conns (Domain_interfaces env (map fst parts) k (draft (e_cast env) d' ds (is @ [wantedInterface (e_cast env) p]) hs) d') ?V Q"
    proof (rule Cons.IH)
      show "list_all (interfaceReady env ?V d') parts" using rest by (simp add: ready_grown [OF g])
      show "v_Domains ?V (named d') = Some d'" "om_DeletionTimestamp (Meta d') = None"
        using Cons.prems(3) by (simp_all add: grownD [OF g])
      show "ensures view conns (k (draft (e_cast env) d' ds ((is @ [wantedInterface (e_cast env) p]) @ map (wantedInterface (e_cast env)) parts) hs) d'')
          (?V\<lparr>v_Domains := (v_Domains ?V)(named d' \<mapsto> d'')\<rparr>) Q" if "grown d' d''" for d''
        using Cons.prems(4) [OF grown_trans [OF g that]] unfolding stored_twice [OF grownD(1) [OF g]] draft_grown [OF g]
        by (simp only: list.map append_assoc append.simps)
    qed
    then show ?thesis by (simp only: draft_grown [OF g])
  qed
  have add: "ensures view conns (Dom_Interface (draft (e_cast env) d ds is hs) (Network_ResourceName network)
      (map_option (ToUint (e_cast env)) (di_Queues i)) (di_MacAddress i)) V R" if "R ?a V" for R
    using that
    by (auto simp: Dom_Interface_def draft_def building_def newDomainDef_def withDevices_def wantedInterface_def p deref_def
        split: option.splits intro!: ensures_ret)
  show ?case
    unfolding p list.map fst_conv Domain_interfaces.simps Let_def
    by (intro ensures_attempt ensures_apiGet [OF cooperatesD(4) [OF coop] r(1)],
        simp only: sum.case r(2,3) not_True_eq_False if_False simp_thms)
      (intro ensures_andThen add ensures_labelDomain [OF coop Cons.prems(2,3)], auto intro!: onward)
qed

lemma pciDevices_ensure:
  assumes coop: "cooperates view env"
    and "list_all (pciReady env V d) parts" and "v_Domains V (named d) = Some d" and "om_DeletionTimestamp (Meta d) = None"
    and "\<And>d'. grown d d' \<Longrightarrow>
      ensures view conns (k (draft (e_cast env) d ds is (hs @ map (wantedHostdev (e_cast env)) parts)) d') (V\<lparr>v_Domains := (v_Domains V)(named d \<mapsto> d')\<rparr>) Q"
  shows "ensures view conns (Domain_pciDevices env (map fst parts) k (draft (e_cast env) d ds is hs) d) V Q"
  using assms(2-5)
proof (induction parts arbitrary: hs d V)
  case Nil
  then show ?case using Nil(4) [OF grown_refl] by (simp add: fun_upd_idem)
next
  case (Cons p parts)
  obtain pci device address where p: "p = (pci, device, address)" by (cases p)
  from Cons.prems(1) have r: "v_PCIDevices V (Domain_PCIDeviceRef d pci) = Some device" "isTrue env device ConditionReady"
    "ref_Name (pds_HostRef (Spec device)) = ref_Name (ds_HostRef (Spec d))" "pdst_Address (Status device) = Some address"
    and rest: "list_all (pciReady env V d) parts"
    by (auto simp: p pciReady_def)
  let ?a = "draft (e_cast env) d ds is (hs @ [wantedHostdev (e_cast env) p])"
  have onward: "ensures view conns (Domain_pciDevices env (map fst parts) k ?a d') (V\<lparr>v_Domains := (v_Domains V)(named d \<mapsto> d')\<rparr>) Q"
    if g: "grown d d'" for d'
  proof -
    let ?V = "V\<lparr>v_Domains := (v_Domains V)(named d \<mapsto> d')\<rparr>"
    have "ensures view conns (Domain_pciDevices env (map fst parts) k (draft (e_cast env) d' ds is (hs @ [wantedHostdev (e_cast env) p])) d') ?V Q"
    proof (rule Cons.IH)
      show "list_all (pciReady env ?V d') parts" using rest by (simp add: ready_grown [OF g])
      show "v_Domains ?V (named d') = Some d'" "om_DeletionTimestamp (Meta d') = None"
        using Cons.prems(3) by (simp_all add: grownD [OF g])
      show "ensures view conns (k (draft (e_cast env) d' ds is ((hs @ [wantedHostdev (e_cast env) p]) @ map (wantedHostdev (e_cast env)) parts)) d'')
          (?V\<lparr>v_Domains := (v_Domains ?V)(named d' \<mapsto> d'')\<rparr>) Q" if "grown d' d''" for d''
        using Cons.prems(4) [OF grown_trans [OF g that]] unfolding stored_twice [OF grownD(1) [OF g]] draft_grown [OF g]
        by (simp only: list.map append_assoc append.simps)
    qed
    then show ?thesis by (simp only: draft_grown [OF g])
  qed
  have add: "ensures view conns (Dom_PCIPassthrough (draft (e_cast env) d ds is hs) (ToUint (e_cast env) (pa_Domain address))
      (ToUint (e_cast env) (pa_Bus address)) (ToUint (e_cast env) (pa_Slot address)) (ToUint (e_cast env) (pa_Function address))) V R"
    if "R ?a V" for R
    using that
    by (simp add: Dom_PCIPassthrough_def draft_def building_def newDomainDef_def withDevices_def wantedHostdev_def p deref_def ensures_ret)
  show ?case
    unfolding p list.map fst_conv Domain_pciDevices.simps Let_def
    by (intro ensures_attempt ensures_apiGet [OF cooperatesD(5) [OF coop] r(1)],
        simp only: sum.case r(2,3) not_True_eq_False if_False simp_thms)
      (intro ensures_deref [OF r(4)] ensures_andThen add ensures_labelDomain [OF coop Cons.prems(2,3)], auto intro!: onward)
qed

section \<open>Settings\<close>

text \<open>The definition with everything but the cloud-init image.\<close>

definition settled :: "safecast \<Rightarrow> Domain \<Rightarrow> parts \<Rightarrow> DomainXML" where
  "settled sc domain parts = wantedDomain sc domain (parts\<lparr>p_cloudInit := None\<rparr>)"

lemma settings_ensure:
  fixes view :: "'w \<Rightarrow> 'v"
  assumes "Q (building (Domain_ResourceName d) (settled sc d parts)) V"
  shows "ensures view conns (Domain_settings sc (Spec d) (draft sc d (wantedDisks 0 (p_disks parts))
    (map (wantedInterface sc) (p_interfaces parts)) (map (wantedHostdev sc) (p_pcis parts)))) V Q"
proof -
  have "Domain_settings sc (Spec d) (draft sc d (wantedDisks 0 (p_disks parts)) (map (wantedInterface sc) (p_interfaces parts))
      (map (wantedHostdev sc) (p_pcis parts))) s = (Returns (building (Domain_ResourceName d) (settled sc d parts)), s)" for s :: "'w sys"
    by (cases "ds_CPU (Spec d)"; cases "ds_SCSIQueues (Spec d)"; cases "ds_NumatuneMode (Spec d)"; cases "dv_Placement (ds_VCPU (Spec d))")
      (auto simp: Domain_settings_def whenSome_def andThen_def ret_def deref_def draft_def building_def settled_def wantedDomain_def
        wantedCPU_def newDomainDef_def Dom_SCSIMultiqueue_def Dom_NumatuneMode_def Dom_UEFI_def Dom_NoSecureBoot_def
        Dom_VCPUPlacement_def Dom_CPUMode_def Dom_CPUCacheMode_def cpuOrNew_def withDevices_def Let_def split: option.split)
  with assms show ?thesis by (simp add: ensures_def)
qed

section \<open>Creation\<close>

text \<open>How an object comes out of the reconciliation that defines its domain, and the state its spec asks for.\<close>

definition readyDomain :: "'w env \<Rightarrow> Domain \<Rightarrow> parts \<Rightarrow> Domain \<Rightarrow> bool" where
  "readyDomain env domain parts d \<longleftrightarrow> named d = named domain \<and> Spec d = Spec domain \<and>
     om_DeletionTimestamp (Meta d) = None \<and> Finalizer \<in> set (om_Finalizers (Meta d)) \<and> isTrue env d ConditionReady \<and>
     (\<forall>(disk, volume, img)\<in>set (p_disks parts). label_of (Meta d) (DiskLabelPrefix @ ''/'' @ om_Name (Meta volume)) = Some '''')"

definition wantedState :: "Domain \<Rightarrow> u32" where
  "wantedState domain = (if ds_Shutoff (Spec domain) = Some True then DomainShutoff else DomainRunning)"

definition labelsDisks :: "Domain \<Rightarrow> parts \<Rightarrow> bool" where
  "labelsDisks d parts \<longleftrightarrow>
     (\<forall>(disk, volume, img)\<in>set (p_disks parts). label_of (Meta d) (DiskLabelPrefix @ ''/'' @ om_Name (Meta volume)) = Some '''')"

lemma labelsDisks_grown: "grown d d' \<Longrightarrow> labelsDisks d parts \<Longrightarrow> labelsDisks d' parts"
  by (auto simp: labelsDisks_def grown_def)

lemma Domains_doms: "V\<lparr>v_Domains := a\<rparr>\<lparr>v_doms := b\<rparr> = V\<lparr>v_doms := b\<rparr>\<lparr>v_Domains := a\<rparr>"
  by (cases V) simp

lemma states_distinct: "DomainShutoff \<noteq> DomainRunning" "DomainRunning \<noteq> DomainShutoff"
  by (simp_all add: DomainShutoff_def DomainRunning_def)

lemma labels_distinct: "HostLabel \<noteq> DiskLabelPrefix @ ''/'' @ n" "CloudInitLabel \<noteq> DiskLabelPrefix @ ''/'' @ n"
  by (simp_all add: label_defs)

lemma commit_ensures:
  assumes coop: "cooperates view env" and ob: "obeys view (e_xml env) cl"
    and d: "v_Domains V (named d) = Some d" "om_DeletionTimestamp (Meta d) = None" "Finalizer \<in> set (om_Finalizers (Meta d))"
      "\<not> isTrue env d ConditionReady" "labelsDisks d parts"
    and x: "describableDomain (e_xml env) def" "dom_Name def = n" "v_doms V n = None"
    and Q: "\<And>d'. readyDomain env d parts d' \<Longrightarrow> Q (emptyResult, None)
      (V\<lparr>v_doms := (v_doms V)(n \<mapsto> (wantedState d, def)), v_Domains := (v_Domains V)(named d \<mapsto> d')\<rparr>)"
  shows "ensures view conns (Domain_commit env (observed a cl) host (building n def) d) V Q"
proof -
  from x(1) obtain xml where xml: "dom_Marshal (e_xml env) def = Inr xml" "dom_Unmarshal (e_xml env) xml = Inr def"
    by (auto simp: describableDomain_def)
  let ?V1 = "V\<lparr>v_doms := (v_doms V)(n \<mapsto> (DomainShutoff, def))\<rparr>"
  have defining: "ensures view conns (Dom_Create (e_xml env) (observed a cl) (building n def)) V R"
    if "R (None, (building n def)\<lparr>da_id := Some \<lparr>ld_Name = n\<rparr>\<rparr>) ?V1" for R
    unfolding Dom_Create_def
    by (simp only: building_def DomainAction.simps xml(1) sum.case)
      (intro ensures_attempt ensures_defineDomain [OF ob xml(2)],
       use x(2,3) that in \<open>simp_all add: ensures_ret building_def\<close>)
  have last: "ensures view conns (finish (Domain_setStatusCondition env l ConditionReady ConditionTrue conditionCreationSucceeded ConditionCreated))
      (V\<lparr>v_doms := (v_doms V)(n \<mapsto> (wantedState d, def)), v_Domains := (v_Domains V)(named d \<mapsto> l)\<rparr>) Q" if g: "grown d l" for l
    unfolding finish_def Domain_setStatusCondition_def
  proof (intro ensures_attempt domains_field.ensures_becomesTrue [where old = l, OF cooperatesD(1) [OF coop] cooperatesD(8) [OF coop]]
      cooperatesD(9) [OF coop])
    show "\<not> isTrue env l ConditionReady" using d(4) g by (simp add: isTrue_def grown_def)
    fix cs obj' assume o: "obj' = l\<lparr>Status := (Status l)\<lparr>Conditions := cs\<rparr>\<rparr>" "isTrue env obj' ConditionReady"
    have "readyDomain env d parts obj'"
      using d(2,3) o g labelsDisks_grown [OF g d(5)] by (simp add: readyDomain_def grown_def labelsDisks_def)
    from Q [OF this] show "case Inr obj' of Inl e \<Rightarrow> ensures view conns (fail e)
          (storing v_Domains_update obj' (V\<lparr>v_doms := (v_doms V)(n \<mapsto> (wantedState d, def)), v_Domains := (v_Domains V)(named d \<mapsto> l)\<rparr>)) Q
        | Inr x \<Rightarrow> ensures view conns stop
          (storing v_Domains_update obj' (V\<lparr>v_doms := (v_doms V)(n \<mapsto> (wantedState d, def)), v_Domains := (v_Domains V)(named d \<mapsto> l)\<rparr>)) Q"
      using g o(1) by (simp add: storing_Domains grownD ensures_ret)
  qed (simp_all add: grownD [OF g])
  have power: "ensures view conns (if ds_Shutoff (Spec l) \<noteq> Some True then Dom_Start (observed a cl) ((building n def)\<lparr>da_id := Some \<lparr>ld_Name = n\<rparr>\<rparr>)
        else ret None) (?V1\<lparr>v_Domains := (v_Domains V)(named d \<mapsto> l)\<rparr>) (\<lambda>r V'. r = None \<and>
        V' = V\<lparr>v_doms := (v_doms V)(n \<mapsto> (wantedState d, def)), v_Domains := (v_Domains V)(named d \<mapsto> l)\<rparr>)"
    if "Spec l = Spec d" for l
    by (auto simp: that wantedState_def Dom_Start_def deref_def Domains_doms states_distinct
        intro!: ensures_ret ensures_startDomain [OF ob, where st = DomainShutoff and d = def])
  show ?thesis
    unfolding Domain_commit_def
  proof (intro ensures_andThen defining, simp only: prod.case option.case, rule ensures_labelDomain [OF coop _ d(2)])
    fix l assume g: "grown d l"
    have eq: "?V1\<lparr>v_Domains := (v_Domains ?V1)(named d \<mapsto> l)\<rparr> = ?V1\<lparr>v_Domains := (v_Domains V)(named d \<mapsto> l)\<rparr>" by simp
    show "ensures view conns (guarded (if ds_Shutoff (Spec l) \<noteq> Some True
        then Dom_Start (observed a cl) ((building n def)\<lparr>da_id := Some \<lparr>ld_Name = n\<rparr>\<rparr>) else ret None) fail
        (finish (Domain_setStatusCondition env l ConditionReady ConditionTrue conditionCreationSucceeded ConditionCreated)))
        (?V1\<lparr>v_Domains := (v_Domains ?V1)(named d \<mapsto> l)\<rparr>) Q"
      unfolding eq
      by (intro ensures_guarded ensures_mono [OF power [OF grownD(2) [OF g]]]) (auto simp: last [OF g])
  qed (use d(1) labels_distinct in simp_all)
qed

lemma wantedDisks_length: "length (wantedDisks k parts) = length parts"
  by (induction k parts rule: wantedDisks.induct) auto

lemma settled_cloudInit:
  "p_cloudInit parts = None \<Longrightarrow> settled sc d parts = wantedDomain sc d parts"
  "p_cloudInit parts = Some (ci, img) \<Longrightarrow> \<exists>devs. dom_Devices (settled sc d parts) = Some devs \<and>
     ddl_Disks devs = wantedDisks 0 (p_disks parts) \<and>
     withDevices (building n (settled sc d parts)) (devs\<lparr>ddl_Disks := ddl_Disks devs @
       [wantedDisk True None (length (p_disks parts)) img]\<rparr>) = building n (wantedDomain sc d parts)"
  by (cases parts; simp add: settled_def wantedDomain_def Let_def building_def withDevices_def)+

lemma wantedDomain_name: "dom_Name (wantedDomain sc d parts) = Domain_ResourceName d"
  by (simp add: wantedDomain_def Let_def)

lemma wanted_grown: "grown d d' \<Longrightarrow> wantedDomain sc d' parts = wantedDomain sc d parts"
  "grown d d' \<Longrightarrow> settled sc d' parts = settled sc d parts"
  by (simp_all add: settled_def wantedDomain_def Let_def grownD refs_grown)

lemma create_ensures:
  assumes coop: "cooperates view env" and ob: "obeys view (e_xml env) cl"
    and d: "v_Domains V (named d) = Some d" "om_DeletionTimestamp (Meta d) = None" "Finalizer \<in> set (om_Finalizers (Meta d))"
      "\<not> isTrue env d ConditionReady"
    and parts: "partsReady fuel env V d parts"
    and x: "describableDomain (e_xml env) (wantedDomain (e_cast env) d parts)" "v_doms V (Domain_ResourceName d) = None"
    and Q: "\<And>d'. readyDomain env d parts d' \<Longrightarrow> Q (emptyResult, None)
      (V\<lparr>v_doms := (v_doms V)(Domain_ResourceName d \<mapsto> (wantedState d, wantedDomain (e_cast env) d parts)),
         v_Domains := (v_Domains V)(named d \<mapsto> d')\<rparr>)"
  shows "ensures view conns (Domain_create fuel env (observed a cl) host (building (Domain_ResourceName d) (newDomainDef (Domain_ResourceName d))) d) V Q"
proof -
  let ?n = "Domain_ResourceName d" and ?sc = "e_cast env"
  let ?is = "map (wantedInterface ?sc) (p_interfaces parts)" and ?hs = "map (wantedHostdev ?sc) (p_pcis parts)"
  note P = parts [unfolded partsReady_def]
  have commit: "ensures view conns (Domain_commit env (observed a cl) host (building ?n (wantedDomain ?sc d parts)) d')
      (V\<lparr>v_Domains := (v_Domains V)(named d \<mapsto> d')\<rparr>) Q" if g: "grown d d'" "labelsDisks d' parts" for d'
  proof (rule commit_ensures [OF coop ob, where parts = parts])
    show "\<not> isTrue env d' ConditionReady" "Finalizer \<in> set (om_Finalizers (Meta d'))" using d g(1) by (simp_all add: isTrue_def grown_def)
    fix d'' assume "readyDomain env d' parts d''"
    then have "readyDomain env d parts d''" by (simp add: readyDomain_def grownD [OF g(1)])
    from Q [OF this] show "Q (emptyResult, None) (V\<lparr>v_Domains := (v_Domains V)(named d \<mapsto> d')\<rparr>
        \<lparr>v_doms := (v_doms (V\<lparr>v_Domains := (v_Domains V)(named d \<mapsto> d')\<rparr>))(?n \<mapsto> (wantedState d', wantedDomain ?sc d parts)),
         v_Domains := (v_Domains (V\<lparr>v_Domains := (v_Domains V)(named d \<mapsto> d')\<rparr>))(named d' \<mapsto> d'')\<rparr>)"
      by (simp add: grownD [OF g(1)] wantedState_def Domains_doms)
  qed (use d g x in \<open>simp_all add: grownD [OF g(1)] wantedDomain_name\<close>)
  have image: "ensures view conns (Domain_cloudInit fuel env (observed a cl) (Domain_commit env (observed a cl) host)
      (building ?n (settled ?sc d parts)) d') (V\<lparr>v_Domains := (v_Domains V)(named d \<mapsto> d')\<rparr>) Q"
    if g: "grown d d'" "labelsDisks d' parts" "inSequence (wantedDisks 0 (p_disks parts))" for d'
  proof (cases "p_cloudInit parts")
    case None
    with P have "ds_CloudInit (Spec d') = None" by (simp add: grownD [OF g(1)])
    then show ?thesis by (simp add: Domain_cloudInit_def settled_cloudInit(1) [OF None] commit [OF g(1,2)])
  next
    case (Some p)
    obtain ci img where p: "p = (ci, img)" by (rule prod.exhaust)
    note some = Some [unfolded p]
    let ?V = "V\<lparr>v_Domains := (v_Domains V)(named d \<mapsto> d')\<rparr>"
    have c: "ds_CloudInit (Spec d') \<noteq> None" "isTrue env ci ConditionReady" "cist_Host (Status ci) = ref_Name (ds_HostRef (Spec d'))"
      "describable (e_xml env) (fst img)" "imageOf (fst img) \<noteq> None" "stacked fuel (e_xml env) ?V img"
      using P by (simp_all add: some grownD [OF g(1)] imageReady_def)
    from P obtain ref m where r: "Domain_CloudInitRef d' = Some ref" "v_CloudInits ?V ref = Some ci"
      "v_vols ?V (cist_Pool (Status ci)) = Some m" "m (CloudInit_ResourceName ci) = Some (fst img)"
      by (auto simp: some refs_grown [OF g(1)] imageReady_def)
    from settled_cloudInit(2) [OF some, of ?sc d ?n] obtain devs where devs: "dom_Devices (da_def (building ?n (settled ?sc d parts))) = Some devs"
      "ddl_Disks devs = wantedDisks 0 (p_disks parts)" "withDevices (building ?n (settled ?sc d parts)) (devs\<lparr>ddl_Disks := ddl_Disks devs @
       [wantedDisk True None (length (p_disks parts)) img]\<rparr>) = building ?n (wantedDomain ?sc d parts)"
      by (auto simp: building_def)
    have label: "ensures view conns (attempt (SetLabelOn d' CloudInitLabel (om_Name (Meta ci)) (Domains env)) fail
        (Domain_commit env (observed a cl) host (building ?n (wantedDomain ?sc d parts)))) ?V Q"
    proof (rule ensures_labelDomain [OF coop])
      fix l assume "grown d' l"
      then have "grown d l" "labelsDisks l parts" using grown_trans [OF g(1)] labelsDisks_grown g(2) by blast+
      from commit [OF this] show "ensures view conns (Domain_commit env (observed a cl) host (building ?n (wantedDomain ?sc d parts)) l)
          (?V\<lparr>v_Domains := (v_Domains ?V)(named d' \<mapsto> l)\<rparr>) Q"
        unfolding stored_twice [OF grownD(1) [OF g(1)]] .
    qed (use d labels_distinct in \<open>simp_all add: grownD [OF g(1)]\<close>)
    have disk: "ensures view conns (Dom_Disk fuel (e_xml env) (observed a cl) (building ?n (settled ?sc d parts)) (CloudInit_ResourceName ci)
        (cist_Pool (Status ci)) None (Some True)) ?V R" if "R (None, building ?n (wantedDomain ?sc d parts)) ?V" for R
    proof (rule ensures_Disk [OF ob r(3,4) c(4-6) devs(1)])
      show "inSequence (ddl_Disks devs)" using g(3) by (simp add: devs(2))
      have "withDevices (building ?n (settled ?sc d parts)) (devs\<lparr>ddl_Disks := ddl_Disks devs @
          [wantedDisk (Some True = Some True) None (length (ddl_Disks devs)) img]\<rparr>) = building ?n (wantedDomain ?sc d parts)"
        using devs(3) by (simp add: devs(2) wantedDisks_length)
      with that show "R (None, withDevices (building ?n (settled ?sc d parts)) (devs\<lparr>ddl_Disks := ddl_Disks devs @
          [wantedDisk (Some True = Some True) None (length (ddl_Disks devs)) img]\<rparr>)) ?V" by (simp only:)
    qed
    show ?thesis
      unfolding Domain_cloudInit_def if_not_P [OF c(1)]
      by (intro ensures_deref [OF r(1)] ensures_attempt ensures_apiGet [OF cooperatesD(6) [OF coop] r(2)],
          simp only: sum.case c(2,3) not_True_eq_False if_False simp_thms)
        (intro ensures_andThen disk, simp only: prod.case option.case label)
  qed
  have settings: "ensures view conns (andThen (Domain_settings ?sc (Spec d') (draft ?sc d (wantedDisks 0 (p_disks parts)) ?is ?hs))
      (\<lambda>action. Domain_cloudInit fuel env (observed a cl) (Domain_commit env (observed a cl) host) action d'))
      (V\<lparr>v_Domains := (v_Domains V)(named d \<mapsto> d')\<rparr>) Q"
    if g: "grown d d'" "labelsDisks d' parts" "inSequence (wantedDisks 0 (p_disks parts))" for d'
    unfolding grownD(2) [OF g(1)] by (intro ensures_andThen settings_ensure) (rule image [OF g])
  let ?k3 = "\<lambda>action domain. andThen (Domain_settings ?sc (Spec domain) action)
      (\<lambda>action. Domain_cloudInit fuel env (observed a cl) (Domain_commit env (observed a cl) host) action domain)"
  have pcis: "ensures view conns (Domain_pciDevices env (ds_PCIPassthrough (Spec d')) ?k3 (draft ?sc d (wantedDisks 0 (p_disks parts)) ?is []) d')
      (V\<lparr>v_Domains := (v_Domains V)(named d \<mapsto> d')\<rparr>) Q"
    if g: "grown d d'" "labelsDisks d' parts" "inSequence (wantedDisks 0 (p_disks parts))" for d'
  proof -
    have p: "map fst (p_pcis parts) = ds_PCIPassthrough (Spec d')" using P by (simp add: grownD [OF g(1)])
    show ?thesis
      unfolding p [symmetric] draft_grown [OF g(1), symmetric]
    proof (rule pciDevices_ensure [OF coop], goal_cases)
      case (4 l)
      from settings [OF grown_trans [OF g(1) 4] labelsDisks_grown [OF 4 g(2)] g(3)] show ?case
        by (simp only: draft_grown [OF g(1)] append_Nil stored_twice [OF grownD(1) [OF g(1)]])
    qed (use P d in \<open>simp_all add: ready_grown [OF g(1)] grownD [OF g(1)]\<close>)
  qed
  let ?k2 = "\<lambda>action domain. Domain_pciDevices env (ds_PCIPassthrough (Spec domain)) ?k3 action domain"
  have interfaces: "ensures view conns (Domain_interfaces env (ds_Interfaces (Spec d')) ?k2 (draft ?sc d (wantedDisks 0 (p_disks parts)) [] []) d')
      (V\<lparr>v_Domains := (v_Domains V)(named d \<mapsto> d')\<rparr>) Q"
    if g: "grown d d'" "labelsDisks d' parts" "inSequence (wantedDisks 0 (p_disks parts))" for d'
  proof -
    have p: "map fst (p_interfaces parts) = ds_Interfaces (Spec d')" using P by (simp add: grownD [OF g(1)])
    show ?thesis
      unfolding p [symmetric] draft_grown [OF g(1), symmetric]
    proof (rule interfaces_ensure [OF coop], goal_cases)
      case (4 l)
      from pcis [OF grown_trans [OF g(1) 4] labelsDisks_grown [OF 4 g(2)] g(3)] show ?case
        by (simp only: draft_grown [OF g(1)] append_Nil stored_twice [OF grownD(1) [OF g(1)]])
    qed (use P d in \<open>simp_all add: ready_grown [OF g(1)] grownD [OF g(1)]\<close>)
  qed
  let ?k1 = "\<lambda>action domain. Domain_interfaces env (ds_Interfaces (Spec domain)) ?k2 action domain"
  have "ensures view conns (Domain_disks fuel env (observed a cl) (map fst (p_disks parts)) ?k1 (draft ?sc d [] [] []) d) V Q"
    by (rule disks_ensure [OF coop ob])
      (use P d interfaces in \<open>auto simp: inSequence_def allTargets_def targetDevs_def labelsDisks_def\<close>)
  moreover have "building ?n ((newDomainDef ?n)\<lparr>dom_VCPU := Some \<lparr>dvx_Value = ToUint ?sc (dv_Value (ds_VCPU (Spec d))), dvx_Placement = ''''\<rparr>,
      dom_Memory := Some \<lparr>dmx_Value = ToUint ?sc (dm_Value (ds_Memory (Spec d))), dmx_Unit = dm_Unit (ds_Memory (Spec d))\<rparr>\<rparr>) = draft ?sc d [] [] []"
    by (simp add: draft_def newDomainDef_def)
  ultimately show ?thesis
    using P unfolding Domain_create_def Let_def
    by (auto simp: Dom_VCPU_def Dom_Memory_def deref_def building_def newDomainDef_def intro!: ensures_andThen ensures_ret)
qed

section \<open>The reconciliation\<close>

text \<open>The object whose domain is to be looked after: its host has a connection to a daemon that is up.\<close>

definition hosted :: "('w \<Rightarrow> surroundings) \<Rightarrow> 'w env \<Rightarrow> (string \<rightharpoonup> 'w HostEntry) \<Rightarrow> surroundings \<Rightarrow> Domain \<Rightarrow> bool" where
  "hosted view env conns V domain \<longleftrightarrow> v_Domains V (named domain) = Some domain \<and> v_up V \<and>
     (\<exists>host e. v_Hosts V (Domain_HostRef domain) = Some host \<and> conns (om_UID (Meta host)) = Some e \<and>
        obeys view (e_xml env) (he_client e))"

definition domainAction :: "surroundings \<Rightarrow> Domain \<Rightarrow> DomainAction" where
  "domainAction V domain = (let n = Domain_ResourceName domain in case v_doms V n of
     None \<Rightarrow> building n (newDomainDef n) | Some (st, d) \<Rightarrow> foundDomain n st d)"

lemma domainAction_cases:
  "v_doms V (Domain_ResourceName domain) = Some (st, d) \<Longrightarrow> domainAction V domain = foundDomain (Domain_ResourceName domain) st d"
  "v_doms V (Domain_ResourceName domain) = None \<Longrightarrow>
     domainAction V domain = building (Domain_ResourceName domain) (newDomainDef (Domain_ResourceName domain))"
  by (simp_all add: domainAction_def Let_def)

lemma Domain_Reconcile_ensures:
  assumes coop: "cooperates view env" and r: "hosted view env conns V domain"
    and x: "\<And>st d. v_doms V (Domain_ResourceName domain) = Some (st, d) \<Longrightarrow> describableDomain (e_xml env) d"
    and k: "\<And>a cl host. obeys view (e_xml env) cl \<Longrightarrow> ensures view conns (withFinalizer env (Domains env) domain
      (Domain_finalize env (observed a cl) (domainAction V domain) domain) (\<lambda>domain'.
        if fst (DomainState (domainAction V domain)) then Domain_existing env (observed a cl) (domainAction V domain) domain'
        else Domain_create fuel env (observed a cl) host (domainAction V domain) domain')) V Q"
  shows "ensures view conns (Domain_Reconcile fuel env (named domain)) V Q"
proof -
  from r obtain host e where h: "v_Domains V (named domain) = Some domain" "v_up V" "v_Hosts V (Domain_HostRef domain) = Some host"
    "conns (om_UID (Meta host)) = Some e" "obeys view (e_xml env) (he_client e)"
    by (auto simp: hosted_def)
  have "ensures view conns (Domain_withClient fuel env host domain (observed (he_addr e) (he_client e))) V Q"
    unfolding Domain_withClient_def
    by (intro ensures_attempt ensures_NewDomainAction [OF h(5)])
      (use x k [OF h(5)] in \<open>auto simp only: sum.case simp_thms domainAction_cases [of V domain, symmetric]\<close>)
  then have "ensures view conns (withHost env (Domains env) domain host (Domain_withClient fuel env host domain)) V Q"
    by (rule ensures_withHost [where k = "Domain_withClient fuel env host domain" and conns = conns and V = V and e = e, OF coop h(4,5,2)])
  then show ?thesis
    unfolding Domain_Reconcile_def getRequested_def
    by (intro ensures_attempt ensures_apiGet [OF storesD(1) [OF cooperatesD(8) [OF coop]] h(1)], simp only: sum.case)
      (intro ensures_attempt ensures_apiGet [OF cooperatesD(2) [OF coop] h(3)], simp only: sum.case)
qed

lemma DomainState_actions [simp]:
  "DomainState (foundDomain n st d) = (True, st = DomainShutoff)" "\<not> fst (DomainState (building n def))"
  by (simp_all add: DomainState_def foundDomain_def building_def)

lemma new_domain_ensures:
  assumes coop: "cooperates view env" and r: "hosted view env conns V domain"
    and new: "om_DeletionTimestamp (Meta domain) = None" "v_doms V (Domain_ResourceName domain) = None" "\<not> isTrue env domain ConditionReady"
    and parts: "partsReady fuel env V domain parts" "describableDomain (e_xml env) (wantedDomain (e_cast env) domain parts)"
  shows "ensures view conns (Domain_Reconcile fuel env (named domain)) V (\<lambda>r V'. r = (emptyResult, None) \<and>
    (\<exists>d. readyDomain env domain parts d \<and> V' = V\<lparr>v_doms := (v_doms V)(Domain_ResourceName domain \<mapsto>
        (wantedState domain, wantedDomain (e_cast env) domain parts)), v_Domains := (v_Domains V)(named domain \<mapsto> d)\<rparr>))"
proof (rule Domain_Reconcile_ensures [OF coop r])
  fix a cl host assume ob: "obeys view (e_xml env) cl"
  let ?n = "Domain_ResourceName domain" and ?f = "finalized domain"
  let ?V = "storing v_Domains_update ?f V"
  let ?Q = "\<lambda>r V'. r = (emptyResult, None) \<and> (\<exists>d. readyDomain env domain parts d \<and> V' = V\<lparr>v_doms := (v_doms V)(?n \<mapsto>
        (wantedState domain, wantedDomain (e_cast env) domain parts)), v_Domains := (v_Domains V)(named domain \<mapsto> d)\<rparr>)"
  note d = r [unfolded hosted_def, THEN conjunct1]
  have f: "named ?f = named domain" "Spec ?f = Spec domain" "Status ?f = Status domain" "Finalizer \<in> set (om_Finalizers (Meta ?f))"
    "om_DeletionTimestamp (Meta ?f) = None" "om_Namespace (Meta ?f) = om_Namespace (Meta domain)" "Domain_ResourceName ?f = ?n"
    using new(1) by (simp_all add: finalized_def named_def Domain_ResourceName_def)
  have refs: "Domain_VolumeRef ?f disk = Domain_VolumeRef domain disk" "Domain_NetworkRef ?f i = Domain_NetworkRef domain i"
    "Domain_PCIDeviceRef ?f p = Domain_PCIDeviceRef domain p" "Domain_CloudInitRef ?f = Domain_CloudInitRef domain" for disk i p
    by (simp_all add: Domain_VolumeRef_def Domain_NetworkRef_def Domain_PCIDeviceRef_def Domain_CloudInitRef_def f(2,6) cong: option.case_cong)
  have wanted: "wantedDomain (e_cast env) ?f parts = wantedDomain (e_cast env) domain parts" "wantedState ?f = wantedState domain"
    by (simp_all add: wantedDomain_def wantedState_def f(2,7))
  have P: "partsReady fuel env ?V ?f parts"
    using parts(1) unfolding partsReady_def storing_Domains
    by (cases "p_cloudInit parts")
      (auto simp: f(1,2) refs diskReady_def interfaceReady_def pciReady_def imageReady_def list_all_iff)
  have "ensures view conns (Domain_create fuel env (observed a cl) host (building ?n (newDomainDef ?n)) ?f) ?V ?Q"
    unfolding f(7) [symmetric]
  proof (rule create_ensures [OF coop ob _ f(5,4) _ P])
    show "v_Domains ?V (named ?f) = Some ?f" by (simp add: storing_Domains)
    show "\<not> isTrue env ?f ConditionReady" using new(3) by (simp add: isTrue_def f(3))
    show "describableDomain (e_xml env) (wantedDomain (e_cast env) ?f parts)" using parts(2) by (simp add: wanted)
    show "v_doms ?V (Domain_ResourceName ?f) = None" using new(2) by (simp add: storing_Domains f(7))
    fix d' assume "readyDomain env ?f parts d'"
    then have "readyDomain env domain parts d'" by (simp add: readyDomain_def f(1,2))
    then show "(emptyResult, None) = (emptyResult, None) \<and> (\<exists>d. readyDomain env domain parts d \<and>
        ?V\<lparr>v_doms := (v_doms ?V)(Domain_ResourceName ?f \<mapsto> (wantedState ?f, wantedDomain (e_cast env) ?f parts)),
          v_Domains := (v_Domains ?V)(named ?f \<mapsto> d')\<rparr> = V\<lparr>v_doms := (v_doms V)(Domain_ResourceName ?f \<mapsto>
          (wantedState domain, wantedDomain (e_cast env) domain parts)), v_Domains := (v_Domains V)(named domain \<mapsto> d)\<rparr>)"
      by (intro conjI refl exI [of _ d']) (simp_all add: storing_Domains f(1,7) wanted Domains_doms)
  qed
  then show "ensures view conns (withFinalizer env (Domains env) domain (Domain_finalize env (observed a cl) (domainAction V domain) domain)
      (\<lambda>domain'. if fst (DomainState (domainAction V domain)) then Domain_existing env (observed a cl) (domainAction V domain) domain'
        else Domain_create fuel env (observed a cl) host (domainAction V domain) domain')) V ?Q"
    unfolding withFinalizer_def if_P [OF new(1)]
    by (intro ensures_attempt domains_field.ensures_addFinalizer [OF cooperatesD(1) [OF coop] cooperatesD(8) [OF coop] d new(1)])
      (simp only: sum.case domainAction_cases(2) [OF new(2)] DomainState_actions if_False)
qed (use new in simp)

text \<open>A domain that is there is brought into the state that its spec asks for.\<close>

definition powered :: "Domain \<Rightarrow> u32 \<Rightarrow> u32" where
  "powered domain st = (if ds_Shutoff (Spec domain) = Some True then DomainShutoff
     else if st = DomainShutoff then DomainRunning else st)"

lemma power_ensures:
  assumes ob: "obeys view x cl" and "v_doms V n = Some (st, def)"
    and "Q (emptyResult, None) (V\<lparr>v_doms := (v_doms V)(n \<mapsto> (powered d st, def))\<rparr>)"
  shows "ensures view conns (Domain_power (observed a cl) (foundDomain n st def) d) V Q"
proof -
  have same: "V\<lparr>v_doms := (v_doms V)(n \<mapsto> (st, def))\<rparr> = V" using assms(2) by (simp add: fun_upd_idem)
  show ?thesis
    unfolding Domain_power_def DomainState_actions snd_conv Let_def
    using assms(3) same
    by (auto simp: powered_def Dom_Start_def foundDomain_def deref_def states_distinct
        intro!: ensures_guarded ensures_ret ensures_Shutdown [OF ob assms(2)] ensures_startDomain [OF ob assms(2)])
qed

lemma existing_domain_ensures:
  assumes coop: "cooperates view env" and r: "hosted view env conns V domain"
    and there: "v_doms V (Domain_ResourceName domain) = Some (st, def)" "describableDomain (e_xml env) def"
    and d: "om_DeletionTimestamp (Meta domain) = None" "Finalizer \<in> set (om_Finalizers (Meta domain))" "isTrue env domain ConditionReady"
  shows "ensures view conns (Domain_Reconcile fuel env (named domain)) V (\<lambda>r V'. r = (emptyResult, None) \<and>
      V' = V\<lparr>v_doms := (v_doms V)(Domain_ResourceName domain \<mapsto> (powered domain st, def))\<rparr>)"
proof (rule Domain_Reconcile_ensures [OF coop r])
  fix a cl host assume ob: "obeys view (e_xml env) cl"
  let ?Q = "\<lambda>r V'. r = (emptyResult, None) \<and> V' = V\<lparr>v_doms := (v_doms V)(Domain_ResourceName domain \<mapsto> (powered domain st, def))\<rparr>"
  note s = r [unfolded hosted_def, THEN conjunct1]
  have f: "finalized domain = domain" by (simp add: finalized_def d(2))
  have "ensures view conns (Domain_existing env (observed a cl) (domainAction V domain) domain) V ?Q"
    unfolding Domain_existing_def by (simp add: d(3) domainAction_cases(1) [OF there(1)] power_ensures [OF ob there(1)])
  then show "ensures view conns (withFinalizer env (Domains env) domain (Domain_finalize env (observed a cl) (domainAction V domain) domain)
      (\<lambda>domain'. if fst (DomainState (domainAction V domain)) then Domain_existing env (observed a cl) (domainAction V domain) domain'
        else Domain_create fuel env (observed a cl) host (domainAction V domain) domain')) V ?Q"
    unfolding withFinalizer_def if_P [OF d(1)]
    by (intro ensures_attempt domains_field.ensures_addFinalizer [OF cooperatesD(1) [OF coop] cooperatesD(8) [OF coop] s d(1)])
      (simp only: sum.case f domains_field.storing_same [OF s] domainAction_cases(1) [OF there(1)] DomainState_actions fst_conv if_True)
qed (use there in auto)

lemma deleted_domain_ensures:
  assumes coop: "cooperates view env" and r: "hosted view env conns V domain"
    and d: "om_DeletionTimestamp (Meta domain) \<noteq> None" "om_Finalizers (Meta domain) = [Finalizer]"
    and x: "\<And>st def. v_doms V (Domain_ResourceName domain) = Some (st, def) \<Longrightarrow> describableDomain (e_xml env) def"
  shows "ensures view conns (Domain_Reconcile fuel env (named domain)) V (\<lambda>r V'. r = (emptyResult, None) \<and>
      V' = V\<lparr>v_doms := (v_doms V)(Domain_ResourceName domain := None), v_Domains := (v_Domains V)(named domain := None)\<rparr>)"
proof (rule Domain_Reconcile_ensures [OF coop r x])
  fix a cl host assume ob: "obeys view (e_xml env) cl"
  let ?n = "Domain_ResourceName domain" and ?c = "observed a cl"
  let ?Q = "\<lambda>r V'. r = (emptyResult, None) \<and> V' = V\<lparr>v_doms := (v_doms V)(?n := None), v_Domains := (v_Domains V)(named domain := None)\<rparr>"
  let ?V = "V\<lparr>v_doms := (v_doms V)(?n := None)\<rparr>"
  note s = r [unfolded hosted_def, THEN conjunct1]
  have fin: "ensures view conns (removeFinalizer env (Domains env) domain) ?V ?Q"
    unfolding removeFinalizer_def finish_def
    by (intro ensures_attempt domains_field.ensures_vanish [OF cooperatesD(8) [OF coop], where obj = domain])
      (use s d in \<open>simp_all add: apimachinery_okD(3) [OF cooperatesD(1) [OF coop]] named_def vanishes_def ensures_ret\<close>)
  have "ensures view conns (Domain_finalize env ?c (domainAction V domain) domain) V ?Q"
  proof (cases "v_doms V ?n")
    case None
    then have "?V = V" by (simp add: fun_upd_idem)
    with fin show ?thesis by (simp add: Domain_finalize_def domainAction_cases(2) [OF None] DomainState_def building_def)
  next
    case (Some p)
    obtain st def where p: "p = (st, def)" by fastforce
    have rest: "ensures view conns (guarded (Dom_Delete ?c (foundDomain ?n st def)) fail (removeFinalizer env (Domains env) domain)) V' ?Q"
      if "V'\<lparr>v_doms := (v_doms V')(?n := None)\<rparr> = ?V" for V'
      by (intro ensures_guarded ensures_Delete [where n = ?n, OF ob]) (simp add: foundDomain_def, simp only: option.case that fin)
    show ?thesis
      unfolding Domain_finalize_def domainAction_cases(1) [OF Some [unfolded p]] prod.case DomainState_actions if_True
    proof (rule ensures_guarded, cases "st = DomainShutoff")
      case True
      show "ensures view conns (if st \<noteq> DomainShutoff then Dom_Shutdown ?c (foundDomain ?n st def) else ret None) V
          (\<lambda>r V'. case r of Some e \<Rightarrow> ensures view conns (fail e) V' ?Q
            | None \<Rightarrow> ensures view conns (guarded (Dom_Delete ?c (foundDomain ?n st def)) fail (removeFinalizer env (Domains env) domain)) V' ?Q)"
        using rest [OF refl] by (simp only: True simp_thms if_False) (rule ensures_ret, simp only: option.case)
    next
      case False
      have "ensures view conns (guarded (Dom_Delete ?c (foundDomain ?n st def)) fail (removeFinalizer env (Domains env) domain))
          (V\<lparr>v_doms := (v_doms V)(?n \<mapsto> (DomainShutoff, def))\<rparr>) ?Q"
        by (rule rest) simp
      then show "ensures view conns (if st \<noteq> DomainShutoff then Dom_Shutdown ?c (foundDomain ?n st def) else ret None) V
          (\<lambda>r V'. case r of Some e \<Rightarrow> ensures view conns (fail e) V' ?Q
            | None \<Rightarrow> ensures view conns (guarded (Dom_Delete ?c (foundDomain ?n st def)) fail (removeFinalizer env (Domains env) domain)) V' ?Q)"
        unfolding if_P [OF False]
        by (intro ensures_Shutdown [OF ob Some [unfolded p] False]) (simp add: foundDomain_def, simp only: option.case)
    qed
  qed
  then show "ensures view conns (withFinalizer env (Domains env) domain (Domain_finalize env ?c (domainAction V domain) domain)
      (\<lambda>domain'. if fst (DomainState (domainAction V domain)) then Domain_existing env ?c (domainAction V domain) domain'
        else Domain_create fuel env ?c host (domainAction V domain) domain')) V ?Q"
    unfolding withFinalizer_def if_not_P [OF d(1)]
    by (simp only: apimachinery_okD(2) [OF cooperatesD(1) [OF coop]] d(2) list.set insert_iff if_True simp_thms)
qed

section \<open>Properties\<close>

text \<open>C17: Where the outside cooperates, one reconciliation of a new domain object returns without an error and leaves on
  the daemon a domain whose definition is exactly the one its spec asks for (\<open>wantedDomain\<close>), running unless the spec says
  otherwise, and the object ready, with the finalizer and a label for every volume it uses; everything else is as it
  was, and a second reconciliation changes nothing. Each disk has its chain of backing stores, which may be as long as
  there is fuel.\<close>

theorem Domain_Reconcile_converges:
  assumes coop: "cooperates view env" and r: "hosted view env (hs_entries s) (view (w_ext s)) domain"
    and new: "om_DeletionTimestamp (Meta domain) = None" "v_doms (view (w_ext s)) (Domain_ResourceName domain) = None"
      "\<not> isTrue env domain ConditionReady"
    and parts: "partsReady fuel env (view (w_ext s)) domain parts"
      "describableDomain (e_xml env) (wantedDomain (e_cast env) domain parts)"
  shows "\<exists>s' d. Domain_Reconcile fuel env (named domain) s = (Returns (emptyResult, None), s') \<and> readyDomain env domain parts d \<and>
    view (w_ext s') = (view (w_ext s))\<lparr>v_doms := (v_doms (view (w_ext s)))(Domain_ResourceName domain \<mapsto>
        (wantedState domain, wantedDomain (e_cast env) domain parts)),
      v_Domains := (v_Domains (view (w_ext s)))(named domain \<mapsto> d)\<rparr> \<and>
    (\<exists>s''. Domain_Reconcile fuel env (named domain) s' = (Returns (emptyResult, None), s'') \<and> view (w_ext s'') = view (w_ext s'))"
proof -
  let ?V = "view (w_ext s)" and ?w = "wantedDomain (e_cast env) domain parts" and ?n = "Domain_ResourceName domain"
  from ensuresD [OF new_domain_ensures [OF assms] refl refl] obtain s' d where
    one: "Domain_Reconcile fuel env (named domain) s = (Returns (emptyResult, None), s')" "hs_entries s' = hs_entries s"
      "readyDomain env domain parts d"
    and V: "view (w_ext s') = ?V\<lparr>v_doms := (v_doms ?V)(?n \<mapsto> (wantedState domain, ?w)), v_Domains := (v_Domains ?V)(named domain \<mapsto> d)\<rparr>"
    by blast
  from one(3) have d: "named d = named domain" "Spec d = Spec domain" "om_Namespace (Meta d) = om_Namespace (Meta domain)"
    "om_DeletionTimestamp (Meta d) = None" "Finalizer \<in> set (om_Finalizers (Meta d))" "isTrue env d ConditionReady"
    by (simp_all add: readyDomain_def named_def)
  have n: "Domain_ResourceName d = ?n" by (simp add: Domain_ResourceName_def d(2))
  have "hosted view env (hs_entries s') (view (w_ext s')) d"
    using r by (simp add: hosted_def V one(2) d(1-3) Domain_HostRef_def)
  moreover have "v_doms (view (w_ext s')) (Domain_ResourceName d) = Some (wantedState domain, ?w)" by (simp add: V n)
  ultimately have "ensures view (hs_entries s') (Domain_Reconcile fuel env (named d)) (view (w_ext s')) (\<lambda>r V'. r = (emptyResult, None) \<and>
      V' = (view (w_ext s'))\<lparr>v_doms := (v_doms (view (w_ext s')))(Domain_ResourceName d \<mapsto> (powered d (wantedState domain), ?w))\<rparr>)"
    by (rule existing_domain_ensures [OF coop _ _ parts(2) d(4-6)])
  moreover have "powered d (wantedState domain) = wantedState domain"
    by (simp add: powered_def wantedState_def d(2) states_distinct)
  moreover have "(view (w_ext s'))\<lparr>v_doms := (v_doms (view (w_ext s')))(?n \<mapsto> (wantedState domain, ?w))\<rparr> = view (w_ext s')"
    by (simp add: V)
  ultimately have "ensures view (hs_entries s') (Domain_Reconcile fuel env (named domain)) (view (w_ext s'))
      (\<lambda>r V'. r = (emptyResult, None) \<and> V' = view (w_ext s'))"
    by (simp only: n d(1))
  from ensuresD [OF this refl refl] one V show ?thesis by (metis (no_types, lifting))
qed



end
