(* ===== verification/Sandbox.thy ===== *)
theory Sandbox
  imports UploadProgress DomainProgress "HOL-Library.AList"
begin

text \<open>
  An outside that cooperates, to show that one exists: an API server that keeps its volumes, images and domains in lists, next
  to the fake daemon of the repository. The theorems about what reconciliations achieve are applied to it.
  It models nothing of the program but the fake.
\<close>

section \<open>The daemon\<close>

record sandbox =
  sb_volumes :: "(NamespacedName \<times> Volume) list"
  sb_cloudInits :: "(NamespacedName \<times> CloudInit) list"
  sb_domains :: "(NamespacedName \<times> Domain) list"
  sb_fake :: Fake

definition inFake :: "(Fake, 'a) prog \<Rightarrow> (sandbox, 'a) prog" where
  "inFake m w = (case m (sb_fake w) of (r, f) \<Rightarrow> (r, w\<lparr>sb_fake := f\<rparr>))"

lemma inFake_same: "m (sb_fake w) = (r, sb_fake w) \<Longrightarrow> inFake m w = (r, w)"
  by (simp add: inFake_def)

lemma inFake_moves: "m (sb_fake w) = (r, f) \<Longrightarrow> inFake m w = (r, w\<lparr>sb_fake := f\<rparr>)"
  by (simp add: inFake_def)

definition sandboxClient :: "xmlcodec \<Rightarrow> safecast \<Rightarrow> sandbox Client" where
  "sandboxClient x sc = (let c = fakeClient x sc in \<lparr>
     Capabilities = inFake (Capabilities c),
     Connect = inFake (Connect c),
     Disconnected = inFake (Disconnected c),
     Disconnect = inFake (Disconnect c),
     DomainBlockResize = (\<lambda>d p b f. inFake (DomainBlockResize c d p b f)),
     DomainCreate = (\<lambda>d. inFake (DomainCreate c d)),
     DomainDefineXML = (\<lambda>xml. inFake (DomainDefineXML c xml)),
     DomainGetState = (\<lambda>d f. inFake (DomainGetState c d f)),
     DomainGetXMLDesc = (\<lambda>d f. inFake (DomainGetXMLDesc c d f)),
     DomainLookupByName = (\<lambda>n. inFake (DomainLookupByName c n)),
     DomainShutdown = (\<lambda>d. inFake (DomainShutdown c d)),
     DomainUndefineFlags = (\<lambda>d f. inFake (DomainUndefineFlags c d f)),
     IsConnected = inFake (IsConnected c),
     NetworkIsActive = (\<lambda>n. inFake (NetworkIsActive c n)),
     NetworkLookupByName = (\<lambda>n. inFake (NetworkLookupByName c n)),
     NodeDeviceGetXMLDesc = (\<lambda>n f. inFake (NodeDeviceGetXMLDesc c n f)),
     NodeDeviceIsActive = (\<lambda>n. inFake (NodeDeviceIsActive c n)),
     NodeDeviceLookupByName = (\<lambda>n. inFake (NodeDeviceLookupByName c n)),
     NodeGetMemoryStats = (\<lambda>n k f. inFake (NodeGetMemoryStats c n k f)),
     StoragePoolGetInfo = (\<lambda>p. inFake (StoragePoolGetInfo c p)),
     StoragePoolIsActive = (\<lambda>p. inFake (StoragePoolIsActive c p)),
     StoragePoolLookupByName = (\<lambda>n. inFake (StoragePoolLookupByName c n)),
     StorageVolLookupByKey = (\<lambda>k. inFake (StorageVolLookupByKey c k)),
     StorageVolLookupByName = (\<lambda>p n. inFake (StorageVolLookupByName c p n)),
     StorageVolGetXMLDesc = (\<lambda>v f. inFake (StorageVolGetXMLDesc c v f)),
     StorageVolCreateXML = (\<lambda>p xml f. inFake (StorageVolCreateXML c p xml f)),
     StorageVolUpload = (\<lambda>v bs off len f. inFake (StorageVolUpload c v bs off len f)),
     StorageVolResize = (\<lambda>v b f. inFake (StorageVolResize c v b f)),
     StorageVolDelete = (\<lambda>v f. inFake (StorageVolDelete c v f))\<rparr>)"

lemmas sandbox_select = sandboxClient_def Let_def Client.simps inFake_def

interpretation sandbox_domains: domain_host x "sandboxClient x sc" "\<lambda>w. fakeDomains (sb_fake w)" for x sc
proof
  fix s :: sandbox and n st d flags
  assume d: "fakeDomains (sb_fake s) n = Some (st, d)"
  show "DomainLookupByName (sandboxClient x sc) n s = (Returns (Inr \<lparr>ld_Name = n\<rparr>), s)"
    unfolding sandbox_select by (simp add: fake_domains.lookup [OF d])
  show "\<exists>reason. DomainGetState (sandboxClient x sc) \<lparr>ld_Name = n\<rparr> flags s = (Returns (Inr (st, reason)), s)"
    unfolding sandbox_select using fake_domains.state [OF d, of x sc flags] by force
  show "DomainGetXMLDesc (sandboxClient x sc) \<lparr>ld_Name = n\<rparr> flags s = (Returns (dom_Marshal x d), s)"
    unfolding sandbox_select by (simp add: fake_domains.describe [OF d])
  show "\<exists>s'. DomainCreate (sandboxClient x sc) \<lparr>ld_Name = n\<rparr> s = (Returns None, s') \<and>
      fakeDomains (sb_fake s') = (fakeDomains (sb_fake s))(n \<mapsto> (DomainRunning, d))" if "st \<noteq> DomainRunning"
    unfolding sandbox_select using fake_domains.starts [OF d that, of x sc] by force
  show "\<exists>s'. DomainShutdown (sandboxClient x sc) \<lparr>ld_Name = n\<rparr> s = (Returns None, s') \<and>
      fakeDomains (sb_fake s') = (fakeDomains (sb_fake s))(n \<mapsto> (DomainShutoff, d))" if "st \<noteq> DomainShutoff"
    unfolding sandbox_select using fake_domains.stops [OF d that, of x sc] by force
next
  fix s :: sandbox and n assume d: "fakeDomains (sb_fake s) n = None"
  show "\<exists>err. isCode ErrNoDomain err \<and> DomainLookupByName (sandboxClient x sc) n s = (Returns (Inl err), s)"
    unfolding sandbox_select using fake_domains.missing [OF d, of x sc] by force
next
  fix s :: sandbox and d xml assume d: "dom_Unmarshal x xml = Inr d" "fakeDomains (sb_fake s) (dom_Name d) = None"
  show "\<exists>s'. DomainDefineXML (sandboxClient x sc) xml s = (Returns (Inr \<lparr>ld_Name = dom_Name d\<rparr>), s') \<and>
      fakeDomains (sb_fake s') = (fakeDomains (sb_fake s))(dom_Name d \<mapsto> (DomainShutoff, d))"
    unfolding sandbox_select using fake_domains.defines_ [OF d, of sc] by force
next
  fix s :: sandbox and n flags
  show "\<exists>s'. DomainUndefineFlags (sandboxClient x sc) \<lparr>ld_Name = n\<rparr> flags s = (Returns None, s') \<and>
      fakeDomains (sb_fake s') = (fakeDomains (sb_fake s))(n := None)"
    unfolding sandbox_select using fake_domains.undefines [of x sc n flags "sb_fake s"] by force
qed

interpretation sandbox_volumes: volume_host x "sandboxClient x sc" "\<lambda>w. knownVolumes (sb_fake w)" for x sc
proof
  fix s :: sandbox and p m assume p: "knownVolumes (sb_fake s) p = Some m"
  show "StoragePoolLookupByName (sandboxClient x sc) p s = (Returns (Inr \<lparr>lsp_Name = p\<rparr>), s)"
    unfolding sandbox_select by (simp add: known_volumes.pool [OF p])
  fix n v k flags
  show "StorageVolLookupByName (sandboxClient x sc) \<lparr>lsp_Name = p\<rparr> n s =
      (Returns (Inr \<lparr>lsv_Pool = p, lsv_Name = n, lsv_Key = sv_Key v\<rparr>), s)" if "m n = Some v"
    unfolding sandbox_select by (simp add: known_volumes.lookup [OF p that])
  show "\<exists>err. isCode ErrNoStorageVol err \<and> StorageVolLookupByName (sandboxClient x sc) \<lparr>lsp_Name = p\<rparr> n s = (Returns (Inl err), s)"
    if "m n = None"
    unfolding sandbox_select using known_volumes.missing [OF p that, of x sc] by force
  show "StorageVolGetXMLDesc (sandboxClient x sc) \<lparr>lsv_Pool = p, lsv_Name = n, lsv_Key = k\<rparr> flags s = (Returns (vol_Marshal x v), s)"
    if "m n = Some v"
    unfolding sandbox_select by (simp add: known_volumes.describe [OF p that])
  show "\<exists>s'. StorageVolCreateXML (sandboxClient x sc) \<lparr>lsp_Name = p\<rparr> xml flags s =
      (Returns (Inr \<lparr>lsv_Pool = p, lsv_Name = sv_Name v, lsv_Key = sv_Key v\<rparr>), s') \<and>
      knownVolumes (sb_fake s') = (knownVolumes (sb_fake s))(p \<mapsto> m(sv_Name v \<mapsto> v))"
    if "vol_Unmarshal x xml = Inr v" "m (sv_Name v) = None" for xml
    unfolding sandbox_select using known_volumes.creates [OF p that, of sc flags] by force
  show "\<exists>s'. StorageVolResize (sandboxClient x sc) \<lparr>lsv_Pool = p, lsv_Name = n, lsv_Key = k\<rparr> b flags s = (Returns None, s') \<and>
      knownVolumes (sb_fake s') = (knownVolumes (sb_fake s))(p \<mapsto> m(n \<mapsto> v\<lparr>sv_Capacity := Some \<lparr>svs_Unit = ''bytes'', svs_Value = b\<rparr>\<rparr>))"
    if "m n = Some v" "sv_Capacity v \<noteq> None" for b
    unfolding sandbox_select using known_volumes.resizes [OF p that, of x sc k b flags] by force
  show "\<exists>s'. StorageVolDelete (sandboxClient x sc) \<lparr>lsv_Pool = p, lsv_Name = n, lsv_Key = k\<rparr> flags s = (Returns None, s') \<and>
      knownVolumes (sb_fake s') = (knownVolumes (sb_fake s))(p \<mapsto> m(n := None))" if "m n = Some v"
    unfolding sandbox_select using known_volumes.deletes [OF p that, of x sc k flags] by force
qed

interpretation sandbox_keys: keyed_volume_host x "sandboxClient x sc" "\<lambda>w. knownVolumes (sb_fake w)" for x sc
proof
  fix s :: sandbox and key v assume "heldAs (knownVolumes (sb_fake s)) key v"
  from keyed_fake.keyed [OF this, of x sc]
  show "\<exists>p m n v'. knownVolumes (sb_fake s) p = Some m \<and> m n = Some v' \<and> sv_Key v' = key \<and>
      StorageVolLookupByKey (sandboxClient x sc) key s = (Returns (Inr \<lparr>lsv_Pool = p, lsv_Name = n, lsv_Key = key\<rparr>), s)"
    unfolding sandbox_select by force
qed

interpretation sandbox_uploads: uploading_volume_host x "sandboxClient x sc" "\<lambda>w. knownVolumes (sb_fake w)" for x sc
proof
  fix s :: sandbox and p m n v k bs off len flags
  assume h: "knownVolumes (sb_fake s) p = Some m" "m n = Some v" "sv_Capacity v \<noteq> None"
  show "\<exists>s' cap. StorageVolUpload (sandboxClient x sc) \<lparr>lsv_Pool = p, lsv_Name = n, lsv_Key = k\<rparr> bs off len flags s = (Returns None, s') \<and>
      knownVolumes (sb_fake s') = (knownVolumes (sb_fake s))(p \<mapsto> m(n \<mapsto> v\<lparr>sv_Capacity := cap\<rparr>))"
    unfolding sandbox_select using uploading_fake.uploads [OF h, of x sc k bs off len flags] by force
qed

section \<open>The API server\<close>

text \<open>
  The objects of a kind, in a list: a client that stores as \<open>stores\<close> asks, and one of a kind that nobody here changes.
\<close>

definition kept :: "('w \<Rightarrow> (NamespacedName \<times> ('spec, 'st) Object) list)
    \<Rightarrow> (((NamespacedName \<times> ('spec, 'st) Object) list \<Rightarrow> (NamespacedName \<times> ('spec, 'st) Object) list) \<Rightarrow> 'w \<Rightarrow> 'w)
    \<Rightarrow> ('w, ('spec, 'st) Object) kclient" where
  "kept objs upd = (let gone = Inl (StatusError ''NotFound'' ''not found'') in \<lparr>
     k_Get = (\<lambda>nn w. (Returns (case map_of (objs w) nn of None \<Rightarrow> gone | Some obj \<Rightarrow> Inr obj), w)),
     k_List = (\<lambda>sel w. (Returns (Inr (filter (\<lambda>obj. case sel of None \<Rightarrow> True | Some req \<Rightarrow> carries obj req)
       (map snd (AList.clearjunk (objs w))))), w)),
     k_Update = (\<lambda>obj w. case map_of (objs w) (named obj) of None \<Rightarrow> (Returns gone, w)
       | Some old \<Rightarrow> (Returns (Inr (obj\<lparr>Status := Status old\<rparr>)),
           upd (if vanishes obj then AList.delete (named obj) else AList.update (named obj) (obj\<lparr>Status := Status old\<rparr>)) w)),
     k_StatusUpdate = (\<lambda>obj w. case map_of (objs w) (named obj) of None \<Rightarrow> (Returns gone, w)
       | Some old \<Rightarrow> (Returns (Inr (old\<lparr>Status := Status obj\<rparr>)),
           upd (AList.update (named obj) (old\<lparr>Status := Status obj\<rparr>)) w))\<rparr>)"

definition fixed :: "(NamespacedName \<rightharpoonup> 'o) \<Rightarrow> ('w, 'o) kclient" where
  "fixed objs = (let e = StatusError ''NotFound'' ''not found'' in
     \<lparr>k_Get = (\<lambda>nn. ret (case objs nn of None \<Rightarrow> Inl e | Some obj \<Rightarrow> Inr obj)), k_List = (\<lambda>_. ret (Inl e)),
      k_Update = (\<lambda>_. ret (Inl e)), k_StatusUpdate = (\<lambda>_. ret (Inl e))\<rparr>)"

lemma fixed_gives: "(\<And>w. objs (view w) = m) \<Longrightarrow> gives view objs (fixed m)"
  by (simp add: gives_def fixed_def Let_def ret_def)

lemma kept_stores:
  fixes objs :: "'w \<Rightarrow> (NamespacedName \<times> ('spec, 'st) Object) list"
  assumes objs: "\<And>w. vobjs (view w) = map_of (objs w)"
    and upd: "\<And>f g w. map_of (f (objs w)) = g (map_of (objs w)) \<Longrightarrow> view (upd f w) = put g (view w)"
  shows "stores view vobjs put (kept objs upd)"
proof -
  have deleted: "view (upd (AList.delete nn) w) = put (\<lambda>m. m(nn := None)) (view w)" for nn w
    by (rule upd) (simp add: delete_conv')
  have updated: "view (upd (AList.update nn obj) w) = put (\<lambda>m. m(nn \<mapsto> obj)) (view w)" for nn obj w
    by (rule upd) (rule update_conv')
  have listed: "snd ` {p \<in> set (AList.clearjunk xs). carries (snd p) req} = {obj \<in> ran (map_of xs). carries obj req}"
    for xs :: "(NamespacedName \<times> ('spec, 'st) Object) list" and req
    by (auto simp: ran_map_of)
  show ?thesis
    unfolding stores_def gives_def
    by (simp add: kept_def Let_def objs deleted updated filter_map comp_def listed)
qed

section \<open>The view\<close>

text \<open>The objects that stay as they are are given once and for all.\<close>

record fixtures =
  fx_Hosts :: "NamespacedName \<rightharpoonup> Host"
  fx_Pools :: "NamespacedName \<rightharpoonup> Pool"
  fx_Networks :: "NamespacedName \<rightharpoonup> Network"
  fx_PCIDevices :: "NamespacedName \<rightharpoonup> PCIDevice"

definition sandboxView :: "fixtures \<Rightarrow> sandbox \<Rightarrow> surroundings" where
  "sandboxView fx w = \<lparr>v_Hosts = fx_Hosts fx, v_Pools = fx_Pools fx, v_Networks = fx_Networks fx,
     v_PCIDevices = fx_PCIDevices fx, v_Volumes = map_of (sb_volumes w), v_CloudInits = map_of (sb_cloudInits w),
     v_Domains = map_of (sb_domains w), v_up = (\<not> f_disconnected (sb_fake w)),
     v_vols = knownVolumes (sb_fake w), v_doms = fakeDomains (sb_fake w)\<rparr>"

definition sandboxEnv :: "fixtures \<Rightarrow> xmlcodec \<Rightarrow> sandbox env" where
  "sandboxEnv fx x = (exampleEnv (sandboxClient x safecast_clamping))\<lparr>
     e_Hosts := fixed (fx_Hosts fx), e_Pools := fixed (fx_Pools fx), e_Networks := fixed (fx_Networks fx),
     e_PCIDevices := fixed (fx_PCIDevices fx), e_CloudInits := kept sb_cloudInits sb_cloudInits_update,
     e_Volumes := kept sb_volumes sb_volumes_update, e_Domains := kept sb_domains sb_domains_update, e_xml := x\<rparr>"

lemma sandbox_cooperates: "cooperates (sandboxView fx) (sandboxEnv fx x)"
  unfolding cooperates_def
  by (intro conjI allI)
    (auto simp: sandboxEnv_def exampleEnv_def sandboxView_def ret_def apimachinery_ref_ok
      intro!: fixed_gives kept_stores)

text \<open>The daemon obeys: a call on volumes leaves the domains and the connection, one on domains the pools.\<close>

lemma inFake_quiet:
  assumes "moves (same g) m" and "\<And>f (w :: sandbox). g f = g (sb_fake w) \<Longrightarrow> h (w\<lparr>sb_fake := f\<rparr>) = h w"
  shows "moves (same h) (inFake m)"
proof (rule movesI)
  fix w :: sandbox
  have "g (snd (m (sb_fake w))) = g (sb_fake w)" using assms(1) by (simp add: moves_def same_def)
  from assms(2) [OF this] show "same h w (snd (inFake m w))" by (simp add: inFake_def same_def split_beta)
qed

abbreviation onlyVolumes :: "(Fake, 'a) prog \<Rightarrow> bool" where
  "onlyVolumes \<equiv> moves (same (\<lambda>f. (f_domains f, f_disconnected f)))"

abbreviation onlyDomains :: "(Fake, 'a) prog \<Rightarrow> bool" where
  "onlyDomains \<equiv> moves (same (\<lambda>f. (f_pools f, f_disconnected f)))"

lemma onlyVolumes_view: "onlyVolumes m \<Longrightarrow> moves (same (\<lambda>w. withoutVols (sandboxView fx w))) (inFake m)"
  by (erule inFake_quiet) (simp add: withoutVols_def sandboxView_def fakeDomains_def)

lemma onlyDomains_view: "onlyDomains m \<Longrightarrow> moves (same (\<lambda>w. withoutDoms (sandboxView fx w))) (inFake m)"
  by (erule inFake_quiet) (simp add: withoutDoms_def sandboxView_def knownVolumes_def wellNamed_def fakeVolumes_def)

lemma onlyVolumes_calls:
  "onlyVolumes (fakeStorageVolCreateXML x p xml fl)" "onlyVolumes (fakeStorageVolDelete v fl)"
  "onlyVolumes (fakeStorageVolResize v b fl)" "onlyVolumes (fakeStorageVolUpload v bs off len fl)"
  by (auto simp: moves_def same_def fakeStorageVolCreateXML_def createVol_def fakeStorageVolDelete_def deleteVol_def
      fakeStorageVolResize_def fakeStorageVolUpload_def withVolume_def setCapacityBytes_def setVolume_def attempt_def andThen_def ret_def panic_def
      split: sum.split option.split)

lemma onlyDomains_calls:
  "onlyDomains (fakeDomainDefineXML x xml)" "onlyDomains (fakeDomainCreate d)" "onlyDomains (fakeDomainShutdown d)"
  "onlyDomains (fakeDomainUndefineFlags d fl)"
  by (auto simp: moves_def same_def fakeDomainDefineXML_def fakeDomainCreate_def fakeDomainShutdown_def fakeDomainUndefineFlags_def
      setDomainState_def split: sum.split)

interpretation sandbox_host: libvirt_host x "sandboxClient x sc" "\<lambda>w. fakeDomains (sb_fake w)" "\<lambda>w. knownVolumes (sb_fake w)" for x sc
  by unfold_locales

lemma sandbox_obeys: "obeys (sandboxView fx) x (sandboxClient x sc)"
proof -
  have host: "libvirt_host x (sandboxClient x sc) (\<lambda>w. v_doms (sandboxView fx w)) (\<lambda>w. v_vols (sandboxView fx w))"
    unfolding sandboxView_def surroundings.simps by (rule sandbox_host.libvirt_host_axioms)
  have uploads: "uploading_volume_host x (sandboxClient x sc) (\<lambda>w. v_vols (sandboxView fx w))"
    unfolding sandboxView_def surroundings.simps by (rule sandbox_uploads.uploading_volume_host_axioms)
  have keys: "keyed_volume_host x (sandboxClient x sc) (\<lambda>w. v_vols (sandboxView fx w))"
    unfolding sandboxView_def surroundings.simps by (rule sandbox_keys.keyed_volume_host_axioms)
  have up: "\<exists>w'. IsConnected (sandboxClient x sc) w = (Returns (v_up (sandboxView fx w)), w') \<and> sandboxView fx w' = sandboxView fx w" for w
    by (simp add: sandbox_select fakeClient_def fakeIsConnected_def sandboxView_def)
  show ?thesis
    unfolding obeys_def
    by (intro conjI allI host keys uploads up) (simp_all add: sandboxClient_def fakeClient_def Let_def
        onlyVolumes_view [OF onlyVolumes_calls(1)] onlyVolumes_view [OF onlyVolumes_calls(2)] onlyVolumes_view [OF onlyVolumes_calls(3)]
        onlyVolumes_view [OF onlyVolumes_calls(4)]
        onlyDomains_view [OF onlyDomains_calls(1)] onlyDomains_view [OF onlyDomains_calls(2)]
        onlyDomains_view [OF onlyDomains_calls(3)] onlyDomains_view [OF onlyDomains_calls(4)])
qed

section \<open>Documents\<close>

text \<open>
  A codec that knows a few definitions, each by its position. The description of a volume is the position of one that is
  the same but for the capacity, and the capacity, with its value in unary.
\<close>

definition capacityText :: "StorageVolumeSize option \<Rightarrow> string" where
  "capacityText cap = (case cap of None \<Rightarrow> ''''
     | Some sz \<Rightarrow> CHR '':'' # replicate (unat (svs_Value sz)) CHR ''x'' @ CHR '':'' # svs_Unit sz)"

definition textCapacity :: "string \<Rightarrow> StorageVolumeSize option" where
  "textCapacity s = (case s of [] \<Rightarrow> None | _ # t \<Rightarrow> Some \<lparr>svs_Unit = tl (dropWhile ((=) CHR ''x'') t),
     svs_Value = of_nat (length (takeWhile ((=) CHR ''x'') t))\<rparr>)"

lemma unary: "c \<noteq> CHR ''x'' \<Longrightarrow> takeWhile ((=) CHR ''x'') (replicate n CHR ''x'' @ c # t) = replicate n CHR ''x''"
  "c \<noteq> CHR ''x'' \<Longrightarrow> dropWhile ((=) CHR ''x'') (replicate n CHR ''x'' @ c # t) = c # t"
  by (induction n) simp_all

lemma capacity_text: "textCapacity (capacityText cap) = cap"
  by (cases cap) (simp_all add: textCapacity_def capacityText_def unary)

definition uncapped :: "StorageVolume \<Rightarrow> StorageVolume" where
  "uncapped v = v\<lparr>sv_Capacity := None\<rparr>"

definition knowing :: "StorageVolume list \<Rightarrow> DomainXML list \<Rightarrow> xmlcodec" where
  "knowing vs ds = (let e = PlainError ''xml'' in
     exampleCodec\<lparr>
       vol_Marshal := (\<lambda>v. case IndexFunc (\<lambda>u. uncapped u = uncapped v) vs of None \<Rightarrow> Inl e
         | Some i \<Rightarrow> Inr (replicate i CHR ''x'' @ capacityText (sv_Capacity v))),
       vol_Unmarshal := (\<lambda>s. let i = length (takeWhile ((=) CHR ''x'') s) in
         if i < length vs then Inr ((vs ! i)\<lparr>sv_Capacity := textCapacity (dropWhile ((=) CHR ''x'') s)\<rparr>) else Inl e),
       dom_Marshal := (\<lambda>d. case IndexFunc (\<lambda>u. u = d) ds of None \<Rightarrow> Inl e | Some i \<Rightarrow> Inr (replicate i CHR ''x'')),
       dom_Unmarshal := (\<lambda>s. if length s < length ds then Inr (ds ! length s) else Inl e)\<rparr>)"

lemma IndexFunc_member: "a \<in> set xs \<Longrightarrow> \<exists>i. IndexFunc (\<lambda>u. h u = h a) xs = Some i \<and> i < length xs \<and> h (xs ! i) = h a"
proof (cases "IndexFunc (\<lambda>u. h u = h a) xs")
  case None
  then show "a \<in> set xs \<Longrightarrow> ?thesis" by (auto simp: IndexFunc_None_iff)
qed (auto dest: IndexFunc_Some)

lemma capacity_unary: "takeWhile ((=) CHR ''x'') (replicate i CHR ''x'' @ capacityText cap) = replicate i CHR ''x''"
  "dropWhile ((=) CHR ''x'') (replicate i CHR ''x'' @ capacityText cap) = capacityText cap"
proof -
  have "takeWhile ((=) CHR ''x'') (replicate i CHR ''x'') = replicate i CHR ''x''"
    "dropWhile ((=) CHR ''x'') (replicate i CHR ''x'') = []" by (induction i) simp_all
  then show "takeWhile ((=) CHR ''x'') (replicate i CHR ''x'' @ capacityText cap) = replicate i CHR ''x''"
    "dropWhile ((=) CHR ''x'') (replicate i CHR ''x'' @ capacityText cap) = capacityText cap"
    by (cases cap; simp add: capacityText_def unary)+
qed

lemma knowing_sized: "v \<in> set vs \<Longrightarrow> describable (knowing vs ds) (v\<lparr>sv_Capacity := cap\<rparr>)"
proof -
  assume v: "v \<in> set vs"
  let ?v = "v\<lparr>sv_Capacity := cap\<rparr>"
  have "uncapped ?v = uncapped v" by (simp add: uncapped_def)
  with IndexFunc_member [OF v, of uncapped] obtain i where
    i: "IndexFunc (\<lambda>u. uncapped u = uncapped ?v) vs = Some i" "i < length vs" "uncapped (vs ! i) = uncapped v" by auto
  from arg_cong [OF i(3), of "sv_Capacity_update (\<lambda>_. cap)"] have "(vs ! i)\<lparr>sv_Capacity := cap\<rparr> = ?v" by (simp add: uncapped_def)
  with i(1,2) show ?thesis
    by (simp add: describable_def knowing_def Let_def capacity_unary capacity_text)
qed

lemma knowing_describable:
  "v \<in> set vs \<Longrightarrow> describable (knowing vs ds) v" "d \<in> set ds \<Longrightarrow> describableDomain (knowing vs ds) d"
proof -
  have "v\<lparr>sv_Capacity := sv_Capacity v\<rparr> = v" by simp
  with knowing_sized [of v vs ds "sv_Capacity v"] show "v \<in> set vs \<Longrightarrow> describable (knowing vs ds) v" by simp
  show "d \<in> set ds \<Longrightarrow> describableDomain (knowing vs ds) d"
    using IndexFunc_member [of d ds "\<lambda>d. d"] by (auto simp: describableDomain_def knowing_def Let_def)
qed

section \<open>Objects\<close>

text \<open>
  A pool with three images, a plain one, one on top of it and that of a cloud-init, and the objects that describe them; a
  new volume on top of the first, and a domain that has the others as its disks, an interface and a PCI device.
\<close>

definition baseImage :: StorageVolume where
  "baseImage = emptyStorageVolume\<lparr>sv_Type := ''file'', sv_Name := ''base0'', sv_Key := ''/base0'',
     sv_Capacity := Some \<lparr>svs_Unit = ''GiB'', svs_Value = 1\<rparr>,
     sv_Target := Some \<lparr>svt_Path = ''/base0'', svt_Format = Some \<lparr>svtf_Type = ''qcow2''\<rparr>\<rparr>\<rparr>"

definition topImage :: StorageVolume where
  "topImage = emptyStorageVolume\<lparr>sv_Type := ''file'', sv_Name := ''top0'', sv_Key := ''/top0'',
     sv_Capacity := Some \<lparr>svs_Unit = ''GiB'', svs_Value = 1\<rparr>,
     sv_Target := Some \<lparr>svt_Path = ''/top0'', svt_Format = Some \<lparr>svtf_Type = ''qcow2''\<rparr>\<rparr>,
     sv_BackingStore := Some \<lparr>svb_Path = ''/base0'', svb_Format = Some \<lparr>svtf_Type = ''qcow2''\<rparr>\<rparr>\<rparr>"

text \<open>What a domain sees below the image on top.\<close>

definition baseBelow :: DomainDiskBackingStore where
  "baseBelow = BackingStore (Some ''qcow2'') (Some (emptyDiskSource\<lparr>dds_File := Some \<lparr>ddsf_File = ''/base0''\<rparr>\<rparr>)) None"

definition seedImage :: StorageVolume where
  "seedImage = emptyStorageVolume\<lparr>sv_Type := ''file'', sv_Name := ''ci0'', sv_Key := ''/ci0'',
     sv_Target := Some \<lparr>svt_Path = ''/ci0'', svt_Format = Some \<lparr>svtf_Type = ''iso''\<rparr>\<rparr>\<rparr>"

definition baseVolume :: Volume where
  "baseVolume = \<lparr>Meta = exampleMeta ''base'',
     Spec = \<lparr>xr_Name = ''base0'', xr_GenerateName = '''', vsp_Format = ''qcow2'',
             vsp_Size = Some \<lparr>vs_Unit = ''GiB'', vs_Value = 1\<rparr>, vsp_PoolRef = exampleRef ''pool'',
             vsp_Source = None, vsp_BackingStoreRef = None\<rparr>,
     Status = \<lparr>Conditions = exampleReady, vst_Pool = ''default'', vst_Host = ''host''\<rparr>\<rparr>"

definition topVolume :: Volume where
  "topVolume = baseVolume\<lparr>Meta := exampleMeta ''top'', Spec := (Spec baseVolume)\<lparr>xr_Name := ''top0'',
     vsp_BackingStoreRef := Some (exampleRef ''base'')\<rparr>\<rparr>"

definition newVolume :: Volume where
  "newVolume = \<lparr>Meta = (exampleMeta ''vol'')\<lparr>om_Finalizers := []\<rparr>,
     Spec = \<lparr>xr_Name = ''vol0'', xr_GenerateName = '''', vsp_Format = ''qcow2'',
             vsp_Size = None, vsp_PoolRef = exampleRef ''pool'',
             vsp_Source = None, vsp_BackingStoreRef = Some (exampleRef ''base'')\<rparr>,
     Status = \<lparr>Conditions = [], vst_Pool = '''', vst_Host = ''''\<rparr>\<rparr>"

definition passedDevice :: PCIDevice where
  "passedDevice = examplePCIDevice\<lparr>Status := \<lparr>Conditions = exampleReady,
     pdst_Address = Some \<lparr>pa_Domain = 0, pa_Bus = 3, pa_Slot = 0, pa_Function = 1\<rparr>\<rparr>\<rparr>"

definition newDomain :: Domain where
  "newDomain = \<lparr>Meta = (exampleMeta ''dom'')\<lparr>om_Finalizers := []\<rparr>,
     Spec = \<lparr>xr_Name = ''dom0'', xr_GenerateName = '''', ds_HostRef = exampleRef ''host'',
             ds_VCPU = \<lparr>dv_Value = 2, dv_Placement = Some ''static''\<rparr>,
             ds_CPU = Some \<lparr>dc_Mode = Some ''host-passthrough'', dc_CacheMode = None\<rparr>,
             ds_Memory = \<lparr>dm_Unit = ''GiB'', dm_Value = 4\<rparr>, ds_SCSIQueues = Some 2,
             ds_Disks = [\<lparr>dd_VolumeRef = exampleRef ''top'', dd_WWN = None\<rparr>],
             ds_Interfaces = [\<lparr>di_NetworkRef = exampleRef ''net'', di_Queues = Some 2, di_MacAddress = None\<rparr>],
             ds_CloudInit = Some \<lparr>dci_CloudInitRef = Some (exampleRef ''ci'')\<rparr>, ds_NumatuneMode = None,
             ds_PCIPassthrough = [\<lparr>dpp_PCIDeviceRef = exampleRef ''pci''\<rparr>],
             ds_UEFI = Some True, ds_SecureBoot = Some False, ds_Shutoff = None\<rparr>,
     Status = \<lparr>Conditions = []\<rparr>\<rparr>"

abbreviation atNs :: "string \<Rightarrow> NamespacedName" where
  "atNs n \<equiv> \<lparr>nn_Name = n, nn_Namespace = ''ns''\<rparr>"

definition sandboxFixtures :: fixtures where
  "sandboxFixtures = \<lparr>fx_Hosts = [atNs ''host'' \<mapsto> exampleHost], fx_Pools = [atNs ''pool'' \<mapsto> examplePool],
     fx_Networks = [atNs ''net'' \<mapsto> exampleNetwork], fx_PCIDevices = [atNs ''pci'' \<mapsto> passedDevice]\<rparr>"

definition sandboxFake :: Fake where
  "sandboxFake = (WithPool \<lparr>spx_Name = ''default'', spx_Capacity = None, spx_Allocation = None, spx_Available = None\<rparr> 1
     [baseImage, seedImage, topImage] fakeNew)\<lparr>f_disconnected := False\<rparr>"

definition sandboxVolumes :: "string \<rightharpoonup> StorageVolume" where
  "sandboxVolumes = [''top0'' \<mapsto> topImage, ''ci0'' \<mapsto> seedImage, ''base0'' \<mapsto> baseImage]"

text \<open>The operator with its one connection, to the sandbox.\<close>

definition sandboxState :: "xmlcodec \<Rightarrow> sandbox \<Rightarrow> sandbox sys" where
  "sandboxState x w = exampleState (sandboxClient x safecast_clamping) w"

abbreviation sandboxSees :: "sandbox \<Rightarrow> surroundings" where
  "sandboxSees \<equiv> sandboxView sandboxFixtures"

lemma sandboxState_select [simp]:
  "w_ext (sandboxState x w) = w"
  "hs_entries (sandboxState x w) = [''u-host'' \<mapsto> \<lparr>he_addr = 0, he_generation = 1, he_client = sandboxClient x safecast_clamping\<rparr>]"
  by (simp_all add: sandboxState_def exampleState_def)

lemma sandboxEnv_select [simp]:
  "e_xml (sandboxEnv fx x) = x" "e_cast (sandboxEnv fx x) = safecast_clamping" "e_api (sandboxEnv fx x) = apimachinery_ref"
  by (simp_all add: sandboxEnv_def exampleEnv_def)

lemma sandboxVolumes_held: "knownVolumes sandboxFake ''default'' = Some sandboxVolumes"
  by (simp add: knownVolumes_def wellNamed_def fakeVolumes_def sandboxFake_def WithPool_def fakeNew_def sandboxVolumes_def
      baseImage_def seedImage_def topImage_def emptyStorageVolume_def)

text \<open>Reading the view, which itself stays folded.\<close>

lemma sandboxView_select:
  "v_Hosts (sandboxView fx w) = fx_Hosts fx" "v_Pools (sandboxView fx w) = fx_Pools fx"
  "v_Networks (sandboxView fx w) = fx_Networks fx" "v_PCIDevices (sandboxView fx w) = fx_PCIDevices fx"
  "v_CloudInits (sandboxView fx w) = map_of (sb_cloudInits w)" "v_Volumes (sandboxView fx w) = map_of (sb_volumes w)"
  "v_Domains (sandboxView fx w) = map_of (sb_domains w)" "v_up (sandboxView fx w) = (\<not> f_disconnected (sb_fake w))"
  "v_vols (sandboxView fx w) = knownVolumes (sb_fake w)" "v_doms (sandboxView fx w) = fakeDomains (sb_fake w)"
  by (simp_all add: sandboxView_def)

lemma sandboxFixtures_select:
  "fx_Hosts sandboxFixtures = [atNs ''host'' \<mapsto> exampleHost]" "fx_Pools sandboxFixtures = [atNs ''pool'' \<mapsto> examplePool]"
  "fx_Networks sandboxFixtures = [atNs ''net'' \<mapsto> exampleNetwork]" "fx_PCIDevices sandboxFixtures = [atNs ''pci'' \<mapsto> passedDevice]"
  by (simp_all add: sandboxFixtures_def)

lemma sandboxFake_up: "\<not> f_disconnected sandboxFake"
  by (simp add: sandboxFake_def)

lemmas sandbox_defs = sandboxView_select sandboxFixtures_select sandboxVolumes_held sandboxFake_up sandbox_obeys baseVolume_def topVolume_def newVolume_def newDomain_def
  passedDevice_def example_defs named_def Volume_PoolRef_def Volume_BackingStoreRef_def Pool_HostRef_def Pool_ResourceName_def
  Volume_ResourceName_def CloudInit_ResourceName_def Domain_ResourceName_def Domain_HostRef_def Domain_VolumeRef_def
  Domain_NetworkRef_def Domain_PCIDeviceRef_def Domain_CloudInitRef_def

lemma example_isTrue: "isTrue (sandboxEnv fx x) obj t \<longleftrightarrow>
    (case findCondition (Conditions (Status obj)) t of None \<Rightarrow> False | Some c \<Rightarrow> cond_Status c = ConditionTrue)"
  by (simp add: isTrue_def apimachinery_ref_def)

section \<open>The properties of volumes at work\<close>

definition volumeSandbox :: "Volume \<Rightarrow> sandbox" where
  "volumeSandbox v = \<lparr>sb_volumes = [(atNs ''base'', baseVolume), (atNs ''vol'', v)], sb_cloudInits = [], sb_domains = [], sb_fake = sandboxFake\<rparr>"

lemma volumeSandbox_reachable:
  assumes "v = newVolume \<or> v = deleted (newVolume\<lparr>Meta := exampleMeta ''vol''\<rparr>)"
  shows "reachable sandboxSees (sandboxEnv sandboxFixtures x) (hs_entries (sandboxState x (volumeSandbox v)))
    (sandboxSees (volumeSandbox v)) v examplePool sandboxVolumes"
  using assms unfolding reachable_def
  by (intro conjI) (auto simp: sandbox_defs volumeSandbox_def example_isTrue findCondition_def)

definition goneVolume :: Volume where
  "goneVolume = deleted (newVolume\<lparr>Meta := exampleMeta ''vol''\<rparr>)"

definition volumeCodec :: xmlcodec where
  "volumeCodec = knowing [baseImage, seedImage, wantedVolume safecast_clamping newVolume (Some baseImage)] []"

lemma volumeCodec_describable:
  "describable volumeCodec baseImage" "describable volumeCodec (wantedVolume safecast_clamping newVolume (Some baseImage))"
  by (simp_all add: volumeCodec_def knowing_describable)

lemma baseImage_backs:
  "backedBy (sandboxEnv sandboxFixtures volumeCodec) (sandboxSees (volumeSandbox newVolume)) examplePool newVolume (Some baseImage)"
  unfolding backedBy.simps
  by (intro conjI exI [of _ baseVolume] exI [of _ sandboxVolumes])
    (auto simp: sandbox_defs volumeSandbox_def example_isTrue findCondition_def volumeCodec_describable sandboxVolumes_def
      baseImage_def [THEN arg_cong [of _ _ sv_Target]] baseImage_def [THEN arg_cong [of _ _ sv_Capacity]])

lemma Volume_Reconcile_converges_witness:
  "\<exists>s' v. Volume_Reconcile (sandboxEnv sandboxFixtures volumeCodec) (named newVolume) (sandboxState volumeCodec (volumeSandbox newVolume)) =
      (Returns (emptyResult, None), s') \<and>
    readyVolume (sandboxEnv sandboxFixtures volumeCodec) newVolume examplePool v \<and>
    knownVolumes (sb_fake (w_ext s')) = [''default'' \<mapsto> sandboxVolumes(''vol0'' \<mapsto> wantedVolume safecast_clamping newVolume (Some baseImage))]"
proof -
  let ?env = "sandboxEnv sandboxFixtures volumeCodec" and ?s = "sandboxState volumeCodec (volumeSandbox newVolume)"
  have held: "knownVolumes sandboxFake = [''default'' \<mapsto> sandboxVolumes]"
    by (simp add: knownVolumes_def wellNamed_def fakeVolumes_def sandboxFake_def WithPool_def fakeNew_def sandboxVolumes_def
        baseImage_def seedImage_def topImage_def emptyStorageVolume_def fun_eq_iff)
  have "\<exists>s' v. Volume_Reconcile ?env (named newVolume) ?s = (Returns (emptyResult, None), s') \<and> readyVolume ?env newVolume examplePool v \<and>
      label_of (Meta v) PoolLabel = Some (ref_Name (vsp_PoolRef (Spec newVolume))) \<and>
      sandboxSees (w_ext s') = (sandboxSees (w_ext ?s))\<lparr>v_vols := (v_vols (sandboxSees (w_ext ?s)))(Pool_ResourceName examplePool \<mapsto>
        sandboxVolumes(Volume_ResourceName newVolume \<mapsto> wantedVolume (e_cast ?env) newVolume (Some baseImage))),
        v_Volumes := (v_Volumes (sandboxSees (w_ext ?s)))(named newVolume \<mapsto> v)\<rparr> \<and>
      (\<exists>s''. Volume_Reconcile ?env (named newVolume) s' = (Returns (emptyResult, None), s'') \<and>
        sandboxSees (w_ext s'') = sandboxSees (w_ext s'))"
  proof (rule Volume_Reconcile_converges [OF sandbox_cooperates])
    show "reachable sandboxSees ?env (hs_entries ?s) (sandboxSees (w_ext ?s)) newVolume examplePool sandboxVolumes"
      using volumeSandbox_reachable [of newVolume volumeCodec] by simp
    show "backedBy ?env (sandboxSees (w_ext ?s)) examplePool newVolume (Some baseImage)"
      unfolding sandboxState_select by (rule baseImage_backs)
    show "describable (e_xml ?env) (wantedVolume (e_cast ?env) newVolume (Some baseImage))"
      by (simp add: volumeCodec_describable)
  qed (simp_all add: sandbox_defs sandboxVolumes_def example_isTrue findCondition_def)
  then obtain s' v where "Volume_Reconcile ?env (named newVolume) ?s = (Returns (emptyResult, None), s')"
    "readyVolume ?env newVolume examplePool v" and s': "sandboxSees (w_ext s') = (sandboxSees (w_ext ?s))\<lparr>
      v_vols := (v_vols (sandboxSees (w_ext ?s)))(Pool_ResourceName examplePool \<mapsto>
        sandboxVolumes(Volume_ResourceName newVolume \<mapsto> wantedVolume (e_cast ?env) newVolume (Some baseImage))),
      v_Volumes := (v_Volumes (sandboxSees (w_ext ?s)))(named newVolume \<mapsto> v)\<rparr>"
    by blast
  moreover have "knownVolumes (sb_fake (w_ext s')) = [''default'' \<mapsto> sandboxVolumes(''vol0'' \<mapsto>
      wantedVolume safecast_clamping newVolume (Some baseImage))]"
    using arg_cong [OF s', of v_vols]
    by (simp add: sandboxView_select volumeSandbox_def held Pool_ResourceName_def examplePool_def Volume_ResourceName_def
        newVolume_def [THEN arg_cong [of _ _ Spec]])
  ultimately show ?thesis by blast
qed

lemma Volume_Reconcile_deletes_witness:
  "\<exists>s'. Volume_Reconcile (sandboxEnv sandboxFixtures volumeCodec) (named goneVolume) (sandboxState volumeCodec (volumeSandbox goneVolume)) =
      (Returns (emptyResult, None), s') \<and> map_of (sb_volumes (w_ext s')) = [atNs ''base'' \<mapsto> baseVolume]"
proof -
  let ?env = "sandboxEnv sandboxFixtures volumeCodec" and ?s = "sandboxState volumeCodec (volumeSandbox goneVolume)"
  have "unused ?env (sandboxSees (volumeSandbox goneVolume)) goneVolume"
    by (simp add: unused_def apimachinery_ref_def carries_def label_of_def goneVolume_def sandbox_defs volumeSandbox_def)
  moreover have "reachable sandboxSees ?env (hs_entries ?s) (sandboxSees (w_ext ?s)) goneVolume examplePool sandboxVolumes"
    using volumeSandbox_reachable [of goneVolume volumeCodec] by (simp add: goneVolume_def)
  ultimately have "\<exists>s'. Volume_Reconcile ?env (named goneVolume) ?s = (Returns (emptyResult, None), s') \<and>
      sandboxSees (w_ext s') = (sandboxSees (w_ext ?s))\<lparr>
        v_vols := (v_vols (sandboxSees (w_ext ?s)))(Pool_ResourceName examplePool \<mapsto> sandboxVolumes(Volume_ResourceName goneVolume := None)),
        v_Volumes := (v_Volumes (sandboxSees (w_ext ?s)))(named goneVolume := None)\<rparr>"
    by (intro Volume_Reconcile_deletes [OF sandbox_cooperates])
      (simp_all add: goneVolume_def sandbox_defs sandboxVolumes_def)
  then obtain s' where r: "Volume_Reconcile ?env (named goneVolume) ?s = (Returns (emptyResult, None), s')"
    and s': "sandboxSees (w_ext s') = (sandboxSees (w_ext ?s))\<lparr>
      v_vols := (v_vols (sandboxSees (w_ext ?s)))(Pool_ResourceName examplePool \<mapsto> sandboxVolumes(Volume_ResourceName goneVolume := None)),
      v_Volumes := (v_Volumes (sandboxSees (w_ext ?s)))(named goneVolume := None)\<rparr>"
    by blast
  have "map_of (sb_volumes (w_ext s')) = [atNs ''base'' \<mapsto> baseVolume]"
    using arg_cong [OF s', of v_Volumes] by (simp add: sandbox_defs volumeSandbox_def goneVolume_def fun_eq_iff)
  with r show ?thesis by blast
qed

text \<open>The object of the first image, whose spec now asks for two GiB.\<close>

definition largerVolume :: Volume where
  "largerVolume = baseVolume\<lparr>Spec := (Spec baseVolume)\<lparr>vsp_Size := Some \<lparr>vs_Unit = ''GiB'', vs_Value = 2\<rparr>\<rparr>\<rparr>"

definition growingSandbox :: sandbox where
  "growingSandbox = \<lparr>sb_volumes = [(atNs ''base'', largerVolume)], sb_cloudInits = [], sb_domains = [], sb_fake = sandboxFake\<rparr>"

definition growingCodec :: xmlcodec where
  "growingCodec = knowing [baseImage, resized baseImage 2147483648] []"

lemma Volume_Reconcile_grows_witness:
  "\<exists>s'. Volume_Reconcile (sandboxEnv sandboxFixtures growingCodec) (named largerVolume) (sandboxState growingCodec growingSandbox) =
      (Returns (emptyResult, None), s') \<and>
    (\<exists>m. knownVolumes (sb_fake (w_ext s')) ''default'' = Some m \<and> m ''base0'' = Some (resized baseImage 2147483648))"
proof -
  let ?env = "sandboxEnv sandboxFixtures growingCodec" and ?s = "sandboxState growingCodec growingSandbox"
  let ?V = "sandboxSees (w_ext ?s)"
  have name: "Pool_ResourceName examplePool = ''default''" "Volume_ResourceName largerVolume = ''base0''"
    by (simp_all add: Pool_ResourceName_def examplePool_def Volume_ResourceName_def largerVolume_def baseVolume_def)
  have "\<exists>s'. Volume_Reconcile ?env (named largerVolume) ?s = (Returns (emptyResult, None), s') \<and>
      sandboxSees (w_ext s') = ?V\<lparr>v_vols := (v_vols ?V)(Pool_ResourceName examplePool \<mapsto>
        sandboxVolumes(Volume_ResourceName largerVolume \<mapsto> resized baseImage 2147483648))\<rparr> \<and>
      (\<exists>s''. Volume_Reconcile ?env (named largerVolume) s' = (Returns (emptyResult, None), s'') \<and>
        sandboxSees (w_ext s'') = sandboxSees (w_ext s'))"
  proof (rule Volume_Reconcile_grows [OF sandbox_cooperates])
    show "reachable sandboxSees ?env (hs_entries ?s) ?V largerVolume examplePool sandboxVolumes"
      unfolding reachable_def
      by (intro conjI) (auto simp: largerVolume_def growingSandbox_def sandbox_defs example_isTrue findCondition_def)
    show "sandboxVolumes (Volume_ResourceName largerVolume) = Some baseImage" by (simp add: name sandboxVolumes_def)
    show "describable (e_xml ?env) baseImage" "describable (e_xml ?env) (resized baseImage 2147483648)"
      by (simp_all add: growingCodec_def knowing_describable)
    show "tooSmall (e_cast ?env) largerVolume baseImage 2147483648"
      by (simp add: tooSmall_def largerVolume_def baseImage_def safecast_clamping_def clamp_def ConvertToBytes_def unitConversion_def)
    show "unused ?env ?V largerVolume"
      by (simp add: unused_def apimachinery_ref_def carries_def label_of_def largerVolume_def growingSandbox_def sandbox_defs)
  qed (simp_all add: largerVolume_def sandbox_defs example_isTrue findCondition_def)
  then obtain s' where r: "Volume_Reconcile ?env (named largerVolume) ?s = (Returns (emptyResult, None), s')"
    and s': "sandboxSees (w_ext s') = ?V\<lparr>v_vols := (v_vols ?V)(Pool_ResourceName examplePool \<mapsto>
        sandboxVolumes(Volume_ResourceName largerVolume \<mapsto> resized baseImage 2147483648))\<rparr>" by blast
  have "knownVolumes (sb_fake (w_ext s')) ''default'' = Some (sandboxVolumes(''base0'' \<mapsto> resized baseImage 2147483648))"
    using arg_cong [OF s', of v_vols] by (simp add: sandboxView_select name)
  with r show ?thesis by auto
qed

section \<open>The properties of filled volumes at work\<close>

lemma exampleOS_works: "filesWork view exampleOS" "isoWorks view exampleIso"
  by (auto simp: filesWork_def isoWorks_def works_def supplies_def exampleOS_def exampleIso_def ret_def)

lemma sandboxEnv_libraries [simp]: "e_OS (sandboxEnv fx x) = exampleOS" "e_iso (sandboxEnv fx x) = exampleIso"
  by (simp_all add: sandboxEnv_def exampleEnv_def)

definition newImage :: CloudInit where
  "newImage = exampleCloudInit\<lparr>Meta := (exampleMeta ''ci'')\<lparr>om_Finalizers := []\<rparr>, Spec := (Spec exampleCloudInit)\<lparr>xr_Name := ''ci1''\<rparr>,
     Status := \<lparr>Conditions = [], cist_Pool = '''', cist_Host = ''''\<rparr>\<rparr>"

definition goneImage :: CloudInit where
  "goneImage = deleted exampleCloudInit"

definition imageSandbox :: "CloudInit \<Rightarrow> sandbox" where
  "imageSandbox c = \<lparr>sb_volumes = [], sb_cloudInits = [(atNs ''ci'', c)], sb_domains = [], sb_fake = sandboxFake\<rparr>"

definition imageCodec :: xmlcodec where
  "imageCodec = knowing [seedImage, wantedImage safecast_clamping newImage 0] []"

lemma imageSandbox_reachable:
  assumes "c = newImage \<or> c = goneImage"
  shows "imageReachable sandboxSees (sandboxEnv sandboxFixtures x) (hs_entries (sandboxState x (imageSandbox c)))
    (sandboxSees (imageSandbox c)) c examplePool sandboxVolumes"
  using assms unfolding imageReachable_def
  by (intro conjI) (auto simp: newImage_def goneImage_def imageSandbox_def CloudInit_PoolRef_def sandbox_defs example_isTrue findCondition_def)


lemma CloudInit_Reconcile_deletes_witness:
  "\<exists>s'. CloudInit_Reconcile (sandboxEnv sandboxFixtures imageCodec) (named goneImage) (sandboxState imageCodec (imageSandbox goneImage)) =
      (Returns (emptyResult, None), s') \<and> map_of (sb_cloudInits (w_ext s')) = Map.empty \<and>
    (\<exists>m. knownVolumes (sb_fake (w_ext s')) ''default'' = Some m \<and> m ''ci0'' = None)"
proof -
  let ?env = "sandboxEnv sandboxFixtures imageCodec" and ?s = "sandboxState imageCodec (imageSandbox goneImage)"
  let ?V = "sandboxSees (w_ext ?s)"
  have name: "Pool_ResourceName examplePool = ''default''" "CloudInit_ResourceName goneImage = ''ci0''" "named goneImage = atNs ''ci''"
    by (simp_all add: Pool_ResourceName_def examplePool_def CloudInit_ResourceName_def goneImage_def deleted_def exampleCloudInit_def
        named_def exampleMeta_def)
  have "\<exists>s'. CloudInit_Reconcile ?env (named goneImage) ?s = (Returns (emptyResult, None), s') \<and>
      sandboxSees (w_ext s') = ?V\<lparr>
        v_vols := (v_vols ?V)(Pool_ResourceName examplePool \<mapsto> sandboxVolumes(CloudInit_ResourceName goneImage := None)),
        v_CloudInits := (v_CloudInits ?V)(named goneImage := None)\<rparr>"
  proof (rule CloudInit_Reconcile_deletes [OF sandbox_cooperates])
    show "imageReachable sandboxSees ?env (hs_entries ?s) ?V goneImage examplePool sandboxVolumes"
      using imageSandbox_reachable [of goneImage imageCodec] by simp
    show "unusedImage ?env ?V goneImage"
      by (simp add: unusedImage_def apimachinery_ref_def sandboxView_select imageSandbox_def)
    show "describable (e_xml ?env) v" if "sandboxVolumes (CloudInit_ResourceName goneImage) = Some v" for v
      using that by (auto simp: name sandboxVolumes_def imageCodec_def knowing_describable)
  qed (simp_all add: goneImage_def deleted_def exampleCloudInit_def exampleMeta_def)
  then obtain s' where "CloudInit_Reconcile ?env (named goneImage) ?s = (Returns (emptyResult, None), s')"
    and s': "sandboxSees (w_ext s') = ?V\<lparr>
        v_vols := (v_vols ?V)(Pool_ResourceName examplePool \<mapsto> sandboxVolumes(CloudInit_ResourceName goneImage := None)),
        v_CloudInits := (v_CloudInits ?V)(named goneImage := None)\<rparr>" by blast
  moreover have "knownVolumes (sb_fake (w_ext s')) ''default'' = Some (sandboxVolumes(''ci0'' := None))"
    "map_of (sb_cloudInits (w_ext s')) = Map.empty"
    using arg_cong [OF s', of v_vols] arg_cong [OF s', of v_CloudInits]
    by (simp_all add: sandboxView_select imageSandbox_def name fun_eq_iff)
  ultimately show ?thesis by auto
qed

text \<open>A volume with a URL and a checksum, of the empty document that the example server sends.\<close>

definition fetchedVolume :: Volume where
  "fetchedVolume = newVolume\<lparr>Spec := (Spec newVolume)\<lparr>vsp_BackingStoreRef := None,
     vsp_Source := Some \<lparr>vsrc_URL = ''http://images/vol0'', vsrc_Checksum = Some ''SHA256:''\<rparr>\<rparr>\<rparr>"

definition fetchedCodec :: xmlcodec where
  "fetchedCodec = knowing [wantedVolume safecast_clamping fetchedVolume None] []"


section \<open>The properties of domains at work\<close>

definition newParts :: parts where
  "newParts = \<lparr>p_disks = map (\<lambda>d. (d, topVolume, topImage, Some baseBelow)) (ds_Disks (Spec newDomain)),
     p_interfaces = map (\<lambda>i. (i, exampleNetwork)) (ds_Interfaces (Spec newDomain)),
     p_pcis = map (\<lambda>p. (p, passedDevice, \<lparr>pa_Domain = 0, pa_Bus = 3, pa_Slot = 0, pa_Function = 1\<rparr>)) (ds_PCIPassthrough (Spec newDomain)),
     p_cloudInit = Some (exampleCloudInit, seedImage, None)\<rparr>"

abbreviation definedDomain :: DomainXML where
  "definedDomain \<equiv> wantedDomain safecast_clamping newDomain newParts"

definition domainCodec :: xmlcodec where
  "domainCodec = knowing [baseImage, seedImage, topImage] [definedDomain]"

lemma domainCodec_describable:
  "describable domainCodec baseImage" "describable domainCodec seedImage" "describable domainCodec topImage" "describableDomain domainCodec definedDomain"
  by (simp_all add: domainCodec_def knowing_describable)

text \<open>A domain object that was created and is ready, whose spec now asks for the domain to be shut off; and one that is being deleted.\<close>

definition readyMeta :: "Domain \<Rightarrow> Domain" where
  "readyMeta d = d\<lparr>Meta := exampleMeta ''dom'', Status := \<lparr>Conditions = exampleReady\<rparr>\<rparr>"

definition stoppedDomain :: Domain where
  "stoppedDomain = readyMeta (newDomain\<lparr>Spec := (Spec newDomain)\<lparr>ds_Shutoff := Some True\<rparr>\<rparr>)"

definition goneDomain :: Domain where
  "goneDomain = deleted (readyMeta newDomain)"

definition domainSandbox :: "Domain \<Rightarrow> Fake \<Rightarrow> sandbox" where
  "domainSandbox d f = \<lparr>sb_volumes = [(atNs ''base'', baseVolume), (atNs ''top'', topVolume)],
     sb_cloudInits = [(atNs ''ci'', exampleCloudInit)], sb_domains = [(atNs ''dom'', d)], sb_fake = f\<rparr>"

definition runningFake :: Fake where
  "runningFake = WithDomain definedDomain DomainRunning sandboxFake"

lemma runningFake_simps: "\<not> f_disconnected runningFake" "fakeDomains runningFake = [''dom0'' \<mapsto> (DomainRunning, definedDomain)]"
    "fakeDomains sandboxFake = Map.empty"
  by (simp_all add: runningFake_def WithDomain_def sandboxFake_def WithPool_def fakeNew_def fakeDomains_def wantedDomain_def
      Let_def Domain_ResourceName_def newDomain_def fun_eq_iff)

lemma domainSandbox_hosted:
  assumes "d = newDomain \<or> d = stoppedDomain \<or> d = goneDomain" and "\<not> f_disconnected f"
  shows "hosted sandboxSees (sandboxEnv sandboxFixtures x) (hs_entries (sandboxState x (domainSandbox d f)))
    (sandboxSees (domainSandbox d f)) d"
  using assms unfolding hosted_def
  by (intro conjI) (auto simp: sandbox_defs domainSandbox_def stoppedDomain_def goneDomain_def readyMeta_def)

lemma base_legible: "legible domainCodec (sandboxSees (domainSandbox d sandboxFake)) [''/base0'' \<mapsto> baseImage]"
proof -
  have held: "knownVolumes sandboxFake = [''default'' \<mapsto> sandboxVolumes]"
    by (simp add: knownVolumes_def wellNamed_def fakeVolumes_def sandboxFake_def WithPool_def fakeNew_def sandboxVolumes_def
        baseImage_def seedImage_def topImage_def emptyStorageVolume_def fun_eq_iff)
  have keys: "sv_Key baseImage = ''/base0''" "sv_Key seedImage = ''/ci0''" "sv_Key topImage = ''/top0''"
    by (simp_all add: baseImage_def seedImage_def topImage_def)
  have "ran sandboxVolumes = {topImage, seedImage, baseImage}"
    unfolding sandboxVolumes_def by (simp add: insert_commute)
  moreover have "heldAs [''default'' \<mapsto> sandboxVolumes] key v \<longleftrightarrow> v \<in> ran sandboxVolumes \<and> sv_Key v = key" for key v
    by (auto simp: heldAs_def ran_def split: if_splits)
  ultimately have "heldAs (knownVolumes sandboxFake) ''/base0'' v \<longleftrightarrow> v = baseImage" for v
    using keys by (auto simp: held)
  then show ?thesis
    by (simp add: legible_def domainCodec_describable sandboxView_select domainSandbox_def)
qed

lemma base_chain: "chainOf [''/base0'' \<mapsto> baseImage] ''/base0'' baseBelow 1"
  unfolding baseBelow_def
  by (rule chain_bottom [where desc = baseImage])
    (simp_all add: baseImage_def emptyStorageVolume_def imageOf_def setDomainDiskSource_def)

lemma images_ready:
  "imageReady (Suc n) (sandboxEnv fx domainCodec) (sandboxSees (domainSandbox d sandboxFake)) ''default'' ''top0'' (topImage, Some baseBelow)"
  "imageReady (Suc n) (sandboxEnv fx domainCodec) (sandboxSees (domainSandbox d sandboxFake)) ''default'' ''ci0'' (seedImage, None)"
proof -
  have top: "sv_BackingStore topImage = Some \<lparr>svb_Path = ''/base0'', svb_Format = Some \<lparr>svtf_Type = ''qcow2''\<rparr>\<rparr>"
    "imageOf topImage \<noteq> None" "imageOf seedImage \<noteq> None" "sv_BackingStore seedImage = None"
    by (simp_all add: topImage_def seedImage_def emptyStorageVolume_def imageOf_def setDomainDiskSource_def)
  have "stacked (Suc n) domainCodec (sandboxSees (domainSandbox d sandboxFake)) (topImage, Some baseBelow)"
    unfolding stacked_def fst_conv top(1) option.case
    by (intro exI [of _ "[''/base0'' \<mapsto> baseImage]"] exI [of _ baseBelow] exI [of _ 1] conjI base_legible)
      (simp_all add: base_chain [unfolded One_nat_def])
  then show "imageReady (Suc n) (sandboxEnv fx domainCodec) (sandboxSees (domainSandbox d sandboxFake)) ''default'' ''top0''
      (topImage, Some baseBelow)"
    using top(2) by (simp add: imageReady_def domainCodec_describable sandboxView_select domainSandbox_def sandboxVolumes_held sandboxVolumes_def)
  show "imageReady (Suc n) (sandboxEnv fx domainCodec) (sandboxSees (domainSandbox d sandboxFake)) ''default'' ''ci0'' (seedImage, None)"
    using top(3,4)
    by (simp add: imageReady_def stacked_def domainCodec_describable sandboxView_select domainSandbox_def sandboxVolumes_held sandboxVolumes_def)
qed

lemma parts_ready: "partsReady 1 (sandboxEnv sandboxFixtures domainCodec) (sandboxSees (domainSandbox newDomain sandboxFake)) newDomain newParts"
proof -
  let ?env = "sandboxEnv sandboxFixtures domainCodec" and ?V = "sandboxSees (domainSandbox newDomain sandboxFake)"
  have ready: "Status topVolume = \<lparr>Conditions = exampleReady, vst_Pool = ''default'', vst_Host = ''host''\<rparr>"
    "Status exampleCloudInit = \<lparr>Conditions = exampleReady, cist_Pool = ''default'', cist_Host = ''host''\<rparr>"
    "Volume_ResourceName topVolume = ''top0''" "CloudInit_ResourceName exampleCloudInit = ''ci0''"
    by (simp_all add: topVolume_def baseVolume_def exampleCloudInit_def Volume_ResourceName_def CloudInit_ResourceName_def)
  note images = images_ready [of 0, unfolded One_nat_def [symmetric]]
  have disk: "diskReady 1 ?env ?V newDomain (d, topVolume, topImage, Some baseBelow)" if "d \<in> set (ds_Disks (Spec newDomain))" for d
    unfolding diskReady_def prod.case
    using that by (simp only: ready VolumeStatus.simps images(1) simp_thms)
      (simp add: sandbox_defs domainSandbox_def example_isTrue findCondition_def)
  have seed: "cloudInitReady 1 ?env ?V newDomain (Some (exampleCloudInit, seedImage, None))"
    unfolding cloudInitReady.simps
    by (simp only: ready CloudInitStatus.simps images(2) simp_thms)
      (simp add: sandbox_defs domainSandbox_def example_isTrue findCondition_def)
  have others: "interfaceReady ?env ?V newDomain (i, exampleNetwork)" if "i \<in> set (ds_Interfaces (Spec newDomain))" for i
    using that by (simp add: interfaceReady_def sandbox_defs domainSandbox_def example_isTrue findCondition_def)
  have devices: "pciReady ?env ?V newDomain (p, passedDevice, \<lparr>pa_Domain = 0, pa_Bus = 3, pa_Slot = 0, pa_Function = 1\<rparr>)"
    if "p \<in> set (ds_PCIPassthrough (Spec newDomain))" for p
    using that by (simp add: pciReady_def sandbox_defs domainSandbox_def example_isTrue findCondition_def)
  show ?thesis
    by (simp add: partsReady_def newParts_def list_all_iff disk seed others devices comp_def del: cloudInitReady.simps One_nat_def)
qed

lemma Domain_Reconcile_converges_witness:
  "\<exists>s' d. Domain_Reconcile 1 (sandboxEnv sandboxFixtures domainCodec) (named newDomain)
        (sandboxState domainCodec (domainSandbox newDomain sandboxFake)) = (Returns (emptyResult, None), s') \<and>
    readyDomain (sandboxEnv sandboxFixtures domainCodec) newDomain newParts d \<and>
    fakeDomains (sb_fake (w_ext s')) = [''dom0'' \<mapsto> (DomainRunning, definedDomain)]"
proof -
  let ?env = "sandboxEnv sandboxFixtures domainCodec" and ?s = "sandboxState domainCodec (domainSandbox newDomain sandboxFake)"
  let ?V = "sandboxSees (w_ext ?s)"
  have name: "Domain_ResourceName newDomain = ''dom0''" "wantedState newDomain = DomainRunning"
    by (simp_all add: Domain_ResourceName_def wantedState_def newDomain_def)
  have "\<exists>s' d. Domain_Reconcile 1 ?env (named newDomain) ?s = (Returns (emptyResult, None), s') \<and> readyDomain ?env newDomain newParts d \<and>
      sandboxSees (w_ext s') = ?V\<lparr>v_doms := (v_doms ?V)(Domain_ResourceName newDomain \<mapsto>
        (wantedState newDomain, wantedDomain (e_cast ?env) newDomain newParts)),
        v_Domains := (v_Domains ?V)(named newDomain \<mapsto> d)\<rparr> \<and>
      (\<exists>s''. Domain_Reconcile 1 ?env (named newDomain) s' = (Returns (emptyResult, None), s'') \<and>
        sandboxSees (w_ext s'') = sandboxSees (w_ext s'))"
  proof (rule Domain_Reconcile_converges [OF sandbox_cooperates])
    show "hosted sandboxSees ?env (hs_entries ?s) ?V newDomain"
      using domainSandbox_hosted [of newDomain sandboxFake domainCodec] by (simp add: sandboxFake_up)
    show "partsReady 1 ?env ?V newDomain newParts" unfolding sandboxState_select by (rule parts_ready)
    show "describableDomain (e_xml ?env) (wantedDomain (e_cast ?env) newDomain newParts)" by (simp add: domainCodec_describable)
    show "v_doms ?V (Domain_ResourceName newDomain) = None" by (simp add: sandboxView_select domainSandbox_def runningFake_simps)
  qed (simp_all add: sandbox_defs example_isTrue findCondition_def)
  then obtain s' d where "Domain_Reconcile 1 ?env (named newDomain) ?s = (Returns (emptyResult, None), s')"
    "readyDomain ?env newDomain newParts d" and s': "sandboxSees (w_ext s') = ?V\<lparr>v_doms := (v_doms ?V)(Domain_ResourceName newDomain \<mapsto>
        (wantedState newDomain, wantedDomain (e_cast ?env) newDomain newParts)), v_Domains := (v_Domains ?V)(named newDomain \<mapsto> d)\<rparr>"
    by blast
  moreover have "fakeDomains (sb_fake (w_ext s')) = [''dom0'' \<mapsto> (DomainRunning, definedDomain)]"
    using arg_cong [OF s', of v_doms] by (simp add: sandboxView_select domainSandbox_def runningFake_simps name)
  ultimately show ?thesis by blast
qed



end
