(* ===== verification/Spec2Isabelle.thy ===== *)
theory Spec2Isabelle
  imports DomainDisks DomainShutdown HostContract Reconcilers Credentials VolumeGrowth VolumeReadiness Webhook Version
    Divergences Operator DeepCopies Sandbox
begin

text \<open>
  A model of the libvirt operator: a Kubernetes operator, written in Go on controller-runtime, that manages the storage
  volumes, the domains and the cloud-init images of libvirt hosts as custom resources. The paths below are under
  \<^verbatim>\<open>src/\<close>.

  \<^bold>\<open>The program and the theories.\<close>

  \<^item> \<^verbatim>\<open>api/v1alpha1\<close>: the kinds of objects. Theories \<open>Api\<close> (specs, statuses, references, names, labels, the
    validation rules on specs) and \<open>CloudInitTypes\<close>. A Go struct is a record with its fields in their order; a
    pointer is an option; every kind is an \<open>Object\<close> with \<open>Meta\<close>, \<open>Spec\<close> and \<open>Status\<close>. The generated deep copies
    (\<^verbatim>\<open>zz_generated.deepcopy.go\<close>) are about memory, so they have a model with pointers: theory \<open>GoHeap\<close> (a heap,
    values and their types, the kinds of statements the generator writes), and theories \<open>CloudInitCopies\<close> and
    \<open>DeepCopies\<close> with every \<open>T_DeepCopyInto\<close>, \<open>T_DeepCopy\<close> and \<open>T_DeepCopyObject\<close>, next to the shape \<open>T_type\<close> of
    the Go type.
  \<^item> \<^verbatim>\<open>internal/util\<close>: theory \<open>Util\<close>. Sizes are 64-bit words and their conversion wraps as in Go.
  \<^item> \<^verbatim>\<open>internal/host\<close>: theories \<open>HostClient\<close> (the interface of a libvirt connection, a record of programs) and
    \<open>Fake\<close> (the fake daemon of the package \<^verbatim>\<open>fake\<close> with all its methods). \<open>LibvirtXML\<close> has the part of the
    descriptions that the operator reads and writes.
  \<^item> \<^verbatim>\<open>internal/store\<close>: theory \<open>AuthStore\<close> (the credentials, over a file system in which every system call may
    fail), theories \<open>HostStore\<close> and \<open>HostMonitor\<close> (the connections: operations of the store, and the goroutine of
    an entry as a step relation). The contract they share is the locale \<open>registry\<close> of theory \<open>Registry\<close>.
  \<^item> \<^verbatim>\<open>internal/probe\<close> and \<^verbatim>\<open>internal/action\<close>: theories \<open>Probe\<close>, \<open>VolumeAction\<close>, \<open>DomainAction\<close>. An action is the
    record of the fields of its Go struct; a method that changes its receiver returns it.
  \<^item> \<^verbatim>\<open>internal/controller\<close>: theory \<open>Cluster\<close> (the state of the operator, the API server as a client per kind, what
    the controllers share), and one theory per controller: \<open>AuthController\<close>, \<open>HostController\<close>,
    \<open>ProbeControllers\<close> (pools, networks, PCI devices), \<open>VolumeController\<close>, \<open>CloudInitController\<close>,
    \<open>DomainController\<close>. \<open>X_Reconcile\<close> is the method \<open>Reconcile\<close> of \<open>XReconciler\<close>, composed of one definition per
    block of the Go function.
  \<^item> \<^verbatim>\<open>internal/webhook\<close>: theory \<open>Webhook\<close>. \<^verbatim>\<open>internal/version\<close>: theory \<open>Version\<close>.
  \<^item> \<^verbatim>\<open>internal/cmd\<close>: theory \<open>Operator\<close> (the start of the operator, a sequence of library calls each of which may end
    the process; \<open>runOperator_in_order\<close>).

  \<^bold>\<open>Programs.\<close> A program (\<open>('s, 'a) prog\<close>, theory \<open>Prelude\<close>) maps a state to an outcome and a state. It returns,
  panics (a nil pointer that is dereferenced) or hangs (a send that nobody receives). \<open>error + 'a\<close> is the result of a
  Go function with an error, \<open>error option\<close> that of one that returns only an error; \<open>attempt\<close> and \<open>guarded\<close> are
  \<^verbatim>\<open>if err != nil\<close> and \<open>deferred\<close> is \<^verbatim>\<open>defer\<close>. The world outside, \<open>w_ext\<close> of the record \<open>World\<close>, has any type: every
  call on it (API server, daemon, operating system, clock) may answer anything, change it, panic or not return.
  Nothing is assumed to stay as it is between two calls, so other clients and other replicas are included. Each call
  is put on the log \<open>w_log\<close> with its answer, and the theorems about reconciliations speak of that log.

  \<^bold>\<open>What is shown.\<close>

  \<^item> Order of effects (\<open>World\<close>, \<open>Effects\<close>, \<open>Ordering\<close>, then \<open>VolumeController\<close>, \<open>CloudInitController\<close>,
    \<open>DomainSafety\<close>, \<open>DomainCreation\<close>, \<open>VolumeCreation\<close>, \<open>VolumeReadiness\<close>, \<open>VolumeGrowth\<close>, \<open>AuthController\<close>, \<open>HostController\<close>,
    \<open>ProbeControllers\<close>): what a reconciliation must have seen before it deletes, undefines, creates, defines, uploads,
    starts, shuts down, resizes, drops a finalizer or reports a volume ready. \<open>traces\<close> and \<open>heeds\<close> follow a program
    call by call; \<open>acts\<close> says which events it may add. Where a property speaks of the spec after an update of labels or
    finalizers, its hypothesis is that the API server answers such an update with the spec (\<open>keepsSpecs\<close>) or with the
    spec and the status (\<open>keepsObjects\<close>) that it was given.
  \<^item> Progress (\<open>Progress\<close>, \<open>VolumeProgress\<close>, \<open>UploadProgress\<close>, \<open>DomainProgress\<close>): what a reconciliation of a volume, a
    cloud-init image or a domain achieves where the outside cooperates, as total correctness (\<open>ensures\<close>) over a view
    of the API server and the daemon: what the spec describes (\<open>wantedVolume\<close>, \<open>wantedImage\<close>, \<open>wantedDomain\<close>) is
    there after one reconciliation and a second one changes nothing; a volume that is too small is grown; a volume
    with a URL is downloaded, verified and filled; the domain is in the state that the spec asks for; what is deleted
    and unused is gone, with its object. The hypotheses are \<open>cooperates\<close> (the API server stores what it is sent, without conflicts) and
    \<open>obeys\<close> (the daemon satisfies \<open>libvirt_host\<close>, \<open>keyed_volume_host\<close> and \<open>uploading_volume_host\<close>, and a call changes
    nothing else); for downloads and images also that the file system, the server and the ISO library work. \<open>Sandbox\<close>
    has an outside that satisfies all of them: the fake daemon next to an API server in lists. A daemon is not asked
    for the content of a volume, so the view has none; the growth of a volume that a running domain uses
    (\<open>LiveResize\<close>) is covered by \<open>Volume_resize_safe\<close> only.
  \<^item> Stores (\<open>AuthStore\<close>, \<open>HostStore\<close>, \<open>HostMonitor\<close>, \<open>Reconcilers\<close>): new credentials replace the old ones at
    once or not at all, whatever system call fails; no session of a reconciliation stays open; registering and
    deregistering return; a client is not disconnected under a session, with the race that the code leaves open.
  \<^item> Composition (\<open>Credentials\<close>): the files that one controller writes are those the dialer of another reads.
  \<^item> Actions (\<open>VolumeAction\<close>, \<open>DomainDisks\<close>, \<open>DomainShutdown\<close>, \<open>Util\<close>): sizes, checksums, device names, backing
    chains, and the bounded wait for a domain to shut off.
  \<^item> A daemon that satisfies the contract (\<open>HostContract\<close>, \<open>HostKeys\<close>): the locales \<open>domain_host\<close>, \<open>volume_host\<close>,
    \<open>libvirt_host\<close>, \<open>keyed_volume_host\<close> and \<open>uploading_volume_host\<close> say what the actions promise on a well-behaved daemon; the fake of the
    repository satisfies them.
  \<^item> Deep copies (\<open>GoHeap\<close>, \<open>CloudInitCopies\<close>, \<open>DeepCopies\<close>): the copy of an object reads as the object and shares no
    memory with it. This is what lets the controllers be modelled on values: an object that the cache of
    controller-runtime hands out is such a copy, so what a controller does to it nobody else sees.
  \<^item> Webhooks (\<open>Webhook\<close>): names are unique in their scope among the objects of a kind.
  \<^item> Behaviour that differs from what comments, rules or callers expect (\<open>Divergences\<close>).

  \<^bold>\<open>Parameters.\<close> The record \<open>env\<close> (theory \<open>Cluster\<close>) has what the program takes from elsewhere: the API server per
  kind, the functions of apimachinery on conditions, finalizers and label requirements (their laws are
  \<open>apimachinery_ok\<close>, satisfied by \<open>apimachinery_ref\<close>), the XML, YAML and ISO libraries, safecast, the operating system
  with HTTP and the digests, the constructor of clients and of UUIDs, the clock. The witnesses instantiate all of them
  (theories \<open>Example\<close> and \<open>Sandbox\<close>, and the fake daemon in \<open>HostContract\<close>). The deep copies of the types of package \<^verbatim>\<open>metav1\<close> are in
  the record \<open>metav1\<close> of theory \<open>DeepCopies\<close>.

  \<^bold>\<open>Bounds.\<close> The walk over the backing stores of a disk is the only loop of the program whose end depends on a
  daemon. \<open>backingChain\<close> has fuel and hangs without it; \<open>backingChain_complete\<close> shows that as much fuel as the chain has
  images is enough, and \<open>chainOf\<close> has no reading of a chain that goes round in a circle, where the program does not end
  either. The theorems on the order of effects hold for any fuel. The wait for a domain to shut off is bounded by the
  program itself (30 retries). The search for a device name ends by a measure (\<open>nextTargetDev\<close>). \<open>os.MkdirTemp\<close> tries
  10000 names, as in the standard library.

  \<^bold>\<open>Not modelled.\<close> The parsing of the command line (\<^verbatim>\<open>cmd/operator\<close>) and the registration of types and
  handlers with controller-runtime are calls of libraries; log output has no effect; the sleeps
  of \<open>Shutdown\<close> and of the monitor are steps without effect. The reconciler of controller-runtime runs each object's
  reconciliations one after the other, and those of different objects at the same time: the log of a run shows what
  that run did, and the arbitrary world covers what others do to hosts and the API server; the operator's own stores
  are changed by one run at a time, which is what their mutexes give, and the goroutines of \<open>HostMonitor\<close> interleave with
  sessions there. The markers on single fields of the specs, and the transition rules on updates, are not modelled;
  the rules on whole specs that the controllers rely on are.
\<close>

end
